(* ===== verification/Prelude.thy ===== *)
theory Prelude
  imports Main "HOL-Library.Word" "HOL-Library.Multiset"
begin

text \<open>
  Shared vocabulary of the development: fallible stateful actions (a Rust method
  \<open>fn f(&mut self) -> Result<T, E>\<close>), which keep the state they reached also when they fail,
  machine integers with their wrap-around and saturation written out, and the generic lemmas
  the component theories use. Nothing here is specific to the virtual machine.
\<close>

section \<open>Fallible stateful actions\<close>

text \<open>
  An action maps a state to a result and the state it leaves behind. The Rust code mutates
  through \<open>&mut\<close>, so a method that returns \<open>Err\<close> has still performed the mutations made before
  the error; the state component of a failed action records exactly those.
\<close>

type_synonym ('s, 'e, 'a) act = "'s \<Rightarrow> ('e + 'a) \<times> 's"

named_theorems act_defs \<open>definitions of the action combinators\<close>
named_theorems act_step \<open>one-step evaluation rules of actions\<close>

definition ret :: "'a \<Rightarrow> ('s, 'e, 'a) act" where
  [act_defs]: "ret x s = (Inr x, s)"

definition fail :: "'e \<Rightarrow> ('s, 'e, 'a) act" where
  [act_defs]: "fail e s = (Inl e, s)"

definition bnd :: "('s, 'e, 'a) act \<Rightarrow> ('a \<Rightarrow> ('s, 'e, 'b) act) \<Rightarrow> ('s, 'e, 'b) act" where
  [act_defs]: "bnd m f s = (case m s of (Inl e, t) \<Rightarrow> (Inl e, t) | (Inr x, t) \<Rightarrow> f x t)"

definition thn :: "('s, 'e, 'a) act \<Rightarrow> ('s, 'e, 'b) act \<Rightarrow> ('s, 'e, 'b) act" where
  [act_defs]: "thn m n = bnd m (\<lambda>_. n)"

definition gets :: "('s \<Rightarrow> 'a) \<Rightarrow> ('s, 'e, 'a) act" where
  [act_defs]: "gets f s = (Inr (f s), s)"

definition modify :: "('s \<Rightarrow> 's) \<Rightarrow> ('s, 'e, unit) act" where
  [act_defs]: "modify f s = (Inr (), f s)"

definition ensure :: "bool \<Rightarrow> 'e \<Rightarrow> ('s, 'e, unit) act" where
  [act_defs]: "ensure b e = (if b then ret () else fail e)"

text \<open>Runs an action on a component of the state, embedding its errors.\<close>

definition zoom :: "('s \<Rightarrow> 't) \<Rightarrow> ('t \<Rightarrow> 's \<Rightarrow> 's) \<Rightarrow> ('e \<Rightarrow> 'f)
    \<Rightarrow> ('t, 'e, 'a) act \<Rightarrow> ('s, 'f, 'a) act" where
  [act_defs]: "zoom get put emb m s = (case m (get s) of (r, t) \<Rightarrow> (map_sum emb id r, put t s))"

definition lift_res :: "('e \<Rightarrow> 'f) \<Rightarrow> 'e + 'a \<Rightarrow> ('s, 'f, 'a) act" where
  [act_defs]: "lift_res emb r = (case r of Inl e \<Rightarrow> fail (emb e) | Inr x \<Rightarrow> ret x)"

definition run_while_list :: "('x \<Rightarrow> ('s, 'e, unit) act) \<Rightarrow> 'x list \<Rightarrow> ('s, 'e, unit) act" where
  "run_while_list f xs = foldr (\<lambda>x k. thn (f x) k) xs (ret ())"

lemma run_while_list_simps [simp]:
  "run_while_list f [] = ret ()"
  "run_while_list f (x # xs) = thn (f x) (run_while_list f xs)"
  by (simp_all add: run_while_list_def)

lemma ret_apply [simp]: "ret x s = (Inr x, s)"
  by (simp add: ret_def)

lemma fail_apply [simp]: "fail e s = (Inl e, s)"
  by (simp add: fail_def)

lemma bnd_Inl [simp]: "m s = (Inl e, t) \<Longrightarrow> bnd m f s = (Inl e, t)"
  by (simp add: bnd_def)

lemma bnd_Inr [simp]: "m s = (Inr x, t) \<Longrightarrow> bnd m f s = f x t"
  by (simp add: bnd_def)

lemma thn_Inl [simp]: "m s = (Inl e, t) \<Longrightarrow> thn m n s = (Inl e, t)"
  by (simp add: thn_def)

lemma thn_Inr [simp]: "m s = (Inr x, t) \<Longrightarrow> thn m n s = n t"
  by (simp add: thn_def)

lemma gets_apply [simp]: "gets f s = (Inr (f s), s)"
  by (simp add: gets_def)

lemma modify_apply [simp]: "modify f s = (Inr (), f s)"
  by (simp add: modify_def)

lemma ensure_simps [simp]: "ensure True e = ret ()" "ensure False e = fail e"
  by (simp_all add: ensure_def)

lemma lift_res_simps [simp]:
  "lift_res emb (Inl e) = fail (emb e)" "lift_res emb (Inr x) = ret x"
  by (simp_all add: lift_res_def)

lemma map_sum_iff [simp]:
  "map_sum f id r = Inr x \<longleftrightarrow> r = Inr x"
  "map_sum f id r = Inl e \<longleftrightarrow> (\<exists>e'. r = Inl e' \<and> e = f e')"
  by (cases r; auto)+

lemma bnd_eq_Inr_iff:
  "bnd m f s = (Inr y, u) \<longleftrightarrow> (\<exists>x t. m s = (Inr x, t) \<and> f x t = (Inr y, u))"
  by (auto simp: bnd_def split: prod.splits sum.splits)

lemma thn_eq_Inr_iff:
  "thn m n s = (Inr y, u) \<longleftrightarrow> (\<exists>x t. m s = (Inr x, t) \<and> n t = (Inr y, u))"
  by (simp add: thn_def bnd_eq_Inr_iff)

lemma bnd_assoc: "bnd (bnd m f) g = bnd m (\<lambda>x. bnd (f x) g)"
  by (rule ext) (auto simp: bnd_def split: prod.splits sum.splits)

lemma bnd_ret_left [simp]: "bnd (ret x) f = f x"
  by (rule ext) (simp add: bnd_def)

lemma bnd_ret_right [simp]: "bnd m ret = m"
  by (rule ext) (auto simp: bnd_def ret_def split: prod.splits sum.splits)

section \<open>Triples and invariants of actions\<close>

text \<open>
  \<open>hoare P m Q E\<close>: a total-correctness triple with a postcondition for success and one for
  failure. \<open>upholds I E m\<close>: the action keeps each member of the family of invariants \<open>I\<close>, and a
  failure of it leaves a state that \<open>E\<close> accepts.
\<close>

definition hoare :: "('s \<Rightarrow> bool) \<Rightarrow> ('s, 'e, 'a) act \<Rightarrow> ('a \<Rightarrow> 's \<Rightarrow> bool)
    \<Rightarrow> ('e \<Rightarrow> 's \<Rightarrow> bool) \<Rightarrow> bool" where
  "hoare P m Q E \<longleftrightarrow> (\<forall>s. P s \<longrightarrow> (case m s of (Inl e, t) \<Rightarrow> E e t | (Inr x, t) \<Rightarrow> Q x t))"

definition upholds :: "('i \<Rightarrow> 's \<Rightarrow> bool) \<Rightarrow> ('i \<Rightarrow> 'e \<Rightarrow> 's \<Rightarrow> bool) \<Rightarrow> ('s, 'e, 'a) act \<Rightarrow> bool" where
  "upholds I E m \<longleftrightarrow> (\<forall>i. hoare (I i) m (\<lambda>_. I i) (E i))"

lemma hoareI:
  "(\<And>s e t. P s \<Longrightarrow> m s = (Inl e, t) \<Longrightarrow> E e t) \<Longrightarrow>
   (\<And>s x t. P s \<Longrightarrow> m s = (Inr x, t) \<Longrightarrow> Q x t) \<Longrightarrow> hoare P m Q E"
  by (auto simp: hoare_def split: prod.splits sum.splits)

lemma hoare_InrD: "hoare P m Q E \<Longrightarrow> P s \<Longrightarrow> m s = (Inr x, t) \<Longrightarrow> Q x t"
  by (fastforce simp: hoare_def)

lemma hoare_InlD: "hoare P m Q E \<Longrightarrow> P s \<Longrightarrow> m s = (Inl e, t) \<Longrightarrow> E e t"
  by (fastforce simp: hoare_def)

lemma hoare_bnd:
  assumes "hoare P m R E" and "\<And>x. hoare (R x) (f x) Q E"
  shows "hoare P (bnd m f) Q E"
  using assms by (fastforce simp: hoare_def bnd_def split: prod.splits sum.splits)

lemma hoare_thn:
  assumes "hoare P m (\<lambda>_. R) E" and "hoare R n Q E"
  shows "hoare P (thn m n) Q E"
  using assms unfolding thn_def by (blast intro: hoare_bnd)

lemma hoare_conseq:
  assumes "hoare P' m Q' E'" and "\<And>s. P s \<Longrightarrow> P' s"
    and "\<And>x s. Q' x s \<Longrightarrow> Q x s" and "\<And>e s. E' e s \<Longrightarrow> E e s"
  shows "hoare P m Q E"
  using assms by (fastforce simp: hoare_def split: prod.splits sum.splits)

text \<open>An action that behaves as another one on a changed state inherits its triple.\<close>

lemma hoare_via:
  assumes "\<And>s. P s \<Longrightarrow> m s = n s (h s)" and "\<And>s. P s \<Longrightarrow> P' (h s)" and "\<And>s. hoare P' (n s) Q E"
  shows "hoare P m Q E"
  using assms by (auto simp: hoare_def)

lemma hoare_if: "(b \<Longrightarrow> hoare P m Q E) \<Longrightarrow> (\<not> b \<Longrightarrow> hoare P n Q E) \<Longrightarrow> hoare P (if b then m else n) Q E"
  by simp

lemma hoare_fact: "hoare P m Q E \<Longrightarrow> hoare (\<lambda>s. P s \<and> C) m (\<lambda>x s. Q x s \<and> C) E"
  by (fastforce simp: hoare_def split: prod.splits sum.splits)

lemma hoare_gets: "(\<And>s. P s \<Longrightarrow> Q (g s) s) \<Longrightarrow> hoare P (gets g) Q E"
  by (simp add: hoare_def)

lemma upholdsI:
  "(\<And>i s e t. I i s \<Longrightarrow> m s = (Inl e, t) \<Longrightarrow> E i e t) \<Longrightarrow>
   (\<And>i s x t. I i s \<Longrightarrow> m s = (Inr x, t) \<Longrightarrow> I i t) \<Longrightarrow> upholds I E m"
  by (auto simp: upholds_def intro!: hoareI)

lemma upholds_InrD: "upholds I E m \<Longrightarrow> I i s \<Longrightarrow> m s = (Inr x, t) \<Longrightarrow> I i t"
  unfolding upholds_def by (blast dest: hoare_InrD)

lemma upholds_InlD: "upholds I E m \<Longrightarrow> I i s \<Longrightarrow> m s = (Inl e, t) \<Longrightarrow> E i e t"
  unfolding upholds_def by (blast dest: hoare_InlD)

lemma upholdsD: "upholds I E m \<Longrightarrow> hoare (I i) m (\<lambda>_. I i) (E i)"
  by (simp add: upholds_def)

text \<open>
  The interface of an invariant: the \<open>soft\<close> errors are those an action may raise in any state
  that satisfies it. The structural rules are proved once from that law.
\<close>

locale action_invariant =
  fixes I :: "'i \<Rightarrow> 's \<Rightarrow> bool" and E :: "'i \<Rightarrow> 'e \<Rightarrow> 's \<Rightarrow> bool" and soft :: "'e \<Rightarrow> bool"
  assumes soft_error: "soft e \<Longrightarrow> I i s \<Longrightarrow> E i e s"
begin

lemma upholds_ret: "upholds I E (ret x)"
  by (rule upholdsI) simp_all

lemma upholds_fail: "soft e \<Longrightarrow> upholds I E (fail e)"
  by (rule upholdsI) (auto intro: soft_error)

lemma upholds_gets: "upholds I E (gets f)"
  by (rule upholdsI) simp_all

lemma upholds_modify: "(\<And>i s. I i s \<Longrightarrow> I i (f s)) \<Longrightarrow> upholds I E (modify f)"
  by (rule upholdsI) auto

lemma upholds_ensure: "soft e \<Longrightarrow> upholds I E (ensure b e)"
  by (cases b) (simp_all add: upholds_ret upholds_fail)

lemma upholds_lift_res: "(\<And>e. soft (emb e)) \<Longrightarrow> upholds I E (lift_res emb r)"
  by (cases r) (simp_all add: upholds_ret upholds_fail)

lemma upholds_bnd: "upholds I E m \<Longrightarrow> (\<And>x. upholds I E (f x)) \<Longrightarrow> upholds I E (bnd m f)"
  unfolding upholds_def by (blast intro: hoare_bnd)

lemma upholds_thn: "upholds I E m \<Longrightarrow> upholds I E n \<Longrightarrow> upholds I E (thn m n)"
  by (simp add: thn_def upholds_bnd)

lemma upholds_if: "(b \<Longrightarrow> upholds I E m) \<Longrightarrow> (\<not> b \<Longrightarrow> upholds I E n) \<Longrightarrow> upholds I E (if b then m else n)"
  by simp

lemma upholds_case_option:
  "(z = None \<Longrightarrow> upholds I E m) \<Longrightarrow> (\<And>x. z = Some x \<Longrightarrow> upholds I E (f x)) \<Longrightarrow>
   upholds I E (case z of None \<Rightarrow> m | Some x \<Rightarrow> f x)"
  by (cases z) simp_all

lemma upholds_case_prod:
  "(\<And>x y. z = (x, y) \<Longrightarrow> upholds I E (f x y)) \<Longrightarrow> upholds I E (case z of (x, y) \<Rightarrow> f x y)"
  by (cases z) simp

lemma upholds_let: "(\<And>x. x = v \<Longrightarrow> upholds I E (f x)) \<Longrightarrow> upholds I E (let x = v in f x)"
  by simp

lemma upholds_run_list: "(\<And>x. upholds I E (f x)) \<Longrightarrow> upholds I E (run_while_list f xs)"
  by (induction xs) (simp_all add: upholds_ret upholds_thn)

lemmas upholds_rules = upholds_ret upholds_gets upholds_bnd upholds_thn upholds_if
  upholds_case_option upholds_case_prod upholds_let upholds_run_list

end

section \<open>Machine integers\<close>

text \<open>
  Unsigned and signed 64-bit values are \<open>int\<close>s with their bounds written out; \<open>saturating_*\<close>
  and casts follow the Rust operations of the same name.
\<close>

definition i64_max :: int where "i64_max = 2 ^ 63 - 1"
definition i64_min :: int where "i64_min = - (2 ^ 63)"
definition u64_max :: int where "u64_max = 2 ^ 64 - 1"

definition saturating_add_u64 :: "int \<Rightarrow> int \<Rightarrow> int" where
  "saturating_add_u64 a b = min u64_max (a + b)"

definition saturating_sub_i64 :: "int \<Rightarrow> int \<Rightarrow> int" where
  "saturating_sub_i64 a b = max i64_min (min i64_max (a - b))"

definition wrap_i64 :: "int \<Rightarrow> int" where
  "wrap_i64 x = (x + 2 ^ 63) mod 2 ^ 64 - 2 ^ 63"

definition wrap_u64 :: "int \<Rightarrow> int" where
  "wrap_u64 x = x mod 2 ^ 64"

lemmas machine_bounds = i64_max_def i64_min_def u64_max_def

lemma wrap_i64_id: "i64_min \<le> x \<Longrightarrow> x \<le> i64_max \<Longrightarrow> wrap_i64 x = x"
  by (simp add: wrap_i64_def machine_bounds)

lemma wrap_u64_id: "0 \<le> x \<Longrightarrow> x \<le> u64_max \<Longrightarrow> wrap_u64 x = x"
  by (simp add: wrap_u64_def machine_bounds)

lemma saturating_sub_i64_id:
  "i64_min \<le> a - b \<Longrightarrow> a - b \<le> i64_max \<Longrightarrow> saturating_sub_i64 a b = a - b"
  by (simp add: saturating_sub_i64_def)

section \<open>Lists as vectors\<close>

text \<open>\<open>Vec::swap\<close> on valid indices, and facts on the sublists \<open>drain\<close> and \<open>truncate\<close> leave.\<close>

definition swap_list :: "'a list \<Rightarrow> nat \<Rightarrow> nat \<Rightarrow> 'a list" where
  "swap_list xs i j = xs[i := xs ! j, j := xs ! i]"

lemma length_swap_list [simp]: "length (swap_list xs i j) = length xs"
  by (simp add: swap_list_def)

lemma mset_swap_list: "i < length xs \<Longrightarrow> j < length xs \<Longrightarrow> mset (swap_list xs i j) = mset xs"
  by (simp add: swap_list_def mset_swap)

lemma swap_list_involution:
  "i < length xs \<Longrightarrow> j < length xs \<Longrightarrow> swap_list (swap_list xs i j) i j = xs"
  by (rule nth_equalityI) (auto simp: swap_list_def nth_list_update)

definition reverse_sub :: "'a list \<Rightarrow> nat \<Rightarrow> nat \<Rightarrow> 'a list" where
  "reverse_sub xs a b = take a xs @ rev (take (b - a) (drop a xs)) @ drop b xs"

lemma length_reverse_sub [simp]:
  "a \<le> b \<Longrightarrow> b \<le> length xs \<Longrightarrow> length (reverse_sub xs a b) = length xs"
  by (simp add: reverse_sub_def)

lemma reverse_sub_append:
  "reverse_sub (as @ bs @ cs) (length as) (length as + length bs) = as @ rev bs @ cs"
  by (simp add: reverse_sub_def)

end
