(* ===== verification/VmError.thy ===== *)
theory VmError
  imports Prelude
begin

text \<open>
  \<open>vm/src/error.rs\<close>: the errors a VM operation returns and the exception numbers they become.
  The variants of \<open>everscale_types::error::Error\<close>, which the code only carries and matches, are
  \<open>cell_error\<close>; its variants that no modelled line names are \<open>EOther\<close>.
\<close>

section \<open>Errors\<close>

datatype cell_error =
    ECellUnderflow
  | ECellOverflow
  | EUnexpectedExoticCell
  | EUnexpectedOrdinaryCell
  | ECancelled
  | EIntOverflow
  | EInvalidTag
  | EInvalidData
  | EInvalidCell
  | EOther

datatype stack_value_type = TyNull | TyInt | TyCell | TySlice | TyBuilder | TyCont | TyTuple

text \<open>
  \<open>IntegerOutOfRange\<close> carries \<open>min\<close>, \<open>max\<close> and the offending value; the code keeps the value's
  decimal rendering, the model the value itself.
\<close>

datatype vm_error =
    StackUnderflow nat
  | TooManyArguments nat
  | IntegerOutOfRange int int int
  | ControlRegisterOutOfRange nat
  | ControlRegisterRedefined
  | IntegerOverflow
  | InvalidOpcode
  | InvalidType stack_value_type stack_value_type
  | OutOfGas
  | CellError cell_error
  | DictError
  | Unknown string

text \<open>
  A step either returns a \<open>VmError\<close> or panics (an \<open>expect\<close> or an index out of range); a panic
  is not an error the interpreter loop can handle.
\<close>

datatype fault = VmErr vm_error | Panic

definition vm_fail :: "vm_error \<Rightarrow> ('s, fault, 'a) act" where
  "vm_fail e = fail (VmErr e)"

definition vm_ensure :: "bool \<Rightarrow> vm_error \<Rightarrow> ('s, fault, unit) act" where
  "vm_ensure b e = ensure b (VmErr e)"

definition cell_fault :: "cell_error \<Rightarrow> fault" where
  "cell_fault e = VmErr (CellError e)"

definition is_out_of_gas :: "vm_error \<Rightarrow> bool" where
  "is_out_of_gas e = (case e of
      OutOfGas \<Rightarrow> True
    | CellError ECancelled \<Rightarrow> True
    | _ \<Rightarrow> False)"

section \<open>Exceptions\<close>

datatype vm_exception =
    ExcOk | ExcAlternative | ExcStackUnderflow | ExcStackOverflow | ExcIntOverflow
  | ExcRangeCheck | ExcInvalidOpcode | ExcTypeCheck | ExcCellOverflow | ExcCellUnderflow
  | ExcDictError | ExcUnknown | ExcFatal | ExcOutOfGas | ExcVirtError

fun exception_code :: "vm_exception \<Rightarrow> int" where
  "exception_code ExcOk = 0"
| "exception_code ExcAlternative = 1"
| "exception_code ExcStackUnderflow = 2"
| "exception_code ExcStackOverflow = 3"
| "exception_code ExcIntOverflow = 4"
| "exception_code ExcRangeCheck = 5"
| "exception_code ExcInvalidOpcode = 6"
| "exception_code ExcTypeCheck = 7"
| "exception_code ExcCellOverflow = 8"
| "exception_code ExcCellUnderflow = 9"
| "exception_code ExcDictError = 10"
| "exception_code ExcUnknown = 11"
| "exception_code ExcFatal = 12"
| "exception_code ExcOutOfGas = 13"
| "exception_code ExcVirtError = 14"

fun cell_exception :: "cell_error \<Rightarrow> vm_exception" where
  "cell_exception ECellUnderflow = ExcCellUnderflow"
| "cell_exception ECellOverflow = ExcCellOverflow"
| "cell_exception EUnexpectedExoticCell = ExcVirtError"
| "cell_exception EUnexpectedOrdinaryCell = ExcVirtError"
| "cell_exception ECancelled = ExcOutOfGas"
| "cell_exception EIntOverflow = ExcIntOverflow"
| "cell_exception _ = ExcFatal"

fun as_exception :: "vm_error \<Rightarrow> vm_exception" where
  "as_exception (StackUnderflow _) = ExcStackUnderflow"
| "as_exception (TooManyArguments _) = ExcStackOverflow"
| "as_exception (IntegerOutOfRange _ _ _) = ExcRangeCheck"
| "as_exception (ControlRegisterOutOfRange _) = ExcRangeCheck"
| "as_exception ControlRegisterRedefined = ExcTypeCheck"
| "as_exception IntegerOverflow = ExcIntOverflow"
| "as_exception InvalidOpcode = ExcInvalidOpcode"
| "as_exception (InvalidType _ _) = ExcTypeCheck"
| "as_exception OutOfGas = ExcOutOfGas"
| "as_exception (Unknown _) = ExcUnknown"
| "as_exception (CellError e) = cell_exception e"
| "as_exception DictError = ExcDictError"

text \<open>\<open>!x\<close> on an \<open>i32\<close>: the complement never leaves the \<open>i32\<close> range.\<close>

definition not_i32 :: "int \<Rightarrow> int" where
  "not_i32 x = - x - 1"

definition as_exit_code :: "vm_exception \<Rightarrow> int" where
  "as_exit_code x = not_i32 (exception_code x)"

section \<open>Facts\<close>

lemma not_i32_involution [simp]: "not_i32 (not_i32 x) = x"
  by (simp add: not_i32_def)

lemma not_i32_neg_iff: "not_i32 x < 0 \<longleftrightarrow> 0 \<le> x"
  by (auto simp: not_i32_def)

lemma exception_code_nonneg: "0 \<le> exception_code x"
  by (cases x) simp_all

lemma exception_code_inj: "exception_code x = exception_code y \<Longrightarrow> x = y"
  by (cases x; cases y) simp_all

lemma is_out_of_gas_iff_exception: "is_out_of_gas e \<longleftrightarrow> as_exception e = ExcOutOfGas"
proof (cases e)
  case (CellError c)
  then show ?thesis by (cases c) (simp_all add: is_out_of_gas_def)
qed (simp_all add: is_out_of_gas_def)

lemma is_out_of_gas_simps [simp]:
  "is_out_of_gas OutOfGas"
  "is_out_of_gas (CellError ce) \<longleftrightarrow> ce = ECancelled"
  "\<not> is_out_of_gas (StackUnderflow n)"
  "\<not> is_out_of_gas (IntegerOutOfRange a b c)"
  "\<not> is_out_of_gas IntegerOverflow"
  "\<not> is_out_of_gas InvalidOpcode"
  "\<not> is_out_of_gas (InvalidType t u)"
  "\<not> is_out_of_gas (ControlRegisterOutOfRange n)"
  "\<not> is_out_of_gas ControlRegisterRedefined"
  by (simp_all add: is_out_of_gas_def split: cell_error.splits)

lemma vm_fail_apply [simp]: "vm_fail e s = (Inl (VmErr e), s)"
  by (simp add: vm_fail_def)

lemma vm_ensure_simps [simp]: "vm_ensure True e = ret ()" "vm_ensure False e = vm_fail e"
  by (simp_all add: vm_ensure_def vm_fail_def)

end
