(* ===== verification/Values.thy ===== *)
theory Values
  imports VmError
begin

text \<open>
  The values on the stack (\<open>vm/src/stack.rs\<close>, trait \<open>StackValue\<close> and its implementations) and
  the continuations with the control data they save (\<open>vm/src/cont.rs\<close>). Cells, cell slices and
  cell builders belong to \<open>everscale_types\<close>: they are the type parameters \<open>'c\<close>, \<open>'s\<close> and
  \<open>'b\<close>, and the methods the modelled code calls on them are the fields of the record \<open>api\<close>
  that the definitions take as an argument. \<open>num_bigint\<close>'s unbounded \<open>BigInt\<close> is \<open>int\<close>.
\<close>

section \<open>Values, continuations, control registers\<close>

text \<open>
  \<open>SafeRc\<close> sharing is not modelled: the code copies a shared value before it mutates it
  (\<open>SafeRc::make_mut\<close>), so a reference-counted value behaves as a value. \<open>ControlRegs.c\<close> is
  the array of four continuation registers, \<open>d\<close> the two data registers.
\<close>

datatype ('c, 's, 'b) sval =
    VNull
  | VNaN
  | VInt int
  | VCell 'c
  | VSlice 's
  | VBuilder 'b
  | VCont "('c, 's, 'b) cont"
  | VTuple "('c, 's, 'b) sval list"
and ('c, 's, 'b) cont =
    QuitCont int
  | ExcQuitCont
  | PushIntCont int "('c, 's, 'b) cont"
  | RepeatCont nat "('c, 's, 'b) cont" "('c, 's, 'b) cont"
  | AgainCont "('c, 's, 'b) cont"
  | UntilCont "('c, 's, 'b) cont" "('c, 's, 'b) cont"
  | WhileCont bool "('c, 's, 'b) cont" "('c, 's, 'b) cont" "('c, 's, 'b) cont"
  | ArgContExt "('c, 's, 'b) control_data" "('c, 's, 'b) cont"
  | OrdCont "('c, 's, 'b) control_data" 's
and ('c, 's, 'b) control_data =
    ControlData (cd_nargs: "nat option") (cd_stack: "('c, 's, 'b) sval list option")
      (cd_save: "('c, 's, 'b) control_regs") (cd_cp: "nat option")
and ('c, 's, 'b) control_regs =
    ControlRegs (reg_c0: "('c, 's, 'b) cont option") (reg_c1: "('c, 's, 'b) cont option")
      (reg_c2: "('c, 's, 'b) cont option") (reg_c3: "('c, 's, 'b) cont option")
      (reg_d0: "'c option") (reg_d1: "'c option") (reg_c7: "('c, 's, 'b) sval list option")

type_synonym ('c, 's, 'b) stk = "('c, 's, 'b) sval list"

datatype cell_type = Ordinary | PrunedBranch | LibraryReference | MerkleProof | MerkleUpdate

type_synonym hash = "256 word"

text \<open>
  The methods of \<open>everscale_types\<close> the modelled code calls. \<open>bitsize x signed\<close> and
  \<open>has_correct_sign\<close> are its extension methods on \<open>BigInt\<close>; \<open>slice_*\<close> read the range of an
  \<open>OwnedCellSlice\<close> (\<open>vm/src/util.rs\<close> wraps \<open>CellSliceParts\<close>).
\<close>

record ('c, 's) api =
  bitsize :: "int \<Rightarrow> bool \<Rightarrow> nat"
  has_correct_sign :: "int \<Rightarrow> bool \<Rightarrow> bool"
  cell_level :: "'c \<Rightarrow> nat"
  cell_repr_depth :: "'c \<Rightarrow> nat"
  cell_repr_hash :: "'c \<Rightarrow> hash"
  cell_kind :: "'c \<Rightarrow> cell_type"
  cell_library_hash :: "'c \<Rightarrow> cell_error + hash"
  cell_empty :: 'c
  cell_reference :: "'c \<Rightarrow> nat \<Rightarrow> 'c option"
  slice_default :: 's
  slice_of_cell :: "'c \<Rightarrow> 's"
  slice_cell :: "'s \<Rightarrow> 'c"
  slice_size_bits :: "'s \<Rightarrow> nat"
  slice_size_refs :: "'s \<Rightarrow> nat"
  slice_offset_refs :: "'s \<Rightarrow> nat"
  slice_get_uint :: "'s \<Rightarrow> nat \<Rightarrow> nat \<Rightarrow> cell_error + nat"
  slice_get_reference :: "'s \<Rightarrow> nat \<Rightarrow> cell_error + 'c"
  slice_load_bigint :: "'s \<Rightarrow> nat \<Rightarrow> bool \<Rightarrow> cell_error + int \<times> 's"
  slice_skip_first :: "'s \<Rightarrow> nat \<Rightarrow> nat \<Rightarrow> cell_error + 's"

section \<open>Dynamic types and casts\<close>

fun ty :: "('c, 's, 'b) sval \<Rightarrow> stack_value_type" where
  "ty VNull = TyNull"
| "ty VNaN = TyInt"
| "ty (VInt _) = TyInt"
| "ty (VCell _) = TyCell"
| "ty (VSlice _) = TySlice"
| "ty (VBuilder _) = TyBuilder"
| "ty (VCont _) = TyCont"
| "ty (VTuple _) = TyTuple"

definition invalid_type :: "stack_value_type \<Rightarrow> stack_value_type \<Rightarrow> vm_error" where
  "invalid_type actual expected = InvalidType expected actual"

definition is_null :: "('c, 's, 'b) sval \<Rightarrow> bool" where
  "is_null v \<longleftrightarrow> ty v = TyNull"

definition is_tuple :: "('c, 's, 'b) sval \<Rightarrow> bool" where
  "is_tuple v \<longleftrightarrow> ty v = TyTuple"

definition as_int :: "('c, 's, 'b) sval \<Rightarrow> int option" where
  "as_int v = (case v of VInt i \<Rightarrow> Some i | _ \<Rightarrow> None)"

definition as_tuple :: "('c, 's, 'b) sval \<Rightarrow> ('c, 's, 'b) sval list option" where
  "as_tuple v = (case v of VTuple t \<Rightarrow> Some t | _ \<Rightarrow> None)"

text \<open>The consuming casts (\<open>rc_into_*\<close>); only \<open>NaN\<close> overrides the default error.\<close>

definition into_int :: "('c, 's, 'b) sval \<Rightarrow> vm_error + int" where
  "into_int v = (case v of
      VInt i \<Rightarrow> Inr i
    | VNaN \<Rightarrow> Inl IntegerOverflow
    | _ \<Rightarrow> Inl (invalid_type (ty v) TyInt))"

definition into_cell :: "('c, 's, 'b) sval \<Rightarrow> vm_error + 'c" where
  "into_cell v = (case v of VCell c \<Rightarrow> Inr c | _ \<Rightarrow> Inl (invalid_type (ty v) TyCell))"

definition into_cell_slice :: "('c, 's, 'b) sval \<Rightarrow> vm_error + 's" where
  "into_cell_slice v = (case v of VSlice s \<Rightarrow> Inr s | _ \<Rightarrow> Inl (invalid_type (ty v) TySlice))"

definition into_cell_builder :: "('c, 's, 'b) sval \<Rightarrow> vm_error + 'b" where
  "into_cell_builder v = (case v of VBuilder b \<Rightarrow> Inr b | _ \<Rightarrow> Inl (invalid_type (ty v) TyBuilder))"

definition into_cont :: "('c, 's, 'b) sval \<Rightarrow> vm_error + ('c, 's, 'b) cont" where
  "into_cont v = (case v of VCont k \<Rightarrow> Inr k | _ \<Rightarrow> Inl (invalid_type (ty v) TyCont))"

definition into_tuple :: "('c, 's, 'b) sval \<Rightarrow> vm_error + ('c, 's, 'b) sval list" where
  "into_tuple v = (case v of VTuple t \<Rightarrow> Inr t | _ \<Rightarrow> Inl (invalid_type (ty v) TyTuple))"

definition as_tuple_range :: "nat \<Rightarrow> nat \<Rightarrow> ('c, 's, 'b) sval \<Rightarrow> ('c, 's, 'b) sval list option" where
  "as_tuple_range min_len max_len v = (case as_tuple v of
      None \<Rightarrow> None
    | Some t \<Rightarrow> if min_len \<le> length t \<and> length t \<le> max_len then Some t else None)"

definition as_pair :: "('c, 's, 'b) sval \<Rightarrow> (('c, 's, 'b) sval \<times> ('c, 's, 'b) sval) option" where
  "as_pair v = (case as_tuple v of Some [x, y] \<Rightarrow> Some (x, y) | _ \<Rightarrow> None)"

text \<open>
  \<open>as_list\<close> follows the second components of pairs down to \<open>null\<close>; the tail is a part of the
  tuple, so the walk ends.
\<close>

function list_tail_ok :: "('c, 's, 'b) sval \<Rightarrow> bool" where
  "list_tail_ok v = (if is_null v then True
     else case as_pair v of None \<Rightarrow> False | Some (_, t) \<Rightarrow> list_tail_ok t)"
  by pat_completeness auto
termination
  by (relation "measure size")
    (auto simp: as_pair_def as_tuple_def split: sval.splits list.splits)

declare list_tail_ok.simps [simp del]

definition as_list :: "('c, 's, 'b) sval \<Rightarrow> (('c, 's, 'b) sval \<times> ('c, 's, 'b) sval) option" where
  "as_list v = (case as_pair v of
      None \<Rightarrow> None
    | Some (h, t) \<Rightarrow> if list_tail_ok t then Some (h, t) else None)"

section \<open>Facts\<close>

lemma into_int_cases:
  "into_int v = Inr i \<longleftrightarrow> v = VInt i"
  by (cases v) (simp_all add: into_int_def)

lemma into_cont_cases: "into_cont v = Inr k \<longleftrightarrow> v = VCont k"
  by (cases v) (simp_all add: into_cont_def)

lemma into_tuple_cases: "into_tuple v = Inr t \<longleftrightarrow> v = VTuple t"
  by (cases v) (simp_all add: into_tuple_def)

lemma into_int_simps [simp]:
  "into_int (VInt i) = Inr i" "into_int VNaN = Inl IntegerOverflow"
  by (simp_all add: into_int_def)

lemma into_cont_VCont [simp]: "into_cont (VCont k) = Inr k"
  by (simp add: into_cont_def)

lemma into_tuple_VTuple [simp]: "into_tuple (VTuple t) = Inr t"
  by (simp add: into_tuple_def)

lemma as_int_iff: "as_int v = Some i \<longleftrightarrow> v = VInt i"
  by (cases v) (simp_all add: as_int_def)

text \<open>The lists the code recognises are exactly the right-nested pairs that end in \<open>null\<close>.\<close>

fun encode_list :: "('c, 's, 'b) sval list \<Rightarrow> ('c, 's, 'b) sval" where
  "encode_list [] = VNull"
| "encode_list (x # xs) = VTuple [x, encode_list xs]"

lemma list_tail_ok_encode: "list_tail_ok (encode_list xs)"
  by (induction xs) (subst list_tail_ok.simps, simp add: is_null_def as_pair_def as_tuple_def)+

lemma list_tail_ok_iff: "list_tail_ok v \<longleftrightarrow> (\<exists>xs. v = encode_list xs)"
proof
  show "list_tail_ok v \<Longrightarrow> \<exists>xs. v = encode_list xs"
  proof (induction v rule: list_tail_ok.induct)
    case (1 v)
    show ?case
    proof (cases "is_null v")
      case True
      then have "v = encode_list []" by (cases v) (simp_all add: is_null_def)
      then show ?thesis by blast
    next
      case False
      with "1.prems" obtain h t where pair: "as_pair v = Some (h, t)" and "list_tail_ok t"
        by (subst (asm) list_tail_ok.simps) (auto split: option.splits)
      with False "1.IH" obtain xs where "t = encode_list xs" by blast
      with pair have "v = encode_list (h # xs)"
        by (cases v) (auto simp: as_pair_def as_tuple_def split: list.splits)
      then show ?thesis by blast
    qed
  qed
qed (auto simp: list_tail_ok_encode)

lemma as_list_iff: "as_list v = Some (h, t) \<longleftrightarrow> (\<exists>xs. v = encode_list (h # xs) \<and> t = encode_list xs)"
proof -
  have "as_pair v = Some (h, t) \<longleftrightarrow> v = VTuple [h, t]"
    by (cases v) (auto simp: as_pair_def as_tuple_def split: list.splits)
  then show ?thesis
    by (auto simp: as_list_def list_tail_ok_iff split: option.splits if_splits prod.splits)
qed

end
