(* ===== verification/VmStack.thy ===== *)
theory VmStack
  imports Values
begin

text \<open>
  \<open>vm/src/stack.rs\<close>, struct \<open>Stack\<close>: the vector of values with its top at the end. Every
  operation is an action on that vector; errors keep what the operation had already popped.
\<close>

section \<open>Operations\<close>

definition MAX_DEPTH :: nat where "MAX_DEPTH = 0xffffff"

definition make_bool :: "bool \<Rightarrow> ('c, 's, 'b) sval" where
  "make_bool v = (if v then VInt (-1) else VInt 0)"

definition depth :: "('c, 's, 'b) stk \<Rightarrow> nat" where
  "depth s = length s"

definition push_raw :: "('c, 's, 'b) sval \<Rightarrow> (('c, 's, 'b) stk, fault, unit) act" where
  "push_raw v = bnd (gets depth) (\<lambda>d.
     thn (vm_ensure (d < MAX_DEPTH) (StackUnderflow MAX_DEPTH)) (modify (\<lambda>s. s @ [v])))"

definition push_null :: "(('c, 's, 'b) stk, fault, unit) act" where
  "push_null = push_raw VNull"

definition push_nan :: "(('c, 's, 'b) stk, fault, unit) act" where
  "push_nan = push_raw VNaN"

definition push_bool :: "bool \<Rightarrow> (('c, 's, 'b) stk, fault, unit) act" where
  "push_bool v = push_raw (make_bool v)"

definition push_zero :: "(('c, 's, 'b) stk, fault, unit) act" where
  "push_zero = push_raw (VInt 0)"

definition push_int :: "int \<Rightarrow> (('c, 's, 'b) stk, fault, unit) act" where
  "push_int i = push_raw (VInt i)"

definition push_opt_raw :: "('c, 's, 'b) sval option \<Rightarrow> (('c, 's, 'b) stk, fault, unit) act" where
  "push_opt_raw v = (case v of None \<Rightarrow> push_null | Some v \<Rightarrow> push_raw v)"

definition push_nth :: "nat \<Rightarrow> (('c, 's, 'b) stk, fault, unit) act" where
  "push_nth idx = bnd (gets depth) (\<lambda>d.
     thn (vm_ensure (idx < d) (StackUnderflow idx))
    (thn (vm_ensure (d + 1 < MAX_DEPTH) (StackUnderflow MAX_DEPTH))
         (modify (\<lambda>s. s @ [s ! (d - idx - 1)]))))"

definition push_raw_int :: "('c, 'x) api \<Rightarrow> int \<Rightarrow> bool \<Rightarrow> (('c, 's, 'b) stk, fault, unit) act" where
  "push_raw_int A value quiet =
     (if bitsize A value True \<le> 257 then push_raw (VInt value)
      else if quiet then push_nan
      else vm_fail IntegerOverflow)"

definition pop :: "(('c, 's, 'b) stk, fault, ('c, 's, 'b) sval) act" where
  "pop s = (case s of [] \<Rightarrow> vm_fail (StackUnderflow 0) s | _ \<Rightarrow> (Inr (last s), butlast s))"

definition pop_int :: "(('c, 's, 'b) stk, fault, int) act" where
  "pop_int = bnd pop (\<lambda>v. lift_res VmErr (into_int v))"

definition pop_bool :: "(('c, 's, 'b) stk, fault, bool) act" where
  "pop_bool = bnd pop_int (\<lambda>i. ret (i \<noteq> 0))"

definition pop_int_or_nan :: "(('c, 's, 'b) stk, fault, int option) act" where
  "pop_int_or_nan = bnd pop (\<lambda>v.
     if ty v = TyInt \<and> as_int v = None then ret None
     else lift_res VmErr (map_sum id Some (into_int v)))"

text \<open>\<open>to_u32\<close>, \<open>to_u64\<close>, \<open>to_i32\<close> succeed exactly on the values of the target type.\<close>

definition pop_smallint_range :: "nat \<Rightarrow> nat \<Rightarrow> (('c, 's, 'b) stk, fault, nat) act" where
  "pop_smallint_range lo hi = bnd pop_int (\<lambda>item.
     if 0 \<le> item \<and> item < 2 ^ 32 \<and> int lo \<le> item \<and> item \<le> int hi then ret (nat item)
     else vm_fail (IntegerOutOfRange (int lo) (int hi) item))"

definition pop_long_range :: "nat \<Rightarrow> nat \<Rightarrow> (('c, 's, 'b) stk, fault, nat) act" where
  "pop_long_range lo hi = bnd pop_int (\<lambda>item.
     if 0 \<le> item \<and> item < 2 ^ 64 \<and> int lo \<le> item \<and> item \<le> int hi then ret (nat item)
     else vm_fail (IntegerOutOfRange (wrap_i64 (int lo)) (wrap_i64 (int hi)) item))"

definition pop_smallint_signed_range :: "int \<Rightarrow> int \<Rightarrow> (('c, 's, 'b) stk, fault, int) act" where
  "pop_smallint_signed_range lo hi = bnd pop_int (\<lambda>item.
     if - (2 ^ 31) \<le> item \<and> item < 2 ^ 31 \<and> lo \<le> item \<and> item \<le> hi then ret item
     else vm_fail (IntegerOutOfRange lo hi item))"

definition pop_tuple :: "(('c, 's, 'b) stk, fault, ('c, 's, 'b) sval list) act" where
  "pop_tuple = bnd pop (\<lambda>v. lift_res VmErr (into_tuple v))"

definition pop_tuple_range :: "nat \<Rightarrow> nat \<Rightarrow> (('c, 's, 'b) stk, fault, ('c, 's, 'b) sval list) act" where
  "pop_tuple_range min_len max_len = bnd pop_tuple (\<lambda>t.
     thn (vm_ensure (min_len \<le> length t \<and> length t \<le> max_len) (InvalidType TyTuple TyTuple))
         (ret t))"

definition pop_opt_tuple_range ::
    "nat \<Rightarrow> nat \<Rightarrow> (('c, 's, 'b) stk, fault, ('c, 's, 'b) sval list option) act" where
  "pop_opt_tuple_range min_len max_len = bnd pop (\<lambda>v.
     if is_null v then ret None
     else bnd (lift_res VmErr (into_tuple v)) (\<lambda>t.
       thn (vm_ensure (min_len \<le> length t \<and> length t \<le> max_len) (InvalidType TyTuple TyTuple))
           (ret (Some t))))"

definition pop_cont :: "(('c, 's, 'b) stk, fault, ('c, 's, 'b) cont) act" where
  "pop_cont = bnd pop (\<lambda>v. lift_res VmErr (into_cont v))"

definition pop_cs :: "(('c, 's, 'b) stk, fault, 's) act" where
  "pop_cs = bnd pop (\<lambda>v. lift_res VmErr (into_cell_slice v))"

definition pop_builder :: "(('c, 's, 'b) stk, fault, 'b) act" where
  "pop_builder = bnd pop (\<lambda>v. lift_res VmErr (into_cell_builder v))"

definition pop_cell :: "(('c, 's, 'b) stk, fault, 'c) act" where
  "pop_cell = bnd pop (\<lambda>v. lift_res VmErr (into_cell v))"

definition pop_cell_opt :: "(('c, 's, 'b) stk, fault, 'c option) act" where
  "pop_cell_opt = bnd pop (\<lambda>v.
     if is_null v then ret None else lift_res VmErr (map_sum id Some (into_cell v)))"

definition pop_many :: "nat \<Rightarrow> (('c, 's, 'b) stk, fault, unit) act" where
  "pop_many n = bnd (gets depth) (\<lambda>d.
     if n \<le> d then modify (take (d - n)) else vm_fail (StackUnderflow n))"

definition drop_bottom :: "nat \<Rightarrow> (('c, 's, 'b) stk, fault, unit) act" where
  "drop_bottom n = bnd (gets depth) (\<lambda>d.
     thn (vm_ensure (n \<le> d) (StackUnderflow n)) (modify (drop n)))"

definition split_top :: "nat \<Rightarrow> (('c, 's, 'b) stk, fault, ('c, 's, 'b) stk) act" where
  "split_top n s = (if n \<le> depth s then (Inr (drop (depth s - n) s), take (depth s - n) s)
                    else vm_fail (StackUnderflow n) s)"

definition split_top_ext :: "nat \<Rightarrow> nat \<Rightarrow> (('c, 's, 'b) stk, fault, ('c, 's, 'b) stk) act" where
  "split_top_ext n dropn s =
     (if n + dropn \<le> depth s
      then let new_depth = depth s - (n + dropn)
           in (Inr (drop (new_depth + dropn) s), take new_depth (take (new_depth + dropn) s))
      else vm_fail (StackUnderflow (n + dropn)) s)"

text \<open>\<open>self.move_from_stack(other, n)\<close>: the state is the pair of both stacks.\<close>

definition move_from_stack ::
    "nat \<Rightarrow> (('c, 's, 'b) stk \<times> ('c, 's, 'b) stk, fault, unit) act" where
  "move_from_stack n = bnd (gets (\<lambda>(self, other). depth other)) (\<lambda>d.
     if n \<le> d then modify (\<lambda>(self, other). (self @ drop (d - n) other, take (d - n) other))
     else vm_fail (StackUnderflow n))"

definition swap :: "nat \<Rightarrow> nat \<Rightarrow> (('c, 's, 'b) stk, fault, unit) act" where
  "swap lhs rhs = bnd (gets depth) (\<lambda>d.
     thn (vm_ensure (lhs < d) (StackUnderflow lhs))
    (thn (vm_ensure (rhs < d) (StackUnderflow rhs))
         (modify (\<lambda>s. swap_list s (d - lhs - 1) (d - rhs - 1)))))"

definition reverse_range :: "nat \<Rightarrow> nat \<Rightarrow> (('c, 's, 'b) stk, fault, unit) act" where
  "reverse_range offset n = bnd (gets depth) (\<lambda>d.
     thn (vm_ensure (offset < d) (StackUnderflow offset))
    (thn (vm_ensure (offset + n \<le> d) (StackUnderflow (offset + n)))
         (modify (\<lambda>s. reverse_sub s (d - offset - n) (d - offset)))))"

definition fetch :: "nat \<Rightarrow> (('c, 's, 'b) stk, fault, ('c, 's, 'b) sval) act" where
  "fetch idx = bnd (gets depth) (\<lambda>d.
     thn (vm_ensure (idx < d) (StackUnderflow idx)) (gets (\<lambda>s. s ! (d - idx - 1))))"

definition get_exit_arg :: "('c, 's, 'b) stk \<Rightarrow> int option" where
  "get_exit_arg s = (case s of
      [] \<Rightarrow> None
    | _ \<Rightarrow> (case as_int (last s) of
        None \<Rightarrow> None
      | Some i \<Rightarrow> if - (2 ^ 31) \<le> i \<and> i < 2 ^ 31 then Some i else None))"

section \<open>Tuples\<close>

text \<open>\<open>TupleExt\<close> on a slice of values.\<close>

definition tuple_try_get :: "('c, 's, 'b) sval list \<Rightarrow> nat \<Rightarrow> vm_error + ('c, 's, 'b) sval" where
  "tuple_try_get t index =
     (if index < length t then Inr (t ! index)
      else Inl (IntegerOutOfRange 0 (int (length t)) (int index)))"

definition try_get_tuple_range ::
    "('c, 's, 'b) sval list \<Rightarrow> nat \<Rightarrow> nat \<Rightarrow> nat \<Rightarrow> vm_error + ('c, 's, 'b) sval list" where
  "try_get_tuple_range t index lo hi = (case tuple_try_get t index of
      Inl e \<Rightarrow> Inl e
    | Inr v \<Rightarrow> (case as_tuple v of
        None \<Rightarrow> Inl (InvalidType TyTuple (ty v))
      | Some u \<Rightarrow> if lo \<le> length u \<and> length u \<le> hi then Inr u
                  else Inl (InvalidType TyTuple TyNull)))"

section \<open>Behaviour\<close>

lemmas push_defs = push_null_def push_nan_def push_bool_def push_zero_def push_int_def

lemma depth_append [simp]: "depth (xs @ ys) = depth xs + depth ys"
  by (simp add: depth_def)

lemma depth_simps [simp]: "depth [] = 0" "depth (x # xs) = Suc (depth xs)"
  by (simp_all add: depth_def)

lemma push_raw_eq:
  "push_raw v s = (if depth s < MAX_DEPTH then (Inr (), s @ [v])
                   else (Inl (VmErr (StackUnderflow MAX_DEPTH)), s))"
  by (simp add: push_raw_def act_defs)

lemma push_raw_room [simp]: "depth s < MAX_DEPTH \<Longrightarrow> push_raw v s = (Inr (), s @ [v])"
  by (simp add: push_raw_eq)

lemma pop_simps [simp]:
  "pop [] = (Inl (VmErr (StackUnderflow 0)), [])"
  "pop (xs @ [v]) = (Inr v, xs)"
  by (simp add: pop_def) (cases xs; simp add: pop_def)

lemma pop_eq: "s \<noteq> [] \<Longrightarrow> pop s = (Inr (last s), butlast s)"
  by (cases s) (simp_all add: pop_def)

lemma push_pop: "depth s < MAX_DEPTH \<Longrightarrow> thn (push_raw v) pop s = (Inr v, s)"
  by (simp add: thn_def)

lemma pop_int_simps [simp]:
  "pop_int [] = (Inl (VmErr (StackUnderflow 0)), [])"
  "pop_int (xs @ [VInt i]) = (Inr i, xs)"
  "pop_int (xs @ [VNaN]) = (Inl (VmErr IntegerOverflow), xs)"
  by (simp_all add: pop_int_def)

lemma pop_bool_simps [simp]:
  "pop_bool [] = (Inl (VmErr (StackUnderflow 0)), [])"
  "pop_bool (xs @ [VInt i]) = (Inr (i \<noteq> 0), xs)"
  by (simp_all add: pop_bool_def)

lemma pop_int_or_nan_simps [simp]:
  "pop_int_or_nan [] = (Inl (VmErr (StackUnderflow 0)), [])"
  "pop_int_or_nan (xs @ [VInt i]) = (Inr (Some i), xs)"
  "pop_int_or_nan (xs @ [VNaN]) = (Inr None, xs)"
  by (simp_all add: pop_int_or_nan_def as_int_def)

lemma pop_int_or_nan_other:
  "ty v \<noteq> TyInt \<Longrightarrow> pop_int_or_nan (xs @ [v]) = (Inl (VmErr (InvalidType TyInt (ty v))), xs)"
  by (cases v) (simp_all add: pop_int_or_nan_def into_int_def invalid_type_def)

lemma pop_cont_simps [simp]:
  "pop_cont [] = (Inl (VmErr (StackUnderflow 0)), [])"
  "pop_cont (xs @ [VCont k]) = (Inr k, xs)"
  by (simp_all add: pop_cont_def)

lemma pop_tuple_simps [simp]:
  "pop_tuple [] = (Inl (VmErr (StackUnderflow 0)), [])"
  "pop_tuple (xs @ [VTuple t]) = (Inr t, xs)"
  by (simp_all add: pop_tuple_def)

lemma pop_smallint_range_int:
  "pop_smallint_range lo hi (xs @ [VInt i]) =
     (if 0 \<le> i \<and> i < 2 ^ 32 \<and> int lo \<le> i \<and> i \<le> int hi then (Inr (nat i), xs)
      else (Inl (VmErr (IntegerOutOfRange (int lo) (int hi) i)), xs))"
  by (simp add: pop_smallint_range_def)

lemma pop_smallint_range_result:
  "pop_smallint_range lo hi s = (Inr n, t) \<Longrightarrow>
     lo \<le> n \<and> n \<le> hi \<and> n < 2 ^ 32 \<and> s = t @ [VInt (int n)]"
proof -
  assume run: "pop_smallint_range lo hi s = (Inr n, t)"
  then obtain i where i: "pop_int s = (Inr i, t)" and n: "n = nat i"
    and rng: "0 \<le> i" "i < 2 ^ 32" "int lo \<le> i" "i \<le> int hi"
    by (auto simp: pop_smallint_range_def bnd_eq_Inr_iff split: if_splits)
  from i have "s \<noteq> []" by auto
  then have "s = butlast s @ [last s]" by simp
  with i have "last s = VInt i" "t = butlast s"
    by (auto simp: pop_int_def bnd_eq_Inr_iff pop_eq[OF \<open>s \<noteq> []\<close>] lift_res_def into_int_cases
        split: sum.splits)
  with \<open>s = butlast s @ [last s]\<close> n rng show ?thesis by (auto simp: nat_less_iff)
qed

lemma swap_eq:
  "swap i j s = (if \<not> i < depth s then (Inl (VmErr (StackUnderflow i)), s)
     else if \<not> j < depth s then (Inl (VmErr (StackUnderflow j)), s)
     else (Inr (), swap_list s (depth s - i - 1) (depth s - j - 1)))"
  by (simp add: swap_def act_defs)

lemma push_nth_eq:
  "push_nth i s = (if \<not> i < depth s then (Inl (VmErr (StackUnderflow i)), s)
     else if \<not> depth s + 1 < MAX_DEPTH then (Inl (VmErr (StackUnderflow MAX_DEPTH)), s)
     else (Inr (), s @ [s ! (depth s - i - 1)]))"
  by (simp add: push_nth_def act_defs)

lemma reverse_range_eq:
  "reverse_range off n s = (if \<not> off < depth s then (Inl (VmErr (StackUnderflow off)), s)
     else if \<not> off + n \<le> depth s then (Inl (VmErr (StackUnderflow (off + n))), s)
     else (Inr (), reverse_sub s (depth s - off - n) (depth s - off)))"
  by (simp add: reverse_range_def act_defs)

lemma pop_many_eq:
  "pop_many n s = (if n \<le> depth s then (Inr (), take (depth s - n) s)
                   else (Inl (VmErr (StackUnderflow n)), s))"
  by (simp add: pop_many_def)

lemma drop_bottom_eq:
  "drop_bottom n s = (if n \<le> depth s then (Inr (), drop n s)
                      else (Inl (VmErr (StackUnderflow n)), s))"
  by (simp add: drop_bottom_def)

lemma move_from_stack_eq:
  "move_from_stack n (self, other) =
     (if n \<le> depth other
      then (Inr (), (self @ drop (depth other - n) other, take (depth other - n) other))
      else (Inl (VmErr (StackUnderflow n)), (self, other)))"
  by (simp add: move_from_stack_def)

lemma split_top_ext_eq:
  "split_top_ext n k s =
     (if n + k \<le> depth s
      then (Inr (drop (depth s - n) s), take (depth s - (n + k)) s)
      else (Inl (VmErr (StackUnderflow (n + k))), s))"
  by (simp add: split_top_ext_def Let_def min_def)

text \<open>Operations see only the top of the stack: what lies below the indices is untouched.\<close>

lemma swap_top:
  assumes "i < length ys" and "j < length ys"
  shows "swap i j (xs @ ys) = (Inr (), xs @ swap_list ys (length ys - i - 1) (length ys - j - 1))"
  using assms
  by (auto simp: swap_eq depth_def swap_list_def nth_append list_update_append)

lemma push_nth_top:
  assumes "i < length ys" and "length xs + length ys + 1 < MAX_DEPTH"
  shows "push_nth i (xs @ ys) = (Inr (), xs @ ys @ [ys ! (length ys - i - 1)])"
  using assms by (auto simp: push_nth_eq depth_def nth_append)

lemma reverse_range_blocks:
  assumes "as @ bs \<noteq> []"
  shows "reverse_range (length cs) (length bs) (as @ bs @ cs) = (Inr (), as @ rev bs @ cs)"
  using assms reverse_sub_append [of as bs cs]
  by (auto simp: reverse_range_eq depth_def)

lemma split_top_move_back:
  assumes "split_top n s = (Inr upper, rest)"
  shows "move_from_stack (depth upper) (rest, upper) = (Inr (), (s, []))"
  using assms
  by (auto simp: split_top_def move_from_stack_eq depth_def vm_fail_def fail_def split: if_splits)

section \<open>The depth bound\<close>

text \<open>Every push keeps the depth at most \<open>MAX_DEPTH\<close>, and reports the failure otherwise.\<close>

definition stack_bounded :: "('c, 's, 'b) stk \<Rightarrow> bool" where
  "stack_bounded s \<longleftrightarrow> depth s \<le> MAX_DEPTH"

lemma push_raw_bounded: "stack_bounded s \<Longrightarrow> push_raw v s = (r, t) \<Longrightarrow> stack_bounded t"
  by (auto simp: push_raw_eq stack_bounded_def split: if_splits)

lemma push_nth_bounded: "stack_bounded s \<Longrightarrow> push_nth i s = (r, t) \<Longrightarrow> stack_bounded t"
  by (auto simp: push_nth_eq stack_bounded_def split: if_splits)

lemma pop_shrinks: "pop s = (r, t) \<Longrightarrow> depth t \<le> depth s"
  by (auto simp: pop_def depth_def split: list.splits)

lemma swap_keeps_depth: "swap i j s = (r, t) \<Longrightarrow> depth t = depth s"
  by (auto simp: swap_eq depth_def split: if_splits)

end
