(* ===== verification/Control.thy ===== *)
theory Control
  imports VmStack
begin

text \<open>
  \<open>vm/src/cont.rs\<close>: the control registers and the control data of continuations. The array
  accesses \<open>c[i]\<close> and \<open>d[i]\<close> go through \<open>get_c\<close>, \<open>put_c\<close>, \<open>get_dreg\<close> and \<open>put_d\<close>.
\<close>

section \<open>Control registers\<close>

definition regs_default :: "('c, 's, 'b) control_regs" where
  "regs_default = ControlRegs None None None None None None None"

fun get_c :: "nat \<Rightarrow> ('c, 's, 'b) control_regs \<Rightarrow> ('c, 's, 'b) cont option" where
  "get_c i (ControlRegs c0 c1 c2 c3 d0 d1 c7) =
     (if i = 0 then c0 else if i = 1 then c1 else if i = 2 then c2 else c3)"

fun put_c :: "nat \<Rightarrow> ('c, 's, 'b) cont option \<Rightarrow> ('c, 's, 'b) control_regs \<Rightarrow> ('c, 's, 'b) control_regs" where
  "put_c i v (ControlRegs c0 c1 c2 c3 d0 d1 c7) =
     ControlRegs (if i = 0 then v else c0) (if i = 1 then v else c1) (if i = 2 then v else c2)
       (if i = 3 then v else c3) d0 d1 c7"

fun get_dreg :: "nat \<Rightarrow> ('c, 's, 'b) control_regs \<Rightarrow> 'c option" where
  "get_dreg i (ControlRegs c0 c1 c2 c3 d0 d1 c7) = (if i = 0 then d0 else d1)"

fun put_d :: "nat \<Rightarrow> 'c option \<Rightarrow> ('c, 's, 'b) control_regs \<Rightarrow> ('c, 's, 'b) control_regs" where
  "put_d i v (ControlRegs c0 c1 c2 c3 d0 d1 c7) =
     ControlRegs c0 c1 c2 c3 (if i = 0 then v else d0) (if i = 1 then v else d1) c7"

fun set_c7 :: "('c, 's, 'b) sval list \<Rightarrow> ('c, 's, 'b) control_regs \<Rightarrow> ('c, 's, 'b) control_regs" where
  "set_c7 t (ControlRegs c0 c1 c2 c3 d0 d1 c7) = ControlRegs c0 c1 c2 c3 d0 d1 (Some t)"

definition is_valid_idx :: "nat \<Rightarrow> bool" where
  "is_valid_idx i \<longleftrightarrow> i < 4 \<or> (4 \<le> i \<and> i < 6) \<or> i = 7"

text \<open>
  \<open>merge_stack_value\<close> and \<open>merge_cell_value\<close>: a defined right side wins; the pointer comparison
  in the code only skips an assignment of the same value.
\<close>

definition merge_value :: "'a option \<Rightarrow> 'a option \<Rightarrow> 'a option" where
  "merge_value lhs rhs = (case rhs of Some r \<Rightarrow> Some r | None \<Rightarrow> lhs)"

fun merge :: "('c, 's, 'b) control_regs \<Rightarrow> ('c, 's, 'b) control_regs \<Rightarrow> ('c, 's, 'b) control_regs" where
  "merge (ControlRegs c0 c1 c2 c3 d0 d1 c7) (ControlRegs o0 o1 o2 o3 e0 e1 o7) =
     ControlRegs (merge_value c0 o0) (merge_value c1 o1) (merge_value c2 o2) (merge_value c3 o3)
       (merge_value d0 e0) (merge_value d1 e1) (merge_value c7 o7)"

definition preclear_value :: "'a option \<Rightarrow> 'b option \<Rightarrow> 'a option" where
  "preclear_value lhs rhs = (if rhs = None then lhs else None)"

fun preclear :: "('c, 's, 'b) control_regs \<Rightarrow> ('c, 's, 'b) control_regs \<Rightarrow> ('c, 's, 'b) control_regs" where
  "preclear (ControlRegs c0 c1 c2 c3 d0 d1 c7) (ControlRegs o0 o1 o2 o3 e0 e1 o7) =
     ControlRegs (preclear_value c0 o0) (preclear_value c1 o1) (preclear_value c2 o2)
       (preclear_value c3 o3) (preclear_value d0 e0) (preclear_value d1 e1) (preclear_value c7 o7)"

definition regs_set :: "nat \<Rightarrow> ('c, 's, 'b) sval \<Rightarrow> (('c, 's, 'b) control_regs, fault, unit) act" where
  "regs_set i v =
     (if i < 4 then bnd (lift_res VmErr (into_cont v)) (\<lambda>k. modify (put_c i (Some k)))
      else if 4 \<le> i \<and> i < 6 then bnd (lift_res VmErr (into_cell v)) (\<lambda>c. modify (put_d (i - 4) (Some c)))
      else if i = 7 then bnd (lift_res VmErr (into_tuple v)) (\<lambda>t. modify (set_c7 t))
      else vm_fail (ControlRegisterOutOfRange i))"

definition regs_set_c :: "nat \<Rightarrow> ('c, 's, 'b) cont \<Rightarrow> ('c, 's, 'b) control_regs \<Rightarrow> bool \<times> ('c, 's, 'b) control_regs" where
  "regs_set_c i k r = (if i < 4 then (True, put_c i (Some k) r) else (False, r))"

text \<open>\<open>i.wrapping_sub(4)\<close> of an index below 4 is far above the register count.\<close>

definition regs_set_d :: "nat \<Rightarrow> 'c \<Rightarrow> ('c, 's, 'b) control_regs \<Rightarrow> bool \<times> ('c, 's, 'b) control_regs" where
  "regs_set_d i c r = (if 4 \<le> i \<and> i - 4 < 2 then (True, put_d (i - 4) (Some c) r) else (False, r))"

definition regs_get_d :: "nat \<Rightarrow> ('c, 's, 'b) control_regs \<Rightarrow> 'c option" where
  "regs_get_d i r = (if 4 \<le> i \<and> i - 4 < 2 then get_dreg (i - 4) r else None)"

definition get_as_stack_value :: "nat \<Rightarrow> ('c, 's, 'b) control_regs \<Rightarrow> ('c, 's, 'b) sval option" where
  "get_as_stack_value i r =
     (if i < 4 then map_option VCont (get_c i r)
      else if 4 \<le> i \<and> i < 6 then map_option VCell (get_dreg (i - 4) r)
      else if i = 7 then map_option VTuple (reg_c7 r)
      else None)"

definition define_c :: "nat \<Rightarrow> ('c, 's, 'b) cont option \<Rightarrow> ('c, 's, 'b) control_regs \<Rightarrow> ('c, 's, 'b) control_regs" where
  "define_c i k r = (if get_c i r = None then put_c i k r else r)"

definition define_c0 :: "('c, 's, 'b) cont option \<Rightarrow> ('c, 's, 'b) control_regs \<Rightarrow> ('c, 's, 'b) control_regs" where
  "define_c0 = define_c 0"

definition define_c1 :: "('c, 's, 'b) cont option \<Rightarrow> ('c, 's, 'b) control_regs \<Rightarrow> ('c, 's, 'b) control_regs" where
  "define_c1 = define_c 1"

definition define_c2 :: "('c, 's, 'b) cont option \<Rightarrow> ('c, 's, 'b) control_regs \<Rightarrow> ('c, 's, 'b) control_regs" where
  "define_c2 = define_c 2"

definition regs_define :: "nat \<Rightarrow> ('c, 's, 'b) sval \<Rightarrow> (('c, 's, 'b) control_regs, fault, unit) act" where
  "regs_define i v =
     (if i < 4 then bnd (lift_res VmErr (into_cont v)) (\<lambda>k.
        bnd (gets (get_c i)) (\<lambda>old.
        thn (vm_ensure (old = None) ControlRegisterRedefined) (modify (put_c i (Some k)))))
      else if 4 \<le> i \<and> i < 6 then bnd (lift_res VmErr (into_cell v)) (\<lambda>c.
        bnd (gets (get_dreg (i - 4))) (\<lambda>old.
        thn (vm_ensure (old = None) ControlRegisterRedefined) (modify (put_d (i - 4) (Some c)))))
      else if i = 7 then bnd (lift_res VmErr (into_tuple v)) (\<lambda>t.
        bnd (gets reg_c7) (\<lambda>old. if old = None then modify (set_c7 t) else ret ()))
      else vm_fail (ControlRegisterOutOfRange i))"

definition get_c7_params :: "('c, 's, 'b) control_regs \<Rightarrow> vm_error + ('c, 's, 'b) sval list" where
  "get_c7_params r = (case reg_c7 r of
      None \<Rightarrow> Inl (ControlRegisterOutOfRange 7)
    | Some t \<Rightarrow> try_get_tuple_range t 0 0 255)"

section \<open>Control data\<close>

definition data_default :: "('c, 's, 'b) control_data" where
  "data_default = ControlData None None regs_default None"

definition require_nargs :: "('c, 's, 'b) control_data \<Rightarrow> nat \<Rightarrow> vm_error + unit" where
  "require_nargs d copy = (case cd_nargs d of
      Some n \<Rightarrow> if n < copy then Inl (StackUnderflow copy) else Inr ()
    | None \<Rightarrow> Inr ())"

fun map_save :: "(('c, 's, 'b) control_regs \<Rightarrow> ('c, 's, 'b) control_regs)
    \<Rightarrow> ('c, 's, 'b) control_data \<Rightarrow> ('c, 's, 'b) control_data" where
  "map_save f (ControlData n s r cp) = ControlData n s (f r) cp"

fun get_control_data :: "('c, 's, 'b) cont \<Rightarrow> ('c, 's, 'b) control_data option" where
  "get_control_data (ArgContExt d k) = Some d"
| "get_control_data (OrdCont d c) = Some d"
| "get_control_data _ = None"

text \<open>Writing through \<open>get_control_data_mut\<close>.\<close>

fun put_control_data :: "('c, 's, 'b) control_data \<Rightarrow> ('c, 's, 'b) cont \<Rightarrow> ('c, 's, 'b) cont" where
  "put_control_data d (ArgContExt _ k) = ArgContExt d k"
| "put_control_data d (OrdCont _ c) = OrdCont d c"
| "put_control_data d k = k"

definition has_c0 :: "('c, 's, 'b) cont \<Rightarrow> bool" where
  "has_c0 k = (case get_control_data k of Some d \<Rightarrow> get_c 0 (cd_save d) \<noteq> None | None \<Rightarrow> False)"

definition ord_simple :: "'s \<Rightarrow> nat \<Rightarrow> ('c, 's, 'b) cont" where
  "ord_simple code cp = OrdCont (ControlData None None regs_default (Some cp)) code"

section \<open>Facts\<close>

lemma get_put_c [simp]:
  "i < 4 \<Longrightarrow> j < 4 \<Longrightarrow> get_c i (put_c j v r) = (if i = j then v else get_c i r)"
  by (cases r) auto

lemma get_c_put_d [simp]: "get_c i (put_d j v r) = get_c i r"
  by (cases r) simp

lemma get_c_set_c7 [simp]: "get_c i (set_c7 t r) = get_c i r"
  by (cases r) simp

lemma get_dreg_put_d [simp]: "i < 2 \<Longrightarrow> j < 2 \<Longrightarrow> get_dreg i (put_d j v r) = (if i = j then v else get_dreg i r)"
  by (cases r) auto

lemma get_dreg_put_c [simp]: "get_dreg i (put_c j v r) = get_dreg i r"
  by (cases r) simp

lemma get_dreg_set_c7 [simp]: "get_dreg i (set_c7 t r) = get_dreg i r"
  by (cases r) simp

lemma reg_c7_simps [simp]:
  "reg_c7 (put_c i v r) = reg_c7 r" "reg_c7 (put_d i w r) = reg_c7 r" "reg_c7 (set_c7 t r) = Some t"
  by (cases r; simp)+

lemma get_c_merge [simp]: "get_c i (merge r q) = merge_value (get_c i r) (get_c i q)"
  by (cases r; cases q) simp

lemma get_dreg_merge [simp]: "get_dreg i (merge r q) = merge_value (get_dreg i r) (get_dreg i q)"
  by (cases r; cases q) simp

lemma get_c_preclear [simp]: "get_c i (preclear r q) = preclear_value (get_c i r) (get_c i q)"
  by (cases r; cases q) simp

lemma get_c_default [simp]: "get_c i regs_default = None"
  by (simp add: regs_default_def)

lemma merge_default [simp]: "merge r regs_default = r"
  by (cases r) (simp add: regs_default_def merge_value_def)

lemma merge_assoc: "merge (merge r q) p = merge r (merge q p)"
  by (cases r; cases q; cases p) (simp add: merge_value_def split: option.splits)

text \<open>Clearing the registers a savelist defines does not change what the merge restores.\<close>

lemma merge_preclear: "merge (preclear r q) q = merge r q"
  by (cases r; cases q) (simp add: merge_value_def preclear_value_def split: option.splits)

lemma merge_value_Some [simp]: "merge_value x (Some y) = Some y" "merge_value x None = x"
  by (simp_all add: merge_value_def)

text \<open>A register that \<open>regs_set\<close> accepted reads back as the value it was set to.\<close>

lemma regs_set_get:
  assumes "regs_set i v r = (Inr (), r')"
  shows "get_as_stack_value i r' = Some v"
  using assms
  by (cases v; cases r)
    (auto simp: regs_set_def get_as_stack_value_def bnd_def into_cont_def into_cell_def
      into_tuple_def split: if_splits)

lemma regs_set_other:
  assumes "regs_set i v r = (Inr (), r')" and "j \<noteq> i"
  shows "get_as_stack_value j r' = get_as_stack_value j r"
proof (cases "i < 4")
  case True
  with assms show ?thesis
    by (cases v) (auto simp: regs_set_def get_as_stack_value_def bnd_def into_cont_def)
next
  case False
  with assms show ?thesis
    by (cases v) (auto simp: regs_set_def get_as_stack_value_def bnd_def into_cell_def into_tuple_def
      split: if_splits)
qed

lemma regs_define_get:
  assumes "regs_define i v r = (Inr (), r')"
  shows "get_as_stack_value i r' =
    (if i = 7 \<and> reg_c7 r \<noteq> None then get_as_stack_value 7 r else Some v)"
  using assms
  by (cases v; cases r)
    (auto simp: regs_define_def get_as_stack_value_def bnd_def thn_def into_cont_def into_cell_def
      into_tuple_def vm_ensure_def ensure_def split: if_splits)

lemma define_c_get: "i < 4 \<Longrightarrow> get_c i (define_c i k r) = (if get_c i r = None then k else get_c i r)"
  by (simp add: define_c_def)

end
