(* ===== verification/Gas.thy ===== *)
theory Gas
  imports Values
begin

text \<open>
  \<open>vm/src/gas.rs\<close>: the gas meter of a VM run, the metered loading of cells through the library
  providers, the capped meter for cheap balance queries, and the derivation of a meter for a
  nested VM. \<open>u64\<close> and \<open>i64\<close> amounts are \<open>int\<close>s, with the code's truncation and saturation.
  The \<open>Cell\<close> wrappers of the struct make its \<open>&self\<close> methods mutators: they are actions here.
\<close>

section \<open>Parameters and the consumer\<close>

record gas_params =
  gp_max :: int
  gp_limit :: int
  gp_credit :: int
  gp_price :: int

definition gas_params_unlimited :: gas_params where
  "gas_params_unlimited =
     \<lparr>gp_max = i64_max, gp_limit = i64_max, gp_credit = 0, gp_price = 1000 * 2 ^ 16\<rparr>"

definition gas_params_getter :: gas_params where
  "gas_params_getter =
     \<lparr>gp_max = 1000000, gp_limit = 1000000, gp_credit = 0, gp_price = 1000 * 2 ^ 16\<rparr>"

text \<open>\<open>LibraryProvider::find\<close> as a function from a library hash.\<close>

type_synonym 'c library_provider = "hash \<Rightarrow> cell_error + 'c option"

record 'c gas_consumer =
  gas_max :: int
  gas_limit :: int
  gas_credit :: int
  gas_base :: int
  gas_remaining :: int
  gas_price :: int
  loaded_cells :: "hash set"
  libraries :: "'c library_provider"
  chksign_counter :: nat
  free_gas_consumed :: int
  get_extra_balance_counter :: nat
  missing_library :: "hash option"

type_synonym ('c, 'a) gas_act = "('c gas_consumer, cell_error, 'a) act"

section \<open>Library providers\<close>

definition no_libraries :: "'c library_provider" where
  "no_libraries h = Inr None"

definition find_option :: "'c library_provider option \<Rightarrow> 'c library_provider" where
  "find_option p h = (case p of Some this \<Rightarrow> this h | None \<Rightarrow> Inr None)"

definition find_pair :: "'c library_provider \<Rightarrow> 'c library_provider \<Rightarrow> 'c library_provider" where
  "find_pair p q h = (case p h of Inl e \<Rightarrow> Inl e | Inr (Some c) \<Rightarrow> Inr (Some c) | Inr None \<Rightarrow> q h)"

definition find_triple ::
    "'c library_provider \<Rightarrow> 'c library_provider \<Rightarrow> 'c library_provider \<Rightarrow> 'c library_provider" where
  "find_triple p q r h = (case p h of
      Inl e \<Rightarrow> Inl e
    | Inr (Some c) \<Rightarrow> Inr (Some c)
    | Inr None \<Rightarrow> (case q h of Inl e \<Rightarrow> Inl e | Inr (Some c) \<Rightarrow> Inr (Some c) | Inr None \<Rightarrow> r h))"

fun find_vec :: "'c library_provider list \<Rightarrow> 'c library_provider" where
  "find_vec [] h = Inr None"
| "find_vec (p # ps) h = (case p h of
      Inl e \<Rightarrow> Inl e | Inr (Some c) \<Rightarrow> Inr (Some c) | Inr None \<Rightarrow> find_vec ps h)"

section \<open>Prices\<close>

definition BUILD_CELL_GAS :: int where "BUILD_CELL_GAS = 500"
definition NEW_CELL_GAS :: int where "NEW_CELL_GAS = 100"
definition OLD_CELL_GAS :: int where "OLD_CELL_GAS = 25"
definition FREE_STACK_DEPTH :: nat where "FREE_STACK_DEPTH = 32"
definition FREE_SIGNATURE_CHECKS :: nat where "FREE_SIGNATURE_CHECKS = 10"
definition CHEAP_GET_BALANCE_CALLS :: nat where "CHEAP_GET_BALANCE_CALLS = 5"
definition CHEAP_GET_BALANCE_GAS_THRESHOLD :: int where "CHEAP_GET_BALANCE_GAS_THRESHOLD = 200"
definition FREE_NESTED_CONT_JUMP :: nat where "FREE_NESTED_CONT_JUMP = 8"
definition STACK_VALUE_GAS_PRICE :: int where "STACK_VALUE_GAS_PRICE = 1"
definition TUPLE_ENTRY_GAS_PRICE :: int where "TUPLE_ENTRY_GAS_PRICE = 1"
definition CHK_SGN_GAS_PRICE :: int where "CHK_SGN_GAS_PRICE = 4000"
definition IMPLICIT_JMPREF_GAS_PRICE :: int where "IMPLICIT_JMPREF_GAS_PRICE = 10"
definition IMPLICIT_RET_GAS_PRICE :: int where "IMPLICIT_RET_GAS_PRICE = 5"
definition EXCEPTION_GAS_PRICE :: int where "EXCEPTION_GAS_PRICE = 50"
definition HASH_EXT_ENTRY_GAS_PRICE :: int where "HASH_EXT_ENTRY_GAS_PRICE = 1"

lemmas gas_prices = BUILD_CELL_GAS_def NEW_CELL_GAS_def OLD_CELL_GAS_def
  STACK_VALUE_GAS_PRICE_def TUPLE_ENTRY_GAS_PRICE_def CHK_SGN_GAS_PRICE_def
  IMPLICIT_JMPREF_GAS_PRICE_def IMPLICIT_RET_GAS_PRICE_def EXCEPTION_GAS_PRICE_def
  HASH_EXT_ENTRY_GAS_PRICE_def

section \<open>Operations\<close>

definition truncate_gas :: "int \<Rightarrow> int" where
  "truncate_gas g = (if g \<le> i64_max then g else i64_max)"

definition with_libraries :: "gas_params \<Rightarrow> 'c library_provider \<Rightarrow> 'c gas_consumer" where
  "with_libraries p libs =
     (let remaining = truncate_gas (saturating_add_u64 (gp_limit p) (gp_credit p))
      in \<lparr>gas_max = truncate_gas (gp_max p),
          gas_limit = truncate_gas (gp_limit p),
          gas_credit = truncate_gas (gp_credit p),
          gas_base = remaining,
          gas_remaining = remaining,
          gas_price = (if gp_price p = 0 then 1 else gp_price p),
          loaded_cells = {},
          libraries = libs,
          chksign_counter = 0,
          free_gas_consumed = 0,
          get_extra_balance_counter = 0,
          missing_library = None\<rparr>)"

definition gas_new :: "gas_params \<Rightarrow> 'c gas_consumer" where
  "gas_new p = with_libraries p no_libraries"

definition consumed :: "'c gas_consumer \<Rightarrow> int" where
  "consumed g = wrap_u64 (saturating_sub_i64 (gas_base g) (gas_remaining g))"

definition try_consume :: "int \<Rightarrow> ('c, unit) gas_act" where
  "try_consume amount g =
     (let remaining = saturating_sub_i64 (gas_remaining g) (truncate_gas amount);
          g' = g\<lparr>gas_remaining := remaining\<rparr>
      in if 0 \<le> remaining then (Inr (), g') else (Inl ECancelled, g'))"

definition consume_free_gas :: "int \<Rightarrow> 'c gas_consumer \<Rightarrow> 'c gas_consumer" where
  "consume_free_gas amount g =
     g\<lparr>free_gas_consumed := truncate_gas (saturating_add_u64 (free_gas_consumed g) amount)\<rparr>"

definition set_base :: "int \<Rightarrow> 'c gas_consumer \<Rightarrow> 'c gas_consumer" where
  "set_base base0 g =
     (let base = truncate_gas base0;
          diff = wrap_i64 (base - gas_base g)
      in g\<lparr>gas_remaining := wrap_i64 (gas_remaining g + diff), gas_base := base\<rparr>)"

definition set_limit :: "int \<Rightarrow> 'c gas_consumer \<Rightarrow> 'c gas_consumer" where
  "set_limit limit0 g =
     (let limit = min limit0 (gas_max g)
      in set_base limit (g\<lparr>gas_credit := 0, gas_limit := limit\<rparr>))"

definition try_consume_exception_gas :: "('c, unit) gas_act" where
  "try_consume_exception_gas = try_consume EXCEPTION_GAS_PRICE"

definition try_consume_implicit_jmpref_gas :: "('c, unit) gas_act" where
  "try_consume_implicit_jmpref_gas = try_consume IMPLICIT_JMPREF_GAS_PRICE"

definition try_consume_implicit_ret_gas :: "('c, unit) gas_act" where
  "try_consume_implicit_ret_gas = try_consume IMPLICIT_RET_GAS_PRICE"

definition try_consume_check_signature_gas :: "('c, unit) gas_act" where
  "try_consume_check_signature_gas =
     thn (modify (\<lambda>g. g\<lparr>chksign_counter := chksign_counter g + 1\<rparr>))
    (bnd (gets chksign_counter) (\<lambda>n.
       if n > FREE_SIGNATURE_CHECKS then try_consume CHK_SGN_GAS_PRICE
       else modify (consume_free_gas CHK_SGN_GAS_PRICE)))"

definition try_consume_stack_depth_gas :: "nat \<Rightarrow> ('c, unit) gas_act" where
  "try_consume_stack_depth_gas d =
     try_consume (int (max d FREE_STACK_DEPTH - FREE_STACK_DEPTH) * STACK_VALUE_GAS_PRICE)"

definition try_consume_stack_gas :: "('c, 's, 'b) stk option \<Rightarrow> ('c, unit) gas_act" where
  "try_consume_stack_gas s = (case s of
      Some s \<Rightarrow> try_consume_stack_depth_gas (length s)
    | None \<Rightarrow> ret ())"

definition try_consume_tuple_gas :: "nat \<Rightarrow> ('c, unit) gas_act" where
  "try_consume_tuple_gas tuple_len = try_consume (int tuple_len * TUPLE_ENTRY_GAS_PRICE)"

text \<open>
  \<open>load_cell_impl\<close>: charge for the visit, then follow at most one library reference. The mode
  is the pair of the flags \<open>use_gas\<close> and \<open>resolve\<close> of \<open>LoadMode\<close>; \<open>LoadMode::Full\<close> sets both.
\<close>

definition visit_cell :: "('c, 's) api \<Rightarrow> 'c \<Rightarrow> ('c, int) gas_act" where
  "visit_cell A cell =
     bnd (gets (\<lambda>g. cell_repr_hash A cell \<notin> loaded_cells g)) (\<lambda>is_new.
     thn (modify (\<lambda>g. g\<lparr>loaded_cells := insert (cell_repr_hash A cell) (loaded_cells g)\<rparr>))
         (ret (if is_new then NEW_CELL_GAS else OLD_CELL_GAS)))"

function load_cell_loop ::
    "('c, 's) api \<Rightarrow> bool \<times> bool \<Rightarrow> bool \<Rightarrow> 'c \<Rightarrow> ('c, 'c) gas_act" where
  "load_cell_loop A mode library_loaded cell =
     thn (if fst mode then bnd (visit_cell A cell) try_consume else ret ())
    (if \<not> snd mode then ret cell
     else case cell_kind A cell of
       Ordinary \<Rightarrow> ret cell
     | LibraryReference \<Rightarrow>
         (if library_loaded then fail ECellUnderflow
          else bnd (lift_res id (cell_library_hash A cell)) (\<lambda>h.
               bnd (gets libraries) (\<lambda>libs.
               bnd (lift_res id (libs h)) (\<lambda>found.
               case found of
                 None \<Rightarrow> thn (modify (\<lambda>g. g\<lparr>missing_library := Some h\<rparr>)) (fail ECellUnderflow)
               | Some library_cell \<Rightarrow> load_cell_loop A mode True library_cell))))
     | _ \<Rightarrow> fail ECellUnderflow)"
  by pat_completeness auto
termination
  by (relation "measure (\<lambda>(A, mode, library_loaded, cell). if library_loaded then 0 else 1)") auto

declare load_cell_loop.simps [simp del]

definition load_cell_impl :: "('c, 's) api \<Rightarrow> bool \<times> bool \<Rightarrow> 'c \<Rightarrow> ('c, 'c) gas_act" where
  "load_cell_impl A mode cell = load_cell_loop A mode False cell"

definition load_cell_as_slice :: "('c, 's) api \<Rightarrow> 'c \<Rightarrow> bool \<times> bool \<Rightarrow> ('c, 's) gas_act" where
  "load_cell_as_slice A cell mode = bnd (load_cell_impl A mode cell) (\<lambda>c. ret (slice_of_cell A c))"

section \<open>The capped consumer\<close>

text \<open>
  \<open>LimitedGasConsumer\<close> borrows the main consumer: its state is the pair of its own remaining
  budget and the consumer it charges.
\<close>

definition limited_try_consume :: "int \<Rightarrow> (int \<times> 'c gas_consumer, cell_error, unit) act" where
  "limited_try_consume amount0 =
     (let amount = truncate_gas amount0 in
      bnd (gets fst) (\<lambda>remaining.
      let consumed = min amount remaining in
      thn (zoom snd (\<lambda>g (r, _). (r, g)) id (try_consume consumed))
          (modify (\<lambda>(_, g). (remaining - consumed,
             if remaining - consumed = 0 then consume_free_gas (amount - consumed) g else g)))))"

text \<open>\<open>LimitedGasConsumer::load_cell_impl\<close>: the loop of the main consumer with the capped charge.\<close>

function limited_load_loop ::
    "('c, 's) api \<Rightarrow> bool \<times> bool \<Rightarrow> bool \<Rightarrow> 'c \<Rightarrow> (int \<times> 'c gas_consumer, cell_error, 'c) act" where
  "limited_load_loop A mode library_loaded cell =
     thn (if fst mode then bnd (zoom snd (\<lambda>g (r, _). (r, g)) id (visit_cell A cell)) limited_try_consume
          else ret ())
    (if \<not> snd mode then ret cell
     else case cell_kind A cell of
       Ordinary \<Rightarrow> ret cell
     | LibraryReference \<Rightarrow>
         (if library_loaded then fail ECellUnderflow
          else bnd (lift_res id (cell_library_hash A cell)) (\<lambda>h.
               bnd (gets (libraries \<circ> snd)) (\<lambda>libs.
               bnd (lift_res id (libs h)) (\<lambda>found.
               case found of
                 None \<Rightarrow> thn (modify (\<lambda>(r, g). (r, g\<lparr>missing_library := Some h\<rparr>))) (fail ECellUnderflow)
               | Some library_cell \<Rightarrow> limited_load_loop A mode True library_cell))))
     | _ \<Rightarrow> fail ECellUnderflow)"
  by pat_completeness auto
termination
  by (relation "measure (\<lambda>(A, mode, library_loaded, cell). if library_loaded then 0 else 1)") auto

declare limited_load_loop.simps [simp del]

definition limited_load_cell :: "('c, 's) api \<Rightarrow> bool \<times> bool \<Rightarrow> 'c \<Rightarrow> (int \<times> 'c gas_consumer, cell_error, 'c) act" where
  "limited_load_cell A mode cell = limited_load_loop A mode False cell"

definition try_get_extra_balance_consumer :: "'c gas_consumer \<Rightarrow> int option \<times> 'c gas_consumer" where
  "try_get_extra_balance_consumer g =
     (let g' = g\<lparr>get_extra_balance_counter := get_extra_balance_counter g + 1\<rparr>
      in (if get_extra_balance_counter g' \<le> CHEAP_GET_BALANCE_CALLS
          then Some CHEAP_GET_BALANCE_GAS_THRESHOLD else None, g'))"

section \<open>Nested consumers\<close>

record derive_params =
  dp_gas_max :: int
  dp_gas_limit :: int
  dp_isolate :: bool

datatype 'c parent_gas = Isolated "'c gas_consumer" | Shared "'c gas_consumer"

record restored_gas =
  rg_gas_consumed :: int
  rg_gas_limit :: int

text \<open>\<open>gas_remaining as u64\<close> is guarded by the check that it is not negative.\<close>

definition derive :: "derive_params \<Rightarrow> ('c gas_consumer, fault, 'c parent_gas) act" where
  "derive p =
     (if dp_isolate p then
        bnd (gets free_gas_consumed) (\<lambda>free.
        thn (zoom id (\<lambda>g _. g) cell_fault (try_consume free))
       (bnd (gets gas_remaining) (\<lambda>remaining.
        thn (vm_ensure (0 \<le> remaining) OutOfGas)
       (thn (modify (\<lambda>g. g\<lparr>chksign_counter := 0, free_gas_consumed := 0,
                           get_extra_balance_counter := 0\<rparr>))
       (bnd (gets id) (\<lambda>g.
        thn (modify (\<lambda>_. with_libraries
               \<lparr>gp_max = min (dp_gas_max p) remaining, gp_limit = min (dp_gas_limit p) remaining,
                gp_credit = 0, gp_price = gas_price g\<rparr> (libraries g)))
            (ret (Isolated g))))))))
      else
        bnd (gets gas_remaining) (\<lambda>remaining.
        thn (vm_ensure (0 \<le> remaining) OutOfGas)
       (bnd (gets id) (\<lambda>g.
        let max' = min (dp_gas_max p) remaining; limit' = min (dp_gas_limit p) remaining in
        thn (modify (\<lambda>g. g\<lparr>gas_max := max', gas_limit := limit', gas_credit := 0,
                           gas_base := limit', gas_remaining := limit'\<rparr>))
            (ret (Shared (g\<lparr>loaded_cells := {}\<rparr>)))))))"

definition restore :: "'c parent_gas \<Rightarrow> 'c gas_consumer \<Rightarrow> restored_gas \<times> 'c gas_consumer" where
  "restore parent self =
     (let meta = \<lparr>rg_gas_consumed = consumed self, rg_gas_limit = gas_limit self\<rparr>;
          p = (case parent of
                 Isolated p \<Rightarrow> p
               | Shared p \<Rightarrow> p\<lparr>loaded_cells := loaded_cells self\<rparr>);
          lib = (if missing_library p = None \<and> missing_library self \<noteq> None
                 then missing_library self else missing_library p)
      in (meta, p\<lparr>missing_library := lib, chksign_counter := chksign_counter self,
                  free_gas_consumed := free_gas_consumed self,
                  get_extra_balance_counter := get_extra_balance_counter self\<rparr>))"

section \<open>Well-formed meters\<close>

definition spent :: "'c gas_consumer \<Rightarrow> int" where
  "spent g = gas_base g - gas_remaining g"

definition gas_wf :: "'c gas_consumer \<Rightarrow> bool" where
  "gas_wf g \<longleftrightarrow> 0 \<le> gas_max g \<and> gas_max g \<le> i64_max \<and> 0 \<le> gas_limit g \<and> gas_limit g \<le> i64_max
     \<and> 0 \<le> gas_credit g \<and> 0 \<le> gas_base g \<and> gas_base g \<le> i64_max
     \<and> i64_min \<le> gas_remaining g \<and> gas_remaining g \<le> gas_base g
     \<and> 0 \<le> free_gas_consumed g \<and> free_gas_consumed g \<le> i64_max
     \<and> 0 < gas_price g"

definition gas_params_wf :: "gas_params \<Rightarrow> bool" where
  "gas_params_wf p \<longleftrightarrow> 0 \<le> gp_max p \<and> 0 \<le> gp_limit p \<and> 0 \<le> gp_credit p \<and> 0 \<le> gp_price p"

lemma truncate_gas_bounds: "0 \<le> a \<Longrightarrow> 0 \<le> truncate_gas a \<and> truncate_gas a \<le> i64_max \<and> truncate_gas a \<le> a"
  by (simp add: truncate_gas_def machine_bounds)

lemma truncate_gas_id [simp]: "a \<le> i64_max \<Longrightarrow> truncate_gas a = a"
  by (simp add: truncate_gas_def)

lemma with_libraries_wf:
  "gas_params_wf p \<Longrightarrow> gas_wf (with_libraries p libs) \<and> spent (with_libraries p libs) = 0"
  by (auto simp: gas_params_wf_def gas_wf_def spent_def with_libraries_def Let_def
      saturating_add_u64_def truncate_gas_def machine_bounds)

lemma consumed_spent: "gas_wf g \<Longrightarrow> consumed g = min i64_max (spent g)"
  by (auto simp: gas_wf_def consumed_def spent_def saturating_sub_i64_def wrap_u64_def
      machine_bounds min_def max_def)

lemma try_consume_eq:
  assumes "gas_wf g" and "0 \<le> amount"
  shows "try_consume amount g =
    (let g' = g\<lparr>gas_remaining := max i64_min (gas_remaining g - truncate_gas amount)\<rparr>
     in if truncate_gas amount \<le> gas_remaining g then (Inr (), g') else (Inl ECancelled, g'))"
  using assms truncate_gas_bounds[OF assms(2)]
  by (auto simp: try_consume_def Let_def saturating_sub_i64_def gas_wf_def machine_bounds
      min_def max_def)

lemma try_consume_Ok:
  assumes "gas_wf g" and "0 \<le> amount" and "try_consume amount g = (Inr (), g')"
  shows "gas_wf g'" and "spent g' = spent g + truncate_gas amount"
    and "0 \<le> gas_remaining g'" and "g' = g\<lparr>gas_remaining := gas_remaining g - truncate_gas amount\<rparr>"
proof -
  show eq: "g' = g\<lparr>gas_remaining := gas_remaining g - truncate_gas amount\<rparr>"
    and le: "0 \<le> gas_remaining g'"
    using assms truncate_gas_bounds[OF assms(2)]
    by (auto simp: try_consume_eq Let_def machine_bounds max_def split: if_splits)
  show "gas_wf g'" "spent g' = spent g + truncate_gas amount"
    using assms(1) eq le truncate_gas_bounds[OF assms(2)]
    by (auto simp: gas_wf_def spent_def machine_bounds)
qed

lemma try_consume_Err:
  assumes "gas_wf g" and "0 \<le> amount" and "try_consume amount g = (Inl e, g')"
  shows "e = ECancelled" and "gas_wf g'" and "spent g \<le> spent g'" and "gas_remaining g' < 0"
    and "g' = g\<lparr>gas_remaining := gas_remaining g'\<rparr>"
  using assms truncate_gas_bounds[OF assms(2)]
  by (auto simp: try_consume_eq Let_def gas_wf_def spent_def machine_bounds max_def split: if_splits)

section \<open>Charging\<close>

text \<open>
  What a client of a meter relies on: a successful charge leaves a non-negative rest that has
  not grown, a failed one is always \<open>Cancelled\<close> with a negative rest. Both meters promise it.
\<close>

locale charge_meter =
  fixes charge :: "int \<Rightarrow> ('g, cell_error, unit) act"
    and meter_ok :: "'g \<Rightarrow> bool"
    and left :: "'g \<Rightarrow> int"
  assumes charge_Ok: "meter_ok g \<Longrightarrow> 0 \<le> a \<Longrightarrow> charge a g = (Inr (), g') \<Longrightarrow>
      meter_ok g' \<and> 0 \<le> left g' \<and> left g' \<le> left g"
    and charge_Err: "meter_ok g \<Longrightarrow> 0 \<le> a \<Longrightarrow> charge a g = (Inl e, g') \<Longrightarrow>
      e = ECancelled \<and> meter_ok g' \<and> left g' < 0"
begin

lemma charge_all_Ok:
  "meter_ok g \<Longrightarrow> \<forall>a \<in> set as. 0 \<le> a \<Longrightarrow> run_while_list charge as g = (Inr (), g') \<Longrightarrow>
   meter_ok g' \<and> left g' \<le> left g \<and> (as \<noteq> [] \<longrightarrow> 0 \<le> left g')"
proof (induction as arbitrary: g)
  case (Cons a as)
  then obtain g1 where g1: "charge a g = (Inr (), g1)" "run_while_list charge as g1 = (Inr (), g')"
    by (auto simp: thn_eq_Inr_iff)
  with Cons.prems have "meter_ok g1 \<and> 0 \<le> left g1 \<and> left g1 \<le> left g"
    by (intro charge_Ok) auto
  with Cons.IH[of g1] Cons.prems g1 show ?case by (cases "as = []") auto
qed simp

lemma charge_all_Err:
  "meter_ok g \<Longrightarrow> \<forall>a \<in> set as. 0 \<le> a \<Longrightarrow> run_while_list charge as g = (Inl e, g') \<Longrightarrow>
   e = ECancelled \<and> meter_ok g' \<and> left g' < 0"
proof (induction as arbitrary: g)
  case (Cons a as)
  obtain r g1 where g1: "charge a g = (r, g1)" by (cases "charge a g")
  show ?case
  proof (cases r)
    case (Inl e1)
    with g1 Cons.prems charge_Err[of g a e1 g1] show ?thesis by simp
  next
    case (Inr u)
    with g1 Cons.prems charge_Ok[of g a g1] Cons.IH[of g1] show ?thesis by simp
  qed
qed simp

end

definition limited_ok :: "int \<times> 'c gas_consumer \<Rightarrow> bool" where
  "limited_ok p \<longleftrightarrow> 0 \<le> fst p \<and> gas_wf (snd p)"

lemma consume_free_gas_wf: "gas_wf g \<Longrightarrow> 0 \<le> a \<Longrightarrow> gas_wf (consume_free_gas a g)"
  by (auto simp: gas_wf_def consume_free_gas_def saturating_add_u64_def truncate_gas_def machine_bounds)

lemma consume_free_gas_spent [simp]:
  "spent (consume_free_gas a g) = spent g" "gas_remaining (consume_free_gas a g) = gas_remaining g"
  by (simp_all add: spent_def consume_free_gas_def)

lemma limited_try_consume_eq:
  "limited_try_consume a (r, g) =
     (let amount = truncate_gas a; used = min amount r in
      case try_consume used g of
        (Inl e, g') \<Rightarrow> (Inl e, (r, g'))
      | (Inr _, g') \<Rightarrow> (Inr (), (r - used,
          if r - used = 0 then consume_free_gas (amount - used) g' else g')))"
  by (simp add: limited_try_consume_def Let_def thn_def bnd_def zoom_def split: prod.splits sum.splits)

interpretation main_meter: charge_meter try_consume gas_wf gas_remaining
proof
  fix g g' :: "'c gas_consumer" and a :: int and e :: cell_error
  assume g: "gas_wf g" "0 \<le> a"
  show "gas_wf g' \<and> 0 \<le> gas_remaining g' \<and> gas_remaining g' \<le> gas_remaining g"
    if "try_consume a g = (Inr (), g')"
    using try_consume_Ok[OF g that] truncate_gas_bounds[OF g(2)] by auto
  show "e = ECancelled \<and> gas_wf g' \<and> gas_remaining g' < 0" if "try_consume a g = (Inl e, g')"
    using try_consume_Err[OF g that] by simp
qed

interpretation limited_meter: charge_meter limited_try_consume limited_ok "gas_remaining \<circ> snd"
proof
  fix p q :: "int \<times> 'c gas_consumer" and a :: int and e :: cell_error
  assume p: "limited_ok p" "0 \<le> a"
  obtain r g where rg: "p = (r, g)" by (cases p)
  define used where "used = min (truncate_gas a) r"
  have g: "gas_wf g" "0 \<le> used" and r: "used \<le> r"
    using p rg truncate_gas_bounds[of a] by (auto simp: limited_ok_def used_def)
  show "limited_ok q \<and> 0 \<le> (gas_remaining \<circ> snd) q \<and> (gas_remaining \<circ> snd) q \<le> (gas_remaining \<circ> snd) p"
    if "limited_try_consume a p = (Inr (), q)"
  proof -
    from that rg obtain g' where g': "try_consume used g = (Inr (), g')"
      and q: "q = (r - used, if r - used = 0 then consume_free_gas (truncate_gas a - used) g' else g')"
      by (auto simp: limited_try_consume_eq Let_def used_def split: prod.splits sum.splits)
    from main_meter.charge_Ok[OF g g'] q r rg consume_free_gas_wf[of g' "truncate_gas a - used"]
    show ?thesis by (auto simp: limited_ok_def used_def)
  qed
  show "e = ECancelled \<and> limited_ok q \<and> (gas_remaining \<circ> snd) q < 0"
    if "limited_try_consume a p = (Inl e, q)"
  proof -
    from that rg obtain g' where "try_consume used g = (Inl e, g')" and "q = (r, g')"
      by (auto simp: limited_try_consume_eq Let_def used_def split: prod.splits sum.splits)
    with main_meter.charge_Err[OF g] p rg show ?thesis by (auto simp: limited_ok_def)
  qed
qed

text \<open>
  The capped meter charges the main one exactly the first \<open>r\<close> units it is asked for and books
  the rest as free gas.
\<close>

lemma limited_try_consume_split:
  assumes "limited_ok (r, g)" and "0 \<le> a" and "a \<le> i64_max"
    and "free_gas_consumed g + a \<le> i64_max"
    and run: "limited_try_consume a (r, g) = (Inr (), (r', g'))"
  shows "r - r' = min r a" and "spent g' = spent g + (r - r')"
    and "free_gas_consumed g' = free_gas_consumed g + (a - (r - r'))"
proof -
  define used where "used = min a r"
  have g: "gas_wf g" "0 \<le> used" "used \<le> i64_max" using assms by (auto simp: limited_ok_def used_def)
  from run assms(3) obtain h where h: "try_consume used g = (Inr (), h)"
    and eqs: "r' = r - used" "g' = (if r - used = 0 then consume_free_gas (a - used) h else h)"
    by (auto simp: limited_try_consume_eq Let_def used_def split: prod.splits sum.splits)
  note ok = try_consume_Ok[OF g(1,2) h]
  show "r - r' = min r a" using eqs by (simp add: used_def min.commute)
  show "spent g' = spent g + (r - r')" using eqs ok(2) g(3) by simp
  have "free_gas_consumed h = free_gas_consumed g" by (simp add: ok(4))
  then show "free_gas_consumed g' = free_gas_consumed g + (a - (r - r'))"
    using eqs assms(2,3,4) g(2) by (auto simp: consume_free_gas_def saturating_add_u64_def
        used_def truncate_gas_def machine_bounds gas_wf_def)
qed

lemma limited_run_split:
  assumes "limited_ok (r, g)" and "\<forall>a \<in> set as. 0 \<le> a"
    and "free_gas_consumed g + sum_list as \<le> i64_max"
    and "run_while_list limited_try_consume as (r, g) = (Inr (), (r', g'))"
  shows "r - r' = min r (sum_list as) \<and> spent g' = spent g + (r - r')
    \<and> free_gas_consumed g' = free_gas_consumed g + (sum_list as - (r - r'))"
  using assms
proof (induction as arbitrary: r g)
  case Nil
  then show ?case by (simp add: limited_ok_def)
next
  case (Cons a as)
  from Cons.prems(4) obtain r1 g1 where
    s1: "limited_try_consume a (r, g) = (Inr (), (r1, g1))"
    and s2: "run_while_list limited_try_consume as (r1, g1) = (Inr (), (r', g'))"
    by (auto simp: thn_eq_Inr_iff)
  have pos: "0 \<le> a" "0 \<le> sum_list as" "0 \<le> free_gas_consumed g"
    using Cons.prems(1,2) by (auto simp: sum_list_nonneg limited_ok_def gas_wf_def)
  with Cons.prems(3) have bnd: "a \<le> i64_max" "free_gas_consumed g + a \<le> i64_max" by auto
  note step = limited_try_consume_split[OF Cons.prems(1) pos(1) bnd s1]
  have ok1: "limited_ok (r1, g1)"
    using limited_meter.charge_Ok[OF Cons.prems(1) pos(1) s1] by simp
  have "free_gas_consumed g1 + sum_list as \<le> i64_max"
    using step pos Cons.prems(1,3) by (auto simp: limited_ok_def)
  with Cons.IH[OF ok1 _ _ s2] Cons.prems(2) step pos ok1 Cons.prems(1)
  show ?case by (auto simp: limited_ok_def min_def split: if_splits)
qed

section \<open>The budget of a run\<close>

text \<open>
  \<open>live f g\<close>: at most \<open>f\<close> units can still be charged successfully, even if the limit is raised
  to its ceiling. \<open>charge_of g\<close> is what \<open>restore_parent\<close> charges the parent of a nested VM whose
  meter is \<open>g\<close>. \<open>chained f g ms\<close>: with the meters \<open>ms\<close> of the parents of the running VM (the
  immediate parent first), each is live for \<open>f\<close> plus the charges of the VMs it runs, less two
  units per return to a parent. A charge on the running meter lowers \<open>f\<close> and leaves the parents
  as they are.
\<close>

definition live :: "int \<Rightarrow> 'c gas_consumer \<Rightarrow> bool" where
  "live f g \<longleftrightarrow> gas_wf g \<and> spent g \<le> i64_max \<and> gas_base g - spent g \<le> f \<and> gas_max g - spent g \<le> f"

definition charge_of :: "'c gas_consumer \<Rightarrow> int" where
  "charge_of g = min (consumed g) (saturating_add_u64 (gas_limit g) 1)"

fun chained :: "int \<Rightarrow> 'c gas_consumer \<Rightarrow> 'c gas_consumer list \<Rightarrow> bool" where
  "chained f g [] = True"
| "chained f g (m # ms) = (gas_base g \<le> gas_limit g \<and> gas_limit g \<le> gas_max g
     \<and> gas_max g \<le> gas_remaining m
     \<and> live (f - 2 + charge_of g) m \<and> chained (f - 2 + charge_of g) m ms)"

lemma live_mono: "live f g \<Longrightarrow> f \<le> f' \<Longrightarrow> live f' g"
  by (auto simp: live_def)

lemma chained_mono: "chained f g ms \<Longrightarrow> f \<le> f' \<Longrightarrow> chained f' g ms"
  by (induction ms arbitrary: f f' g) (auto elim: live_mono)

text \<open>What a change of the running meter needs for the chain to stay intact.\<close>

lemma chained_transfer:
  assumes "chained f g ms" and "f + charge_of g \<le> f' + charge_of g'"
    and "gas_base g \<le> gas_limit g \<Longrightarrow> gas_limit g \<le> gas_max g \<Longrightarrow>
         gas_base g' \<le> gas_limit g' \<and> gas_limit g' \<le> gas_max g'"
    and "gas_max g' = gas_max g"
  shows "chained f' g' ms"
  using assms by (cases ms) (auto elim: live_mono chained_mono)

text \<open>A VM with a parent has a budget that is not negative, even after it ran out of gas.\<close>

lemma chained_nonneg:
  assumes "chained f g (m # ms)" and "gas_wf g"
  shows "0 \<le> f"
proof -
  have "gas_limit g \<le> gas_remaining m" "gas_remaining m \<le> f - 2 + charge_of g"
    using assms(1) by (auto simp: live_def spent_def)
  moreover have "charge_of g \<le> gas_limit g + 1"
    using assms(2) by (auto simp: charge_of_def saturating_add_u64_def)
  ultimately show ?thesis by simp
qed

lemma charge_of_spent:
  assumes "gas_wf g" and "spent g \<le> gas_limit g"
  shows "charge_of g = spent g"
  using assms
  by (auto simp: charge_of_def consumed_spent saturating_add_u64_def gas_wf_def machine_bounds min_def)

lemma consumed_mono:
  "gas_wf g \<Longrightarrow> gas_wf g' \<Longrightarrow> spent g \<le> spent g' \<Longrightarrow> consumed g \<le> consumed g'"
  by (auto simp: consumed_spent)

lemma set_limit_spent:
  assumes "gas_wf g" and "spent g \<le> i64_max" and "0 \<le> limit"
  shows "spent (set_limit limit g) = spent g" and "gas_wf (set_limit limit g)"
    and "gas_base (set_limit limit g) = min limit (gas_max g)"
    and "gas_max (set_limit limit g) = gas_max g"
proof -
  have trunc: "truncate_gas (min limit (gas_max g)) = min limit (gas_max g)"
    using assms by (auto simp: truncate_gas_def gas_wf_def)
  have w1: "wrap_i64 (min limit (gas_max g) - gas_base g) = min limit (gas_max g) - gas_base g"
    by (rule wrap_i64_id) (use assms in \<open>auto simp: gas_wf_def machine_bounds min_def\<close>)
  have w2: "wrap_i64 (gas_remaining g + (min limit (gas_max g) - gas_base g))
      = gas_remaining g + (min limit (gas_max g) - gas_base g)"
    by (rule wrap_i64_id) (use assms in \<open>auto simp: gas_wf_def spent_def machine_bounds min_def\<close>)
  show "spent (set_limit limit g) = spent g" "gas_base (set_limit limit g) = min limit (gas_max g)"
    "gas_max (set_limit limit g) = gas_max g"
    by (simp_all add: spent_def set_limit_def set_base_def Let_def trunc w1 w2)
  have eq: "set_limit limit g = g\<lparr>gas_credit := 0, gas_limit := min limit (gas_max g),
      gas_remaining := gas_remaining g + (min limit (gas_max g) - gas_base g),
      gas_base := min limit (gas_max g)\<rparr>"
    by (simp add: set_limit_def set_base_def Let_def trunc w1 w2)
  show "gas_wf (set_limit limit g)"
    using assms unfolding eq by (auto simp: gas_wf_def spent_def machine_bounds min_def)
qed

lemma set_limit_live: "live f g \<Longrightarrow> 0 \<le> limit \<Longrightarrow> live f (set_limit limit g)"
  using set_limit_spent[of g limit] by (auto simp: live_def)

lemma set_limit_gas_limit: "gas_limit (set_limit limit g) = min limit (gas_max g)"
  by (simp add: set_limit_def set_base_def Let_def)

lemma set_limit_chained:
  assumes "live f g" and "chained f g ms" and "consumed g \<le> limit"
  shows "chained f (set_limit limit g) ms"
proof -
  have g: "gas_wf g" "spent g \<le> i64_max" using assms(1) by (auto simp: live_def)
  have c0: "0 \<le> consumed g" using g by (auto simp: consumed_spent gas_wf_def spent_def machine_bounds)
  then have l: "0 \<le> limit" using assms(3) by simp
  note S = set_limit_spent[OF g l]
  have same: "consumed (set_limit limit g) = consumed g" using g(1) S(1,2) by (simp add: consumed_spent)
  show ?thesis
  proof (cases ms)
    case (Cons m ms')
    have b: "gas_base g \<le> gas_limit g" "gas_limit g \<le> gas_max g"
      using assms(2) Cons by auto
    have "charge_of g \<le> charge_of (set_limit limit g)"
      using assms(3) b unfolding charge_of_def same set_limit_gas_limit
      by (auto simp: saturating_add_u64_def min_def)
    then show ?thesis
      by (intro chained_transfer[OF assms(2)]) (auto simp: S(3,4) set_limit_gas_limit)
  qed simp
qed

lemma try_consume_live:
  assumes "live f g" and "0 \<le> a" and "try_consume a g = (Inr (), g')"
  shows "live (f - truncate_gas a) g'" and "truncate_gas a \<le> f" and "0 \<le> gas_remaining g'"
  using assms try_consume_Ok[of g a g'] by (auto simp: live_def gas_wf_def spent_def)

lemma try_consume_chained:
  assumes "live f g" and "chained f g ms" and "0 \<le> a" and "try_consume a g = (Inr (), g')"
  shows "chained (f - truncate_gas a) g' ms"
proof -
  have wf: "gas_wf g" "gas_wf g'"
    using assms(1) try_consume_live(1)[OF assms(1,3,4)] by (auto simp: live_def)
  note ok = try_consume_Ok[OF wf(1) assms(3,4)]
  have fields: "gas_base g' = gas_base g" "gas_limit g' = gas_limit g" "gas_max g' = gas_max g"
    using assms(4) by (auto simp: try_consume_def Let_def split: if_splits)
  have s: "spent g' = spent g + truncate_gas a" "spent g' \<le> gas_base g"
    using ok fields by (auto simp: spent_def)
  have t: "0 \<le> truncate_gas a" using truncate_gas_bounds[OF assms(3)] by simp
  show ?thesis
  proof (cases ms)
    case (Cons m ms')
    then have "gas_base g \<le> gas_limit g" using assms(2) by simp
    then have "charge_of g = spent g" "charge_of g' = spent g'"
      using charge_of_spent[OF wf(1)] charge_of_spent[OF wf(2)] s t fields by simp_all
    then show ?thesis
      using s fields by (intro chained_transfer[OF assms(2)]) auto
  qed simp
qed

text \<open>A charge that fails lowers no budget, and the meter stays one that its parents can pay for.\<close>

lemma exhausted_charge:
  assumes "gas_wf g" and "chained f g ms" and "0 \<le> a" and "try_consume a g = (Inl e, g')"
  shows "gas_wf g' \<and> chained f g' ms \<and> e = ECancelled"
proof -
  note err = try_consume_Err[OF assms(1,3,4)]
  have fields: "gas_base g' = gas_base g" "gas_limit g' = gas_limit g" "gas_max g' = gas_max g"
    "e = ECancelled"
    using assms(4) by (auto simp: try_consume_def Let_def split: if_splits)
  have "gas_wf g'" "spent g \<le> spent g'" using err by auto
  then have "charge_of g \<le> charge_of g'"
    using consumed_mono[OF assms(1), of g'] fields by (auto simp: charge_of_def)
  then show ?thesis
    using \<open>gas_wf g'\<close> fields by (auto intro: chained_transfer[OF assms(2)])
qed

lemma try_consume_dead:
  assumes "live f g" and "chained f g ms" and "0 \<le> a" and "try_consume a g = (Inl e, g')"
  shows "gas_wf g' \<and> chained f g' ms \<and> e = ECancelled"
  by (rule exhausted_charge[OF _ assms(2,3,4)]) (use assms(1) in \<open>simp add: live_def\<close>)

text \<open>
  What a finished child charges exceeds the rest of its parent's gas by at most one unit, so even
  when that charge fails the budget has paid for the child's work.
\<close>

lemma return_charge_dead:
  assumes "live f g" and "chained f g ms" and "0 \<le> gas_remaining g"
    and "0 \<le> c" "c \<le> gas_remaining g + 1" "c \<le> i64_max" and "try_consume c g = (Inl e, g')"
  shows "gas_wf g' \<and> chained (f - c + 1) g' ms"
proof -
  have wf: "gas_wf g" using assms(1) by (simp add: live_def)
  have c: "truncate_gas c = c" using assms(6) by simp
  have rem: "gas_remaining g' = - 1" "c = gas_remaining g + 1" "g' = g\<lparr>gas_remaining := - 1\<rparr>"
    using assms(3-7) by (auto simp: try_consume_def Let_def c saturating_sub_i64_def machine_bounds
        split: if_splits)
  have wf': "gas_wf g'" using wf assms(3) unfolding rem(3) by (auto simp: gas_wf_def machine_bounds)
  show ?thesis
  proof (cases ms)
    case (Cons m ms')
    have b: "gas_base g \<le> gas_limit g" using assms(2) Cons by simp
    have "charge_of g = spent g"
      using charge_of_spent[OF wf] b assms(3) by (simp add: spent_def)
    moreover have "spent g' = gas_base g + 1" "gas_limit g' = gas_limit g"
      by (simp_all add: rem(3) spent_def)
    then have "gas_base g \<le> charge_of g'"
      using b wf by (auto simp: charge_of_def consumed_spent[OF wf'] gas_wf_def saturating_add_u64_def
          machine_bounds)
    ultimately have "f + charge_of g \<le> f - c + 1 + charge_of g'"
      using rem(2) by (simp add: spent_def)
    then show ?thesis using wf' by (auto intro!: chained_transfer[OF assms(2)] simp: rem(3))
  qed (use wf' in simp)
qed

text \<open>
  The invariant of a meter in a run, with the budget and the parents as its parameters: only
  running out of gas leaves it.
\<close>

definition meter_inv :: "int \<times> 'c gas_consumer list \<Rightarrow> 'c gas_consumer \<Rightarrow> bool" where
  "meter_inv = (\<lambda>(f, ms) g. live f g \<and> chained f g ms)"

definition meter_err :: "int \<times> 'c gas_consumer list \<Rightarrow> cell_error \<Rightarrow> 'c gas_consumer \<Rightarrow> bool" where
  "meter_err = (\<lambda>(f, ms) e g. chained f g ms \<and>
     (if e = ECancelled \<and> gas_remaining g < 0 then gas_wf g else live f g))"

interpretation metered: action_invariant meter_inv meter_err "\<lambda>_. True"
  by unfold_locales (auto simp: meter_inv_def meter_err_def live_def)

lemma try_consume_metered: "0 \<le> a \<Longrightarrow> upholds meter_inv meter_err (try_consume a)"
proof (rule upholdsI)
  fix i :: "int \<times> 'c gas_consumer list" and g :: "'c gas_consumer" and e and g' :: "'c gas_consumer"
  assume a: "0 \<le> a" and i: "meter_inv i g" and r: "try_consume a g = (Inl e, g')"
  then show "meter_err i e g'"
    using try_consume_dead[of "fst i" g "snd i" a e g'] try_consume_Err(4)[of g a e g']
    by (auto simp: meter_inv_def meter_err_def live_def)
next
  fix i :: "int \<times> 'c gas_consumer list" and g :: "'c gas_consumer" and x and g' :: "'c gas_consumer"
  assume a: "0 \<le> a" and i: "meter_inv i g" and r: "try_consume a g = (Inr x, g')"
  then show "meter_inv i g'"
    using try_consume_live(1)[of "fst i" g a g'] try_consume_chained[of "fst i" g "snd i" a g']
      truncate_gas_bounds[OF a] live_mono[of "fst i - truncate_gas a" g' "fst i"]
      chained_mono[of "fst i - truncate_gas a" g' "snd i" "fst i"]
    by (auto simp: meter_inv_def)
qed

lemma meter_inv_update:
  "meter_inv i g \<Longrightarrow> meter_inv i (g\<lparr>loaded_cells := L\<rparr>)"
  "meter_inv i g \<Longrightarrow> meter_inv i (g\<lparr>missing_library := M\<rparr>)"
  "meter_inv i g \<Longrightarrow> meter_inv i (g\<lparr>chksign_counter := c\<rparr>)"
proof -
  have c: "charge_of (g\<lparr>loaded_cells := L\<rparr>) = charge_of g"
    "charge_of (g\<lparr>missing_library := M\<rparr>) = charge_of g"
    "charge_of (g\<lparr>chksign_counter := c\<rparr>) = charge_of g"
    by (simp_all add: charge_of_def consumed_def)
  show "meter_inv i g \<Longrightarrow> meter_inv i (g\<lparr>loaded_cells := L\<rparr>)"
    "meter_inv i g \<Longrightarrow> meter_inv i (g\<lparr>missing_library := M\<rparr>)"
    "meter_inv i g \<Longrightarrow> meter_inv i (g\<lparr>chksign_counter := c\<rparr>)"
    by (auto simp: meter_inv_def live_def gas_wf_def spent_def c elim!: chained_transfer)
qed

lemma meter_inv_free:
  "meter_inv i g \<Longrightarrow> meter_inv i (g\<lparr>get_extra_balance_counter := n\<rparr>)"
  "meter_inv i g \<Longrightarrow> 0 \<le> a \<Longrightarrow> meter_inv i (consume_free_gas a g)"
proof -
  have c: "charge_of (g\<lparr>get_extra_balance_counter := n\<rparr>) = charge_of g"
    "charge_of (consume_free_gas a g) = charge_of g"
    by (simp_all add: charge_of_def consumed_def consume_free_gas_def)
  show "meter_inv i g \<Longrightarrow> meter_inv i (g\<lparr>get_extra_balance_counter := n\<rparr>)"
    by (auto simp: meter_inv_def live_def gas_wf_def spent_def c elim!: chained_transfer)
  have f: "gas_base (consume_free_gas a g) = gas_base g" "gas_max (consume_free_gas a g) = gas_max g"
    "gas_limit (consume_free_gas a g) = gas_limit g"
    by (simp_all add: consume_free_gas_def)
  show "meter_inv i g \<Longrightarrow> 0 \<le> a \<Longrightarrow> meter_inv i (consume_free_gas a g)"
    using consume_free_gas_wf[of g a] by (auto simp: meter_inv_def live_def c f elim!: chained_transfer)
qed

lemmas metered_rules = metered.upholds_rules metered.upholds_fail metered.upholds_lift_res
  metered.upholds_modify try_consume_metered meter_inv_update

lemma stack_gas_metered:
  "upholds meter_inv meter_err (try_consume_stack_gas s)"
  "upholds meter_inv meter_err (try_consume_stack_depth_gas d)"
  "upholds meter_inv meter_err (try_consume_tuple_gas n)"
  "upholds meter_inv meter_err try_consume_exception_gas"
  "upholds meter_inv meter_err try_consume_implicit_jmpref_gas"
  "upholds meter_inv meter_err try_consume_implicit_ret_gas"
  by (auto simp: try_consume_stack_gas_def try_consume_stack_depth_gas_def try_consume_tuple_gas_def
      try_consume_exception_gas_def try_consume_implicit_jmpref_gas_def
      try_consume_implicit_ret_gas_def gas_prices intro!: metered_rules split: option.splits)

lemma signature_gas_metered: "upholds meter_inv meter_err try_consume_check_signature_gas"
  unfolding try_consume_check_signature_gas_def
  by (intro metered_rules meter_inv_free) (simp_all add: gas_prices)

lemma visit_metered: "upholds meter_inv meter_err (visit_cell A c)"
  unfolding visit_cell_def by (intro metered_rules)

lemma visit_pay_metered: "upholds meter_inv meter_err (bnd (visit_cell A c) try_consume)"
proof (rule upholdsI)
  fix i and g :: "'a gas_consumer" and e g' x
  assume i: "meter_inv i g"
  obtain p h where v: "visit_cell A c g = (Inr p, h)" and p: "0 \<le> p"
    by (simp add: visit_cell_def thn_def gas_prices)
  have h: "meter_inv i h" by (rule upholds_InrD[OF visit_metered i v])
  note t = try_consume_metered[OF p]
  show "bnd (visit_cell A c) try_consume g = (Inl e, g') \<Longrightarrow> meter_err i e g'"
    using upholds_InlD[OF t h] v by simp
  show "bnd (visit_cell A c) try_consume g = (Inr x, g') \<Longrightarrow> meter_inv i g'"
    using upholds_InrD[OF t h] v by simp
qed

lemma load_loop_metered: "upholds meter_inv meter_err (load_cell_loop A mode l c)"
proof (induction A mode l c rule: load_cell_loop.induct)
  case (1 A mode l c)
  have charge: "upholds meter_inv meter_err (if fst mode then bnd (visit_cell A c) try_consume else ret ())"
    by (simp add: metered.upholds_ret visit_pay_metered)
  show ?case
    unfolding load_cell_loop.simps[of A mode l c]
    apply (rule metered.upholds_thn[OF charge])
    apply (cases "cell_kind A c"; simp only: cell_type.case)
    apply (intro metered_rules TrueI | assumption | (rule 1; simp))+
    done
qed

lemma load_cell_metered: "upholds meter_inv meter_err (load_cell_as_slice A c mode)"
  unfolding load_cell_as_slice_def load_cell_impl_def by (intro metered_rules load_loop_metered)

text \<open>The capped consumer keeps the invariant of the main one.\<close>

definition limited_inv :: "int \<times> 'c gas_consumer list \<Rightarrow> int \<times> 'c gas_consumer \<Rightarrow> bool" where
  "limited_inv i p \<longleftrightarrow> 0 \<le> fst p \<and> meter_inv i (snd p)"

definition limited_err :: "int \<times> 'c gas_consumer list \<Rightarrow> cell_error \<Rightarrow> int \<times> 'c gas_consumer \<Rightarrow> bool" where
  "limited_err i e p \<longleftrightarrow> meter_err i e (snd p) \<and> (e \<noteq> ECancelled \<longrightarrow> 0 \<le> fst p)"

interpretation limited: action_invariant limited_inv limited_err "\<lambda>_. True"
  by unfold_locales (auto simp: limited_inv_def limited_err_def meter_inv_def meter_err_def live_def)

lemma limited_consume_metered:
  assumes a: "0 \<le> a"
  shows "upholds limited_inv limited_err (limited_try_consume a)"
proof (rule upholdsI)
  fix i :: "int \<times> 'c gas_consumer list" and p q :: "int \<times> 'c gas_consumer" and e and x :: unit
  assume i: "limited_inv i p"
  obtain r g where p: "p = (r, g)" by (cases p)
  define n where "n = min (truncate_gas a) r"
  have n: "0 \<le> n" "n \<le> r" "n \<le> truncate_gas a"
    using i p truncate_gas_bounds[OF a] by (auto simp: limited_inv_def n_def)
  have g: "meter_inv i g" using i p by (simp add: limited_inv_def)
  obtain t g' where t: "try_consume n g = (t, g')" by fastforce
  note m = try_consume_metered[OF n(1)]
  show "limited_try_consume a p = (Inl e, q) \<Longrightarrow> limited_err i e q"
    using upholds_InlD[OF m g, of e g'] t p i
    by (auto simp: limited_try_consume_eq Let_def n_def[symmetric] limited_err_def limited_inv_def split: sum.splits)
  show "limited_try_consume a p = (Inr x, q) \<Longrightarrow> limited_inv i q"
    using upholds_InrD[OF m g, of "()" g'] t p n meter_inv_free(2)[of i g' "truncate_gas a - n"]
    by (auto simp: limited_try_consume_eq Let_def n_def[symmetric] limited_inv_def split: sum.splits if_splits)
qed

lemma limited_visit_metered:
  "upholds limited_inv limited_err
     (bnd (zoom snd (\<lambda>g (r, _). (r, g)) id (visit_cell A c)) limited_try_consume)"
proof (rule upholdsI)
  fix i and p q :: "int \<times> 'a gas_consumer" and e x
  assume i: "limited_inv i p"
  obtain w g where v: "visit_cell A c (snd p) = (Inr w, g)" and w: "0 \<le> w"
    by (simp add: visit_cell_def thn_def gas_prices)
  have g: "limited_inv i (fst p, g)"
    using upholds_InrD[OF visit_metered _ v] i by (simp add: limited_inv_def)
  have z: "zoom snd (\<lambda>g (r, _). (r, g)) id (visit_cell A c) p = (Inr w, (fst p, g))"
    by (simp add: zoom_def v split: prod.splits)
  note t = limited_consume_metered[OF w]
  show "bnd (zoom snd (\<lambda>g (r, _). (r, g)) id (visit_cell A c)) limited_try_consume p = (Inl e, q) \<Longrightarrow> limited_err i e q"
    using upholds_InlD[OF t g] z by simp
  show "bnd (zoom snd (\<lambda>g (r, _). (r, g)) id (visit_cell A c)) limited_try_consume p = (Inr x, q) \<Longrightarrow> limited_inv i q"
    using upholds_InrD[OF t g] z by simp
qed

lemma limited_load_metered: "upholds limited_inv limited_err (limited_load_loop A mode l c)"
proof (induction A mode l c rule: limited_load_loop.induct)
  case (1 A mode l c)
  have charge: "upholds limited_inv limited_err (if fst mode then
      bnd (zoom snd (\<lambda>g (r, _). (r, g)) id (visit_cell A c)) limited_try_consume else ret ())"
    by (simp add: limited.upholds_ret limited_visit_metered)
  have miss: "upholds limited_inv limited_err (modify (\<lambda>(r, g). (r, g\<lparr>missing_library := Some h\<rparr>)))" for h
    by (rule limited.upholds_modify) (auto simp: limited_inv_def meter_inv_update)
  show ?case
    unfolding limited_load_loop.simps[of A mode l c]
    apply (rule limited.upholds_thn[OF charge])
    apply (cases "cell_kind A c"; simp only: cell_type.case)
    apply (intro limited.upholds_rules limited.upholds_fail limited.upholds_lift_res miss TrueI
        | assumption | (rule 1; simp))+
    done
qed

section \<open>Metered loading\<close>

lemma visit_cell_eq:
  "visit_cell A c g = (Inr (if cell_repr_hash A c \<notin> loaded_cells g then NEW_CELL_GAS else OLD_CELL_GAS),
     g\<lparr>loaded_cells := insert (cell_repr_hash A c) (loaded_cells g)\<rparr>)"
  by (simp add: visit_cell_def thn_def)

text \<open>
  Loading an ordinary cell in full mode costs \<open>NEW_CELL_GAS\<close> the first time and \<open>OLD_CELL_GAS\<close>
  afterwards, and returns the cell itself.
\<close>

lemma load_ordinary:
  assumes "cell_kind A c = Ordinary" and "gas_wf g"
    and "price = (if cell_repr_hash A c \<in> loaded_cells g then OLD_CELL_GAS else NEW_CELL_GAS)"
  shows "load_cell_impl A (True, True) c g =
    (if price \<le> gas_remaining g
     then (Inr c, g\<lparr>loaded_cells := insert (cell_repr_hash A c) (loaded_cells g),
                   gas_remaining := gas_remaining g - price\<rparr>)
     else (Inl ECancelled, g\<lparr>loaded_cells := insert (cell_repr_hash A c) (loaded_cells g),
                   gas_remaining := max i64_min (gas_remaining g - price)\<rparr>))"
proof -
  let ?g = "g\<lparr>loaded_cells := insert (cell_repr_hash A c) (loaded_cells g)\<rparr>"
  have wf: "gas_wf ?g" using assms(2) by (simp add: gas_wf_def)
  have p: "0 \<le> price" "truncate_gas price = price"
    using assms(3) by (simp_all add: gas_prices truncate_gas_def machine_bounds)
  show ?thesis
    using assms(1,3) try_consume_eq[OF wf p(1)] p assms(2)
    by (auto simp: load_cell_impl_def load_cell_loop.simps thn_def bnd_def visit_cell_eq Let_def
        gas_wf_def max_def machine_bounds)
qed

section \<open>Deriving and restoring a meter\<close>

lemma derive_shared:
  assumes "0 \<le> gas_remaining g" and "\<not> dp_isolate p"
  shows "derive p g = (Inr (Shared (g\<lparr>loaded_cells := {}\<rparr>)),
    g\<lparr>gas_max := min (dp_gas_max p) (gas_remaining g), gas_limit := min (dp_gas_limit p) (gas_remaining g),
      gas_credit := 0, gas_base := min (dp_gas_limit p) (gas_remaining g),
      gas_remaining := min (dp_gas_limit p) (gas_remaining g)\<rparr>)"
  using assms by (simp add: derive_def Let_def)

lemma restore_derive_shared:
  assumes "\<not> dp_isolate p" and "derive p g = (Inr parent, child)"
  shows "snd (restore parent child) = g"
proof -
  have "0 \<le> gas_remaining g"
    using assms by (cases "0 \<le> gas_remaining g") (auto simp: derive_def)
  with assms derive_shared[of g p] show ?thesis
    by (auto simp: restore_def Let_def)
qed

fun meter :: "'c parent_gas \<Rightarrow> 'c gas_consumer" where
  "meter (Isolated g) = g"
| "meter (Shared g) = g"

lemma charge_of_fresh: "gas_wf g \<Longrightarrow> spent g = 0 \<Longrightarrow> charge_of g = 0"
  using charge_of_spent[of g] by (simp add: gas_wf_def)

text \<open>A derived meter is live within the budget of its parent, which it leaves intact.\<close>

lemma derive_shared_chained:
  assumes "meter_inv (f, ms) g" and "0 \<le> dp_gas_limit p" "dp_gas_limit p \<le> dp_gas_max p"
    and "\<not> dp_isolate p" and "derive p g = (Inr parent, child)"
  shows "meter_inv (f + 2, meter parent # ms) child"
proof -
  have g: "live f g" "chained f g ms" using assms(1) by (auto simp: meter_inv_def)
  have r: "0 \<le> gas_remaining g"
    using assms(4,5) by (cases "0 \<le> gas_remaining g") (auto simp: derive_def)
  note D = derive_shared[OF r assms(4)]
  have wf: "gas_wf child" "spent child = 0" "live f child" "gas_base child = gas_limit child"
    "gas_limit child \<le> gas_max child" "gas_max child \<le> gas_remaining g"
    using assms(2,3,5) D r g(1) by (auto simp: gas_wf_def spent_def live_def min_def machine_bounds)
  have par: "meter parent = g\<lparr>loaded_cells := {}\<rparr>" using assms(5) D by auto
  have "meter_inv (f, ms) (meter parent)"
    unfolding par by (rule meter_inv_update(1)[OF assms(1)])
  with wf charge_of_fresh[OF wf(1,2)] live_mono[of f child "f + 2"] show ?thesis
    by (auto simp: meter_inv_def par)
qed

lemma derive_isolated_chained:
  assumes "meter_inv (f, ms) g" and "0 \<le> dp_gas_limit p" "dp_gas_limit p \<le> dp_gas_max p"
    and "dp_isolate p" and "derive p g = (Inr parent, child)"
  shows "meter_inv (f + 2, meter parent # ms) child"
proof -
  have free: "0 \<le> free_gas_consumed g" using assms(1) by (auto simp: meter_inv_def live_def gas_wf_def)
  from assms(4,5) obtain h where h: "try_consume (free_gas_consumed g) g = (Inr (), h)"
    and r: "0 \<le> gas_remaining h"
    and par: "parent = Isolated (h\<lparr>chksign_counter := 0, free_gas_consumed := 0,
                                   get_extra_balance_counter := 0\<rparr>)" (is "_ = Isolated ?p")
    and ch: "child = with_libraries \<lparr>gp_max = min (dp_gas_max p) (gas_remaining h),
        gp_limit = min (dp_gas_limit p) (gas_remaining h), gp_credit = 0, gp_price = gas_price h\<rparr> (libraries h)"
    by (auto simp: derive_def bnd_eq_Inr_iff thn_eq_Inr_iff zoom_def vm_ensure_def ensure_def
        split: prod.splits if_splits sum.splits)
  have hi: "meter_inv (f, ms) h" by (rule upholds_InrD[OF try_consume_metered[OF free] assms(1) h])
  have ce: "charge_of ?p = charge_of h" by (simp add: charge_of_def consumed_def)
  have hl: "live f h" "chained f h ms" using hi by (auto simp: meter_inv_def)
  then have p: "live f ?p" "chained f ?p ms"
    by (auto simp: live_def gas_wf_def spent_def machine_bounds ce elim!: chained_transfer)
  have b: "gas_remaining h \<le> i64_max" "gas_remaining h \<le> f" "0 < gas_price h"
    using hl(1) by (auto simp: live_def gas_wf_def spent_def)
  have lim: "truncate_gas (saturating_add_u64 (min (dp_gas_limit p) (gas_remaining h)) 0)
      = min (dp_gas_limit p) (gas_remaining h)"
    "truncate_gas (min (dp_gas_limit p) (gas_remaining h)) = min (dp_gas_limit p) (gas_remaining h)"
    "truncate_gas (min (dp_gas_max p) (gas_remaining h)) = min (dp_gas_max p) (gas_remaining h)"
    using b by (auto simp: truncate_gas_def saturating_add_u64_def machine_bounds min_def)
  have zero: "truncate_gas 0 = 0" by (simp add: truncate_gas_def machine_bounds)
  have ch_fields: "gas_base child = min (dp_gas_limit p) (gas_remaining h)"
    "gas_remaining child = gas_base child" "gas_limit child = gas_base child"
    "gas_max child = min (dp_gas_max p) (gas_remaining h)" "gas_credit child = 0"
    "free_gas_consumed child = 0" "0 < gas_price child"
    using b(3) by (simp_all add: ch with_libraries_def Let_def lim zero)
  have wf: "gas_wf child" "spent child = 0" "live f child" "gas_base child = gas_limit child"
    "gas_limit child \<le> gas_max child" "gas_max child \<le> gas_remaining h"
    using assms(2,3) b r ch_fields by (auto simp: gas_wf_def spent_def live_def machine_bounds)
  from wf charge_of_fresh[OF wf(1,2)] live_mono[of f child "f + 2"] p par show ?thesis
    by (auto simp: meter_inv_def)
qed

lemma derive_error:
  assumes "meter_inv (f, ms) g" and "derive p g = (Inl e, g')"
  shows "gas_wf g' \<and> chained f g' ms \<and> (\<exists>v. e = VmErr v \<and> is_out_of_gas v)"
proof -
  have free: "0 \<le> free_gas_consumed g" using assms(1) by (auto simp: meter_inv_def live_def gas_wf_def)
  note Err = upholds_InlD[OF try_consume_metered[OF free] assms(1)]
  note Ok = upholds_InrD[OF try_consume_metered[OF free] assms(1)]
  obtain r h where h: "try_consume (free_gas_consumed g) g = (r, h)" by fastforce
  show ?thesis
    using assms Err Ok h
    by (cases r; cases "dp_isolate p"; cases "0 \<le> gas_remaining g"; cases "0 \<le> gas_remaining h")
      (auto simp: derive_def bnd_def thn_def zoom_def meter_inv_def meter_err_def live_def Let_def
        cell_fault_def try_consume_def split: if_splits)
qed

text \<open>Returning to the parent: its meter is live for the budget plus the charge it now pays.\<close>

lemma restore_chained:
  assumes "gas_wf g" and "chained f g (meter parent # ms)" and "restore parent g = (meta, g')"
  shows "meter_inv (f - 2 + charge_of g, ms) g'"
    and "min (rg_gas_consumed meta) (saturating_add_u64 (rg_gas_limit meta) 1) = charge_of g"
proof -
  have m: "live (f - 2 + charge_of g) (meter parent)" "chained (f - 2 + charge_of g) (meter parent) ms"
    using assms(2) by auto
  have fields: "gas_base g' = gas_base (meter parent)" "gas_remaining g' = gas_remaining (meter parent)"
    "gas_limit g' = gas_limit (meter parent)" "gas_max g' = gas_max (meter parent)"
    "gas_credit g' = gas_credit (meter parent)" "gas_price g' = gas_price (meter parent)"
    "free_gas_consumed g' = free_gas_consumed g"
    using assms(3) by (cases parent; auto simp: restore_def Let_def)+
  have "charge_of g' = charge_of (meter parent)" by (simp add: charge_of_def consumed_def fields)
  then show "meter_inv (f - 2 + charge_of g, ms) g'"
    using m assms(1) fields
    by (auto simp: meter_inv_def live_def gas_wf_def spent_def elim!: chained_transfer)
  show "min (rg_gas_consumed meta) (saturating_add_u64 (rg_gas_limit meta) 1) = charge_of g"
    using assms(3) by (auto simp: restore_def Let_def charge_of_def)
qed

end
