(* ===== verification/Machine.thy ===== *)
theory Machine
  imports Control Gas
begin

text \<open>
  \<open>vm/src/state.rs\<close> and the \<open>jump\<close> methods of \<open>vm/src/cont.rs\<close>: the execution state, calls,
  jumps and returns between continuations, exceptions, commits, the interpreter loop and the
  return from a nested VM. The dispatch of an opcode is the argument \<open>D\<close> of the loop; the
  theory \<open>Codepage\<close> instantiates it.
\<close>

section \<open>State\<close>

datatype vm_version = Everscale nat | Ton nat

text \<open>\<open>version.is_ton(lo..)\<close> and \<open>version.require_ton(lo..)\<close>.\<close>

definition is_ton :: "nat \<Rightarrow> vm_version \<Rightarrow> bool" where
  "is_ton lo v = (case v of Ton n \<Rightarrow> lo \<le> n | Everscale _ \<Rightarrow> False)"

definition require_ton :: "nat \<Rightarrow> vm_version \<Rightarrow> vm_error + unit" where
  "require_ton lo v = (if is_ton lo v then Inr () else Inl InvalidOpcode)"

record behaviour_modifiers =
  stop_on_accept :: bool
  chksig_always_succeed :: bool
  signature_with_id :: "int option"

record 'c committed =
  com_c4 :: 'c
  com_c5 :: 'c

record ('c, 's, 'b) parent_vm_state =
  p_code :: 's
  p_stack :: "('c, 's, 'b) stk"
  p_cr :: "('c, 's, 'b) control_regs"
  p_committed_state :: "'c committed option"
  p_steps :: nat
  p_quit0 :: "('c, 's, 'b) cont"
  p_quit1 :: "('c, 's, 'b) cont"
  p_gas :: "'c parent_gas"
  p_cp :: nat
  p_return_data :: bool
  p_return_actions :: bool
  p_return_gas :: bool
  p_return_values :: "nat option"

text \<open>
  The chain of boxed parents is the list \<open>parents\<close>, the immediate parent first. \<open>cp\<close> is the
  identifier of the current code page; \<open>debug\<close> output is not part of the state.
\<close>

record ('c, 's, 'b) vm_state =
  code :: 's
  throw_on_code_access :: bool
  stack :: "('c, 's, 'b) stk"
  cr :: "('c, 's, 'b) control_regs"
  committed_state :: "'c committed option"
  steps :: nat
  quit0 :: "('c, 's, 'b) cont"
  quit1 :: "('c, 's, 'b) cont"
  gas :: "'c gas_consumer"
  cp :: nat
  modifiers :: behaviour_modifiers
  version :: vm_version
  parents :: "('c, 's, 'b) parent_vm_state list"

type_synonym ('c, 's, 'b, 'a) vm = "(('c, 's, 'b) vm_state, fault, 'a) act"

definition on_stack :: "(('c, 's, 'b) stk, fault, 'a) act \<Rightarrow> ('c, 's, 'b, 'a) vm" where
  "on_stack m = zoom stack (\<lambda>s st. st\<lparr>stack := s\<rparr>) id m"

definition on_gas :: "('c, 'a) gas_act \<Rightarrow> ('c, 's, 'b, 'a) vm" where
  "on_gas m = zoom gas (\<lambda>g st. st\<lparr>gas := g\<rparr>) cell_fault m"

definition on_cr :: "(('c, 's, 'b) control_regs, fault, 'a) act \<Rightarrow> ('c, 's, 'b, 'a) vm" where
  "on_cr m = zoom cr (\<lambda>r st. st\<lparr>cr := r\<rparr>) id m"

section \<open>Building the initial state\<close>

datatype init_selector = SelNone | UseCode bool

record ('c, 's, 'b) vm_builder =
  b_code :: "'s option"
  b_data :: "'c option"
  b_stack :: "('c, 's, 'b) stk"
  b_libraries :: "'c library_provider option"
  b_c7 :: "('c, 's, 'b) sval list option"
  b_gas :: gas_params
  b_init_selector :: init_selector
  b_version :: "vm_version option"
  b_modifiers :: behaviour_modifiers

definition DEFAULT_VERSION :: vm_version where "DEFAULT_VERSION = Ton 11"

definition build :: "('c, 's) api \<Rightarrow> ('c, 's, 'b) vm_builder \<Rightarrow> ('c, 's, 'b) vm_state" where
  "build A b =
     (let (start, throw) = (case b_code b of Some k \<Rightarrow> (k, False) | None \<Rightarrow> (slice_default A, True));
          (c3, stk0) = (case b_init_selector b of
              SelNone \<Rightarrow> (QuitCont 11, b_stack b)
            | UseCode push0 \<Rightarrow> (ord_simple start 0, if push0 then b_stack b @ [VInt 0] else b_stack b))
      in \<lparr>code = start, throw_on_code_access = throw, stack = stk0,
          cr = ControlRegs (Some (QuitCont 0)) (Some (QuitCont 1)) (Some ExcQuitCont) (Some c3)
                 (Some (case b_data b of Some d \<Rightarrow> d | None \<Rightarrow> cell_empty A)) (Some (cell_empty A))
                 (Some (case b_c7 b of Some t \<Rightarrow> t | None \<Rightarrow> [])),
          committed_state = None, steps = 0, quit0 = QuitCont 0, quit1 = QuitCont 1,
          gas = with_libraries (b_gas b) (case b_libraries b of Some l \<Rightarrow> l | None \<Rightarrow> no_libraries),
          cp = 0, modifiers = b_modifiers b,
          version = (case b_version b of Some v \<Rightarrow> v | None \<Rightarrow> DEFAULT_VERSION),
          parents = []\<rparr>)"

section \<open>Commit, registers and code page\<close>

definition MAX_DATA_DEPTH :: nat where "MAX_DATA_DEPTH = 512"

definition try_commit :: "('c, 's) api \<Rightarrow> ('c, 's, 'b) vm_state \<Rightarrow> bool \<times> ('c, 's, 'b) vm_state" where
  "try_commit A st = (case (get_dreg 0 (cr st), get_dreg 1 (cr st)) of
      (Some c4, Some c5) \<Rightarrow>
        if cell_level A c4 = 0 \<and> cell_level A c5 = 0
           \<and> cell_repr_depth A c4 \<le> MAX_DATA_DEPTH \<and> cell_repr_depth A c5 \<le> MAX_DATA_DEPTH
        then (True, st\<lparr>committed_state := Some \<lparr>com_c4 = c4, com_c5 = c5\<rparr>\<rparr>)
        else (False, st)
    | _ \<Rightarrow> (False, st))"

definition force_commit :: "('c, 's) api \<Rightarrow> ('c, 's, 'b, unit) vm" where
  "force_commit A st = (case try_commit A st of
      (True, st') \<Rightarrow> (Inr (), st')
    | (False, st') \<Rightarrow> (Inl (cell_fault ECellOverflow), st'))"

definition take_stack :: "('c, 's, 'b, ('c, 's, 'b) stk) vm" where
  "take_stack = bnd (gets stack) (\<lambda>s. thn (modify (\<lambda>st. st\<lparr>stack := []\<rparr>)) (ret s))"

definition set_c0 :: "('c, 's, 'b) cont \<Rightarrow> ('c, 's, 'b, unit) vm" where
  "set_c0 k = modify (\<lambda>st. st\<lparr>cr := put_c 0 (Some k) (cr st)\<rparr>)"

text \<open>\<open>codepage\<close> of \<open>vm/src/instr/mod.rs\<close>: only code page 0 exists.\<close>

definition codepage :: "nat \<Rightarrow> nat option" where
  "codepage n = (if n = 0 then Some 0 else None)"

definition force_cp :: "nat \<Rightarrow> ('c, 's, 'b, unit) vm" where
  "force_cp n = (case codepage n of
      Some p \<Rightarrow> modify (\<lambda>st. st\<lparr>cp := p\<rparr>)
    | None \<Rightarrow> vm_fail InvalidOpcode)"

definition set_code :: "'s \<Rightarrow> nat \<Rightarrow> ('c, 's, 'b, unit) vm" where
  "set_code k n = thn (modify (\<lambda>st. st\<lparr>code := k\<rparr>)) (force_cp n)"

definition adjust_cr :: "('c, 's, 'b) control_regs \<Rightarrow> ('c, 's, 'b, unit) vm" where
  "adjust_cr save = modify (\<lambda>st. st\<lparr>cr := merge (cr st) save\<rparr>)"

definition preclear_cr :: "('c, 's, 'b) control_regs \<Rightarrow> ('c, 's, 'b, unit) vm" where
  "preclear_cr save = modify (\<lambda>st. st\<lparr>cr := preclear (cr st) save\<rparr>)"

text \<open>\<open>take_c0\<close>, \<open>take_c1\<close>: the register is replaced by the quit continuation first.\<close>

definition take_c0 :: "('c, 's, 'b, ('c, 's, 'b) cont) vm" where
  "take_c0 = bnd (gets (\<lambda>st. get_c 0 (cr st))) (\<lambda>old.
     thn (modify (\<lambda>st. st\<lparr>cr := put_c 0 (Some (quit0 st)) (cr st)\<rparr>))
         (case old of Some k \<Rightarrow> ret k | None \<Rightarrow> vm_fail InvalidOpcode))"

definition take_c1 :: "('c, 's, 'b, ('c, 's, 'b) cont) vm" where
  "take_c1 = bnd (gets (\<lambda>st. get_c 1 (cr st))) (\<lambda>old.
     thn (modify (\<lambda>st. st\<lparr>cr := put_c 1 (Some (quit1 st)) (cr st)\<rparr>))
         (case old of Some k \<Rightarrow> ret k | None \<Rightarrow> vm_fail InvalidOpcode))"

section \<open>Entering a continuation\<close>

text \<open>
  \<open>Cont::jump\<close>: the exit code is an out-parameter, so the action returns it with the next
  continuation. \<open>ExcQuitCont\<close> turns a failed pop into the number of its exception.
\<close>

definition exc_quit_number :: "fault + nat \<Rightarrow> int option" where
  "exc_quit_number r = (case r of
      Inr n \<Rightarrow> Some (int n)
    | Inl (VmErr e) \<Rightarrow> Some (exception_code (as_exception e))
    | Inl Panic \<Rightarrow> None)"

fun cont_jump :: "('c, 's, 'b) cont \<Rightarrow> int \<Rightarrow> ('c, 's, 'b, int \<times> ('c, 's, 'b) cont option) vm" where
  "cont_jump (QuitCont n) ec = ret (not_i32 n, None)"
| "cont_jump ExcQuitCont ec = (\<lambda>st. case pop_smallint_range 0 0xffff (stack st) of
     (r, s) \<Rightarrow> (case exc_quit_number r of
        Some n \<Rightarrow> (Inr (not_i32 n, None), st\<lparr>stack := s\<rparr>)
      | None \<Rightarrow> (Inl Panic, st\<lparr>stack := s\<rparr>)))"
| "cont_jump (PushIntCont v next) ec = thn (on_stack (push_int v)) (ret (ec, Some next))"
| "cont_jump (RepeatCont cnt body after) ec =
     (if cnt = 0 then ret (ec, Some after)
      else if has_c0 body then ret (ec, Some body)
      else thn (set_c0 (RepeatCont (cnt - 1) body after)) (ret (ec, Some body)))"
| "cont_jump (AgainCont body) ec =
     thn (if has_c0 body then ret () else set_c0 (AgainCont body)) (ret (ec, Some body))"
| "cont_jump (UntilCont body after) ec =
     bnd (on_stack pop_bool) (\<lambda>terminated.
     if terminated then ret (ec, Some after)
     else thn (if has_c0 body then ret () else set_c0 (UntilCont body after)) (ret (ec, Some body)))"
| "cont_jump (WhileCont check_cond cond body after) ec =
     bnd (if check_cond
          then bnd (on_stack pop_bool) (\<lambda>b. ret (if b then Some body else None))
          else ret (Some cond)) (\<lambda>next.
     case next of
       None \<Rightarrow> ret (ec, Some after)
     | Some k \<Rightarrow> thn (if has_c0 k then ret () else set_c0 (WhileCont (\<not> check_cond) cond body after))
                     (ret (ec, Some k)))"
| "cont_jump (ArgContExt d ext) ec =
     thn (adjust_cr (cd_save d))
    (thn (case cd_cp d of Some p \<Rightarrow> force_cp p | None \<Rightarrow> ret ()) (ret (ec, Some ext)))"
| "cont_jump (OrdCont d k) ec =
     thn (adjust_cr (cd_save d))
    (case cd_cp d of
       None \<Rightarrow> vm_fail InvalidOpcode
     | Some p \<Rightarrow> thn (set_code k p) (ret (ec, None)))"

text \<open>
  \<open>adjust_jump_cont\<close>: moves arguments between the current stack and the one the continuation
  carries. The code takes that stack out of a uniquely owned continuation and clones it
  otherwise; the continuation is not looked at for its stack again, so the model keeps it.
\<close>

definition pass_stack :: "('c, 's, 'b) stk \<Rightarrow> nat \<Rightarrow> ('c, 's, 'b, unit) vm" where
  "pass_stack cont_stack next_depth st =
     (case move_from_stack next_depth (cont_stack, stack st) of
        (Inl e, (_, s)) \<Rightarrow> (Inl e, st\<lparr>stack := s\<rparr>)
      | (Inr _, (cs, s)) \<Rightarrow>
          thn (on_gas (try_consume_stack_gas (Some cs))) (modify (\<lambda>st. st\<lparr>stack := cs\<rparr>))
            (st\<lparr>stack := s\<rparr>))"

definition opt_nargs :: "nat option \<Rightarrow> nat" where
  "opt_nargs n = (case n of Some k \<Rightarrow> k | None \<Rightarrow> 0)"

definition check_args :: "nat option \<Rightarrow> nat option \<Rightarrow> nat \<Rightarrow> ('c, 's, 'b, unit) vm" where
  "check_args pass_args nargs current_depth =
     thn (vm_ensure (opt_nargs pass_args \<le> current_depth \<and> opt_nargs nargs \<le> current_depth)
            (StackUnderflow (max (opt_nargs pass_args) (opt_nargs nargs))))
         (case pass_args of
            Some p \<Rightarrow> vm_ensure (opt_nargs nargs \<le> p) (StackUnderflow p)
          | None \<Rightarrow> ret ())"

definition adjust_jump_cont :: "('c, 's, 'b) cont \<Rightarrow> nat option \<Rightarrow> ('c, 's, 'b, unit) vm" where
  "adjust_jump_cont k pass_args = (case get_control_data k of
      Some d \<Rightarrow>
        bnd (gets (depth \<circ> stack)) (\<lambda>current_depth.
        thn (check_args pass_args (cd_nargs d) current_depth)
       (thn (preclear_cr (cd_save d))
       (let next_depth = (case cd_nargs d of Some n \<Rightarrow> n
                          | None \<Rightarrow> (case pass_args of Some p \<Rightarrow> p | None \<Rightarrow> current_depth)) in
        if cd_stack d \<noteq> None \<and> cd_stack d \<noteq> Some []
        then pass_stack (the (cd_stack d)) next_depth
        else if next_depth < current_depth
        then thn (on_stack (drop_bottom (current_depth - next_depth)))
                 (on_gas (try_consume_stack_depth_gas next_depth))
        else ret ())))
    | None \<Rightarrow> (case pass_args of
        None \<Rightarrow> ret ()
      | Some p \<Rightarrow>
          bnd (gets (depth \<circ> stack)) (\<lambda>d.
          if d < p then vm_fail (StackUnderflow p)
          else if d - p > 0
          then thn (on_stack (drop_bottom (d - p))) (on_gas (try_consume_stack_depth_gas p))
          else ret ())))"

definition needs_adjust :: "('c, 's, 'b) cont \<Rightarrow> bool" where
  "needs_adjust k = (case get_control_data k of
      Some d \<Rightarrow> cd_stack d \<noteq> None \<or> cd_nargs d \<noteq> None
    | None \<Rightarrow> False)"

text \<open>One turn of the loop of \<open>do_jump_to\<close> after a continuation named its successor.\<close>

definition enter_next :: "nat \<Rightarrow> ('c, 's, 'b) cont \<Rightarrow> ('c, 's, 'b, unit) vm" where
  "enter_next cnt k =
     thn (if cnt > FREE_NESTED_CONT_JUMP then on_gas (try_consume 1) else ret ())
         (if needs_adjust k then adjust_jump_cont k None else ret ())"

lemma cont_jump_size:
  "cont_jump k ec st = (Inr (ec', Some k'), st') \<Longrightarrow> size k' < size k"
  by (cases k)
    (auto simp: thn_eq_Inr_iff bnd_eq_Inr_iff split: if_splits option.splits prod.splits)

text \<open>
  The \<open>while\<close> loop of \<open>do_jump_to\<close> ends: each continuation hands over to a part of itself.
\<close>

function do_jump_loop :: "nat \<Rightarrow> int \<Rightarrow> ('c, 's, 'b) cont \<Rightarrow> ('c, 's, 'b, int) vm" where
  "do_jump_loop cnt ec k st = (case cont_jump k ec st of
      (Inl e, st1) \<Rightarrow> (Inl e, st1)
    | (Inr (ec', None), st1) \<Rightarrow> (Inr ec', st1)
    | (Inr (ec', Some k'), st1) \<Rightarrow> (case enter_next (cnt + 1) k' st1 of
          (Inl e, st2) \<Rightarrow> (Inl e, st2)
        | (Inr _, st2) \<Rightarrow> do_jump_loop (cnt + 1) ec' k' st2))"
  by pat_completeness auto
termination
  by (relation "measure (\<lambda>(cnt, ec, k, st). size k)") (auto dest: cont_jump_size[OF sym])

declare do_jump_loop.simps [simp del]

definition do_jump_to :: "('c, 's, 'b) cont \<Rightarrow> ('c, 's, 'b, int) vm" where
  "do_jump_to k = do_jump_loop 0 0 k"

section \<open>Jumps, calls and returns\<close>

definition jump_ext :: "('c, 's, 'b) cont \<Rightarrow> nat option \<Rightarrow> ('c, 's, 'b, int) vm" where
  "jump_ext k pass_args = thn (adjust_jump_cont k pass_args) (do_jump_to k)"

definition vm_jump :: "('c, 's, 'b) cont \<Rightarrow> ('c, 's, 'b, int) vm" where
  "vm_jump k = (if needs_adjust k then jump_ext k None else do_jump_to k)"

text \<open>\<open>std::mem::take(&mut self.code)\<close> leaves the default (empty) slice.\<close>

definition take_code :: "('c, 's) api \<Rightarrow> ('c, 's, 'b, 's) vm" where
  "take_code A = bnd (gets code) (\<lambda>k. thn (modify (\<lambda>st. st\<lparr>code := slice_default A\<rparr>)) (ret k))"

definition take_c0_raw :: "('c, 's, 'b, ('c, 's, 'b) cont option) vm" where
  "take_c0_raw = bnd (gets (\<lambda>st. get_c 0 (cr st))) (\<lambda>k.
     thn (modify (\<lambda>st. st\<lparr>cr := put_c 0 None (cr st)\<rparr>)) (ret k))"

text \<open>
  The new stack of \<open>call_ext\<close> for a continuation with control data. \<open>copy = None\<close> passes the whole
  current stack; it is \<open>None\<close> exactly when the caller named no \<open>pass_args\<close>.
\<close>

definition call_copy_skip :: "nat option \<Rightarrow> nat option \<Rightarrow> nat option \<times> nat" where
  "call_copy_skip pass_args nargs = (case (pass_args, nargs) of
      (Some p, Some c) \<Rightarrow> (Some c, p - c)
    | (Some p, None) \<Rightarrow> (Some p, 0)
    | _ \<Rightarrow> (None, 0))"

definition call_new_stack ::
    "('c, 's, 'b) control_data \<Rightarrow> nat option \<Rightarrow> nat \<Rightarrow> ('c, 's, 'b, ('c, 's, 'b) stk) vm" where
  "call_new_stack d pass_args current_depth =
     (case call_copy_skip pass_args (cd_nargs d) of (copy, skip) \<Rightarrow>
       if cd_stack d \<noteq> None \<and> cd_stack d \<noteq> Some []
       then (\<lambda>st. case move_from_stack (case copy of Some c \<Rightarrow> c | None \<Rightarrow> current_depth)
                        (the (cd_stack d), stack st) of
               (Inl e, (_, s)) \<Rightarrow> (Inl e, st\<lparr>stack := s\<rparr>)
             | (Inr _, (new_stack, s)) \<Rightarrow>
                 thn (on_stack (pop_many skip))
                (thn (on_gas (try_consume_stack_gas (Some new_stack))) (ret new_stack))
                  (st\<lparr>stack := s\<rparr>))
       else (case copy of
           Some c \<Rightarrow> bnd (on_stack (split_top_ext c skip)) (\<lambda>new_stack.
                     thn (on_gas (try_consume_stack_gas (Some new_stack))) (ret new_stack))
         | None \<Rightarrow> take_stack))"

definition finish_call :: "('c, 's) api \<Rightarrow> ('c, 's, 'b) cont \<Rightarrow> nat option
    \<Rightarrow> ('c, 's, 'b) stk \<Rightarrow> ('c, 's, 'b) cont option \<Rightarrow> ('c, 's, 'b, int) vm" where
  "finish_call A k ret_args new_stack c0 =
     bnd (take_code A) (\<lambda>old_code.
     bnd (gets stack) (\<lambda>old_stack.
     bnd (gets cp) (\<lambda>p.
     thn (modify (\<lambda>st. st\<lparr>stack := new_stack\<rparr>))
    (thn (set_c0 (OrdCont (ControlData ret_args (Some old_stack)
            (put_c 0 c0 regs_default) (Some p)) old_code))
         (do_jump_to k)))))"

definition call_ext :: "('c, 's) api \<Rightarrow> ('c, 's, 'b) cont \<Rightarrow> nat option \<Rightarrow> nat option
    \<Rightarrow> ('c, 's, 'b, int) vm" where
  "call_ext A k pass_args ret_args = (case get_control_data k of
      Some d \<Rightarrow>
        if get_c 0 (cd_save d) \<noteq> None then jump_ext k pass_args
        else
          bnd (gets (depth \<circ> stack)) (\<lambda>current_depth.
          thn (check_args pass_args (cd_nargs d) current_depth)
         (bnd take_c0_raw (\<lambda>old_c0.
          thn (preclear_cr (cd_save d))
         (bnd (call_new_stack d pass_args current_depth) (\<lambda>new_stack.
          finish_call A k ret_args new_stack old_c0)))))
    | None \<Rightarrow>
        bnd (case pass_args of
               Some p \<Rightarrow> bnd (on_stack (split_top p)) (\<lambda>new_stack.
                         thn (on_gas (try_consume_stack_gas (Some new_stack))) (ret new_stack))
             | None \<Rightarrow> take_stack) (\<lambda>new_stack.
        bnd take_c0_raw (\<lambda>c0. finish_call A k ret_args new_stack c0)))"

definition call_simple :: "('c, 's) api \<Rightarrow> ('c, 's, 'b) cont \<Rightarrow> ('c, 's, 'b, int) vm" where
  "call_simple A k =
     bnd (take_code A) (\<lambda>old_code.
     bnd (gets cp) (\<lambda>p.
     bnd take_c0_raw (\<lambda>c0.
     thn (set_c0 (OrdCont (ControlData None None (put_c 0 c0 regs_default) (Some p)) old_code))
         (do_jump_to k))))"

definition vm_call :: "('c, 's) api \<Rightarrow> ('c, 's, 'b) cont \<Rightarrow> ('c, 's, 'b, int) vm" where
  "vm_call A k = (case get_control_data k of
      Some d \<Rightarrow>
        if get_c 0 (cd_save d) \<noteq> None then vm_jump k
        else if cd_stack d \<noteq> None \<or> cd_nargs d \<noteq> None then call_ext A k None None
        else call_simple A k
    | None \<Rightarrow> call_simple A k)"

definition vm_ret :: "('c, 's, 'b, int) vm" where
  "vm_ret = bnd take_c0 vm_jump"

definition ret_ext :: "nat option \<Rightarrow> ('c, 's, 'b, int) vm" where
  "ret_ext ret_args = bnd take_c0 (\<lambda>k. jump_ext k ret_args)"

definition ret_alt :: "('c, 's, 'b, int) vm" where
  "ret_alt = bnd take_c1 vm_jump"

definition ret_alt_ext :: "nat option \<Rightarrow> ('c, 's, 'b, int) vm" where
  "ret_alt_ext ret_args = bnd take_c1 (\<lambda>k. jump_ext k ret_args)"

definition vm_repeat :: "('c, 's, 'b) cont \<Rightarrow> ('c, 's, 'b) cont \<Rightarrow> nat \<Rightarrow> ('c, 's, 'b, int) vm" where
  "vm_repeat body after n = vm_jump (if n = 0 then after else RepeatCont n body after)"

definition vm_until :: "('c, 's, 'b) cont \<Rightarrow> ('c, 's, 'b) cont \<Rightarrow> ('c, 's, 'b, int) vm" where
  "vm_until body after =
     thn (if has_c0 body then ret () else set_c0 (UntilCont body after)) (vm_jump body)"

definition loop_while :: "('c, 's, 'b) cont \<Rightarrow> ('c, 's, 'b) cont \<Rightarrow> ('c, 's, 'b) cont
    \<Rightarrow> ('c, 's, 'b, int) vm" where
  "loop_while cond body after =
     thn (if has_c0 cond then ret () else set_c0 (WhileCont True cond body after)) (vm_jump cond)"

definition vm_again :: "('c, 's, 'b) cont \<Rightarrow> ('c, 's, 'b, int) vm" where
  "vm_again body = vm_jump (AgainCont body)"

section \<open>Continuations from the current state\<close>

definition LoadFull :: "bool \<times> bool" where "LoadFull = (True, True)"

definition ref_to_cont :: "('c, 's) api \<Rightarrow> 'c \<Rightarrow> ('c, 's, 'b, ('c, 's, 'b) cont) vm" where
  "ref_to_cont A cell = bnd (on_gas (load_cell_as_slice A cell LoadFull)) (\<lambda>k.
     bnd (gets cp) (\<lambda>p. ret (ord_simple k p)))"

text \<open>
  A continuation without control data is wrapped in \<open>ArgContExt\<close> before its savelist is
  extended; otherwise its own control data is updated in place.
\<close>

definition with_saved :: "(('c, 's, 'b) control_regs \<Rightarrow> ('c, 's, 'b) control_regs)
    \<Rightarrow> ('c, 's, 'b) cont \<Rightarrow> ('c, 's, 'b) cont" where
  "with_saved f k = (case get_control_data k of
      None \<Rightarrow> ArgContExt (map_save f data_default) k
    | Some d \<Rightarrow> put_control_data (map_save f d) k)"

definition c1_envelope :: "('c, 's, 'b) cont \<Rightarrow> bool \<Rightarrow> ('c, 's, 'b, ('c, 's, 'b) cont) vm" where
  "c1_envelope k save = bnd (gets cr) (\<lambda>r.
     let k' = (if save then with_saved (define_c1 (get_c 1 r) \<circ> define_c0 (get_c 0 r)) k else k) in
     thn (modify (\<lambda>st. st\<lparr>cr := put_c 1 (Some k') (cr st)\<rparr>)) (ret k'))"

definition c1_envelope_if :: "bool \<Rightarrow> ('c, 's, 'b) cont \<Rightarrow> bool \<Rightarrow> ('c, 's, 'b, ('c, 's, 'b) cont) vm" where
  "c1_envelope_if cond k save = (if cond then c1_envelope k save else ret k)"

definition c1_save_set :: "('c, 's, 'b, unit) vm" where
  "c1_save_set = modify (\<lambda>st.
     let r = cr st;
         c0 = map_option (with_saved (define_c1 (get_c 1 r))) (get_c 0 r)
     in st\<lparr>cr := put_c 1 c0 (put_c 0 c0 r)\<rparr>)"

text \<open>\<open>SaveCr\<close> as the triple of its bits \<open>C0\<close>, \<open>C1\<close>, \<open>C2\<close>.\<close>

type_synonym save_cr = "bool \<times> bool \<times> bool"

text \<open>The registers \<open>extract_cc\<close> moves into the savelist, with what replaces them.\<close>

fun save_regs :: "save_cr \<Rightarrow> ('c, 's, 'b, ('c, 's, 'b) control_regs) vm" where
  "save_regs (s0, s1, s2) = bnd (gets id) (\<lambda>st0.
     let r = cr st0;
         save = ControlRegs (if s0 then get_c 0 r else None) (if s1 then get_c 1 r else None)
                  (if s2 then get_c 2 r else None) None None None None;
         r0 = (if s0 then put_c 0 (Some (quit0 st0)) r else r);
         r1 = (if s1 then put_c 1 (Some (quit1 st0)) r0 else r0);
         r2 = (if s2 then put_c 2 None r1 else r1) in
     thn (modify (\<lambda>st. st\<lparr>cr := r2\<rparr>)) (ret save))"

definition extract_cc :: "('c, 's) api \<Rightarrow> save_cr \<Rightarrow> nat option \<Rightarrow> nat option
    \<Rightarrow> ('c, 's, 'b, ('c, 's, 'b) cont) vm" where
  "extract_cc A mode stack_copy nargs =
     bnd (gets (depth \<circ> stack)) (\<lambda>d.
     bnd (case stack_copy of
            Some n \<Rightarrow>
              if n = 0 then ret None
              else if n \<noteq> d then
                bnd (on_stack (split_top n)) (\<lambda>s.
                thn (on_gas (try_consume_stack_gas (Some s))) (ret (Some s)))
              else bnd take_stack (\<lambda>s. ret (Some s))
          | None \<Rightarrow> bnd take_stack (\<lambda>s. ret (Some s))) (\<lambda>new_stack.
     bnd (take_code A) (\<lambda>old_code.
     bnd take_stack (\<lambda>old_stack.
     bnd (gets cp) (\<lambda>p.
     thn (case new_stack of Some s \<Rightarrow> modify (\<lambda>st. st\<lparr>stack := s\<rparr>) | None \<Rightarrow> ret ())
    (bnd (save_regs mode) (\<lambda>save.
     ret (OrdCont (ControlData nargs (Some old_stack) save (Some p)) old_code))))))))"

section \<open>Exceptions\<close>

definition throw_with :: "('c, 's) api \<Rightarrow> ('c, 's, 'b) sval \<Rightarrow> int \<Rightarrow> ('c, 's, 'b, int) vm" where
  "throw_with A arg n =
     thn (modify (\<lambda>st. st\<lparr>stack := [arg, VInt n], code := slice_default A\<rparr>))
    (thn (on_gas try_consume_exception_gas)
    (bnd (gets (\<lambda>st. get_c 2 (cr st))) (\<lambda>c2.
     case c2 of Some k \<Rightarrow> vm_jump k | None \<Rightarrow> vm_fail InvalidOpcode)))"

definition throw_exception :: "('c, 's) api \<Rightarrow> int \<Rightarrow> ('c, 's, 'b, int) vm" where
  "throw_exception A n = throw_with A (VInt 0) n"

definition throw_exception_with_arg :: "('c, 's) api \<Rightarrow> int \<Rightarrow> ('c, 's, 'b) sval \<Rightarrow> ('c, 's, 'b, int) vm" where
  "throw_exception_with_arg A n arg = throw_with A arg n"

definition throw_out_of_gas :: "('c, 's, 'b) vm_state \<Rightarrow> int \<times> ('c, 's, 'b) vm_state" where
  "throw_out_of_gas st =
     (exception_code ExcOutOfGas, st\<lparr>stack := [VInt (consumed (gas st))]\<rparr>)"

section \<open>The interpreter loop\<close>

definition bump_steps :: "('c, 's, 'b) vm_state \<Rightarrow> ('c, 's, 'b) vm_state" where
  "bump_steps st = st\<lparr>steps := steps st + 1\<rparr>"

definition step :: "('c, 's) api \<Rightarrow> ('c, 's, 'b, int) vm \<Rightarrow> ('c, 's, 'b, int) vm" where
  "step A D =
     thn (modify bump_steps)
    (bnd (gets code) (\<lambda>k.
     if slice_size_bits A k \<noteq> 0 then D
     else if slice_size_refs A k \<noteq> 0 then
       bnd (lift_res cell_fault (slice_get_reference A k 0)) (\<lambda>next_cell.
       thn (on_gas try_consume_implicit_jmpref_gas)
      (bnd (on_gas (load_cell_as_slice A next_cell LoadFull)) (\<lambda>k'.
       bnd (gets cp) (\<lambda>p. vm_jump (ord_simple k' p)))))
     else thn (on_gas try_consume_implicit_ret_gas) vm_ret))"

text \<open>
  One turn of the loop of \<open>run_inner\<close>: either the loop variable \<open>res\<close>, or the early return on
  a double exception, or a panic.
\<close>

datatype turn = Res int | EarlyReturn int | Panicked

definition turn_of_step :: "('c, 's) api \<Rightarrow> (fault + int) \<times> ('c, 's, 'b) vm_state
    \<Rightarrow> turn \<times> ('c, 's, 'b) vm_state" where
  "turn_of_step A r = (case r of
      (Inr res, st) \<Rightarrow> (Res res, st)
    | (Inl Panic, st) \<Rightarrow> (Panicked, st)
    | (Inl (VmErr e), st) \<Rightarrow>
        if is_out_of_gas e
        then (case throw_out_of_gas (bump_steps st) of (n, st') \<Rightarrow> (Res n, st'))
        else (case throw_exception A (exception_code (as_exception e)) (bump_steps st) of
            (Inr res, st') \<Rightarrow> (Res res, st')
          | (Inl Panic, st') \<Rightarrow> (Panicked, st')
          | (Inl (VmErr e2), st') \<Rightarrow>
              if is_out_of_gas e2
              then (case throw_out_of_gas (bump_steps st') of (n, st2) \<Rightarrow> (Res n, st2))
              else (EarlyReturn (as_exit_code (as_exception e)), st')))"

definition run_turn :: "('c, 's) api \<Rightarrow> ('c, 's, 'b, int) vm \<Rightarrow> ('c, 's, 'b) vm_state
    \<Rightarrow> turn \<times> ('c, 's, 'b) vm_state" where
  "run_turn A D st = turn_of_step A (step A D st)"

definition finish_run :: "('c, 's) api \<Rightarrow> int \<Rightarrow> ('c, 's, 'b) vm_state \<Rightarrow> int \<times> ('c, 's, 'b) vm_state" where
  "finish_run A res st =
     (if or res 1 = -1 then
        (case try_commit A st of
           (True, st') \<Rightarrow> (res, st')
         | (False, st') \<Rightarrow> (as_exit_code ExcCellOverflow, st'\<lparr>stack := [VInt 0]\<rparr>))
      else (res, st))"

text \<open>
  \<open>run_inner\<close> with the number of turns it may take; \<open>None\<close> says the fuel ran out. The exit code
  is \<open>None\<close> when the run panicked.
\<close>

fun run_inner :: "('c, 's) api \<Rightarrow> ('c, 's, 'b, int) vm \<Rightarrow> nat \<Rightarrow> ('c, 's, 'b) vm_state
    \<Rightarrow> (int option \<times> ('c, 's, 'b) vm_state) option" where
  "run_inner A D 0 st = None"
| "run_inner A D (Suc n) st = (case run_turn A D st of
      (Panicked, st') \<Rightarrow> Some (None, st')
    | (EarlyReturn x, st') \<Rightarrow> Some (Some x, st')
    | (Res res, st') \<Rightarrow>
        if res = 0 then run_inner A D n st'
        else Some (apfst Some (finish_run A res st')))"

section \<open>Nested virtual machines\<close>

text \<open>
  \<open>restore_parent\<close>: puts the parent back, charges it for the child's gas and pushes the child's
  results. \<open>Inl ()\<close> is its \<open>OutOfGas\<close> error.
\<close>

definition push_cell_or_null :: "'c option \<Rightarrow> ('c, 's, 'b) sval" where
  "push_cell_or_null c = (case c of None \<Rightarrow> VNull | Some c \<Rightarrow> VCell c)"

definition restored :: "('c, 's, 'b) parent_vm_state \<Rightarrow> ('c, 's, 'b) parent_vm_state list
    \<Rightarrow> ('c, 's, 'b) vm_state \<Rightarrow> restored_gas \<times> ('c, 's, 'b) vm_state" where
  "restored p ps st = (case restore (p_gas p) (gas st) of (meta, g) \<Rightarrow>
     (meta, st\<lparr>code := p_code p, stack := p_stack p, cr := p_cr p,
               committed_state := p_committed_state p, steps := steps st + p_steps p,
               quit0 := p_quit0 p, quit1 := p_quit1 p, gas := g, cp := p_cp p, parents := ps\<rparr>))"

definition returned_values :: "int \<Rightarrow> nat option \<Rightarrow> nat \<Rightarrow> int \<times> bool \<times> nat" where
  "returned_values res n child_depth =
     (if res = 0 \<or> res = 1 then
        (case n of
           Some n \<Rightarrow> if child_depth < n then (as_exit_code ExcStackUnderflow, True, 0)
                     else (res, False, n)
         | None \<Rightarrow> (res, False, child_depth))
      else (res, False, min child_depth 1))"

definition restore_parent :: "int \<Rightarrow> ('c, 's, 'b) vm_state \<Rightarrow> (unit + unit) \<times> ('c, 's, 'b) vm_state" where
  "restore_parent res st = (case parents st of
      [] \<Rightarrow> (Inr (), st)
    | p # ps \<Rightarrow>
        (case restored p ps st of (child_gas, st1) \<Rightarrow>
         let child_stack = stack st; child_committed = committed_state st;
             amount = min (rg_gas_consumed child_gas) (saturating_add_u64 (rg_gas_limit child_gas) 1) in
         (case try_consume amount (gas st1) of
            (Inl _, g) \<Rightarrow> (Inl (), st1\<lparr>gas := g\<rparr>)
          | (Inr _, g) \<Rightarrow>
             (case returned_values res (p_return_values p) (depth child_stack) of (res', push0, n) \<Rightarrow>
              let st2 = st1\<lparr>gas := g, stack := (if push0 then stack st1 @ [VInt 0] else stack st1)\<rparr> in
              (case try_consume_stack_depth_gas n g of
                 (Inl _, g') \<Rightarrow> (Inl (), st2\<lparr>gas := g'\<rparr>)
               | (Inr _, g') \<Rightarrow>
                   (Inr (), st2\<lparr>gas := g', stack :=
                      stack st2 @ drop (depth child_stack - n) child_stack @ [VInt res']
                      @ (if p_return_data p then [push_cell_or_null (map_option com_c4 child_committed)] else [])
                      @ (if p_return_actions p then [push_cell_or_null (map_option com_c5 child_committed)] else [])
                      @ (if p_return_gas p then [VInt (rg_gas_consumed child_gas)] else [])\<rparr>))))))"

text \<open>
  \<open>run\<close>: the outer loop returns to the parent of a finished nested VM and goes on. The fuel
  bounds the turns of each \<open>run_inner\<close> and the number of outer iterations.
\<close>

fun run_loop :: "('c, 's) api \<Rightarrow> ('c, 's, 'b, int) vm \<Rightarrow> nat \<Rightarrow> nat \<Rightarrow> int \<Rightarrow> ('c, 's, 'b) vm_state
    \<Rightarrow> (int option \<times> ('c, 's, 'b) vm_state) option" where
  "run_loop A D fuel 0 res st = None"
| "run_loop A D fuel (Suc n) res st =
     (case (case restore_parent (not_i32 res) st of
              (Inr _, st1) \<Rightarrow> run_inner A D fuel st1
            | (Inl _, st1) \<Rightarrow> Some (apfst Some (throw_out_of_gas (bump_steps st1)))) of
        None \<Rightarrow> None
      | Some (None, st') \<Rightarrow> Some (None, st')
      | Some (Some res', st') \<Rightarrow>
          if parents st' = [] then Some (Some res', st') else run_loop A D fuel n res' st')"

definition vm_run :: "('c, 's) api \<Rightarrow> ('c, 's, 'b, int) vm \<Rightarrow> nat \<Rightarrow> ('c, 's, 'b) vm_state
    \<Rightarrow> (int option \<times> ('c, 's, 'b) vm_state) option" where
  "vm_run A D fuel st =
     (if throw_on_code_access st then Some (Some (exception_code ExcFatal), st)
      else run_loop A D fuel fuel 0 st)"

section \<open>Actions on a component of the state\<close>

lemma on_stack_eq: "on_stack m st = (case m (stack st) of (r, s) \<Rightarrow> (r, st\<lparr>stack := s\<rparr>))"
  by (simp add: on_stack_def zoom_def id_def sum.map_ident split: prod.splits)

lemma on_stack_Inr [simp]: "m (stack st) = (Inr x, s) \<Longrightarrow> on_stack m st = (Inr x, st\<lparr>stack := s\<rparr>)"
  by (simp add: on_stack_eq)

lemma on_stack_Inl [simp]: "m (stack st) = (Inl e, s) \<Longrightarrow> on_stack m st = (Inl e, st\<lparr>stack := s\<rparr>)"
  by (simp add: on_stack_eq)

lemma on_gas_eq: "on_gas m st = (case m (gas st) of (r, g) \<Rightarrow> (map_sum cell_fault id r, st\<lparr>gas := g\<rparr>))"
  by (simp add: on_gas_def zoom_def)

lemma on_gas_Inr [simp]: "m (gas st) = (Inr x, g) \<Longrightarrow> on_gas m st = (Inr x, st\<lparr>gas := g\<rparr>)"
  by (simp add: on_gas_eq)

lemma on_gas_Inl [simp]: "m (gas st) = (Inl e, g) \<Longrightarrow> on_gas m st = (Inl (cell_fault e), st\<lparr>gas := g\<rparr>)"
  by (simp add: on_gas_eq)

text \<open>A handler that only runs a fallible action on the stack and returns \<open>Ok(0)\<close>.\<close>

definition st_op :: "(('c, 's, 'b) stk, fault, 'a) act \<Rightarrow> ('c, 's, 'b, int) vm" where
  "st_op m = thn (on_stack m) (ret 0)"

lemma st_op_eq:
  "st_op m st = (case m (stack st) of
     (Inl e, s) \<Rightarrow> (Inl e, st\<lparr>stack := s\<rparr>) | (Inr x, s) \<Rightarrow> (Inr 0, st\<lparr>stack := s\<rparr>))"
  by (simp add: st_op_def act_defs on_stack_eq split: prod.splits sum.splits)

lemma st_op_Inr [simp]: "m (stack st) = (Inr x, s) \<Longrightarrow> st_op m st = (Inr 0, st\<lparr>stack := s\<rparr>)"
  by (simp add: st_op_eq)

lemma st_op_Inl [simp]: "m (stack st) = (Inl e, s) \<Longrightarrow> st_op m st = (Inl e, st\<lparr>stack := s\<rparr>)"
  by (simp add: st_op_eq)

section \<open>Operands in the code\<close>

definition has_remaining :: "('c, 's) api \<Rightarrow> 's \<Rightarrow> nat \<Rightarrow> nat \<Rightarrow> bool" where
  "has_remaining A k bits refs \<longleftrightarrow> bits \<le> slice_size_bits A k \<and> refs \<le> slice_size_refs A k"

text \<open>\<open>range_mut().skip_first(..).is_ok()\<close>: an error, ruled out by the check before, changes nothing.\<close>

definition skip_checked :: "('c, 's) api \<Rightarrow> nat \<Rightarrow> nat \<Rightarrow> ('c, 's, 'b, unit) vm" where
  "skip_checked A bits refs = modify (\<lambda>st. case slice_skip_first A (code st) bits refs of
     Inr k \<Rightarrow> st\<lparr>code := k\<rparr> | Inl _ \<Rightarrow> st)"

end
