(* ===== verification/Safety.thy ===== *)
theory Safety
  imports Machine
begin

text \<open>
  The invariant of a running VM, and that the operations of \<open>state.rs\<close> keep it: the meters of
  the VM and of its parents stay within the budget, and the registers \<open>c0\<close> and \<open>c1\<close> are set in
  every state a handler can see. The code takes \<open>c0\<close> out of the registers during a call and
  clears the registers a continuation restores before it is entered; the only error that can
  happen in between is running out of gas, after which the state is not executed again.
\<close>

section \<open>The invariant\<close>

definition regs_ok :: "('c, 's, 'b) control_regs \<Rightarrow> bool" where
  "regs_ok r \<longleftrightarrow> get_c 0 r \<noteq> None \<and> get_c 1 r \<noteq> None"

definition parent_meters :: "('c, 's, 'b) vm_state \<Rightarrow> 'c gas_consumer list" where
  "parent_meters st = map (meter \<circ> p_gas) (parents st)"

definition parents_ok :: "('c, 's, 'b) vm_state \<Rightarrow> bool" where
  "parents_ok st \<longleftrightarrow> (\<forall>p \<in> set (parents st). regs_ok (p_cr p))"

text \<open>
  \<open>running f P st\<close>: the state is within the budget \<open>f\<close> and its registers satisfy \<open>P\<close>; \<open>good f\<close>
  asks for \<open>c0\<close> and \<open>c1\<close>. \<open>restores r\<close>: the registers have both once the savelist \<open>r\<close> is merged
  into them; \<open>parked r\<close>: the same of \<open>c1\<close> alone, while \<open>c0\<close> is taken out. \<open>halted f\<close> is what
  running out of gas leaves: the parents are intact.
\<close>

definition running :: "int \<Rightarrow> (('c, 's, 'b) control_regs \<Rightarrow> bool) \<Rightarrow> ('c, 's, 'b) vm_state \<Rightarrow> bool" where
  "running f P st \<longleftrightarrow> meter_inv (f, parent_meters st) (gas st) \<and> parents_ok st \<and> P (cr st)"

definition restores :: "('c, 's, 'b) control_regs \<Rightarrow> ('c, 's, 'b) control_regs \<Rightarrow> bool" where
  "restores r c \<longleftrightarrow> regs_ok (merge c r)"

definition parked :: "('c, 's, 'b) control_regs \<Rightarrow> ('c, 's, 'b) control_regs \<Rightarrow> bool" where
  "parked r c \<longleftrightarrow> get_c 1 (merge c r) \<noteq> None"

definition good :: "int \<Rightarrow> ('c, 's, 'b) vm_state \<Rightarrow> bool" where
  "good f st \<longleftrightarrow> meter_inv (f, parent_meters st) (gas st) \<and> parents_ok st \<and> regs_ok (cr st)"

definition halted :: "int \<Rightarrow> ('c, 's, 'b) vm_state \<Rightarrow> bool" where
  "halted f st \<longleftrightarrow> gas_wf (gas st) \<and> chained f (gas st) (parent_meters st) \<and> parents_ok st"

fun oog :: "fault \<Rightarrow> bool" where
  "oog (VmErr e) = is_out_of_gas e"
| "oog Panic = False"

definition bad :: "int \<Rightarrow> fault \<Rightarrow> ('c, 's, 'b) vm_state \<Rightarrow> bool" where
  "bad f e st \<longleftrightarrow> e \<noteq> Panic \<and> (if oog e then halted f st else good f st)"

definition only_oog :: "int \<Rightarrow> fault \<Rightarrow> ('c, 's, 'b) vm_state \<Rightarrow> bool" where
  "only_oog f e st \<longleftrightarrow> oog e \<and> halted f st"

lemma running_regs_ok: "running f regs_ok = good f"
  by (rule ext) (simp add: running_def good_def)

lemma running_default: "running f (restores regs_default) = good f"
  by (rule ext) (simp add: running_def good_def restores_def)

lemma regs_ok_merge: "regs_ok r \<Longrightarrow> regs_ok (merge r q)"
  by (auto simp: regs_ok_def merge_value_def split: option.splits)

lemma good_running: "good f st \<Longrightarrow> running f (restores r) st"
  by (auto simp: running_def good_def restores_def regs_ok_merge)

lemma running_halted: "running f r st \<Longrightarrow> halted f st"
  by (auto simp: running_def halted_def meter_inv_def live_def)

lemma good_halted: "good f st \<Longrightarrow> halted f st"
  by (auto simp: good_def halted_def meter_inv_def live_def)

lemma only_oog_bad: "only_oog f e st \<Longrightarrow> bad f e st"
  by (cases e) (auto simp: only_oog_def bad_def)

lemma good_mono: "good f st \<Longrightarrow> f \<le> f' \<Longrightarrow> good f' st"
  by (auto simp: good_def meter_inv_def elim: live_mono chained_mono)

lemma halted_mono: "halted f st \<Longrightarrow> f \<le> f' \<Longrightarrow> halted f' st"
  by (auto simp: halted_def elim: chained_mono)

lemma bad_mono: "bad f e st \<Longrightarrow> f \<le> f' \<Longrightarrow> bad f' e st"
  by (auto simp: bad_def elim: good_mono halted_mono)

abbreviation safe :: "('c, 's, 'b, 'a) vm \<Rightarrow> bool" where
  "safe \<equiv> upholds good bad"

interpretation vm: action_invariant good bad "\<lambda>e. e \<noteq> Panic"
  by unfold_locales (auto simp: bad_def good_halted)

text \<open>Actions on the stack alone never panic.\<close>

definition any_stack :: "unit \<Rightarrow> ('c, 's, 'b) stk \<Rightarrow> bool" where "any_stack i s \<longleftrightarrow> True"
definition no_panic :: "unit \<Rightarrow> fault \<Rightarrow> ('c, 's, 'b) stk \<Rightarrow> bool" where "no_panic i e s \<longleftrightarrow> e \<noteq> Panic"

interpretation stk: action_invariant any_stack no_panic "\<lambda>e. e \<noteq> Panic"
  by unfold_locales (simp add: no_panic_def)

abbreviation calm :: "(('c, 's, 'b) stk, fault, 'a) act \<Rightarrow> bool" where
  "calm \<equiv> upholds any_stack no_panic"

section \<open>Rules\<close>

named_theorems safe_rules \<open>operations that keep the invariant of a running VM\<close>
named_theorems calm_rules \<open>stack actions that do not panic\<close>

lemmas [safe_rules] = vm.upholds_rules
lemmas [calm_rules] = stk.upholds_rules

lemma calm_iff: "calm m \<longleftrightarrow> (\<forall>s. fst (m s) \<noteq> Inl Panic)"
  unfolding upholds_def hoare_def any_stack_def no_panic_def
  by (auto split: prod.splits sum.splits) (metis fst_conv prod.collapse)+

lemma safe_vm_fail [safe_rules]: "safe (vm_fail e)"
  unfolding vm_fail_def by (rule vm.upholds_fail) simp

lemma safe_vm_ensure [safe_rules]: "safe (vm_ensure b e)"
  unfolding vm_ensure_def by (rule vm.upholds_ensure) simp

lemma safe_lift [safe_rules]: "safe (lift_res VmErr r)" "safe (lift_res cell_fault r')"
  by (rule vm.upholds_lift_res; simp add: cell_fault_def)+

lemma calm_basic [calm_rules]:
  "calm (vm_fail e)" "calm (vm_ensure b e)" "calm (lift_res VmErr r)" "calm (modify h)"
  by (auto simp: calm_iff vm_fail_def vm_ensure_def ensure_def lift_res_def split: sum.splits)

lemma good_update [simp]:
  "good f (st\<lparr>code := k\<rparr>) = good f st"
  "good f (st\<lparr>stack := s\<rparr>) = good f st"
  "good f (st\<lparr>committed_state := c\<rparr>) = good f st"
  "good f (st\<lparr>steps := n\<rparr>) = good f st"
  "good f (st\<lparr>cp := p\<rparr>) = good f st"
  by (simp_all add: good_def parent_meters_def parents_ok_def)

lemma running_update [simp]:
  "running f r (st\<lparr>code := k\<rparr>) = running f r st"
  "running f r (st\<lparr>stack := s\<rparr>) = running f r st"
  "running f r (st\<lparr>cp := p\<rparr>) = running f r st"
  by (simp_all add: running_def parent_meters_def parents_ok_def)

lemma halted_update [simp]:
  "halted f (st\<lparr>stack := s\<rparr>) = halted f st"
  "halted f (st\<lparr>steps := n\<rparr>) = halted f st"
  by (simp_all add: halted_def parent_meters_def parents_ok_def)

lemma safe_modify:
  assumes "\<And>f st. good f st \<Longrightarrow> good f (h st)"
  shows "safe (modify h)"
  using assms by (rule vm.upholds_modify)

lemma safe_on_stack [safe_rules]: "calm m \<Longrightarrow> safe (on_stack m)"
  by (rule upholdsI)
    (auto simp: on_stack_eq bad_def calm_iff good_halted dest: spec[of _ "stack _"]
      split: prod.splits, metis fst_conv)

text \<open>A charge keeps whatever the registers promise.\<close>

lemma on_gas_keeps:
  assumes "upholds meter_inv meter_err m"
  shows "hoare (running f r) (on_gas m) (\<lambda>_. running f r)
           (\<lambda>e st. e \<noteq> Panic \<and> (if oog e then halted f st else running f r st))"
proof (rule hoareI)
  fix st e t
  assume st: "running f r st" and run: "on_gas m st = (Inl e, t)"
  obtain e' g where m: "m (gas st) = (Inl e', g)" and e: "e = cell_fault e'" "t = st\<lparr>gas := g\<rparr>"
    using run by (auto simp: on_gas_eq split: prod.splits)
  have "meter_err (f, parent_meters st) e' g"
    by (rule upholds_InlD[OF assms _ m]) (use st in \<open>simp add: running_def\<close>)
  then show "e \<noteq> Panic \<and> (if oog e then halted f t else running f r t)"
    using st e
    by (cases e') (auto simp: running_def halted_def meter_err_def meter_inv_def cell_fault_def
        parent_meters_def parents_ok_def is_out_of_gas_def live_def split: if_splits)
next
  fix st x t
  assume st: "running f r st" and run: "on_gas m st = (Inr x, t)"
  obtain g where m: "m (gas st) = (Inr x, g)" and t: "t = st\<lparr>gas := g\<rparr>"
    using run by (auto simp: on_gas_eq split: prod.splits)
  have "meter_inv (f, parent_meters st) g"
    by (rule upholds_InrD[OF assms _ m]) (use st in \<open>simp add: running_def\<close>)
  then show "running f r t" using st t by (simp add: running_def parent_meters_def parents_ok_def)
qed

lemma safe_on_gas [safe_rules]: "upholds meter_inv meter_err m \<Longrightarrow> safe (on_gas m)"
  unfolding upholds_def
  by (intro allI hoare_conseq[OF on_gas_keeps[of m _ regs_ok]])
    (auto simp: running_regs_ok bad_def upholds_def)

lemmas [safe_rules] = stack_gas_metered load_cell_metered

lemma safe_try_consume [safe_rules]: "0 \<le> a \<Longrightarrow> safe (on_gas (try_consume a))"
  by (intro safe_on_gas try_consume_metered)

text \<open>A successful charge lowers the budget by its amount; so does an action that starts with it.\<close>

lemma charge_good:
  assumes "0 \<le> a" and "a \<le> i64_max"
  shows "hoare (good f) (on_gas (try_consume a)) (\<lambda>_ st. a \<le> f \<and> good (f - a) st) (only_oog f)"
proof (rule hoareI)
  fix st e t
  assume st: "good f st" and run: "on_gas (try_consume a) st = (Inl e, t)"
  then show "only_oog f e t"
    using try_consume_dead[of f "gas st" "parent_meters st" a] assms(1)
    by (auto simp: on_gas_eq good_def only_oog_def halted_def meter_inv_def parents_ok_def parent_meters_def
        cell_fault_def split: prod.splits)
next
  fix st x t
  assume st: "good f st" and run: "on_gas (try_consume a) st = (Inr x, t)"
  then show "a \<le> f \<and> good (f - a) t"
    using try_consume_live[of f "gas st" a] try_consume_chained[of f "gas st" "parent_meters st" a]
      assms(1,2)
    by (auto simp: on_gas_eq good_def meter_inv_def parents_ok_def parent_meters_def
        split: prod.splits)
qed

lemma charge_first:
  assumes "0 \<le> a" and "a \<le> i64_max" and "safe m"
  shows "hoare (good f) (thn (on_gas (try_consume a)) m) (\<lambda>_ st. a \<le> f \<and> good (f - a) st)
           (\<lambda>e st. e \<noteq> Panic \<and> (if oog e then halted f st else a \<le> f \<and> good (f - a) st))"
proof -
  have rest: "hoare (\<lambda>st. a \<le> f \<and> good (f - a) st) m (\<lambda>_ st. a \<le> f \<and> good (f - a) st)
      (\<lambda>e st. e \<noteq> Panic \<and> (if oog e then halted f st else a \<le> f \<and> good (f - a) st))"
  proof (rule hoareI)
    fix st e t
    assume st: "a \<le> f \<and> good (f - a) st" and run: "m st = (Inl e, t)"
    have "bad (f - a) e t" using upholds_InlD[OF assms(3) _ run] st by blast
    then show "e \<noteq> Panic \<and> (if oog e then halted f t else a \<le> f \<and> good (f - a) t)"
      using st assms(1) halted_mono[of "f - a" t f] by (auto simp: bad_def)
  next
    fix st x t
    assume st: "a \<le> f \<and> good (f - a) st" and run: "m st = (Inr x, t)"
    then show "a \<le> f \<and> good (f - a) t" using upholds_InrD[OF assms(3) _ run] by blast
  qed
  show ?thesis
    by (rule hoare_thn[OF hoare_conseq[OF charge_good[OF assms(1,2)]] rest])
      (auto simp: only_oog_def elim: oog.elims)
qed

section \<open>Stack actions\<close>

lemma calm_pop [calm_rules]: "calm pop"
  by (auto simp: calm_iff pop_def split: list.splits)

lemma calm_split [calm_rules]: "calm (split_top n)" "calm (split_top_ext n k)"
  by (auto simp: calm_iff split_top_def split_top_ext_def Let_def)

lemma calm_ops [calm_rules]:
  "calm (push_raw v)" "calm push_null" "calm push_nan" "calm (push_bool b)" "calm push_zero"
  "calm (push_int i)" "calm (push_opt_raw w)" "calm (push_nth n)" "calm (push_raw_int A x q)"
  "calm pop_int" "calm pop_bool" "calm pop_int_or_nan" "calm (pop_smallint_range lo hi)"
  "calm (pop_long_range lo hi)" "calm (pop_smallint_signed_range a a')" "calm pop_tuple"
  "calm (pop_tuple_range lo hi)" "calm (pop_opt_tuple_range lo hi)" "calm pop_cont" "calm pop_cs"
  "calm pop_builder" "calm pop_cell" "calm pop_cell_opt" "calm (pop_many n)" "calm (drop_bottom n)"
  "calm (swap i' j')" "calm (reverse_range n m)" "calm (fetch n)"
  unfolding push_defs push_opt_raw_def push_raw_def push_nth_def push_raw_int_def pop_int_def
    pop_bool_def pop_int_or_nan_def pop_smallint_range_def pop_long_range_def
    pop_smallint_signed_range_def pop_tuple_def pop_tuple_range_def pop_opt_tuple_range_def
    pop_cont_def pop_cs_def pop_builder_def pop_cell_def pop_cell_opt_def pop_many_def
    drop_bottom_def swap_def reverse_range_def fetch_def
  by (intro calm_rules)+

lemma move_from_stack_calm: "fst (move_from_stack n ss) \<noteq> Inl Panic"
  by (cases ss) (simp add: move_from_stack_eq)

section \<open>Registers, code and commits\<close>

lemma regs_ok_put [simp]: "i < 4 \<Longrightarrow> regs_ok r \<Longrightarrow> regs_ok (put_c i (Some k) r)"
  by (auto simp: regs_ok_def)

lemma good_cr: "good f st \<Longrightarrow> (regs_ok (cr st) \<Longrightarrow> regs_ok r) \<Longrightarrow> good f (st\<lparr>cr := r\<rparr>)"
  by (simp add: good_def parent_meters_def parents_ok_def)

lemma good_regs: "good f st \<Longrightarrow> regs_ok (cr st)"
  by (simp add: good_def)

lemma safe_take_stack [safe_rules]: "safe take_stack"
  unfolding take_stack_def by (intro safe_rules safe_modify) simp

lemma safe_take_code [safe_rules]: "safe (take_code A)"
  unfolding take_code_def by (intro safe_rules safe_modify) simp

lemma safe_force_cp [safe_rules]: "safe (force_cp n)"
  unfolding force_cp_def by (intro safe_rules safe_modify) simp

lemma safe_set_code [safe_rules]: "safe (set_code k n)"
  unfolding set_code_def by (intro safe_rules safe_modify) simp

lemma safe_set_c0 [safe_rules]: "safe (set_c0 k)"
  unfolding set_c0_def by (intro safe_modify good_cr) simp_all

lemma safe_adjust_cr [safe_rules]: "safe (adjust_cr r)"
  unfolding adjust_cr_def by (intro safe_modify good_cr regs_ok_merge)

lemma safe_take_c0 [safe_rules]: "safe take_c0"
  unfolding take_c0_def by (intro safe_rules safe_modify good_cr) simp_all

lemma safe_take_c1 [safe_rules]: "safe take_c1"
  unfolding take_c1_def by (intro safe_rules safe_modify good_cr) simp_all

lemma try_commit_good: "good f (snd (try_commit A st)) = good f st"
  by (auto simp: try_commit_def split: option.splits)

lemma safe_force_commit [safe_rules]: "safe (force_commit A)"
proof -
  have ok: "\<And>f st b t. try_commit A st = (b, t) \<Longrightarrow> good f st \<Longrightarrow> good f t"
    using try_commit_good by (metis snd_conv)
  then show ?thesis
    unfolding force_commit_def
    by (intro upholdsI) (auto simp: bad_def cell_fault_def split: prod.splits bool.splits)
qed

section \<open>Entering a continuation\<close>

definition saved_regs :: "('c, 's, 'b) cont \<Rightarrow> ('c, 's, 'b) control_regs" where
  "saved_regs k = (case get_control_data k of Some d \<Rightarrow> cd_save d | None \<Rightarrow> regs_default)"

abbreviation enters :: "('c, 's, 'b) cont \<Rightarrow> ('c, 's, 'b) control_regs \<Rightarrow> bool" where
  "enters k \<equiv> restores (saved_regs k)"

lemma adjust_cr_running: "hoare (running f (restores r)) (adjust_cr r) (\<lambda>_. good f) (bad f)"
  by (rule hoareI)
    (auto simp: adjust_cr_def restores_def running_def good_def parent_meters_def parents_ok_def)

lemma exc_quit_number_defined: "exc_quit_number (fst (pop_smallint_range a b s)) \<noteq> None"
proof -
  have "fst (pop_smallint_range a b s) \<noteq> Inl Panic"
    by (rule calm_iff[THEN iffD1, rule_format, OF calm_ops(13)])
  then show ?thesis by (auto simp: exc_quit_number_def split: sum.splits fault.splits)
qed

lemma safe_exc_quit: "safe (cont_jump ExcQuitCont ec)"
proof (rule upholdsI)
  fix f st x t
  show "cont_jump ExcQuitCont ec st = (Inr x, t) \<Longrightarrow> good f st \<Longrightarrow> good f t"
    by (auto split: prod.splits option.splits)
next
  fix f e t st
  show "cont_jump ExcQuitCont ec st = (Inl e, t) \<Longrightarrow> bad f e t"
    using exc_quit_number_defined[of 0 "0xffff" "stack st"] by (auto split: prod.splits option.splits)
qed

lemma cont_jump_good:
  "hoare (running f (enters k)) (cont_jump k ec) (\<lambda>_. good f) (bad f)"
proof (cases k)
  case (ArgContExt d ext)
  have "safe (thn (case cd_cp d of Some p \<Rightarrow> force_cp p | None \<Rightarrow> ret ()) (ret (ec, Some ext)))"
    by (intro safe_rules)
  then show ?thesis
    unfolding ArgContExt cont_jump.simps saved_regs_def get_control_data.simps option.case
    by (intro hoare_thn[OF adjust_cr_running]) (rule upholdsD)
next
  case (OrdCont d c)
  have "safe (case cd_cp d of None \<Rightarrow> vm_fail InvalidOpcode
                | Some p \<Rightarrow> thn (set_code c p) (ret (ec, None)))"
    by (intro safe_rules)
  then show ?thesis
    unfolding OrdCont cont_jump.simps saved_regs_def get_control_data.simps option.case
    by (intro hoare_thn[OF adjust_cr_running]) (rule upholdsD)
next
  case ExcQuitCont
  then show ?thesis
    using upholdsD[OF safe_exc_quit[of ec]] by (simp add: saved_regs_def running_default)
qed (simp_all only: saved_regs_def running_default get_control_data.simps option.case cont_jump.simps,
    (rule upholdsD, intro safe_rules calm_rules)+)

text \<open>A charge on the stack can fail only by running out of gas.\<close>

lemma charge_running:
  assumes "0 \<le> a"
  shows "hoare (running f r) (on_gas (try_consume a)) (\<lambda>_. running f r) (only_oog f)"
proof (rule hoareI)
  fix st e t
  assume st: "running f r st" and run: "on_gas (try_consume a) st = (Inl e, t)"
  have "oog e" using run by (auto simp: on_gas_eq try_consume_def Let_def cell_fault_def split: if_splits)
  with hoare_InlD[OF on_gas_keeps[OF try_consume_metered[OF assms]] st run]
  show "only_oog f e t" by (simp add: only_oog_def)
qed (rule hoare_InrD[OF on_gas_keeps[OF try_consume_metered[OF assms]]])

lemma stack_charge_running:
  "hoare (running f r) (on_gas (try_consume_stack_gas s)) (\<lambda>_. running f r) (only_oog f)"
  "hoare (running f r) (on_gas (try_consume_stack_depth_gas d)) (\<lambda>_. running f r) (only_oog f)"
proof -
  show d: "hoare (running f r) (on_gas (try_consume_stack_depth_gas d)) (\<lambda>_. running f r) (only_oog f)" for d
    unfolding try_consume_stack_depth_gas_def by (rule charge_running) (simp add: gas_prices)
  show "hoare (running f r) (on_gas (try_consume_stack_gas s)) (\<lambda>_. running f r) (only_oog f)"
  proof (cases s)
    case None
    then show ?thesis by (auto intro!: hoareI simp: try_consume_stack_gas_def on_gas_eq parent_meters_def
        running_def parents_ok_def)
  next
    case (Some x)
    then show ?thesis using d by (simp add: try_consume_stack_gas_def)
  qed
qed

lemma modify_running: "hoare (running f r) (modify (\<lambda>st. st\<lparr>stack := s\<rparr>)) (\<lambda>_. running f r) E"
  by (rule hoareI) auto

lemma pass_stack_running:
  "hoare (\<lambda>st. running f r st \<and> n \<le> depth (stack st)) (pass_stack cs n) (\<lambda>_. running f r) (only_oog f)"
proof -
  have rest: "hoare (running f r) (thn (on_gas (try_consume_stack_gas (Some s)))
      (modify (\<lambda>st. st\<lparr>stack := s\<rparr>))) (\<lambda>_. running f r) (only_oog f)" for s
    by (rule hoare_thn[OF stack_charge_running(1) modify_running])
  show ?thesis
    by (rule hoare_via[where h = "\<lambda>st. st\<lparr>stack := take (depth (stack st) - n) (stack st)\<rparr>"
          and n = "\<lambda>st. thn (on_gas (try_consume_stack_gas (Some (cs @ drop (depth (stack st) - n) (stack st)))))
            (modify (\<lambda>t. t\<lparr>stack := cs @ drop (depth (stack st) - n) (stack st)\<rparr>))", OF _ _ rest])
      (simp_all add: pass_stack_def move_from_stack_eq)
qed

lemma drop_bottom_running:
  "hoare (\<lambda>st. running f r st \<and> n \<le> depth (stack st)) (on_stack (drop_bottom n)) (\<lambda>_. running f r) E"
  by (rule hoareI) (auto simp: on_stack_eq drop_bottom_eq)

lemma preclear_running:
  "hoare (\<lambda>st. good f st \<and> P (stack st)) (preclear_cr r)
     (\<lambda>_ st. running f (restores r) st \<and> P (stack st)) E"
  by (rule hoareI)
    (auto simp: preclear_cr_def restores_def running_def good_def merge_preclear regs_ok_merge parent_meters_def
      parents_ok_def)

lemma check_args_eq:
  "check_args pa na d st =
     (if \<not> (opt_nargs pa \<le> d \<and> opt_nargs na \<le> d)
      then (Inl (VmErr (StackUnderflow (max (opt_nargs pa) (opt_nargs na)))), st)
      else if pa \<noteq> None \<and> \<not> opt_nargs na \<le> the pa then (Inl (VmErr (StackUnderflow (the pa))), st)
      else (Inr (), st))"
  by (auto simp: check_args_def thn_def bnd_def vm_ensure_def ensure_def split: option.splits)

lemma check_args_good:
  "hoare (\<lambda>st. good f st \<and> Q st) (check_args pa na d)
     (\<lambda>_ st. good f st \<and> Q st \<and> opt_nargs pa \<le> d \<and> opt_nargs na \<le> d
             \<and> (pa \<noteq> None \<longrightarrow> opt_nargs na \<le> the pa)) (bad f)"
  by (rule hoareI) (auto simp: check_args_eq bad_def good_halted split: if_splits)

lemma move_args_running:
  "hoare (\<lambda>st. running f r st \<and> depth (stack st) = d \<and> n \<le> d)
     (if cs \<noteq> None \<and> cs \<noteq> Some [] then pass_stack (the cs) n
      else if n < d then thn (on_stack (drop_bottom (d - n))) (on_gas (try_consume_stack_depth_gas n))
      else ret ()) (\<lambda>_. running f r) (bad f)"
proof (intro hoare_if)
  show "hoare (\<lambda>st. running f r st \<and> depth (stack st) = d \<and> n \<le> d) (pass_stack (the cs) n)
      (\<lambda>_. running f r) (bad f)"
    by (rule hoare_conseq[OF pass_stack_running]) (auto intro: only_oog_bad)
  show "hoare (\<lambda>st. running f r st \<and> depth (stack st) = d \<and> n \<le> d)
      (thn (on_stack (drop_bottom (d - n))) (on_gas (try_consume_stack_depth_gas n))) (\<lambda>_. running f r) (bad f)"
    by (rule hoare_thn[OF hoare_conseq[OF drop_bottom_running] hoare_conseq[OF stack_charge_running(2)]])
      (auto intro: only_oog_bad)
qed (auto intro: hoareI)

lemma adjust_jump_cont_running:
  "hoare (good f) (adjust_jump_cont k pa) (\<lambda>_. running f (enters k)) (bad f)"
proof (cases "get_control_data k")
  case None
  have "safe (adjust_jump_cont k pa)"
    unfolding adjust_jump_cont_def None option.case by (intro safe_rules calm_rules)
  from upholdsD[OF this, of f] show ?thesis by (simp add: saved_regs_def None running_default)
next
  case (Some d)
  have n: "(case cd_nargs d of Some n \<Rightarrow> n | None \<Rightarrow> (case pa of Some p \<Rightarrow> p | None \<Rightarrow> dep)) \<le> dep"
    if "opt_nargs pa \<le> dep" "opt_nargs (cd_nargs d) \<le> dep" for dep
    using that by (auto simp: opt_nargs_def split: option.splits)
  let ?n = "\<lambda>dep. case cd_nargs d of Some n \<Rightarrow> n | None \<Rightarrow> (case pa of Some p \<Rightarrow> p | None \<Rightarrow> dep)"
  have args: "hoare (\<lambda>st. good f st \<and> depth (stack st) = dep) (check_args pa (cd_nargs d) dep)
      (\<lambda>_ st. good f st \<and> depth (stack st) = dep \<and> ?n dep \<le> dep) (bad f)" for dep
    by (rule hoare_conseq[OF check_args_good[of f "\<lambda>st. depth (stack st) = dep"]]) (auto simp: n)
  have clear: "hoare (\<lambda>st. good f st \<and> depth (stack st) = dep \<and> ?n dep \<le> dep) (preclear_cr (cd_save d))
      (\<lambda>_ st. running f (restores (cd_save d)) st \<and> depth (stack st) = dep \<and> ?n dep \<le> dep) (bad f)" for dep
    by (rule preclear_running[of f "\<lambda>s. depth s = dep \<and> ?n dep \<le> dep"])
  note body = hoare_thn[OF args hoare_thn[OF clear move_args_running]]
  show ?thesis
    unfolding adjust_jump_cont_def saved_regs_def Some option.case Let_def
    by (rule hoare_bnd[OF hoare_gets[of _ "\<lambda>dep st. good f st \<and> depth (stack st) = dep"] body]) simp
qed

lemma enter_next_running:
  "hoare (good f) (enter_next cnt k) (\<lambda>_. running f (enters k)) (bad f)"
proof -
  have "safe (if cnt > FREE_NESTED_CONT_JUMP then on_gas (try_consume 1) else ret ())"
    by (intro safe_rules) simp
  note pay = upholdsD[OF this, of f]
  have "hoare (good f) (if needs_adjust k then adjust_jump_cont k None else ret ())
      (\<lambda>_. running f (enters k)) (bad f)"
    by (auto intro!: hoare_if adjust_jump_cont_running hoareI good_running)
  with pay show ?thesis unfolding enter_next_def by (rule hoare_thn)
qed

lemma do_jump_loop_good:
  "hoare (running f (enters k)) (do_jump_loop cnt ec k) (\<lambda>_. good f) (bad f)"
proof -
  have "running f (enters k) st \<Longrightarrow>
      (case do_jump_loop cnt ec k st of (Inl e, t) \<Rightarrow> bad f e t | (Inr x, t) \<Rightarrow> good f t)" for st
  proof (induction cnt ec k st rule: do_jump_loop.induct)
    case (1 cnt ec k st)
    obtain r st1 where j: "cont_jump k ec st = (r, st1)" by fastforce
    show ?case
    proof (cases r)
      case (Inl e)
      then show ?thesis
        using j hoare_InlD[OF cont_jump_good "1.prems"] by (simp add: do_jump_loop.simps)
    next
      case (Inr x)
      obtain ec' k' where x: "x = (ec', k')" by (cases x)
      have g: "good f st1" using j Inr hoare_InrD[OF cont_jump_good "1.prems"] by simp
      show ?thesis
      proof (cases k')
        case None
        then show ?thesis using j Inr x g by (simp add: do_jump_loop.simps)
      next
        case (Some k2)
        obtain r2 st2 where n: "enter_next (cnt + 1) k2 st1 = (r2, st2)" by fastforce
        show ?thesis
        proof (cases r2)
          case Inl
          then show ?thesis
            using j Inr x Some n hoare_InlD[OF enter_next_running g]
            by (simp add: do_jump_loop.simps[of cnt ec k])
        next
          case (Inr u)
          have "running f (enters k2) st2" using n Inr hoare_InrD[OF enter_next_running g] by simp
          with "1.IH"[of r st1 x ec' k' k2 r2 st2 u] j \<open>r = Inr x\<close> x Some n Inr show ?thesis
            by (simp add: do_jump_loop.simps[of cnt ec k])
        qed
      qed
    qed
  qed
  then show ?thesis by (simp add: hoare_def)
qed

lemma safe_do_jump_to [safe_rules]: "safe (do_jump_to k)"
  unfolding upholds_def do_jump_to_def
  by (intro allI hoare_conseq[OF do_jump_loop_good]) (auto intro: good_running)

lemma safe_jump_ext [safe_rules]: "safe (jump_ext k pa)"
  unfolding upholds_def jump_ext_def do_jump_to_def
  by (intro allI hoare_thn[OF adjust_jump_cont_running do_jump_loop_good])

lemma safe_jump [safe_rules]: "safe (vm_jump k)"
  unfolding vm_jump_def by (intro safe_rules)

section \<open>Calls\<close>

lemma split_ext_running:
  "hoare (\<lambda>st. running f P st \<and> c + k \<le> depth (stack st)) (on_stack (split_top_ext c k))
     (\<lambda>_. running f P) E"
  by (rule hoareI) (auto simp: on_stack_eq split_top_ext_eq)

lemma pop_many_running:
  "hoare (\<lambda>st. running f P st \<and> k \<le> depth (stack st)) (on_stack (pop_many k)) (\<lambda>_. running f P) E"
  by (rule hoareI) (auto simp: on_stack_eq pop_many_eq)

lemma ret_running: "hoare (running f P) (ret x) (\<lambda>_. running f P) E"
  by (rule hoareI) auto

lemma call_new_stack_running:
  assumes "opt_nargs pa \<le> dep" "opt_nargs (cd_nargs d) \<le> dep" "pa \<noteq> None \<longrightarrow> opt_nargs (cd_nargs d) \<le> the pa"
  shows "hoare (\<lambda>st. running f P st \<and> depth (stack st) = dep) (call_new_stack d pa dep)
           (\<lambda>_. running f P) (only_oog f)"
proof -
  obtain copy k where ck: "call_copy_skip pa (cd_nargs d) = (copy, k)" by fastforce
  have fit: "(case copy of Some c \<Rightarrow> c + k | None \<Rightarrow> dep + k) \<le> dep"
    using ck assms by (auto simp: call_copy_skip_def opt_nargs_def split: option.splits)
  have pay: "hoare (running f P) (thn (on_gas (try_consume_stack_gas (Some s))) (ret s))
      (\<lambda>_. running f P) (only_oog f)" for s
    by (rule hoare_thn[OF stack_charge_running(1) ret_running])
  show ?thesis
  proof (cases "cd_stack d \<noteq> None \<and> cd_stack d \<noteq> Some []")
    case False
    have take: "hoare (\<lambda>st. running f P st \<and> depth (stack st) = dep) take_stack (\<lambda>_. running f P) (only_oog f)"
      by (rule hoareI) (auto simp: take_stack_def)
    have split: "hoare (\<lambda>st. running f P st \<and> depth (stack st) = dep)
        (bnd (on_stack (split_top_ext c k)) (\<lambda>s. thn (on_gas (try_consume_stack_gas (Some s))) (ret s)))
        (\<lambda>_. running f P) (only_oog f)" if "copy = Some c" for c
      by (rule hoare_bnd[OF hoare_conseq[OF split_ext_running[of f P c k]] pay]) (use fit that in auto)
    show ?thesis using False take split ck by (cases copy) (auto simp: call_new_stack_def)
  next
    case True
    let ?n = "case copy of Some c \<Rightarrow> c | None \<Rightarrow> dep"
    have rest: "hoare (\<lambda>st. running f P st \<and> k \<le> depth (stack st))
        (thn (on_stack (pop_many k)) (thn (on_gas (try_consume_stack_gas (Some s))) (ret s)))
        (\<lambda>_. running f P) (only_oog f)" for s
      by (rule hoare_thn[OF pop_many_running pay])
    show ?thesis
      by (rule hoare_via[where h = "\<lambda>st. st\<lparr>stack := take (dep - ?n) (stack st)\<rparr>"
            and n = "\<lambda>st. thn (on_stack (pop_many k)) (thn (on_gas (try_consume_stack_gas
              (Some (the (cd_stack d) @ drop (dep - ?n) (stack st)))))
              (ret (the (cd_stack d) @ drop (dep - ?n) (stack st))))", OF _ _ rest])
        (use True fit ck in \<open>auto simp: call_new_stack_def move_from_stack_eq depth_def split: option.splits\<close>)
  qed
qed

lemma set_c0_unpark: "hoare (running f (parked r)) (set_c0 k) (\<lambda>_. running f (restores r)) E"
  by (rule hoareI)
    (auto simp: set_c0_def running_def parked_def restores_def regs_ok_def parent_meters_def
      parents_ok_def merge_value_def split: option.splits)

lemma finish_call_good:
  "hoare (running f (parked (saved_regs k))) (finish_call A k ra ns c0) (\<lambda>_. good f) (bad f)"
proof -
  have rest: "hoare (running f (parked (saved_regs k))) (thn (set_c0 k') (do_jump_to k)) (\<lambda>_. good f) (bad f)" for k'
    unfolding do_jump_to_def by (rule hoare_thn[OF set_c0_unpark do_jump_loop_good])
  show ?thesis
    by (rule hoare_via[where h = "\<lambda>st. st\<lparr>code := slice_default A, stack := ns\<rparr>"
          and n = "\<lambda>st. thn (set_c0 (OrdCont (ControlData ra (Some (stack st))
            (put_c 0 c0 regs_default) (Some (cp st))) (code st))) (do_jump_to k)", OF _ _ rest])
      (simp_all add: finish_call_def take_code_def thn_def)
qed

lemma take_c0_raw_parked:
  "hoare (\<lambda>st. good f st \<and> Q (stack st)) take_c0_raw (\<lambda>_ st. running f (parked r) st \<and> Q (stack st)) E"
  by (rule hoareI)
    (auto simp: take_c0_raw_def thn_def good_def running_def parked_def regs_ok_def parent_meters_def
      parents_ok_def merge_value_def split: option.splits)

lemma preclear_parked:
  "hoare (\<lambda>st. running f (parked r) st \<and> Q (stack st)) (preclear_cr r)
     (\<lambda>_ st. running f (parked r) st \<and> Q (stack st)) E"
  by (rule hoareI)
    (auto simp: preclear_cr_def running_def parked_def merge_preclear parent_meters_def parents_ok_def
      simp del: get_c_merge)

lemma safe_call_ext [safe_rules]: "safe (call_ext A k pa ra)"
proof (cases "get_control_data k")
  case None
  then have r: "saved_regs k = regs_default" by (simp add: saved_regs_def)
  have new: "safe (case pa of
      Some p \<Rightarrow> bnd (on_stack (split_top p)) (\<lambda>s. thn (on_gas (try_consume_stack_gas (Some s))) (ret s))
    | None \<Rightarrow> take_stack)"
    by (intro safe_rules calm_rules)
  have "hoare (good f) (bnd take_c0_raw (\<lambda>c0. finish_call A k ra ns c0)) (\<lambda>_. good f) (bad f)" for f ns
    by (rule hoare_bnd[OF hoare_conseq[OF take_c0_raw_parked[of f "\<lambda>_. True"]] finish_call_good]) auto
  then show ?thesis
    unfolding upholds_def call_ext_def None option.case
    by (intro allI hoare_bnd[OF upholdsD[OF new]])
next
  case (Some d)
  then have r: "saved_regs k = cd_save d" by (simp add: saved_regs_def)
  have body: "hoare (\<lambda>st. good f st \<and> depth (stack st) = dep)
      (thn (check_args pa (cd_nargs d) dep)
      (bnd take_c0_raw (\<lambda>old_c0.
       thn (preclear_cr (cd_save d))
      (bnd (call_new_stack d pa dep) (\<lambda>ns. finish_call A k ra ns old_c0))))) (\<lambda>_. good f) (bad f)" for f dep
  proof -
    let ?C = "opt_nargs pa \<le> dep \<and> opt_nargs (cd_nargs d) \<le> dep
        \<and> (pa \<noteq> None \<longrightarrow> opt_nargs (cd_nargs d) \<le> the pa)"
    have args: "hoare (\<lambda>st. good f st \<and> depth (stack st) = dep) (check_args pa (cd_nargs d) dep)
        (\<lambda>_ st. good f st \<and> depth (stack st) = dep \<and> ?C) (bad f)"
      by (rule hoare_conseq[OF check_args_good[of f "\<lambda>st. depth (stack st) = dep"]]) auto
    have fin: "hoare (\<lambda>st. running f (parked (cd_save d)) st \<and> depth (stack st) = dep \<and> ?C)
        (bnd (call_new_stack d pa dep) (\<lambda>ns. finish_call A k ra ns c0)) (\<lambda>_. good f) (bad f)" for c0
    proof (cases ?C)
      case True
      show ?thesis
        by (rule hoare_bnd[OF hoare_conseq[OF call_new_stack_running[of pa dep d f]] finish_call_good])
          (use True in \<open>auto simp: r intro: only_oog_bad\<close>)
    qed (auto simp: hoare_def)
    show ?thesis
      by (rule hoare_thn[OF args hoare_bnd[OF take_c0_raw_parked[of f "\<lambda>s. depth s = dep \<and> ?C"]
              hoare_thn[OF preclear_parked[of f _ "\<lambda>s. depth s = dep \<and> ?C"] fin]]])
  qed
  have "safe (jump_ext k pa)" by (intro safe_rules)
  moreover have "hoare (good f) (bnd (gets (depth \<circ> stack)) (\<lambda>dep.
      thn (check_args pa (cd_nargs d) dep)
      (bnd take_c0_raw (\<lambda>old_c0.
       thn (preclear_cr (cd_save d))
      (bnd (call_new_stack d pa dep) (\<lambda>ns. finish_call A k ra ns old_c0)))))) (\<lambda>_. good f) (bad f)" for f
    by (rule hoare_bnd[OF hoare_gets[of _ "\<lambda>dep st. good f st \<and> depth (stack st) = dep"] body]) simp
  ultimately show ?thesis
    unfolding call_ext_def Some option.case by (auto simp: upholds_def)
qed

lemma safe_call_simple [safe_rules]: "safe (call_simple A k)"
proof -
  have rest: "hoare (running f (parked regs_default)) (thn (set_c0 k') (do_jump_to k)) (\<lambda>_. good f) (bad f)" for f k'
    by (rule hoare_thn[OF set_c0_unpark]) (simp add: running_default upholdsD[OF safe_do_jump_to])
  show ?thesis
    unfolding upholds_def
    by (intro allI hoare_via[where h = "\<lambda>st. st\<lparr>code := slice_default A, cr := put_c 0 None (cr st)\<rparr>"
          and n = "\<lambda>st. thn (set_c0 (OrdCont (ControlData None None (put_c 0 (get_c 0 (cr st)) regs_default)
            (Some (cp st))) (code st))) (do_jump_to k)", OF _ _ rest])
      (simp_all add: call_simple_def take_code_def take_c0_raw_def thn_def good_def running_def parked_def
        regs_ok_def parent_meters_def parents_ok_def)
qed

lemma safe_call [safe_rules]: "safe (vm_call A k)"
  unfolding vm_call_def by (intro safe_rules)

lemma safe_returns [safe_rules]:
  "safe vm_ret" "safe (ret_ext n)" "safe ret_alt" "safe (ret_alt_ext n)"
  unfolding vm_ret_def ret_ext_def ret_alt_def ret_alt_ext_def by (intro safe_rules)+

lemma safe_loops [safe_rules]:
  "safe (vm_repeat body after n)" "safe (vm_until body after)" "safe (loop_while c body after)"
  "safe (vm_again body)"
  unfolding vm_repeat_def vm_until_def loop_while_def vm_again_def by (intro safe_rules)+

lemma safe_ref_to_cont [safe_rules]: "safe (ref_to_cont A c)"
  unfolding ref_to_cont_def by (intro safe_rules)

lemma c1_envelope_eq:
  "\<exists>k'. c1_envelope k save st = (Inr k', st\<lparr>cr := put_c 1 (Some k') (cr st)\<rparr>)"
  by (simp add: c1_envelope_def Let_def)

lemma safe_c1_envelope [safe_rules]: "safe (c1_envelope k save)"
proof (rule upholdsI)
  fix f st e t
  show "c1_envelope k save st = (Inl e, t) \<Longrightarrow> bad f e t"
    using c1_envelope_eq[of k save st] by auto
next
  fix f st x t
  show "good f st \<Longrightarrow> c1_envelope k save st = (Inr x, t) \<Longrightarrow> good f t"
    using c1_envelope_eq[of k save st] by (auto intro!: good_cr)
qed

lemma safe_c1_envelope_if [safe_rules]: "safe (c1_envelope_if b k save)"
  unfolding c1_envelope_if_def by (intro safe_rules)

lemma safe_c1_save_set [safe_rules]: "safe c1_save_set"
  unfolding c1_save_set_def by (rule safe_modify) (auto simp: Let_def regs_ok_def intro!: good_cr)

lemma safe_save_regs [safe_rules]: "safe (save_regs mode)"
proof -
  obtain s0 s1 s2 where mode: "mode = (s0, s1, s2)" by (cases mode)
  show ?thesis
    unfolding mode by (rule upholdsI) (auto simp: Let_def regs_ok_def intro!: good_cr)
qed

lemma safe_set_stack [safe_rules]: "safe (modify (\<lambda>st. st\<lparr>stack := s\<rparr>))"
  by (rule safe_modify) simp

lemma safe_extract_cc [safe_rules]: "safe (extract_cc A mode sc n)"
  unfolding extract_cc_def by (intro safe_rules calm_rules)

section \<open>Exceptions and the step\<close>

lemma safe_throw [safe_rules]:
  "safe (throw_with A arg n)" "safe (throw_exception A n)" "safe (throw_exception_with_arg A n arg)"
proof -
  show *: "safe (throw_with A arg n)" for arg
    unfolding throw_with_def by (intro safe_rules safe_modify) simp
  show "safe (throw_exception A n)" "safe (throw_exception_with_arg A n arg)"
    unfolding throw_exception_def throw_exception_with_arg_def by (rule *)+
qed

lemma safe_st_op [safe_rules]: "calm m \<Longrightarrow> safe (st_op m)"
  unfolding st_op_def by (intro safe_rules)

lemma safe_skip_checked [safe_rules]: "safe (skip_checked A b r)"
  unfolding skip_checked_def by (rule safe_modify) (auto split: sum.splits)

end
