(* ===== verification/ContOps.thy ===== *)
theory ContOps
  imports Safety
begin

text \<open>
  \<open>vm/src/instr/contops.rs\<close>: jumps and calls, conditionals and loops, changes of continuations
  and control registers, exceptions, code pages and nested VMs. The \<open>expect\<close>s of the code on
  \<open>c0\<close> and \<open>c1\<close> are panics of the model.
\<close>

section \<open>Operands in the code\<close>

definition reference_at :: "('c, 's) api \<Rightarrow> nat \<Rightarrow> ('c, 's, 'b, 'c) vm" where
  "reference_at A off = bnd (gets code) (\<lambda>k.
     case cell_reference A (slice_cell A k) off of
       None \<Rightarrow> vm_fail (CellError ECellUnderflow)
     | Some c \<Rightarrow> thn (skip_checked A 0 1) (ret c))"

definition exec_cell_prefix :: "('c, 's) api \<Rightarrow> nat \<Rightarrow> ('c, 's, 'b, 'c) vm" where
  "exec_cell_prefix A bits =
     bnd (gets code) (\<lambda>k.
     thn (vm_ensure (has_remaining A k bits 1) InvalidOpcode)
    (thn (skip_checked A bits 0) (reference_at A (slice_offset_refs A k))))"

definition next_reference :: "('c, 's) api \<Rightarrow> ('c, 's, 'b, 'c) vm" where
  "next_reference A = bnd (gets code) (\<lambda>k. reference_at A (slice_offset_refs A k))"

definition exec_ref_prefix :: "('c, 's) api \<Rightarrow> nat \<Rightarrow> ('c, 's, 'b, ('c, 's, 'b) cont) vm" where
  "exec_ref_prefix A bits = bnd (exec_cell_prefix A bits) (ref_to_cont A)"

text \<open>\<open>(r >= 0).then_some(r as _)\<close>\<close>

definition nonneg_arg :: "int \<Rightarrow> nat option" where
  "nonneg_arg r = (if 0 \<le> r then Some (nat r) else None)"

section \<open>Jumps and calls\<close>

definition exec_execute :: "('c, 's) api \<Rightarrow> ('c, 's, 'b, int) vm" where
  "exec_execute A = bnd (on_stack pop_cont) (vm_call A)"

definition exec_jmpx :: "('c, 's, 'b, int) vm" where
  "exec_jmpx = bnd (on_stack pop_cont) vm_jump"

definition exec_callx_args :: "('c, 's) api \<Rightarrow> nat \<Rightarrow> nat \<Rightarrow> ('c, 's, 'b, int) vm" where
  "exec_callx_args A p r = bnd (on_stack pop_cont) (\<lambda>k. call_ext A k (Some p) (Some r))"

definition exec_callx_args_p :: "('c, 's) api \<Rightarrow> nat \<Rightarrow> ('c, 's, 'b, int) vm" where
  "exec_callx_args_p A p = bnd (on_stack pop_cont) (\<lambda>k. call_ext A k (Some p) None)"

definition exec_jmpx_args :: "nat \<Rightarrow> ('c, 's, 'b, int) vm" where
  "exec_jmpx_args p = bnd (on_stack pop_cont) (\<lambda>k. jump_ext k (Some p))"

definition exec_ret_args :: "nat \<Rightarrow> ('c, 's, 'b, int) vm" where
  "exec_ret_args r = ret_ext (Some r)"

definition exec_ret :: "('c, 's, 'b, int) vm" where
  "exec_ret = vm_ret"

definition exec_ret_alt :: "('c, 's, 'b, int) vm" where
  "exec_ret_alt = ret_alt"

definition exec_ret_bool :: "('c, 's, 'b, int) vm" where
  "exec_ret_bool = bnd (on_stack pop_bool) (\<lambda>b. if b then vm_ret else ret_alt)"

definition C0_C1 :: save_cr where "C0_C1 = (True, True, False)"
definition SaveC0 :: save_cr where "SaveC0 = (True, False, False)"
definition SaveNone :: save_cr where "SaveNone = (False, False, False)"
definition SaveFull :: save_cr where "SaveFull = (True, True, True)"

definition callcc :: "('c, 's) api \<Rightarrow> ('c, 's, 'b) cont \<Rightarrow> nat option \<Rightarrow> nat option \<Rightarrow> ('c, 's, 'b, int) vm" where
  "callcc A k copy nargs =
     bnd (extract_cc A C0_C1 copy nargs) (\<lambda>cc.
     thn (on_stack (push_raw (VCont cc))) (vm_jump k))"

definition exec_callcc :: "('c, 's) api \<Rightarrow> ('c, 's, 'b, int) vm" where
  "exec_callcc A = bnd (on_stack pop_cont) (\<lambda>k. callcc A k None None)"

definition push_code :: "('c, 's, 'b, unit) vm" where
  "push_code = bnd (gets code) (\<lambda>c. on_stack (push_raw (VSlice c)))"

definition exec_jmpx_data :: "('c, 's, 'b, int) vm" where
  "exec_jmpx_data = bnd (on_stack pop_cont) (\<lambda>k. thn push_code (vm_jump k))"

definition exec_callcc_args :: "('c, 's) api \<Rightarrow> nat \<Rightarrow> int \<Rightarrow> ('c, 's, 'b, int) vm" where
  "exec_callcc_args A p r = bnd (on_stack pop_cont) (\<lambda>k. callcc A k (Some p) (nonneg_arg r))"

definition exec_callx_varargs :: "('c, 's) api \<Rightarrow> ('c, 's, 'b, int) vm" where
  "exec_callx_varargs A =
     bnd (on_stack (pop_smallint_signed_range (-1) 254)) (\<lambda>r.
     bnd (on_stack (pop_smallint_signed_range (-1) 254)) (\<lambda>p.
     bnd (on_stack pop_cont) (\<lambda>k. call_ext A k (nonneg_arg p) (nonneg_arg r))))"

definition exec_ret_varargs :: "('c, 's, 'b, int) vm" where
  "exec_ret_varargs =
     bnd (on_stack (pop_smallint_signed_range (-1) 254)) (\<lambda>r. ret_ext (nonneg_arg r))"

definition exec_jmpx_varargs :: "('c, 's, 'b, int) vm" where
  "exec_jmpx_varargs =
     bnd (on_stack (pop_smallint_signed_range (-1) 254)) (\<lambda>p.
     bnd (on_stack pop_cont) (\<lambda>k. jump_ext k (nonneg_arg p)))"

definition exec_callcc_varargs :: "('c, 's) api \<Rightarrow> ('c, 's, 'b, int) vm" where
  "exec_callcc_varargs A =
     bnd (on_stack (pop_smallint_signed_range (-1) 254)) (\<lambda>r.
     bnd (on_stack (pop_smallint_signed_range (-1) 254)) (\<lambda>p.
     bnd (on_stack pop_cont) (\<lambda>k. callcc A k (nonneg_arg p) (nonneg_arg r))))"

definition exec_callref :: "('c, 's) api \<Rightarrow> nat \<Rightarrow> nat \<Rightarrow> ('c, 's, 'b, int) vm" where
  "exec_callref A args bits = bnd (exec_ref_prefix A bits) (vm_call A)"

definition exec_jmpref :: "('c, 's) api \<Rightarrow> nat \<Rightarrow> nat \<Rightarrow> ('c, 's, 'b, int) vm" where
  "exec_jmpref A args bits = bnd (exec_ref_prefix A bits) vm_jump"

definition exec_jmpref_data :: "('c, 's) api \<Rightarrow> nat \<Rightarrow> nat \<Rightarrow> ('c, 's, 'b, int) vm" where
  "exec_jmpref_data A args bits = bnd (exec_ref_prefix A bits) (\<lambda>k. thn push_code (vm_jump k))"

definition exec_ret_data :: "('c, 's, 'b, int) vm" where
  "exec_ret_data = thn push_code vm_ret"

section \<open>Conditions\<close>

definition exec_ifret :: "('c, 's, 'b, int) vm" where
  "exec_ifret = bnd (on_stack pop_bool) (\<lambda>b. if b then vm_ret else ret 0)"

definition exec_ifnotret :: "('c, 's, 'b, int) vm" where
  "exec_ifnotret = bnd (on_stack pop_bool) (\<lambda>b. if b then ret 0 else vm_ret)"

definition exec_if :: "('c, 's) api \<Rightarrow> ('c, 's, 'b, int) vm" where
  "exec_if A = bnd (on_stack pop_cont) (\<lambda>k. bnd (on_stack pop_bool) (\<lambda>b.
     if b then vm_call A k else ret 0))"

definition exec_ifnot :: "('c, 's) api \<Rightarrow> ('c, 's, 'b, int) vm" where
  "exec_ifnot A = bnd (on_stack pop_cont) (\<lambda>k. bnd (on_stack pop_bool) (\<lambda>b.
     if b then ret 0 else vm_call A k))"

definition exec_if_jmp :: "('c, 's, 'b, int) vm" where
  "exec_if_jmp = bnd (on_stack pop_cont) (\<lambda>k. bnd (on_stack pop_bool) (\<lambda>b.
     if b then vm_jump k else ret 0))"

definition exec_ifnot_jmp :: "('c, 's, 'b, int) vm" where
  "exec_ifnot_jmp = bnd (on_stack pop_cont) (\<lambda>k. bnd (on_stack pop_bool) (\<lambda>b.
     if b then ret 0 else vm_jump k))"

definition exec_if_else :: "('c, 's) api \<Rightarrow> ('c, 's, 'b, int) vm" where
  "exec_if_else A =
     bnd (on_stack pop_cont) (\<lambda>cont0.
     bnd (on_stack pop_cont) (\<lambda>cont1.
     bnd (on_stack pop_bool) (\<lambda>b. vm_call A (if b then cont1 else cont0))))"

definition exec_ifref :: "('c, 's) api \<Rightarrow> nat \<Rightarrow> nat \<Rightarrow> ('c, 's, 'b, int) vm" where
  "exec_ifref A args bits =
     bnd (exec_cell_prefix A bits) (\<lambda>c.
     bnd (on_stack pop_bool) (\<lambda>b. if b then bnd (ref_to_cont A c) (vm_call A) else ret 0))"

definition exec_ifnotref :: "('c, 's) api \<Rightarrow> nat \<Rightarrow> nat \<Rightarrow> ('c, 's, 'b, int) vm" where
  "exec_ifnotref A args bits =
     bnd (exec_cell_prefix A bits) (\<lambda>c.
     bnd (on_stack pop_bool) (\<lambda>b. if b then ret 0 else bnd (ref_to_cont A c) (vm_call A)))"

definition exec_ifjmpref :: "('c, 's) api \<Rightarrow> nat \<Rightarrow> nat \<Rightarrow> ('c, 's, 'b, int) vm" where
  "exec_ifjmpref A args bits =
     bnd (exec_cell_prefix A bits) (\<lambda>c.
     bnd (on_stack pop_bool) (\<lambda>b. if b then bnd (ref_to_cont A c) vm_jump else ret 0))"

definition exec_ifnotjmpref :: "('c, 's) api \<Rightarrow> nat \<Rightarrow> nat \<Rightarrow> ('c, 's, 'b, int) vm" where
  "exec_ifnotjmpref A args bits =
     bnd (exec_cell_prefix A bits) (\<lambda>c.
     bnd (on_stack pop_bool) (\<lambda>b. if b then ret 0 else bnd (ref_to_cont A c) vm_jump))"

definition exec_condsel :: "('c, 's, 'b, int) vm" where
  "exec_condsel = st_op (bnd pop (\<lambda>y. bnd pop (\<lambda>x. bnd pop_bool (\<lambda>cond.
     push_raw (if cond then x else y)))))"

definition exec_condsel_chk :: "('c, 's, 'b, int) vm" where
  "exec_condsel_chk = st_op (bnd pop (\<lambda>y. bnd pop (\<lambda>x.
     thn (vm_ensure (ty x = ty y) (InvalidType (ty x) (ty y)))
    (bnd pop_bool (\<lambda>cond. push_raw (if cond then x else y))))))"

definition exec_ifretalt :: "('c, 's, 'b, int) vm" where
  "exec_ifretalt = bnd (on_stack pop_bool) (\<lambda>b. if b then ret_alt else ret 0)"

definition exec_ifnotretalt :: "('c, 's, 'b, int) vm" where
  "exec_ifnotretalt = bnd (on_stack pop_bool) (\<lambda>b. if b then ret 0 else ret_alt)"

definition exec_ifelse_ref_impl :: "('c, 's) api \<Rightarrow> nat \<Rightarrow> bool \<Rightarrow> ('c, 's, 'b, int) vm" where
  "exec_ifelse_ref_impl A bits ref_first =
     bnd (exec_cell_prefix A bits) (\<lambda>c.
     bnd (on_stack pop_cont) (\<lambda>k.
     bnd (on_stack pop_bool) (\<lambda>b.
     bnd (if b = ref_first then ref_to_cont A c else ret k) (vm_call A))))"

definition exec_ifrefelse :: "('c, 's) api \<Rightarrow> nat \<Rightarrow> nat \<Rightarrow> ('c, 's, 'b, int) vm" where
  "exec_ifrefelse A args bits = exec_ifelse_ref_impl A bits True"

definition exec_ifelseref :: "('c, 's) api \<Rightarrow> nat \<Rightarrow> nat \<Rightarrow> ('c, 's, 'b, int) vm" where
  "exec_ifelseref A args bits = exec_ifelse_ref_impl A bits False"

definition exec_ifref_elseref :: "('c, 's) api \<Rightarrow> nat \<Rightarrow> nat \<Rightarrow> ('c, 's, 'b, int) vm" where
  "exec_ifref_elseref A args bits =
     bnd (gets code) (\<lambda>k.
     thn (vm_ensure (has_remaining A k bits 2) InvalidOpcode)
    (thn (skip_checked A bits 0)
    (bnd (next_reference A) (\<lambda>cell1.
     bnd (next_reference A) (\<lambda>cell0.
     bnd (on_stack pop_bool) (\<lambda>b.
     bnd (ref_to_cont A (if b then cell1 else cell0)) (vm_call A)))))))"

text \<open>\<open>value.bit(x)\<close> of a \<open>BigInt\<close> is the bit of its two's complement.\<close>

definition peek_bit :: "nat \<Rightarrow> (('c, 's, 'b) stk, fault, bool) act" where
  "peek_bit x = bnd pop_int (\<lambda>v. thn (push_raw (VInt v)) (ret (bit v x)))"

definition exec_if_bit_jmp :: "bool \<Rightarrow> nat \<Rightarrow> ('c, 's, 'b, int) vm" where
  "exec_if_bit_jmp n x =
     bnd (on_stack pop_cont) (\<lambda>k.
     bnd (on_stack (peek_bit x)) (\<lambda>b. if b \<noteq> n then vm_jump k else ret 0))"

definition exec_if_bit_jmpref :: "('c, 's) api \<Rightarrow> nat \<Rightarrow> nat \<Rightarrow> ('c, 's, 'b, int) vm" where
  "exec_if_bit_jmpref A args bits =
     bnd (exec_cell_prefix A bits) (\<lambda>c.
     bnd (on_stack (peek_bit (take_bit 5 args))) (\<lambda>b.
     if b \<noteq> bit args 5 then bnd (ref_to_cont A c) vm_jump else ret 0))"

section \<open>Loops\<close>

definition i32_min :: int where "i32_min = - (2 ^ 31)"
definition i32_max :: int where "i32_max = 2 ^ 31 - 1"

text \<open>\<open>let Some(c0) = st.cr.c[0].clone() else { vm_bail!(InvalidOpcode) }\<close>\<close>

definition c0_or_invalid :: "('c, 's, 'b, ('c, 's, 'b) cont) vm" where
  "c0_or_invalid = bnd (gets (\<lambda>st. get_c 0 (cr st))) (\<lambda>c0.
     case c0 of Some k \<Rightarrow> ret k | None \<Rightarrow> vm_fail InvalidOpcode)"

definition exec_repeat :: "('c, 's) api \<Rightarrow> bool \<Rightarrow> ('c, 's, 'b, int) vm" where
  "exec_repeat A brk =
     bnd (on_stack pop_cont) (\<lambda>body.
     bnd (on_stack (pop_smallint_signed_range i32_min i32_max)) (\<lambda>n.
     if n \<le> 0 then ret 0
     else
       bnd (extract_cc A SaveC0 None None) (\<lambda>cc.
       bnd (c1_envelope_if brk cc True) (\<lambda>after. vm_repeat body after (nat n)))))"

definition exec_repeat_end :: "('c, 's) api \<Rightarrow> bool \<Rightarrow> ('c, 's, 'b, int) vm" where
  "exec_repeat_end A brk =
     bnd (on_stack (pop_smallint_signed_range i32_min i32_max)) (\<lambda>n.
     if n \<le> 0 then vm_ret
     else
       bnd (extract_cc A SaveNone None None) (\<lambda>body.
       bnd c0_or_invalid (\<lambda>c0.
       bnd (c1_envelope_if brk c0 True) (\<lambda>after. vm_repeat body after (nat n)))))"

definition exec_until :: "('c, 's) api \<Rightarrow> bool \<Rightarrow> ('c, 's, 'b, int) vm" where
  "exec_until A brk =
     bnd (on_stack pop_cont) (\<lambda>body.
     bnd (extract_cc A SaveC0 None None) (\<lambda>cc.
     bnd (c1_envelope_if brk cc True) (\<lambda>after. vm_until body after)))"

definition exec_until_end :: "('c, 's) api \<Rightarrow> bool \<Rightarrow> ('c, 's, 'b, int) vm" where
  "exec_until_end A brk =
     bnd (extract_cc A SaveNone None None) (\<lambda>body.
     bnd c0_or_invalid (\<lambda>c0.
     bnd (c1_envelope_if brk c0 True) (\<lambda>after. vm_until body after)))"

definition exec_while :: "('c, 's) api \<Rightarrow> bool \<Rightarrow> ('c, 's, 'b, int) vm" where
  "exec_while A brk =
     bnd (on_stack pop_cont) (\<lambda>body.
     bnd (on_stack pop_cont) (\<lambda>cond.
     bnd (extract_cc A SaveC0 None None) (\<lambda>cc.
     bnd (c1_envelope_if brk cc True) (\<lambda>after. loop_while cond body after))))"

definition exec_while_end :: "('c, 's) api \<Rightarrow> bool \<Rightarrow> ('c, 's, 'b, int) vm" where
  "exec_while_end A brk =
     bnd (on_stack pop_cont) (\<lambda>cond.
     bnd (extract_cc A SaveNone None None) (\<lambda>body.
     bnd c0_or_invalid (\<lambda>c0.
     bnd (c1_envelope_if brk c0 True) (\<lambda>after. loop_while cond body after))))"

definition set_creg :: "nat \<Rightarrow> ('c, 's, 'b) cont \<Rightarrow> ('c, 's, 'b, unit) vm" where
  "set_creg i k = modify (\<lambda>st. st\<lparr>cr := put_c i (Some k) (cr st)\<rparr>)"

definition exec_again :: "('c, 's) api \<Rightarrow> bool \<Rightarrow> ('c, 's, 'b, int) vm" where
  "exec_again A brk =
     thn (if brk then bnd (extract_cc A C0_C1 None None) (set_creg 1) else ret ())
    (bnd (on_stack pop_cont) vm_again)"

definition exec_again_end :: "('c, 's) api \<Rightarrow> bool \<Rightarrow> ('c, 's, 'b, int) vm" where
  "exec_again_end A brk =
     thn (if brk then c1_save_set else ret ())
    (bnd (extract_cc A SaveNone None None) vm_again)"

section \<open>Changing continuations and control registers\<close>

text \<open>
  \<open>force_cdata\<close>: a continuation without control data is wrapped, in place; the mutation it is
  called for is then made in the control data.
\<close>

definition cdata_of :: "('c, 's, 'b) cont \<Rightarrow> ('c, 's, 'b) control_data" where
  "cdata_of k = (case get_control_data k of Some d \<Rightarrow> d | None \<Rightarrow> data_default)"

definition with_cdata :: "('c, 's, 'b) control_data \<Rightarrow> ('c, 's, 'b) cont \<Rightarrow> ('c, 's, 'b) cont" where
  "with_cdata d k = (case get_control_data k of
     Some _ \<Rightarrow> put_control_data d k | None \<Rightarrow> ArgContExt d k)"

text \<open>\<open>force_cdata(&mut cont).save.define(i, value)\<close> as an action on the continuation.\<close>

definition define_saved :: "nat \<Rightarrow> ('c, 's, 'b) sval \<Rightarrow> (('c, 's, 'b) cont, fault, unit) act" where
  "define_saved i v k = (case regs_define i v (cd_save (cdata_of k)) of
     (r, s) \<Rightarrow> (r, with_cdata (map_save (\<lambda>_. s) (cdata_of k)) k))"

text \<open>\<open>st.cr.c[n].as_mut().expect(..)\<close>\<close>

definition expect_c :: "nat \<Rightarrow> ('c, 's, 'b, ('c, 's, 'b) cont) vm" where
  "expect_c n = bnd (gets (\<lambda>st. get_c n (cr st))) (\<lambda>c.
     case c of Some k \<Rightarrow> ret k | None \<Rightarrow> fail Panic)"

definition on_creg :: "nat \<Rightarrow> (('c, 's, 'b) cont, fault, 'a) act \<Rightarrow> ('c, 's, 'b, 'a) vm" where
  "on_creg n m st = (case get_c n (cr st) of
     None \<Rightarrow> (Inl Panic, st)
   | Some k \<Rightarrow> (case m k of (r, k') \<Rightarrow> (r, st\<lparr>cr := put_c n (Some k') (cr st)\<rparr>)))"

text \<open>Runs an action on a continuation the handler owns; on failure it is dropped.\<close>

definition on_cont :: "(('c, 's, 'b) cont, fault, unit) act \<Rightarrow> ('c, 's, 'b) cont \<Rightarrow> ('c, 's, 'b, ('c, 's, 'b) cont) vm" where
  "on_cont m k = (case m k of (Inl e, _) \<Rightarrow> fail e | (Inr _, k') \<Rightarrow> ret k')"

definition take_args :: "nat \<Rightarrow> ('c, 's, 'b) control_data \<Rightarrow> ('c, 's, 'b, ('c, 's, 'b) control_data) vm" where
  "take_args copy d =
     thn (lift_res VmErr (require_nargs d copy))
    (bnd (case cd_stack d of
            Some cs \<Rightarrow> (\<lambda>st. case move_from_stack copy (cs, stack st) of
                        (Inl e, (_, s)) \<Rightarrow> (Inl e, st\<lparr>stack := s\<rparr>)
                      | (Inr _, (cs', s)) \<Rightarrow> (Inr cs', st\<lparr>stack := s\<rparr>))
          | None \<Rightarrow> on_stack (split_top copy)) (\<lambda>cs.
     thn (on_gas (try_consume_stack_gas (Some cs)))
         (ret (ControlData (map_option (\<lambda>n. n - copy) (cd_nargs d)) (Some cs) (cd_save d) (cd_cp d)))))"

fun limit_nargs :: "int \<Rightarrow> ('c, 's, 'b) control_data \<Rightarrow> ('c, 's, 'b) control_data" where
  "limit_nargs extra (ControlData nargs s r p) =
     (if 0 \<le> extra then
        ControlData (case nargs of
            Some n \<Rightarrow> if int n > extra then Some 0xffff else Some n
          | None \<Rightarrow> Some (nat extra)) s r p
      else ControlData nargs s r p)"

definition exec_setcontargs_common :: "nat \<Rightarrow> int \<Rightarrow> ('c, 's, 'b, unit) vm" where
  "exec_setcontargs_common copy extra =
     bnd (on_stack pop_cont) (\<lambda>k.
     bnd (if copy > 0 \<or> 0 \<le> extra then
            bnd (if copy > 0 then take_args copy (cdata_of k) else ret (cdata_of k)) (\<lambda>d.
            ret (with_cdata (limit_nargs extra d) k))
          else ret k) (\<lambda>k'.
     on_stack (push_raw (VCont k'))))"

definition exec_setcontargs :: "nat \<Rightarrow> int \<Rightarrow> ('c, 's, 'b, int) vm" where
  "exec_setcontargs r n = thn (exec_setcontargs_common r n) (ret 0)"

text \<open>
  \<open>exec_return_args_common\<close>: all but the top \<open>count\<close> values move to the stack of \<open>c0\<close>. The
  control data of \<open>c0\<close> is updated in place, so what was done before an error stays.
\<close>

definition give_args :: "nat \<Rightarrow> ('c, 's, 'b) stk \<Rightarrow> (('c, 's, 'b) cont, fault, ('c, 's, 'b) stk) act" where
  "give_args copy alt_stack k =
     (let d = cdata_of k; new_stack = (case cd_stack d of Some cs \<Rightarrow> cs @ alt_stack | None \<Rightarrow> alt_stack) in
      case require_nargs d copy of
        Inl e \<Rightarrow> (Inl (VmErr e), with_cdata d k)
      | Inr _ \<Rightarrow> (Inr new_stack, with_cdata (ControlData (cd_nargs d) (Some new_stack) (cd_save d) (cd_cp d)) k))"

definition lower_nargs :: "nat \<Rightarrow> (('c, 's, 'b) cont, fault, unit) act" where
  "lower_nargs copy k =
     (let d = cdata_of k in
      (Inr (), with_cdata (ControlData (map_option (\<lambda>n. n - copy) (cd_nargs d)) (cd_stack d) (cd_save d) (cd_cp d)) k))"

definition exec_return_args_common :: "nat \<Rightarrow> ('c, 's, 'b, unit) vm" where
  "exec_return_args_common n =
     bnd (gets (depth \<circ> stack)) (\<lambda>dep.
     if n = dep then ret ()
     else if n > dep then vm_fail (StackUnderflow n)
     else
       let copy = dep - n in
       bnd (on_stack (split_top n)) (\<lambda>new_stack.
       bnd (gets stack) (\<lambda>alt_stack.
       thn (modify (\<lambda>st. st\<lparr>stack := new_stack\<rparr>))
      (bnd (on_creg 0 (give_args copy alt_stack)) (\<lambda>s.
       thn (on_gas (try_consume_stack_gas (Some s))) (on_creg 0 (lower_nargs copy)))))))"

definition exec_return_args :: "nat \<Rightarrow> ('c, 's, 'b, int) vm" where
  "exec_return_args p = thn (exec_return_args_common p) (ret 0)"

definition exec_return_varargs :: "('c, 's, 'b, int) vm" where
  "exec_return_varargs = bnd (on_stack (pop_smallint_range 0 255)) exec_return_args"

definition exec_setcont_varargs :: "('c, 's, 'b, int) vm" where
  "exec_setcont_varargs =
     bnd (on_stack (pop_smallint_signed_range (-1) 255)) (\<lambda>extra.
     bnd (on_stack (pop_smallint_range 0 255)) (\<lambda>copy. exec_setcontargs copy extra))"

definition exec_setnum_varargs :: "('c, 's, 'b, int) vm" where
  "exec_setnum_varargs =
     bnd (on_stack (pop_smallint_signed_range (-1) 255)) (\<lambda>extra. exec_setcontargs 0 extra)"

definition exec_bless :: "('c, 's, 'b, int) vm" where
  "exec_bless = bnd (on_stack pop_cs) (\<lambda>c. bnd (gets cp) (\<lambda>p. st_op (push_raw (VCont (ord_simple c p)))))"

definition exec_bless_args_common :: "nat \<Rightarrow> int \<Rightarrow> ('c, 's, 'b, unit) vm" where
  "exec_bless_args_common copy extra =
     bnd (on_stack pop_cs) (\<lambda>c.
     bnd (on_stack (split_top copy)) (\<lambda>new_stack.
     thn (on_gas (try_consume_stack_gas (Some new_stack)))
    (bnd (gets cp) (\<lambda>p.
     on_stack (push_raw (VCont (OrdCont (ControlData (nonneg_arg extra) (Some new_stack) regs_default (Some p)) c)))))))"

definition exec_bless_varargs :: "('c, 's, 'b, int) vm" where
  "exec_bless_varargs =
     bnd (on_stack (pop_smallint_signed_range (-1) 255)) (\<lambda>extra.
     bnd (on_stack (pop_smallint_range 0 255)) (\<lambda>copy.
     thn (exec_bless_args_common copy extra) (ret 0)))"

definition exec_bless_args :: "nat \<Rightarrow> int \<Rightarrow> ('c, 's, 'b, int) vm" where
  "exec_bless_args r n = thn (exec_bless_args_common r n) (ret 0)"

definition exec_push_ctr :: "nat \<Rightarrow> ('c, 's, 'b, int) vm" where
  "exec_push_ctr i =
     thn (vm_ensure (is_valid_idx i) InvalidOpcode)
    (bnd (gets (\<lambda>st. get_as_stack_value i (cr st))) (\<lambda>v. st_op (push_opt_raw v)))"

definition exec_pop_ctr :: "nat \<Rightarrow> ('c, 's, 'b, int) vm" where
  "exec_pop_ctr i =
     thn (vm_ensure (is_valid_idx i) InvalidOpcode)
    (bnd (on_stack pop) (\<lambda>v. thn (on_cr (regs_set i v)) (ret 0)))"

definition setcont_ctr :: "nat \<Rightarrow> ('c, 's, 'b, int) vm" where
  "setcont_ctr i =
     bnd (on_stack pop_cont) (\<lambda>k.
     bnd (on_stack pop) (\<lambda>v.
     bnd (on_cont (define_saved i v) k) (\<lambda>k'. st_op (push_raw (VCont k')))))"

definition exec_setcont_ctr :: "nat \<Rightarrow> ('c, 's, 'b, int) vm" where
  "exec_setcont_ctr i = thn (vm_ensure (is_valid_idx i) InvalidOpcode) (setcont_ctr i)"

definition setreg_ctr :: "nat \<Rightarrow> nat \<Rightarrow> ('c, 's, 'b, int) vm" where
  "setreg_ctr n i =
     thn (vm_ensure (is_valid_idx i) InvalidOpcode)
    (thn (expect_c n)
    (bnd (on_stack pop) (\<lambda>v. thn (on_creg n (define_saved i v)) (ret 0))))"

definition exec_setret_ctr :: "nat \<Rightarrow> ('c, 's, 'b, int) vm" where
  "exec_setret_ctr i = setreg_ctr 0 i"

definition exec_setalt_ctr :: "nat \<Rightarrow> ('c, 's, 'b, int) vm" where
  "exec_setalt_ctr i = setreg_ctr 1 i"

definition ctr_or_null :: "nat \<Rightarrow> ('c, 's, 'b) control_regs \<Rightarrow> ('c, 's, 'b) sval" where
  "ctr_or_null i r = (case get_as_stack_value i r of Some v \<Rightarrow> v | None \<Rightarrow> VNull)"

definition exec_popsave :: "nat \<Rightarrow> ('c, 's, 'b, int) vm" where
  "exec_popsave i =
     thn (vm_ensure (is_valid_idx i) InvalidOpcode)
    (bnd (on_stack pop) (\<lambda>v.
     bnd (expect_c 0) (\<lambda>c0.
     thn (vm_ensure (i > 0 \<or> ty v = TyCont) (InvalidType TyCont (ty v)))
    (bnd (gets (\<lambda>st. ctr_or_null i (cr st))) (\<lambda>prev.
     let c0' = snd (define_saved i prev c0) in
     if i = 0 then thn (set_creg 0 c0') (thn (on_cr (regs_set i v)) (ret 0))
     else thn (on_cr (regs_set i v)) (thn (set_creg 0 c0') (ret 0)))))))"

definition savereg_ctr :: "nat \<Rightarrow> nat \<Rightarrow> ('c, 's, 'b, int) vm" where
  "savereg_ctr n i =
     thn (vm_ensure (is_valid_idx i) InvalidOpcode)
    (bnd (expect_c n) (\<lambda>c.
     bnd (gets (\<lambda>st. ctr_or_null i (cr st))) (\<lambda>v.
     bnd (on_cont (define_saved i v) c) (\<lambda>c'. thn (set_creg n c') (ret 0)))))"

definition exec_savectr :: "nat \<Rightarrow> ('c, 's, 'b, int) vm" where
  "exec_savectr i = savereg_ctr 0 i"

definition exec_savealt_ctr :: "nat \<Rightarrow> ('c, 's, 'b, int) vm" where
  "exec_savealt_ctr i = savereg_ctr 1 i"

definition exec_saveboth_ctr :: "nat \<Rightarrow> ('c, 's, 'b, int) vm" where
  "exec_saveboth_ctr i =
     thn (vm_ensure (is_valid_idx i) InvalidOpcode)
    (bnd (expect_c 0) (\<lambda>c0.
     bnd (expect_c 1) (\<lambda>c1.
     bnd (gets (\<lambda>st. ctr_or_null i (cr st))) (\<lambda>v.
     thn (set_creg 0 (snd (define_saved i v c0)))
    (thn (set_creg 1 (snd (define_saved i v c1))) (ret 0))))))"

definition exec_push_ctr_var :: "('c, 's, 'b, int) vm" where
  "exec_push_ctr_var =
     bnd (on_stack (pop_smallint_range 0 16)) (\<lambda>idx.
     bnd (gets (\<lambda>st. get_as_stack_value idx (cr st))) (\<lambda>v.
     case v of None \<Rightarrow> vm_fail (ControlRegisterOutOfRange idx) | Some v \<Rightarrow> st_op (push_raw v)))"

definition exec_pop_ctr_var :: "('c, 's, 'b, int) vm" where
  "exec_pop_ctr_var =
     bnd (on_stack (pop_smallint_range 0 16)) (\<lambda>idx.
     thn (vm_ensure (is_valid_idx idx) (ControlRegisterOutOfRange idx))
    (bnd (on_stack pop) (\<lambda>v. thn (on_cr (regs_set idx v)) (ret 0))))"

definition exec_setcont_ctr_var :: "('c, 's, 'b, int) vm" where
  "exec_setcont_ctr_var =
     bnd (on_stack (pop_smallint_range 0 16)) (\<lambda>idx.
     thn (vm_ensure (is_valid_idx idx) (ControlRegisterOutOfRange idx)) (setcont_ctr idx))"

definition define_many :: "nat \<Rightarrow> ('c, 's, 'b) control_regs \<Rightarrow> (('c, 's, 'b) cont, fault, unit) act" where
  "define_many x r = run_while_list (\<lambda>i.
     if \<not> bit x i then ret ()
     else case get_as_stack_value i r of
       None \<Rightarrow> vm_fail (InvalidType TyCont TyNull)
     | Some v \<Rightarrow> define_saved i v) [0..<8]"

definition exec_setcont_ctr_many :: "nat option \<Rightarrow> ('c, 's, 'b, int) vm" where
  "exec_setcont_ctr_many x0 =
     bnd (gets version) (\<lambda>ver.
     thn (lift_res VmErr (require_ton 9 ver))
    (bnd (case x0 of Some x \<Rightarrow> ret x | None \<Rightarrow> on_stack (pop_smallint_range 0 255)) (\<lambda>x.
     thn (vm_ensure (\<not> bit x 6) (ControlRegisterOutOfRange 6))
    (bnd (on_stack pop_cont) (\<lambda>k.
     bnd (gets cr) (\<lambda>r.
     bnd (on_cont (define_many x r) k) (\<lambda>k'. st_op (push_raw (VCont k')))))))))"

datatype compose = And | Or | Both

fun compose_saved :: "compose \<Rightarrow> ('c, 's, 'b) cont \<Rightarrow> ('c, 's, 'b) control_regs \<Rightarrow> ('c, 's, 'b) control_regs" where
  "compose_saved And v = define_c0 (Some v)"
| "compose_saved Or v = define_c1 (Some v)"
| "compose_saved Both v = define_c1 (Some v) \<circ> define_c0 (Some v)"

definition exec_compos :: "compose \<Rightarrow> ('c, 's, 'b, int) vm" where
  "exec_compos op = st_op (bnd pop_cont (\<lambda>v. bnd pop_cont (\<lambda>k.
     push_raw (VCont (with_saved (compose_saved op v) k)))))"

definition exec_atexit :: "('c, 's, 'b, int) vm" where
  "exec_atexit = bnd (on_stack pop_cont) (\<lambda>k. bnd (gets cr) (\<lambda>r.
     thn (set_creg 0 (with_saved (define_c0 (get_c 0 r)) k)) (ret 0)))"

definition exec_atexit_alt :: "('c, 's, 'b, int) vm" where
  "exec_atexit_alt = bnd (on_stack pop_cont) (\<lambda>k. bnd (gets cr) (\<lambda>r.
     thn (set_creg 1 (with_saved (define_c1 (get_c 1 r)) k)) (ret 0)))"

definition exec_setexit_alt :: "('c, 's, 'b, int) vm" where
  "exec_setexit_alt = bnd (on_stack pop_cont) (\<lambda>k. bnd (gets cr) (\<lambda>r.
     thn (set_creg 1 (with_saved (define_c1 (get_c 1 r) \<circ> define_c0 (get_c 0 r)) k)) (ret 0)))"

definition exec_thenret :: "('c, 's, 'b, int) vm" where
  "exec_thenret = bnd (on_stack pop_cont) (\<lambda>k. bnd (gets cr) (\<lambda>r.
     st_op (push_raw (VCont (with_saved (define_c0 (get_c 0 r)) k)))))"

definition exec_thenret_alt :: "('c, 's, 'b, int) vm" where
  "exec_thenret_alt = bnd (on_stack pop_cont) (\<lambda>k. bnd (gets cr) (\<lambda>r.
     st_op (push_raw (VCont (with_saved (define_c1 (get_c 1 r)) k)))))"

definition exec_invert :: "('c, 's, 'b, int) vm" where
  "exec_invert = thn (modify (\<lambda>st. st\<lparr>cr :=
     put_c 0 (get_c 1 (cr st)) (put_c 1 (get_c 0 (cr st)) (cr st))\<rparr>)) (ret 0)"

definition exec_booleval :: "('c, 's) api \<Rightarrow> ('c, 's, 'b, int) vm" where
  "exec_booleval A =
     bnd (on_stack pop_cont) (\<lambda>k.
     bnd (extract_cc A C0_C1 None None) (\<lambda>next.
     thn (set_creg 0 (PushIntCont (-1) next))
    (thn (set_creg 1 (PushIntCont 0 next)) (vm_jump k))))"

definition exec_samealt :: "bool \<Rightarrow> ('c, 's, 'b, int) vm" where
  "exec_samealt save =
     bnd (expect_c 0) (\<lambda>c0.
     bnd (gets (\<lambda>st. get_c 1 (cr st))) (\<lambda>c1.
     let c0' = (if save then with_saved (define_c1 c1) c0 else c0) in
     thn (set_creg 0 c0') (thn (set_creg 1 c0') (ret 0))))"

section \<open>Dictionary jumps, exceptions, code pages\<close>

definition with_c3 :: "(('c, 's, 'b) cont \<Rightarrow> ('c, 's, 'b, int) vm) \<Rightarrow> ('c, 's, 'b, int) vm" where
  "with_c3 f = bnd (gets (\<lambda>st. get_c 3 (cr st))) (\<lambda>c3.
     case c3 of Some k \<Rightarrow> f k | None \<Rightarrow> vm_fail (InvalidType TyCont TyNull))"

definition exec_calldict_short :: "('c, 's) api \<Rightarrow> nat \<Rightarrow> ('c, 's, 'b, int) vm" where
  "exec_calldict_short A n = thn (on_stack (push_int (int n))) (with_c3 (vm_call A))"

definition exec_jmpdict :: "nat \<Rightarrow> ('c, 's, 'b, int) vm" where
  "exec_jmpdict n = thn (on_stack (push_int (int n))) (with_c3 vm_jump)"

definition exec_preparedict :: "nat \<Rightarrow> ('c, 's, 'b, int) vm" where
  "exec_preparedict n = thn (on_stack (push_int (int n)))
     (bnd (gets (\<lambda>st. get_c 3 (cr st))) (\<lambda>c3.
      st_op (push_raw (case c3 of Some k \<Rightarrow> VCont k | None \<Rightarrow> VNull))))"

datatype throw_mode = Direct | Cond bool

definition exec_throw_fixed :: "('c, 's) api \<Rightarrow> nat \<Rightarrow> throw_mode \<Rightarrow> ('c, 's, 'b, int) vm" where
  "exec_throw_fixed A n mode = (case mode of
      Direct \<Rightarrow> throw_exception A (int n)
    | Cond cond \<Rightarrow> bnd (on_stack pop_bool) (\<lambda>b.
        if b \<noteq> cond then ret 0 else throw_exception A (int n)))"

definition throw_arg :: "('c, 's) api \<Rightarrow> nat \<Rightarrow> ('c, 's, 'b, int) vm" where
  "throw_arg A n = bnd (on_stack pop) (\<lambda>arg. throw_exception_with_arg A (int n) arg)"

definition exec_throw_arg_fixed :: "('c, 's) api \<Rightarrow> nat \<Rightarrow> throw_mode \<Rightarrow> ('c, 's, 'b, int) vm" where
  "exec_throw_arg_fixed A n mode = (case mode of
      Direct \<Rightarrow> throw_arg A n
    | Cond cond \<Rightarrow> bnd (on_stack pop_bool) (\<lambda>b.
        if b \<noteq> cond then st_op pop else throw_arg A n))"

definition exec_throw_any :: "('c, 's) api \<Rightarrow> nat \<Rightarrow> ('c, 's, 'b, int) vm" where
  "exec_throw_any A x =
     (let has_param = bit x 0; has_cond = bit x 1 \<or> bit x 2; throw_cond = bit x 1 in
      bnd (if has_cond then on_stack pop_bool else ret throw_cond) (\<lambda>cond.
      bnd (on_stack (pop_smallint_range 0 0xffff)) (\<lambda>n.
      if cond \<noteq> throw_cond then (if has_param then st_op pop else ret 0)
      else if has_param then throw_arg A n
      else throw_exception A (int n))))"

definition handler_saved :: "('c, 's, 'b) cont option \<Rightarrow> ('c, 's, 'b) cont
    \<Rightarrow> ('c, 's, 'b) control_regs \<Rightarrow> ('c, 's, 'b) control_regs" where
  "handler_saved old_c2 cc = define_c0 (Some cc) \<circ> define_c2 old_c2"

definition exec_try_common :: "('c, 's) api \<Rightarrow> (nat \<times> nat) option \<Rightarrow> ('c, 's, 'b, int) vm" where
  "exec_try_common A args =
     bnd (on_stack pop_cont) (\<lambda>handler_cont.
     bnd (on_stack pop_cont) (\<lambda>k.
     bnd (gets (\<lambda>st. get_c 2 (cr st))) (\<lambda>old_c2.
     bnd (extract_cc A SaveFull (map_option fst args) (map_option snd args)) (\<lambda>cc.
     thn (set_creg 0 cc)
    (thn (set_creg 2 (with_saved (handler_saved old_c2 cc) handler_cont)) (vm_jump k))))))"

definition exec_try :: "('c, 's) api \<Rightarrow> ('c, 's, 'b, int) vm" where
  "exec_try A = exec_try_common A None"

definition exec_tryargs :: "('c, 's) api \<Rightarrow> nat \<Rightarrow> nat \<Rightarrow> ('c, 's, 'b, int) vm" where
  "exec_tryargs A p r = exec_try_common A (Some (p, r))"

text \<open>\<open>cp as i16 as u16\<close>\<close>

definition i16_as_u16 :: "int \<Rightarrow> nat" where
  "i16_as_u16 x = nat (x mod 2 ^ 16)"

definition exec_set_cp_any :: "('c, 's, 'b, int) vm" where
  "exec_set_cp_any =
     bnd (on_stack (pop_smallint_signed_range (-0x8000) 0x7fff)) (\<lambda>n.
     thn (force_cp (i16_as_u16 n)) (ret 0))"

definition exec_set_cp :: "int \<Rightarrow> ('c, 's, 'b, int) vm" where
  "exec_set_cp x = thn (force_cp (i16_as_u16 x)) (ret 0)"

section \<open>Nested virtual machines\<close>

definition RUNVM_GAS_PRICE :: int where "RUNVM_GAS_PRICE = 40"

definition u64_limit :: nat where "u64_limit = 2 ^ 64 - 1"

record ('c, 's, 'b) runvm_args =
  rv_gas_max :: nat
  rv_gas_limit :: nat
  rv_c7 :: "('c, 's, 'b) sval list"
  rv_data :: 'c
  rv_return_values :: "nat option"
  rv_code :: 's
  rv_stack :: "('c, 's, 'b) stk"

text \<open>What \<open>exec_runvm_common\<close> reads from the stack, in its order.\<close>

definition pop_runvm_args :: "('c, 's) api \<Rightarrow> nat \<Rightarrow> (('c, 's, 'b) stk, fault, ('c, 's, 'b) runvm_args) act" where
  "pop_runvm_args A x =
     bnd (if bit x 6 then pop_long_range 0 u64_limit else ret u64_limit) (\<lambda>gas_max0.
     bnd (if bit x 3 then pop_long_range 0 u64_limit else ret u64_limit) (\<lambda>limit.
     bnd (if bit x 4 then pop_tuple else ret []) (\<lambda>c7.
     bnd (if bit x 2 then pop_cell else ret (cell_empty A)) (\<lambda>d.
     bnd (if bit x 8 then bnd (pop_smallint_range 0 (2 ^ 30)) (\<lambda>n. ret (Some n)) else ret None) (\<lambda>rn.
     bnd pop_cs (\<lambda>c.
     bnd (gets depth) (\<lambda>dep.
     bnd (pop_long_range 0 (dep - 1)) (\<lambda>size.
     bnd (split_top size) (\<lambda>s.
     ret \<lparr>rv_gas_max = (if bit x 6 then max gas_max0 limit else limit), rv_gas_limit = limit,
          rv_c7 = c7, rv_data = d, rv_return_values = rn, rv_code = c, rv_stack = s\<rparr>)))))))))"

definition child_regs :: "('c, 's) api \<Rightarrow> nat \<Rightarrow> ('c, 's, 'b) runvm_args \<Rightarrow> ('c, 's, 'b) control_regs" where
  "child_regs A x r =
     ControlRegs (Some (QuitCont 0)) (Some (QuitCont 1)) (Some ExcQuitCont)
       (Some (if bit x 0 then ord_simple (rv_code r) 0 else QuitCont 11))
       (Some (rv_data r)) (Some (cell_empty A)) (Some (rv_c7 r))"

definition enter_child :: "('c, 's) api \<Rightarrow> nat \<Rightarrow> ('c, 's, 'b) runvm_args \<Rightarrow> 'c parent_gas
    \<Rightarrow> ('c, 's, 'b) vm_state \<Rightarrow> ('c, 's, 'b) vm_state" where
  "enter_child A x r pg st =
     st\<lparr>code := rv_code r,
        stack := (if bit x 0 \<and> bit x 1 then rv_stack r @ [VInt 0] else rv_stack r),
        cr := child_regs A x r, committed_state := None, steps := 0,
        quit0 := QuitCont 0, quit1 := QuitCont 1, cp := 0,
        parents := \<lparr>p_code = code st, p_stack = stack st, p_cr = cr st,
          p_committed_state = committed_state st, p_steps = steps st, p_quit0 = quit0 st,
          p_quit1 = quit1 st, p_gas = pg, p_cp = cp st, p_return_data = bit x 2,
          p_return_actions = bit x 5, p_return_gas = bit x 3,
          p_return_values = rv_return_values r\<rparr> # parents st\<rparr>"

definition on_derive :: "derive_params \<Rightarrow> ('c, 's, 'b, 'c parent_gas) vm" where
  "on_derive p = zoom gas (\<lambda>g st. st\<lparr>gas := g\<rparr>) id (derive p)"

definition exec_runvm_common :: "('c, 's) api \<Rightarrow> nat \<Rightarrow> ('c, 's, 'b, int) vm" where
  "exec_runvm_common A x =
     thn (vm_ensure (x < 512) (IntegerOutOfRange 0 511 (int x)))
    (thn (on_gas (try_consume RUNVM_GAS_PRICE))
    (bnd (on_stack (pop_runvm_args A x)) (\<lambda>r.
     thn (on_gas (try_consume_stack_gas (Some (rv_stack r))))
    (bnd (on_derive \<lparr>dp_gas_max = int (rv_gas_max r), dp_gas_limit = int (rv_gas_limit r),
                     dp_isolate = bit x 7\<rparr>) (\<lambda>pg.
     thn (modify (enter_child A x r pg)) (ret 0))))))"

definition exec_runvm :: "('c, 's) api \<Rightarrow> nat \<Rightarrow> ('c, 's, 'b, int) vm" where
  "exec_runvm A x = exec_runvm_common A x"

definition exec_runvmx :: "('c, 's) api \<Rightarrow> ('c, 's, 'b, int) vm" where
  "exec_runvmx A = bnd (on_stack (pop_smallint_range 0 0xfff)) (exec_runvm_common A)"

section \<open>The invariant\<close>

lemma safe_reference_at [safe_rules]: "safe (reference_at A off)"
  unfolding reference_at_def by (intro safe_rules)

lemma safe_prefixes [safe_rules]:
  "safe (exec_cell_prefix A b)" "safe (exec_ref_prefix A b)" "safe (next_reference A)"
proof -
  show c: "safe (exec_cell_prefix A b)" unfolding exec_cell_prefix_def by (intro safe_rules)
  show "safe (exec_ref_prefix A b)" unfolding exec_ref_prefix_def by (intro safe_rules c)
  show "safe (next_reference A)" unfolding next_reference_def by (intro safe_rules)
qed

lemma safe_callcc [safe_rules]: "safe (callcc A k p r)"
  unfolding callcc_def by (intro safe_rules calm_rules)

lemma safe_push_code [safe_rules]: "safe push_code"
  unfolding push_code_def by (intro safe_rules calm_rules)

lemma calm_peek_bit [calm_rules]: "calm (peek_bit x)"
  unfolding peek_bit_def by (intro calm_rules)

lemma safe_c0_or_invalid [safe_rules]: "safe c0_or_invalid"
  unfolding c0_or_invalid_def by (intro safe_rules)

lemma safe_set_creg [safe_rules]: "i < 4 \<Longrightarrow> safe (set_creg i k)"
  unfolding set_creg_def by (intro safe_modify good_cr) simp_all

text \<open>The registers the code expects to be set are set in every good state.\<close>

lemma safe_expect_c [safe_rules]: "n < 2 \<Longrightarrow> safe (expect_c n)"
  by (rule upholdsI)
    (auto simp: expect_c_def less_2_cases_iff regs_ok_def dest!: good_regs split: option.splits)

lemma safe_on_creg:
  assumes "n < 2" and "\<And>k. fst (m k) \<noteq> Inl Panic"
  shows "safe (on_creg n m)"
proof -
  have run: "\<exists>k k'. fst (m k) = r \<and> t = st\<lparr>cr := put_c n (Some k') (cr st)\<rparr>"
    if "good f st" "on_creg n m st = (r, t)" for f st r t
    using that assms(1)
    by (auto simp: on_creg_def less_2_cases_iff regs_ok_def dest!: good_regs split: option.splits prod.splits)
      (metis fst_conv)+
  have good: "good f st \<Longrightarrow> on_creg n m st = (r, t) \<Longrightarrow> good f t" for f st r t
    using run[of f st r t] assms(1) by (auto intro!: good_cr)
  show ?thesis
  proof (rule upholdsI)
    fix f st e t
    assume g: "good f st" and r: "on_creg n m st = (Inl e, t)"
    then show "bad f e t" using run[OF g r] good[OF g r] good_halted assms(2) by (auto simp: bad_def)
  qed (rule good)
qed

lemma regs_no_panic: "fst (regs_define i v r) \<noteq> Inl Panic" "fst (regs_set i v r) \<noteq> Inl Panic"
  by (cases v; auto simp: regs_define_def regs_set_def bnd_def thn_def vm_ensure_def ensure_def
      into_cont_def into_cell_def into_tuple_def lift_res_def split: sum.splits)+

lemma define_saved_no_panic: "fst (define_saved i v k) \<noteq> Inl Panic"
  using regs_no_panic(1)[of i v "cd_save (cdata_of k)"] by (auto simp: define_saved_def split: prod.splits)

lemma define_many_no_panic: "fst (define_many x r k) \<noteq> Inl Panic"
proof -
  have "fst (run_while_list (\<lambda>i. if \<not> bit x i then ret ()
     else case get_as_stack_value i r of None \<Rightarrow> vm_fail (InvalidType TyCont TyNull)
     | Some v \<Rightarrow> define_saved i v) xs k) \<noteq> Inl Panic" for xs
  proof (induction xs arbitrary: k)
    case (Cons a xs)
    then show ?case
      using define_saved_no_panic[of a _ k]
      by (auto simp: thn_def bnd_def split: prod.splits sum.splits option.splits) (metis fst_conv)
  qed simp
  then show ?thesis by (simp add: define_many_def)
qed

lemma safe_on_cont: "fst (m k) \<noteq> Inl Panic \<Longrightarrow> safe (on_cont m k)"
  by (rule upholdsI) (auto simp: on_cont_def bad_def good_halted split: prod.splits sum.splits)

lemmas safe_define [safe_rules] = safe_on_cont[OF define_saved_no_panic]
  safe_on_cont[OF define_many_no_panic] safe_on_creg[OF _ define_saved_no_panic]

lemma regs_set_ok: "regs_ok r \<Longrightarrow> regs_ok (snd (regs_set i v r))"
  by (cases v) (auto simp: regs_set_def bnd_def lift_res_def into_cont_def into_cell_def into_tuple_def
      regs_ok_def)

lemma on_cr_eq: "on_cr m st = (case m (cr st) of (r, c) \<Rightarrow> (r, st\<lparr>cr := c\<rparr>))"
  by (simp add: on_cr_def zoom_def id_def sum.map_ident split: prod.splits)

lemma safe_regs_set [safe_rules]: "safe (on_cr (regs_set i v))"
proof -
  have good: "good f t" if "good f st" "on_cr (regs_set i v) st = (r, t)" for f st r t
    using that regs_set_ok[OF good_regs[OF that(1)], of i v]
    by (auto simp: on_cr_eq intro!: good_cr split: prod.splits)
  show ?thesis
  proof (rule upholdsI)
    fix f st e t
    assume g: "good f st" and r: "on_cr (regs_set i v) st = (Inl e, t)"
    have "e \<noteq> Panic" using r regs_no_panic(2)[of i v "cr st"] by (auto simp: on_cr_eq split: prod.splits)
    then show "bad f e t" using good[OF g r] good_halted by (auto simp: bad_def)
  qed (rule good)
qed

lemma safe_move_args:
  "safe (\<lambda>st. case move_from_stack copy (cs, stack st) of
      (Inl e, (_, s)) \<Rightarrow> (Inl e, st\<lparr>stack := s\<rparr>) | (Inr _, (cs', s)) \<Rightarrow> (Inr cs', st\<lparr>stack := s\<rparr>))"
  by (rule upholdsI) (auto simp: move_from_stack_eq bad_def good_halted split: if_splits)

lemma safe_take_args [safe_rules]: "safe (take_args copy d)"
  unfolding take_args_def by (intro safe_rules calm_rules safe_move_args)

lemma safe_setcontargs [safe_rules]:
  "safe (exec_setcontargs_common copy n)" "safe (exec_setcontargs copy n)"
proof -
  show c: "safe (exec_setcontargs_common copy n)"
    unfolding exec_setcontargs_common_def by (intro safe_rules calm_rules)
  show "safe (exec_setcontargs copy n)" unfolding exec_setcontargs_def by (intro safe_rules c)
qed

lemma safe_give_args [safe_rules]: "safe (on_creg 0 (give_args copy s))" "safe (on_creg 0 (lower_nargs copy))"
  by (rule safe_on_creg; auto simp: give_args_def lower_nargs_def Let_def split: sum.splits)+

lemma safe_return_args [safe_rules]: "safe (exec_return_args_common n)" "safe (exec_return_args n)"
proof -
  show c: "safe (exec_return_args_common n)"
    unfolding exec_return_args_common_def by (intro safe_rules calm_rules)
  show "safe (exec_return_args n)" unfolding exec_return_args_def by (intro safe_rules c)
qed

lemma safe_bless_args [safe_rules]: "safe (exec_bless_args_common copy n)"
  unfolding exec_bless_args_common_def by (intro safe_rules calm_rules)

lemma safe_setcont_ctr [safe_rules]: "safe (setcont_ctr i)"
  unfolding setcont_ctr_def by (intro safe_rules calm_rules)

lemma safe_setreg_ctr [safe_rules]: "n < 2 \<Longrightarrow> safe (setreg_ctr n i)"
  unfolding setreg_ctr_def by (intro safe_rules calm_rules)

lemma safe_savereg_ctr [safe_rules]: "n < 2 \<Longrightarrow> safe (savereg_ctr n i)"
  unfolding savereg_ctr_def by (intro safe_rules calm_rules) simp_all

lemma safe_invert [safe_rules]: "safe exec_invert"
  unfolding exec_invert_def by (intro safe_rules safe_modify good_cr) (auto simp: regs_ok_def)

lemma safe_with_c3 [safe_rules]: "(\<And>k. safe (f k)) \<Longrightarrow> safe (with_c3 f)"
  unfolding with_c3_def by (intro safe_rules)

lemma safe_throw_arg [safe_rules]: "safe (throw_arg A n)"
  unfolding throw_arg_def by (intro safe_rules calm_rules)

lemma safe_try [safe_rules]: "safe (exec_try_common A args)"
  unfolding exec_try_common_def by (intro safe_rules calm_rules) simp_all

text \<open>Entering a nested VM keeps the invariant: the price of the instruction pays for the return.\<close>

lemma pop_runvm_args_limits:
  "pop_runvm_args A x s = (Inr r, t) \<Longrightarrow> rv_gas_limit r \<le> rv_gas_max r"
  by (auto simp: pop_runvm_args_def bnd_eq_Inr_iff)

lemma calm_pop_runvm_args [calm_rules]: "calm (pop_runvm_args A x)"
  unfolding pop_runvm_args_def by (intro calm_rules)

lemma derive_chained:
  assumes "meter_inv (f, ms) g" "0 \<le> dp_gas_limit p" "dp_gas_limit p \<le> dp_gas_max p"
    "derive p g = (Inr parent, child)"
  shows "meter_inv (f + 2, meter parent # ms) child"
  using assms derive_shared_chained derive_isolated_chained by (cases "dp_isolate p") blast+

lemma enter_child_good:
  assumes "rv_gas_limit r \<le> rv_gas_max r"
    and p: "p = \<lparr>dp_gas_max = int (rv_gas_max r), dp_gas_limit = int (rv_gas_limit r), dp_isolate = isol\<rparr>"
  shows "hoare (good f) (bnd (on_derive p) (\<lambda>pg. thn (modify (enter_child A x r pg)) (ret (0 :: int))))
           (\<lambda>_. good (f + 2)) (bad f)" (is "hoare _ ?m _ _")
proof (rule hoareI)
  fix st e t
  assume g: "good f st" and run: "?m st = (Inl e, t)"
  have i: "meter_inv (f, parent_meters st) (gas st)" using g by (simp add: good_def)
  obtain h where d: "derive p (gas st) = (Inl e, h)" and t: "t = st\<lparr>gas := h\<rparr>"
    using run by (auto simp: on_derive_def zoom_def bnd_def split: prod.splits sum.splits)
  then show "bad f e t"
    using derive_error[OF i d] g by (auto simp: bad_def halted_def good_def parent_meters_def parents_ok_def)
next
  fix st y t
  assume g: "good f st" and run: "?m st = (Inr y, t)"
  have i: "meter_inv (f, parent_meters st) (gas st)" using g by (simp add: good_def)
  obtain pg h where d: "derive p (gas st) = (Inr pg, h)" and t: "t = enter_child A x r pg (st\<lparr>gas := h\<rparr>)"
    using run by (auto simp: on_derive_def zoom_def bnd_def split: prod.splits sum.splits)
  have "meter_inv (f + 2, meter pg # parent_meters st) h"
    using derive_chained[OF i _ _ d] assms(1) p by simp
  then show "good (f + 2) t"
    using g unfolding t
    by (auto simp: enter_child_def good_def parent_meters_def parents_ok_def child_regs_def regs_ok_def)
qed

lemma pop_runvm_args_good:
  "hoare (good f) (on_stack (pop_runvm_args A x)) (\<lambda>r st. good f st \<and> rv_gas_limit r \<le> rv_gas_max r) (bad f)"
proof -
  have s: "safe (on_stack (pop_runvm_args A x))" by (intro safe_rules calm_rules)
  show ?thesis
  proof (rule hoareI)
    fix st r t
    assume g: "good f st" and run: "on_stack (pop_runvm_args A x) st = (Inr r, t)"
    then show "good f t \<and> rv_gas_limit r \<le> rv_gas_max r"
      using upholds_InrD[OF s g run] pop_runvm_args_limits[of A x "stack st" r]
      by (auto simp: on_stack_eq split: prod.splits)
  qed (rule upholds_InlD[OF s])
qed

lemma charge_runvm: "hoare (good f) (on_gas (try_consume RUNVM_GAS_PRICE)) (\<lambda>_. good (f - 40)) (bad f)"
  by (rule hoare_conseq[OF charge_good])
    (auto simp: RUNVM_GAS_PRICE_def machine_bounds intro: only_oog_bad)

lemma safe_runvm [safe_rules]: "safe (exec_runvm_common A x)"
proof -
  let ?tail = "\<lambda>r. bnd (on_derive \<lparr>dp_gas_max = int (rv_gas_max r), dp_gas_limit = int (rv_gas_limit r),
                     dp_isolate = bit x 7\<rparr>) (\<lambda>pg. thn (modify (enter_child A x r pg)) (ret (0 :: int)))"
  let ?body = "bnd (on_stack (pop_runvm_args A x)) (\<lambda>r.
      thn (on_gas (try_consume_stack_gas (Some (rv_stack r)))) (?tail r))"
  have tail: "hoare (\<lambda>st. good f st \<and> rv_gas_limit r \<le> rv_gas_max r) (?tail r) (\<lambda>_. good (f + 2)) (bad f)" for f r
    by (cases "rv_gas_limit r \<le> rv_gas_max r") (simp_all add: enter_child_good, simp add: hoare_def)
  have pay: "hoare (\<lambda>st. good f st \<and> P) (on_gas (try_consume_stack_gas s)) (\<lambda>_ st. good f st \<and> P) (bad f)" for f P s
    by (intro hoare_fact upholdsD safe_rules)
  have body: "hoare (good f) ?body (\<lambda>_. good (f + 2)) (bad f)" for f
    by (rule hoare_bnd[OF pop_runvm_args_good hoare_thn[OF pay tail]])
  have "safe (thn (on_gas (try_consume RUNVM_GAS_PRICE)) ?body)"
    unfolding upholds_def
  proof
    fix f
    show "hoare (good f) (thn (on_gas (try_consume RUNVM_GAS_PRICE)) ?body) (\<lambda>_. good f) (bad f)"
      by (rule hoare_thn[OF charge_runvm], rule hoare_conseq[OF body[of "f - 40"]])
        (auto elim: good_mono bad_mono)
  qed
  then show ?thesis unfolding exec_runvm_common_def by (rule vm.upholds_thn[OF safe_vm_ensure])
qed

lemmas contops_defs = exec_execute_def exec_jmpx_def exec_callx_args_def exec_callx_args_p_def
  exec_jmpx_args_def exec_ret_args_def exec_ret_def exec_ret_alt_def exec_ret_bool_def exec_callcc_def
  exec_jmpx_data_def exec_callcc_args_def exec_callx_varargs_def exec_ret_varargs_def
  exec_jmpx_varargs_def exec_callcc_varargs_def exec_callref_def exec_jmpref_def exec_jmpref_data_def
  exec_ret_data_def exec_ifret_def exec_ifnotret_def exec_if_def exec_ifnot_def exec_if_jmp_def
  exec_ifnot_jmp_def exec_if_else_def exec_ifref_def exec_ifnotref_def exec_ifjmpref_def
  exec_ifnotjmpref_def exec_condsel_def exec_condsel_chk_def exec_ifretalt_def exec_ifnotretalt_def
  exec_ifelse_ref_impl_def exec_ifrefelse_def exec_ifelseref_def exec_ifref_elseref_def
  exec_if_bit_jmp_def exec_if_bit_jmpref_def exec_repeat_def exec_repeat_end_def exec_until_def
  exec_until_end_def exec_while_def exec_while_end_def exec_again_def exec_again_end_def
  exec_return_varargs_def exec_setcont_varargs_def exec_setnum_varargs_def exec_bless_def
  exec_bless_varargs_def exec_bless_args_def exec_push_ctr_def exec_pop_ctr_def exec_setcont_ctr_def
  exec_setret_ctr_def exec_setalt_ctr_def exec_popsave_def exec_savectr_def exec_savealt_ctr_def
  exec_saveboth_ctr_def exec_push_ctr_var_def exec_pop_ctr_var_def exec_setcont_ctr_var_def
  exec_setcont_ctr_many_def exec_compos_def exec_atexit_def exec_atexit_alt_def exec_setexit_alt_def
  exec_thenret_def exec_thenret_alt_def exec_booleval_def exec_samealt_def exec_calldict_short_def
  exec_jmpdict_def exec_preparedict_def exec_try_def exec_tryargs_def exec_set_cp_any_def
  exec_set_cp_def exec_runvm_def exec_runvmx_def

lemma safe_throw_fixed: "safe (exec_throw_fixed A n mode)" "safe (exec_throw_arg_fixed A n mode)"
  "safe (exec_throw_any A x)"
proof -
  show "safe (exec_throw_fixed A n mode)" "safe (exec_throw_arg_fixed A n mode)"
    unfolding exec_throw_fixed_def exec_throw_arg_fixed_def
    by (cases mode; simp only: throw_mode.case; intro safe_rules calm_rules)+
  show "safe (exec_throw_any A x)"
    unfolding exec_throw_any_def Let_def by (intro safe_rules calm_rules)
qed

lemma contops_safe:
  "safe (exec_execute A)" "safe exec_jmpx" "safe (exec_callx_args A p r)" "safe (exec_callx_args_p A p)"
  "safe (exec_jmpx_args p)" "safe (exec_ret_args r)" "safe exec_ret" "safe exec_ret_alt"
  "safe exec_ret_bool" "safe (exec_callcc A)" "safe exec_jmpx_data" "safe (exec_callcc_args A p z)"
  "safe (exec_callx_varargs A)" "safe exec_ret_varargs" "safe exec_jmpx_varargs"
  "safe (exec_callcc_varargs A)" "safe (exec_callref A n b)" "safe (exec_jmpref A n b)"
  "safe (exec_jmpref_data A n b)" "safe exec_ret_data" "safe (exec_runvm A n)" "safe (exec_runvmx A)"
  "safe exec_ifret" "safe exec_ifnotret" "safe (exec_if A)" "safe (exec_ifnot A)" "safe exec_if_jmp"
  "safe exec_ifnot_jmp" "safe (exec_if_else A)" "safe (exec_ifref A n b)" "safe (exec_ifnotref A n b)"
  "safe (exec_ifjmpref A n b)" "safe (exec_ifnotjmpref A n b)" "safe exec_condsel"
  "safe exec_condsel_chk" "safe exec_ifretalt" "safe exec_ifnotretalt" "safe (exec_ifrefelse A n b)"
  "safe (exec_ifelseref A n b)" "safe (exec_ifref_elseref A n b)" "safe (exec_if_bit_jmp neg n)"
  "safe (exec_if_bit_jmpref A n b)"
  unfolding contops_defs by (intro safe_rules calm_rules)+

lemma contops_safe2:
  "safe (exec_repeat A brk)" "safe (exec_repeat_end A brk)" "safe (exec_until A brk)"
  "safe (exec_until_end A brk)" "safe (exec_while A brk)" "safe (exec_while_end A brk)"
  "safe (exec_again A brk)" "safe (exec_again_end A brk)" "safe (exec_return_varargs)"
  "safe exec_setcont_varargs" "safe exec_setnum_varargs" "safe exec_bless" "safe exec_bless_varargs"
  "safe (exec_bless_args r z)" "safe (exec_push_ctr i)" "safe (exec_pop_ctr i)"
  "safe (exec_setcont_ctr i)" "safe (exec_setret_ctr i)" "safe (exec_setalt_ctr i)"
  "safe (exec_popsave i)" "safe (exec_savectr i)" "safe (exec_savealt_ctr i)"
  "safe (exec_saveboth_ctr i)" "safe exec_push_ctr_var" "safe exec_pop_ctr_var"
  "safe exec_setcont_ctr_var" "safe (exec_setcont_ctr_many x)" "safe (exec_compos op)"
  "safe exec_atexit" "safe exec_atexit_alt" "safe exec_setexit_alt" "safe exec_thenret"
  "safe exec_thenret_alt" "safe (exec_booleval A)" "safe (exec_samealt save)"
  "safe (exec_calldict_short A n)" "safe (exec_jmpdict n)" "safe (exec_preparedict n)"
  "safe (exec_try A)" "safe (exec_tryargs A p q)" "safe exec_set_cp_any" "safe (exec_set_cp z)"
  unfolding contops_defs by (intro safe_rules calm_rules; simp)+

end
