(* ===== verification/ArithOps.thy ===== *)
theory ArithOps
  imports Safety Complex_Main "HOL-Library.Signed_Division"
begin

text \<open>
  \<open>vm/src/instr/arithops.rs\<close>: integer constants, addition and multiplication with the 257-bit
  overflow check, and the family of division instructions with its three rounding modes.
  \<open>div_floor\<close>/\<open>mod_floor\<close> are HOL's \<open>div\<close>/\<open>mod\<close> on \<open>int\<close>; \<open>div_rem\<close>, which truncates, is
  \<open>sdiv\<close>/\<open>smod\<close>; \<open>>>\<close> and \<open>&\<close> of a \<open>BigInt\<close> act on its two's complement.
\<close>

unbundle bit_operations_syntax

section \<open>Rounding division\<close>

datatype round_mode = Floor | Nearest | Ceiling

definition from_args :: "nat \<Rightarrow> vm_error + round_mode" where
  "from_args a = (if a = 0 then Inr Floor else if a = 1 then Inr Nearest
     else if a = 2 then Inr Ceiling else Inl InvalidOpcode)"

definition nearest_rounding_required :: "int \<Rightarrow> int \<Rightarrow> int \<Rightarrow> bool" where
  "nearest_rounding_required r x y \<longleftrightarrow>
     r \<noteq> 0 \<and> (\<bar>push_bit 1 r\<bar> > \<bar>y\<bar> \<or> \<bar>push_bit 1 r\<bar> = \<bar>y\<bar> \<and> sgn x = sgn y)"

definition ceil_rounding_required :: "int \<Rightarrow> int \<Rightarrow> bool" where
  "ceil_rounding_required r y \<longleftrightarrow> r \<noteq> 0 \<and> sgn r = sgn y"

definition int_div :: "int \<Rightarrow> int \<Rightarrow> round_mode \<Rightarrow> int" where
  "int_div x y m = (case m of
      Floor \<Rightarrow> x div y
    | Nearest \<Rightarrow>
        (let q = x sdiv y; r = x smod y in
         if nearest_rounding_required r x y then (if sgn x = sgn y then q + 1 else q - 1) else q)
    | Ceiling \<Rightarrow>
        (let q = x sdiv y; r = x smod y in
         if ceil_rounding_required r y then (if sgn x = sgn y then q + 1 else q - 1) else q))"

definition int_mod :: "int \<Rightarrow> int \<Rightarrow> round_mode \<Rightarrow> int" where
  "int_mod x y m = (case m of
      Floor \<Rightarrow> x mod y
    | Nearest \<Rightarrow>
        (let r = x smod y in
         if nearest_rounding_required r x y then (if sgn r = sgn y then r - y else r + y) else r)
    | Ceiling \<Rightarrow>
        (let r = x smod y in if ceil_rounding_required r y then r - y else r))"

definition int_divmod :: "int \<Rightarrow> int \<Rightarrow> round_mode \<Rightarrow> int \<times> int" where
  "int_divmod x y m = (case m of
      Floor \<Rightarrow> (x div y, x mod y)
    | Nearest \<Rightarrow>
        (let q = x sdiv y; r = x smod y in
         if nearest_rounding_required r x y
         then (if sgn x = sgn y then q + 1 else q - 1, if sgn r = sgn y then r - y else r + y)
         else (q, r))
    | Ceiling \<Rightarrow>
        (let q = x sdiv y; r = x smod y in
         if ceil_rounding_required r y
         then (if sgn x = sgn y then q + 1 else q - 1, r - y)
         else (q, r)))"

definition int_rshift :: "int \<Rightarrow> nat \<Rightarrow> round_mode \<Rightarrow> int" where
  "int_rshift x y m = (case m of
      Floor \<Rightarrow> drop_bit y x
    | _ \<Rightarrow> int_div x (push_bit y 1) m)"

definition int_mod_pow2 :: "int \<Rightarrow> nat \<Rightarrow> round_mode \<Rightarrow> int" where
  "int_mod_pow2 x y m = (let pow2 = push_bit y 1 in
     case m of Floor \<Rightarrow> x AND (pow2 - 1) | _ \<Rightarrow> int_mod x pow2 m)"

definition int_rshiftmod :: "int \<Rightarrow> nat \<Rightarrow> round_mode \<Rightarrow> int \<times> int" where
  "int_rshiftmod x y m = (let pow2 = push_bit y 1 in
     case m of Floor \<Rightarrow> (drop_bit y x, x AND (pow2 - 1)) | _ \<Rightarrow> int_divmod x pow2 m)"

section \<open>Constants\<close>

definition exec_push_tinyint4 :: "int \<Rightarrow> ('c, 's, 'b, int) vm" where
  "exec_push_tinyint4 x = st_op (push_int x)"

definition exec_push_int :: "('c, 's) api \<Rightarrow> nat \<Rightarrow> nat \<Rightarrow> ('c, 's, 'b, int) vm" where
  "exec_push_int A args bits =
     (let l = take_bit 5 args + 2; value_len = 3 + l * 8 in
      bnd (gets code) (\<lambda>k.
      thn (vm_ensure (has_remaining A k (bits + value_len) 0) InvalidOpcode)
     (thn (skip_checked A bits 0)
     (bnd (gets code) (\<lambda>cs.
      bnd (lift_res cell_fault (slice_load_bigint A cs value_len True)) (\<lambda>(v, cs').
      thn (modify (\<lambda>st. st\<lparr>code := cs'\<rparr>)) (st_op (push_int v))))))))"

definition exec_push_pow2 :: "nat \<Rightarrow> ('c, 's, 'b, int) vm" where
  "exec_push_pow2 x = st_op (push_int (push_bit x 1))"

definition exec_push_nan :: "('c, 's, 'b, int) vm" where
  "exec_push_nan = st_op push_nan"

definition exec_push_pow2dec :: "nat \<Rightarrow> ('c, 's, 'b, int) vm" where
  "exec_push_pow2dec x = st_op (push_int (push_bit x 1 - 1))"

definition exec_push_negpow2 :: "nat \<Rightarrow> ('c, 's, 'b, int) vm" where
  "exec_push_negpow2 x = st_op (push_int (- (push_bit x 1)))"

section \<open>Simple arithmetic\<close>

text \<open>
  The two shapes the handlers share: pop the operands, and push the checked result; an operand
  that is \<open>NaN\<close> gives \<open>NaN\<close> in the quiet form and an integer overflow otherwise.
\<close>

definition nan_or_overflow :: "bool \<Rightarrow> (('c, 's, 'b) stk, fault, unit) act" where
  "nan_or_overflow quiet = (if quiet then push_nan else vm_fail IntegerOverflow)"

definition int_unop :: "('c, 's) api \<Rightarrow> (int \<Rightarrow> int) \<Rightarrow> bool \<Rightarrow> ('c, 's, 'b, int) vm" where
  "int_unop A f quiet = st_op (bnd pop_int_or_nan (\<lambda>x. case x of
     Some x \<Rightarrow> push_raw_int A (f x) quiet
   | None \<Rightarrow> nan_or_overflow quiet))"

definition int_binop :: "('c, 's) api \<Rightarrow> (int \<Rightarrow> int \<Rightarrow> int) \<Rightarrow> bool \<Rightarrow> ('c, 's, 'b, int) vm" where
  "int_binop A f quiet = st_op (bnd pop_int_or_nan (\<lambda>y. bnd pop_int_or_nan (\<lambda>x.
     case (x, y) of
       (Some x, Some y) \<Rightarrow> push_raw_int A (f x y) quiet
     | _ \<Rightarrow> nan_or_overflow quiet)))"

definition exec_add :: "('c, 's) api \<Rightarrow> bool \<Rightarrow> ('c, 's, 'b, int) vm" where
  "exec_add A quiet = int_binop A (\<lambda>x y. x + y) quiet"

definition exec_sub :: "('c, 's) api \<Rightarrow> bool \<Rightarrow> ('c, 's, 'b, int) vm" where
  "exec_sub A quiet = int_binop A (\<lambda>x y. x - y) quiet"

definition exec_subr :: "('c, 's) api \<Rightarrow> bool \<Rightarrow> ('c, 's, 'b, int) vm" where
  "exec_subr A quiet = int_binop A (\<lambda>x y. y - x) quiet"

definition exec_negate :: "('c, 's) api \<Rightarrow> bool \<Rightarrow> ('c, 's, 'b, int) vm" where
  "exec_negate A quiet = int_unop A (\<lambda>x. - x) quiet"

definition exec_inc :: "('c, 's) api \<Rightarrow> bool \<Rightarrow> ('c, 's, 'b, int) vm" where
  "exec_inc A quiet = int_unop A (\<lambda>x. x + 1) quiet"

definition exec_dec :: "('c, 's) api \<Rightarrow> bool \<Rightarrow> ('c, 's, 'b, int) vm" where
  "exec_dec A quiet = int_unop A (\<lambda>x. x - 1) quiet"

definition exec_addint :: "('c, 's) api \<Rightarrow> int \<Rightarrow> bool \<Rightarrow> ('c, 's, 'b, int) vm" where
  "exec_addint A y quiet = int_unop A (\<lambda>x. x + y) quiet"

definition exec_mulint :: "('c, 's) api \<Rightarrow> int \<Rightarrow> bool \<Rightarrow> ('c, 's, 'b, int) vm" where
  "exec_mulint A y quiet = int_unop A (\<lambda>x. x * y) quiet"

definition exec_mul :: "('c, 's) api \<Rightarrow> bool \<Rightarrow> ('c, 's, 'b, int) vm" where
  "exec_mul A quiet = int_binop A (\<lambda>x y. x * y) quiet"

section \<open>Division instructions\<close>

text \<open>
  The local enums \<open>Operation\<close> of the five handlers: the quotient alone, the remainder alone, or
  both. \<open>(m >> 2) & 3\<close> selects; 0 adds a popped \<open>w\<close> first and exists from TON version 4.
\<close>

datatype div_operation = OpDiv | OpMod | OpDivmod

definition div_operation_of :: "vm_version \<Rightarrow> nat \<Rightarrow> vm_error + div_operation \<times> bool" where
  "div_operation_of v m = (let sel = take_bit 2 (drop_bit 2 m) in
     if sel = 0 \<and> is_ton 4 v then Inr (OpDivmod, True)
     else if sel = 1 then Inr (OpDiv, False)
     else if sel = 2 then Inr (OpMod, False)
     else if sel = 3 then Inr (OpDivmod, False)
     else Inl InvalidOpcode)"

definition decode_div :: "nat \<Rightarrow> ('c, 's, 'b, round_mode \<times> div_operation \<times> bool) vm" where
  "decode_div m =
     bnd (lift_res VmErr (from_args (take_bit 2 m))) (\<lambda>rm.
     bnd (gets version) (\<lambda>v.
     bnd (lift_res VmErr (div_operation_of v m)) (\<lambda>(operation, add). ret (rm, operation, add))))"

text \<open>\<open>let w = if add { pop_int_or_nan()? } else { None }\<close>\<close>

definition pop_addend :: "bool \<Rightarrow> (('c, 's, 'b) stk, fault, int option) act" where
  "pop_addend add = (if add then pop_int_or_nan else ret None)"

definition push_both :: "('c, 'x) api \<Rightarrow> int \<times> int \<Rightarrow> bool \<Rightarrow> (('c, 's, 'b) stk, fault, unit) act" where
  "push_both A qr quiet = thn (push_raw_int A (fst qr) quiet) (push_raw_int A (snd qr) quiet)"

text \<open>
  The match on the operation, with the quotient \<open>f\<close>, remainder \<open>g\<close> and combined routine \<open>h\<close> of
  the handler; and its arm for a \<open>NaN\<close> operand or a zero divisor.
\<close>

definition push_divided ::
    "('c, 'x) api \<Rightarrow> div_operation \<Rightarrow> bool \<Rightarrow> int option \<Rightarrow> int \<Rightarrow>
     (int \<Rightarrow> int) \<Rightarrow> (int \<Rightarrow> int) \<Rightarrow> (int \<Rightarrow> int \<times> int) \<Rightarrow> bool \<Rightarrow> (('c, 's, 'b) stk, fault, unit) act" where
  "push_divided A operation add w x f g h quiet = (case operation of
      OpDiv \<Rightarrow> push_raw_int A (f x) quiet
    | OpMod \<Rightarrow> push_raw_int A (g x) quiet
    | OpDivmod \<Rightarrow>
        if add then
          (case w of
             Some w \<Rightarrow> push_both A (h (x + w)) quiet
           | None \<Rightarrow> if quiet then thn push_nan push_nan else vm_fail IntegerOverflow)
        else push_both A (h x) quiet)"

definition push_undivided :: "div_operation \<Rightarrow> bool \<Rightarrow> (('c, 's, 'b) stk, fault, unit) act" where
  "push_undivided operation quiet =
     (if quiet then thn push_nan (if operation = OpDivmod then push_nan else ret ())
      else vm_fail IntegerOverflow)"

text \<open>\<open>if imm { Some((m & 0xff) + 1), m >>= 8 }\<close>\<close>

definition split_imm :: "nat \<Rightarrow> bool \<Rightarrow> nat option \<times> nat" where
  "split_imm m imm = (if imm then (Some (take_bit 8 m + 1), drop_bit 8 m) else (None, m))"

definition shift_amount :: "nat option \<Rightarrow> (('c, 's, 'b) stk, fault, nat) act" where
  "shift_amount y = (case y of Some y \<Rightarrow> ret y | None \<Rightarrow> pop_smallint_range 0 256)"

definition exec_divmod :: "('c, 's) api \<Rightarrow> nat \<Rightarrow> bool \<Rightarrow> ('c, 's, 'b, int) vm" where
  "exec_divmod A m quiet = bnd (decode_div m) (\<lambda>(rm, operation, add). st_op (
     bnd pop_int_or_nan (\<lambda>y.
     bnd (pop_addend add) (\<lambda>w.
     bnd pop_int_or_nan (\<lambda>x.
     case (x, y) of
       (Some x, Some y) \<Rightarrow>
         if y \<noteq> 0 then
           push_divided A operation add w x (\<lambda>x. int_div x y rm) (\<lambda>x. int_mod x y rm)
             (\<lambda>x. int_divmod x y rm) quiet
         else push_undivided operation quiet
     | _ \<Rightarrow> push_undivided operation quiet)))))"

definition exec_shrmod :: "('c, 's) api \<Rightarrow> nat \<Rightarrow> bool \<Rightarrow> bool \<Rightarrow> ('c, 's, 'b, int) vm" where
  "exec_shrmod A m0 imm quiet = (case split_imm m0 imm of (y0, m) \<Rightarrow>
     bnd (decode_div m) (\<lambda>(rm0, operation, add). st_op (
     bnd (shift_amount y0) (\<lambda>y.
     let rm = (if y = 0 then Floor else rm0) in
     bnd (pop_addend add) (\<lambda>w.
     bnd pop_int_or_nan (\<lambda>x.
     case x of
       Some x \<Rightarrow>
         push_divided A operation add w x (\<lambda>x. int_rshift x y rm) (\<lambda>x. int_mod_pow2 x y rm)
           (\<lambda>x. int_rshiftmod x y rm) quiet
     | None \<Rightarrow> push_undivided operation quiet))))))"

definition exec_muldivmod :: "('c, 's) api \<Rightarrow> nat \<Rightarrow> bool \<Rightarrow> ('c, 's, 'b, int) vm" where
  "exec_muldivmod A m quiet = bnd (decode_div m) (\<lambda>(rm, operation, add). st_op (
     bnd pop_int_or_nan (\<lambda>z.
     bnd (pop_addend add) (\<lambda>w.
     bnd pop_int_or_nan (\<lambda>y.
     bnd pop_int_or_nan (\<lambda>x.
     case (x, y, z) of
       (Some x, Some y, Some z) \<Rightarrow>
         if z \<noteq> 0 then
           push_divided A operation add w (x * y) (\<lambda>x. int_div x z rm) (\<lambda>x. int_mod x z rm)
             (\<lambda>x. int_divmod x z rm) quiet
         else push_undivided operation quiet
     | _ \<Rightarrow> push_undivided operation quiet))))))"

definition exec_mulshrmod :: "('c, 's) api \<Rightarrow> nat \<Rightarrow> bool \<Rightarrow> bool \<Rightarrow> ('c, 's, 'b, int) vm" where
  "exec_mulshrmod A m0 imm quiet = (case split_imm m0 imm of (z0, m) \<Rightarrow>
     bnd (decode_div m) (\<lambda>(rm0, operation, add). st_op (
     bnd (shift_amount z0) (\<lambda>z.
     let rm = (if z = 0 then Floor else rm0) in
     bnd (pop_addend add) (\<lambda>w.
     bnd pop_int_or_nan (\<lambda>y.
     bnd pop_int_or_nan (\<lambda>x.
     case (x, y) of
       (Some x, Some y) \<Rightarrow>
         push_divided A operation add w (x * y) (\<lambda>x. int_rshift x z rm) (\<lambda>x. int_mod_pow2 x z rm)
           (\<lambda>x. int_rshiftmod x z rm) quiet
     | _ \<Rightarrow> push_undivided operation quiet)))))))"

definition exec_shldivmod :: "('c, 's) api \<Rightarrow> nat \<Rightarrow> bool \<Rightarrow> bool \<Rightarrow> ('c, 's, 'b, int) vm" where
  "exec_shldivmod A m0 imm quiet = (case split_imm m0 imm of (z0, m) \<Rightarrow>
     bnd (decode_div m) (\<lambda>(rm, operation, add). st_op (
     bnd (shift_amount z0) (\<lambda>z.
     bnd pop_int_or_nan (\<lambda>y.
     bnd (pop_addend add) (\<lambda>w.
     bnd pop_int_or_nan (\<lambda>x.
     case (x, y) of
       (Some x, Some y) \<Rightarrow>
         if y \<noteq> 0 then
           push_divided A operation add w (push_bit z x) (\<lambda>x. int_div x y rm) (\<lambda>x. int_mod x y rm)
             (\<lambda>x. int_divmod x y rm) quiet
         else push_undivided operation quiet
     | _ \<Rightarrow> push_undivided operation quiet)))))))"

section \<open>Minimum, maximum, absolute value\<close>

definition exec_minmax :: "bool \<Rightarrow> bool \<Rightarrow> bool \<Rightarrow> ('c, 's, 'b, int) vm" where
  "exec_minmax mn mx q = st_op (bnd pop_int_or_nan (\<lambda>x. bnd pop_int_or_nan (\<lambda>y.
     case (x, y) of
       (Some x, Some y) \<Rightarrow>
         (case (if x > y then (y, x) else (x, y)) of (x, y) \<Rightarrow>
            thn (if mn then push_raw (VInt x) else ret ())
                (if mx then push_raw (VInt y) else ret ()))
     | _ \<Rightarrow>
         if q then thn (if mn then push_nan else ret ()) (if mx then push_nan else ret ())
         else vm_fail IntegerOverflow)))"

definition exec_abs :: "('c, 's) api \<Rightarrow> bool \<Rightarrow> ('c, 's, 'b, int) vm" where
  "exec_abs A quiet = int_unop A (\<lambda>x. if sgn x = -1 then - x else x) quiet"

lemmas arithops_defs = exec_push_tinyint4_def exec_push_int_def exec_push_pow2_def exec_push_nan_def
  exec_push_pow2dec_def exec_push_negpow2_def exec_add_def exec_sub_def exec_subr_def
  exec_negate_def exec_inc_def exec_dec_def exec_addint_def exec_mulint_def exec_mul_def
  exec_divmod_def exec_shrmod_def exec_muldivmod_def exec_mulshrmod_def exec_shldivmod_def
  exec_minmax_def exec_abs_def

section \<open>The rounding modes\<close>

text \<open>
  The remainders a mode admits for a divisor \<open>y\<close>: with the sign of the divisor, with the opposite
  sign, or at most half of it, where a tie goes to the larger quotient.
\<close>

fun admissible :: "round_mode \<Rightarrow> int \<Rightarrow> int \<Rightarrow> bool" where
  "admissible Floor y r \<longleftrightarrow> 0 \<le> r * sgn y \<and> r * sgn y < \<bar>y\<bar>"
| "admissible Nearest y r \<longleftrightarrow> - \<bar>y\<bar> \<le> 2 * (r * sgn y) \<and> 2 * (r * sgn y) < \<bar>y\<bar>"
| "admissible Ceiling y r \<longleftrightarrow> - \<bar>y\<bar> < r * sgn y \<and> r * sgn y \<le> 0"

text \<open>What a division routine promises: it splits the dividend, with an admissible remainder.\<close>

locale rounding_division =
  fixes DM :: "int \<Rightarrow> int \<Rightarrow> int \<times> int" and adm :: "int \<Rightarrow> int \<Rightarrow> bool"
  assumes splits: "y \<noteq> 0 \<Longrightarrow> DM x y = (q, r) \<Longrightarrow> x = q * y + r \<and> adm y r"
    and adm_unique: "y \<noteq> 0 \<Longrightarrow> adm y r \<Longrightarrow> adm y (r + k * y) \<Longrightarrow> k = 0"
begin

lemma determined:
  assumes "y \<noteq> 0" and "x = q * y + r" and "adm y r"
  shows "DM x y = (q, r)"
proof -
  obtain q' r' where dm: "DM x y = (q', r')" by (cases "DM x y")
  with splits assms(1) have 1: "x = q' * y + r'" "adm y r'" by blast+
  have "r' = r + (q - q') * y" using 1(1) assms(2) by (simp add: algebra_simps)
  with adm_unique[OF assms(1,3), of "q - q'"] 1(2) have "q = q'" by simp
  with \<open>r' = r + (q - q') * y\<close> dm show ?thesis by simp
qed

lemma total: "y \<noteq> 0 \<Longrightarrow> \<exists>q r. DM x y = (q, r) \<and> x = q * y + r \<and> adm y r"
  using splits by (metis surj_pair)

end

lemma trunc_parts:
  fixes x y :: int
  assumes "y \<noteq> 0"
  obtains q r where "x sdiv y = q" "x smod y = r" "x = q * y + r" "\<bar>r\<bar> < \<bar>y\<bar>" "r = 0 \<or> sgn r = sgn x"
proof -
  have "\<bar>x smod y\<bar> < \<bar>y\<bar>"
    using assms by (simp add: signed_modulo_int_def abs_mult sgn_if)
  moreover have "x smod y = 0 \<or> sgn (x smod y) = sgn x"
  proof -
    have "0 \<le> \<bar>x\<bar> mod \<bar>y\<bar>" using assms by simp
    then show ?thesis by (cases "\<bar>x\<bar> mod \<bar>y\<bar> = 0") (auto simp: signed_modulo_int_def sgn_mult)
  qed
  moreover have "x = (x sdiv y) * y + x smod y" by (simp add: sdiv_mult_smod_eq)
  ultimately show ?thesis using that by blast
qed

lemma admissible_unique:
  assumes "y \<noteq> 0" and "admissible m y r" and "admissible m y (r + k * y)"
  shows "k = 0"
proof -
  have yy: "y * sgn y = \<bar>y\<bar>" by (simp add: abs_sgn mult.commute)
  have e: "(r + k * y) * sgn y = r * sgn y + k * \<bar>y\<bar>" by (simp add: distrib_right mult.assoc yy)
  have "\<bar>k * \<bar>y\<bar>\<bar> < \<bar>y\<bar>" using assms by (cases m) (auto simp: e)
  then have "\<bar>k\<bar> * \<bar>y\<bar> < 1 * \<bar>y\<bar>" by (simp add: abs_mult)
  then show "k = 0" using assms(1) by (simp only: mult_less_cancel_right) auto
qed

lemma int_divmod_splits:
  assumes y: "y \<noteq> 0" and dm: "int_divmod x y m = (q, r)"
  shows "x = q * y + r \<and> admissible m y r"
proof (cases m)
  case Floor
  then show ?thesis using y dm
    by (cases "0 < y") (auto simp: int_divmod_def sgn_if)
next
  case Nearest
  obtain q' r' where t: "x sdiv y = q'" "x smod y = r'" "x = q' * y + r'" "\<bar>r'\<bar> < \<bar>y\<bar>"
    "r' = 0 \<or> sgn r' = sgn x" using trunc_parts[OF y] by metis
  from Nearest dm t(1,2) have "(q, r) =
     (if nearest_rounding_required r' x y
      then (if sgn x = sgn y then q' + 1 else q' - 1, if sgn r' = sgn y then r' - y else r' + y)
      else (q', r'))" by (simp add: int_divmod_def Let_def split: if_splits)
  then show ?thesis unfolding Nearest using t(3-5) y
    by (auto simp: nearest_rounding_required_def sgn_if algebra_simps push_bit_eq_mult
        split: if_splits)
next
  case Ceiling
  obtain q' r' where t: "x sdiv y = q'" "x smod y = r'" "x = q' * y + r'" "\<bar>r'\<bar> < \<bar>y\<bar>"
    "r' = 0 \<or> sgn r' = sgn x" using trunc_parts[OF y] by metis
  from Ceiling dm t(1,2) have "(q, r) =
     (if ceil_rounding_required r' y then (if sgn x = sgn y then q' + 1 else q' - 1, r' - y)
      else (q', r'))" by (simp add: int_divmod_def Let_def split: if_splits)
  then show ?thesis unfolding Ceiling using t(3-5) y
    by (auto simp: ceil_rounding_required_def sgn_if algebra_simps split: if_splits)
qed

interpretation rounded: rounding_division "\<lambda>x y. int_divmod x y m" "admissible m" for m
  by unfold_locales (auto dest: int_divmod_splits admissible_unique)

lemma int_div_mod_eq:
  "int_div x y m = fst (int_divmod x y m)" "int_mod x y m = snd (int_divmod x y m)"
  by (cases m; simp add: int_div_def int_mod_def int_divmod_def Let_def)+

lemma shift_eqs:
  "int_rshift x n m = int_div x (2 ^ n) m"
  "int_mod_pow2 x n m = int_mod x (2 ^ n) m"
  "int_rshiftmod x n m = int_divmod x (2 ^ n) m"
proof -
  have p: "push_bit n (1::int) = 2 ^ n" by (simp add: push_bit_eq_mult)
  have a: "x AND (2 ^ n - 1) = x mod 2 ^ n"
    using and_exp_eq_0_iff_not_bit by (simp add: and_exp_eq_0_iff_not_bit flip: mask_eq_exp_minus_1 take_bit_eq_mask take_bit_eq_mod)
  show "int_rshift x n m = int_div x (2 ^ n) m"
    by (cases m) (simp_all add: int_rshift_def int_div_def drop_bit_eq_div p)
  show "int_mod_pow2 x n m = int_mod x (2 ^ n) m"
    by (cases m) (simp_all add: int_mod_pow2_def int_mod_def p a Let_def)
  show "int_rshiftmod x n m = int_divmod x (2 ^ n) m"
    by (cases m) (simp_all add: int_rshiftmod_def int_divmod_def drop_bit_eq_div p a Let_def)
qed

text \<open>The quotient is the rounded real quotient; a tie of the nearest mode goes up.\<close>

definition rounded_quotient :: "round_mode \<Rightarrow> int \<Rightarrow> int \<Rightarrow> int" where
  "rounded_quotient m x y = (case m of
      Floor \<Rightarrow> \<lfloor>real_of_int x / real_of_int y\<rfloor>
    | Nearest \<Rightarrow> \<lfloor>real_of_int x / real_of_int y + 1 / 2\<rfloor>
    | Ceiling \<Rightarrow> \<lceil>real_of_int x / real_of_int y\<rceil>)"

lemma quotient_part:
  assumes "y \<noteq> 0" and "x = q * y + r"
  shows "real_of_int x / real_of_int y = real_of_int q + real_of_int (r * sgn y) / real_of_int \<bar>y\<bar>"
  using assms by (auto simp: sgn_if field_simps)

lemma int_divmod_rounded:
  assumes "y \<noteq> 0"
  shows "int_divmod x y m = (rounded_quotient m x y, x - rounded_quotient m x y * y)"
proof -
  obtain q r where dm: "int_divmod x y m = (q, r)" and x: "x = q * y + r" and adm: "admissible m y r"
    using rounded.total[OF assms] by blast
  define t where "t = real_of_int (r * sgn y) / real_of_int \<bar>y\<bar>"
  have e: "real_of_int x / real_of_int y = real_of_int q + t"
    unfolding t_def by (rule quotient_part[OF assms x])
  have y0: "0 < real_of_int \<bar>y\<bar>" using assms by simp
  have "rounded_quotient m x y = q"
  proof (cases m)
    case Floor
    with adm have "0 \<le> r * sgn y" "r * sgn y < \<bar>y\<bar>" by simp_all
    with y0 have "0 \<le> t" "t < 1" unfolding t_def by (simp_all only: pos_le_divide_eq pos_divide_less_eq mult_zero_left mult_1 of_int_0_le_iff of_int_less_iff)
    then show ?thesis by (simp add: Floor rounded_quotient_def e floor_unique)
  next
    case Nearest
    with adm have "real_of_int (- \<bar>y\<bar>) \<le> real_of_int (2 * (r * sgn y))"
      "real_of_int (2 * (r * sgn y)) < real_of_int \<bar>y\<bar>"
      by (simp_all only: of_int_le_iff of_int_less_iff admissible.simps)
    with y0 have "- 1 / 2 \<le> t" "t < 1 / 2" unfolding t_def by (simp_all add: field_simps)
    then show ?thesis by (simp add: Nearest rounded_quotient_def e floor_unique)
  next
    case Ceiling
    with adm have "real_of_int (- \<bar>y\<bar>) < real_of_int (r * sgn y)" "r * sgn y \<le> 0"
      by (simp_all only: of_int_less_iff admissible.simps)
    with y0 have "- 1 < t" "t \<le> 0" unfolding t_def by (simp_all add: field_simps del: of_int_mult)
    then show ?thesis by (simp add: Ceiling rounded_quotient_def e ceiling_unique)
  qed
  with dm x show ?thesis by simp
qed

section \<open>Handlers on integers\<close>

text \<open>
  What the handlers rely on of \<open>BigInt::bitsize\<close> of \<open>everscale_types\<close>: the width of the two's
  complement.
\<close>

definition fits_signed :: "nat \<Rightarrow> int \<Rightarrow> bool" where
  "fits_signed n x \<longleftrightarrow> - (2 ^ (n - 1)) \<le> x \<and> x < 2 ^ (n - 1)"

definition bitsize_ok :: "('c, 's) api \<Rightarrow> bool" where
  "bitsize_ok A \<longleftrightarrow> (\<forall>x n. 0 < n \<longrightarrow> (bitsize A x True \<le> n \<longleftrightarrow> fits_signed n x))"

text \<open>The three outcomes of a checked result.\<close>

definition checked ::
    "('c, 's, 'b) vm_state \<Rightarrow> ('c, 's, 'b) stk \<Rightarrow> int \<Rightarrow> bool \<Rightarrow> (fault + int) \<times> ('c, 's, 'b) vm_state" where
  "checked st xs v quiet =
     (if fits_signed 257 v then (Inr 0, st\<lparr>stack := xs @ [VInt v]\<rparr>)
      else if quiet then (Inr 0, st\<lparr>stack := xs @ [VNaN]\<rparr>)
      else (Inl (VmErr IntegerOverflow), st\<lparr>stack := xs\<rparr>))"

definition not_a_number ::
    "('c, 's, 'b) vm_state \<Rightarrow> ('c, 's, 'b) stk \<Rightarrow> nat \<Rightarrow> bool \<Rightarrow> (fault + int) \<times> ('c, 's, 'b) vm_state" where
  "not_a_number st xs n quiet =
     (if quiet then (Inr 0, st\<lparr>stack := xs @ replicate n VNaN\<rparr>)
      else (Inl (VmErr IntegerOverflow), st\<lparr>stack := xs\<rparr>))"

lemma push_raw_int_eq:
  assumes "bitsize_ok A" and "depth s < MAX_DEPTH"
  shows "push_raw_int A v q s =
     (if fits_signed 257 v then (Inr (), s @ [VInt v])
      else if q then (Inr (), s @ [VNaN]) else (Inl (VmErr IntegerOverflow), s))"
  using assms by (simp add: push_raw_int_def bitsize_ok_def push_nan_def vm_fail_def)

lemma pop_nums:
  "pop_int_or_nan (xs @ [u, VInt i]) = (Inr (Some i), xs @ [u])"
  "pop_int_or_nan (xs @ [u, VNaN]) = (Inr None, xs @ [u])"
  "pop_int_or_nan (xs @ [t, u, VInt i]) = (Inr (Some i), xs @ [t, u])"
  using pop_int_or_nan_simps(2)[of "xs @ [u]" i] pop_int_or_nan_simps(3)[of "xs @ [u]"]
    pop_int_or_nan_simps(2)[of "xs @ [t, u]" i]
  by simp_all

lemma int_unop_int:
  assumes "bitsize_ok A" and "stack st = xs @ [VInt x]" and "length xs < MAX_DEPTH"
  shows "int_unop A f q st = checked st xs (f x) q"
  using assms by (simp add: int_unop_def st_op_eq push_raw_int_eq depth_def checked_def bnd_def)

lemma int_unop_nan:
  assumes "stack st = xs @ [VNaN]" and "length xs < MAX_DEPTH"
  shows "int_unop A f q st = not_a_number st xs 1 q"
  using assms
  by (simp add: int_unop_def st_op_eq nan_or_overflow_def push_nan_def depth_def not_a_number_def
      bnd_def vm_fail_def)

lemma int_binop_ints:
  assumes "bitsize_ok A" and "stack st = xs @ [VInt x, VInt y]" and "length xs < MAX_DEPTH"
  shows "int_binop A f q st = checked st xs (f x y) q"
  using assms
  by (simp add: int_binop_def st_op_eq push_raw_int_eq depth_def checked_def bnd_def pop_nums)

lemma int_binop_nan:
  assumes "stack st = xs @ [u, v]" and "length xs < MAX_DEPTH"
    and "ty u = TyInt" "ty v = TyInt" and "u = VNaN \<or> v = VNaN"
  shows "int_binop A f q st = not_a_number st xs 1 q"
proof -
  have "u = VNaN \<or> (\<exists>i. u = VInt i)" "v = VNaN \<or> (\<exists>i. v = VInt i)"
    using assms(3,4) by (cases u, auto) (cases v, auto)
  then show ?thesis using assms(1,2,5)
    by (auto simp: int_binop_def st_op_eq nan_or_overflow_def push_nan_def depth_def
        not_a_number_def bnd_def vm_fail_def pop_nums)
qed

section \<open>Division instructions\<close>

fun round_bits :: "round_mode \<Rightarrow> nat" where
  "round_bits Floor = 0" | "round_bits Nearest = 1" | "round_bits Ceiling = 2"

text \<open>The mode operand of an instruction: 4 for the quotient, 8 for the remainder, 12 for both.\<close>

fun div_mode :: "div_operation \<Rightarrow> round_mode \<Rightarrow> nat" where
  "div_mode OpDiv rm = 4 + round_bits rm"
| "div_mode OpMod rm = 8 + round_bits rm"
| "div_mode OpDivmod rm = 12 + round_bits rm"

lemma decode_div_mode: "decode_div (div_mode op rm) st = (Inr (rm, op, False), st)"
  by (cases op; cases rm)
    (simp_all add: decode_div_def from_args_def div_operation_of_def take_bit_eq_mod
      drop_bit_eq_div Let_def)

lemma decode_div_invalid:
  "take_bit 2 m = 3 \<Longrightarrow> decode_div m st = (Inl (VmErr InvalidOpcode), st)"
  "take_bit 2 m \<noteq> 3 \<Longrightarrow> take_bit 2 (drop_bit 2 m) = 0 \<Longrightarrow> \<not> is_ton 4 (version st) \<Longrightarrow>
     decode_div m st = (Inl (VmErr InvalidOpcode), st)"
  by (auto simp: decode_div_def from_args_def div_operation_of_def lift_res_def bnd_def Let_def
      split: sum.splits if_splits)

text \<open>The two results of a division, each checked; the first error stops.\<close>

definition divided ::
    "('c, 's, 'b) vm_state \<Rightarrow> ('c, 's, 'b) stk \<Rightarrow> div_operation \<Rightarrow> round_mode \<Rightarrow> int \<Rightarrow> int \<Rightarrow> bool \<Rightarrow>
     (fault + int) \<times> ('c, 's, 'b) vm_state" where
  "divided st xs op rm x y quiet = (let q = rounded_quotient rm x y; r = x - q * y in
     case op of
       OpDiv \<Rightarrow> checked st xs q quiet
     | OpMod \<Rightarrow> checked st xs r quiet
     | OpDivmod \<Rightarrow> (case checked st xs q quiet of
           (Inr _, st') \<Rightarrow> checked st' (stack st') r quiet
         | (Inl e, st') \<Rightarrow> (Inl e, st')))"

lemma push_divided_ok:
  assumes "bitsize_ok A" and "Suc (length xs) < MAX_DEPTH" and "y \<noteq> 0"
    and "f x = int_div x y rm" "g x = int_mod x y rm" "h x = int_divmod x y rm"
    and "p (stack st) = push_divided A op False w x f g h q xs"
  shows "st_op p st = divided st xs op rm x y q"
  using assms
  by (cases op) (simp_all add: st_op_eq push_divided_def push_both_def divided_def checked_def
      int_div_mod_eq int_divmod_rounded push_raw_int_eq depth_def Let_def)

fun results :: "div_operation \<Rightarrow> nat" where
  "results OpDiv = 1" | "results OpMod = 1" | "results OpDivmod = 2"

lemma push_undivided_eq:
  assumes "Suc (length xs) < MAX_DEPTH" and "p (stack st) = push_undivided op q xs"
  shows "st_op p st = not_a_number st xs (results op) q"
  using assms
  by (cases op) (simp_all add: st_op_eq push_undivided_def not_a_number_def push_nan_def depth_def
      vm_fail_def numeral_2_eq_2)

lemmas run_simps = decode_div_mode pop_nums pop_addend_def split_imm_def shift_amount_def

lemma exec_divmod_ints:
  assumes "bitsize_ok A" and "stack st = xs @ [VInt x, VInt y]" and "Suc (length xs) < MAX_DEPTH"
  shows "exec_divmod A (div_mode op rm) q st =
     (if y = 0 then not_a_number st xs (results op) q
      else divided st xs op rm x y q)"
proof (cases "y = 0")
  case True
  then show ?thesis using assms
    by (simp add: exec_divmod_def run_simps) (rule push_undivided_eq; simp add: run_simps)
next
  case False
  then show ?thesis using assms
    by (simp add: exec_divmod_def run_simps)
      (rule push_divided_ok[where w = None, OF _ _ _ refl refl refl]; simp add: run_simps)
qed

lemma exec_muldivmod_ints:
  assumes "bitsize_ok A" and "stack st = xs @ [VInt x, VInt y, VInt z]" and "Suc (length xs) < MAX_DEPTH"
  shows "exec_muldivmod A (div_mode op rm) q st =
     (if z = 0 then not_a_number st xs (results op) q
      else divided st xs op rm (x * y) z q)"
proof (cases "z = 0")
  case True
  then show ?thesis using assms
    by (simp add: exec_muldivmod_def run_simps) (rule push_undivided_eq; simp add: run_simps)
next
  case False
  then show ?thesis using assms
    by (simp add: exec_muldivmod_def run_simps)
      (rule push_divided_ok[where w = None, OF _ _ _ refl refl refl]; simp add: run_simps)
qed

lemma exec_shldivmod_ints:
  assumes "bitsize_ok A" and "stack st = xs @ [VInt x, VInt y, VInt (int n)]" and "n \<le> 256"
    and "Suc (length xs) < MAX_DEPTH"
  shows "exec_shldivmod A (div_mode op rm) False q st =
     (if y = 0 then not_a_number st xs (results op) q else divided st xs op rm (x * 2 ^ n) y q)"
proof -
  have p: "pop_smallint_range 0 256 (stack st) = (Inr n, xs @ [VInt x, VInt y])"
    using assms(2,3) pop_smallint_range_int[of 0 256 "xs @ [VInt x, VInt y]" "int n"] by simp
  show ?thesis
  proof (cases "y = 0")
    case True
    then show ?thesis using assms p
      by (simp add: exec_shldivmod_def run_simps) (rule push_undivided_eq; simp add: run_simps)
  next
    case False
    then show ?thesis using assms p
      by (simp add: exec_shldivmod_def run_simps)
        (rule push_divided_ok[where w = None, OF _ _ _ refl refl refl];
          simp add: run_simps push_bit_eq_mult)
  qed
qed

lemma divided_by_one: "divided st xs op Floor x 1 q = divided st xs op rm x 1 q"
proof -
  have "rounded_quotient rm x 1 = x" for rm
    by (cases rm) (simp_all add: rounded_quotient_def floor_unique)
  then show ?thesis by (simp add: divided_def)
qed

lemma push_shifted_ok:
  assumes "bitsize_ok A" and "Suc (length xs) < MAX_DEPTH"
    and "rm' = (if n = 0 then Floor else rm)"
    and "p (stack st) = push_divided A op False w x (\<lambda>x. int_rshift x n rm')
           (\<lambda>x. int_mod_pow2 x n rm') (\<lambda>x. int_rshiftmod x n rm') q xs"
  shows "st_op p st = divided st xs op rm x (2 ^ n) q"
proof -
  have "st_op p st = divided st xs op rm' x (2 ^ n) q"
    by (rule push_divided_ok[where w = w]) (use assms in \<open>simp_all add: shift_eqs\<close>)
  then show ?thesis using divided_by_one[of st xs op x q rm] assms(3) by (cases "n = 0") simp_all
qed

lemma exec_shrmod_ints:
  assumes "bitsize_ok A" and "stack st = xs @ [VInt x, VInt (int n)]" and "n \<le> 256"
    and "Suc (length xs) < MAX_DEPTH"
  shows "exec_shrmod A (div_mode op rm) False q st = divided st xs op rm x (2 ^ n) q"
proof -
  have p: "pop_smallint_range 0 256 (stack st) = (Inr n, xs @ [VInt x])"
    using assms(2,3) pop_smallint_range_int[of 0 256 "xs @ [VInt x]" "int n"] by simp
  show ?thesis using assms(1,4) p
    by (simp add: exec_shrmod_def run_simps)
      (rule push_shifted_ok[where w = None, OF _ _ refl]; simp add: run_simps Let_def)
qed

lemma exec_mulshrmod_ints:
  assumes "bitsize_ok A" and "stack st = xs @ [VInt x, VInt y, VInt (int n)]" and "n \<le> 256"
    and "Suc (length xs) < MAX_DEPTH"
  shows "exec_mulshrmod A (div_mode op rm) False q st = divided st xs op rm (x * y) (2 ^ n) q"
proof -
  have p: "pop_smallint_range 0 256 (stack st) = (Inr n, xs @ [VInt x, VInt y])"
    using assms(2,3) pop_smallint_range_int[of 0 256 "xs @ [VInt x, VInt y]" "int n"] by simp
  show ?thesis using assms(1,4) p
    by (simp add: exec_mulshrmod_def run_simps)
      (rule push_shifted_ok[where w = None, OF _ _ refl]; simp add: run_simps Let_def)
qed

lemma exec_minmax_ints:
  assumes "stack st = xs @ [VInt x, VInt y]" and "Suc (length xs) < MAX_DEPTH"
  shows "exec_minmax mn mx q st =
     (Inr 0, st\<lparr>stack := xs @ (if mn then [VInt (min x y)] else []) @ (if mx then [VInt (max x y)] else [])\<rparr>)"
  using assms by (auto simp: exec_minmax_def st_op_eq run_simps depth_def)

section \<open>The invariant\<close>

lemma calm_arith [calm_rules]:
  "calm (nan_or_overflow q)" "calm (pop_addend add)" "calm (push_both A qr q)"
  "calm (push_undivided op q)" "calm (shift_amount y)"
  unfolding nan_or_overflow_def pop_addend_def push_both_def push_undivided_def shift_amount_def
  by (intro calm_rules)+

lemma calm_push_divided [calm_rules]: "calm (push_divided A op add w x f g h q)"
  by (cases op) (simp_all only: push_divided_def div_operation.case; intro calm_rules)+

lemma safe_arith [safe_rules]: "safe (int_unop A f q)" "safe (int_binop A f2 q)" "safe (decode_div m)"
  unfolding int_unop_def int_binop_def decode_div_def by (intro safe_rules calm_rules)+

lemma arithops_safe:
  "safe (exec_push_tinyint4 i)" "safe (exec_push_int A args bits)" "safe (exec_push_pow2 n)"
  "safe exec_push_nan" "safe (exec_push_pow2dec n)" "safe (exec_push_negpow2 n)" "safe (exec_add A q)"
  "safe (exec_sub A q)" "safe (exec_subr A q)" "safe (exec_negate A q)" "safe (exec_inc A q)"
  "safe (exec_dec A q)" "safe (exec_addint A i q)" "safe (exec_mulint A i q)" "safe (exec_mul A q)"
  "safe (exec_divmod A m q)" "safe (exec_shrmod A m imm q)" "safe (exec_muldivmod A m q)"
  "safe (exec_mulshrmod A m imm q)" "safe (exec_shldivmod A m imm q)" "safe (exec_minmax mn mx q)"
  "safe (exec_abs A q)"
  unfolding arithops_defs by ((intro safe_rules calm_rules safe_modify; simp?)+)

end
