(* ===== verification/CmpOps.thy ===== *)
theory CmpOps
  imports ArithOps
begin

text \<open>
  \<open>vm/src/instr/cmpops.rs\<close>: sign, comparisons driven by a packed table of results, and the
  \<open>NaN\<close> tests.
\<close>

section \<open>Handlers\<close>

text \<open>\<open>std::cmp::Ordering\<close> with its discriminants, as \<open>cmp as i8\<close> reads them.\<close>

datatype ordering = Less | Equal | Greater

fun ordering_i8 :: "ordering \<Rightarrow> int" where
  "ordering_i8 Less = -1" | "ordering_i8 Equal = 0" | "ordering_i8 Greater = 1"

definition compare_int :: "int \<Rightarrow> int \<Rightarrow> ordering" where
  "compare_int x y = (if x < y then Less else if x = y then Equal else Greater)"

definition check_cmp :: "ordering \<Rightarrow> int \<Rightarrow> int" where
  "check_cmp c mode = (drop_bit (nat (4 + ordering_i8 c * 4)) mode AND 15) - 8"

definition as_truncated_i64 :: "int \<Rightarrow> int" where
  "as_truncated_i64 x = (if i64_min \<le> x \<and> x \<le> i64_max then x
     else if sgn x = -1 then i64_min else if sgn x = 0 then 0 else i64_max)"

definition exec_sgn :: "bool \<Rightarrow> ('c, 's, 'b, int) vm" where
  "exec_sgn quiet = st_op (bnd pop_int_or_nan (\<lambda>x. case x of
     None \<Rightarrow> thn (vm_ensure quiet IntegerOverflow) push_nan
   | Some x \<Rightarrow> push_int (if sgn x = -1 then -1 else if sgn x = 0 then 0 else 1)))"

definition exec_cmp :: "int \<Rightarrow> bool \<Rightarrow> ('c, 's, 'b, int) vm" where
  "exec_cmp mode quiet = st_op (bnd pop_int_or_nan (\<lambda>y. bnd pop_int_or_nan (\<lambda>x.
     case (x, y) of
       (Some x, Some y) \<Rightarrow> push_int (check_cmp (compare_int x y) mode)
     | _ \<Rightarrow> nan_or_overflow quiet)))"

definition exec_cmp_int :: "int \<Rightarrow> int \<Rightarrow> bool \<Rightarrow> ('c, 's, 'b, int) vm" where
  "exec_cmp_int y mode quiet = st_op (bnd pop_int_or_nan (\<lambda>x. case x of
     Some x \<Rightarrow> push_int (check_cmp (compare_int (as_truncated_i64 x) y) mode)
   | None \<Rightarrow> nan_or_overflow quiet))"

definition exec_is_nan :: "('c, 's, 'b, int) vm" where
  "exec_is_nan = st_op (bnd pop_int_or_nan (\<lambda>x. push_bool (x = None)))"

definition exec_chk_nan :: "('c, 's, 'b, int) vm" where
  "exec_chk_nan = st_op (bnd pop_int (\<lambda>i. push_raw (VInt i)))"

lemmas cmpops_defs = exec_sgn_def exec_cmp_def exec_cmp_int_def exec_is_nan_def exec_chk_nan_def

section \<open>Behaviour\<close>

lemma check_cmp_digits:
  "check_cmp Less mode = (mode AND 15) - 8"
  "check_cmp Equal mode = (drop_bit 4 mode AND 15) - 8"
  "check_cmp Greater mode = (drop_bit 8 mode AND 15) - 8"
  by (simp_all add: check_cmp_def)

text \<open>The modes of the opcode table encode the comparisons they are named for.\<close>

definition LESS_MODE :: int where "LESS_MODE = 0x887"
definition EQUAL_MODE :: int where "EQUAL_MODE = 0x878"
definition LEQ_MODE :: int where "LEQ_MODE = 0x877"
definition GREATER_MODE :: int where "GREATER_MODE = 0x788"
definition NEQ_MODE :: int where "NEQ_MODE = 0x787"
definition GEQ_MODE :: int where "GEQ_MODE = 0x778"
definition CMP_MODE :: int where "CMP_MODE = 0x987"

lemmas mode_defs = LESS_MODE_def EQUAL_MODE_def LEQ_MODE_def GREATER_MODE_def NEQ_MODE_def
  GEQ_MODE_def CMP_MODE_def

lemma check_cmp_modes:
  "check_cmp (compare_int x y) LESS_MODE = - of_bool (x < y)"
  "check_cmp (compare_int x y) EQUAL_MODE = - of_bool (x = y)"
  "check_cmp (compare_int x y) LEQ_MODE = - of_bool (x \<le> y)"
  "check_cmp (compare_int x y) GREATER_MODE = - of_bool (x > y)"
  "check_cmp (compare_int x y) NEQ_MODE = - of_bool (x \<noteq> y)"
  "check_cmp (compare_int x y) GEQ_MODE = - of_bool (x \<ge> y)"
  "check_cmp (compare_int x y) CMP_MODE = sgn (x - y)"
  by (auto simp: compare_int_def check_cmp_digits mode_defs)

lemma compare_truncated:
  assumes "- 128 \<le> y" and "y < 128"
  shows "compare_int (as_truncated_i64 x) y = compare_int x y"
  using assms by (auto simp: compare_int_def as_truncated_i64_def machine_bounds sgn_if)

lemma exec_cmp_ints:
  assumes "stack st = xs @ [VInt x, VInt y]" and "length xs < MAX_DEPTH"
  shows "exec_cmp mode q st = (Inr 0, st\<lparr>stack := xs @ [VInt (check_cmp (compare_int x y) mode)]\<rparr>)"
  using assms by (simp add: exec_cmp_def st_op_eq pop_nums push_int_def depth_def)

lemma exec_cmp_int_int:
  assumes "stack st = xs @ [VInt x]" and "length xs < MAX_DEPTH" and "- 128 \<le> y" and "y < 128"
  shows "exec_cmp_int y mode q st =
     (Inr 0, st\<lparr>stack := xs @ [VInt (check_cmp (compare_int x y) mode)]\<rparr>)"
  using assms by (simp add: exec_cmp_int_def st_op_eq push_int_def depth_def compare_truncated)

lemma exec_sgn_int:
  assumes "stack st = xs @ [VInt x]" and "length xs < MAX_DEPTH"
  shows "exec_sgn q st = (Inr 0, st\<lparr>stack := xs @ [VInt (sgn x)]\<rparr>)"
  using assms by (simp add: exec_sgn_def st_op_eq push_int_def depth_def sgn_if)

section \<open>The invariant\<close>

lemma cmpops_safe:
  "safe (exec_sgn q)" "safe (exec_cmp mode q)" "safe (exec_cmp_int y mode q)" "safe exec_is_nan"
  "safe exec_chk_nan"
  unfolding cmpops_defs by (intro safe_rules calm_rules)+

end
