(* ===== verification/CellLib.thy ===== *)
theory CellLib
  imports CmpOps
begin

text \<open>
  The methods of the cell library that the cell instructions call beyond those of \<open>api\<close>: slices cut
  from either end, comparisons of slices, and cell builders. Building a cell
  (\<open>CellBuilder::build_ext\<close> with the gas consumer of \<open>vm/src/gas.rs\<close> as its context) and
  \<open>remove_trailing\<close> of \<open>vm/src/util.rs\<close> are the program's own.
\<close>

section \<open>The library\<close>

text \<open>
  \<open>b_prepare\<close> is the part of \<open>build_ext\<close> before the context is asked to finalize the cell, and
  \<open>b_finalize\<close> the empty context's \<open>finalize_cell\<close>; the parts handed over are those of the builder.
  \<open>bi_*\<close> are the conversions of \<open>num_bigint::BigInt\<close> to and from bytes, \<open>bi_to_bytes_le\<close> without its sign.
\<close>

record ('c, 's, 'b) cell_lib =
  sl_apply :: "'s \<Rightarrow> cell_error + 's"
  sl_only_first :: "'s \<Rightarrow> nat \<Rightarrow> nat \<Rightarrow> cell_error + 's"
  sl_only_last :: "'s \<Rightarrow> nat \<Rightarrow> nat \<Rightarrow> cell_error + 's"
  sl_skip_last :: "'s \<Rightarrow> nat \<Rightarrow> nat \<Rightarrow> cell_error + 's"
  sl_get_prefix :: "'s \<Rightarrow> nat \<Rightarrow> nat \<Rightarrow> 's"
  sl_get_bit :: "'s \<Rightarrow> nat \<Rightarrow> cell_error + bool"
  sl_lex_cmp :: "'s \<Rightarrow> 's \<Rightarrow> cell_error + ordering"
  sl_is_data_prefix_of :: "'s \<Rightarrow> 's \<Rightarrow> cell_error + bool"
  sl_is_data_suffix_of :: "'s \<Rightarrow> 's \<Rightarrow> cell_error + bool"
  sl_count_leading :: "'s \<Rightarrow> bool \<Rightarrow> cell_error + nat"
  sl_count_trailing :: "'s \<Rightarrow> bool \<Rightarrow> cell_error + nat"
  sl_strip_data_prefix :: "'s \<Rightarrow> 's \<Rightarrow> 's option"
  sl_longest_common_data_prefix :: "'s \<Rightarrow> 's \<Rightarrow> 's"
  sl_load_reference :: "'s \<Rightarrow> cell_error + 'c \<times> 's"
  sl_load_u32 :: "'s \<Rightarrow> cell_error + nat \<times> 's"
  sl_load_u64 :: "'s \<Rightarrow> cell_error + nat \<times> 's"
  sl_load_uint :: "'s \<Rightarrow> nat \<Rightarrow> cell_error + nat \<times> 's"
  sl_load_raw :: "'s \<Rightarrow> nat \<Rightarrow> cell_error + nat list \<times> 's"
  sl_references :: "'s \<Rightarrow> 'c list"
  cl_references :: "'c \<Rightarrow> 'c list"
  cl_is_exotic :: "'c \<Rightarrow> bool"
  cl_is_library :: "'c \<Rightarrow> bool"
  cl_level_mask :: "'c \<Rightarrow> nat"
  cl_hash :: "'c \<Rightarrow> nat \<Rightarrow> hash"
  cl_depth :: "'c \<Rightarrow> nat \<Rightarrow> nat"
  cl_all_zeros :: 's
  cl_all_ones :: 's
  b_new :: 'b
  b_has_capacity :: "'b \<Rightarrow> nat \<Rightarrow> nat \<Rightarrow> bool"
  b_size_bits :: "'b \<Rightarrow> nat"
  b_size_refs :: "'b \<Rightarrow> nat"
  b_spare_bits :: "'b \<Rightarrow> nat"
  b_spare_refs :: "'b \<Rightarrow> nat"
  b_references :: "'b \<Rightarrow> 'c list"
  b_store_reference :: "'b \<Rightarrow> 'c \<Rightarrow> cell_error + 'b"
  b_store_slice :: "'b \<Rightarrow> 's \<Rightarrow> cell_error + 'b"
  b_store_builder :: "'b \<Rightarrow> 'b \<Rightarrow> cell_error + 'b"
  b_store_uint :: "'b \<Rightarrow> nat \<Rightarrow> nat \<Rightarrow> cell_error + 'b"
  b_store_raw :: "'b \<Rightarrow> nat list \<Rightarrow> nat \<Rightarrow> cell_error + 'b"
  b_store_u32 :: "'b \<Rightarrow> nat \<Rightarrow> cell_error + 'b"
  b_store_u64 :: "'b \<Rightarrow> nat \<Rightarrow> cell_error + 'b"
  b_store_zeros :: "'b \<Rightarrow> nat \<Rightarrow> cell_error + 'b"
  b_store_ones :: "'b \<Rightarrow> nat \<Rightarrow> cell_error + 'b"
  b_set_exotic :: "'b \<Rightarrow> bool \<Rightarrow> 'b"
  b_prepare :: "'b \<Rightarrow> cell_error + 'b"
  b_finalize :: "'b \<Rightarrow> cell_error + 'c"
  bi_to_signed_bytes_le :: "int \<Rightarrow> nat list"
  bi_to_bytes_le :: "int \<Rightarrow> nat list"
  bi_from_bytes_be :: "nat list \<Rightarrow> nat"

section \<open>Building a cell\<close>

definition finalize_cell :: "('c, 's, 'b) cell_lib \<Rightarrow> 'b \<Rightarrow> ('c, 'c) gas_act" where
  "finalize_cell L parts = thn (try_consume BUILD_CELL_GAS) (lift_res id (b_finalize L parts))"

definition build_ext :: "('c, 's, 'b) cell_lib \<Rightarrow> 'b \<Rightarrow> ('c, 'c) gas_act" where
  "build_ext L b = bnd (lift_res id (b_prepare L b)) (finalize_cell L)"

section \<open>Helpers of the source\<close>

text \<open>\<open>cs.fits_into(&builder)\<close>\<close>

definition fits_into :: "('c, 's) api \<Rightarrow> ('c, 's, 'b) cell_lib \<Rightarrow> 's \<Rightarrow> 'b \<Rightarrow> bool" where
  "fits_into A L cs b = b_has_capacity L b (slice_size_bits A cs) (slice_size_refs A cs)"

definition remove_trailing :: "('c, 's) api \<Rightarrow> ('c, 's, 'b) cell_lib \<Rightarrow> 's \<Rightarrow> cell_error + 's" where
  "remove_trailing A L cs =
     (let bits = slice_size_bits A cs in
      if bits = 0 then Inr cs
      else case sl_count_trailing L cs False of
        Inl e \<Rightarrow> Inl e
      | Inr n \<Rightarrow> sl_skip_last L cs (n + of_bool (n \<noteq> bits)) 0)"

text \<open>\<open>repr_depth().saturating_add(1)\<close> on \<open>u16\<close>.\<close>

definition compute_depth :: "('c, 's) api \<Rightarrow> 'c list \<Rightarrow> nat" where
  "compute_depth A refs = foldl (\<lambda>d c. max d (min 0xffff (cell_repr_depth A c + 1))) 0 refs"

text \<open>A range operation whose error, ruled out by the check before it, changes nothing.\<close>

definition or_same :: "cell_error + 's \<Rightarrow> 's \<Rightarrow> 's" where
  "or_same r k = (case r of Inr k' \<Rightarrow> k' | Inl _ \<Rightarrow> k)"

section \<open>Integers as bytes\<close>

text \<open>\<open>Vec::resize\<close> and \<open>swap_bytes\<close> of an unsigned integer of \<open>len\<close> bytes.\<close>

definition resize :: "nat \<Rightarrow> 'a \<Rightarrow> 'a list \<Rightarrow> 'a list" where
  "resize n v xs = (if n \<le> length xs then take n xs else xs @ replicate (n - length xs) v)"

definition bytes_value :: "nat list \<Rightarrow> nat" where
  "bytes_value bs = foldl (\<lambda>v b. 256 * v + b) 0 bs"

definition swap_bytes :: "nat \<Rightarrow> nat \<Rightarrow> nat" where
  "swap_bytes len v = bytes_value (map (\<lambda>i. take_bit 8 (drop_bit (8 * i) v)) [0..<len])"

text \<open>
  The bytes \<open>exec_store_int_common\<close> hands to the builder for an integer that is no \<open>u64\<close>: shifted to a
  whole number of bytes, padded with its sign and reversed.
\<close>

definition sign_byte :: "nat list \<Rightarrow> nat" where
  "sign_byte bytes = (if bytes = [] then 0 else (last bytes div 128) * 255)"

definition int_store_bytes :: "('c, 's, 'b) cell_lib \<Rightarrow> int \<Rightarrow> nat \<Rightarrow> bool \<Rightarrow> nat list" where
  "int_store_bytes L x bits sgnd =
     (let v = (if bits mod 8 \<noteq> 0 then push_bit (8 - bits mod 8) x else x);
          minimal_bytes = (bits + 7) div 8;
          (prefix, bytes) = (if sgnd then let bytes = bi_to_signed_bytes_le L v in (sign_byte bytes, bytes)
                             else (0, bi_to_bytes_le L v))
      in rev (resize minimal_bytes prefix bytes))"

section \<open>The bytes are the two's complement of the integer\<close>

text \<open>The bits of a number, most significant first, and those of a byte string.\<close>

definition to_bits :: "nat \<Rightarrow> int \<Rightarrow> bool list" where
  "to_bits n x = map (bit x) (rev [0..<n])"

definition byte_bits :: "nat list \<Rightarrow> bool list" where
  "byte_bits bs = concat (map (\<lambda>b. to_bits 8 (int b)) bs)"

lemma length_to_bits [simp]: "length (to_bits n x) = n"
  by (simp add: to_bits_def)

lemma to_bits_append: "to_bits (m + n) x = to_bits m (drop_bit n x) @ to_bits n x"
proof -
  have "[0..<m + n] = [0..<n] @ map (\<lambda>i. i + n) [0..<m]"
    unfolding map_add_upt using upt_add_eq_append[of 0 n m] by (simp add: add.commute)
  then show ?thesis
    by (simp add: to_bits_def rev_map bit_drop_bit_eq comp_def add.commute)
qed

lemma to_bits_take_bit: "n \<le> m \<Longrightarrow> to_bits n (take_bit m x) = to_bits n x"
  by (auto simp: to_bits_def bit_take_bit_iff)

text \<open>Little-endian bytes extended without end, by the sign.\<close>

definition byte_at :: "int \<Rightarrow> nat \<Rightarrow> nat" where
  "byte_at x i = nat (take_bit 8 (drop_bit (8 * i) x))"

lemma byte_at_simps: "byte_at x 0 = nat (x mod 256)" "byte_at x (Suc i) = byte_at (x div 256) i"
  by (simp_all add: byte_at_def take_bit_eq_mod drop_bit_eq_div power_add
      zdiv_zmult2_eq[symmetric] mult.commute)

text \<open>
  \<open>bs\<close>, continued with the byte \<open>p\<close>, is the integer: two's complement when \<open>p\<close> is the sign byte, the
  magnitude when it is 0.
\<close>

definition extends_bytes :: "int \<Rightarrow> nat list \<Rightarrow> nat \<Rightarrow> bool" where
  "extends_bytes x bs p \<longleftrightarrow> (\<forall>i. (if i < length bs then bs ! i else p) = byte_at x i)"

definition bytes_ok :: "('c, 's, 'b) cell_lib \<Rightarrow> bool" where
  "bytes_ok L \<longleftrightarrow>
     (\<forall>x. extends_bytes x (bi_to_signed_bytes_le L x) (sign_byte (bi_to_signed_bytes_le L x))) \<and>
     (\<forall>x \<ge> 0. extends_bytes x (bi_to_bytes_le L x) 0)"

lemma resize_bytes: "extends_bytes v bs p \<Longrightarrow> resize m p bs = map (byte_at v) [0..<m]"
  by (rule nth_equalityI) (auto simp: resize_def extends_bytes_def nth_append dest: spec split: if_splits)

lemma byte_bits_at: "byte_bits (map (byte_at v) (rev [0..<m])) = to_bits (8 * m) v"
proof (induction m)
  case (Suc m)
  have "to_bits 8 (int (byte_at v m)) = to_bits 8 (drop_bit (8 * m) v)"
    by (simp add: byte_at_def to_bits_take_bit)
  then show ?case using Suc to_bits_append[of 8 "8 * m" v] by (simp add: byte_bits_def)
qed (simp add: byte_bits_def to_bits_def)

text \<open>The bytes carry the low \<open>bits\<close> bits of the integer, most significant first.\<close>

lemma int_store_bytes_bits:
  assumes "bytes_ok L" and "sgnd \<or> 0 \<le> x"
  shows "take bits (byte_bits (int_store_bytes L x bits sgnd)) = to_bits bits x"
    and "length (int_store_bytes L x bits sgnd) = (bits + 7) div 8"
proof -
  define a where "a = (8 - bits mod 8) mod 8"
  define m where "m = (bits + 7) div 8"
  define v where "v = push_bit a x"
  have am: "bits + a = 8 * m"
  proof (cases "bits mod 8 = 0")
    case True
    then obtain k where "bits = 8 * k" by (auto elim: dvdE simp: mod_eq_0_iff_dvd)
    then show ?thesis by (simp add: a_def m_def)
  next
    case False
    obtain k r where k: "bits = 8 * k + r" "r < 8" "0 < r"
      using False by (metis mod_less_divisor mult_div_mod_eq neq0_conv zero_less_numeral)
    then have "m = Suc k" unfolding m_def by (intro div_nat_eqI) simp_all
    then show ?thesis using k by (simp add: a_def)
  qed
  have v: "v = (if bits mod 8 \<noteq> 0 then push_bit (8 - bits mod 8) x else x)"
    by (simp add: v_def a_def)
  have "\<not> sgnd \<Longrightarrow> 0 \<le> v" using assms(2) by (simp add: v_def push_bit_eq_mult)
  then have "extends_bytes v (if sgnd then bi_to_signed_bytes_le L v else bi_to_bytes_le L v)
      (if sgnd then sign_byte (bi_to_signed_bytes_le L v) else 0)"
    using assms(1) by (auto simp: bytes_ok_def)
  from resize_bytes[OF this, of m] have bytes: "int_store_bytes L x bits sgnd = map (byte_at v) (rev [0..<m])"
    unfolding int_store_bytes_def Let_def v[symmetric] m_def[symmetric] by (simp add: rev_map split: if_splits)
  show "length (int_store_bytes L x bits sgnd) = (bits + 7) div 8" by (simp add: bytes m_def)
  have "byte_bits (int_store_bytes L x bits sgnd) = to_bits bits (drop_bit a v) @ to_bits a v"
    unfolding bytes byte_bits_at am[symmetric] by (rule to_bits_append)
  moreover have "drop_bit a v = x" by (simp add: v_def drop_bit_eq_div push_bit_eq_mult)
  ultimately show "take bits (byte_bits (int_store_bytes L x bits sgnd)) = to_bits bits x" by simp
qed

section \<open>Numbers as bit strings\<close>

definition bits_value :: "bool list \<Rightarrow> nat" where
  "bits_value bs = foldl (\<lambda>v b. 2 * v + of_bool b) 0 bs"

definition bits_int :: "bool \<Rightarrow> bool list \<Rightarrow> int" where
  "bits_int sgnd bs = (if sgnd \<and> bs \<noteq> [] then signed_take_bit (length bs - 1) (int (bits_value bs))
     else int (bits_value bs))"

lemma bits_value_snoc: "bits_value (bs @ [b]) = 2 * bits_value bs + of_bool b"
  by (simp add: bits_value_def)

lemma bits_value_to_bits: "int (bits_value (to_bits n x)) = take_bit n x"
proof (induction n arbitrary: x)
  case (Suc n)
  have "to_bits (Suc n) x = to_bits n (x div 2) @ [odd x]"
    using to_bits_append[of n 1 x] by (simp add: to_bits_def drop_bit_eq_div bit_0)
  then have "int (bits_value (to_bits (Suc n) x)) = 2 * take_bit n (x div 2) + of_bool (odd x)"
    by (simp add: bits_value_snoc Suc)
  then show ?case by (simp add: take_bit_Suc mod_2_eq_odd)
qed (simp add: to_bits_def bits_value_def)

definition int_fits :: "bool \<Rightarrow> nat \<Rightarrow> int \<Rightarrow> bool" where
  "int_fits sgnd n x \<longleftrightarrow> (if sgnd then fits_signed n x \<and> 0 < n else 0 \<le> x \<and> x < 2 ^ n)"

lemma bits_int_to_bits:
  assumes "int_fits sgnd n x"
  shows "bits_int sgnd (to_bits n x) = x"
proof (cases sgnd)
  case True
  then obtain m where n: "n = Suc m" using assms by (cases n) (auto simp: int_fits_def)
  have "to_bits n x \<noteq> []" using n by (metis length_to_bits list.size(3) nat.simps(3))
  with True n assms show ?thesis
    by (simp add: int_fits_def bits_int_def bits_value_to_bits signed_take_bit_take_bit fits_signed_def
        signed_take_bit_int_eq_self)
next
  case False
  with assms show ?thesis by (simp add: int_fits_def bits_int_def bits_value_to_bits take_bit_int_eq_self)
qed

end
