(* ===== verification/CellOps.thy ===== *)
theory CellOps
  imports ContOps CellLib
begin

text \<open>
  \<open>vm/src/instr/cellops.rs\<close>: constants taken from the code, comparisons of slices, building and
  reading cells. \<open>apply()\<close> views an \<open>OwnedCellSlice\<close> as a \<open>CellSlice\<close> and \<open>set_range\<close> writes the
  advanced range back: both types are \<open>'s\<close>, and the view is the slice itself. The operations of
  \<open>CellSliceRange\<close> whose success a check before them ensures are wrapped in \<open>or_same\<close>.
\<close>

section \<open>Constants from the code\<close>

datatype push_ref_mode = PushCell | PushSlice | PushCont

definition exec_push_ref_common :: "('c, 's) api \<Rightarrow> nat \<Rightarrow> push_ref_mode \<Rightarrow> ('c, 's, 'b, int) vm" where
  "exec_push_ref_common A bits mode =
     bnd (exec_cell_prefix A bits) (\<lambda>cell. case mode of
       PushCell \<Rightarrow> st_op (push_raw (VCell cell))
     | PushSlice \<Rightarrow> bnd (on_gas (load_cell_as_slice A cell LoadFull)) (\<lambda>cs. st_op (push_raw (VSlice cs)))
     | PushCont \<Rightarrow> bnd (ref_to_cont A cell) (\<lambda>k. st_op (push_raw (VCont k))))"

definition exec_push_ref :: "('c, 's) api \<Rightarrow> nat \<Rightarrow> nat \<Rightarrow> ('c, 's, 'b, int) vm" where
  "exec_push_ref A args bits = exec_push_ref_common A bits PushCell"

definition exec_push_ref_slice :: "('c, 's) api \<Rightarrow> nat \<Rightarrow> nat \<Rightarrow> ('c, 's, 'b, int) vm" where
  "exec_push_ref_slice A args bits = exec_push_ref_common A bits PushSlice"

definition exec_push_ref_cont :: "('c, 's) api \<Rightarrow> nat \<Rightarrow> nat \<Rightarrow> ('c, 's, 'b, int) vm" where
  "exec_push_ref_cont A args bits = exec_push_ref_common A bits PushCont"

text \<open>The bits and references that follow an opcode of \<open>bits\<close> bits are cut out of the code.\<close>

definition take_code_slice ::
    "('c, 's) api \<Rightarrow> ('c, 's, 'b) cell_lib \<Rightarrow> nat \<Rightarrow> nat \<Rightarrow> nat \<Rightarrow> ('c, 's, 'b, 's) vm" where
  "take_code_slice A L bits data_bits refs =
     bnd (gets code) (\<lambda>k0.
     thn (vm_ensure (has_remaining A k0 (bits + data_bits) refs) InvalidOpcode)
    (thn (skip_checked A bits 0)
    (bnd (gets code) (\<lambda>k.
     thn (skip_checked A data_bits refs) (ret (or_same (sl_only_first L k data_bits refs) k))))))"

text \<open>The tag, the last one of the data, and the zeros after it are removed.\<close>

definition take_tagged_slice ::
    "('c, 's) api \<Rightarrow> ('c, 's, 'b) cell_lib \<Rightarrow> nat \<Rightarrow> nat \<Rightarrow> nat \<Rightarrow> ('c, 's, 'b, 's) vm" where
  "take_tagged_slice A L bits data_bits refs =
     bnd (take_code_slice A L bits data_bits refs) (\<lambda>s.
     bnd (lift_res cell_fault (sl_apply L s)) (\<lambda>s. lift_res cell_fault (remove_trailing A L s)))"

definition exec_push_slice_common ::
    "('c, 's) api \<Rightarrow> ('c, 's, 'b) cell_lib \<Rightarrow> nat \<Rightarrow> nat \<Rightarrow> nat \<Rightarrow> ('c, 's, 'b, int) vm" where
  "exec_push_slice_common A L bits data_bits refs =
     bnd (take_tagged_slice A L bits data_bits refs) (\<lambda>s. st_op (push_raw (VSlice s)))"

definition exec_push_slice ::
    "('c, 's) api \<Rightarrow> ('c, 's, 'b) cell_lib \<Rightarrow> nat \<Rightarrow> nat \<Rightarrow> ('c, 's, 'b, int) vm" where
  "exec_push_slice A L args bits = exec_push_slice_common A L bits (take_bit 4 args * 8 + 4) 0"

definition exec_push_slice_r ::
    "('c, 's) api \<Rightarrow> ('c, 's, 'b) cell_lib \<Rightarrow> nat \<Rightarrow> nat \<Rightarrow> ('c, 's, 'b, int) vm" where
  "exec_push_slice_r A L args bits =
     exec_push_slice_common A L bits (take_bit 5 args * 8 + 1) (take_bit 2 (drop_bit 5 args) + 1)"

definition exec_push_slice_r2 ::
    "('c, 's) api \<Rightarrow> ('c, 's, 'b) cell_lib \<Rightarrow> nat \<Rightarrow> nat \<Rightarrow> ('c, 's, 'b, int) vm" where
  "exec_push_slice_r2 A L args bits =
     exec_push_slice_common A L bits (take_bit 7 args * 8 + 6) (take_bit 3 (drop_bit 7 args))"

definition push_code_cont ::
    "('c, 's) api \<Rightarrow> ('c, 's, 'b) cell_lib \<Rightarrow> nat \<Rightarrow> nat \<Rightarrow> nat \<Rightarrow> ('c, 's, 'b, int) vm" where
  "push_code_cont A L bits data_bits refs =
     bnd (take_code_slice A L bits data_bits refs) (\<lambda>k.
     bnd (gets cp) (\<lambda>p. st_op (push_raw (VCont (ord_simple k p)))))"

definition exec_push_cont ::
    "('c, 's) api \<Rightarrow> ('c, 's, 'b) cell_lib \<Rightarrow> nat \<Rightarrow> nat \<Rightarrow> ('c, 's, 'b, int) vm" where
  "exec_push_cont A L args bits =
     push_code_cont A L bits (take_bit 7 args * 8) (take_bit 2 (drop_bit 7 args))"

definition exec_push_cont_simple ::
    "('c, 's) api \<Rightarrow> ('c, 's, 'b) cell_lib \<Rightarrow> nat \<Rightarrow> nat \<Rightarrow> ('c, 's, 'b, int) vm" where
  "exec_push_cont_simple A L args bits = push_code_cont A L bits (take_bit 4 args * 8) 0"

section \<open>Comparisons of slices\<close>

datatype slice_bool_unary_op = IsEmpty | NoBits | NoRefs | FirstBit

definition slice_bool_unary ::
    "('c, 's) api \<Rightarrow> ('c, 's, 'b) cell_lib \<Rightarrow> slice_bool_unary_op \<Rightarrow> 's \<Rightarrow> bool" where
  "slice_bool_unary A L op cs = (case op of
      IsEmpty \<Rightarrow> slice_size_bits A cs = 0 \<and> slice_size_refs A cs = 0
    | NoBits \<Rightarrow> slice_size_bits A cs = 0
    | NoRefs \<Rightarrow> slice_size_refs A cs = 0
    | FirstBit \<Rightarrow> (case sl_get_bit L cs 0 of Inr b \<Rightarrow> b | Inl _ \<Rightarrow> False))"

definition exec_slice_bool_unary_op ::
    "('c, 's) api \<Rightarrow> ('c, 's, 'b) cell_lib \<Rightarrow> slice_bool_unary_op \<Rightarrow> ('c, 's, 'b, int) vm" where
  "exec_slice_bool_unary_op A L op = st_op (bnd pop_cs (\<lambda>cs. push_bool (slice_bool_unary A L op cs)))"

definition exec_slice_lex_cmp :: "('c, 's, 'b) cell_lib \<Rightarrow> ('c, 's, 'b, int) vm" where
  "exec_slice_lex_cmp L = st_op (bnd pop_cs (\<lambda>cs2. bnd pop_cs (\<lambda>cs1.
     bnd (lift_res cell_fault (sl_lex_cmp L cs1 cs2)) (\<lambda>r. push_int (ordering_i8 r)))))"

datatype slice_binary_op = DataEq | IsPrefix | IsPrefixRev | IsProperPrefix | IsProperPrefixRev
  | IsSuffix | IsSuffixRev | IsProperSuffix | IsProperSuffixRev

definition is_proper :: "('c, 's) api \<Rightarrow> 's \<Rightarrow> 's \<Rightarrow> bool" where
  "is_proper A left right \<longleftrightarrow> slice_size_bits A left < slice_size_bits A right"

definition slice_bin ::
    "('c, 's) api \<Rightarrow> ('c, 's, 'b) cell_lib \<Rightarrow> slice_binary_op \<Rightarrow> 's \<Rightarrow> 's \<Rightarrow> cell_error + bool" where
  "slice_bin A L op s1 s2 = (case op of
      DataEq \<Rightarrow> map_sum id (\<lambda>r. r = Equal) (sl_lex_cmp L s1 s2)
    | IsPrefix \<Rightarrow> sl_is_data_prefix_of L s1 s2
    | IsPrefixRev \<Rightarrow> sl_is_data_prefix_of L s2 s1
    | IsProperPrefix \<Rightarrow> (if is_proper A s1 s2 then sl_is_data_prefix_of L s1 s2 else Inr False)
    | IsProperPrefixRev \<Rightarrow> (if is_proper A s2 s1 then sl_is_data_prefix_of L s2 s1 else Inr False)
    | IsSuffix \<Rightarrow> sl_is_data_suffix_of L s1 s2
    | IsSuffixRev \<Rightarrow> sl_is_data_suffix_of L s2 s1
    | IsProperSuffix \<Rightarrow> (if is_proper A s1 s2 then sl_is_data_suffix_of L s1 s2 else Inr False)
    | IsProperSuffixRev \<Rightarrow> (if is_proper A s2 s1 then sl_is_data_suffix_of L s2 s1 else Inr False))"

definition exec_slice_bin_op ::
    "('c, 's) api \<Rightarrow> ('c, 's, 'b) cell_lib \<Rightarrow> slice_binary_op \<Rightarrow> ('c, 's, 'b, int) vm" where
  "exec_slice_bin_op A L op = st_op (bnd pop_cs (\<lambda>cs2. bnd pop_cs (\<lambda>cs1.
     bnd (lift_res cell_fault (slice_bin A L op cs1 cs2)) push_bool)))"

datatype slice_int_unary_op = Leading0 | Leading1 | Trailing0 | Trailing1

definition slice_int_unary :: "('c, 's, 'b) cell_lib \<Rightarrow> slice_int_unary_op \<Rightarrow> 's \<Rightarrow> cell_error + nat" where
  "slice_int_unary L op cs = (case op of
      Leading0 \<Rightarrow> sl_count_leading L cs False
    | Leading1 \<Rightarrow> sl_count_leading L cs True
    | Trailing0 \<Rightarrow> sl_count_trailing L cs False
    | Trailing1 \<Rightarrow> sl_count_trailing L cs True)"

definition exec_slice_int_unary_op ::
    "('c, 's, 'b) cell_lib \<Rightarrow> slice_int_unary_op \<Rightarrow> ('c, 's, 'b, int) vm" where
  "exec_slice_int_unary_op L op = st_op (bnd pop_cs (\<lambda>cs.
     bnd (lift_res cell_fault (slice_int_unary L op cs)) (\<lambda>n. push_int (int n))))"

section \<open>Building cells\<close>

definition exec_new_builder :: "('c, 's, 'b) cell_lib \<Rightarrow> ('c, 's, 'b, int) vm" where
  "exec_new_builder L = st_op (push_raw (VBuilder (b_new L)))"

definition exec_builder_to_cell :: "('c, 's, 'b) cell_lib \<Rightarrow> ('c, 's, 'b, int) vm" where
  "exec_builder_to_cell L = bnd (on_stack pop_builder) (\<lambda>b.
     bnd (on_gas (build_ext L b)) (\<lambda>cell. st_op (push_raw (VCell cell))))"

text \<open>\<open>true\<close> reports an overflow, \<open>false\<close> a success; the values go back as they were.\<close>

definition finish_store_overflow ::
    "('c, 's, 'b) sval \<Rightarrow> ('c, 's, 'b) sval \<Rightarrow> bool \<Rightarrow> (('c, 's, 'b) stk, fault, unit) act" where
  "finish_store_overflow arg1 arg2 quiet =
     (if quiet then thn (push_raw arg1) (thn (push_raw arg2) (push_bool True))
      else vm_fail (CellError ECellOverflow))"

definition finish_store_ok :: "'b \<Rightarrow> bool \<Rightarrow> (('c, 's, 'b) stk, fault, unit) act" where
  "finish_store_ok builder quiet =
     thn (push_raw (VBuilder builder)) (if quiet then push_bool False else ret ())"

text \<open>\<open>StoreIntArgs\<close>: bit 0 unsigned, bit 1 reversed operands, bit 2 quiet.\<close>

definition store_int_args :: "bool \<Rightarrow> nat" where
  "store_int_args sgnd = of_bool (\<not> sgnd)"

definition finish_store_fail ::
    "('c, 's) api \<Rightarrow> 'b \<Rightarrow> int \<Rightarrow> int \<Rightarrow> nat \<Rightarrow> (('c, 's, 'b) stk, fault, unit) act" where
  "finish_store_fail A builder x exit args =
     thn (if bit args 1 then thn (push_raw_int A x True) (push_raw (VBuilder builder))
          else thn (push_raw (VBuilder builder)) (push_raw_int A x True))
         (push_int exit)"

definition store_int_value ::
    "('c, 's, 'b) cell_lib \<Rightarrow> 'b \<Rightarrow> int \<Rightarrow> nat \<Rightarrow> bool \<Rightarrow> cell_error + 'b" where
  "store_int_value L builder x bits sgnd =
     (if 0 \<le> x \<and> x < 2 ^ 64 then b_store_uint L builder (nat x) bits
      else b_store_raw L builder (int_store_bytes L x bits sgnd) bits)"

definition exec_store_int_common ::
    "('c, 's) api \<Rightarrow> ('c, 's, 'b) cell_lib \<Rightarrow> nat \<Rightarrow> nat \<Rightarrow> (('c, 's, 'b) stk, fault, unit) act" where
  "exec_store_int_common A L bits args =
     bnd (if \<not> bit args 1 then bnd pop_builder (\<lambda>b. bnd pop_int (\<lambda>x. ret (b, x)))
          else bnd pop_int (\<lambda>x. bnd pop_builder (\<lambda>b. ret (b, x)))) (\<lambda>(builder, x).
     if \<not> b_has_capacity L builder bits 0 then
       (if bit args 2 then finish_store_fail A builder x (-1) args
        else vm_fail (CellError ECellOverflow))
     else if bits < bitsize A x (\<not> bit args 0) then
       (if bit args 2 then finish_store_fail A builder x 1 args
        else vm_fail (IntegerOutOfRange 0 (int bits) (int (bitsize A x (\<not> bit args 0)))))
     else
       bnd (lift_res cell_fault (store_int_value L builder x bits (\<not> bit args 0))) (\<lambda>builder.
         finish_store_ok builder (bit args 2)))"

definition exec_store_int ::
    "('c, 's) api \<Rightarrow> ('c, 's, 'b) cell_lib \<Rightarrow> nat \<Rightarrow> bool \<Rightarrow> ('c, 's, 'b, int) vm" where
  "exec_store_int A L x sgnd = st_op (exec_store_int_common A L x (store_int_args sgnd))"

definition exec_store_ref :: "('c, 's, 'b) cell_lib \<Rightarrow> bool \<Rightarrow> ('c, 's, 'b, int) vm" where
  "exec_store_ref L quiet = st_op (bnd pop_builder (\<lambda>builder. bnd pop_cell (\<lambda>cell.
     if \<not> b_has_capacity L builder 0 1 then finish_store_overflow (VCell cell) (VBuilder builder) quiet
     else bnd (lift_res cell_fault (b_store_reference L builder cell)) (\<lambda>builder.
       finish_store_ok builder quiet))))"

definition exec_store_builder_as_ref_rev :: "('c, 's, 'b) cell_lib \<Rightarrow> bool \<Rightarrow> ('c, 's, 'b, int) vm" where
  "exec_store_builder_as_ref_rev L quiet =
     bnd (on_stack pop_builder) (\<lambda>child_builder.
     bnd (on_stack pop_builder) (\<lambda>builder.
     if \<not> b_has_capacity L builder 0 1
     then st_op (finish_store_overflow (VBuilder builder) (VBuilder child_builder) quiet)
     else
       bnd (on_gas (build_ext L child_builder)) (\<lambda>cell.
       bnd (lift_res cell_fault (b_store_reference L builder cell)) (\<lambda>builder.
       st_op (finish_store_ok builder quiet)))))"

definition exec_store_slice ::
    "('c, 's) api \<Rightarrow> ('c, 's, 'b) cell_lib \<Rightarrow> bool \<Rightarrow> ('c, 's, 'b, int) vm" where
  "exec_store_slice A L quiet = st_op (bnd pop_builder (\<lambda>builder. bnd pop_cs (\<lambda>cs.
     if \<not> fits_into A L cs builder then finish_store_overflow (VSlice cs) (VBuilder builder) quiet
     else bnd (lift_res cell_fault (b_store_slice L builder cs)) (\<lambda>builder.
       finish_store_ok builder quiet))))"

definition exec_store_int_var ::
    "('c, 's) api \<Rightarrow> ('c, 's, 'b) cell_lib \<Rightarrow> nat \<Rightarrow> ('c, 's, 'b, int) vm" where
  "exec_store_int_var A L s = st_op (bnd (pop_smallint_range 0 (256 + of_bool (\<not> bit s 0))) (\<lambda>bits.
     exec_store_int_common A L bits s))"

definition exec_store_int_fixed ::
    "('c, 's) api \<Rightarrow> ('c, 's, 'b) cell_lib \<Rightarrow> nat \<Rightarrow> nat \<Rightarrow> ('c, 's, 'b, int) vm" where
  "exec_store_int_fixed A L s n = st_op (exec_store_int_common A L n s)"

definition exec_store_builder_as_ref :: "('c, 's, 'b) cell_lib \<Rightarrow> bool \<Rightarrow> ('c, 's, 'b, int) vm" where
  "exec_store_builder_as_ref L quiet =
     bnd (on_stack pop_builder) (\<lambda>builder.
     bnd (on_stack pop_builder) (\<lambda>child_builder.
     if \<not> b_has_capacity L builder 0 1
     then st_op (finish_store_overflow (VBuilder child_builder) (VBuilder builder) quiet)
     else
       bnd (on_gas (build_ext L child_builder)) (\<lambda>cell.
       bnd (lift_res cell_fault (b_store_reference L builder cell)) (\<lambda>builder.
       st_op (finish_store_ok builder quiet)))))"

definition exec_store_builder :: "('c, 's, 'b) cell_lib \<Rightarrow> bool \<Rightarrow> ('c, 's, 'b, int) vm" where
  "exec_store_builder L quiet = st_op (bnd pop_builder (\<lambda>builder. bnd pop_builder (\<lambda>other_builder.
     if \<not> b_has_capacity L builder (b_size_bits L other_builder) (b_size_refs L other_builder)
     then finish_store_overflow (VBuilder other_builder) (VBuilder builder) quiet
     else bnd (lift_res cell_fault (b_store_builder L builder other_builder)) (\<lambda>builder.
       finish_store_ok builder quiet))))"

definition exec_store_ref_rev :: "('c, 's, 'b) cell_lib \<Rightarrow> bool \<Rightarrow> ('c, 's, 'b, int) vm" where
  "exec_store_ref_rev L quiet = st_op (bnd pop_cell (\<lambda>cell. bnd pop_builder (\<lambda>builder.
     if \<not> b_has_capacity L builder 0 1 then finish_store_overflow (VBuilder builder) (VCell cell) quiet
     else bnd (lift_res cell_fault (b_store_reference L builder cell)) (\<lambda>builder.
       finish_store_ok builder quiet))))"

definition exec_store_slice_rev ::
    "('c, 's) api \<Rightarrow> ('c, 's, 'b) cell_lib \<Rightarrow> bool \<Rightarrow> ('c, 's, 'b, int) vm" where
  "exec_store_slice_rev A L quiet = st_op (bnd pop_cs (\<lambda>cs. bnd pop_builder (\<lambda>builder.
     if \<not> fits_into A L cs builder then finish_store_overflow (VBuilder builder) (VSlice cs) quiet
     else bnd (lift_res cell_fault (b_store_slice L builder cs)) (\<lambda>builder.
       finish_store_ok builder quiet))))"

definition exec_store_builder_rev :: "('c, 's, 'b) cell_lib \<Rightarrow> bool \<Rightarrow> ('c, 's, 'b, int) vm" where
  "exec_store_builder_rev L quiet = st_op (bnd pop_builder (\<lambda>other_builder. bnd pop_builder (\<lambda>builder.
     if \<not> b_has_capacity L builder (b_size_bits L other_builder) (b_size_refs L other_builder)
     then finish_store_overflow (VBuilder builder) (VBuilder other_builder) quiet
     else bnd (lift_res cell_fault (b_store_builder L builder other_builder)) (\<lambda>builder.
       finish_store_ok builder quiet))))"

text \<open>The code is advanced only when every reference was moved.\<close>

fun move_refs :: "('c, 's, 'b) cell_lib \<Rightarrow> nat \<Rightarrow> 's \<Rightarrow> 'b \<Rightarrow> cell_error + 's \<times> 'b" where
  "move_refs L 0 k builder = Inr (k, builder)"
| "move_refs L (Suc n) k builder = (case sl_load_reference L k of
      Inl e \<Rightarrow> Inl e
    | Inr (cell, k') \<Rightarrow> (case b_store_reference L builder cell of
        Inl e \<Rightarrow> Inl e
      | Inr builder' \<Rightarrow> move_refs L n k' builder'))"

definition exec_store_const_ref ::
    "('c, 's) api \<Rightarrow> ('c, 's, 'b) cell_lib \<Rightarrow> nat \<Rightarrow> nat \<Rightarrow> ('c, 's, 'b, int) vm" where
  "exec_store_const_ref A L args bits =
     (let refs = take_bit 1 args + 1 in
      bnd (gets code) (\<lambda>k0.
      thn (vm_ensure (has_remaining A k0 bits refs) InvalidOpcode)
     (thn (skip_checked A bits 0)
     (bnd (on_stack pop_builder) (\<lambda>builder.
      thn (vm_ensure (b_has_capacity L builder 0 refs) (CellError ECellOverflow))
     (bnd (gets code) (\<lambda>k.
      bnd (lift_res cell_fault (move_refs L refs k builder)) (\<lambda>(k', builder).
      thn (modify (\<lambda>st. st\<lparr>code := k'\<rparr>)) (st_op (push_raw (VBuilder builder)))))))))))"

text \<open>\<open>StoreLeIntArgs\<close>: bit 0 unsigned, bit 1 eight bytes. The out of range error records no value.\<close>

definition le_in_range :: "bool \<Rightarrow> nat \<Rightarrow> int \<Rightarrow> bool" where
  "le_in_range unsgnd bits x \<longleftrightarrow>
     (if unsgnd then 0 \<le> x \<and> x < 2 ^ bits else - (2 ^ (bits - 1)) \<le> x \<and> x < 2 ^ (bits - 1))"

definition exec_store_le_int :: "('c, 's, 'b) cell_lib \<Rightarrow> nat \<Rightarrow> ('c, 's, 'b, int) vm" where
  "exec_store_le_int L s =
     (let bits = (if bit s 1 then 64 else 32) in
      st_op (bnd pop_builder (\<lambda>builder.
      thn (vm_ensure (b_has_capacity L builder bits 0) (CellError ECellOverflow))
     (bnd pop_int (\<lambda>x.
      thn (vm_ensure (le_in_range (bit s 0) bits x) (IntegerOutOfRange 0 (int bits) 0))
     (bnd (lift_res cell_fault
         (if bit s 1 then b_store_u64 L builder (swap_bytes 8 (nat (x mod 2 ^ 64)))
          else b_store_u32 L builder (swap_bytes 4 (nat (x mod 2 ^ 32))))) (\<lambda>builder.
      push_raw (VBuilder builder))))))))"

definition exec_builder_to_special_cell :: "('c, 's, 'b) cell_lib \<Rightarrow> ('c, 's, 'b, int) vm" where
  "exec_builder_to_special_cell L =
     bnd (on_stack pop_bool) (\<lambda>special.
     bnd (on_stack pop_builder) (\<lambda>b.
     bnd (on_gas (build_ext L (b_set_exotic L b special))) (\<lambda>cell. st_op (push_raw (VCell cell)))))"

definition exec_builder_depth :: "('c, 's) api \<Rightarrow> ('c, 's, 'b) cell_lib \<Rightarrow> ('c, 's, 'b, int) vm" where
  "exec_builder_depth A L = st_op (bnd pop_builder (\<lambda>b.
     push_int (int (compute_depth A (b_references L b)))))"

definition exec_builder_bits :: "('c, 's, 'b) cell_lib \<Rightarrow> ('c, 's, 'b, int) vm" where
  "exec_builder_bits L = st_op (bnd pop_builder (\<lambda>b. push_int (int (b_size_bits L b))))"

definition exec_builder_refs :: "('c, 's, 'b) cell_lib \<Rightarrow> ('c, 's, 'b, int) vm" where
  "exec_builder_refs L = st_op (bnd pop_builder (\<lambda>b. push_int (int (b_size_refs L b))))"

definition exec_builder_bits_refs :: "('c, 's, 'b) cell_lib \<Rightarrow> ('c, 's, 'b, int) vm" where
  "exec_builder_bits_refs L = st_op (bnd pop_builder (\<lambda>b.
     thn (push_int (int (b_size_bits L b))) (push_int (int (b_size_refs L b)))))"

definition exec_builder_rem_bits :: "('c, 's, 'b) cell_lib \<Rightarrow> ('c, 's, 'b, int) vm" where
  "exec_builder_rem_bits L = st_op (bnd pop_builder (\<lambda>b. push_int (int (b_spare_bits L b))))"

definition exec_builder_rem_refs :: "('c, 's, 'b) cell_lib \<Rightarrow> ('c, 's, 'b, int) vm" where
  "exec_builder_rem_refs L = st_op (bnd pop_builder (\<lambda>b. push_int (int (b_spare_refs L b))))"

definition exec_builder_rem_bits_refs :: "('c, 's, 'b) cell_lib \<Rightarrow> ('c, 's, 'b, int) vm" where
  "exec_builder_rem_bits_refs L = st_op (bnd pop_builder (\<lambda>b.
     thn (push_int (int (b_spare_bits L b))) (push_int (int (b_spare_refs L b)))))"

definition finish_check :: "bool \<Rightarrow> bool \<Rightarrow> (('c, 's, 'b) stk, fault, unit) act" where
  "finish_check fits quiet =
     (if quiet then push_bool fits else if \<not> fits then vm_fail (CellError ECellOverflow) else ret ())"

definition exec_builder_chk_bits :: "('c, 's, 'b) cell_lib \<Rightarrow> nat \<Rightarrow> bool \<Rightarrow> ('c, 's, 'b, int) vm" where
  "exec_builder_chk_bits L x quiet = st_op (bnd pop_builder (\<lambda>b.
     finish_check (b_has_capacity L b x 0) quiet))"

datatype check_mode = Bits | Refs | BitRefs

definition pop_bits_refs :: "check_mode \<Rightarrow> nat \<Rightarrow> (('c, 's, 'b) stk, fault, nat \<times> nat) act" where
  "pop_bits_refs mode max_refs = (case mode of
      Bits \<Rightarrow> bnd (pop_smallint_range 0 1023) (\<lambda>bits. ret (bits, 0))
    | Refs \<Rightarrow> bnd (pop_smallint_range 0 max_refs) (\<lambda>refs. ret (0, refs))
    | BitRefs \<Rightarrow> bnd (pop_smallint_range 0 max_refs) (\<lambda>refs.
        bnd (pop_smallint_range 0 1023) (\<lambda>bits. ret (bits, refs))))"

definition exec_builder_chk_bits_refs ::
    "('c, 's, 'b) cell_lib \<Rightarrow> check_mode \<Rightarrow> bool \<Rightarrow> ('c, 's, 'b, int) vm" where
  "exec_builder_chk_bits_refs L mode quiet = st_op (bnd (pop_bits_refs mode 7) (\<lambda>(bits, refs).
     bnd pop_builder (\<lambda>b. finish_check (b_has_capacity L b bits refs) quiet)))"

text \<open>\<open>value\<close> is given or popped.\<close>

definition pop_same_value :: "bool option \<Rightarrow> (('c, 's, 'b) stk, fault, bool) act" where
  "pop_same_value v = (case v of
      Some b \<Rightarrow> ret b
    | None \<Rightarrow> bnd (pop_smallint_range 0 1) (\<lambda>n. ret (n \<noteq> 0)))"

definition exec_store_same :: "('c, 's, 'b) cell_lib \<Rightarrow> bool option \<Rightarrow> ('c, 's, 'b, int) vm" where
  "exec_store_same L v = st_op (bnd (pop_same_value v) (\<lambda>b.
     bnd (pop_smallint_range 0 1023) (\<lambda>bits.
     bnd pop_builder (\<lambda>builder.
     thn (vm_ensure (b_has_capacity L builder bits 0) (CellError ECellOverflow))
    (bnd (lift_res cell_fault (if b then b_store_ones L builder bits else b_store_zeros L builder bits))
       (\<lambda>builder. push_raw (VBuilder builder)))))))"

definition exec_store_const_slice ::
    "('c, 's) api \<Rightarrow> ('c, 's, 'b) cell_lib \<Rightarrow> nat \<Rightarrow> nat \<Rightarrow> ('c, 's, 'b, int) vm" where
  "exec_store_const_slice A L args bits =
     bnd (take_tagged_slice A L bits (take_bit 3 args * 8 + 2) (take_bit 2 (drop_bit 3 args))) (\<lambda>s.
     st_op (bnd pop_builder (\<lambda>builder.
     bnd (lift_res cell_fault (b_store_slice L builder s)) (\<lambda>builder. push_raw (VBuilder builder)))))"

section \<open>Reading cells\<close>

definition exec_cell_to_slice :: "('c, 's) api \<Rightarrow> ('c, 's, 'b, int) vm" where
  "exec_cell_to_slice A = bnd (on_stack pop_cell) (\<lambda>cell.
     bnd (on_gas (load_cell_as_slice A cell LoadFull)) (\<lambda>cs. st_op (push_raw (VSlice cs))))"

definition exec_slice_chk_empty :: "('c, 's) api \<Rightarrow> ('c, 's, 'b, int) vm" where
  "exec_slice_chk_empty A = st_op (bnd pop_cs (\<lambda>cs.
     vm_ensure (slice_size_bits A cs = 0 \<and> slice_size_refs A cs = 0) (CellError ECellUnderflow)))"

text \<open>\<open>LoadIntArgs\<close>: bit 0 unsigned, bit 1 prefetch, bit 2 quiet.\<close>

definition load_int_args :: "bool \<Rightarrow> nat" where
  "load_int_args sgnd = of_bool (\<not> sgnd)"

text \<open>How every load ends: without the data, and with it.\<close>

definition finish_load_fail :: "'s \<Rightarrow> bool \<Rightarrow> bool \<Rightarrow> (('c, 's, 'b) stk, fault, unit) act" where
  "finish_load_fail cs prefetch quiet =
     thn (vm_ensure quiet (CellError ECellUnderflow))
    (thn (if prefetch then ret () else push_raw (VSlice cs)) (push_bool False))"

definition finish_load_ok :: "'s \<Rightarrow> bool \<Rightarrow> bool \<Rightarrow> (('c, 's, 'b) stk, fault, unit) act" where
  "finish_load_ok cs prefetch quiet =
     thn (if prefetch then ret () else push_raw (VSlice cs)) (if quiet then push_bool True else ret ())"

definition exec_load_int_common ::
    "('c, 's) api \<Rightarrow> nat \<Rightarrow> nat \<Rightarrow> (('c, 's, 'b) stk, fault, unit) act" where
  "exec_load_int_common A bits args = bnd pop_cs (\<lambda>cs.
     if \<not> has_remaining A cs bits 0 then finish_load_fail cs (bit args 1) (bit args 2)
     else
       bnd (lift_res cell_fault (slice_load_bigint A cs bits (\<not> bit args 0))) (\<lambda>(x, cs').
       thn (push_int x) (finish_load_ok cs' (bit args 1) (bit args 2))))"

definition exec_load_int_fixed :: "('c, 's) api \<Rightarrow> nat \<Rightarrow> bool \<Rightarrow> ('c, 's, 'b, int) vm" where
  "exec_load_int_fixed A x sgnd = st_op (exec_load_int_common A x (load_int_args sgnd))"

definition exec_load_ref ::
    "('c, 's) api \<Rightarrow> ('c, 's, 'b) cell_lib \<Rightarrow> ('c, 's, 'b, int) vm" where
  "exec_load_ref A L = st_op (bnd pop_cs (\<lambda>cs.
     thn (vm_ensure (0 < slice_size_refs A cs) (CellError ECellUnderflow))
    (bnd (lift_res cell_fault (sl_load_reference L cs)) (\<lambda>(cell, cs').
     thn (push_raw (VCell cell)) (push_raw (VSlice cs'))))))"

definition exec_load_ref_rev_to_slice ::
    "('c, 's) api \<Rightarrow> ('c, 's, 'b) cell_lib \<Rightarrow> ('c, 's, 'b, int) vm" where
  "exec_load_ref_rev_to_slice A L = bnd (on_stack pop_cs) (\<lambda>cs.
     thn (vm_ensure (0 < slice_size_refs A cs) (CellError ECellUnderflow))
    (bnd (lift_res cell_fault (sl_load_reference L cs)) (\<lambda>(cell, cs').
     bnd (on_gas (load_cell_as_slice A cell LoadFull)) (\<lambda>child_cs.
     st_op (thn (push_raw (VSlice cs')) (push_raw (VSlice child_cs)))))))"

text \<open>\<open>LoadSliceArgs\<close>: bit 0 prefetch, bit 1 quiet.\<close>

definition exec_load_slice_common ::
    "('c, 's) api \<Rightarrow> ('c, 's, 'b) cell_lib \<Rightarrow> nat \<Rightarrow> nat \<Rightarrow> (('c, 's, 'b) stk, fault, unit) act" where
  "exec_load_slice_common A L bits args = bnd pop_cs (\<lambda>cs.
     if \<not> has_remaining A cs bits 0 then finish_load_fail cs (bit args 0) (bit args 1)
     else
       thn (push_raw (VSlice (sl_get_prefix L cs bits 0)))
           (finish_load_ok (or_same (slice_skip_first A cs bits 0) cs) (bit args 0) (bit args 1)))"

definition exec_load_slice_fixed ::
    "('c, 's) api \<Rightarrow> ('c, 's, 'b) cell_lib \<Rightarrow> nat \<Rightarrow> ('c, 's, 'b, int) vm" where
  "exec_load_slice_fixed A L x = st_op (exec_load_slice_common A L x 0)"

definition exec_load_int_var :: "('c, 's) api \<Rightarrow> nat \<Rightarrow> ('c, 's, 'b, int) vm" where
  "exec_load_int_var A s = st_op (bnd (pop_smallint_range 0 (256 + of_bool (\<not> bit s 0))) (\<lambda>bits.
     exec_load_int_common A bits s))"

definition exec_load_int_fixed2 :: "('c, 's) api \<Rightarrow> nat \<Rightarrow> nat \<Rightarrow> ('c, 's, 'b, int) vm" where
  "exec_load_int_fixed2 A s n = st_op (exec_load_int_common A n s)"

text \<open>\<open>u64::checked_shl\<close> with its default, and the combined shift of the long case.\<close>

definition shl_or_zero :: "nat \<Rightarrow> nat \<Rightarrow> nat" where
  "shl_or_zero v n = (if n < 64 then take_bit 64 (push_bit n v) else 0)"

definition load_padded ::
    "('c, 's) api \<Rightarrow> ('c, 's, 'b) cell_lib \<Rightarrow> 's \<Rightarrow> nat \<Rightarrow> cell_error + int option \<times> 's" where
  "load_padded A L cs x =
     (let ld_bits = min (slice_size_bits A cs) x in
      if x \<le> 64 then
        map_sum id (\<lambda>(v, cs'). (Some (int (shl_or_zero v (x - ld_bits))), cs')) (sl_load_uint L cs ld_bits)
      else if x \<le> 256 then
        (let rshift = (8 - ld_bits mod 8) mod 8; lshift = x - ld_bits in
         map_sum id (\<lambda>(bytes, cs').
           (Some (int (let v = bi_from_bytes_be L bytes in
              if rshift < lshift then push_bit (lshift - rshift) v
              else if lshift < rshift then drop_bit (rshift - lshift) v else v)), cs'))
           (sl_load_raw L cs ld_bits))
      else Inr (None, cs))"

definition exec_preload_uint_fixed_0e ::
    "('c, 's) api \<Rightarrow> ('c, 's, 'b) cell_lib \<Rightarrow> nat \<Rightarrow> ('c, 's, 'b, int) vm" where
  "exec_preload_uint_fixed_0e A L x = st_op (bnd pop_cs (\<lambda>cs.
     bnd (lift_res cell_fault (load_padded A L cs x)) (\<lambda>(i, cs').
     thn (push_raw (VSlice cs')) (case i of Some i \<Rightarrow> push_int i | None \<Rightarrow> push_nan))))"

definition exec_load_slice ::
    "('c, 's) api \<Rightarrow> ('c, 's, 'b) cell_lib \<Rightarrow> nat \<Rightarrow> ('c, 's, 'b, int) vm" where
  "exec_load_slice A L s = st_op (bnd (pop_smallint_range 0 1023) (\<lambda>bits.
     exec_load_slice_common A L bits s))"

definition exec_load_slice_fixed2 ::
    "('c, 's) api \<Rightarrow> ('c, 's, 'b) cell_lib \<Rightarrow> nat \<Rightarrow> nat \<Rightarrow> ('c, 's, 'b, int) vm" where
  "exec_load_slice_fixed2 A L s n = st_op (exec_load_slice_common A L n s)"

datatype slice_range_op = CutFirst | SkipFirst | CutLast | SkipLast

definition apply_range_op ::
    "('c, 's) api \<Rightarrow> ('c, 's, 'b) cell_lib \<Rightarrow> slice_range_op \<Rightarrow> 's \<Rightarrow> nat \<Rightarrow> nat \<Rightarrow> 's" where
  "apply_range_op A L op cs bits refs = or_same (case op of
      CutFirst \<Rightarrow> sl_only_first L cs bits refs
    | SkipFirst \<Rightarrow> slice_skip_first A cs bits refs
    | CutLast \<Rightarrow> sl_only_last L cs bits refs
    | SkipLast \<Rightarrow> sl_skip_last L cs bits refs) cs"

definition exec_slice_range_op ::
    "('c, 's) api \<Rightarrow> ('c, 's, 'b) cell_lib \<Rightarrow> slice_range_op \<Rightarrow> ('c, 's, 'b, int) vm" where
  "exec_slice_range_op A L op = st_op (bnd (pop_smallint_range 0 1023) (\<lambda>bits. bnd pop_cs (\<lambda>cs.
     thn (vm_ensure (has_remaining A cs bits 0) (CellError ECellUnderflow))
         (push_raw (VSlice (apply_range_op A L op cs bits 0))))))"

definition sub_range ::
    "('c, 's) api \<Rightarrow> ('c, 's, 'b) cell_lib \<Rightarrow> 's \<Rightarrow> nat \<times> nat \<Rightarrow> nat \<times> nat \<Rightarrow> 's" where
  "sub_range A L cs off len =
     (let cs' = or_same (slice_skip_first A cs (fst off) (snd off)) cs
      in or_same (sl_only_first L cs' (fst len) (snd len)) cs')"

definition exec_slice_substr ::
    "('c, 's) api \<Rightarrow> ('c, 's, 'b) cell_lib \<Rightarrow> ('c, 's, 'b, int) vm" where
  "exec_slice_substr A L = st_op (bnd (pop_smallint_range 0 1023) (\<lambda>len_bits.
     bnd (pop_smallint_range 0 1023) (\<lambda>offset_bits. bnd pop_cs (\<lambda>cs.
     thn (vm_ensure (has_remaining A cs (offset_bits + len_bits) 0) (CellError ECellUnderflow))
         (push_raw (VSlice (sub_range A L cs (offset_bits, 0) (len_bits, 0))))))))"

definition exec_slice_begins_with_common ::
    "('c, 's, 'b) cell_lib \<Rightarrow> 's \<Rightarrow> bool \<Rightarrow> (('c, 's, 'b) stk, fault, unit) act" where
  "exec_slice_begins_with_common L prefix quiet = bnd pop_cs (\<lambda>cs.
     case sl_strip_data_prefix L cs prefix of
       None \<Rightarrow> thn (vm_ensure quiet (CellError ECellUnderflow)) (thn (push_raw (VSlice cs)) (push_bool False))
     | Some cs' \<Rightarrow> thn (push_raw (VSlice cs')) (if quiet then push_bool True else ret ()))"

definition exec_slice_begins_with :: "('c, 's, 'b) cell_lib \<Rightarrow> bool \<Rightarrow> ('c, 's, 'b, int) vm" where
  "exec_slice_begins_with L quiet = st_op (bnd pop_cs (\<lambda>target.
     exec_slice_begins_with_common L target quiet))"

definition exec_slice_begins_with_const ::
    "('c, 's) api \<Rightarrow> ('c, 's, 'b) cell_lib \<Rightarrow> nat \<Rightarrow> nat \<Rightarrow> ('c, 's, 'b, int) vm" where
  "exec_slice_begins_with_const A L args bits =
     bnd (take_tagged_slice A L bits (take_bit 7 args * 8 + 3) 0) (\<lambda>s.
     st_op (exec_slice_begins_with_common L s (bit args 7)))"

definition exec_slice_full_range_op ::
    "('c, 's) api \<Rightarrow> ('c, 's, 'b) cell_lib \<Rightarrow> slice_range_op \<Rightarrow> ('c, 's, 'b, int) vm" where
  "exec_slice_full_range_op A L op = st_op (bnd (pop_smallint_range 0 4) (\<lambda>refs.
     bnd (pop_smallint_range 0 1023) (\<lambda>bits. bnd pop_cs (\<lambda>cs.
     thn (vm_ensure (has_remaining A cs bits refs) (CellError ECellUnderflow))
         (push_raw (VSlice (apply_range_op A L op cs bits refs)))))))"

definition exec_subslice :: "('c, 's) api \<Rightarrow> ('c, 's, 'b) cell_lib \<Rightarrow> ('c, 's, 'b, int) vm" where
  "exec_subslice A L = st_op (bnd (pop_smallint_range 0 4) (\<lambda>len_refs.
     bnd (pop_smallint_range 0 1023) (\<lambda>len_bits.
     bnd (pop_smallint_range 0 4) (\<lambda>offset_refs.
     bnd (pop_smallint_range 0 1023) (\<lambda>offset_bits. bnd pop_cs (\<lambda>cs.
     thn (vm_ensure (has_remaining A cs (offset_bits + len_bits) (offset_refs + len_refs))
           (CellError ECellUnderflow))
         (push_raw (VSlice (sub_range A L cs (offset_bits, offset_refs) (len_bits, len_refs))))))))))"

definition exec_split ::
    "('c, 's) api \<Rightarrow> ('c, 's, 'b) cell_lib \<Rightarrow> bool \<Rightarrow> ('c, 's, 'b, int) vm" where
  "exec_split A L quiet = st_op (bnd (pop_smallint_range 0 4) (\<lambda>refs.
     bnd (pop_smallint_range 0 1023) (\<lambda>bits. bnd pop_cs (\<lambda>cs.
     if \<not> has_remaining A cs bits refs then finish_load_fail cs False quiet
     else
       thn (push_raw (VSlice (sl_get_prefix L cs bits refs)))
           (finish_load_ok (or_same (slice_skip_first A cs bits refs) cs) False quiet)))))"

text \<open>\<open>LoadMode::UseGas\<close>: charge, do not resolve libraries.\<close>

definition LoadUseGas :: "bool \<times> bool" where "LoadUseGas = (True, False)"

definition exec_cell_to_slice_maybe_special ::
    "('c, 's) api \<Rightarrow> ('c, 's, 'b) cell_lib \<Rightarrow> ('c, 's, 'b, int) vm" where
  "exec_cell_to_slice_maybe_special A L = bnd (on_stack pop_cell) (\<lambda>cell.
     bnd (on_gas (load_cell_as_slice A cell LoadUseGas)) (\<lambda>cs.
     st_op (thn (push_raw (VSlice cs)) (push_bool (cl_is_exotic L cell)))))"

text \<open>\<open>version.is_ton(..5)\<close>\<close>

definition is_ton_before :: "nat \<Rightarrow> vm_version \<Rightarrow> bool" where
  "is_ton_before hi v = (case v of Ton n \<Rightarrow> n < hi | Everscale _ \<Rightarrow> False)"

definition set_missing_library :: "hash \<Rightarrow> ('c, unit) gas_act" where
  "set_missing_library h = modify (\<lambda>g. g\<lparr>missing_library := Some h\<rparr>)"

text \<open>The block \<open>'load\<close>: the cell, or the error that \<open>handle_error\<close> is given.\<close>

definition load_special ::
    "('c, 's) api \<Rightarrow> ('c, 's, 'b) cell_lib \<Rightarrow> 'c \<Rightarrow> ('c, 's, 'b, cell_error + 'c) vm" where
  "load_special A L cell =
     bnd (gets version) (\<lambda>v.
     if is_ton_before 5 v then ret (Inr cell)
     else
       thn (on_gas (load_cell_impl A LoadUseGas cell))
      (if \<not> cl_is_exotic L cell then ret (Inr cell)
       else if \<not> cl_is_library L cell then ret (Inl ECellUnderflow)
       else
         bnd (lift_res cell_fault (cell_library_hash A cell)) (\<lambda>h.
         bnd (gets (\<lambda>st. libraries (gas st) h)) (\<lambda>found. case found of
           Inr (Some lib) \<Rightarrow> ret (Inr lib)
         | Inr None \<Rightarrow> thn (on_gas (set_missing_library h)) (ret (Inl ECellUnderflow))
         | Inl e \<Rightarrow> ret (Inl e)))))"

definition exec_load_special_cell ::
    "('c, 's) api \<Rightarrow> ('c, 's, 'b) cell_lib \<Rightarrow> bool \<Rightarrow> ('c, 's, 'b, int) vm" where
  "exec_load_special_cell A L quiet = bnd (on_stack pop_cell) (\<lambda>cell.
     bnd (load_special A L cell) (\<lambda>r. case r of
       Inl e \<Rightarrow> if quiet then st_op (push_bool False) else vm_fail (CellError e)
     | Inr c \<Rightarrow> st_op (thn (push_raw (VCell c)) (if quiet then push_bool True else ret ()))))"

definition exec_check_slice ::
    "('c, 's) api \<Rightarrow> check_mode \<Rightarrow> bool \<Rightarrow> ('c, 's, 'b, int) vm" where
  "exec_check_slice A mode quiet = st_op (bnd (pop_bits_refs mode 4) (\<lambda>(bits, refs).
     bnd pop_cs (\<lambda>cs. finish_check (has_remaining A cs bits refs) quiet)))"

definition preload_reference ::
    "('c, 's) api \<Rightarrow> nat \<Rightarrow> (('c, 's, 'b) stk, fault, unit) act" where
  "preload_reference A idx = bnd pop_cs (\<lambda>cs.
     bnd (lift_res cell_fault (slice_get_reference A cs idx)) (\<lambda>cell. push_raw (VCell cell)))"

definition exec_preload_ref :: "('c, 's) api \<Rightarrow> ('c, 's, 'b, int) vm" where
  "exec_preload_ref A = st_op (bnd (pop_smallint_range 0 3) (preload_reference A))"

definition exec_slice_bits_refs :: "('c, 's) api \<Rightarrow> check_mode \<Rightarrow> ('c, 's, 'b, int) vm" where
  "exec_slice_bits_refs A mode = st_op (bnd pop_cs (\<lambda>cs.
     thn (if mode = Bits \<or> mode = BitRefs then push_int (int (slice_size_bits A cs)) else ret ())
         (if mode = Refs \<or> mode = BitRefs then push_int (int (slice_size_refs A cs)) else ret ())))"

definition exec_preload_ref_fixed :: "('c, 's) api \<Rightarrow> nat \<Rightarrow> ('c, 's, 'b, int) vm" where
  "exec_preload_ref_fixed A x = st_op (preload_reference A x)"

text \<open>\<open>LoadLeIntArgs\<close>: bit 0 unsigned, bit 1 eight bytes, bit 2 prefetch, bit 3 quiet.\<close>

definition load_le ::
    "('c, 's, 'b) cell_lib \<Rightarrow> bool \<Rightarrow> bool \<Rightarrow> 's \<Rightarrow> cell_error + int \<times> 's" where
  "load_le L unsgnd long cs =
     map_sum id (\<lambda>(v, cs').
       let n = swap_bytes (if long then 8 else 4) v in
       (if unsgnd then int n else signed_take_bit (if long then 63 else 31) (int n), cs'))
       (if long then sl_load_u64 L cs else sl_load_u32 L cs)"

definition exec_load_le_int ::
    "('c, 's) api \<Rightarrow> ('c, 's, 'b) cell_lib \<Rightarrow> nat \<Rightarrow> ('c, 's, 'b, int) vm" where
  "exec_load_le_int A L s = st_op (bnd pop_cs (\<lambda>cs.
     if \<not> has_remaining A cs (if bit s 1 then 64 else 32) 0
     then finish_load_fail cs (bit s 2) (bit s 3)
     else
       bnd (lift_res cell_fault (load_le L (bit s 0) (bit s 1) cs)) (\<lambda>(x, cs').
       thn (push_int x) (finish_load_ok cs' (bit s 2) (bit s 3)))))"

definition exec_load_same ::
    "('c, 's) api \<Rightarrow> ('c, 's, 'b) cell_lib \<Rightarrow> bool option \<Rightarrow> ('c, 's, 'b, int) vm" where
  "exec_load_same A L v = st_op (bnd (pop_same_value v) (\<lambda>b. bnd pop_cs (\<lambda>cs.
     let target = (if b then cl_all_ones L else cl_all_zeros L);
         n = slice_size_bits A (sl_longest_common_data_prefix L cs target)
     in thn (push_int (int n)) (push_raw (VSlice (or_same (slice_skip_first A cs n 0) cs))))))"

definition exec_slice_depth ::
    "('c, 's) api \<Rightarrow> ('c, 's, 'b) cell_lib \<Rightarrow> ('c, 's, 'b, int) vm" where
  "exec_slice_depth A L = st_op (bnd pop_cs (\<lambda>cs. push_int (int (compute_depth A (sl_references L cs)))))"

definition exec_cell_depth ::
    "('c, 's) api \<Rightarrow> ('c, 's, 'b) cell_lib \<Rightarrow> ('c, 's, 'b, int) vm" where
  "exec_cell_depth A L = st_op (bnd pop_cell_opt (\<lambda>cell. case cell of
     Some cell \<Rightarrow> push_int (int (compute_depth A (cl_references L cell)))
   | None \<Rightarrow> push_zero))"

definition exec_cell_level :: "('c, 's) api \<Rightarrow> ('c, 's, 'b, int) vm" where
  "exec_cell_level A = st_op (bnd pop_cell (\<lambda>cell. push_int (int (cell_level A cell))))"

definition exec_cell_level_mask :: "('c, 's, 'b) cell_lib \<Rightarrow> ('c, 's, 'b, int) vm" where
  "exec_cell_level_mask L = st_op (bnd pop_cell (\<lambda>cell. push_int (int (cl_level_mask L cell))))"

datatype level_op = LevelHash | LevelDepth

definition exec_cell_level_op_common ::
    "('c, 's, 'b) cell_lib \<Rightarrow> nat \<Rightarrow> level_op \<Rightarrow> (('c, 's, 'b) stk, fault, unit) act" where
  "exec_cell_level_op_common L level op = bnd pop_cell (\<lambda>cell. case op of
      LevelHash \<Rightarrow> push_int (uint (cl_hash L cell level))
    | LevelDepth \<Rightarrow> push_int (int (cl_depth L cell level)))"

definition exec_cell_level_op :: "('c, 's, 'b) cell_lib \<Rightarrow> nat \<Rightarrow> level_op \<Rightarrow> ('c, 's, 'b, int) vm" where
  "exec_cell_level_op L x op = st_op (exec_cell_level_op_common L x op)"

definition exec_cell_level_op_var :: "('c, 's, 'b) cell_lib \<Rightarrow> level_op \<Rightarrow> ('c, 's, 'b, int) vm" where
  "exec_cell_level_op_var L op = st_op (bnd (pop_smallint_range 0 3) (\<lambda>x.
     exec_cell_level_op_common L x op))"

section \<open>Behaviour\<close>

lemma pop_value_simps [simp]:
  "pop_cs (xs @ [VSlice k]) = (Inr k, xs)"
  "pop_builder (xs @ [VBuilder b]) = (Inr b, xs)"
  "pop_cell (xs @ [VCell c]) = (Inr c, xs)"
  by (simp_all add: pop_cs_def pop_builder_def pop_cell_def into_cell_slice_def
      into_cell_builder_def into_cell_def)

lemma pop_under [simp]:
  "pop_int (xs @ [v, VInt x]) = (Inr x, xs @ [v])"
  "pop_builder (xs @ [v, VBuilder b]) = (Inr b, xs @ [v])"
  "pop_cs (xs @ [v, VSlice k]) = (Inr k, xs @ [v])"
  "pop_cell (xs @ [v, VCell c]) = (Inr c, xs @ [v])"
  using pop_int_simps(2)[of "xs @ [v]" x] pop_value_simps[of "xs @ [v]"] by simp_all

lemma pop_smallint_under:
  "int lo \<le> int n \<and> n \<le> hi \<and> n < 2 ^ 32 \<Longrightarrow> pop_smallint_range lo hi (xs @ [VInt (int n)]) = (Inr n, xs)"
  "int lo \<le> int n \<and> n \<le> hi \<and> n < 2 ^ 32 \<Longrightarrow>
     pop_smallint_range lo hi (xs @ [v, VInt (int n)]) = (Inr n, xs @ [v])"
  using pop_smallint_range_int[of lo hi xs "int n"] pop_smallint_range_int[of lo hi "xs @ [v]" "int n"]
  by (simp_all add: zless_nat_eq_int_zless[symmetric])

text \<open>
  The outcome of storing an integer, for every mode: no room, an integer that does not fit, and
  the store itself. A quiet failure leaves the operands in the opposite order.
\<close>

definition store_operands :: "nat \<Rightarrow> int \<Rightarrow> 'b \<Rightarrow> ('c, 's, 'b) stk" where
  "store_operands args x b = (if bit args 1 then [VBuilder b, VInt x] else [VInt x, VBuilder b])"

lemma store_int_common_eq:
  assumes "length xs + 3 \<le> MAX_DEPTH" and "bitsize A x True \<le> 257"
  shows "exec_store_int_common A L n args (xs @ store_operands args x b) =
    (if \<not> b_has_capacity L b n 0 then
       if bit args 2 then (Inr (), xs @ rev (store_operands args x b) @ [VInt (-1)])
       else (Inl (VmErr (CellError ECellOverflow)), xs)
     else if n < bitsize A x (\<not> bit args 0) then
       if bit args 2 then (Inr (), xs @ rev (store_operands args x b) @ [VInt 1])
       else (Inl (VmErr (IntegerOutOfRange 0 (int n) (int (bitsize A x (\<not> bit args 0))))), xs)
     else case store_int_value L b x n (\<not> bit args 0) of
       Inl e \<Rightarrow> (Inl (cell_fault e), xs)
     | Inr b' \<Rightarrow> (Inr (), xs @ VBuilder b' # (if bit args 2 then [VInt 0] else [])))"
proof -
  have "bnd (if \<not> bit args 1 then bnd pop_builder (\<lambda>b. bnd pop_int (\<lambda>x. ret (b, x)))
          else bnd pop_int (\<lambda>x. bnd pop_builder (\<lambda>b. ret (b, x)))) f (xs @ store_operands args x b)
        = f (b, x) xs" for f :: "'c \<times> int \<Rightarrow> ('a, 'b, 'c) stk \<Rightarrow> (fault + unit) \<times> ('a, 'b, 'c) stk"
    by (simp add: store_operands_def)
  moreover have "finish_store_fail A b x i args xs = (Inr (), xs @ rev (store_operands args x b) @ [VInt i])" for i
    using assms by (simp add: finish_store_fail_def store_operands_def push_raw_int_def push_int_def depth_def)
  moreover have "finish_store_ok b' q xs = (Inr (), xs @ VBuilder b' # (if q then [VInt 0] else []))" for b' :: 'c and q
    using assms by (simp add: finish_store_ok_def push_bool_def make_bool_def depth_def)
  ultimately show ?thesis
    unfolding exec_store_int_common_def by (simp add: lift_res_def split: sum.splits)
qed

section \<open>The invariant\<close>

lemma calm_lift_cell [calm_rules]: "calm (lift_res cell_fault r)"
  by (auto simp: calm_iff lift_res_def cell_fault_def split: sum.splits)

lemma calm_finish [calm_rules]:
  "calm (finish_store_overflow v w q)" "calm (finish_store_ok b q)" "calm (finish_store_fail A b x i n)"
  "calm (finish_check fits q)" "calm (finish_load_fail cs pre q)" "calm (finish_load_ok cs pre q)"
  unfolding finish_store_overflow_def finish_store_ok_def finish_store_fail_def finish_check_def
    finish_load_fail_def finish_load_ok_def
  by (intro calm_rules)+

lemma calm_pop_modes [calm_rules]: "calm (pop_bits_refs mode n)" "calm (pop_same_value v)"
  unfolding pop_same_value_def pop_bits_refs_def
  by (cases mode; simp only: check_mode.case; intro calm_rules) (intro calm_rules)

lemma calm_level_op [calm_rules]: "calm (exec_cell_level_op_common L n op)"
  unfolding exec_cell_level_op_common_def
  by (cases op; simp only: level_op.case; intro calm_rules)

lemma calm_common [calm_rules]:
  "calm (exec_store_int_common A L n args)" "calm (exec_load_int_common A n args)"
  "calm (exec_load_slice_common A L n args)" "calm (exec_slice_begins_with_common L p q)"
  "calm (preload_reference A n)"
  unfolding exec_store_int_common_def exec_load_int_common_def exec_load_slice_common_def
    exec_slice_begins_with_common_def preload_reference_def
  by (intro calm_rules)+

lemma build_ext_metered [safe_rules]: "upholds meter_inv meter_err (build_ext L b)"
  unfolding build_ext_def finalize_cell_def BUILD_CELL_GAS_def by (intro metered_rules; simp)

lemma special_metered [safe_rules]:
  "upholds meter_inv meter_err (set_missing_library h)"
  "upholds meter_inv meter_err (load_cell_impl A mode c)"
  unfolding set_missing_library_def load_cell_impl_def by (intro metered_rules load_loop_metered; simp)+

lemma safe_take_slice [safe_rules]:
  "safe (take_code_slice A L b d r)" "safe (take_tagged_slice A L b d r)"
  unfolding take_tagged_slice_def take_code_slice_def by (intro safe_rules)+

lemma safe_push_ref [safe_rules]: "safe (exec_push_ref_common A b mode)"
  unfolding exec_push_ref_common_def
  by (cases mode; simp only: push_ref_mode.case; intro safe_rules calm_rules)

lemma safe_load_special [safe_rules]: "safe (load_special A L c)"
proof -
  have "safe (case found of Inr (Some lib) \<Rightarrow> ret (Inr lib)
      | Inr None \<Rightarrow> thn (on_gas (set_missing_library h)) (ret (Inl ECellUnderflow))
      | Inl e \<Rightarrow> ret (Inl e))" for found :: "cell_error + 'a option" and h
    by (cases found; simp only: sum.case; intro safe_rules)
  then show ?thesis unfolding load_special_def by (intro safe_rules)
qed

lemmas cellops_defs = exec_push_ref_def exec_push_ref_slice_def exec_push_ref_cont_def exec_push_slice_common_def
  exec_push_slice_def exec_push_slice_r_def exec_push_slice_r2_def exec_push_cont_def
  exec_push_cont_simple_def exec_slice_bool_unary_op_def exec_slice_lex_cmp_def
  exec_slice_bin_op_def exec_slice_int_unary_op_def exec_new_builder_def
  exec_builder_to_cell_def exec_store_int_def exec_store_ref_def
  exec_store_builder_as_ref_rev_def exec_store_slice_def exec_store_int_var_def
  exec_store_int_fixed_def exec_store_builder_as_ref_def exec_store_builder_def
  exec_store_ref_rev_def exec_store_slice_rev_def exec_store_builder_rev_def
  exec_store_const_ref_def exec_store_le_int_def exec_builder_to_special_cell_def
  exec_builder_depth_def exec_builder_bits_def exec_builder_refs_def
  exec_builder_bits_refs_def exec_builder_rem_bits_def exec_builder_rem_refs_def
  exec_builder_rem_bits_refs_def exec_builder_chk_bits_def exec_builder_chk_bits_refs_def
  exec_store_same_def exec_store_const_slice_def exec_cell_to_slice_def
  exec_slice_chk_empty_def exec_load_int_fixed_def exec_load_ref_def
  exec_load_ref_rev_to_slice_def exec_load_slice_fixed_def exec_load_int_var_def
  exec_load_int_fixed2_def exec_preload_uint_fixed_0e_def exec_load_slice_def
  exec_load_slice_fixed2_def exec_slice_range_op_def exec_slice_substr_def
  exec_slice_begins_with_def exec_slice_begins_with_const_def exec_slice_full_range_op_def
  exec_subslice_def exec_split_def exec_cell_to_slice_maybe_special_def
  exec_load_special_cell_def exec_check_slice_def exec_preload_ref_def
  exec_slice_bits_refs_def exec_preload_ref_fixed_def exec_load_le_int_def exec_load_same_def
  exec_slice_depth_def exec_cell_depth_def exec_cell_level_def exec_cell_level_mask_def
  exec_cell_level_op_def exec_cell_level_op_var_def push_code_cont_def

lemma cellops_safe:
  "safe (exec_push_ref A args bits)" "safe (exec_push_ref_slice A args bits)"
  "safe (exec_push_ref_cont A args bits)" "safe (exec_push_slice_common A L bits data_bits refs)"
  "safe (exec_push_slice A L args bits)" "safe (exec_push_slice_r A L args bits)"
  "safe (exec_push_slice_r2 A L args bits)" "safe (exec_push_cont A L args bits)"
  "safe (exec_push_cont_simple A L args bits)" "safe (exec_slice_bool_unary_op A L ub)"
  "safe (exec_slice_lex_cmp L)" "safe (exec_slice_bin_op A L bo)"
  "safe (exec_slice_int_unary_op L iu)" "safe (exec_new_builder L)"
  "safe (exec_builder_to_cell L)" "safe (exec_store_int A L x sgnd)"
  "safe (exec_store_ref L quiet)" "safe (exec_store_builder_as_ref_rev L quiet)"
  "safe (exec_store_slice A L quiet)" "safe (exec_store_int_var A L s)"
  "safe (exec_store_int_fixed A L s n)" "safe (exec_store_builder_as_ref L quiet)"
  "safe (exec_store_builder L quiet)" "safe (exec_store_ref_rev L quiet)"
  "safe (exec_store_slice_rev A L quiet)" "safe (exec_store_builder_rev L quiet)"
  "safe (exec_store_le_int L s)" "safe (exec_builder_to_special_cell L)"
  "safe (exec_builder_depth A L)" "safe (exec_builder_bits L)" "safe (exec_builder_refs L)"
  "safe (exec_builder_bits_refs L)" "safe (exec_builder_rem_bits L)"
  "safe (exec_builder_rem_refs L)" "safe (exec_builder_rem_bits_refs L)"
  unfolding cellops_defs by (intro safe_rules calm_rules)+

lemma cellops_safe2:
  "safe (exec_builder_chk_bits L x quiet)" "safe (exec_builder_chk_bits_refs L mode quiet)"
  "safe (exec_store_same L v)" "safe (exec_store_const_slice A L args bits)"
  "safe (exec_cell_to_slice A)" "safe (exec_slice_chk_empty A)"
  "safe (exec_load_int_fixed A x sgnd)" "safe (exec_load_ref A L)"
  "safe (exec_load_ref_rev_to_slice A L)" "safe (exec_load_slice_fixed A L x)"
  "safe (exec_load_int_var A s)" "safe (exec_load_int_fixed2 A s n)"
  "safe (exec_preload_uint_fixed_0e A L x)" "safe (exec_load_slice A L s)"
  "safe (exec_load_slice_fixed2 A L s n)" "safe (exec_slice_range_op A L ro)"
  "safe (exec_slice_substr A L)" "safe (exec_slice_begins_with L quiet)"
  "safe (exec_slice_begins_with_const A L args bits)" "safe (exec_slice_full_range_op A L ro)"
  "safe (exec_subslice A L)" "safe (exec_split A L quiet)"
  "safe (exec_cell_to_slice_maybe_special A L)" "safe (exec_check_slice A mode quiet)"
  "safe (exec_preload_ref A)" "safe (exec_slice_bits_refs A mode)"
  "safe (exec_preload_ref_fixed A x)" "safe (exec_load_le_int A L s)"
  "safe (exec_load_same A L v)" "safe (exec_slice_depth A L)" "safe (exec_cell_depth A L)"
  "safe (exec_cell_level A)" "safe (exec_cell_level_mask L)" "safe (exec_cell_level_op L x lo)"
  "safe (exec_cell_level_op_var L lo)"
  unfolding cellops_defs Let_def by (intro safe_rules calm_rules)+

lemma cellops_safe3: "safe (exec_load_special_cell A L quiet)" "safe (exec_store_const_ref A L args bits)"
proof -
  have "safe (case r of Inl e \<Rightarrow> if quiet then st_op (push_bool False) else vm_fail (CellError e)
      | Inr c \<Rightarrow> st_op (thn (push_raw (VCell c)) (if quiet then push_bool True else ret ())))"
    for r :: "cell_error + 'a"
    by (cases r; simp only: sum.case; intro safe_rules calm_rules)
  then show "safe (exec_load_special_cell A L quiet)"
    unfolding exec_load_special_cell_def by (intro safe_rules calm_rules)
  show "safe (exec_store_const_ref A L args bits)"
    unfolding exec_store_const_ref_def Let_def by (intro safe_rules calm_rules safe_modify) simp
qed

end
