(* ===== verification/Run.thy ===== *)
theory Run
  imports Safety
begin

text \<open>
  The interpreter loop (\<open>run\<close>, \<open>run_inner\<close>, \<open>restore_parent\<close> of \<open>vm/src/state.rs\<close>) over any code
  page that keeps its contract: a dispatched instruction charges at least the price of an
  implicit return and keeps the invariant. Under that contract the loop ends within a number of
  turns given by the gas budget, nested VMs included, and it never panics.
\<close>

section \<open>The contract of a code page\<close>

text \<open>
  A few instructions turn the error of an exhausted meter into an ordinary result. They leave a
  \<open>dead\<close> state, in which every further charge fails, so the run ends with its next turn.
\<close>

definition dead :: "int \<Rightarrow> ('c, 's, 'b) vm_state \<Rightarrow> bool" where
  "dead f st \<longleftrightarrow> halted f st \<and> gas_remaining (gas st) < 0"

definition fails_well :: "int \<Rightarrow> fault \<Rightarrow> ('c, 's, 'b) vm_state \<Rightarrow> bool" where
  "fails_well f e st \<longleftrightarrow> bad f e st \<or> e \<noteq> Panic \<and> dead f st"

definition lenient :: "('c, 's, 'b, 'a) vm \<Rightarrow> bool" where
  "lenient m \<longleftrightarrow> (\<forall>f. hoare (good f) m (\<lambda>_ st. good f st \<or> dead f st) (fails_well f))"

definition charged :: "int \<Rightarrow> int \<Rightarrow> ('c, 's, 'b) vm_state \<Rightarrow> bool" where
  "charged a f st \<longleftrightarrow> a \<le> f \<and> good (f - a) st \<or> dead f st"

definition charges :: "int \<Rightarrow> ('c, 's, 'b, 'a) vm \<Rightarrow> bool" where
  "charges a m \<longleftrightarrow> (\<forall>f. hoare (good f) m (\<lambda>_. charged a f) (fails_well f))"

lemma safe_fails_well: "safe m \<Longrightarrow> hoare (good f) m (\<lambda>_. good f) (fails_well f)"
  unfolding upholds_def by (rule hoare_conseq[of "good f" m "\<lambda>_. good f" "bad f"]) (auto simp: fails_well_def)

lemma safe_lenient: "safe m \<Longrightarrow> lenient m"
  unfolding lenient_def by (blast intro: hoare_conseq[OF safe_fails_well])

lemma lenient_after: "safe m \<Longrightarrow> (\<And>x. lenient (g x)) \<Longrightarrow> lenient (bnd m g)"
  unfolding lenient_def by (blast intro: hoare_bnd[OF safe_fails_well])

lemma lenient_thn: "safe m \<Longrightarrow> lenient n \<Longrightarrow> lenient (thn m n)"
  unfolding thn_def by (blast intro: lenient_after)

lemma lenient_if: "(b \<Longrightarrow> lenient m) \<Longrightarrow> (\<not> b \<Longrightarrow> lenient n) \<Longrightarrow> lenient (if b then m else n)"
  by simp

lemma dead_mono: "dead f st \<Longrightarrow> f \<le> f' \<Longrightarrow> dead f' st"
  by (auto simp: dead_def elim: halted_mono)

lemma charges_first:
  assumes "0 \<le> a" "a \<le> b" "b \<le> i64_max" and m: "lenient m"
  shows "charges a (thn (on_gas (try_consume b)) m)"
  unfolding charges_def
proof
  fix f
  have low: "good (f - b) st \<Longrightarrow> good f st" "good (f - b) st \<Longrightarrow> good (f - a) st"
    "dead (f - b) st \<Longrightarrow> dead f st" "fails_well (f - b) e st \<Longrightarrow> fails_well f e st" for e and st :: "('a, 'b, 'c) vm_state"
    using assms(1,2) good_mono[of "f - b" st f] good_mono[of "f - b" st "f - a"] dead_mono[of "f - b" st f]
      bad_mono[of "f - b" e st f] by (auto simp: fails_well_def)
  have c: "hoare (good f) (on_gas (try_consume b)) (\<lambda>_ st. good (f - b) st \<and> b \<le> f) (fails_well f)"
    by (rule hoare_conseq[OF charge_good[of b f]]) (use assms in \<open>auto simp: fails_well_def intro: only_oog_bad\<close>)
  have n: "hoare (\<lambda>st. good (f - b) st \<and> b \<le> f) m (\<lambda>_. charged a f) (fails_well f)"
    by (rule hoare_conseq[OF hoare_fact[OF m[unfolded lenient_def, rule_format, of "f - b"], where C = "b \<le> f"]])
      (use assms low in \<open>auto simp: charged_def\<close>)
  show "hoare (good f) (thn (on_gas (try_consume b)) m) (\<lambda>_. charged a f) (fails_well f)"
    by (rule hoare_thn[OF c n])
qed

lemma charges_after:
  assumes "safe m" and "\<And>x. charges a (g x)"
  shows "charges a (bnd m g)"
  using assms unfolding charges_def by (blast intro: hoare_bnd[OF safe_fails_well])

lemma charges_if: "charges a m \<Longrightarrow> charges a n \<Longrightarrow> charges a (if b then m else n)"
  by simp

lemma charges_InrD: "charges a m \<Longrightarrow> good f st \<Longrightarrow> m st = (Inr x, t) \<Longrightarrow> charged a f t"
  unfolding charges_def by (blast dest: hoare_InrD)

lemma charges_InlD: "charges a m \<Longrightarrow> good f st \<Longrightarrow> m st = (Inl e, t) \<Longrightarrow> fails_well f e t"
  unfolding charges_def by (blast dest: hoare_InlD)

lemma charged_halted: "0 \<le> a \<Longrightarrow> charged a f st \<Longrightarrow> halted f st"
  using good_mono[of "f - a" st f] good_halted[of f st] by (auto simp: charged_def dead_def)

text \<open>In a dead state a charge fails, and leaves the meters of the parents as they are.\<close>

lemma dead_update [simp]:
  "dead f (st\<lparr>code := k\<rparr>) = dead f st" "dead f (st\<lparr>stack := s\<rparr>) = dead f st"
  "dead f (st\<lparr>steps := n\<rparr>) = dead f st"
  by (simp_all add: dead_def halted_def parent_meters_def parents_ok_def)

lemma dead_charge:
  assumes "dead f st" and "0 \<le> a"
  obtains g where "on_gas (try_consume a) st = (Inl (cell_fault ECancelled), st\<lparr>gas := g\<rparr>)"
    and "halted f (st\<lparr>gas := g\<rparr>)"
proof -
  have h: "gas_wf (gas st)" "chained f (gas st) (parent_meters st)" "parents_ok st" "gas_remaining (gas st) < 0"
    using assms(1) by (auto simp: dead_def halted_def)
  obtain r g where t: "try_consume a (gas st) = (r, g)" by fastforce
  have r: "r = Inl ECancelled"
    using t h(4) truncate_gas_bounds[OF assms(2)]
    by (auto simp: try_consume_def Let_def saturating_sub_i64_def machine_bounds split: if_splits)
  have "gas_wf g \<and> chained f g (parent_meters st)"
    using exhausted_charge[OF h(1,2) assms(2)] t r by blast
  then show ?thesis
    using that[of g] t r h(3) by (simp add: on_gas_eq halted_def parent_meters_def parents_ok_def)
qed

lemma dead_charged_first:
  assumes "dead f st" and "0 \<le> a" and "thn (on_gas (try_consume a)) m st = (r, t)"
  shows "r = Inl (cell_fault ECancelled) \<and> halted f t"
  using assms by (rule_tac dead_charge[OF assms(1,2)]) auto

locale dispatcher =
  fixes A :: "('c, 's) api" and D :: "('c, 's, 'b, int) vm"
  assumes D_charges: "charges 5 D"
    and D_dead: "dead f st \<Longrightarrow> D st = (r, t) \<Longrightarrow> r = Inl (cell_fault ECancelled) \<and> halted f t"
begin

lemma step_charges: "charges 5 (step A D)"
proof -
  have imp_ret: "charges 5 (thn (on_gas try_consume_implicit_ret_gas) vm_ret :: ('c, 's, 'b, int) vm)"
    unfolding try_consume_implicit_ret_gas_def
    by (rule charges_first) (auto simp: gas_prices machine_bounds intro: safe_rules safe_lenient)
  have tail: "safe (bnd (on_gas (load_cell_as_slice A c LoadFull)) (\<lambda>k'.
      bnd (gets cp) (\<lambda>p. vm_jump (ord_simple k' p))) :: ('c, 's, 'b, int) vm)" for c
    by (intro safe_rules)
  have imp_jmp: "charges 5 (thn (on_gas try_consume_implicit_jmpref_gas)
      (bnd (on_gas (load_cell_as_slice A c LoadFull)) (\<lambda>k'.
       bnd (gets cp) (\<lambda>p. vm_jump (ord_simple k' p)))) :: ('c, 's, 'b, int) vm)" for c
    unfolding try_consume_implicit_jmpref_gas_def
    by (rule charges_first[OF _ _ _ safe_lenient[OF tail]]) (auto simp: gas_prices machine_bounds)
  have bump: "safe (modify bump_steps :: ('c, 's, 'b, unit) vm)"
    by (rule safe_modify) (simp add: bump_steps_def)
  show ?thesis
    unfolding step_def thn_def[of "modify bump_steps"]
    by (intro charges_after[OF bump] charges_after[OF vm.upholds_gets] charges_if D_charges imp_ret
        charges_after[OF safe_lift(2)] imp_jmp)
qed

lemma turn_after_dead:
  assumes "if is_out_of_gas e then halted f s1 else dead f s1"
    and "turn_of_step A (Inl (VmErr e), s1) = (t, st')"
  shows "t \<noteq> Panicked \<and> t \<noteq> Res 0 \<and> halted f st'"
proof (cases "is_out_of_gas e")
  case True
  then show ?thesis using assms by (auto simp: turn_of_step_def throw_out_of_gas_def bump_steps_def)
next
  case False
  let ?n = "exception_code (as_exception e)"
  let ?s = "(bump_steps s1)\<lparr>stack := [VInt 0, VInt ?n], code := slice_default A\<rparr>"
  have d: "dead f ?s" using assms(1) False by (simp add: bump_steps_def)
  obtain r2 s2 where t2: "throw_exception A ?n (bump_steps s1) = (r2, s2)" by fastforce
  have "r2 = Inl (cell_fault ECancelled) \<and> halted f s2"
    using t2 by (intro dead_charged_first[OF d])
      (auto simp: throw_exception_def throw_with_def try_consume_exception_gas_def gas_prices)
  then show ?thesis using assms(2) False t2
    by (auto simp: turn_of_step_def throw_out_of_gas_def bump_steps_def cell_fault_def)
qed

lemma run_turn_outcome:
  assumes "good f st" and "run_turn A D st = (t, st')"
  shows "t \<noteq> Panicked" and "halted f st'" and "t = Res 0 \<Longrightarrow> charged 5 f st'"
proof -
  obtain r s1 where s: "step A D st = (r, s1)" by fastforce
  have "t \<noteq> Panicked \<and> halted f st' \<and> (t = Res 0 \<longrightarrow> charged 5 f st')"
  proof (cases r)
    case (Inr x)
    have "charged 5 f s1" using charges_InrD[OF step_charges assms(1)] s Inr by simp
    moreover have "t = Res x" "st' = s1" using assms(2) s Inr by (auto simp: run_turn_def turn_of_step_def)
    ultimately show ?thesis using charged_halted[of 5 f s1] by auto
  next
    case (Inl e)
    have w: "fails_well f e s1" using charges_InlD[OF step_charges assms(1)] s Inl by simp
    then obtain v where v: "e = VmErr v" by (cases e) (auto simp: fails_well_def bad_def)
    show ?thesis
    proof (cases "dead f s1")
      case True
      then have "if is_out_of_gas v then halted f s1 else dead f s1" by (simp add: dead_def)
      from turn_after_dead[OF this] show ?thesis using assms(2) s Inl v by (auto simp: run_turn_def)
    next
      case alive: False
      then have b: "bad f e s1" using w by (simp add: fails_well_def)
      show ?thesis
    proof (cases "is_out_of_gas v")
      case True
      then show ?thesis
        using assms(2) s Inl v b
        by (auto simp: run_turn_def turn_of_step_def throw_out_of_gas_def bad_def bump_steps_def)
    next
      case False
      then have g: "good f (bump_steps s1)" using b v by (simp add: bad_def bump_steps_def)
      let ?n = "exception_code (as_exception v)"
      have ch: "charges 5 (throw_exception A ?n :: ('c, 's, 'b, int) vm)"
      proof -
        have "safe (modify (\<lambda>st. st\<lparr>stack := [VInt 0, VInt ?n], code := slice_default A\<rparr>) :: ('c, 's, 'b, unit) vm)"
          by (rule safe_modify) simp
        moreover have "charges 5 (thn (on_gas try_consume_exception_gas)
            (bnd (gets (\<lambda>st. get_c 2 (cr st))) (\<lambda>c2.
             case c2 of Some k \<Rightarrow> vm_jump k | None \<Rightarrow> vm_fail InvalidOpcode)) :: ('c, 's, 'b, int) vm)"
          unfolding try_consume_exception_gas_def
          by (rule charges_first) (auto simp: gas_prices machine_bounds intro!: safe_rules safe_lenient)
        ultimately show ?thesis
          unfolding throw_exception_def throw_with_def thn_def[of "modify _"] by (intro charges_after)
      qed
      obtain r2 s2 where t2: "throw_exception A ?n (bump_steps s1) = (r2, s2)" by fastforce
      show ?thesis
      proof (cases r2)
        case (Inr y)
        then show ?thesis
          using assms(2) s Inl v False t2 charges_InrD[OF ch g] charged_halted[of 5 f s2]
          by (auto simp: run_turn_def turn_of_step_def)
      next
        case (Inl e2)
        have b2: "fails_well f e2 s2" using charges_InlD[OF ch g] t2 Inl by simp
        then obtain v2 where v2: "e2 = VmErr v2" by (cases e2) (auto simp: fails_well_def bad_def)
        then have "halted f s2"
          using b2 good_halted by (auto simp: fails_well_def bad_def dead_def split: if_splits)
        then show ?thesis
          using assms(2) s \<open>r = Inl e\<close> v False t2 Inl v2
          by (auto simp: run_turn_def turn_of_step_def throw_out_of_gas_def bump_steps_def split: if_splits)
      qed
    qed
    qed
  qed
  then show "t \<noteq> Panicked" "halted f st'" "t = Res 0 \<Longrightarrow> charged 5 f st'" by auto
qed

text \<open>A turn in a dead state is the last one.\<close>

lemma step_dead:
  assumes "dead f st" and "step A D st = (r, t)"
  shows "(\<exists>e. r = Inl (VmErr e) \<and> (if is_out_of_gas e then halted f t else dead f t))"
proof -
  let ?st = "bump_steps st"
  have d: "dead f ?st" using assms(1) by (simp add: bump_steps_def)
  have out: "r = Inl (cell_fault ECancelled) \<and> halted f t \<Longrightarrow> ?thesis" by (auto simp: cell_fault_def)
  consider (op) "slice_size_bits A (code ?st) \<noteq> 0"
    | (ref) "slice_size_bits A (code ?st) = 0" "slice_size_refs A (code ?st) \<noteq> 0"
    | (finish) "slice_size_bits A (code ?st) = 0" "slice_size_refs A (code ?st) = 0" by blast
  then show ?thesis
  proof cases
    case op
    then show ?thesis using out D_dead[OF d, of r t] assms(2) by (simp add: step_def)
  next
    case finish
    then show ?thesis using out dead_charged_first[OF d, of IMPLICIT_RET_GAS_PRICE vm_ret r t] assms(2)
      by (simp add: step_def try_consume_implicit_ret_gas_def gas_prices)
  next
    case ref
    show ?thesis
    proof (cases "slice_get_reference A (code ?st) 0")
      case (Inl e)
      then show ?thesis using ref assms(2) d by (auto simp: step_def cell_fault_def dead_def)
    next
      case (Inr c)
      then show ?thesis
        using ref assms(2) by (intro out dead_charged_first[OF d, of IMPLICIT_JMPREF_GAS_PRICE])
          (auto simp: step_def try_consume_implicit_jmpref_gas_def gas_prices)
    qed
  qed
qed

lemma run_turn_dead:
  assumes "dead f st" and "run_turn A D st = (t, st')"
  shows "t \<noteq> Panicked \<and> t \<noteq> Res 0 \<and> halted f st'"
proof -
  obtain r s1 where s: "step A D st = (r, s1)" by fastforce
  from step_dead[OF assms(1) s] obtain e where e: "r = Inl (VmErr e)"
    "if is_out_of_gas e then halted f s1 else dead f s1" by blast
  show ?thesis by (rule turn_after_dead[OF e(2)]) (use assms(2) s e(1) in \<open>simp add: run_turn_def\<close>)
qed

lemma finish_run_halted: "halted f st \<Longrightarrow> finish_run A res st = (x, t) \<Longrightarrow> halted f t"
  by (auto simp: finish_run_def try_commit_def halted_def parent_meters_def parents_ok_def
      split: option.splits if_splits)

lemma run_inner_stops:
  assumes "run_turn A D st = (t, st')" and "t \<noteq> Panicked" and "t \<noteq> Res 0" and "halted f st'"
  shows "\<exists>x st2. run_inner A D (Suc n) st = Some (Some x, st2) \<and> halted f st2"
  using assms finish_run_halted[OF assms(4)]
  by (cases t) (auto simp: apfst_def map_prod_def split: prod.splits)

lemma run_inner_returns:
  "good f st \<Longrightarrow> f < 5 * int n \<Longrightarrow>
   \<exists>x st'. run_inner A D (Suc (Suc n)) st = Some (Some x, st') \<and> halted f st'"
proof (induction n arbitrary: f st)
  case (Suc n)
  obtain t st' where r: "run_turn A D st = (t, st')" by fastforce
  note o = run_turn_outcome[OF Suc.prems(1) r]
  show ?case
  proof (cases "t = Res 0")
    case True
    then consider "5 \<le> f" "good (f - 5) st'" | "dead f st'" using o(3) by (auto simp: charged_def)
    then have "\<exists>x st2. run_inner A D (Suc (Suc n)) st' = Some (Some x, st2) \<and> halted f st2"
    proof cases
      case 1
      then show ?thesis using Suc.IH[OF 1(2)] Suc.prems(2) halted_mono[of "f - 5" _ f] by fastforce
    next
      case 2
      then show ?thesis using run_turn_dead[OF 2] run_inner_stops by (metis surj_pair)
    qed
    then show ?thesis using r True by auto
  next
    case False
    then show ?thesis by (rule run_inner_stops[OF r o(1) _ o(2)])
  qed
next
  case 0
  obtain t st' where r: "run_turn A D st = (t, st')" by fastforce
  note o = run_turn_outcome[OF 0(1) r]
  show ?case
  proof (cases "t = Res 0")
    case True
    then have "dead f st'" using o(3) 0(2) by (auto simp: charged_def)
    then have "\<exists>x st2. run_inner A D (Suc 0) st' = Some (Some x, st2) \<and> halted f st2"
      using run_turn_dead run_inner_stops by (metis surj_pair)
    then show ?thesis using r True by auto
  next
    case False
    then show ?thesis by (rule run_inner_stops[OF r o(1) _ o(2)])
  qed
qed

end

section \<open>Returning to a parent\<close>

lemma restore_parent_fields:
  assumes "parents st = p # ps" and "restore_parent res st = (r, st')"
    and "restore (p_gas p) (gas st) = (meta, g)"
    and "try_consume (min (rg_gas_consumed meta) (saturating_add_u64 (rg_gas_limit meta) 1)) g = (r1, g1)"
  shows "parents st' = ps" and "cr st' = p_cr p"
    and "case r1 of
        Inl _ \<Rightarrow> r = Inl () \<and> gas st' = g1
      | Inr _ \<Rightarrow> (\<exists>n r2. try_consume_stack_depth_gas n g1 = (r2, gas st') \<and> (r = Inr () \<longleftrightarrow> r2 = Inr ()))"
proof -
  obtain res' push0 n where v: "returned_values res (p_return_values p) (depth (stack st)) = (res', push0, n)"
    by (metis prod_cases3)
  obtain r2 g2 where t2: "try_consume_stack_depth_gas n g1 = (r2, g2)" by fastforce
  define S where "S = snd (restored p ps st)"
  have R: "restored p ps st = (meta, S)" by (simp add: S_def restored_def assms(3))
  have S: "parents S = ps" "cr S = p_cr p" "gas S = g" by (simp_all add: S_def restored_def assms(3))
  note defs = restore_parent_def assms(1) R Let_def S(3) assms(4) v t2
  have "parents st' = ps \<and> cr st' = p_cr p \<and> (case r1 of
        Inl _ \<Rightarrow> r = Inl () \<and> gas st' = g1
      | Inr _ \<Rightarrow> (\<exists>n r2. try_consume_stack_depth_gas n g1 = (r2, gas st') \<and> (r = Inr () \<longleftrightarrow> r2 = Inr ())))"
  proof (cases r1)
    case (Inl e)
    then have "r = Inl ()" "st' = S\<lparr>gas := g1\<rparr>" using assms(2) by (simp_all add: defs)
    then show ?thesis using Inl S by simp
  next
    case (Inr u)
    have "parents st' = parents S \<and> cr st' = cr S \<and> gas st' = g2 \<and> (r = Inr () \<longleftrightarrow> r2 = Inr ())"
    proof (cases r2)
      case Inl
      then show ?thesis using assms(2) \<open>r1 = Inr u\<close> by (auto simp: defs)
    next
      case (Inr w)
      then show ?thesis using assms(2) \<open>r1 = Inr u\<close> by (auto simp: defs)
    qed
    then show ?thesis using Inr S t2 by auto
  qed
  then show "parents st' = ps" "cr st' = p_cr p"
    "case r1 of
        Inl _ \<Rightarrow> r = Inl () \<and> gas st' = g1
      | Inr _ \<Rightarrow> (\<exists>n r2. try_consume_stack_depth_gas n g1 = (r2, gas st') \<and> (r = Inr () \<longleftrightarrow> r2 = Inr ()))"
    by auto
qed

lemma restore_parent_outcome:
  assumes h: "halted f st" and ps: "parents st = p # ps" and run: "restore_parent res st = (r, st')"
  shows "parents st' = ps" and "r = Inr u \<Longrightarrow> good (f - 1) st'" and "halted (f - 1) st'"
proof -
  obtain meta g where g: "restore (p_gas p) (gas st) = (meta, g)" by fastforce
  let ?ms = "map (meter \<circ> p_gas) ps"
  let ?c = "charge_of (gas st)"
  have ch: "gas_wf (gas st)" "chained f (gas st) (meter (p_gas p) # ?ms)"
    using h ps by (auto simp: halted_def parent_meters_def)
  note R = restore_chained[OF ch g]
  obtain r1 g1 where t1: "try_consume ?c g = (r1, g1)" by fastforce
  note F = restore_parent_fields[OF ps run g t1[folded R(2)]]
  have l: "live (f - 2 + ?c) g" "chained (f - 2 + ?c) g ?ms" using R(1) by (auto simp: meter_inv_def)
  have same: "gas_remaining g = gas_remaining (meter (p_gas p))"
    using g by (cases "p_gas p") (auto simp: restore_def Let_def)
  have c: "0 \<le> ?c" "?c \<le> i64_max" "truncate_gas ?c = ?c" "?c \<le> gas_limit (gas st) + 1"
    using ch(1) by (auto simp: charge_of_def consumed_spent saturating_add_u64_def gas_wf_def spent_def
        machine_bounds truncate_gas_def min_def)
  have rem: "0 \<le> gas_remaining g" "?c \<le> gas_remaining g + 1"
    using ch same c(4) by (auto simp: gas_wf_def)
  have pm: "parent_meters st' = ?ms" and po: "parents_ok st'" "regs_ok (cr st')"
    using F(1,2) h ps by (auto simp: parent_meters_def parents_ok_def halted_def)
  show "parents st' = ps" by (rule F(1))
  have "(r = Inr u \<longrightarrow> good (f - 1) st') \<and> halted (f - 1) st'"
  proof (cases r1)
    case (Inl e)
    then show ?thesis
      using return_charge_dead[OF l rem(1) c(1) rem(2) c(2)] t1 F(3) pm po
      by (auto simp: halted_def)
  next
    case (Inr v)
    then have "meter_inv (f - 2, ?ms) g1"
      using t1 try_consume_live(1)[OF l(1) c(1)] try_consume_chained[OF l c(1)] c(3)
      by (simp add: meter_inv_def)
    then have i: "meter_inv (f - 1, ?ms) g1"
      using live_mono[of "f - 2" g1 "f - 1"] chained_mono[of "f - 2" g1 ?ms "f - 1"]
      by (auto simp: meter_inv_def)
    obtain n r2 where d: "try_consume_stack_depth_gas n g1 = (r2, gas st')" "r = Inr () \<longleftrightarrow> r2 = Inr ()"
      using F(3) Inr by auto
    show ?thesis
    proof (cases r2)
      case Inl
      then have "meter_err (f - 1, ?ms) (projl r2) (gas st')"
        using upholds_InlD[OF stack_gas_metered(2) i] d(1) by simp
      then show ?thesis using Inl d(2) pm po
        by (auto simp: meter_err_def halted_def live_def split: if_splits)
    next
      case (Inr w)
      then have "meter_inv (f - 1, ?ms) (gas st')"
        using upholds_InrD[OF stack_gas_metered(2) i] d(1) by simp
      then have "good (f - 1) st'" using pm po by (simp add: good_def)
      then show ?thesis using good_halted by blast
    qed
  qed
  then show "r = Inr u \<Longrightarrow> good (f - 1) st'" "halted (f - 1) st'" by auto
qed

section \<open>The whole run\<close>

context dispatcher
begin

lemma run_loop_returns:
  "halted f st \<Longrightarrow> parents st \<noteq> [] \<Longrightarrow> f < int n \<Longrightarrow> f < 5 * int fuel \<Longrightarrow>
   \<exists>x st'. run_loop A D (Suc (Suc fuel)) n res st = Some (Some x, st')"
proof (induction n arbitrary: f st res)
  case 0
  then obtain p ps where "parents st = p # ps" by (cases "parents st") auto
  then have "0 \<le> f"
    using 0(1) chained_nonneg[of f "gas st" "meter (p_gas p)" "map (meter \<circ> p_gas) ps"]
    by (simp add: halted_def parent_meters_def)
  then show ?case using 0 by simp
next
  case (Suc n)
  then obtain p ps where ps: "parents st = p # ps" by (cases "parents st") auto
  obtain r st1 where r: "restore_parent (not_i32 res) st = (r, st1)" by fastforce
  note R = restore_parent_outcome[OF Suc.prems(1) ps r]
  have "\<exists>x st2. (case restore_parent (not_i32 res) st of
              (Inr _, st1) \<Rightarrow> run_inner A D (Suc (Suc fuel)) st1
            | (Inl _, st1) \<Rightarrow> Some (apfst Some (throw_out_of_gas (bump_steps st1)))) = Some (Some x, st2)
         \<and> halted (f - 1) st2"
  proof (cases r)
    case (Inl e)
    then show ?thesis using r R(3) by (simp add: throw_out_of_gas_def bump_steps_def)
  next
    case (Inr u)
    then show ?thesis using r run_inner_returns[OF R(2)] Suc.prems(4) by auto
  qed
  then obtain x st2 where x: "(case restore_parent (not_i32 res) st of
              (Inr _, st1) \<Rightarrow> run_inner A D (Suc (Suc fuel)) st1
            | (Inl _, st1) \<Rightarrow> Some (apfst Some (throw_out_of_gas (bump_steps st1)))) = Some (Some x, st2)"
    and h: "halted (f - 1) st2" by blast
  show ?case
  proof (cases "parents st2 = []")
    case True
    then show ?thesis using x by simp
  next
    case False
    then show ?thesis using Suc.IH[OF h False] Suc.prems(3,4) x by auto
  qed
qed

theorem vm_run_returns:
  assumes "good f st" and "parents st = []" and "f < int n"
  shows "\<exists>x st'. vm_run A D (Suc (Suc n)) st = Some (Some x, st')"
proof (cases "throw_on_code_access st")
  case False
  have "0 \<le> f \<or> f < 0" by linarith
  then have b: "f < 5 * int n" using assms(3) by linarith
  obtain x st1 where i: "run_inner A D (Suc (Suc n)) st = Some (Some x, st1)" and h: "halted f st1"
    using run_inner_returns[OF assms(1) b] by auto
  have r: "restore_parent (not_i32 0) st = (Inr (), st)" using assms(2) by (simp add: restore_parent_def)
  show ?thesis
  proof (cases "parents st1 = []")
    case True
    then show ?thesis using False i r by (simp add: vm_run_def)
  next
    case False': False
    obtain y st2 where "run_loop A D (Suc (Suc n)) (Suc n) x st1 = Some (Some y, st2)"
      using run_loop_returns[OF h False' _ b, of "Suc n" x] assms(3) by auto
    then show ?thesis using False False' i r by (simp add: vm_run_def)
  qed
qed (simp add: vm_run_def)

end

end
