(* ===== verification/ExecTypes.thy ===== *)
theory ExecTypes
  imports Machine CellLib
begin

text \<open>
  The data of the transaction executor (\<open>executor/src/lib.rs\<close>, \<open>config.rs\<close>, \<open>error.rs\<close>) and the part of
  \<open>util.rs\<close> that works on addresses and prices. Accounts, messages and configuration parameters
  are models of \<open>everscale_types\<close>: their fields are those the code reads and writes, a dictionary is
  its root cell, and what the code asks of them beyond that are the fields of the record \<open>exec_lib\<close>.
\<close>

section \<open>Amounts\<close>

text \<open>\<open>Tokens\<close>: an unsigned amount up to \<open>Tokens::MAX\<close>. \<open>CurrencyCollection\<close>: tokens and extra currencies.\<close>

record 'c currency =
  tokens :: nat
  other :: "'c option"

definition cc_zero :: "'c currency" where "cc_zero = \<lparr>tokens = 0, other = None\<rparr>"

definition cc_is_zero :: "'c currency \<Rightarrow> bool" where
  "cc_is_zero c \<longleftrightarrow> tokens c = 0 \<and> other c = None"

section \<open>Addresses\<close>

type_synonym anycast = "nat \<times> nat"

record std_addr =
  sa_anycast :: "anycast option"
  sa_workchain :: int
  sa_address :: hash

record var_addr =
  va_anycast :: "anycast option"
  va_address_len :: nat
  va_workchain :: int
  va_address :: "nat list"

datatype int_addr = AddrStd std_addr | AddrVar var_addr

definition is_masterchain :: "std_addr \<Rightarrow> bool" where
  "is_masterchain a \<longleftrightarrow> sa_workchain a = -1"

definition addr_is_masterchain :: "int_addr \<Rightarrow> bool" where
  "addr_is_masterchain a = (case a of AddrStd s \<Rightarrow> is_masterchain s | AddrVar v \<Rightarrow> va_workchain v = -1)"

datatype workchain_format = Basic | Extended "nat \<Rightarrow> bool"

record workchain_description =
  accept_msgs :: bool
  wc_format :: workchain_format

section \<open>Accounts and messages\<close>

record 'c state_init =
  si_split_depth :: "nat option"
  si_special :: "(bool \<times> bool) option"
  si_code :: "'c option"
  si_data :: "'c option"
  si_libraries :: "'c option"

definition state_init_default :: "'c state_init" where
  "state_init_default = \<lparr>si_split_depth = None, si_special = None, si_code = None, si_data = None,
     si_libraries = None\<rparr>"

datatype 'c account_state = AccUninit | AccActive "'c state_init" | AccFrozen hash

datatype account_status = StUninit | StFrozen | StActive | StNotExists

fun account_status_of :: "'c account_state \<Rightarrow> account_status" where
  "account_status_of AccUninit = StUninit"
| "account_status_of (AccActive _) = StActive"
| "account_status_of (AccFrozen _) = StFrozen"

record storage_used =
  used_cells :: nat
  used_bits :: nat
  used_public_cells :: nat

record storage_info =
  used :: storage_used
  last_paid :: nat
  due_payment :: "nat option"

record 'c account =
  acc_address :: int_addr
  acc_storage_stat :: storage_info
  acc_last_trans_lt :: nat
  acc_balance :: "'c currency"
  acc_state :: "'c account_state"

record 'c int_msg_info =
  ihr_disabled :: bool
  bounce :: bool
  bounced :: bool
  msg_src :: int_addr
  msg_dst :: int_addr
  msg_value :: "'c currency"
  ihr_fee :: nat
  fwd_fee :: nat
  created_lt :: nat
  created_at :: nat

datatype 'c msg_info = MsgInt "'c int_msg_info" | MsgExtIn int_addr | MsgExtOut

section \<open>Output actions\<close>

text \<open>
  The bit flags of an action's mode, one field each; \<open>*_unknown\<close> says that a bit without a name is
  set, which \<open>mode.bits() & !MASK != 0\<close> tests.
\<close>

record send_mode =
  pay_fee_separately :: bool
  send_ignore_error :: bool
  send_bounce_on_error :: bool
  delete_if_empty :: bool
  with_remaining_balance :: bool
  all_balance :: bool
  send_unknown :: bool

record reserve_mode =
  all_but :: bool
  reserve_ignore_error :: bool
  with_original_balance :: bool
  reverse :: bool
  reserve_bounce_on_error :: bool
  reserve_unknown :: bool

record library_mode =
  add_private :: bool
  add_public :: bool
  library_bounce_on_error :: bool

datatype 'c lib_ref = LibCell 'c | LibHash hash

datatype 'c out_action =
    SendMsg send_mode 'c
  | SetCode 'c
  | ReserveCurrency reserve_mode "'c currency"
  | ChangeLibrary library_mode "'c lib_ref"

text \<open>\<open>RelaxedMsgInfo\<close>: a message whose source may be missing. \<open>ri_*\<close> internal, \<open>re_*\<close> external outbound.\<close>

record 'c relaxed_int_info =
  ri_ihr_disabled :: bool
  ri_bounce :: bool
  ri_bounced :: bool
  ri_src :: "int_addr option"
  ri_dst :: int_addr
  ri_value :: "'c currency"
  ri_ihr_fee :: nat
  ri_fwd_fee :: nat
  ri_created_lt :: nat
  ri_created_at :: nat

record relaxed_ext_info =
  re_src :: "int_addr option"
  re_dst :: "(nat \<times> nat list) option"
  re_created_lt :: nat
  re_created_at :: nat

datatype 'c relaxed_msg_info = RelInt "'c relaxed_int_info" | RelExtOut relaxed_ext_info

section \<open>Configuration\<close>

record gas_limits_prices =
  gas_unit_price :: nat
  prices_gas_limit :: nat
  special_gas_limit :: nat
  prices_gas_credit :: nat
  flat_gas_limit :: nat
  flat_gas_price :: nat
  freeze_due_limit :: nat
  delete_due_limit :: nat

record msg_forward_prices =
  lump_price :: nat
  bit_price :: nat
  cell_price :: nat
  ihr_price_factor :: nat
  first_frac :: nat
  next_frac :: nat

record storage_prices =
  utime_since :: nat
  bit_price_ps :: nat
  cell_price_ps :: nat
  mc_bit_price_ps :: nat
  mc_cell_price_ps :: nat

record size_limits =
  max_msg_bits :: nat
  max_msg_cells :: nat
  max_acc_state_bits :: nat
  max_acc_state_cells :: nat
  max_acc_public_libraries :: nat
  max_library_cells :: nat

text \<open>\<open>UnpackedConfig\<close> of \<open>vm/src/smc_info.rs\<close>: parameters kept as slices and cells for \<open>c7\<close>.\<close>

record ('c, 's) unpacked_config =
  latest_storage_prices :: "'s option"
  raw_global_id :: "'c option"
  raw_mc_gas_prices :: "'c option"
  raw_gas_prices :: "'c option"
  raw_mc_fwd_prices :: "'c option"
  raw_fwd_prices :: "'c option"
  raw_size_limits :: "'c option"

record ('c, 's) parsed_config =
  blackhole_addr :: "hash option"
  mc_gas_prices :: gas_limits_prices
  base_gas_prices :: gas_limits_prices
  mc_fwd_prices :: msg_forward_prices
  base_fwd_prices :: msg_forward_prices
  config_size_limits :: size_limits
  config_storage_prices :: "storage_prices list"
  workchains :: "int \<rightharpoonup> workchain_description"
  special_accounts :: "hash set"
  config_address :: hash
  config_root :: "'c option"
  unpacked :: "('c, 's) unpacked_config"

record 'c executor_params =
  params_libraries :: "'c library_provider"
  rand_seed :: hash
  block_unixtime :: nat
  block_lt :: nat
  vm_modifiers :: behaviour_modifiers
  disable_delete_frozen_accounts :: bool
  charge_action_fees_on_fail :: bool
  full_body_in_bounced :: bool
  strict_extra_currency :: bool

section \<open>The executor state\<close>

text \<open>
  \<open>ExtStorageStat\<close>: the visited cells with the Merkle depth below each, and the counters.
\<close>

record ext_storage_stat =
  visited :: "hash \<rightharpoonup> nat"
  limit_bits :: nat
  limit_cells :: nat
  stat_cells :: nat
  stat_bits :: nat

text \<open>\<open>out_msgs\<close> holds the cells of the outbound messages.\<close>

record ('c, 's) exec_state =
  params :: "'c executor_params"
  config :: "('c, 's) parsed_config"
  is_special :: bool
  address :: std_addr
  storage_stat :: storage_info
  balance :: "'c currency"
  acc_now :: "'c account_state"
  orig_status :: account_status
  end_status :: account_status
  start_lt :: nat
  end_lt :: nat
  out_msgs :: "'c list"
  total_fees :: nat
  burned :: nat
  cached_storage_stat :: "ext_storage_stat option"

text \<open>
  An \<open>anyhow\<close> error is its message or a wrapped error of the cell library; \<open>ExecPanic\<close> is an
  \<open>unwrap\<close> that fails, or a panic of the virtual machine.
\<close>

datatype exec_error = Anyhow string | Wrapped cell_error | ExecPanic

datatype tx_error = Skipped | Fatal exec_error

type_synonym ('c, 's, 'a) ex = "(('c, 's) exec_state, exec_error, 'a) act"

text \<open>
  What the executor calls: the bound of \<open>Tokens\<close>, the arithmetic of extra currencies (\<open>xc_*\<close>), the fees of
  the price tables, dictionaries of libraries (\<open>lib_*\<close>), and the (de)serialisation of messages, actions
  and states. \<open>addr_cell\<close>, \<open>addr_none_cell\<close> and \<open>rebuild_library\<close> are \<open>build_from(..).unwrap()\<close> of an
  address, of two zero bits and of a library cell's slice, which always fit one cell.
\<close>

record ('c, 's, 'b) exec_lib =
  tk_max :: nat
  xc_add :: "'c option \<Rightarrow> 'c option \<Rightarrow> cell_error + 'c option"
  xc_sub :: "'c option \<Rightarrow> 'c option \<Rightarrow> cell_error + 'c option"
  compute_fwd_fee :: "msg_forward_prices \<Rightarrow> nat \<Rightarrow> nat \<Rightarrow> nat"
  get_first_part :: "msg_forward_prices \<Rightarrow> nat \<Rightarrow> nat"
  compute_gas_fee :: "gas_limits_prices \<Rightarrow> nat \<Rightarrow> nat"
  load_bit :: "'s \<Rightarrow> cell_error + bool \<times> 's"
  load_msg_info :: "'s \<Rightarrow> cell_error + 'c msg_info \<times> 's"
  parse_msg_info :: "'c \<Rightarrow> cell_error + 'c msg_info"
  store_msg_info :: "'c msg_info \<Rightarrow> 'b \<Rightarrow> cell_error + 'b"
  load_state_init :: "'s \<Rightarrow> cell_error + 'c state_init \<times> 's"
  build_state_init :: "'c state_init \<Rightarrow> cell_error + 'c"
  build_from_slice :: "'s \<Rightarrow> cell_error + 'c"
  dict_public_libs :: "'c option \<Rightarrow> (cell_error + bool) list"
  store_bit :: "'b \<Rightarrow> bool \<Rightarrow> cell_error + 'b"
  store_slice_data :: "'b \<Rightarrow> 's \<Rightarrow> cell_error + 'b"
  build_cell :: "'b \<Rightarrow> cell_error + 'c"
  slice_is_full :: "'s \<Rightarrow> bool"
  cell_bit_len :: "'c \<Rightarrow> nat"
  xc_iter :: "'c option \<Rightarrow> (cell_error + nat \<times> nat) list"
  xc_remove :: "'c option \<Rightarrow> nat \<Rightarrow> cell_error + 'c option"
  xc_normalize :: "'c option \<Rightarrow> cell_error + 'c option"
  xc_clamp :: "'c option \<Rightarrow> 'c option \<Rightarrow> cell_error + 'c option"
  lib_get :: "'c option \<Rightarrow> hash \<Rightarrow> cell_error + (bool \<times> 'c) option"
  lib_set :: "'c option \<Rightarrow> hash \<Rightarrow> bool \<times> 'c \<Rightarrow> cell_error + 'c option"
  lib_remove :: "'c option \<Rightarrow> hash \<Rightarrow> cell_error + (bool \<times> 'c) option \<times> 'c option"
  TAG_SEND_MSG :: nat
  send_flags :: "nat \<Rightarrow> send_mode"
  load_u8 :: "'s \<Rightarrow> cell_error + nat \<times> 's"
  load_out_action :: "'s \<Rightarrow> cell_error + 'c out_action \<times> 's"
  load_relaxed_msg_info :: "'s \<Rightarrow> cell_error + 'c relaxed_msg_info \<times> 's"
  build_relaxed_message :: "'c relaxed_msg_info \<Rightarrow> 's \<Rightarrow> 's \<Rightarrow> cell_error + 'c"
  load_remaining :: "'s \<Rightarrow> 's \<times> 's"
  load_small_uint :: "'s \<Rightarrow> nat \<Rightarrow> cell_error + nat \<times> 's"
  store_small_uint :: "'b \<Rightarrow> nat \<Rightarrow> nat \<Rightarrow> cell_error + 'b"
  as_full_slice :: "'b \<Rightarrow> 's"
  cell_as_slice :: "'c \<Rightarrow> cell_error + 's"
  load_msg_type_is_int :: "'s \<Rightarrow> cell_error + bool \<times> 's"
  load_int_addr :: "'s \<Rightarrow> cell_error + int_addr \<times> 's"
  load_int_msg_info :: "'s \<Rightarrow> cell_error + 'c int_msg_info \<times> 's"
  addr_cell :: "int_addr \<Rightarrow> 'c"
  addr_none_cell :: 'c
  rebuild_library :: "'c \<Rightarrow> 'c"
  sha256_pair :: "hash \<Rightarrow> hash \<Rightarrow> hash"

section \<open>Arithmetic of amounts\<close>

definition tk_add :: "('c, 's, 'b) exec_lib \<Rightarrow> nat \<Rightarrow> nat \<Rightarrow> cell_error + nat" where
  "tk_add X a b = (if a + b \<le> tk_max X then Inr (a + b) else Inl EIntOverflow)"

definition tk_sub :: "nat \<Rightarrow> nat \<Rightarrow> nat option" where
  "tk_sub a b = (if b \<le> a then Some (a - b) else None)"

definition tk_saturating_add :: "('c, 's, 'b) exec_lib \<Rightarrow> nat \<Rightarrow> nat \<Rightarrow> nat" where
  "tk_saturating_add X a b = min (a + b) (tk_max X)"

definition cc_add :: "('c, 's, 'b) exec_lib \<Rightarrow> 'c currency \<Rightarrow> 'c currency \<Rightarrow> cell_error + 'c currency" where
  "cc_add X a b = (case tk_add X (tokens a) (tokens b) of
      Inl e \<Rightarrow> Inl e
    | Inr t \<Rightarrow> (case xc_add X (other a) (other b) of
        Inl e \<Rightarrow> Inl e
      | Inr x \<Rightarrow> Inr \<lparr>tokens = t, other = x\<rparr>))"

definition cc_sub :: "('c, 's, 'b) exec_lib \<Rightarrow> 'c currency \<Rightarrow> 'c currency \<Rightarrow> cell_error + 'c currency" where
  "cc_sub X a b = (case tk_sub (tokens a) (tokens b) of
      None \<Rightarrow> Inl EIntOverflow
    | Some t \<Rightarrow> (case xc_sub X (other a) (other b) of
        Inl e \<Rightarrow> Inl e
      | Inr x \<Rightarrow> Inr \<lparr>tokens = t, other = x\<rparr>))"

definition cc_add_tokens :: "('c, 's, 'b) exec_lib \<Rightarrow> 'c currency \<Rightarrow> nat \<Rightarrow> cell_error + 'c currency" where
  "cc_add_tokens X a t = map_sum id (\<lambda>v. a\<lparr>tokens := v\<rparr>) (tk_add X (tokens a) t)"

definition cc_sub_tokens :: "'c currency \<Rightarrow> nat \<Rightarrow> cell_error + 'c currency" where
  "cc_sub_tokens a t = (case tk_sub (tokens a) t of
     None \<Rightarrow> Inl EIntOverflow | Some v \<Rightarrow> Inr (a\<lparr>tokens := v\<rparr>))"

text \<open>\<open>u64\<close> addition as it runs in a release build.\<close>

definition add_u64 :: "nat \<Rightarrow> nat \<Rightarrow> nat" where
  "add_u64 a b = (a + b) mod 2 ^ 64"

definition ex_fail :: "string \<Rightarrow> ('c, 's, 'a) ex" where
  "ex_fail msg = fail (Anyhow msg)"

definition ex_ensure :: "bool \<Rightarrow> string \<Rightarrow> ('c, 's, unit) ex" where
  "ex_ensure b msg = ensure b (Anyhow msg)"

definition ex_lift :: "cell_error + 'a \<Rightarrow> ('c, 's, 'a) ex" where
  "ex_lift r = lift_res Wrapped r"

definition set_balance :: "'c currency \<Rightarrow> ('c, 's, unit) ex" where
  "set_balance b = modify (\<lambda>es. es\<lparr>balance := b\<rparr>)"

text \<open>\<open>self.total_fees.try_add_assign(fee)?\<close>\<close>

definition add_fees :: "('c, 's, 'b) exec_lib \<Rightarrow> nat \<Rightarrow> ('c, 's, unit) ex" where
  "add_fees X fee = bnd (gets total_fees) (\<lambda>t. bnd (ex_lift (tk_add X t fee)) (\<lambda>t'.
     modify (\<lambda>es. es\<lparr>total_fees := t'\<rparr>)))"

text \<open>\<open>checked_clamp\<close>: the lesser amount of each currency.\<close>

definition cc_clamp :: "('c, 's, 'b) exec_lib \<Rightarrow> 'c currency \<Rightarrow> 'c currency \<Rightarrow> cell_error + 'c currency" where
  "cc_clamp X a b = map_sum id (\<lambda>x. \<lparr>tokens = min (tokens a) (tokens b), other = x\<rparr>) (xc_clamp X (other a) (other b))"

text \<open>\<open>slice.is_empty()\<close>\<close>

definition slice_empty :: "('c, 's) api \<Rightarrow> 's \<Rightarrow> bool" where
  "slice_empty A cs \<longleftrightarrow> slice_size_bits A cs = 0 \<and> slice_size_refs A cs = 0"

section \<open>Helpers of the executor\<close>

text \<open>\<open>u128\<close> values are \<open>nat\<close>; the shift loses no high bits.\<close>

definition shift_ceil_price :: "nat \<Rightarrow> nat" where
  "shift_ceil_price v = drop_bit 16 v + of_bool (take_bit 16 v \<noteq> 0)"

definition new_varuint24_truncate :: "nat \<Rightarrow> nat" where
  "new_varuint24_truncate v = min v (2 ^ 24 - 1)"

definition new_varuint56_truncate :: "nat \<Rightarrow> nat" where
  "new_varuint56_truncate v = min v (2 ^ 56 - 1)"

definition check_rewrite_src_addr :: "std_addr \<Rightarrow> int_addr option \<Rightarrow> int_addr option option" where
  "check_rewrite_src_addr my addr = (case addr of
      None \<Rightarrow> Some (Some (AddrStd my))
    | Some (AddrStd a) \<Rightarrow> if a = my then Some addr else None
    | Some _ \<Rightarrow> None)"

text \<open>
  The destination is refused (\<open>None\<close>) or returned, rewritten to \<open>addr_std\<close> when the variable address
  has 256 bits: the high bytes are copied into a zeroed array.
\<close>

definition STD_ADDR_LEN :: nat where "STD_ADDR_LEN = 256"

definition can_rewrite :: "int_addr \<Rightarrow> bool" where
  "can_rewrite addr = (case addr of
      AddrStd _ \<Rightarrow> False
    | AddrVar v \<Rightarrow> va_address_len v = STD_ADDR_LEN \<and> -128 \<le> va_workchain v \<and> va_workchain v < 128)"

definition addr_workchain :: "int_addr \<Rightarrow> int" where
  "addr_workchain addr = (case addr of AddrStd a \<Rightarrow> sa_workchain a | AddrVar v \<Rightarrow> va_workchain v)"

definition has_anycast :: "int_addr \<Rightarrow> bool" where
  "has_anycast addr = (case addr of AddrStd a \<Rightarrow> sa_anycast a \<noteq> None | AddrVar v \<Rightarrow> va_anycast v \<noteq> None)"

definition format_accepts :: "workchain_format \<Rightarrow> int_addr \<Rightarrow> bool" where
  "format_accepts fmt addr = (case (fmt, addr) of
      (Basic, AddrStd _) \<Rightarrow> True
    | (Basic, AddrVar _) \<Rightarrow> can_rewrite addr
    | (Extended f, AddrStd _) \<Rightarrow> f STD_ADDR_LEN
    | (Extended f, AddrVar a) \<Rightarrow> f (va_address_len a))"

definition rewrite_var_addr :: "var_addr \<Rightarrow> std_addr" where
  "rewrite_var_addr v = \<lparr>sa_anycast = None, sa_workchain = va_workchain v,
     sa_address = of_nat (bytes_value (take 32 (va_address v) @ replicate (32 - length (va_address v)) 0))\<rparr>"

definition check_rewrite_dst_addr ::
    "(int \<rightharpoonup> workchain_description) \<Rightarrow> int_addr \<Rightarrow> int_addr option" where
  "check_rewrite_dst_addr wcs addr =
     (if has_anycast addr then None
      else if addr_workchain addr \<noteq> -1 \<and>
          \<not> (case wcs (addr_workchain addr) of
              None \<Rightarrow> False
            | Some wc \<Rightarrow> accept_msgs wc \<and> format_accepts (wc_format wc) addr)
      then None
      else Some (case addr of
          AddrVar v \<Rightarrow> if can_rewrite addr then AddrStd (rewrite_var_addr v) else addr
        | AddrStd _ \<Rightarrow> addr))"

section \<open>Behaviour\<close>

lemma shift_ceil_price_bounds: "v \<le> shift_ceil_price v * 2 ^ 16" "shift_ceil_price v * 2 ^ 16 < v + 2 ^ 16"
proof -
  have d: "v = drop_bit 16 v * 2 ^ 16 + take_bit 16 v"
    by (simp add: drop_bit_eq_div take_bit_eq_mod)
  have t: "take_bit 16 v < 2 ^ 16" by (rule take_bit_nat_less_exp)
  show "v \<le> shift_ceil_price v * 2 ^ 16" "shift_ceil_price v * 2 ^ 16 < v + 2 ^ 16"
    using d t by (cases "take_bit 16 v = 0"; simp add: shift_ceil_price_def algebra_simps; linarith)+
qed

lemma shift_ceil_price_le: "shift_ceil_price v \<le> n \<longleftrightarrow> v \<le> n * 2 ^ 16"
proof
  assume "shift_ceil_price v \<le> n"
  then have "shift_ceil_price v * 2 ^ 16 \<le> n * 2 ^ 16" by simp
  then show "v \<le> n * 2 ^ 16" using shift_ceil_price_bounds(1)[of v] by linarith
next
  assume "v \<le> n * 2 ^ 16"
  then have "shift_ceil_price v * 2 ^ 16 < (n + 1) * 2 ^ 16" using shift_ceil_price_bounds(2)[of v] by simp
  then show "shift_ceil_price v \<le> n" by (simp only: mult_less_cancel2) simp
qed

lemma cc_sub_tokens_eq: "cc_sub X a b = Inr c \<Longrightarrow> tokens b \<le> tokens a \<and> tokens c = tokens a - tokens b"
  by (auto simp: cc_sub_def tk_sub_def split: sum.splits if_splits)

lemma cc_add_tokens_eq: "cc_add X a b = Inr c \<Longrightarrow> tokens c = tokens a + tokens b"
  by (auto simp: cc_add_def tk_add_def split: sum.splits if_splits)

lemma add_fees_eq:
  "add_fees X fee es = (if total_fees es + fee \<le> tk_max X then (Inr (), es\<lparr>total_fees := total_fees es + fee\<rparr>)
     else (Inl (Wrapped EIntOverflow), es))"
  by (simp add: add_fees_def ex_lift_def tk_add_def)

text \<open>An accepted destination is a standard address of a known workchain unless the workchain is extended.\<close>

lemma dst_addr_std:
  assumes "check_rewrite_dst_addr wcs addr = Some addr'" and "addr_workchain addr \<noteq> -1"
  obtains wc where "wcs (addr_workchain addr) = Some wc" "accept_msgs wc"
    "wc_format wc = Basic \<Longrightarrow> \<exists>a. addr' = AddrStd a"
  using assms
  by (fastforce simp: check_rewrite_dst_addr_def format_accepts_def
      split: if_splits option.splits int_addr.splits workchain_format.splits)

end
