(* ===== verification/InstrLib.thy ===== *)
theory InstrLib
  imports CellOps Run ExecTypes
begin

text \<open>
  What the dictionary, configuration, message, cryptography, currency, randomness and size
  instructions call outside the repository: dictionaries and the (de)serialisation of
  \<open>everscale_types\<close>, hash functions and signatures. A library function that is handed a
  \<open>CellContext\<close> is a program over the methods of that trait, run here on the gas consumers of
  \<open>vm/src/gas.rs\<close>; so what such a function costs is decided by the consumer and not assumed.
\<close>

section \<open>Programs over a cell context\<close>

text \<open>
  \<open>ctx_read\<close>: a function that only loads cells; \<open>ctx_prog\<close>: one that builds cells as well. Both give up
  with the first error of the context (the \<open>?\<close> after each of its calls).
\<close>

datatype ('c, 'a) ctx_read =
    ReadDone "cell_error + 'a"
  | ReadLoad 'c "bool \<times> bool" "'c \<Rightarrow> ('c, 'a) ctx_read"

datatype ('c, 'b, 'a) ctx_prog =
    CtxDone "cell_error + 'a"
  | CtxLoad 'c "bool \<times> bool" "'c \<Rightarrow> ('c, 'b, 'a) ctx_prog"
  | CtxFinalize 'b "'c \<Rightarrow> ('c, 'b, 'a) ctx_prog"

primrec run_read :: "('c, 's) api \<Rightarrow> ('c, 'a) ctx_read \<Rightarrow> ('c, 'a) gas_act" where
  "run_read A (ReadDone r) = lift_res id r"
| "run_read A (ReadLoad c mode k) = bnd (load_cell_impl A mode c) (\<lambda>c'. run_read A (k c'))"

primrec run_ctx :: "('c, 's) api \<Rightarrow> ('c, 's, 'b) cell_lib \<Rightarrow> ('c, 'b, 'a) ctx_prog \<Rightarrow> ('c, 'a) gas_act" where
  "run_ctx A L (CtxDone r) = lift_res id r"
| "run_ctx A L (CtxLoad c mode k) = bnd (load_cell_impl A mode c) (\<lambda>c'. run_ctx A L (k c'))"
| "run_ctx A L (CtxFinalize parts k) = bnd (finalize_cell L parts) (\<lambda>c'. run_ctx A L (k c'))"

primrec run_limited ::
    "('c, 's) api \<Rightarrow> ('c, 'a) ctx_read \<Rightarrow> (int \<times> 'c gas_consumer, cell_error, 'a) act" where
  "run_limited A (ReadDone r) = lift_res id r"
| "run_limited A (ReadLoad c mode k) = bnd (limited_load_cell A mode c) (\<lambda>c'. run_limited A (k c'))"

text \<open>A program run on a capped consumer with \<open>n\<close> units, made from the main one and dropped afterwards.\<close>

definition with_limited :: "int \<Rightarrow> (int \<times> 'c gas_consumer, cell_error, 'a) act \<Rightarrow> ('c, 'a) gas_act" where
  "with_limited n m g = (case m (n, g) of (r, p) \<Rightarrow> (r, snd p))"

lemma run_read_metered [safe_rules]: "upholds meter_inv meter_err (run_read A p)"
  by (induction p) (auto intro!: metered_rules special_metered)

lemma run_ctx_metered [safe_rules]: "upholds meter_inv meter_err (run_ctx A L p)"
proof -
  have f: "upholds meter_inv meter_err (finalize_cell L parts)" for parts
    unfolding finalize_cell_def BUILD_CELL_GAS_def by (intro metered_rules; simp)
  show ?thesis by (induction p) (auto intro!: metered_rules special_metered f)
qed

lemma run_limited_metered: "upholds limited_inv limited_err (run_limited A p)"
  by (induction p) (auto intro!: limited.upholds_rules limited.upholds_lift_res limited_load_metered
      simp: limited_load_cell_def)

lemma with_limited_metered [safe_rules]:
  assumes "0 \<le> n"
  shows "upholds meter_inv meter_err (with_limited n (run_limited A p))"
proof (rule upholdsI)
  fix i and g h :: "'a gas_consumer" and e x
  assume i: "meter_inv i g"
  then have l: "limited_inv i (n, g)" using assms by (simp add: limited_inv_def)
  show "with_limited n (run_limited A p) g = (Inl e, h) \<Longrightarrow> meter_err i e h"
    by (auto simp: with_limited_def limited_err_def split: prod.splits dest!: upholds_InlD[OF run_limited_metered l])
  show "with_limited n (run_limited A p) g = (Inr x, h) \<Longrightarrow> meter_inv i h"
    by (auto simp: with_limited_def limited_inv_def split: prod.splits dest!: upholds_InrD[OF run_limited_metered l])
qed

section \<open>The library\<close>

datatype set_mode = SetSet | SetReplace | SetAdd

datatype dict_bound = BoundMin | BoundMax

text \<open>A \<open>&dyn Store\<close> the code hands to a dictionary.\<close>

datatype ('c, 's) stored = StoreSlice 's | StoreCell 'c

text \<open>\<open>RelaxedMessage\<close>: its layout says whether the state and the body are cells of their own.\<close>

record ('c, 's) relaxed_message =
  rx_info :: "'c relaxed_msg_info"
  rx_init :: "'c state_init option"
  rx_body :: 's
  rx_init_to_cell :: bool
  rx_body_to_cell :: bool

text \<open>
  A function that updates the root of a dictionary in place returns the new root; it writes the root
  only when it succeeds. Keys that come back from a dictionary are \<open>CellDataBuilder\<close>s. \<open>ed25519\<close> is
  \<open>PublicKey::from_bytes\<close>, and what it returns is \<open>verify\<close>. Hashers are functions of all the bytes that
  were fed to them. \<open>tree_stats\<close> is \<open>StorageStat::with_limit\<close> and \<open>add_slice\<close> of \<open>everscale_types\<close>, with the
  counts of bits and cells; \<open>parse_relaxed\<close> sets the layout of the message.
\<close>

record ('c, 's, 'b) instr_lib =
  sl_load_bit :: "'s \<Rightarrow> cell_error + bool \<times> 's"
  sl_load_u8 :: "'s \<Rightarrow> cell_error + nat \<times> 's"
  sl_load_small_uint :: "'s \<Rightarrow> nat \<Rightarrow> cell_error + nat \<times> 's"
  sl_load_u256 :: "'s \<Rightarrow> cell_error + nat list \<times> 's"
  sl_load_prefix :: "'s \<Rightarrow> nat \<Rightarrow> nat \<Rightarrow> cell_error + 's \<times> 's"
  sl_load_var_bigint :: "'s \<Rightarrow> nat \<Rightarrow> bool \<Rightarrow> cell_error + int \<times> 's"
  sl_load_opt_cell :: "'s \<Rightarrow> cell_error + 'c option \<times> 's"
  b_store_opt_cell :: "'b \<Rightarrow> 'c option \<Rightarrow> cell_error + 'b"
  b_store_var_bigint :: "'b \<Rightarrow> int \<Rightarrow> nat \<Rightarrow> bool \<Rightarrow> cell_error + 'b"
  b_store_bigint :: "'b \<Rightarrow> int \<Rightarrow> nat \<Rightarrow> bool \<Rightarrow> cell_error + 'b"
  b_store_bigint_truncate :: "'b \<Rightarrow> int \<Rightarrow> nat \<Rightarrow> bool \<Rightarrow> cell_error + 'b"
  b_as_data_slice :: "'b \<Rightarrow> 's"
  b_as_full_slice :: "'b \<Rightarrow> 's"
  bit_len :: "'c \<Rightarrow> nat"
  split_depth_new :: "nat \<Rightarrow> cell_error + nat"
  dict_get :: "'c option \<Rightarrow> nat \<Rightarrow> 's \<Rightarrow> ('c, 's option) ctx_read"
  dict_get_owned :: "'c option \<Rightarrow> nat \<Rightarrow> 's \<Rightarrow> ('c, 's option) ctx_read"
  dict_find_owned :: "'c option \<Rightarrow> nat \<Rightarrow> 's \<Rightarrow> dict_bound \<Rightarrow> bool \<Rightarrow> bool \<Rightarrow> ('c, ('b \<times> 's) option) ctx_read"
  dict_find_bound_owned :: "'c option \<Rightarrow> nat \<Rightarrow> dict_bound \<Rightarrow> bool \<Rightarrow> ('c, ('b \<times> 's) option) ctx_read"
  dict_insert :: "'c option \<Rightarrow> 's \<Rightarrow> nat \<Rightarrow> ('c, 's) stored \<Rightarrow> set_mode \<Rightarrow> ('c, 'b, 'c option) ctx_prog"
  dict_insert_owned ::
    "'c option \<Rightarrow> 's \<Rightarrow> nat \<Rightarrow> ('c, 's) stored \<Rightarrow> set_mode \<Rightarrow> ('c, 'b, 'c option \<times> 's option) ctx_prog"
  dict_remove_owned :: "'c option \<Rightarrow> 's \<Rightarrow> nat \<Rightarrow> bool \<Rightarrow> ('c, 'b, 'c option \<times> 's option) ctx_prog"
  dict_remove_bound_owned ::
    "'c option \<Rightarrow> nat \<Rightarrow> dict_bound \<Rightarrow> bool \<Rightarrow> ('c, 'b, 'c option \<times> ('b \<times> 's) option) ctx_prog"
  sha256 :: "nat list \<Rightarrow> nat list"
  sha512 :: "nat list \<Rightarrow> nat list"
  blake2b512 :: "nat list \<Rightarrow> nat list"
  ed25519 :: "nat list \<Rightarrow> (nat list \<Rightarrow> nat list \<Rightarrow> bool) option"
  parse_u32 :: "'c \<Rightarrow> cell_error + nat"
  parse_fwd_prices :: "'c \<Rightarrow> cell_error + msg_forward_prices"
  load_gas_prices :: "'s \<Rightarrow> cell_error + gas_limits_prices"
  load_fwd_prices :: "'s \<Rightarrow> cell_error + msg_forward_prices"
  load_storage_prices :: "'s \<Rightarrow> cell_error + storage_prices"
  load_size_limits :: "'s \<Rightarrow> cell_error + size_limits"
  gas_fee_of :: "gas_limits_prices \<Rightarrow> nat \<Rightarrow> nat"
  storage_fee_of :: "storage_prices \<Rightarrow> bool \<Rightarrow> nat \<Rightarrow> nat \<Rightarrow> nat \<Rightarrow> nat"
  forward_fee_of :: "msg_forward_prices \<Rightarrow> nat \<Rightarrow> nat \<Rightarrow> nat"
  tokens_max :: nat
  tokens_bits :: "nat \<Rightarrow> nat option"
  parse_relaxed :: "'c \<Rightarrow> cell_error + ('c, 's) relaxed_message"
  int_addr_bit_len :: "int_addr \<Rightarrow> nat"
  ext_addr_bits :: "nat \<times> nat list \<Rightarrow> nat"
  state_init_bit_len :: "'c state_init \<Rightarrow> nat"
  state_init_refs :: "'c state_init \<Rightarrow> nat"
  tree_stats :: "nat \<Rightarrow> 's \<Rightarrow> nat \<times> nat"
  lazy_from_raw :: "'c \<Rightarrow> cell_error + 'c"
  store_out_action :: "'b \<Rightarrow> 'c out_action \<Rightarrow> ('c, 'b, 'b) ctx_prog"
  send_flags_of :: "nat \<Rightarrow> send_mode"
  reserve_flags_of :: "nat \<Rightarrow> reserve_mode"
  library_flags_of :: "nat \<Rightarrow> library_mode"

text \<open>
  A new builder has room for the 32 bits of a dictionary key: what \<open>store_u32(..).unwrap()\<close> relies on.
\<close>

definition keys_fit :: "('c, 's, 'b) cell_lib \<Rightarrow> bool" where
  "keys_fit L \<longleftrightarrow> (\<forall>v. \<exists>b. b_store_u32 L (b_new L) v = Inr b)"

definition unwrap :: "'e + 'a \<Rightarrow> ('s, fault, 'a) act" where
  "unwrap r = (case r of Inl _ \<Rightarrow> fail Panic | Inr x \<Rightarrow> ret x)"

definition u32_key :: "('c, 's, 'b) cell_lib \<Rightarrow> ('c, 's, 'b) instr_lib \<Rightarrow> nat \<Rightarrow> ('c, 's, 'b, 's) vm" where
  "u32_key L M v = bnd (unwrap (b_store_u32 L (b_new L) v)) (\<lambda>b. ret (b_as_data_slice M b))"

lemma safe_u32_key: "keys_fit L \<Longrightarrow> safe (u32_key L M v)"
  unfolding u32_key_def unwrap_def keys_fit_def
  by (metis (no_types, lifting) old.sum.simps(6) vm.upholds_bnd vm.upholds_ret)

lemma set_c7_regs_ok: "regs_ok r \<Longrightarrow> regs_ok (set_c7 t r)"
  by (cases r) (simp add: regs_ok_def)

lemma safe_set_c7 [safe_rules]: "safe (modify (\<lambda>st. st\<lparr>cr := set_c7 t (cr st)\<rparr>))"
  by (rule safe_modify) (auto intro: good_cr set_c7_regs_ok)

text \<open>What follows a read of the state need only be safe for the values that can be read.\<close>

lemma safe_gets_value: "(\<And>st. safe (k (h st))) \<Longrightarrow> safe (bnd (gets h) k)"
  by (simp add: upholds_def hoare_def)

section \<open>Errors kept as values\<close>

text \<open>
  A few handlers match on the \<open>Result\<close> of a charged operation instead of passing its error on. When it
  is the error of an exhausted consumer, the state left is dead.
\<close>

definition attempt :: "('c, 'a) gas_act \<Rightarrow> ('c, 's, 'b, cell_error + 'a) vm" where
  "attempt m st = (case m (gas st) of (r, g) \<Rightarrow> (Inr r, st\<lparr>gas := g\<rparr>))"

lemma attempt_outcome:
  assumes "upholds meter_inv meter_err m" and "good f st" and "attempt m st = (Inr r, t)"
  shows "good f t \<or> r = Inl ECancelled \<and> dead f t"
proof -
  obtain g where m: "m (gas st) = (r, g)" and t: "t = st\<lparr>gas := g\<rparr>"
    using assms(3) by (auto simp: attempt_def split: prod.splits)
  have i: "meter_inv (f, parent_meters st) (gas st)" "parents_ok st" "regs_ok (cr st)"
    using assms(2) by (simp_all add: good_def)
  show ?thesis
  proof (cases r)
    case (Inl e)
    then show ?thesis using upholds_InlD[OF assms(1) i(1), of e g] m t i
      by (auto simp: meter_err_def meter_inv_def good_def dead_def halted_def parent_meters_def parents_ok_def
          split: if_splits)
  next
    case (Inr x)
    then show ?thesis using upholds_InrD[OF assms(1) i(1), of x g] m t i
      by (auto simp: good_def parent_meters_def parents_ok_def)
  qed
qed

text \<open>What follows an attempt must keep the invariant, and in a dead state do no harm.\<close>

abbreviation mild :: "('c, 's, 'b, 'a) vm \<Rightarrow> bool" where
  "mild \<equiv> upholds dead (\<lambda>f e st. e \<noteq> Panic \<and> dead f st)"

interpretation dying: action_invariant dead "\<lambda>f e st. e \<noteq> Panic \<and> dead f st" "\<lambda>e. e \<noteq> Panic"
  by unfold_locales simp

lemma mild_on_stack: "calm n \<Longrightarrow> mild (on_stack n)"
  by (rule upholdsI) (auto simp: on_stack_eq calm_iff split: prod.splits, metis fst_conv)

lemma mild_st_op: "calm n \<Longrightarrow> mild (st_op n)"
  unfolding st_op_def by (intro dying.upholds_rules mild_on_stack)

lemma mild_fail: "mild (fail (cell_fault e))" "mild (vm_fail v)"
  by (auto intro!: dying.upholds_fail simp: vm_fail_def cell_fault_def)

lemmas mild_rules = dying.upholds_rules mild_on_stack mild_st_op mild_fail

lemma lenient_attempt:
  fixes k :: "cell_error + 'x \<Rightarrow> ('c, 's, 'b, int) vm"
  assumes m: "upholds meter_inv meter_err m" and k: "\<And>r. lenient (k r)" and last: "mild (k (Inl ECancelled))"
  shows "lenient (bnd (attempt m) k)"
  unfolding lenient_def
proof (intro allI hoareI)
  fix f x t e and st :: "('c, 's, 'b) vm_state"
  assume g: "good f st"
  obtain r s where a: "attempt m st = (Inr r, s)" by (cases "m (gas st)") (simp add: attempt_def)
  have run: "bnd (attempt m) k st = k r s" using a by simp
  have "case k r s of (Inr _, t) \<Rightarrow> good f t \<or> dead f t | (Inl e, t) \<Rightarrow> fails_well f e t"
  proof (cases "good f s")
    case True
    then show ?thesis using k[of r] by (auto simp: lenient_def hoare_def split: prod.splits sum.splits)
  next
    case False
    then have d: "r = Inl ECancelled" "dead f s" using attempt_outcome[OF m g a] by auto
    then show ?thesis using upholds_InlD[OF last d(2)] upholds_InrD[OF last d(2)]
      by (auto simp: fails_well_def split: prod.split sum.split)
  qed
  then show "bnd (attempt m) k st = (Inl e, t) \<Longrightarrow> fails_well f e t"
    "bnd (attempt m) k st = (Inr x, t) \<Longrightarrow> good f t \<or> dead f t" by (simp_all add: run)
qed

section \<open>Helpers of the source\<close>

text \<open>\<open>32 - x.leading_zeros()\<close>: the number of significant bits.\<close>

fun bit_length :: "nat \<Rightarrow> nat" where
  "bit_length n = (if n = 0 then 0 else Suc (bit_length (n div 2)))"

declare bit_length.simps [simp del]

text \<open>\<open>load_uint_leq\<close> of \<open>vm/src/util.rs\<close>: as many bits as the bound has.\<close>

definition load_uint_leq :: "('c, 's, 'b) cell_lib \<Rightarrow> 's \<Rightarrow> nat \<Rightarrow> cell_error + nat \<times> 's" where
  "load_uint_leq L cs upper_bound =
     (case sl_load_uint L cs (bit_length upper_bound) of
        Inl e \<Rightarrow> Inl e
      | Inr (v, cs') \<Rightarrow> if upper_bound < v then Inl EIntOverflow else Inr (v, cs'))"

text \<open>\<open>to_bytes_le()\<close> of the magnitude, \<open>truncate(32)\<close> and \<open>reverse()\<close>.\<close>

definition magnitude_be :: "('c, 's, 'b) cell_lib \<Rightarrow> int \<Rightarrow> nat list" where
  "magnitude_be L x = rev (take 32 (bi_to_bytes_le L x))"

text \<open>\<open>buffer[n - bytes.len()..n].copy_from_slice(&bytes)\<close> into zeroes.\<close>

definition pad_left :: "nat \<Rightarrow> nat list \<Rightarrow> nat list" where
  "pad_left n bs = replicate (n - length bs) 0 @ bs"

text \<open>\<open>CellBuilder::build_from_ext(slice, gas)\<close>\<close>

definition build_from_slice_ext :: "('c, 's, 'b) cell_lib \<Rightarrow> 's \<Rightarrow> ('c, 'c) gas_act" where
  "build_from_slice_ext L cs = bnd (lift_res id (b_store_slice L (b_new L) cs)) (build_ext L)"

lemma build_from_slice_metered [safe_rules]: "upholds meter_inv meter_err (build_from_slice_ext L cs)"
  unfolding build_from_slice_ext_def by (intro metered_rules safe_rules TrueI)

end
