(* ===== verification/CurrencyOps.thy ===== *)
theory CurrencyOps
  imports InstrLib
begin

text \<open>
  \<open>vm/src/instr/currencyops.rs\<close>: integers of variable length and message addresses in slices. A
  \<open>CellSlice\<close> that the code advances is passed on explicitly; \<open>range.apply(cell)?\<close> is \<open>sl_apply\<close>, which
  refuses an exotic cell.
\<close>

section \<open>Integers\<close>

definition exec_load_var_integer :: "('c, 's, 'b) instr_lib \<Rightarrow> nat \<Rightarrow> bool \<Rightarrow> ('c, 's, 'b, int) vm" where
  "exec_load_var_integer M len_bits sgnd = st_op (bnd pop_cs (\<lambda>cs.
     bnd (lift_res cell_fault (sl_load_var_bigint M cs len_bits sgnd)) (\<lambda>(x, cs').
     thn (push_int x) (push_raw (VSlice cs')))))"

definition exec_store_var_integer :: "('c, 's, 'b) instr_lib \<Rightarrow> nat \<Rightarrow> bool \<Rightarrow> ('c, 's, 'b, int) vm" where
  "exec_store_var_integer M len_bits sgnd = st_op (bnd pop_int (\<lambda>x. bnd pop_builder (\<lambda>b.
     bnd (lift_res cell_fault (b_store_var_bigint M b x len_bits sgnd)) (\<lambda>b'.
     push_raw (VBuilder b')))))"

section \<open>Addresses\<close>

datatype 's addr_parts = PartsNone | PartsExt 's | PartsStd "'s option" int 's | PartsVar "'s option" int 's

text \<open>Readers of a slice: a result and the rest of the slice.\<close>

type_synonym ('s, 'a) addr_reader = "('s, cell_error, 'a) act"

definition rd :: "('s \<Rightarrow> cell_error + 'a \<times> 's) \<Rightarrow> ('s, 'a) addr_reader" where
  "rd f cs = (case f cs of Inl e \<Rightarrow> (Inl e, cs) | Inr (x, cs') \<Rightarrow> (Inr x, cs'))"

definition rd_skip :: "('c, 's) api \<Rightarrow> nat \<Rightarrow> ('s, unit) addr_reader" where
  "rd_skip A bits = rd (\<lambda>cs. map_sum id (Pair ()) (slice_skip_first A cs bits 0))"

definition parse_maybe_anycast ::
    "('c, 's, 'b) cell_lib \<Rightarrow> ('c, 's, 'b) instr_lib \<Rightarrow> vm_version \<Rightarrow> ('s, 's option) addr_reader" where
  "parse_maybe_anycast L M v =
     bnd (rd (sl_load_bit M)) (\<lambda>just.
     if \<not> just then ret None
     else if is_ton 10 v then fail EInvalidCell
     else bnd (rd (\<lambda>cs. load_uint_leq L cs 30)) (\<lambda>n.
          bnd (lift_res id (split_depth_new M n)) (\<lambda>d.
          bnd (rd (\<lambda>cs. sl_load_prefix M cs d 0)) (\<lambda>pfx. ret (Some pfx)))))"

definition parse_addr ::
    "('c, 's, 'b) cell_lib \<Rightarrow> ('c, 's, 'b) instr_lib \<Rightarrow> vm_version \<Rightarrow> ('s, 's addr_parts) addr_reader" where
  "parse_addr L M v =
     bnd (rd (\<lambda>cs. sl_load_small_uint M cs 2)) (\<lambda>tag.
     if tag = 0 then ret PartsNone
     else if tag = 1 then
       bnd (rd (\<lambda>cs. sl_load_uint L cs 9)) (\<lambda>len.
       bnd (rd (\<lambda>cs. sl_load_prefix M cs len 0)) (\<lambda>addr. ret (PartsExt addr)))
     else if tag = 2 then
       bnd (parse_maybe_anycast L M v) (\<lambda>pfx.
       bnd (rd (sl_load_u8 M)) (\<lambda>w.
       bnd (rd (\<lambda>cs. sl_load_prefix M cs 256 0)) (\<lambda>addr.
       ret (PartsStd pfx (signed_take_bit 7 (int w)) addr))))
     else if tag = 3 then
       (if is_ton 10 v then fail EInvalidCell
        else bnd (parse_maybe_anycast L M v) (\<lambda>pfx.
             bnd (rd (\<lambda>cs. sl_load_uint L cs 9)) (\<lambda>len.
             bnd (rd (sl_load_u32 L)) (\<lambda>w.
             bnd (rd (\<lambda>cs. sl_load_prefix M cs len 0)) (\<lambda>addr.
             ret (PartsVar pfx (signed_take_bit 31 (int w)) addr))))))
     else fail EInvalidData)"

definition parse_message_addr ::
    "('c, 's, 'b) cell_lib \<Rightarrow> ('c, 's, 'b) instr_lib \<Rightarrow> vm_version \<Rightarrow> 's \<Rightarrow> cell_error + 's addr_parts" where
  "parse_message_addr L M v csr = (case sl_apply L csr of
      Inl e \<Rightarrow> Inl e
    | Inr cs \<Rightarrow> fst (parse_addr L M v cs))"

definition skip_maybe_anycast ::
    "('c, 's) api \<Rightarrow> ('c, 's, 'b) cell_lib \<Rightarrow> ('c, 's, 'b) instr_lib \<Rightarrow> vm_version \<Rightarrow> ('s, unit) addr_reader" where
  "skip_maybe_anycast A L M v =
     bnd (rd (sl_load_bit M)) (\<lambda>just.
     if \<not> just then ret ()
     else if is_ton 10 v then fail EInvalidCell
     else bnd (rd (\<lambda>cs. load_uint_leq L cs 30)) (\<lambda>n.
          bnd (lift_res id (split_depth_new M n)) (\<lambda>d. rd_skip A d)))"

definition skip_message_addr ::
    "('c, 's) api \<Rightarrow> ('c, 's, 'b) cell_lib \<Rightarrow> ('c, 's, 'b) instr_lib \<Rightarrow> vm_version \<Rightarrow> ('s, unit) addr_reader" where
  "skip_message_addr A L M v =
     bnd (rd (\<lambda>cs. sl_load_small_uint M cs 2)) (\<lambda>tag.
     if tag = 0 then ret ()
     else if tag = 1 then bnd (rd (\<lambda>cs. sl_load_uint L cs 9)) (\<lambda>len. rd_skip A len)
     else if tag = 2 then thn (skip_maybe_anycast A L M v) (rd_skip A (8 + 256))
     else if tag = 3 then
       (if is_ton 10 v then fail EInvalidCell
        else thn (skip_maybe_anycast A L M v)
            (bnd (rd (\<lambda>cs. sl_load_uint L cs 9)) (\<lambda>len. rd_skip A (32 + len))))
     else fail EInvalidData)"

definition into_tuple_parts :: "'s addr_parts \<Rightarrow> ('c, 's, 'b) sval list" where
  "into_tuple_parts p =
     (let opt = (\<lambda>pfx. case pfx of None \<Rightarrow> VNull | Some k \<Rightarrow> VSlice k) in
      case p of
        PartsNone \<Rightarrow> [VInt 0]
      | PartsExt addr \<Rightarrow> [VInt 1, VSlice addr]
      | PartsStd pfx w addr \<Rightarrow> [VInt 2, opt pfx, VInt w, VSlice addr]
      | PartsVar pfx w addr \<Rightarrow> [VInt 3, opt pfx, VInt w, VSlice addr])"

section \<open>Address instructions\<close>

definition exec_load_message_addr ::
    "('c, 's) api \<Rightarrow> ('c, 's, 'b) cell_lib \<Rightarrow> ('c, 's, 'b) instr_lib \<Rightarrow> bool \<Rightarrow> ('c, 's, 'b, int) vm" where
  "exec_load_message_addr A L M quiet =
     bnd (gets version) (\<lambda>v. st_op (bnd pop_cs (\<lambda>cs.
     case skip_message_addr A L M v cs of
       (Inr _, cs') \<Rightarrow>
         bnd (lift_res cell_fault (sl_skip_last L cs (slice_size_bits A cs') (slice_size_refs A cs'))) (\<lambda>addr.
         thn (push_raw (VSlice addr))
        (thn (push_raw (VSlice cs')) (if quiet then push_bool True else ret ())))
     | (Inl e, _) \<Rightarrow>
         if quiet then thn (push_raw (VSlice cs)) (push_bool False) else vm_fail (CellError e))))"

definition exec_parse_message_addr ::
    "('c, 's, 'b) cell_lib \<Rightarrow> ('c, 's, 'b) instr_lib \<Rightarrow> bool \<Rightarrow> ('c, 's, 'b, int) vm" where
  "exec_parse_message_addr L M quiet =
     bnd (gets version) (\<lambda>v. st_op (bnd pop_cs (\<lambda>cs.
     case parse_message_addr L M v cs of
       Inr parts \<Rightarrow> thn (push_raw (VTuple (into_tuple_parts parts))) (if quiet then push_bool True else ret ())
     | Inl e \<Rightarrow> if quiet then push_bool False else vm_fail (CellError e))))"

text \<open>
  The address with its prefix put in place of its first bits: as a new cell (paid for), or over the
  32 bytes of a standard address.
\<close>

definition rewrite_addr_var ::
    "('c, 's) api \<Rightarrow> ('c, 's, 'b) cell_lib \<Rightarrow> 's \<Rightarrow> 's option \<Rightarrow> ('c, 's) gas_act" where
  "rewrite_addr_var A L addr pfx0 = (case pfx0 of
      None \<Rightarrow> ret addr
    | Some pfx \<Rightarrow>
        if slice_size_bits A pfx = slice_size_bits A addr then ret pfx
        else
          bnd (lift_res id (slice_skip_first A addr (slice_size_bits A pfx) 0)) (\<lambda>cs.
          bnd (lift_res id (b_store_slice L (b_new L) pfx)) (\<lambda>b.
          bnd (lift_res id (b_store_slice L b cs)) (\<lambda>b'.
          bnd (build_ext L b') (\<lambda>cell.
          load_cell_as_slice A cell LoadUseGas)))))"

definition put_prefix :: "nat list \<Rightarrow> nat list \<Rightarrow> nat \<Rightarrow> nat list" where
  "put_prefix addr buffer pfx_len =
     (let bytes = pfx_len div 8; bits = pfx_len mod 8;
          addr' = take bytes buffer @ drop bytes addr
      in if bits = 0 then addr'
         else addr'[bytes := or (take_bit (8 - bits) (addr' ! bytes)) (buffer ! bytes)])"

definition rewrite_addr_std ::
    "('c, 's) api \<Rightarrow> ('c, 's, 'b) cell_lib \<Rightarrow> ('c, 's, 'b) instr_lib \<Rightarrow> 's \<Rightarrow> 's option \<Rightarrow> cell_error + int" where
  "rewrite_addr_std A L M addr0 pfx0 = (case sl_load_u256 M addr0 of
      Inl e \<Rightarrow> Inl e
    | Inr (addr, _) \<Rightarrow> (case pfx0 of
        None \<Rightarrow> Inr (int (bi_from_bytes_be L addr))
      | Some pfx \<Rightarrow> (case sl_load_raw L pfx (slice_size_bits A pfx) of
          Inl e \<Rightarrow> Inl e
        | Inr (bs, _) \<Rightarrow>
            Inr (int (bi_from_bytes_be L (put_prefix addr (resize 4 0 bs) (slice_size_bits A pfx)))))))"

definition rewrite_parts :: "'s addr_parts \<Rightarrow> cell_error + 's option \<times> int \<times> 's" where
  "rewrite_parts p = (case p of
      PartsStd pfx w addr \<Rightarrow> Inr (pfx, w, addr)
    | PartsVar pfx w addr \<Rightarrow> Inr (pfx, w, addr)
    | _ \<Rightarrow> Inl ECellUnderflow)"

text \<open>\<open>handle_error\<close>: the quiet form answers false to any error, also to that of an exhausted gas consumer.\<close>

definition exec_rewrite_message_addr ::
    "('c, 's) api \<Rightarrow> ('c, 's, 'b) cell_lib \<Rightarrow> ('c, 's, 'b) instr_lib \<Rightarrow> bool \<Rightarrow> bool \<Rightarrow> ('c, 's, 'b, int) vm" where
  "exec_rewrite_message_addr A L M var q =
     (let handle_error = (\<lambda>e. if q then st_op (push_bool False) else vm_fail (CellError e));
          finish = (\<lambda>w addr. st_op (thn (push_int w) (thn (push_raw addr) (if q then push_bool True else ret ()))))
      in bnd (gets version) (\<lambda>v.
         bnd (on_stack pop_cs) (\<lambda>cs.
         case parse_message_addr L M v cs of
           Inl e \<Rightarrow> handle_error e
         | Inr parts \<Rightarrow> (case rewrite_parts parts of
             Inl e \<Rightarrow> handle_error e
           | Inr (pfx, w, addr) \<Rightarrow>
               if var then
                 bnd (attempt (rewrite_addr_var A L addr pfx)) (\<lambda>r. case r of
                   Inl e \<Rightarrow> handle_error e
                 | Inr k \<Rightarrow> finish w (VSlice k))
               else (case rewrite_addr_std A L M addr pfx of
                   Inl e \<Rightarrow> handle_error e
                 | Inr x \<Rightarrow> finish w (VInt x))))))"

section \<open>The invariant\<close>

lemma rewrite_addr_var_metered: "upholds meter_inv meter_err (rewrite_addr_var A L addr pfx)"
  unfolding rewrite_addr_var_def by (intro metered_rules safe_rules TrueI)

lemma calm_addr_result:
  "calm (case r of (Inl e, cs') \<Rightarrow> f e cs' | (Inr x, cs') \<Rightarrow> g x cs')"
  if "\<And>e k. calm (f e k)" "\<And>x k. calm (g x k)"
  using that by (auto split: prod.split sum.split)

lemma currencyops_safe:
  "safe (exec_load_var_integer M n sgnd)" "safe (exec_store_var_integer M n sgnd)"
  "safe (exec_load_message_addr A L M quiet)" "safe (exec_parse_message_addr L M quiet)"
  unfolding exec_load_var_integer_def exec_store_var_integer_def exec_load_message_addr_def
    exec_parse_message_addr_def
  by (intro safe_rules calm_rules calm_addr_result | (split sum.split, intro conjI allI impI))+

lemma rewrite_addr_lenient: "lenient (exec_rewrite_message_addr A L M var q)"
proof -
  let ?he = "\<lambda>e. if q then st_op (push_bool False) else vm_fail (CellError e) :: ('a, 'b, 'c, int) vm"
  let ?fi = "\<lambda>w x. st_op (thn (push_int w) (thn (push_raw x) (if q then push_bool True else ret ())))
    :: ('a, 'b, 'c, int) vm"
  have he: "lenient (?he e)" and fi: "lenient (?fi w x)" for e w x
    by (intro safe_lenient safe_rules calm_rules)+
  have v: "lenient (bnd (attempt (rewrite_addr_var A L addr pfx)) (\<lambda>r. case r of Inl e \<Rightarrow> ?he e
    | Inr k \<Rightarrow> ?fi w (VSlice k)))" for addr pfx w
  proof (rule lenient_attempt[OF rewrite_addr_var_metered], goal_cases)
    case (1 r)
    show ?case by (cases r) (simp_all only: sum.case he fi)
  next
    case 2
    show ?case unfolding sum.case by (intro mild_rules calm_rules)
  qed
  have "lenient (case parse_message_addr L M ver cs of
           Inl e \<Rightarrow> ?he e
         | Inr parts \<Rightarrow> (case rewrite_parts parts of
             Inl e \<Rightarrow> ?he e
           | Inr (pfx, w, addr) \<Rightarrow>
               if var then bnd (attempt (rewrite_addr_var A L addr pfx)) (\<lambda>r. case r of
                   Inl e \<Rightarrow> ?he e | Inr k \<Rightarrow> ?fi w (VSlice k))
               else (case rewrite_addr_std A L M addr pfx of Inl e \<Rightarrow> ?he e | Inr x \<Rightarrow> ?fi w (VInt x))))" for ver cs
    by (intro lenient_if he fi v | (split sum.split, intro conjI allI impI) | (split prod.split, intro allI impI))+
  then show ?thesis
    unfolding exec_rewrite_message_addr_def Let_def
    by (intro lenient_after[OF vm.upholds_gets] lenient_after[OF safe_on_stack] calm_rules)
qed

end
