(* ===== verification/ConfigOps.thy ===== *)
theory ConfigOps
  imports InstrLib
begin

text \<open>
  \<open>vm/src/instr/configops.rs\<close>: the items of the tuple in \<open>c7\<close> (time, balance, configuration, incoming
  message), the fees computed from the unpacked configuration, and global variables. The \<open>Display\<close>
  implementations of the operands are output only.
\<close>

section \<open>Items of c7\<close>

definition BALANCE_IDX :: nat where "BALANCE_IDX = 7"
definition CONFIG_IDX :: nat where "CONFIG_IDX = 9"
definition PREV_BLOCKS_IDX :: nat where "PREV_BLOCKS_IDX = 13"
definition PARSED_CONFIG_IDX :: nat where "PARSED_CONFIG_IDX = 14"
definition PRECOMPILED_GAS_IDX :: nat where "PRECOMPILED_GAS_IDX = 16"
definition IN_MSG_PARAMS_IDX :: nat where "IN_MSG_PARAMS_IDX = 17"
definition CONFIG_KEY_BITS :: nat where "CONFIG_KEY_BITS = 32"

text \<open>\<open>try_get_ref::<V>(index)\<close>, with the cast of \<open>V\<close>.\<close>

definition try_get_ref ::
    "(('c, 's, 'b) sval \<Rightarrow> vm_error + 'a) \<Rightarrow> ('c, 's, 'b) sval list \<Rightarrow> nat \<Rightarrow> vm_error + 'a" where
  "try_get_ref cast t i = (case tuple_try_get t i of Inl e \<Rightarrow> Inl e | Inr v \<Rightarrow> cast v)"

definition c7_params :: "('c, 's, 'b, ('c, 's, 'b) sval list) vm" where
  "c7_params = bnd (gets cr) (\<lambda>r. lift_res VmErr (get_c7_params r))"

definition require_version :: "nat \<Rightarrow> ('c, 's, 'b, unit) vm" where
  "require_version lo = bnd (gets version) (\<lambda>v. lift_res VmErr (require_ton lo v))"

definition get_and_push_param :: "nat \<Rightarrow> ('c, 's, 'b, int) vm" where
  "get_and_push_param index =
     bnd c7_params (\<lambda>t. bnd (lift_res VmErr (tuple_try_get t index)) (\<lambda>v. st_op (push_raw v)))"

definition get_and_push_in_msg_param :: "nat \<Rightarrow> ('c, 's, 'b, int) vm" where
  "get_and_push_in_msg_param index =
     bnd c7_params (\<lambda>t1.
     bnd (lift_res VmErr (try_get_ref into_tuple t1 IN_MSG_PARAMS_IDX)) (\<lambda>ps.
     bnd (lift_res VmErr (tuple_try_get ps index)) (\<lambda>v. st_op (push_raw v))))"

definition get_parsed_config :: "('c, 's, 'b, ('c, 's, 'b) sval list) vm" where
  "get_parsed_config = bnd c7_params (\<lambda>t. lift_res VmErr (try_get_tuple_range t PARSED_CONFIG_IDX 0 255))"

definition exec_get_param :: "nat \<Rightarrow> ('c, 's, 'b, int) vm" where
  "exec_get_param i = get_and_push_param i"

definition exec_get_config_dict :: "('c, 's, 'b, int) vm" where
  "exec_get_config_dict = thn (get_and_push_param CONFIG_IDX) (st_op (push_int (int CONFIG_KEY_BITS)))"

definition exec_get_config_param ::
    "('c, 's) api \<Rightarrow> ('c, 's, 'b) cell_lib \<Rightarrow> ('c, 's, 'b) instr_lib \<Rightarrow> bool \<Rightarrow> ('c, 's, 'b, int) vm" where
  "exec_get_config_param A L M opt =
     bnd (on_stack pop_int) (\<lambda>idx.
     thn (get_and_push_param CONFIG_IDX)
    (bnd (on_stack pop_cell_opt) (\<lambda>dict.
     bnd (lift_res cell_fault (b_store_bigint M (b_new L) idx CONFIG_KEY_BITS True)) (\<lambda>b.
     bnd (on_gas (run_read A (dict_get M dict CONFIG_KEY_BITS (b_as_data_slice M b)))) (\<lambda>found.
     bnd (case found of
            None \<Rightarrow> ret None
          | Some cs \<Rightarrow> bnd (lift_res cell_fault (sl_load_reference L cs)) (\<lambda>(c, _). ret (Some c))) (\<lambda>param.
     if opt then st_op (push_opt_raw (map_option VCell param))
     else (case param of
         Some c \<Rightarrow> st_op (thn (push_raw (VCell c)) (push_bool True))
       | None \<Rightarrow> st_op (push_bool False))))))))"

definition exec_get_prev_blocks_info :: "nat \<Rightarrow> ('c, 's, 'b, int) vm" where
  "exec_get_prev_blocks_info i =
     thn (require_version 4)
    (bnd c7_params (\<lambda>t1.
     bnd (lift_res VmErr (try_get_tuple_range t1 PREV_BLOCKS_IDX 0 255)) (\<lambda>t2.
     bnd (lift_res VmErr (tuple_try_get t2 (take_bit 2 i))) (\<lambda>v. st_op (push_raw v)))))"

text \<open>The global id: of the modifiers, of the unpacked configuration, or of configuration parameter 19.\<close>

definition global_id ::
    "('c, 's) api \<Rightarrow> ('c, 's, 'b) cell_lib \<Rightarrow> ('c, 's, 'b) instr_lib \<Rightarrow> ('c, 's, 'b, int) vm" where
  "global_id A L M =
     bnd (gets modifiers) (\<lambda>m. bnd (gets version) (\<lambda>v.
     case signature_with_id m of
       Some g \<Rightarrow> ret g
     | None \<Rightarrow>
         if is_ton 6 v then
           bnd get_parsed_config (\<lambda>t2.
           bnd (lift_res VmErr (try_get_ref into_cell_slice t2 1)) (\<lambda>cs.
           bnd (lift_res cell_fault (sl_load_u32 L cs)) (\<lambda>(n, _). ret (signed_take_bit 31 (int n)))))
         else
           bnd c7_params (\<lambda>t1.
           bnd (lift_res VmErr (try_get_ref into_cell t1 CONFIG_IDX)) (\<lambda>root.
           bnd (u32_key L M 19) (\<lambda>key.
           bnd (on_gas (run_read A (dict_get M (Some root) CONFIG_KEY_BITS key))) (\<lambda>found.
           case found of
             None \<Rightarrow> vm_fail (Unknown ''invalid global id config'')
           | Some cs \<Rightarrow>
               bnd (lift_res cell_fault (sl_load_reference L cs)) (\<lambda>(c, _).
               bnd (on_gas (load_cell_impl A LoadFull c)) (\<lambda>c'.
               bnd (lift_res cell_fault (parse_u32 M c')) (\<lambda>n. ret (signed_take_bit 31 (int n)))))))))))"

definition exec_get_global_id ::
    "('c, 's) api \<Rightarrow> ('c, 's, 'b) cell_lib \<Rightarrow> ('c, 's, 'b) instr_lib \<Rightarrow> ('c, 's, 'b, int) vm" where
  "exec_get_global_id A L M =
     thn (require_version 4) (bnd (global_id A L M) (\<lambda>g. st_op (push_int g)))"

section \<open>Fees\<close>

abbreviation pop_u64 :: "('c, 's, 'b, nat) vm" where
  "pop_u64 \<equiv> on_stack (pop_long_range 0 (2 ^ 64 - 1))"

text \<open>A price table of the unpacked configuration: of the masterchain or of the base chain.\<close>

definition config_prices :: "('s \<Rightarrow> cell_error + 'a) \<Rightarrow> nat \<Rightarrow> ('c, 's, 'b, 'a) vm" where
  "config_prices load i =
     bnd get_parsed_config (\<lambda>t2.
     bnd (lift_res VmErr (try_get_ref into_cell_slice t2 i)) (\<lambda>cs. lift_res cell_fault (load cs)))"

definition exec_get_gas_fee :: "('c, 's, 'b) instr_lib \<Rightarrow> ('c, 's, 'b, int) vm" where
  "exec_get_gas_fee M =
     thn (require_version 6)
    (bnd (on_stack pop_bool) (\<lambda>mc. bnd pop_u64 (\<lambda>g.
     bnd (config_prices (load_gas_prices M) (if mc then 2 else 3)) (\<lambda>p.
     st_op (push_int (int (gas_fee_of M p g)))))))"

definition exec_get_storage_fee :: "('c, 's, 'b) instr_lib \<Rightarrow> ('c, 's, 'b, int) vm" where
  "exec_get_storage_fee M =
     thn (require_version 6)
    (bnd (on_stack pop_bool) (\<lambda>mc.
     bnd pop_u64 (\<lambda>delta. bnd pop_u64 (\<lambda>bits. bnd pop_u64 (\<lambda>cells.
     bnd get_parsed_config (\<lambda>t2.
     case t2 of
       VSlice cs # _ \<Rightarrow> bnd (lift_res cell_fault (load_storage_prices M cs)) (\<lambda>p.
         st_op (push_int (int (storage_fee_of M p mc delta bits cells))))
     | _ \<Rightarrow> st_op push_zero))))))"

definition exec_get_forward_fee :: "('c, 's, 'b) instr_lib \<Rightarrow> ('c, 's, 'b, int) vm" where
  "exec_get_forward_fee M =
     thn (require_version 6)
    (bnd (on_stack pop_bool) (\<lambda>mc. bnd pop_u64 (\<lambda>bits. bnd pop_u64 (\<lambda>cells.
     bnd (config_prices (load_fwd_prices M) (if mc then 4 else 5)) (\<lambda>p.
     st_op (push_int (int (forward_fee_of M p bits cells))))))))"

definition exec_get_precompiled_gas :: "('c, 's, 'b, int) vm" where
  "exec_get_precompiled_gas = thn (require_version 6) (get_and_push_param PRECOMPILED_GAS_IDX)"

text \<open>
  \<open>(1 << 16) - first_frac\<close> is at least 1, since \<open>first_frac\<close> is a \<open>u16\<close>. The quotient goes back on
  the stack with \<open>push_raw\<close>, without the check of \<open>push_raw_int\<close>. The bounds in the error are \<open>u64\<close> values as \<open>isize\<close>.
\<close>

definition exec_get_original_fwd_fee :: "('c, 's, 'b) instr_lib \<Rightarrow> ('c, 's, 'b, int) vm" where
  "exec_get_original_fwd_fee M =
     thn (require_version 6)
    (bnd (on_stack pop_bool) (\<lambda>mc. bnd (on_stack pop_int) (\<lambda>fee.
     thn (vm_ensure (0 \<le> fee) (IntegerOutOfRange 0 (-1) fee))
    (bnd (config_prices (load_fwd_prices M) (if mc then 4 else 5)) (\<lambda>p.
     st_op (push_raw (VInt (push_bit 16 fee div (2 ^ 16 - int (first_frac p))))))))))"

definition exec_get_gas_fee_simple :: "('c, 's, 'b) instr_lib \<Rightarrow> ('c, 's, 'b, int) vm" where
  "exec_get_gas_fee_simple M =
     thn (require_version 6)
    (bnd (on_stack pop_bool) (\<lambda>mc. bnd pop_u64 (\<lambda>g.
     bnd (config_prices (load_gas_prices M) (if mc then 2 else 3)) (\<lambda>p.
     st_op (push_int (int (shift_ceil_price (g * gas_unit_price p))))))))"

definition exec_get_forward_fee_simple :: "('c, 's, 'b) instr_lib \<Rightarrow> ('c, 's, 'b, int) vm" where
  "exec_get_forward_fee_simple M =
     thn (require_version 6)
    (bnd (on_stack pop_bool) (\<lambda>mc. bnd pop_u64 (\<lambda>bits. bnd pop_u64 (\<lambda>cells.
     bnd (config_prices (load_fwd_prices M) (if mc then 4 else 5)) (\<lambda>p.
     st_op (push_int (int (shift_ceil_price (min (2 ^ 128 - 1) (cells * cell_price p + bits * bit_price p))))))))))"

text \<open>
  The first calls read the dictionary of extra currencies on the capped consumer. \<open>RawDict::get_ext\<close> is
  \<open>dict_get\<close> on its root.
\<close>

definition exec_get_extra_currency_balance ::
    "('c, 's) api \<Rightarrow> ('c, 's, 'b) cell_lib \<Rightarrow> ('c, 's, 'b) instr_lib \<Rightarrow> ('c, 's, 'b, int) vm" where
  "exec_get_extra_currency_balance A L M =
     thn (require_version 10)
    (bnd (on_stack (pop_smallint_range 0 (2 ^ 32 - 1))) (\<lambda>i.
     bnd c7_params (\<lambda>t1.
     bnd (lift_res VmErr (try_get_tuple_range t1 BALANCE_IDX 0 255)) (\<lambda>bal.
     let root = (if 1 < length bal then (case bal ! 1 of VCell c \<Rightarrow> Some c | _ \<Rightarrow> None) else None);
         key = b_as_data_slice M (or_same (b_store_u32 L (b_new L) i) (b_new L));
         lookup = dict_get M root 32 key
     in bnd (gets (fst \<circ> try_get_extra_balance_consumer \<circ> gas)) (\<lambda>cheap.
        thn (modify (\<lambda>st. st\<lparr>gas := snd (try_get_extra_balance_consumer (gas st))\<rparr>))
       (bnd (on_gas (case cheap of
            Some n \<Rightarrow> with_limited n (run_limited A lookup)
          | None \<Rightarrow> run_read A lookup)) (\<lambda>found.
        case found of
          Some cs \<Rightarrow> bnd (lift_res cell_fault (sl_load_var_bigint M cs 5 False)) (\<lambda>(x, _). st_op (push_int x))
        | None \<Rightarrow> st_op push_zero)))))))"

section \<open>Global variables\<close>

definition get_global_common :: "nat \<Rightarrow> ('c, 's, 'b, int) vm" where
  "get_global_common index = bnd (gets (reg_c7 \<circ> cr)) (\<lambda>c7. case c7 of
      None \<Rightarrow> st_op push_null
    | Some t \<Rightarrow> st_op (push_opt_raw (if index < length t then Some (t ! index) else None)))"

text \<open>The new value of \<open>c7\<close>, or \<open>None\<close> when a null would go beyond its end.\<close>

definition set_global_tuple ::
    "('c, 's, 'b) sval list option \<Rightarrow> nat \<Rightarrow> ('c, 's, 'b) sval \<Rightarrow> ('c, 's, 'b) sval list option" where
  "set_global_tuple c7 index v = (case c7 of
      None \<Rightarrow> if is_null v then None else Some ((replicate (index + 1) VNull)[index := v])
    | Some t \<Rightarrow>
        if length t \<le> index \<and> is_null v then None
        else Some ((if length t \<le> index then resize (index + 1) VNull t else t)[index := v]))"

definition set_global_common :: "nat \<Rightarrow> ('c, 's, 'b, int) vm" where
  "set_global_common index =
     bnd (on_stack pop) (\<lambda>v.
     thn (vm_ensure (index < 255) (IntegerOutOfRange 0 255 (int index)))
    (bnd (gets (reg_c7 \<circ> cr)) (\<lambda>c7.
     case set_global_tuple c7 index v of
       None \<Rightarrow> thn (on_gas (try_consume_tuple_gas 0)) (ret 0)
     | Some t \<Rightarrow>
         thn (modify (\<lambda>st. st\<lparr>cr := set_c7 t (cr st)\<rparr>))
        (thn (on_gas (try_consume_tuple_gas (length t))) (ret 0)))))"

definition exec_get_global_var :: "('c, 's, 'b, int) vm" where
  "exec_get_global_var = bnd (on_stack (pop_smallint_range 0 254)) get_global_common"

definition exec_get_global :: "nat \<Rightarrow> ('c, 's, 'b, int) vm" where
  "exec_get_global i = get_global_common i"

definition exec_set_global_var :: "('c, 's, 'b, int) vm" where
  "exec_set_global_var = bnd (on_stack (pop_smallint_range 0 254)) set_global_common"

definition exec_set_global :: "nat \<Rightarrow> ('c, 's, 'b, int) vm" where
  "exec_set_global i = set_global_common i"

definition exec_get_param_long :: "nat \<Rightarrow> ('c, 's, 'b, int) vm" where
  "exec_get_param_long i = thn (require_version 11) (get_and_push_param i)"

definition exec_get_in_msg_param :: "nat \<Rightarrow> ('c, 's, 'b, int) vm" where
  "exec_get_in_msg_param i = thn (require_version 11) (get_and_push_in_msg_param i)"

section \<open>The invariant\<close>

lemma safe_config_helpers [safe_rules]:
  "safe c7_params" "safe (require_version n)" "safe (get_and_push_param i)"
  "safe (get_and_push_in_msg_param i)" "safe get_parsed_config" "safe (config_prices load i)"
  unfolding c7_params_def require_version_def get_and_push_param_def get_and_push_in_msg_param_def
    get_parsed_config_def config_prices_def
  by (intro safe_rules calm_rules)+

lemma safe_globals [safe_rules]: "safe (get_global_common i)" "safe (set_global_common i)"
  unfolding get_global_common_def set_global_common_def by (intro safe_rules calm_rules)+

lemma safe_extra_consumer:
  "safe (modify (\<lambda>st. st\<lparr>gas := snd (try_get_extra_balance_consumer (gas st))\<rparr>))"
  by (rule safe_modify)
    (auto simp: try_get_extra_balance_consumer_def Let_def good_def parent_meters_def parents_ok_def
      intro: meter_inv_free)

lemma cheap_consumer_metered:
  assumes "\<And>n. r = Some n \<Longrightarrow> 0 \<le> n"
  shows "upholds meter_inv meter_err (case r of Some n \<Rightarrow> with_limited n (run_limited A p) | None \<Rightarrow> run_read A p)"
  using assms by (cases r) (auto intro: safe_rules)

lemma configops_safe:
  "safe (exec_get_param i)" "safe exec_get_config_dict" "safe (exec_get_config_param A L M opt)"
  "safe (exec_get_prev_blocks_info i)" "safe (exec_get_gas_fee M)" "safe (exec_get_storage_fee M)"
  "safe (exec_get_forward_fee M)" "safe exec_get_precompiled_gas" "safe (exec_get_original_fwd_fee M)"
  "safe (exec_get_gas_fee_simple M)" "safe (exec_get_forward_fee_simple M)"
  "safe exec_get_global_var" "safe (exec_get_global i)" "safe exec_set_global_var" "safe (exec_set_global i)"
  "safe (exec_get_param_long i)" "safe (exec_get_in_msg_param i)"
  unfolding exec_get_param_def exec_get_config_dict_def exec_get_config_param_def exec_get_prev_blocks_info_def
    exec_get_gas_fee_def exec_get_storage_fee_def exec_get_forward_fee_def exec_get_precompiled_gas_def
    exec_get_original_fwd_fee_def exec_get_gas_fee_simple_def exec_get_forward_fee_simple_def
    exec_get_global_var_def exec_get_global_def exec_set_global_var_def exec_set_global_def
    exec_get_param_long_def exec_get_in_msg_param_def
  by (intro safe_rules calm_rules | (split list.split, intro conjI allI impI)
      | (split sval.split, intro conjI allI impI))+

lemma exec_get_global_id_safe:
  assumes "keys_fit L"
  shows "safe (exec_get_global_id A L M)"
  unfolding exec_get_global_id_def global_id_def
  by (intro safe_rules calm_rules safe_u32_key[OF assms])

lemma exec_get_extra_balance_safe: "safe (exec_get_extra_currency_balance A L M)"
proof -
  have cheap: "0 \<le> n" if "(fst \<circ> try_get_extra_balance_consumer \<circ> gas) st = Some n" for st n
    using that by (auto simp: try_get_extra_balance_consumer_def Let_def CHEAP_GET_BALANCE_GAS_THRESHOLD_def
        split: if_splits)
  note read = cheap_consumer_metered[OF cheap]
  have "safe (bnd (gets (fst \<circ> try_get_extra_balance_consumer \<circ> gas)) (\<lambda>cheap.
      thn (modify (\<lambda>st. st\<lparr>gas := snd (try_get_extra_balance_consumer (gas st))\<rparr>))
     (bnd (on_gas (case cheap of
          Some n \<Rightarrow> with_limited n (run_limited A lookup)
        | None \<Rightarrow> run_read A lookup)) (\<lambda>found.
      case found of
        Some cs \<Rightarrow> bnd (lift_res cell_fault (sl_load_var_bigint M cs 5 False)) (\<lambda>(x, _). st_op (push_int x))
      | None \<Rightarrow> st_op push_zero))) :: ('a, 'b, 'c, int) vm)" for lookup
    by (intro safe_gets_value vm.upholds_thn vm.upholds_bnd safe_extra_consumer safe_on_gas read)
      (assumption | intro safe_rules calm_rules)+
  then show ?thesis
    unfolding exec_get_extra_currency_balance_def
    by (intro vm.upholds_thn[OF safe_config_helpers(2)] vm.upholds_bnd[OF safe_on_stack]
        vm.upholds_bnd[OF safe_config_helpers(1)] vm.upholds_bnd[OF safe_lift(1)] vm.upholds_let calm_rules)
qed

end
