(* ===== verification/CryptOps.thy ===== *)
theory CryptOps
  imports ConfigOps
begin

text \<open>
  \<open>vm/src/instr/cryptops.rs\<close>: hashes of cells, slices and concatenated inputs, and Ed25519 signatures.
  The hash functions and the signature scheme are fields of \<open>instr_lib\<close>; how their inputs are cut into
  bytes, charged and checked is the program's.
\<close>

section \<open>Hashes of one value\<close>

datatype hash_source = HashCell | HashSlice

definition exec_compute_hash ::
    "('c, 's) api \<Rightarrow> ('c, 's, 'b) cell_lib \<Rightarrow> hash_source \<Rightarrow> ('c, 's, 'b, int) vm" where
  "exec_compute_hash A L src =
     bnd (case src of
            HashCell \<Rightarrow> on_stack pop_cell
          | HashSlice \<Rightarrow> bnd (on_stack pop_cs) (\<lambda>cs. on_gas (build_from_slice_ext L cs))) (\<lambda>cell.
     st_op (push_int (uint (cell_repr_hash A cell))))"

definition exec_compute_sha256 ::
    "('c, 's) api \<Rightarrow> ('c, 's, 'b) cell_lib \<Rightarrow> ('c, 's, 'b) instr_lib \<Rightarrow> ('c, 's, 'b, int) vm" where
  "exec_compute_sha256 A L M = st_op (bnd pop_cs (\<lambda>cs.
     let data_bits = slice_size_bits A cs in
     thn (vm_ensure (data_bits mod 8 = 0) (CellError ECellUnderflow))
    (bnd (lift_res cell_fault (sl_load_raw L cs data_bits)) (\<lambda>(bytes, _).
     push_int (int (bi_from_bytes_be L (sha256 M bytes)))))))"

section \<open>Hashes of several values\<close>

text \<open>
  \<open>HashInputReader\<close>: the inputs are bit strings that need not be whole bytes; \<open>hr_rem_bits\<close> bits of an
  unfinished byte are kept at the top of \<open>hr_prev_byte\<close>.
\<close>

record hash_reader =
  hr_total_bits :: nat
  hr_gas_consumed :: nat
  hr_rem_bits :: nat
  hr_prev_byte :: nat

definition hash_reader_new :: hash_reader where
  "hash_reader_new = \<lparr>hr_total_bits = 0, hr_gas_consumed = 0, hr_rem_bits = 0, hr_prev_byte = 0\<rparr>"

definition load_rest ::
    "('c, 's, 'b) cell_lib \<Rightarrow> 's \<Rightarrow> nat \<Rightarrow> nat list \<Rightarrow> hash_reader \<Rightarrow> cell_error + nat list \<times> hash_reader" where
  "load_rest L data data_bits first r = (case sl_load_raw L data data_bits of
      Inl e \<Rightarrow> Inl e
    | Inr (bytes, _) \<Rightarrow>
        let byte_len = data_bits div 8; rem_bits = data_bits mod 8 in
        Inr (first @ take byte_len bytes,
             r\<lparr>hr_rem_bits := rem_bits, hr_prev_byte := (if rem_bits = 0 then 0 else bytes ! byte_len)\<rparr>))"

definition load_bytes ::
    "('c, 's) api \<Rightarrow> ('c, 's, 'b) cell_lib \<Rightarrow> ('c, 's, 'b) instr_lib \<Rightarrow> 's \<Rightarrow> hash_reader
      \<Rightarrow> cell_error + nat list \<times> hash_reader" where
  "load_bytes A L M data r0 =
     (let data_bits = slice_size_bits A data;
          r = r0\<lparr>hr_total_bits := hr_total_bits r0 + data_bits\<rparr>
      in if hr_rem_bits r \<noteq> 0 then
           let align = 8 - hr_rem_bits r in
           if data_bits < align then
             (case sl_load_small_uint M data data_bits of
                Inl e \<Rightarrow> Inl e
              | Inr (v, _) \<Rightarrow> Inr ([], r\<lparr>hr_rem_bits := hr_rem_bits r + data_bits,
                  hr_prev_byte := or (hr_prev_byte r) (take_bit 8 (push_bit (align - data_bits) v))\<rparr>))
           else
             (case sl_load_small_uint M data align of
                Inl e \<Rightarrow> Inl e
              | Inr (v, data') \<Rightarrow> load_rest L data' (data_bits - align) [or (hr_prev_byte r) v] r)
         else if 1 \<le> data_bits \<and> data_bits < 8 then
           (case sl_load_small_uint M data data_bits of
              Inl e \<Rightarrow> Inl e
            | Inr (v, _) \<Rightarrow> Inr ([], r\<lparr>hr_rem_bits := data_bits,
                hr_prev_byte := take_bit 8 (push_bit (8 - data_bits) v)\<rparr>))
         else load_rest L data data_bits [] r)"

definition get_data_slice ::
    "('c, 's, 'b) instr_lib \<Rightarrow> nat \<Rightarrow> bool \<Rightarrow> nat \<Rightarrow> ('c, 's, 'b, 's) vm" where
  "get_data_slice M cnt rev_order index =
     bnd (on_stack (fetch (if rev_order then index else cnt - 1 - index))) (\<lambda>v. case v of
       VSlice cs \<Rightarrow> ret cs
     | VBuilder b \<Rightarrow> ret (b_as_data_slice M b)
     | _ \<Rightarrow> vm_fail (InvalidType TySlice (ty v)))"

text \<open>
  The bytes of all inputs, in the order they are hashed. Before an input is used, one unit per input
  and one per \<open>bytes_per_gas\<close> bytes is charged for all the inputs so far, less what was charged before.
\<close>

primrec read_hash_input ::
    "('c, 's) api \<Rightarrow> ('c, 's, 'b) cell_lib \<Rightarrow> ('c, 's, 'b) instr_lib \<Rightarrow> nat \<Rightarrow> nat \<Rightarrow> bool \<Rightarrow> nat \<Rightarrow> nat \<Rightarrow> hash_reader
      \<Rightarrow> ('c, 's, 'b, nat list) vm" where
  "read_hash_input A L M bytes_per_gas cnt rev_order 0 index r =
     (if hr_rem_bits r \<noteq> 0 then vm_fail (CellError ECellUnderflow) else ret [])"
| "read_hash_input A L M bytes_per_gas cnt rev_order (Suc n) index r =
     bnd (get_data_slice M cnt rev_order index) (\<lambda>data.
     bnd (lift_res cell_fault (load_bytes A L M data r)) (\<lambda>(chunk, r1).
     let gas_total = (index + 1) * nat HASH_EXT_ENTRY_GAS_PRICE + hr_total_bits r1 div 8 div bytes_per_gas in
     thn (on_gas (try_consume (int (gas_total - hr_gas_consumed r1))))
    (bnd (read_hash_input A L M bytes_per_gas cnt rev_order n (index + 1) (r1\<lparr>hr_gas_consumed := gas_total\<rparr>)) (\<lambda>rest.
     ret (chunk @ rest)))))"

definition compute_hash_ext ::
    "('c, 's) api \<Rightarrow> ('c, 's, 'b) cell_lib \<Rightarrow> ('c, 's, 'b) instr_lib \<Rightarrow> nat \<Rightarrow> nat \<Rightarrow> bool \<Rightarrow> ('c, 's, 'b, nat list) vm" where
  "compute_hash_ext A L M hash_id cnt rev_order =
     (let hash = (\<lambda>bytes_per_gas h.
            bnd (read_hash_input A L M bytes_per_gas cnt rev_order cnt 0 hash_reader_new) (\<lambda>bs. ret (h bs)))
      in if hash_id = 0 then hash 33 (sha256 M)
         else if hash_id = 1 then hash 16 (sha512 M)
         else if hash_id = 2 then hash 19 (blake2b512 M)
         else vm_fail (IntegerOutOfRange 0 0 (int hash_id)))"

text \<open>\<open>hash.chunks(32)\<close>\<close>

fun chunks32 :: "nat list \<Rightarrow> nat list list" where
  "chunks32 [] = []"
| "chunks32 (b # bs) = take 32 (b # bs) # chunks32 (drop 31 bs)"

definition exec_hash_ext ::
    "('c, 's) api \<Rightarrow> ('c, 's, 'b) cell_lib \<Rightarrow> ('c, 's, 'b) instr_lib \<Rightarrow> bool \<Rightarrow> bool \<Rightarrow> nat \<Rightarrow> ('c, 's, 'b, int) vm" where
  "exec_hash_ext A L M p r i0 =
     thn (require_version 4)
    (bnd (if i0 = 255 then on_stack (pop_smallint_range 0 254) else ret i0) (\<lambda>i.
     bnd (gets (depth \<circ> stack)) (\<lambda>d.
     bnd (on_stack (pop_smallint_range 0 (min (d - 1) (2 ^ 32 - 1)))) (\<lambda>cnt.
     bnd (compute_hash_ext A L M i cnt r) (\<lambda>hash.
     thn (on_stack (pop_many cnt))
    (if p then
       st_op (bnd pop_builder (\<lambda>b.
         bnd (lift_res cell_fault (b_store_raw L b hash (length hash * 8))) (\<lambda>b'. push_raw (VBuilder b'))))
     else if length hash \<le> 32 then st_op (push_int (int (bi_from_bytes_be L hash)))
     else st_op (push_raw (VTuple (map (\<lambda>c. VInt (int (bi_from_bytes_be L c))) (chunks32 hash))))))))))"

section \<open>Signatures\<close>

text \<open>\<open>ToSign\<close>: the id of the network, when it is used, in front of the data.\<close>

definition be_bytes_i32 :: "int \<Rightarrow> nat list" where
  "be_bytes_i32 x = map (\<lambda>i. nat (take_bit 8 (drop_bit (8 * i) x))) [3, 2, 1, 0]"

definition to_sign :: "int option \<Rightarrow> nat list \<Rightarrow> nat list" where
  "to_sign signature_id data = (case signature_id of Some i \<Rightarrow> be_bytes_i32 i @ data | None \<Rightarrow> data)"

definition pop_signed_data ::
    "('c, 's) api \<Rightarrow> ('c, 's, 'b) cell_lib \<Rightarrow> bool \<Rightarrow> (('c, 's, 'b) stk, fault, nat list) act" where
  "pop_signed_data A L from_slice =
     (if from_slice then
        bnd pop_cs (\<lambda>cs.
        let cs_bits = slice_size_bits A cs in
        thn (vm_ensure (cs_bits mod 8 = 0) (CellError ECellUnderflow))
       (bnd (lift_res cell_fault (sl_load_raw L cs cs_bits)) (\<lambda>(bytes, _). ret (take (cs_bits div 8) bytes))))
      else
        bnd pop_int (\<lambda>x.
        thn (vm_ensure (0 \<le> x) (IntegerOutOfRange 0 i64_max x)) (ret (pad_left 32 (magnitude_be L x)))))"

definition exec_ed25519_check_signature ::
    "('c, 's) api \<Rightarrow> ('c, 's, 'b) cell_lib \<Rightarrow> ('c, 's, 'b) instr_lib \<Rightarrow> bool \<Rightarrow> bool \<Rightarrow> ('c, 's, 'b, int) vm" where
  "exec_ed25519_check_signature A L M from_slice can_use_id =
     bnd (on_stack pop_int) (\<lambda>key.
     bnd (on_stack pop_cs) (\<lambda>signature_cs.
     bnd (on_stack (pop_signed_data A L from_slice)) (\<lambda>data.
     bnd (lift_res cell_fault (sl_load_raw L signature_cs 512)) (\<lambda>(signature, _).
     thn (vm_ensure (0 \<le> key) (IntegerOutOfRange 0 i64_max key))
    (thn (on_gas try_consume_check_signature_gas)
    (bnd (gets modifiers) (\<lambda>m.
     let key_bytes = rev (resize 32 0 (bi_to_bytes_le L key));
         signature_id = (if can_use_id then signature_with_id m else None);
         is_valid = (case ed25519 M key_bytes of
            None \<Rightarrow> False
          | Some verify \<Rightarrow> verify (to_sign signature_id data) signature)
     in st_op (push_bool (is_valid \<or> chksig_always_succeed m)))))))))"

section \<open>The invariant\<close>

lemma safe_get_data_slice [safe_rules]: "safe (get_data_slice M cnt rev_order index)"
  unfolding get_data_slice_def
  by (intro safe_rules calm_rules | (split sval.split, intro conjI allI impI))+

lemma safe_read_hash_input [safe_rules]:
  "safe (read_hash_input A L M bytes_per_gas cnt rev_order n index r)"
proof (induction n arbitrary: index r)
  case (Suc n)
  show ?case unfolding read_hash_input.simps Let_def by (intro safe_rules Suc.IH) simp
qed (auto intro!: safe_rules)

lemma safe_compute_hash_ext [safe_rules]: "safe (compute_hash_ext A L M hash_id cnt rev_order)"
  unfolding compute_hash_ext_def Let_def by (intro safe_rules)

lemma calm_signed_data [calm_rules]: "calm (pop_signed_data A L from_slice)"
  unfolding pop_signed_data_def by (intro calm_rules)

lemma safe_signature_gas [safe_rules]: "safe (on_gas try_consume_check_signature_gas)"
  by (intro safe_on_gas signature_gas_metered)

lemma cryptops_safe:
  "safe (exec_compute_hash A L src)" "safe (exec_compute_sha256 A L M)" "safe (exec_hash_ext A L M p r i)"
  "safe (exec_ed25519_check_signature A L M from_slice can_use_id)"
  unfolding exec_compute_hash_def exec_compute_sha256_def exec_hash_ext_def exec_ed25519_check_signature_def
  by (intro safe_rules calm_rules | (split hash_source.split, intro conjI impI))+

end
