(* ===== verification/CellSpec.thy ===== *)
theory CellSpec
  imports CellOps
begin

text \<open>
  What the cell instructions promise over a library of cells that are bit strings with
  references. The locale states the documented behaviour of the slices and builders of
  \<open>everscale_types\<close> the instructions rely on; the theory \<open>RefCells\<close> interprets it.
\<close>

section \<open>The contract of the library\<close>

text \<open>
  \<open>sbits\<close> and \<open>srefs\<close> are what a slice still holds, \<open>bbits\<close> and \<open>brefs\<close> what a builder has
  collected, \<open>bplain\<close> that it was not marked exotic. A cell holds 1023 bits and 4 references. A slice stays in its
  cell however it is cut; \<open>CellSliceRange::apply\<close> (\<open>sl_apply\<close>) refuses the slices of exotic cells, which the VM
  otherwise reads through \<open>apply_allow_exotic\<close>.
\<close>

definition MAX_BITS :: nat where "MAX_BITS = 1023"
definition MAX_REFS :: nat where "MAX_REFS = 4"

definition slice_is :: "('s \<Rightarrow> bool list) \<Rightarrow> ('s \<Rightarrow> 'c list) \<Rightarrow> bool list \<Rightarrow> 'c list \<Rightarrow> cell_error + 's \<Rightarrow> bool" where
  "slice_is sbits srefs bs rs r \<longleftrightarrow> (\<exists>k. r = Inr k \<and> sbits k = bs \<and> srefs k = rs)"

text \<open>The data of a tagged constant, and the part of a list each range operation keeps.\<close>

definition strip_tag :: "bool list \<Rightarrow> bool list" where
  "strip_tag bs = rev (tl (dropWhile Not (rev bs)))"

lemma strip_tag_tagged: "strip_tag (bs @ True # replicate j False) = bs"
  by (simp add: strip_tag_def dropWhile_append3)

fun cut_list :: "slice_range_op \<Rightarrow> nat \<Rightarrow> 'a list \<Rightarrow> 'a list" where
  "cut_list CutFirst n xs = take n xs"
| "cut_list SkipFirst n xs = drop n xs"
| "cut_list CutLast n xs = drop (length xs - n) xs"
| "cut_list SkipLast n xs = take (length xs - n) xs"

locale bit_cells =
  fixes A :: "('c, 's) api" and L :: "('c, 's, 'b) cell_lib"
    and sbits :: "'s \<Rightarrow> bool list" and srefs :: "'s \<Rightarrow> 'c list"
    and bbits :: "'b \<Rightarrow> bool list" and brefs :: "'b \<Rightarrow> 'c list" and bplain :: "'b \<Rightarrow> bool"
  assumes bitsize_signed: "bitsize_ok A"
    and bitsize_unsigned: "0 \<le> x \<Longrightarrow> bitsize A x False \<le> n \<longleftrightarrow> x < 2 ^ n"
    and bigint_bytes: "bytes_ok L"
    and size_bits: "slice_size_bits A k = length (sbits k)"
    and size_refs: "slice_size_refs A k = length (srefs k)"
    and skip_first: "n \<le> length (sbits k) \<Longrightarrow> m \<le> length (srefs k) \<Longrightarrow>
      slice_is sbits srefs (drop n (sbits k)) (drop m (srefs k)) (slice_skip_first A k n m)"
    and only_first: "n \<le> length (sbits k) \<Longrightarrow> m \<le> length (srefs k) \<Longrightarrow>
      slice_is sbits srefs (take n (sbits k)) (take m (srefs k)) (sl_only_first L k n m)"
    and only_last: "n \<le> length (sbits k) \<Longrightarrow> m \<le> length (srefs k) \<Longrightarrow>
      slice_is sbits srefs (drop (length (sbits k) - n) (sbits k)) (drop (length (srefs k) - m) (srefs k))
        (sl_only_last L k n m)"
    and skip_last: "n \<le> length (sbits k) \<Longrightarrow> m \<le> length (srefs k) \<Longrightarrow>
      slice_is sbits srefs (take (length (sbits k) - n) (sbits k)) (take (length (srefs k) - m) (srefs k))
        (sl_skip_last L k n m)"
    and get_prefix: "n \<le> length (sbits k) \<Longrightarrow> m \<le> length (srefs k) \<Longrightarrow>
      sbits (sl_get_prefix L k n m) = take n (sbits k) \<and> srefs (sl_get_prefix L k n m) = take m (srefs k)"
    and apply_ordinary: "cell_kind A (slice_cell A k) = Ordinary \<Longrightarrow> sl_apply L k = Inr k"
    and apply_exotic: "cell_kind A (slice_cell A k) \<noteq> Ordinary \<Longrightarrow> \<exists>e. sl_apply L k = Inl e"
    and cell_skip_first: "slice_skip_first A k n m = Inr k' \<Longrightarrow> slice_cell A k' = slice_cell A k"
    and cell_only_first: "sl_only_first L k n m = Inr k' \<Longrightarrow> slice_cell A k' = slice_cell A k"
    and get_uint: "i + n \<le> length (sbits k) \<Longrightarrow> n \<le> 64 \<Longrightarrow>
      slice_get_uint A k i n = Inr (bits_value (take n (drop i (sbits k))))"
    and count_trailing: "sl_count_trailing L k t = Inr (length (takeWhile ((=) t) (rev (sbits k))))"
    and load_bigint: "n \<le> length (sbits k) \<Longrightarrow> \<exists>k'. slice_load_bigint A k n sgnd =
      Inr (bits_int sgnd (take n (sbits k)), k') \<and> sbits k' = drop n (sbits k) \<and> srefs k' = srefs k"
    and new_builder: "bbits (b_new L) = []" "brefs (b_new L) = []" "bplain (b_new L)"
    and has_capacity: "b_has_capacity L b n m \<longleftrightarrow>
      length (bbits b) + n \<le> MAX_BITS \<and> length (brefs b) + m \<le> MAX_REFS"
    and store_uint: "length (bbits b) + n \<le> MAX_BITS \<Longrightarrow> v < 2 ^ 64 \<Longrightarrow> \<exists>b'. b_store_uint L b v n = Inr b' \<and>
      bbits b' = bbits b @ to_bits n (int v) \<and> brefs b' = brefs b \<and> bplain b' = bplain b"
    and store_raw: "length (bbits b) + n \<le> MAX_BITS \<Longrightarrow> n \<le> 8 * length bs \<Longrightarrow> \<exists>b'. b_store_raw L b bs n = Inr b' \<and>
      bbits b' = bbits b @ take n (byte_bits bs) \<and> brefs b' = brefs b \<and> bplain b' = bplain b"
    and store_slice: "length (bbits b) + length (sbits k) \<le> MAX_BITS \<Longrightarrow>
      length (brefs b) + length (srefs k) \<le> MAX_REFS \<Longrightarrow> \<exists>b'. b_store_slice L b k = Inr b' \<and>
      bbits b' = bbits b @ sbits k \<and> brefs b' = brefs b @ srefs k \<and> bplain b' = bplain b"
    and build_cell: "bplain b \<Longrightarrow> brefs b = [] \<Longrightarrow> length (bbits b) \<le> MAX_BITS \<Longrightarrow>
      \<exists>parts c. b_prepare L b = Inr parts \<and> b_finalize L parts = Inr c \<and> cell_kind A c = Ordinary \<and>
        sbits (slice_of_cell A c) = bbits b \<and> srefs (slice_of_cell A c) = []"
begin

section \<open>Integers in builders and slices\<close>

lemma fits_bitsize: "int_fits sgnd n x \<Longrightarrow> bitsize A x sgnd \<le> n"
  using bitsize_signed bitsize_unsigned by (cases sgnd) (auto simp: int_fits_def bitsize_ok_def)

lemma store_int_value_bits:
  assumes "int_fits sgnd n x" and "length (bbits b) + n \<le> MAX_BITS"
  shows "\<exists>b'. store_int_value L b x n sgnd = Inr b' \<and> bbits b' = bbits b @ to_bits n x \<and>
    brefs b' = brefs b \<and> bplain b' = bplain b"
proof (cases "0 \<le> x \<and> x < 2 ^ 64")
  case True
  then have "nat x < 2 ^ 64" by (simp add: nat_less_iff)
  with True store_uint[OF assms(2)] show ?thesis by (fastforce simp: store_int_value_def)
next
  case False
  have s: "sgnd \<or> 0 \<le> x" using assms(1) by (auto simp: int_fits_def split: if_splits)
  have "n \<le> 8 * ((n + 7) div 8)" by simp
  then show ?thesis
    using False store_raw[OF assms(2), of "int_store_bytes L x n sgnd"] int_store_bytes_bits[OF bigint_bytes s, of n]
    by (auto simp: store_int_value_def)
qed

lemma fits_257: "int_fits sgnd n x \<Longrightarrow> n \<le> 256 + of_bool sgnd \<Longrightarrow> bitsize A x True \<le> 257"
proof -
  assume f: "int_fits sgnd n x" and n: "n \<le> 256 + of_bool sgnd"
  let ?m = "if sgnd then n - 1 else n"
  have "(2 :: int) ^ ?m \<le> 2 ^ 256" using n by (intro power_increasing) auto
  then have "fits_signed 257 x"
    using f by (auto simp: int_fits_def fits_signed_def split: if_splits)
  then show ?thesis using bitsize_signed by (simp add: bitsize_ok_def)
qed

lemma store_int_ok:
  assumes "stack st = xs @ [VInt x, VBuilder b]" and "length xs + 3 \<le> MAX_DEPTH"
    and "int_fits sgnd n x" and "n \<le> 256 + of_bool sgnd"
    and "length (bbits b) + n \<le> MAX_BITS" and "length (brefs b) \<le> MAX_REFS"
  shows "\<exists>b'. exec_store_int A L n sgnd st = (Inr 0, st\<lparr>stack := xs @ [VBuilder b']\<rparr>) \<and>
    bbits b' = bbits b @ to_bits n x \<and> brefs b' = brefs b \<and> bplain b' = bplain b"
proof -
  obtain b' where b': "store_int_value L b x n sgnd = Inr b'" "bbits b' = bbits b @ to_bits n x"
    "brefs b' = brefs b" "bplain b' = bplain b"
    using store_int_value_bits[OF assms(3,5)] by blast
  let ?args = "store_int_args sgnd"
  have args: "bit ?args 0 = (\<not> sgnd)" "\<not> bit ?args 2" "store_operands ?args x b = [VInt x, VBuilder b]"
    by (simp_all add: store_int_args_def store_operands_def bit_simps)
  have "exec_store_int_common A L n ?args (xs @ store_operands ?args x b) = (Inr (), xs @ [VBuilder b'])"
    unfolding store_int_common_eq[OF assms(2) fits_257[OF assms(3,4)]]
    using assms(5,6) b'(1) fits_bitsize[OF assms(3)] by (simp add: args has_capacity)
  then show ?thesis using b' assms(1) by (auto simp: exec_store_int_def args)
qed

lemma load_int_ok:
  assumes "stack st = xs @ [VSlice k]" and "length xs + 2 \<le> MAX_DEPTH" and "n \<le> length (sbits k)"
  shows "\<exists>k'. exec_load_int_fixed A n sgnd st =
      (Inr 0, st\<lparr>stack := xs @ [VInt (bits_int sgnd (take n (sbits k))), VSlice k']\<rparr>) \<and>
    sbits k' = drop n (sbits k) \<and> srefs k' = srefs k"
proof -
  obtain k' where k': "slice_load_bigint A k n sgnd = Inr (bits_int sgnd (take n (sbits k)), k')"
    "sbits k' = drop n (sbits k)" "srefs k' = srefs k"
    using load_bigint[OF assms(3), of sgnd] by blast
  have args: "bit (load_int_args sgnd) 0 = (\<not> sgnd)" "\<not> bit (load_int_args sgnd) (Suc 0)"
      "\<not> bit (load_int_args sgnd) 2"
    by (simp_all add: load_int_args_def bit_simps)
  have "exec_load_int_common A n (load_int_args sgnd) (xs @ [VSlice k]) =
      (Inr (), xs @ [VInt (bits_int sgnd (take n (sbits k))), VSlice k'])"
    using assms(2,3) k'(1)
    by (simp add: exec_load_int_common_def has_remaining_def size_bits finish_load_ok_def args
        push_int_def depth_def)
  then show ?thesis using k' assms(1) by (auto simp: exec_load_int_fixed_def)
qed

text \<open>Building an ordinary cell without references costs 500 gas, loading it at most 100.\<close>

lemma build_and_load:
  assumes "stack st = xs @ [VBuilder b]" and "length xs < MAX_DEPTH" and "gas_wf (gas st)"
    and "600 \<le> gas_remaining (gas st)"
    and "bplain b" and "brefs b = []" and "length (bbits b) \<le> MAX_BITS"
  shows "\<exists>k g. thn (exec_builder_to_cell L) (exec_cell_to_slice A) st =
      (Inr 0, st\<lparr>gas := g, stack := xs @ [VSlice k]\<rparr>) \<and> sbits k = bbits b \<and> srefs k = [] \<and>
    gas_remaining (gas st) - 600 \<le> gas_remaining g \<and> gas_remaining g \<le> gas_remaining (gas st) - 525"
proof -
  obtain parts c where c: "b_prepare L b = Inr parts" "b_finalize L parts = Inr c"
    "cell_kind A c = Ordinary" "sbits (slice_of_cell A c) = bbits b" "srefs (slice_of_cell A c) = []"
    using build_cell[OF assms(5-7)] by blast
  let ?g = "(gas st)\<lparr>gas_remaining := gas_remaining (gas st) - 500\<rparr>"
  have g: "build_ext L b (gas st) = (Inr c, ?g)"
    using c(1,2) assms(4) try_consume_eq[OF assms(3), of 500]
    by (simp add: build_ext_def finalize_cell_def BUILD_CELL_GAS_def truncate_gas_def machine_bounds Let_def)
  have wf: "gas_wf ?g" using assms(3,4) by (simp add: gas_wf_def machine_bounds)
  define price where "price = (if cell_repr_hash A c \<in> loaded_cells ?g then OLD_CELL_GAS else NEW_CELL_GAS)"
  have p: "25 \<le> price" "price \<le> 100" by (auto simp: price_def OLD_CELL_GAS_def NEW_CELL_GAS_def)
  let ?h = "?g\<lparr>loaded_cells := insert (cell_repr_hash A c) (loaded_cells ?g),
    gas_remaining := gas_remaining ?g - price\<rparr>"
  have h: "load_cell_as_slice A c LoadFull ?g = (Inr (slice_of_cell A c), ?h)"
    using load_ordinary[OF c(3) wf price_def] p assms(4)
    by (simp add: load_cell_as_slice_def LoadFull_def)
  have "exec_builder_to_cell L st = (Inr 0, st\<lparr>gas := ?g, stack := xs @ [VCell c]\<rparr>)"
    using assms(1,2) g by (simp add: exec_builder_to_cell_def depth_def)
  moreover have "exec_cell_to_slice A (st\<lparr>gas := ?g, stack := xs @ [VCell c]\<rparr>) =
      (Inr 0, st\<lparr>gas := ?h, stack := xs @ [VSlice (slice_of_cell A c)]\<rparr>)"
    using assms(2) h by (simp add: exec_cell_to_slice_def depth_def)
  ultimately have "thn (exec_builder_to_cell L) (exec_cell_to_slice A) st =
      (Inr 0, st\<lparr>gas := ?h, stack := xs @ [VSlice (slice_of_cell A c)]\<rparr>)"
    by simp
  moreover have "gas_remaining (gas st) - 600 \<le> gas_remaining ?h" "gas_remaining ?h \<le> gas_remaining (gas st) - 525"
    using p by simp_all
  ultimately show ?thesis using c(4,5) by blast
qed

lemma int_roundtrip:
  assumes "stack st = xs @ [VInt x]" and "length xs + 3 \<le> MAX_DEPTH" and "gas_wf (gas st)"
    and "600 \<le> gas_remaining (gas st)" and "int_fits sgnd n x" and "n \<le> 256 + of_bool sgnd"
  shows "\<exists>g. thn (exec_new_builder L) (thn (exec_store_int A L n sgnd)
       (thn (thn (exec_builder_to_cell L) (exec_cell_to_slice A))
       (thn (exec_load_int_fixed A n sgnd) (exec_slice_chk_empty A)))) st = (Inr 0, st\<lparr>gas := g\<rparr>) \<and>
    gas_remaining (gas st) - 600 \<le> gas_remaining g \<and> gas_remaining g \<le> gas_remaining (gas st) - 525"
proof -
  let ?s1 = "st\<lparr>stack := xs @ [VInt x, VBuilder (b_new L)]\<rparr>"
  have s1: "exec_new_builder L st = (Inr 0, ?s1)"
    using assms(1,2) by (simp add: exec_new_builder_def depth_def)
  have n: "n \<le> MAX_BITS" using assms(6) by (cases sgnd) (simp_all add: MAX_BITS_def)
  obtain b where b: "exec_store_int A L n sgnd ?s1 = (Inr 0, ?s1\<lparr>stack := xs @ [VBuilder b]\<rparr>)"
    "bbits b = to_bits n x" "brefs b = []" "bplain b"
    using store_int_ok[of ?s1 xs x "b_new L" sgnd n] assms(2,5,6) n by (auto simp: new_builder)
  let ?s2 = "?s1\<lparr>stack := xs @ [VBuilder b]\<rparr>"
  obtain k g where k: "thn (exec_builder_to_cell L) (exec_cell_to_slice A) ?s2 =
      (Inr 0, ?s2\<lparr>gas := g, stack := xs @ [VSlice k]\<rparr>)" "sbits k = to_bits n x" "srefs k = []"
    and g: "gas_remaining (gas st) - 600 \<le> gas_remaining g" "gas_remaining g \<le> gas_remaining (gas st) - 525"
    using build_and_load[of ?s2 xs b] assms(2-4) b n by auto
  let ?s3 = "?s2\<lparr>gas := g, stack := xs @ [VSlice k]\<rparr>"
  obtain k' where k': "exec_load_int_fixed A n sgnd ?s3 = (Inr 0, ?s3\<lparr>stack := xs @ [VInt x, VSlice k']\<rparr>)"
    "sbits k' = []" "srefs k' = []"
    using load_int_ok[of ?s3 xs k n sgnd] assms(2) k(2,3) bits_int_to_bits[OF assms(5)] by auto
  have "exec_slice_chk_empty A (?s3\<lparr>stack := xs @ [VInt x, VSlice k']\<rparr>) = (Inr 0, st\<lparr>gas := g\<rparr>)"
    using assms(1) k'(2,3) by (simp add: exec_slice_chk_empty_def size_bits size_refs)
  with s1 b(1) k(1) k'(1) g show ?thesis by auto
qed

section \<open>Constants in the code\<close>

lemma remove_trailing_tag:
  "slice_is sbits srefs (strip_tag (sbits k)) (srefs k) (remove_trailing A L k)"
proof (cases "sbits k = []")
  case True
  then show ?thesis by (simp add: remove_trailing_def size_bits slice_is_def strip_tag_def Let_def)
next
  case False
  let ?n = "length (takeWhile Not (rev (sbits k)))"
  let ?m = "?n + of_bool (?n \<noteq> length (sbits k))"
  have le: "?n \<le> length (sbits k)" using length_takeWhile_le[of Not "rev (sbits k)"] by simp
  have "tl (dropWhile Not (rev (sbits k))) = drop ?m (rev (sbits k))"
    using le dropWhile_eq_drop[of Not "rev (sbits k)"] by (simp add: drop_Suc tl_drop)
  then have "strip_tag (sbits k) = take (length (sbits k) - ?m) (sbits k)"
    by (simp add: strip_tag_def rev_drop)
  moreover have "((=) False) = Not" by auto
  ultimately show ?thesis
    using False le skip_last[of ?m k 0]
    by (simp add: remove_trailing_def size_bits count_trailing Let_def)
qed

lemma take_tagged_slice_ok:
  assumes "sbits (code st) = ops @ data @ rest" and "srefs (code st) = rs @ rs'"
    and "cell_kind A (slice_cell A (code st)) = Ordinary"
  shows "\<exists>k c. take_tagged_slice A L (length ops) (length data) (length rs) st = (Inr k, st\<lparr>code := c\<rparr>) \<and>
    sbits k = strip_tag data \<and> srefs k = rs \<and> sbits c = rest \<and> srefs c = rs'"
proof -
  obtain c1 where c1: "slice_skip_first A (code st) (length ops) 0 = Inr c1"
    "sbits c1 = data @ rest" "srefs c1 = rs @ rs'"
    using skip_first[of "length ops" "code st" 0] assms by (auto simp: slice_is_def)
  obtain c where c: "slice_skip_first A c1 (length data) (length rs) = Inr c" "sbits c = rest" "srefs c = rs'"
    using skip_first[of "length data" c1 "length rs"] c1 by (auto simp: slice_is_def)
  obtain k1 where k1: "sl_only_first L c1 (length data) (length rs) = Inr k1" "sbits k1 = data" "srefs k1 = rs"
    using only_first[of "length data" c1 "length rs"] c1 by (auto simp: slice_is_def)
  obtain k where k: "remove_trailing A L k1 = Inr k" "sbits k = strip_tag data" "srefs k = rs"
    using remove_trailing_tag[of k1] k1 by (auto simp: slice_is_def)
  have "take_code_slice A L (length ops) (length data) (length rs) st = (Inr k1, st\<lparr>code := c\<rparr>)"
    using assms c1 c k1
    by (simp add: take_code_slice_def has_remaining_def size_bits size_refs skip_checked_def or_same_def)
  moreover have "sl_apply L k1 = Inr k1"
    using apply_ordinary cell_only_first[OF k1(1)] cell_skip_first[OF c1(1)] assms(3) by simp
  ultimately have "take_tagged_slice A L (length ops) (length data) (length rs) st = (Inr k, st\<lparr>code := c\<rparr>)"
    using k(1) by (simp add: take_tagged_slice_def)
  then show ?thesis using k c by blast
qed

section \<open>Cutting slices\<close>

lemma range_op_bits:
  assumes "n \<le> length (sbits k)" and "m \<le> length (srefs k)"
  shows "sbits (apply_range_op A L op k n m) = cut_list op n (sbits k)"
    and "srefs (apply_range_op A L op k n m) = cut_list op m (srefs k)"
  using skip_first[OF assms] only_first[OF assms] only_last[OF assms] skip_last[OF assms]
  by (cases op; fastforce simp: apply_range_op_def or_same_def slice_is_def)+

lemma remaining_iff: "has_remaining A k n m \<longleftrightarrow> n \<le> length (sbits k) \<and> m \<le> length (srefs k)"
  by (simp add: has_remaining_def size_bits size_refs)

lemma range_op_ok:
  assumes "stack st = xs @ [VSlice k, VInt (int n), VInt (int m)]" and "length xs < MAX_DEPTH"
    and "n \<le> 1023" and "m \<le> 4"
  shows "if n \<le> length (sbits k) \<and> m \<le> length (srefs k)
    then \<exists>k'. exec_slice_full_range_op A L op st = (Inr 0, st\<lparr>stack := xs @ [VSlice k']\<rparr>) \<and>
      sbits k' = cut_list op n (sbits k) \<and> srefs k' = cut_list op m (srefs k)
    else exec_slice_full_range_op A L op st =
      (Inl (VmErr (CellError ECellUnderflow)), st\<lparr>stack := xs\<rparr>)"
proof -
  have "exec_slice_full_range_op A L op st =
    (if has_remaining A k n m
     then (Inr 0, st\<lparr>stack := xs @ [VSlice (apply_range_op A L op k n m)]\<rparr>)
     else (Inl (VmErr (CellError ECellUnderflow)), st\<lparr>stack := xs\<rparr>))"
    using assms pop_smallint_under(2)[of 0 m 4 "xs @ [VSlice k]" "VInt (int n)"]
      pop_smallint_under(2)[of 0 n 1023 xs "VSlice k"]
    by (cases "has_remaining A k n m") (simp_all add: exec_slice_full_range_op_def depth_def st_op_eq)
  then show ?thesis using range_op_bits[of n k m op] unfolding remaining_iff by auto
qed

lemma split_ok:
  assumes "stack st = xs @ [VSlice k, VInt (int n), VInt (int m)]" and "length xs + 3 \<le> MAX_DEPTH"
    and "n \<le> 1023" and "m \<le> 4"
  shows "if n \<le> length (sbits k) \<and> m \<le> length (srefs k)
    then \<exists>k1 k2. exec_split A L quiet st =
        (Inr 0, st\<lparr>stack := xs @ [VSlice k1, VSlice k2] @ (if quiet then [VInt (-1)] else [])\<rparr>) \<and>
      length (sbits k1) = n \<and> length (srefs k1) = m \<and>
      sbits k1 @ sbits k2 = sbits k \<and> srefs k1 @ srefs k2 = srefs k
    else exec_split A L quiet st =
      (if quiet then (Inr 0, st\<lparr>stack := xs @ [VSlice k, VInt 0]\<rparr>)
       else (Inl (VmErr (CellError ECellUnderflow)), st\<lparr>stack := xs\<rparr>))"
proof -
  let ?k1 = "sl_get_prefix L k n m" and ?k2 = "or_same (slice_skip_first A k n m) k"
  have "exec_split A L quiet st =
    (if has_remaining A k n m
     then (Inr 0, st\<lparr>stack := xs @ [VSlice ?k1, VSlice ?k2] @ (if quiet then [VInt (-1)] else [])\<rparr>)
     else if quiet then (Inr 0, st\<lparr>stack := xs @ [VSlice k, VInt 0]\<rparr>)
     else (Inl (VmErr (CellError ECellUnderflow)), st\<lparr>stack := xs\<rparr>))"
    using assms pop_smallint_under(2)[of 0 m 4 "xs @ [VSlice k]" "VInt (int n)"]
      pop_smallint_under(2)[of 0 n 1023 xs "VSlice k"]
    by (cases "has_remaining A k n m") (simp_all add: exec_split_def st_op_eq finish_load_ok_def
        finish_load_fail_def push_bool_def make_bool_def depth_def)
  moreover have "sbits ?k1 = take n (sbits k) \<and> srefs ?k1 = take m (srefs k) \<and>
      sbits ?k2 = drop n (sbits k) \<and> srefs ?k2 = drop m (srefs k)"
    if "n \<le> length (sbits k)" "m \<le> length (srefs k)"
    using get_prefix[OF that] skip_first[OF that] by (auto simp: slice_is_def or_same_def)
  ultimately show ?thesis
    unfolding remaining_iff
    by (split if_split, intro conjI impI)
      (rule exI[of _ ?k1], rule exI[of _ ?k2], auto)
qed

end

end
