(* ===== verification/AddrSpec.thy ===== *)
theory AddrSpec
  imports CurrencyOps CryptOps CellSpec
begin

text \<open>
  Message addresses against their encoding as bits. The locale \<open>bit_readers\<close> extends \<open>bit_cells\<close> by what the
  readers of a slice do; inside it, the code that parses an address and the code that skips one are both shown
  to follow one parser of bit strings, and that parser to invert the encoding.
\<close>

section \<open>Readers of bits\<close>

definition loads_bits ::
    "('s \<Rightarrow> bool list) \<Rightarrow> ('s \<Rightarrow> 'c list) \<Rightarrow> nat \<Rightarrow> (bool list \<Rightarrow> 'a) \<Rightarrow> ('s \<Rightarrow> cell_error + 'a \<times> 's) \<Rightarrow> bool" where
  "loads_bits sbits srefs n val f \<longleftrightarrow> (\<forall>k. if n \<le> length (sbits k)
     then \<exists>k'. f k = Inr (val (take n (sbits k)), k') \<and> sbits k' = drop n (sbits k) \<and> srefs k' = srefs k
     else \<exists>e. f k = Inl e)"

locale bit_readers = bit_cells A L sbits srefs bbits brefs bplain
  for A :: "('c, 's) api" and L :: "('c, 's, 'b) cell_lib" and sbits srefs bbits brefs bplain +
  fixes M :: "('c, 's, 'b) instr_lib"
  assumes load_bit: "loads_bits sbits srefs 1 hd (sl_load_bit M)"
    and load_small_uint: "n \<le> 8 \<Longrightarrow> loads_bits sbits srefs n bits_value (\<lambda>k. sl_load_small_uint M k n)"
    and load_uint: "n \<le> 64 \<Longrightarrow> loads_bits sbits srefs n bits_value (\<lambda>k. sl_load_uint L k n)"
    and load_u8: "loads_bits sbits srefs 8 bits_value (sl_load_u8 M)"
    and load_u32: "loads_bits sbits srefs 32 bits_value (sl_load_u32 L)"
    and load_prefix: "n \<le> length (sbits k) \<Longrightarrow> \<exists>p k'. sl_load_prefix M k n 0 = Inr (p, k') \<and>
      sbits p = take n (sbits k) \<and> srefs p = [] \<and> sbits k' = drop n (sbits k) \<and> srefs k' = srefs k"
    and load_prefix_short: "length (sbits k) < n \<Longrightarrow> \<exists>e. sl_load_prefix M k n 0 = Inl e"
    and skip_first_short: "length (sbits k) < n \<Longrightarrow> \<exists>e. slice_skip_first A k n 0 = Inl e"
    and load_raw: "n \<le> length (sbits k) \<Longrightarrow> \<exists>bs k'. sl_load_raw L k n = Inr (bs, k') \<and> length bs = (n + 7) div 8 \<and>
      (\<forall>b \<in> set bs. b < 256) \<and> take n (byte_bits bs) = take n (sbits k) \<and> drop n (byte_bits bs) = replicate (8 * ((n + 7) div 8) - n) False"
    and data_slice: "sbits (b_as_data_slice M b) = bbits b"
    and split_depth: "split_depth_new M n = Inr d \<Longrightarrow> d = n"

text \<open>
  An action on slices follows a parser of bits: it fails where the parser fails; where the parser
  succeeds, it returns a related result and leaves the bits the parser leaves, and all references.
\<close>

definition follows ::
    "('s \<Rightarrow> bool list) \<Rightarrow> ('s \<Rightarrow> 'c list) \<Rightarrow> ('x \<Rightarrow> 'y \<Rightarrow> bool) \<Rightarrow> ('s, cell_error, 'x) act
      \<Rightarrow> (bool list, unit, 'y) act \<Rightarrow> bool" where
  "follows sbits srefs R m p \<longleftrightarrow> (\<forall>k. case p (sbits k) of
      (Inl _, _) \<Rightarrow> \<exists>e k'. m k = (Inl e, k')
    | (Inr y, bs) \<Rightarrow> \<exists>x k'. m k = (Inr x, k') \<and> R x y \<and> sbits k' = bs \<and> srefs k' = srefs k)"

definition take_bits :: "nat \<Rightarrow> (bool list, unit, bool list) act" where
  "take_bits n bs = (if n \<le> length bs then (Inr (take n bs), drop n bs) else (Inl (), bs))"

lemma followsI:
  assumes "\<And>k u bs. p (sbits k) = (Inl u, bs) \<Longrightarrow> \<exists>e k'. m k = (Inl e, k')"
    and "\<And>k y bs. p (sbits k) = (Inr y, bs) \<Longrightarrow>
      \<exists>x k'. m k = (Inr x, k') \<and> R x y \<and> sbits k' = bs \<and> srefs k' = srefs k"
  shows "follows sbits srefs R m p"
  unfolding follows_def
proof
  fix k
  show "case p (sbits k) of
      (Inl _, _) \<Rightarrow> \<exists>e k'. m k = (Inl e, k')
    | (Inr y, bs) \<Rightarrow> \<exists>x k'. m k = (Inr x, k') \<and> R x y \<and> sbits k' = bs \<and> srefs k' = srefs k"
    using assms(1)[of k] assms(2)[of k] by (cases "p (sbits k)"; cases "fst (p (sbits k))") simp_all
qed

lemma follows_Inl: "follows sbits srefs R m p \<Longrightarrow> p (sbits k) = (Inl u, bs) \<Longrightarrow> \<exists>e k'. m k = (Inl e, k')"
  by (drule follows_def[THEN iffD1, THEN spec, of _ _ _ _ _ k]) simp

lemma follows_Inr:
  "follows sbits srefs R m p \<Longrightarrow> p (sbits k) = (Inr y, bs) \<Longrightarrow>
   \<exists>x k'. m k = (Inr x, k') \<and> R x y \<and> sbits k' = bs \<and> srefs k' = srefs k"
  by (drule follows_def[THEN iffD1, THEN spec, of _ _ _ _ _ k]) simp

lemma follows_ret: "R x y \<Longrightarrow> follows sbits srefs R (ret x) (ret y)"
  by (simp add: follows_def)

lemma follows_fail: "follows sbits srefs R (fail e) (fail u)"
  by (simp add: follows_def)

lemma follows_bnd:
  assumes "follows sbits srefs R m p" and "\<And>x y. R x y \<Longrightarrow> follows sbits srefs S (f x) (q y)"
  shows "follows sbits srefs S (bnd m f) (bnd p q)"
proof (rule followsI)
  fix k u bs
  assume run: "bnd p q (sbits k) = (Inl u, bs)"
  obtain r t where p: "p (sbits k) = (r, t)" by fastforce
  show "\<exists>e k'. bnd m f k = (Inl e, k')"
  proof (cases r)
    case (Inl e)
    then show ?thesis using follows_Inl[OF assms(1)] p by fastforce
  next
    case (Inr y)
    then obtain x k' where m: "m k = (Inr x, k')" "R x y" "sbits k' = t"
      using follows_Inr[OF assms(1)] p by blast
    then show ?thesis using follows_Inl[OF assms(2)[OF m(2)], of k'] run p Inr by simp
  qed
next
  fix k z bs
  assume run: "bnd p q (sbits k) = (Inr z, bs)"
  then obtain y t where p: "p (sbits k) = (Inr y, t)" "q y t = (Inr z, bs)" by (auto simp: bnd_eq_Inr_iff)
  then obtain x k' where m: "m k = (Inr x, k')" "R x y" "sbits k' = t" "srefs k' = srefs k"
    using follows_Inr[OF assms(1)] by blast
  then show "\<exists>x k'. bnd m f k = (Inr x, k') \<and> S x z \<and> sbits k' = bs \<and> srefs k' = srefs k"
    using follows_Inr[OF assms(2)[OF m(2)], of k' z bs] p by simp
qed

lemma follows_if:
  "(b \<Longrightarrow> follows sbits srefs R m p) \<Longrightarrow> (\<not> b \<Longrightarrow> follows sbits srefs R n q) \<Longrightarrow>
   follows sbits srefs R (if b then m else n) (if b then p else q)"
  by simp

lemma follows_lift:
  "(\<And>x. r = Inr x \<Longrightarrow> follows sbits srefs S (f x) (q x)) \<Longrightarrow>
   follows sbits srefs S (bnd (lift_res id r) f) (case r of Inl _ \<Rightarrow> fail () | Inr x \<Rightarrow> q x)"
  by (cases r) (simp_all add: follows_def)

lemma follows_rd:
  "loads_bits sbits srefs n val f \<Longrightarrow> follows sbits srefs (\<lambda>x y. x = val y \<and> length y = n) (rd f) (take_bits n)"
proof (rule followsI)
  assume f: "loads_bits sbits srefs n val f"
  note f = f[unfolded loads_bits_def, rule_format]
  fix k u y bs
  show "take_bits n (sbits k) = (Inl u, bs) \<Longrightarrow> \<exists>e k'. rd f k = (Inl e, k')"
    and "take_bits n (sbits k) = (Inr y, bs) \<Longrightarrow>
      \<exists>x k'. rd f k = (Inr x, k') \<and> (x = val y \<and> length y = n) \<and> sbits k' = bs \<and> srefs k' = srefs k"
    using f[of k] by (auto simp: take_bits_def rd_def split: if_splits)
qed

section \<open>Addresses as bits\<close>

text \<open>A parser of bit strings; the parts of an address are bit strings themselves.\<close>

definition anycast_bits ::
    "('c, 's, 'b) instr_lib \<Rightarrow> vm_version \<Rightarrow> (bool list, unit, bool list option) act" where
  "anycast_bits M v = bnd (take_bits 1) (\<lambda>j.
     if \<not> hd j then ret None
     else if is_ton 10 v then fail ()
     else bnd (bnd (take_bits 5) (\<lambda>d. if 30 < bits_value d then fail () else ret d)) (\<lambda>d.
       case split_depth_new M (bits_value d) of
         Inl _ \<Rightarrow> fail ()
       | Inr n \<Rightarrow> bnd (take_bits n) (\<lambda>p. ret (Some p))))"

definition addr_bits ::
    "('c, 's, 'b) instr_lib \<Rightarrow> vm_version \<Rightarrow> (bool list, unit, bool list addr_parts) act" where
  "addr_bits M v = bnd (take_bits 2) (\<lambda>t.
     if bits_value t = 0 then ret PartsNone
     else if bits_value t = 1 then
       bnd (take_bits 9) (\<lambda>l. bnd (take_bits (bits_value l)) (\<lambda>a. ret (PartsExt a)))
     else if bits_value t = 2 then
       bnd (anycast_bits M v) (\<lambda>p.
       bnd (take_bits 8) (\<lambda>w. bnd (take_bits 256) (\<lambda>a. ret (PartsStd p (bits_int True w) a))))
     else if bits_value t = 3 then
       (if is_ton 10 v then fail ()
        else bnd (anycast_bits M v) (\<lambda>p.
          bnd (take_bits 9) (\<lambda>l.
          bnd (take_bits 32) (\<lambda>w. bnd (take_bits (bits_value l)) (\<lambda>a. ret (PartsVar p (bits_int True w) a))))))
     else fail ())"

section \<open>The encoding\<close>

fun enc_anycast :: "bool list option \<Rightarrow> bool list" where
  "enc_anycast None = [False]"
| "enc_anycast (Some p) = True # to_bits 5 (int (length p)) @ p"

fun enc_addr :: "bool list addr_parts \<Rightarrow> bool list" where
  "enc_addr PartsNone = [False, False]"
| "enc_addr (PartsExt a) = [False, True] @ to_bits 9 (int (length a)) @ a"
| "enc_addr (PartsStd p w a) = [True, False] @ enc_anycast p @ to_bits 8 w @ a"
| "enc_addr (PartsVar p w a) = [True, True] @ enc_anycast p @ to_bits 9 (int (length a)) @ to_bits 32 w @ a"

text \<open>Since version 10 there are neither anycast prefixes nor addresses of variable length.\<close>

fun prefix_valid :: "('c, 's, 'b) instr_lib \<Rightarrow> vm_version \<Rightarrow> bool list option \<Rightarrow> bool" where
  "prefix_valid M v None \<longleftrightarrow> True"
| "prefix_valid M v (Some p) \<longleftrightarrow> \<not> is_ton 10 v \<and> length p \<le> 30 \<and> split_depth_new M (length p) = Inr (length p)"

fun parts_valid :: "('c, 's, 'b) instr_lib \<Rightarrow> vm_version \<Rightarrow> bool list addr_parts \<Rightarrow> bool" where
  "parts_valid M v PartsNone \<longleftrightarrow> True"
| "parts_valid M v (PartsExt a) \<longleftrightarrow> length a < 512"
| "parts_valid M v (PartsStd p w a) \<longleftrightarrow> prefix_valid M v p \<and> int_fits True 8 w \<and> length a = 256"
| "parts_valid M v (PartsVar p w a) \<longleftrightarrow> \<not> is_ton 10 v \<and> prefix_valid M v p \<and> int_fits True 32 w \<and> length a < 512"

lemma take_bits_append: "length x = n \<Longrightarrow> take_bits n (x @ rest) = (Inr x, rest)"
  by (simp add: take_bits_def)

lemma take_bits_iff: "take_bits n bs = (Inr x, rest) \<longleftrightarrow> length x = n \<and> bs = x @ rest"
  by (auto simp: take_bits_def)

lemma to_bits_Suc: "to_bits (Suc n) x = to_bits n (x div 2) @ [odd x]"
  using to_bits_append[of n 1 x] by (simp add: to_bits_def drop_bit_eq_div bit_0)

lemma to_bits_value: "to_bits (length bs) (int (bits_value bs)) = bs"
proof (induction bs rule: rev_induct)
  case (snoc b bs)
  have "int (bits_value (bs @ [b])) div 2 = int (bits_value bs)" "odd (int (bits_value (bs @ [b]))) = b"
    by (auto simp: bits_value_snoc)
  then show ?case using snoc by (simp add: to_bits_Suc)
qed (simp add: to_bits_def)

lemma value_to_bits: "m < 2 ^ n \<Longrightarrow> bits_value (to_bits n (int m)) = m"
  using bits_value_to_bits[of n "int m"] by (simp add: take_bit_int_eq_self flip: of_nat_less_iff)

lemma bits_value_bound: "bits_value bs < 2 ^ length bs"
  using bits_value_to_bits[of "length bs" "int (bits_value bs)"] take_bit_int_less_exp[of "length bs" "int (bits_value bs)"]
  by (simp add: to_bits_value flip: of_nat_less_iff)

lemma bits_int_signed:
  assumes "length w = Suc n"
  shows "int_fits True (Suc n) (bits_int True w)" and "to_bits (Suc n) (bits_int True w) = w"
proof -
  have "bits_int True w = signed_take_bit n (int (bits_value w))" using assms by (auto simp: bits_int_def)
  moreover have "to_bits (Suc n) (signed_take_bit n x) = to_bits (Suc n) x" for x :: int
    by (auto simp: to_bits_def bit_signed_take_bit_iff min_def)
  ultimately show "int_fits True (Suc n) (bits_int True w)" "to_bits (Suc n) (bits_int True w) = w"
    using to_bits_value[of w] assms signed_take_bit_int_less_exp[of n "int (bits_value w)"]
      signed_take_bit_int_greater_eq_minus_exp[of n "int (bits_value w)"]
    by (simp_all add: int_fits_def fits_signed_def)
qed

lemma anycast_bits_enc: "prefix_valid M v p \<Longrightarrow> anycast_bits M v (enc_anycast p @ rest) = (Inr p, rest)"
  by (cases p) (simp_all add: anycast_bits_def bnd_def take_bits_def value_to_bits)

lemma addr_bits_enc: "parts_valid M v p \<Longrightarrow> addr_bits M v (enc_addr p @ rest) = (Inr p, rest)"
proof -
  have tag: "take_bits 2 (x # y # bs) = (Inr [x, y], bs)" for x y bs by (simp add: take_bits_def)
  have val: "bits_value [x, y] = 2 * of_bool x + of_bool y" for x y by (simp add: bits_value_def)
  show "parts_valid M v p \<Longrightarrow> addr_bits M v (enc_addr p @ rest) = (Inr p, rest)"
    by (cases p) (simp_all add: addr_bits_def tag val take_bits_append anycast_bits_enc value_to_bits bits_int_to_bits)
qed

lemma anycast_bits_inv:
  assumes "\<And>n d. split_depth_new M n = Inr d \<Longrightarrow> d = n" and "anycast_bits M v bs = (Inr p, rest)"
  shows "prefix_valid M v p \<and> bs = enc_anycast p @ rest"
proof -
  obtain j t where j: "length j = 1" "bs = j @ t"
    and run: "(if \<not> hd j then ret None
     else if is_ton 10 v then fail ()
     else bnd (bnd (take_bits 5) (\<lambda>d. if 30 < bits_value d then fail () else ret d)) (\<lambda>d.
       case split_depth_new M (bits_value d) of
         Inl _ \<Rightarrow> fail () | Inr n \<Rightarrow> bnd (take_bits n) (\<lambda>p. ret (Some p)))) t = (Inr p, rest)"
    using assms(2) unfolding anycast_bits_def bnd_eq_Inr_iff take_bits_iff by blast
  obtain b where b: "j = [b]" using j(1) by (cases j) auto
  show ?thesis
  proof (cases b)
    case False
    then show ?thesis using run b j by auto
  next
    case True
    then obtain d n q where "\<not> is_ton 10 v" "length d = 5" "bits_value d \<le> 30"
      "split_depth_new M (bits_value d) = Inr n" "length q = n" "t = d @ q @ rest" "p = Some q"
      using run b by (auto simp: bnd_eq_Inr_iff take_bits_iff split: if_splits sum.splits)
    moreover from this have "n = bits_value d" using assms(1) by blast
    ultimately show ?thesis using b j True to_bits_value[of d] by simp
  qed
qed

lemma addr_bits_inv:
  assumes d: "\<And>n d. split_depth_new M n = Inr d \<Longrightarrow> d = n" and "addr_bits M v bs = (Inr p, rest)"
  shows "parts_valid M v p \<and> bs = enc_addr p @ rest"
proof -
  obtain x y t where bs: "bs = x # y # t"
    using assms(2) by (auto simp: addr_bits_def bnd_eq_Inr_iff take_bits_iff length_Suc_conv numeral_2_eq_2)
  have tag: "take_bits 2 (x # y # t) = (Inr [x, y], t)" "bits_value [x, y] = 2 * of_bool x + of_bool y"
    by (simp_all add: take_bits_def bits_value_def)
  consider "\<not> x" "\<not> y" | "\<not> x" "y" | "x" "\<not> y" | "x" "y" by blast
  then show ?thesis
  proof cases
    case 1
    then show ?thesis using assms(2) bs tag by (simp add: addr_bits_def)
  next
    case 2
    then have "bnd (take_bits 9) (\<lambda>l. bnd (take_bits (bits_value l)) (\<lambda>a. ret (PartsExt a))) t = (Inr p, rest)"
      using assms(2) bs tag by (simp add: addr_bits_def)
    then obtain l a where "length l = 9" "length a = bits_value l" "t = l @ a @ rest" "p = PartsExt a"
      by (auto simp: bnd_eq_Inr_iff take_bits_iff)
    then show ?thesis using 2 bs to_bits_value[of l] bits_value_bound[of l] by simp
  next
    case 3
    then have "bnd (anycast_bits M v) (\<lambda>p. bnd (take_bits 8) (\<lambda>w. bnd (take_bits 256) (\<lambda>a.
        ret (PartsStd p (bits_int True w) a)))) t = (Inr p, rest)"
      using assms(2) bs tag by (simp add: addr_bits_def)
    then obtain q u w a where q: "anycast_bits M v t = (Inr q, u)" and r: "length w = 8" "length a = 256"
      "u = w @ a @ rest" "p = PartsStd q (bits_int True w) a"
      by (auto simp: bnd_eq_Inr_iff take_bits_iff)
    then show ?thesis using 3 bs anycast_bits_inv[OF d q] bits_int_signed[of w 7] by simp
  next
    case 4
    then have "(if is_ton 10 v then fail () else bnd (anycast_bits M v) (\<lambda>p. bnd (take_bits 9) (\<lambda>l. bnd (take_bits 32) (\<lambda>w.
        bnd (take_bits (bits_value l)) (\<lambda>a. ret (PartsVar p (bits_int True w) a)))))) t = (Inr p, rest)"
      using assms(2) bs tag by (simp add: addr_bits_def)
    then obtain q u l w a where q: "anycast_bits M v t = (Inr q, u)" and r: "\<not> is_ton 10 v" "length l = 9" "length w = 32"
      "length a = bits_value l" "u = l @ w @ a @ rest" "p = PartsVar q (bits_int True w) a"
      by (auto simp: bnd_eq_Inr_iff take_bits_iff split: if_splits)
    then show ?thesis
      using 4 bs anycast_bits_inv[OF d q] bits_int_signed[of w 31] to_bits_value[of l] bits_value_bound[of l] by simp
  qed
qed

section \<open>The code follows the parser\<close>

context bit_readers
begin

abbreviation fol where "fol \<equiv> follows sbits srefs"

lemma fol_prefix: "fol (\<lambda>x y. sbits x = y) (rd (\<lambda>k. sl_load_prefix M k n 0)) (take_bits n)"
  unfolding follows_def
proof
  fix k
  show "case take_bits n (sbits k) of (Inl _, _) \<Rightarrow> \<exists>e k'. rd (\<lambda>k. sl_load_prefix M k n 0) k = (Inl e, k')
    | (Inr y, bs) \<Rightarrow> \<exists>x k'. rd (\<lambda>k. sl_load_prefix M k n 0) k = (Inr x, k') \<and> sbits x = y \<and> sbits k' = bs \<and> srefs k' = srefs k"
    using load_prefix[of n k] load_prefix_short[of k n] by (auto simp: take_bits_def rd_def not_le)
qed

lemma fol_skip: "fol (\<lambda>_ _. True) (rd_skip A n) (take_bits n)"
  unfolding follows_def
proof
  fix k
  show "case take_bits n (sbits k) of (Inl _, _) \<Rightarrow> \<exists>e k'. rd_skip A n k = (Inl e, k')
    | (Inr y, bs) \<Rightarrow> \<exists>x k'. rd_skip A n k = (Inr x, k') \<and> True \<and> sbits k' = bs \<and> srefs k' = srefs k"
    using skip_first[of n k 0] skip_first_short[of k n]
    by (cases "n \<le> length (sbits k)") (auto simp: take_bits_def rd_skip_def rd_def slice_is_def)
qed

text \<open>Skipping at once what is taken in two steps.\<close>

lemma fol_skip2:
  "fol (\<lambda>_ _. True) (rd_skip A (m + n)) (bnd (take_bits m) (\<lambda>x. bnd (take_bits n) (\<lambda>y. ret (h x y))))"
  unfolding follows_def
proof
  fix k
  have "case take_bits (m + n) (sbits k) of (Inl _, _) \<Rightarrow> \<exists>e k'. rd_skip A (m + n) k = (Inl e, k')
    | (Inr y, bs) \<Rightarrow> \<exists>x k'. rd_skip A (m + n) k = (Inr x, k') \<and> True \<and> sbits k' = bs \<and> srefs k' = srefs k"
    using fol_skip[of "m + n"] by (auto simp: follows_def)
  then show "case bnd (take_bits m) (\<lambda>x. bnd (take_bits n) (\<lambda>y. ret (h x y))) (sbits k) of
      (Inl _, _) \<Rightarrow> \<exists>e k'. rd_skip A (m + n) k = (Inl e, k')
    | (Inr y, bs) \<Rightarrow> \<exists>x k'. rd_skip A (m + n) k = (Inr x, k') \<and> True \<and> sbits k' = bs \<and> srefs k' = srefs k"
    by (auto simp: take_bits_def bnd_def ret_def add.commute split: if_splits)
qed

lemma fol_leq: "fol (\<lambda>x y. x = bits_value y \<and> x \<le> 30) (rd (\<lambda>k. load_uint_leq L k 30))
    (bnd (take_bits 5) (\<lambda>d. if 30 < bits_value d then fail () else ret d))"
proof -
  have "bit_length 30 = 5" by code_simp
  then have eq: "rd (\<lambda>k. load_uint_leq L k 30) k =
      (case sl_load_uint L k 5 of Inl e \<Rightarrow> (Inl e, k) | Inr (v, k') \<Rightarrow> if 30 < v then (Inl EIntOverflow, k) else (Inr v, k'))" for k
    by (simp add: rd_def load_uint_leq_def split: sum.split)
  show ?thesis
  proof (rule followsI)
    fix k u y bs
    note f = load_uint[of 5, unfolded loads_bits_def, simplified, rule_format, of k]
    show "bnd (take_bits 5) (\<lambda>d. if 30 < bits_value d then fail () else ret d) (sbits k) = (Inl u, bs) \<Longrightarrow>
        \<exists>e k'. rd (\<lambda>k. load_uint_leq L k 30) k = (Inl e, k')"
      and "bnd (take_bits 5) (\<lambda>d. if 30 < bits_value d then fail () else ret d) (sbits k) = (Inr y, bs) \<Longrightarrow>
        \<exists>x k'. rd (\<lambda>k. load_uint_leq L k 30) k = (Inr x, k') \<and> (x = bits_value y \<and> x \<le> 30) \<and> sbits k' = bs \<and> srefs k' = srefs k"
      using f unfolding eq by (auto simp: bnd_def take_bits_def fail_def ret_def split: if_splits)
  qed
qed

lemma fol_parse_anycast: "fol (\<lambda>x y. map_option sbits x = y) (parse_maybe_anycast L M v) (anycast_bits M v)"
  unfolding parse_maybe_anycast_def anycast_bits_def
proof (rule follows_bnd[OF follows_rd[OF load_bit]], elim conjE, hypsubst, intro follows_if follows_ret follows_fail)
  show "fol (\<lambda>x y. map_option sbits x = y)
     (bnd (rd (\<lambda>cs. load_uint_leq L cs 30)) (\<lambda>n. bnd (lift_res id (split_depth_new M n)) (\<lambda>d.
        bnd (rd (\<lambda>cs. sl_load_prefix M cs d 0)) (\<lambda>pfx. ret (Some pfx)))))
     (bnd (bnd (take_bits 5) (\<lambda>d. if 30 < bits_value d then fail () else ret d)) (\<lambda>d.
        case split_depth_new M (bits_value d) of Inl _ \<Rightarrow> fail () | Inr n \<Rightarrow> bnd (take_bits n) (\<lambda>p. ret (Some p))))"
    by (rule follows_bnd[OF fol_leq], elim conjE, hypsubst, rule follows_lift, rule follows_bnd[OF fol_prefix])
      (simp add: follows_ret)
qed simp

lemma fol_skip_anycast: "fol (\<lambda>_ _. True) (skip_maybe_anycast A L M v) (anycast_bits M v)"
  unfolding skip_maybe_anycast_def anycast_bits_def
proof (rule follows_bnd[OF follows_rd[OF load_bit]], elim conjE, hypsubst, intro follows_if follows_ret follows_fail)
  have "fol (\<lambda>_ _. True) (bnd (rd_skip A d) ret) (bnd (take_bits d) (\<lambda>p. ret (Some p)))" for d
    by (rule follows_bnd[OF fol_skip]) (simp add: follows_ret)
  then have "fol (\<lambda>_ _. True) (rd_skip A d) (bnd (take_bits d) (\<lambda>p. ret (Some p)))" for d by simp
  then show "fol (\<lambda>_ _. True)
     (bnd (rd (\<lambda>cs. load_uint_leq L cs 30)) (\<lambda>n. bnd (lift_res id (split_depth_new M n)) (rd_skip A)))
     (bnd (bnd (take_bits 5) (\<lambda>d. if 30 < bits_value d then fail () else ret d)) (\<lambda>d.
        case split_depth_new M (bits_value d) of Inl _ \<Rightarrow> fail () | Inr n \<Rightarrow> bnd (take_bits n) (\<lambda>p. ret (Some p))))"
    by (intro follows_bnd[OF fol_leq]) (elim conjE, hypsubst, rule follows_lift)
qed simp

lemma fol_addr_parse:
  "fol (\<lambda>x y. map_addr_parts sbits x = y)
     (bnd (rd (\<lambda>cs. sl_load_uint L cs 9)) (\<lambda>len. bnd (rd (\<lambda>cs. sl_load_prefix M cs len 0)) (\<lambda>addr. ret (PartsExt addr))))
     (bnd (take_bits 9) (\<lambda>l. bnd (take_bits (bits_value l)) (\<lambda>a. ret (PartsExt a))))"
  "fol (\<lambda>x y. map_addr_parts sbits x = y)
     (bnd (parse_maybe_anycast L M v) (\<lambda>pfx. bnd (rd (sl_load_u8 M)) (\<lambda>w.
        bnd (rd (\<lambda>cs. sl_load_prefix M cs 256 0)) (\<lambda>addr. ret (PartsStd pfx (signed_take_bit 7 (int w)) addr)))))
     (bnd (anycast_bits M v) (\<lambda>p. bnd (take_bits 8) (\<lambda>w. bnd (take_bits 256) (\<lambda>a. ret (PartsStd p (bits_int True w) a)))))"
  "fol (\<lambda>x y. map_addr_parts sbits x = y)
     (bnd (parse_maybe_anycast L M v) (\<lambda>pfx. bnd (rd (\<lambda>cs. sl_load_uint L cs 9)) (\<lambda>len. bnd (rd (sl_load_u32 L)) (\<lambda>w.
        bnd (rd (\<lambda>cs. sl_load_prefix M cs len 0)) (\<lambda>addr. ret (PartsVar pfx (signed_take_bit 31 (int w)) addr))))))
     (bnd (anycast_bits M v) (\<lambda>p. bnd (take_bits 9) (\<lambda>l. bnd (take_bits 32) (\<lambda>w.
        bnd (take_bits (bits_value l)) (\<lambda>a. ret (PartsVar p (bits_int True w) a))))))"
proof -
  have int: "bits_int True w = signed_take_bit (length w - 1) (int (bits_value w))" if "0 < length w" for w
    using that by (auto simp: bits_int_def)
  show "fol (\<lambda>x y. map_addr_parts sbits x = y)
     (bnd (rd (\<lambda>cs. sl_load_uint L cs 9)) (\<lambda>len. bnd (rd (\<lambda>cs. sl_load_prefix M cs len 0)) (\<lambda>addr. ret (PartsExt addr))))
     (bnd (take_bits 9) (\<lambda>l. bnd (take_bits (bits_value l)) (\<lambda>a. ret (PartsExt a))))"
    by (rule follows_bnd[OF follows_rd[OF load_uint]], simp, elim conjE, hypsubst, rule follows_bnd[OF fol_prefix])
      (simp add: follows_ret)
  show "fol (\<lambda>x y. map_addr_parts sbits x = y)
     (bnd (parse_maybe_anycast L M v) (\<lambda>pfx. bnd (rd (sl_load_u8 M)) (\<lambda>w.
        bnd (rd (\<lambda>cs. sl_load_prefix M cs 256 0)) (\<lambda>addr. ret (PartsStd pfx (signed_take_bit 7 (int w)) addr)))))
     (bnd (anycast_bits M v) (\<lambda>p. bnd (take_bits 8) (\<lambda>w. bnd (take_bits 256) (\<lambda>a. ret (PartsStd p (bits_int True w) a)))))"
    by (rule follows_bnd[OF fol_parse_anycast], rule follows_bnd[OF follows_rd[OF load_u8]], elim conjE, hypsubst,
        rule follows_bnd[OF fol_prefix]) (simp add: follows_ret int)
  show "fol (\<lambda>x y. map_addr_parts sbits x = y)
     (bnd (parse_maybe_anycast L M v) (\<lambda>pfx. bnd (rd (\<lambda>cs. sl_load_uint L cs 9)) (\<lambda>len. bnd (rd (sl_load_u32 L)) (\<lambda>w.
        bnd (rd (\<lambda>cs. sl_load_prefix M cs len 0)) (\<lambda>addr. ret (PartsVar pfx (signed_take_bit 31 (int w)) addr))))))
     (bnd (anycast_bits M v) (\<lambda>p. bnd (take_bits 9) (\<lambda>l. bnd (take_bits 32) (\<lambda>w.
        bnd (take_bits (bits_value l)) (\<lambda>a. ret (PartsVar p (bits_int True w) a))))))"
    by (rule follows_bnd[OF fol_parse_anycast], rule follows_bnd[OF follows_rd[OF load_uint]], simp, elim conjE, hypsubst,
        rule follows_bnd[OF follows_rd[OF load_u32]], elim conjE, hypsubst, rule follows_bnd[OF fol_prefix])
      (simp add: follows_ret int)
qed

lemma fol_parse_addr: "fol (\<lambda>x y. map_addr_parts sbits x = y) (parse_addr L M v) (addr_bits M v)"
  unfolding parse_addr_def addr_bits_def
  by (rule follows_bnd[OF follows_rd[OF load_small_uint]], simp, elim conjE, hypsubst,
      intro follows_if follows_fail fol_addr_parse follows_ret) simp

lemma fol_addr_skip:
  "fol (\<lambda>_ _. True) (bnd (rd (\<lambda>cs. sl_load_uint L cs 9)) (rd_skip A))
     (bnd (take_bits 9) (\<lambda>l. bnd (take_bits (bits_value l)) (\<lambda>a. ret (PartsExt a))))"
  "fol (\<lambda>_ _. True) (thn (skip_maybe_anycast A L M v) (rd_skip A (8 + 256)))
     (bnd (anycast_bits M v) (\<lambda>p. bnd (take_bits 8) (\<lambda>w. bnd (take_bits 256) (\<lambda>a. ret (PartsStd p (bits_int True w) a)))))"
  "fol (\<lambda>_ _. True) (thn (skip_maybe_anycast A L M v) (bnd (rd (\<lambda>cs. sl_load_uint L cs 9)) (\<lambda>len. rd_skip A (32 + len))))
     (bnd (anycast_bits M v) (\<lambda>p. bnd (take_bits 9) (\<lambda>l. bnd (take_bits 32) (\<lambda>w.
        bnd (take_bits (bits_value l)) (\<lambda>a. ret (PartsVar p (bits_int True w) a))))))"
proof -
  have one: "fol (\<lambda>_ _. True) (bnd (rd_skip A n) ret) (bnd (take_bits n) (\<lambda>a. ret (PartsExt a)))" for n
    by (rule follows_bnd[OF fol_skip]) (simp add: follows_ret)
  show "fol (\<lambda>_ _. True) (bnd (rd (\<lambda>cs. sl_load_uint L cs 9)) (rd_skip A))
     (bnd (take_bits 9) (\<lambda>l. bnd (take_bits (bits_value l)) (\<lambda>a. ret (PartsExt a))))"
    using one by (intro follows_bnd[OF follows_rd[OF load_uint]]) auto
  show "fol (\<lambda>_ _. True) (thn (skip_maybe_anycast A L M v) (rd_skip A (8 + 256)))
     (bnd (anycast_bits M v) (\<lambda>p. bnd (take_bits 8) (\<lambda>w. bnd (take_bits 256) (\<lambda>a. ret (PartsStd p (bits_int True w) a)))))"
    unfolding thn_def by (rule follows_bnd[OF fol_skip_anycast], rule fol_skip2)
  show "fol (\<lambda>_ _. True) (thn (skip_maybe_anycast A L M v) (bnd (rd (\<lambda>cs. sl_load_uint L cs 9)) (\<lambda>len. rd_skip A (32 + len))))
     (bnd (anycast_bits M v) (\<lambda>p. bnd (take_bits 9) (\<lambda>l. bnd (take_bits 32) (\<lambda>w.
        bnd (take_bits (bits_value l)) (\<lambda>a. ret (PartsVar p (bits_int True w) a))))))"
    unfolding thn_def
    by (rule follows_bnd[OF fol_skip_anycast], rule follows_bnd[OF follows_rd[OF load_uint]], simp, elim conjE, hypsubst,
        rule fol_skip2)
qed

lemma fol_skip_addr: "fol (\<lambda>_ _. True) (skip_message_addr A L M v) (addr_bits M v)"
  unfolding skip_message_addr_def addr_bits_def
  by (rule follows_bnd[OF follows_rd[OF load_small_uint]], simp, elim conjE, hypsubst,
      intro follows_if follows_fail fol_addr_skip follows_ret TrueI)

lemma load_addr_ok:
  assumes "stack st = xs @ [VSlice k]" and "length xs + 3 \<le> MAX_DEPTH"
    and "parts_valid M (version st) p" and "sbits k = enc_addr p @ rest"
  shows "\<exists>a k'. exec_load_message_addr A L M q st =
      (Inr 0, st\<lparr>stack := xs @ [VSlice a, VSlice k'] @ (if q then [VInt (-1)] else [])\<rparr>) \<and>
    sbits a = enc_addr p \<and> srefs a = [] \<and> sbits k' = rest \<and> srefs k' = srefs k"
proof -
  obtain k' where k: "skip_message_addr A L M (version st) k = (Inr (), k')" "sbits k' = rest" "srefs k' = srefs k"
    using follows_Inr[OF fol_skip_addr addr_bits_enc[OF assms(3), of rest, folded assms(4)]] by auto
  obtain a where a: "sl_skip_last L k (length rest) (length (srefs k)) = Inr a" "sbits a = enc_addr p" "srefs a = []"
    using skip_last[of "length rest" k "length (srefs k)"] assms(4) by (auto simp: slice_is_def)
  show ?thesis
    using assms(1,2) k a
    by (auto simp: exec_load_message_addr_def size_bits size_refs depth_def push_bool_def make_bool_def)
qed

lemma parse_addr_ok:
  assumes "stack st = xs @ [VSlice k]" and "length xs + 3 \<le> MAX_DEPTH"
    and "parts_valid M (version st) p" and "sbits k = enc_addr p @ rest"
    and "cell_kind A (slice_cell A k) = Ordinary"
  shows "\<exists>parts. exec_parse_message_addr L M q st =
      (Inr 0, st\<lparr>stack := xs @ [VTuple (into_tuple_parts parts)] @ (if q then [VInt (-1)] else [])\<rparr>) \<and>
    map_addr_parts sbits parts = p"
proof -
  obtain parts k' where "parse_addr L M (version st) k = (Inr parts, k')" "map_addr_parts sbits parts = p"
    using follows_Inr[OF fol_parse_addr addr_bits_enc[OF assms(3), of rest, folded assms(4)]] by auto
  then show ?thesis
    using assms(1,2) apply_ordinary[OF assms(5)]
    by (auto simp: exec_parse_message_addr_def parse_message_addr_def depth_def push_bool_def make_bool_def)
qed

lemma no_addr:
  assumes "stack st = xs @ [VSlice k]" and "length xs + 3 \<le> MAX_DEPTH"
    and "\<nexists>p rest. parts_valid M (version st) p \<and> sbits k = enc_addr p @ rest"
  shows "exec_load_message_addr A L M True st = (Inr 0, st\<lparr>stack := xs @ [VSlice k, VInt 0]\<rparr>)"
    and "exec_parse_message_addr L M True st = (Inr 0, st\<lparr>stack := xs @ [VInt 0]\<rparr>)"
proof -
  obtain r bs where r: "addr_bits M (version st) (sbits k) = (r, bs)" by fastforce
  have "addr_bits M v bs = (Inr p, rest) \<Longrightarrow> parts_valid M v p \<and> bs = enc_addr p @ rest" for v bs p rest
    by (rule addr_bits_inv) (erule split_depth)
  then obtain u where "r = Inl u" using r assms(3) by (cases r) blast+
  then obtain e k1 e' k2 where run: "skip_message_addr A L M (version st) k = (Inl e, k1)"
    "parse_addr L M (version st) k = (Inl e', k2)"
    using r follows_Inl[OF fol_skip_addr, of "version st" k u bs] follows_Inl[OF fol_parse_addr, of "version st" k u bs] by auto
  obtain e2 where "parse_message_addr L M (version st) k = Inl e2"
    using run(2) apply_ordinary[of k] apply_exotic[of k] by (fastforce simp: parse_message_addr_def)
  with run(1) show "exec_load_message_addr A L M True st = (Inr 0, st\<lparr>stack := xs @ [VSlice k, VInt 0]\<rparr>)"
    "exec_parse_message_addr L M True st = (Inr 0, st\<lparr>stack := xs @ [VInt 0]\<rparr>)"
    using assms(1,2)
    by (simp_all add: exec_load_message_addr_def exec_parse_message_addr_def depth_def push_bool_def make_bool_def)
qed

lemma parse_exotic:
  assumes "stack st = xs @ [VSlice k]" and "length xs + 3 \<le> MAX_DEPTH" and "cell_kind A (slice_cell A k) \<noteq> Ordinary"
  shows "exec_parse_message_addr L M True st = (Inr 0, st\<lparr>stack := xs @ [VInt 0]\<rparr>)"
  using assms(1,2) apply_exotic[OF assms(3)]
  by (auto simp: exec_parse_message_addr_def parse_message_addr_def depth_def push_bool_def make_bool_def)

end

end
