(* ===== verification/Dispatch.thy ===== *)
theory Dispatch
  imports Machine
begin

text \<open>
  \<open>vm/src/dispatch.rs\<close>: the opcode table of a code page. Opcodes are registered one by one with
  an overlap check, the gaps are filled with a dummy that fails, and the interpreter finds the
  entry of the next 24 bits of code by binary search. The dump half of the file (feature
  \<open>dump\<close>) has the same shape and is not modelled. The \<open>BTreeMap\<close> is its list of entries in key
  order.
\<close>

section \<open>Opcodes\<close>

definition MAX_OPCODE_BITS :: nat where "MAX_OPCODE_BITS = 24"
definition MAX_OPCODE :: nat where "MAX_OPCODE = 2 ^ MAX_OPCODE_BITS"
definition GAS_PER_INSTRUCTION :: int where "GAS_PER_INSTRUCTION = 10"
definition GAS_PER_BIT :: int where "GAS_PER_BIT = 1"

definition opcode_gas :: "nat \<Rightarrow> int" where
  "opcode_gas bits = GAS_PER_INSTRUCTION + int bits * GAS_PER_BIT"

text \<open>The implementations of \<open>OpcodeExec\<close>: function, range and width.\<close>

datatype ('c, 's, 'b) opcode =
    DummyOpcode nat nat
  | SimpleOpcode "('c, 's, 'b, int) vm" nat nat nat
  | FixedOpcode "nat \<Rightarrow> ('c, 's, 'b, int) vm" nat nat nat
  | ExtOpcode "nat \<Rightarrow> nat \<Rightarrow> ('c, 's, 'b, int) vm" nat nat nat

fun opcode_range :: "('c, 's, 'b) opcode \<Rightarrow> nat \<times> nat" where
  "opcode_range (DummyOpcode lo hi) = (lo, hi)"
| "opcode_range (SimpleOpcode f lo hi bits) = (lo, hi)"
| "opcode_range (FixedOpcode f lo hi bits) = (lo, hi)"
| "opcode_range (ExtOpcode f lo hi bits) = (lo, hi)"

definition skip_code :: "('c, 's) api \<Rightarrow> nat \<Rightarrow> ('c, 's, 'b, unit) vm" where
  "skip_code A bits = bnd (gets code) (\<lambda>k.
     bnd (lift_res cell_fault (slice_skip_first A k bits 0)) (\<lambda>k'.
     modify (\<lambda>st. st\<lparr>code := k'\<rparr>)))"

fun opcode_exec :: "('c, 's) api \<Rightarrow> ('c, 's, 'b) opcode \<Rightarrow> nat \<Rightarrow> nat \<Rightarrow> ('c, 's, 'b, int) vm" where
  "opcode_exec A (DummyOpcode lo hi) op bits =
     thn (on_gas (try_consume GAS_PER_INSTRUCTION)) (vm_fail InvalidOpcode)"
| "opcode_exec A (SimpleOpcode f lo hi opcode_bits) op bits =
     thn (on_gas (try_consume (opcode_gas opcode_bits)))
    (thn (vm_ensure (opcode_bits \<le> bits) InvalidOpcode)
    (thn (skip_code A opcode_bits) f))"
| "opcode_exec A (FixedOpcode f lo hi total_bits) op bits =
     thn (on_gas (try_consume (opcode_gas total_bits)))
    (thn (vm_ensure (total_bits \<le> bits) InvalidOpcode)
    (thn (skip_code A total_bits) (f (drop_bit (MAX_OPCODE_BITS - total_bits) op))))"
| "opcode_exec A (ExtOpcode f lo hi total_bits) op bits =
     thn (on_gas (try_consume (opcode_gas total_bits)))
    (thn (vm_ensure (total_bits \<le> bits) InvalidOpcode)
         (f (drop_bit (MAX_OPCODE_BITS - total_bits) op) total_bits))"

section \<open>Registering opcodes\<close>

type_synonym ('c, 's, 'b) entries = "(nat \<times> ('c, 's, 'b) opcode) list"

definition first_at_least :: "nat \<Rightarrow> (nat \<times> 'x) list \<Rightarrow> (nat \<times> 'x) option" where
  "first_at_least k xs = (case dropWhile (\<lambda>e. fst e < k) xs of [] \<Rightarrow> None | e # _ \<Rightarrow> Some e)"

definition last_at_most :: "nat \<Rightarrow> (nat \<times> 'x) list \<Rightarrow> (nat \<times> 'x) option" where
  "last_at_most k xs = (case takeWhile (\<lambda>e. fst e \<le> k) xs of [] \<Rightarrow> None | ys \<Rightarrow> Some (last ys))"

definition insert_entry :: "nat \<Rightarrow> 'x \<Rightarrow> (nat \<times> 'x) list \<Rightarrow> (nat \<times> 'x) list" where
  "insert_entry k v xs = takeWhile (\<lambda>e. fst e < k) xs @ (k, v) # dropWhile (\<lambda>e. fst e \<le> k) xs"

definition add_opcode :: "('c, 's, 'b) opcode \<Rightarrow> ('c, 's, 'b) entries \<Rightarrow> string + ('c, 's, 'b) entries" where
  "add_opcode op xs = (case opcode_range op of (lo, hi) \<Rightarrow>
     (case first_at_least lo xs of
        Some (other_min, _) \<Rightarrow>
          if hi \<le> other_min then
            (case last_at_most lo xs of
               Some (_, prev) \<Rightarrow>
                 if snd (opcode_range prev) \<le> lo then Inr (insert_entry lo op xs)
                 else Inl ''Opcode overlaps with prev max''
             | None \<Rightarrow> Inr (insert_entry lo op xs))
          else Inl ''Opcode overlaps with next min''
      | None \<Rightarrow>
          (case last_at_most lo xs of
             Some (_, prev) \<Rightarrow>
               if snd (opcode_range prev) \<le> lo then Inr (insert_entry lo op xs)
               else Inl ''Opcode overlaps with prev max''
           | None \<Rightarrow> Inr (insert_entry lo op xs))))"

definition simple_op :: "nat \<Rightarrow> nat \<Rightarrow> ('c, 's, 'b, int) vm \<Rightarrow> ('c, 's, 'b) opcode" where
  "simple_op opc bits f =
     (let remaining_bits = MAX_OPCODE_BITS - bits in
      SimpleOpcode f (push_bit remaining_bits opc) (push_bit remaining_bits (opc + 1)) bits)"

definition fixed_op :: "nat \<Rightarrow> nat \<Rightarrow> nat \<Rightarrow> (nat \<Rightarrow> ('c, 's, 'b, int) vm) \<Rightarrow> ('c, 's, 'b) opcode" where
  "fixed_op opc opcode_bits arg_bits f =
     (let remaining_bits = MAX_OPCODE_BITS - opcode_bits in
      FixedOpcode f (push_bit remaining_bits opc) (push_bit remaining_bits (opc + 1))
        (opcode_bits + arg_bits))"

definition fixed_range_op :: "nat \<Rightarrow> nat \<Rightarrow> nat \<Rightarrow> nat \<Rightarrow> (nat \<Rightarrow> ('c, 's, 'b, int) vm) \<Rightarrow> ('c, 's, 'b) opcode" where
  "fixed_range_op lo hi total_bits arg_bits f =
     (let remaining_bits = MAX_OPCODE_BITS - total_bits in
      FixedOpcode f (push_bit remaining_bits lo) (push_bit remaining_bits hi) total_bits)"

definition ext_op :: "nat \<Rightarrow> nat \<Rightarrow> nat \<Rightarrow> (nat \<Rightarrow> nat \<Rightarrow> ('c, 's, 'b, int) vm) \<Rightarrow> ('c, 's, 'b) opcode" where
  "ext_op opc opcode_bits arg_bits f =
     (let remaining_bits = MAX_OPCODE_BITS - opcode_bits in
      ExtOpcode f (push_bit remaining_bits opc) (push_bit remaining_bits (opc + 1))
        (opcode_bits + arg_bits))"

definition ext_range_op :: "nat \<Rightarrow> nat \<Rightarrow> nat \<Rightarrow> (nat \<Rightarrow> nat \<Rightarrow> ('c, 's, 'b, int) vm) \<Rightarrow> ('c, 's, 'b) opcode" where
  "ext_range_op lo hi total_bits f =
     (let remaining_bits = MAX_OPCODE_BITS - total_bits in
      ExtOpcode f (push_bit remaining_bits lo) (push_bit remaining_bits hi) total_bits)"

fun add_opcodes :: "('c, 's, 'b) opcode list \<Rightarrow> ('c, 's, 'b) entries \<Rightarrow> string + ('c, 's, 'b) entries" where
  "add_opcodes [] xs = Inr xs"
| "add_opcodes (op # ops) xs = (case add_opcode op xs of Inl e \<Rightarrow> Inl e | Inr ys \<Rightarrow> add_opcodes ops ys)"

section \<open>Building and searching the table\<close>

fun fill_gaps :: "nat \<Rightarrow> ('c, 's, 'b) entries \<Rightarrow> ('c, 's, 'b) entries" where
  "fill_gaps lo0 [] = (if lo0 < MAX_OPCODE then [(lo0, DummyOpcode lo0 MAX_OPCODE)] else [])"
| "fill_gaps lo0 ((k, op) # xs) = (case opcode_range op of (lo, hi) \<Rightarrow>
     (if lo > lo0 then [(lo0, DummyOpcode lo0 lo)] else []) @ (k, op) # fill_gaps hi xs)"

definition build_opcodes :: "('c, 's, 'b) entries \<Rightarrow> ('c, 's, 'b) entries" where
  "build_opcodes xs = fill_gaps 0 xs"

function search :: "nat \<Rightarrow> (nat \<times> 'x) list \<Rightarrow> nat \<Rightarrow> nat \<Rightarrow> nat" where
  "search opc xs i j =
     (if j - i > 1 then
        let k = (j + i) div 2 in
        if fst (xs ! k) \<le> opc then search opc xs k j else search opc xs i k
      else i)"
  by pat_completeness auto
termination
  by (relation "measure (\<lambda>(opc, xs, i, j). j - i)") (auto simp: Let_def)

declare search.simps [simp del]

definition lookup_impl :: "nat \<Rightarrow> (nat \<times> 'x) list \<Rightarrow> 'x" where
  "lookup_impl opc xs = snd (xs ! search opc xs 0 (length xs))"

definition get_opcode_from_slice :: "('c, 's) api \<Rightarrow> 's \<Rightarrow> (nat \<times> nat) option" where
  "get_opcode_from_slice A k =
     (let bits = min MAX_OPCODE_BITS (slice_size_bits A k) in
      case slice_get_uint A k 0 bits of
        Inr n \<Rightarrow> Some (push_bit (MAX_OPCODE_BITS - bits) n, bits)
      | Inl _ \<Rightarrow> None)"

definition dispatch :: "('c, 's) api \<Rightarrow> ('c, 's, 'b) entries \<Rightarrow> ('c, 's, 'b, int) vm" where
  "dispatch A table = bnd (gets code) (\<lambda>k.
     case get_opcode_from_slice A k of
       None \<Rightarrow> fail Panic
     | Some (opc, bits) \<Rightarrow> opcode_exec A (lookup_impl opc table) opc bits)"

section \<open>The table tiles the opcode space\<close>

definition entry_lo :: "nat \<times> ('c, 's, 'b) opcode \<Rightarrow> nat" where
  "entry_lo e = fst (opcode_range (snd e))"

definition entry_hi :: "nat \<times> ('c, 's, 'b) opcode \<Rightarrow> nat" where
  "entry_hi e = snd (opcode_range (snd e))"

definition entry_ok :: "nat \<times> ('c, 's, 'b) opcode \<Rightarrow> bool" where
  "entry_ok e \<longleftrightarrow> entry_lo e = fst e \<and> fst e < entry_hi e \<and> entry_hi e \<le> MAX_OPCODE"

definition entries_ok :: "('c, 's, 'b) entries \<Rightarrow> bool" where
  "entries_ok xs \<longleftrightarrow> (\<forall>e \<in> set xs. entry_ok e) \<and> sorted_wrt (\<lambda>d e. entry_hi d \<le> fst e) xs"

fun tiles :: "nat \<Rightarrow> ('c, 's, 'b) entries \<Rightarrow> nat \<Rightarrow> bool" where
  "tiles lo [] hi = (lo = hi)"
| "tiles lo (e # es) hi = (fst e = lo \<and> entry_lo e = lo \<and> lo < entry_hi e \<and> tiles (entry_hi e) es hi)"

lemma entries_ok_keys: "entries_ok xs \<Longrightarrow> sorted_wrt (\<lambda>d e. fst d < fst e) xs"
  unfolding entries_ok_def
  by (elim conjE, erule sorted_wrt_mono_rel[rotated]) (auto simp: entry_ok_def)

lemma sorted_split:
  assumes "sorted_wrt (\<lambda>d e. fst d < fst (e :: nat \<times> 'x)) xs"
  shows "dropWhile (\<lambda>e. fst e < k) xs = filter (\<lambda>e. k \<le> fst e) xs"
    and "dropWhile (\<lambda>e. fst e \<le> k) xs = filter (\<lambda>e. k < fst e) xs"
    and "takeWhile (\<lambda>e. fst e < k) xs = filter (\<lambda>e. fst e < k) xs"
    and "takeWhile (\<lambda>e. fst e \<le> k) xs = filter (\<lambda>e. fst e \<le> k) xs"
  using assms
proof (induction xs)
  case (Cons a xs)
  {
    case 1
    then show ?case using Cons by (auto intro!: filter_True[symmetric])
  next
    case 2
    then show ?case using Cons by (auto intro!: filter_True[symmetric])
  next
    case 3
    then show ?case using Cons by (auto intro!: filter_False[symmetric])
  next
    case 4
    then show ?case using Cons by (auto intro!: filter_False[symmetric])
  }
qed auto

lemma sorted_hd_least:
  "sorted_wrt (\<lambda>d e. fst d < fst (e :: nat \<times> 'x)) (x # xs) \<Longrightarrow> e \<in> set (x # xs) \<Longrightarrow> fst x \<le> fst e"
  by (auto simp: less_imp_le)

lemma sorted_last_greatest:
  "sorted_wrt (\<lambda>d e. fst d < fst (e :: nat \<times> 'x)) xs \<Longrightarrow> e \<in> set xs \<Longrightarrow> fst e \<le> fst (last xs)"
  by (induction xs) (auto simp: less_imp_le)

lemma first_at_least_None:
  "sorted_wrt (\<lambda>d e. fst d < fst e) xs \<Longrightarrow>
   first_at_least k xs = None \<longleftrightarrow> (\<forall>e \<in> set xs. fst e < k)"
  by (auto simp: first_at_least_def sorted_split filter_empty_conv not_le dest!: filter_eq_ConsD
      split: list.splits)

lemma first_at_least_Some:
  assumes "sorted_wrt (\<lambda>d e. fst d < fst e) xs" and "first_at_least k xs = Some e"
  shows "e \<in> set xs" "k \<le> fst e" "\<forall>d \<in> set xs. k \<le> fst d \<longrightarrow> fst e \<le> fst d"
proof -
  obtain es where f: "filter (\<lambda>e. k \<le> fst e) xs = e # es"
    using assms by (auto simp: first_at_least_def sorted_split split: list.splits)
  have s: "sorted_wrt (\<lambda>d e. fst d < fst e) (e # es)"
    using sorted_wrt_filter[OF assms(1), of "\<lambda>e. k \<le> fst e"] f by simp
  have m: "d \<in> set (e # es) \<longleftrightarrow> d \<in> set xs \<and> k \<le> fst d" for d
    by (simp add: f[symmetric] del: list.set)
  show "e \<in> set xs" "k \<le> fst e" using m[of e] by auto
  show "\<forall>d \<in> set xs. k \<le> fst d \<longrightarrow> fst e \<le> fst d"
    using m sorted_hd_least[OF s] by blast
qed

lemma last_at_most_None:
  "sorted_wrt (\<lambda>d e. fst d < fst e) xs \<Longrightarrow>
   last_at_most k xs = None \<longleftrightarrow> (\<forall>e \<in> set xs. k < fst e)"
  by (auto simp: last_at_most_def sorted_split filter_empty_conv not_le dest!: filter_eq_ConsD
      split: list.splits)

lemma last_at_most_Some:
  assumes "sorted_wrt (\<lambda>d e. fst d < fst e) xs" and "last_at_most k xs = Some e"
  shows "e \<in> set xs" "fst e \<le> k" "\<forall>d \<in> set xs. fst d \<le> k \<longrightarrow> fst d \<le> fst e"
proof -
  let ?f = "filter (\<lambda>e. fst e \<le> k) xs"
  have f: "?f \<noteq> []" "e = last ?f"
    using assms by (auto simp: last_at_most_def sorted_split split: list.splits)
  have s: "sorted_wrt (\<lambda>d e. fst d < fst e) ?f" by (rule sorted_wrt_filter[OF assms(1)])
  have "e \<in> set ?f" unfolding f(2) by (rule last_in_set[OF f(1)])
  then show "e \<in> set xs" "fst e \<le> k" by simp_all
  show "\<forall>d \<in> set xs. fst d \<le> k \<longrightarrow> fst d \<le> fst e"
    using sorted_last_greatest[OF s] f(2) by auto
qed

definition no_overlap :: "('c, 's, 'b) opcode \<Rightarrow> ('c, 's, 'b) entries \<Rightarrow> bool" where
  "no_overlap op xs \<longleftrightarrow>
     (\<forall>e \<in> set xs. entry_hi e \<le> fst (opcode_range op) \<or> snd (opcode_range op) \<le> fst e)"

lemma entries_ok_ordered:
  assumes "entries_ok xs" "d \<in> set xs" "e \<in> set xs" "fst d < fst e"
  shows "entry_hi d \<le> fst e"
proof -
  from assms(2,3) obtain i j where ij: "i < length xs" "j < length xs" "d = xs ! i" "e = xs ! j"
    by (auto simp: in_set_conv_nth)
  have "i < j"
  proof (rule ccontr)
    assume "\<not> i < j"
    then have "j = i \<or> j < i" by auto
    then show False
      using assms(4) ij sorted_wrt_nth_less[OF entries_ok_keys[OF assms(1)], of j i] by auto
  qed
  then show ?thesis
    using assms(1) ij sorted_wrt_nth_less[of "\<lambda>d e. entry_hi d \<le> fst e" xs i j]
    by (auto simp: entries_ok_def)
qed

lemma add_opcode_checks:
  assumes "entries_ok xs" "opcode_range op = (lo, hi)" "lo < hi"
  shows "(case first_at_least lo xs of Some d \<Rightarrow> hi \<le> fst d | None \<Rightarrow> True) \<and>
         (case last_at_most lo xs of Some e \<Rightarrow> entry_hi e \<le> lo | None \<Rightarrow> True)
         \<longleftrightarrow> no_overlap op xs" (is "?F \<and> ?L \<longleftrightarrow> _")
proof
  have keys: "sorted_wrt (\<lambda>d e. fst d < fst e) xs" by (rule entries_ok_keys[OF assms(1)])
  have wf: "\<And>e. e \<in> set xs \<Longrightarrow> fst e < entry_hi e"
    using assms(1) by (auto simp: entries_ok_def entry_ok_def)
  {
    assume FL: "?F \<and> ?L"
    have "entry_hi e \<le> lo \<or> hi \<le> fst e" if e: "e \<in> set xs" for e
    proof (cases "lo \<le> fst e")
      case True
      with e have "first_at_least lo xs \<noteq> None" using first_at_least_None[OF keys, of lo] by auto
      then obtain d where d: "first_at_least lo xs = Some d" by auto
      with FL True e first_at_least_Some[OF keys d] show ?thesis by fastforce
    next
      case False
      with e have "last_at_most lo xs \<noteq> None" using last_at_most_None[OF keys, of lo] by auto
      then obtain d where d: "last_at_most lo xs = Some d" by auto
      note D = last_at_most_Some[OF keys d]
      have "entry_hi d \<le> lo" using FL d by simp
      moreover have "entry_hi e \<le> entry_hi d"
      proof (cases "fst e < fst d")
        case True
        then show ?thesis using entries_ok_ordered[OF assms(1) e D(1)] wf[OF D(1)] by simp
      next
        case False
        then have "fst e = fst d" using D(3) e \<open>\<not> lo \<le> fst e\<close> by fastforce
        then have "e = d"
          using keys e D(1) by (induction xs) auto
        then show ?thesis by simp
      qed
      ultimately show ?thesis by simp
    qed
    then show "no_overlap op xs" using assms(2) by (auto simp: no_overlap_def)
  }
  assume N: "no_overlap op xs"
  then have N': "\<And>e. e \<in> set xs \<Longrightarrow> entry_hi e \<le> lo \<or> hi \<le> fst e"
    using assms(2) by (auto simp: no_overlap_def)
  have ?F
    using N' wf first_at_least_Some[OF keys, of lo] by (fastforce split: option.splits)
  moreover have ?L
    using N' wf assms(3) last_at_most_Some[OF keys, of lo] by (fastforce split: option.splits)
  ultimately show "?F \<and> ?L" by simp
qed

lemma add_opcode_Inr_iff:
  assumes "entries_ok xs" "opcode_range op = (lo, hi)" "lo < hi"
  shows "add_opcode op xs = Inr ys \<longleftrightarrow> no_overlap op xs \<and> ys = insert_entry lo op xs"
  using assms
  by (auto simp: add_opcode_checks[OF assms, symmetric] add_opcode_def entry_hi_def split: option.splits)

lemma insert_entry_split:
  assumes "entries_ok xs" "opcode_range op = (lo, hi)" "lo < hi" "no_overlap op xs"
  shows "insert_entry lo op xs =
         filter (\<lambda>e. fst e < lo) xs @ (lo, op) # filter (\<lambda>e. lo < fst e) xs"
    and "set (insert_entry lo op xs) = insert (lo, op) (set xs)"
proof -
  have "fst e \<noteq> lo" if "e \<in> set xs" for e
    using assms that by (fastforce simp: no_overlap_def entries_ok_def entry_ok_def)
  then show "insert_entry lo op xs =
         filter (\<lambda>e. fst e < lo) xs @ (lo, op) # filter (\<lambda>e. lo < fst e) xs"
    and "set (insert_entry lo op xs) = insert (lo, op) (set xs)"
    by (auto simp: insert_entry_def sorted_split[OF entries_ok_keys[OF assms(1)]] neq_iff)
qed

lemma insert_entry_ok:
  assumes ok: "entries_ok xs" and r: "opcode_range op = (lo, hi)" "lo < hi" "hi \<le> MAX_OPCODE"
    and N: "no_overlap op xs"
  shows "entries_ok (insert_entry lo op xs)"
proof -
  have s: "sorted_wrt (\<lambda>d e. entry_hi d \<le> fst e) xs" using ok by (simp add: entries_ok_def)
  have wf: "\<And>e. e \<in> set xs \<Longrightarrow> fst e < entry_hi e"
    using ok by (auto simp: entries_ok_def entry_ok_def)
  have N': "\<And>e. e \<in> set xs \<Longrightarrow> entry_hi e \<le> lo \<or> hi \<le> fst e"
    using N r by (auto simp: no_overlap_def)
  have "sorted_wrt (\<lambda>d e. entry_hi d \<le> fst e) (insert_entry lo op xs)"
    unfolding insert_entry_split(1)[OF ok r(1,2) N] sorted_wrt_append sorted_wrt.simps
  proof (intro conjI ballI)
    fix d e
    assume d: "d \<in> set (filter (\<lambda>e. fst e < lo) xs)"
    then have dl: "entry_hi d \<le> lo" using N' r(2) by fastforce
    assume "e \<in> set ((lo, op) # filter (\<lambda>e. lo < fst e) xs)"
    then show "entry_hi d \<le> fst e" using dl by auto
  next
    fix e assume "e \<in> set (filter (\<lambda>e. lo < fst e) xs)"
    then show "entry_hi (lo, op) \<le> fst e" using N' wf r(1) by (fastforce simp: entry_hi_def)
  qed (rule sorted_wrt_filter[OF s])+
  then show ?thesis
    using ok r by (auto simp: entries_ok_def insert_entry_split(2)[OF ok r(1,2) N]
        entry_ok_def entry_lo_def entry_hi_def)
qed

section \<open>Lookup finds the entry that contains the opcode\<close>

lemma fill_gaps_tiles:
  assumes "entries_ok xs" and "\<forall>e \<in> set xs. lo0 \<le> fst e" and "lo0 \<le> MAX_OPCODE"
  shows "tiles lo0 (fill_gaps lo0 xs) MAX_OPCODE"
  using assms
proof (induction xs arbitrary: lo0)
  case Nil
  then show ?case by (auto simp: entry_lo_def entry_hi_def)
next
  case (Cons e xs)
  obtain k op where e: "e = (k, op)" by (cases e)
  obtain lo hi where r: "opcode_range op = (lo, hi)" by (cases "opcode_range op")
  have ok: "entries_ok xs" using Cons.prems(1) by (auto simp: entries_ok_def)
  have k: "lo = k" "k < hi" "hi \<le> MAX_OPCODE" "\<forall>d \<in> set xs. hi \<le> fst d"
    using Cons.prems(1) e r by (auto simp: entries_ok_def entry_ok_def entry_lo_def entry_hi_def)
  have "tiles hi (fill_gaps hi xs) MAX_OPCODE" by (rule Cons.IH[OF ok k(4,3)])
  then show ?case
    using Cons.prems(2) e r k by (auto simp: entry_lo_def entry_hi_def)
qed

lemma set_fill_gaps: "set xs \<subseteq> set (fill_gaps lo0 xs)"
proof (induction xs arbitrary: lo0)
  case (Cons e xs)
  obtain lo hi where "opcode_range (snd e) = (lo, hi)" by (cases "opcode_range (snd e)")
  then show ?case using Cons[of hi] by (cases e) auto
qed simp

lemma fill_gaps_members:
  "e \<in> set (fill_gaps lo0 xs) \<Longrightarrow> e \<in> set xs \<or> (\<exists>lo hi. e = (lo, DummyOpcode lo hi))"
  by (induction lo0 xs rule: fill_gaps.induct) (auto split: prod.splits if_splits)

lemma tiles_bound: "tiles lo xs hi \<Longrightarrow> lo \<le> hi"
  by (induction lo xs hi rule: tiles.induct) auto

lemma tiles_above: "tiles lo xs hi \<Longrightarrow> e \<in> set xs \<Longrightarrow> lo \<le> fst e \<and> fst e < entry_hi e \<and> entry_hi e \<le> hi"
  by (induction lo xs hi rule: tiles.induct) (auto dest: tiles_bound)

lemma tiles_nth:
  "tiles lo xs hi \<Longrightarrow> i < length xs \<Longrightarrow>
   entry_hi (xs ! i) = (if Suc i < length xs then fst (xs ! Suc i) else hi)"
proof (induction lo xs hi arbitrary: i rule: tiles.induct)
  case (2 lo e es hi)
  then show ?case by (cases i; cases es) auto
qed simp

lemma tiles_distinct:
  assumes "tiles lo xs hi" "d \<in> set xs" "e \<in> set xs"
    "fst d \<le> v" "v < entry_hi d" "fst e \<le> v" "v < entry_hi e"
  shows "d = e"
  using assms
proof (induction lo xs hi rule: tiles.induct)
  case (2 lo a es hi)
  then show ?case using tiles_above[of "entry_hi a" es hi] by fastforce
qed simp

lemma search_brackets:
  assumes "i < j" "j \<le> length xs" "fst (xs ! i) \<le> opc" "j < length xs \<Longrightarrow> opc < fst (xs ! j)"
  shows "search opc xs i j < length xs \<and> fst (xs ! search opc xs i j) \<le> opc \<and>
         (Suc (search opc xs i j) < length xs \<longrightarrow> opc < fst (xs ! Suc (search opc xs i j)))"
  using assms
proof (induction opc xs i j rule: search.induct)
  case (1 opc xs i j)
  show ?case
  proof (cases "j - i > 1")
    case True
    define k where "k = (j + i) div 2"
    have k: "i < k" "k < j" using True by (auto simp: k_def)
    show ?thesis
    proof (cases "fst (xs ! k) \<le> opc")
      case True': True
      then have "search opc xs i j = search opc xs k j"
        using True by (subst search.simps) (simp add: k_def Let_def)
      then show ?thesis using 1(1)[OF True k_def True'] 1 k True' by simp
    next
      case False
      then have "search opc xs i j = search opc xs i k"
        using True by (subst search.simps) (simp add: k_def Let_def)
      then show ?thesis using 1(2)[OF True k_def False] 1 k False by simp
    qed
  next
    case False
    then have "search opc xs i j = i" by (subst search.simps) simp
    moreover have "Suc i = j" using False 1 by simp
    ultimately show ?thesis using 1 by auto
  qed
qed

lemma lookup_tiles:
  assumes t: "tiles 0 xs MAX_OPCODE" and o: "opc < MAX_OPCODE"
  shows "\<exists>e \<in> set xs. lookup_impl opc xs = snd e \<and> fst e \<le> opc \<and> opc < entry_hi e"
proof -
  let ?i = "search opc xs 0 (length xs)"
  have ne: "xs \<noteq> []" using t o by (auto simp: MAX_OPCODE_def)
  then have "fst (xs ! 0) = 0" using t by (cases xs) auto
  then have b: "?i < length xs" "fst (xs ! ?i) \<le> opc"
      "Suc ?i < length xs \<longrightarrow> opc < fst (xs ! Suc ?i)"
    using search_brackets[of 0 "length xs" xs opc] ne by auto
  then have "opc < entry_hi (xs ! ?i)" using tiles_nth[OF t b(1)] o by auto
  with b show ?thesis by (intro bexI[of _ "xs ! ?i"]) (auto simp: lookup_impl_def)
qed

text \<open>What the table promises: every entry covers its own range, and every gap fails.\<close>

definition opcode_wf :: "('c, 's, 'b) opcode \<Rightarrow> bool" where
  "opcode_wf op \<longleftrightarrow> fst (opcode_range op) < snd (opcode_range op) \<and> snd (opcode_range op) \<le> MAX_OPCODE"

definition covers :: "('c, 's, 'b) opcode \<Rightarrow> nat \<Rightarrow> bool" where
  "covers op opc \<longleftrightarrow> fst (opcode_range op) \<le> opc \<and> opc < snd (opcode_range op)"

fun is_dummy :: "('c, 's, 'b) opcode \<Rightarrow> bool" where
  "is_dummy (DummyOpcode lo hi) = True"
| "is_dummy _ = False"

lemma add_opcode_outcome:
  assumes "entries_ok xs" and "opcode_wf op"
  shows "case add_opcode op xs of
           Inl _ \<Rightarrow> \<not> no_overlap op xs
         | Inr ys \<Rightarrow> no_overlap op xs \<and> entries_ok ys \<and>
             set ys = insert (fst (opcode_range op), op) (set xs)"
proof -
  obtain lo hi where r: "opcode_range op = (lo, hi)" by (cases "opcode_range op")
  with assms(2) have lh: "lo < hi" "hi \<le> MAX_OPCODE" by (auto simp: opcode_wf_def)
  note iff = add_opcode_Inr_iff[OF assms(1) r lh(1)]
  show ?thesis
  proof (cases "add_opcode op xs")
    case (Inl e)
    then show ?thesis using iff by fastforce
  next
    case (Inr ys)
    then show ?thesis
      using iff[of ys] insert_entry_ok[OF assms(1) r lh] insert_entry_split(2)[OF assms(1) r lh(1)] r
      by simp
  qed
qed

lemma add_opcodes_ok:
  assumes "entries_ok xs" "\<forall>op \<in> set ops. opcode_wf op" "add_opcodes ops xs = Inr ys"
  shows "entries_ok ys \<and> set ys = (\<lambda>op. (fst (opcode_range op), op)) ` set ops \<union> set xs"
  using assms
proof (induction ops arbitrary: xs)
  case (Cons op ops)
  then obtain zs where z: "add_opcode op xs = Inr zs" and r: "add_opcodes ops zs = Inr ys"
    by (auto split: sum.splits)
  have "entries_ok zs \<and> set zs = insert (fst (opcode_range op), op) (set xs)"
    using add_opcode_outcome[OF Cons.prems(1), of op] Cons.prems(2) z by simp
  with Cons.IH[of zs] Cons.prems(2) r show ?case by auto
qed simp

lemma lookup_build_outcome:
  assumes ok: "entries_ok xs" and o: "opc < MAX_OPCODE"
  shows "if \<exists>e \<in> set xs. covers (snd e) opc
         then (\<exists>e \<in> set xs. covers (snd e) opc \<and> lookup_impl opc (build_opcodes xs) = snd e)
         else is_dummy (lookup_impl opc (build_opcodes xs))"
    and "covers (lookup_impl opc (build_opcodes xs)) opc"
proof -
  have t: "tiles 0 (build_opcodes xs) MAX_OPCODE"
    unfolding build_opcodes_def by (rule fill_gaps_tiles[OF ok]) auto
  obtain d where d: "d \<in> set (build_opcodes xs)" "lookup_impl opc (build_opcodes xs) = snd d"
      "fst d \<le> opc" "opc < entry_hi d"
    using lookup_tiles[OF t o] by blast
  have lo: "fst (opcode_range (snd e)) = fst e" if "e \<in> set xs \<or> e = d" for e
  proof -
    have "e \<in> set xs \<or> (\<exists>lo hi. e = (lo, DummyOpcode lo hi))"
      using that fill_gaps_members[of d 0 xs] d(1) by (auto simp: build_opcodes_def)
    then show ?thesis using ok by (auto simp: entries_ok_def entry_ok_def entry_lo_def)
  qed
  then show "covers (lookup_impl opc (build_opcodes xs)) opc"
    using d by (auto simp: covers_def entry_hi_def)
  have same: "e = d" if "e \<in> set xs" "covers (snd e) opc" for e
    using tiles_distinct[OF t _ d(1), of e opc] that d set_fill_gaps[of xs 0] lo[of e]
    by (auto simp: covers_def entry_hi_def build_opcodes_def)
  show "if \<exists>e \<in> set xs. covers (snd e) opc
         then (\<exists>e \<in> set xs. covers (snd e) opc \<and> lookup_impl opc (build_opcodes xs) = snd e)
         else is_dummy (lookup_impl opc (build_opcodes xs))"
  proof (cases "d \<in> set xs")
    case True
    moreover have "covers (snd d) opc" using d lo[of d] by (simp add: covers_def entry_hi_def)
    ultimately show ?thesis using d(2) by auto
  next
    case False
    then have "\<not> (\<exists>e \<in> set xs. covers (snd e) opc)" using same by blast
    moreover have "\<exists>lo hi. d = (lo, DummyOpcode lo hi)"
      using fill_gaps_members[of d 0 xs] d(1) False by (auto simp: build_opcodes_def)
    ultimately show ?thesis using d(2) by auto
  qed
qed

lemma constructors_wf:
  "0 < bits \<Longrightarrow> bits \<le> 24 \<Longrightarrow> opc < 2 ^ bits \<Longrightarrow> opcode_wf (simple_op opc bits f)"
  "0 < bits \<Longrightarrow> bits \<le> 24 \<Longrightarrow> opc < 2 ^ bits \<Longrightarrow> opcode_wf (fixed_op opc bits ab g)"
  "0 < bits \<Longrightarrow> bits \<le> 24 \<Longrightarrow> lo < hi \<Longrightarrow> hi \<le> 2 ^ bits \<Longrightarrow> opcode_wf (fixed_range_op lo hi bits ab g)"
  "0 < bits \<Longrightarrow> bits \<le> 24 \<Longrightarrow> opc < 2 ^ bits \<Longrightarrow> opcode_wf (ext_op opc bits ab h)"
  "0 < bits \<Longrightarrow> bits \<le> 24 \<Longrightarrow> lo < hi \<Longrightarrow> hi \<le> 2 ^ bits \<Longrightarrow> opcode_wf (ext_range_op lo hi bits h)"
proof -
  have bound: "x * 2 ^ (24 - bits) \<le> MAX_OPCODE" if "x \<le> 2 ^ bits" "bits \<le> 24" for x :: nat
  proof -
    have "x * 2 ^ (24 - bits) \<le> 2 ^ bits * 2 ^ (24 - bits)" using that by simp
    also have "\<dots> = 2 ^ 24" using that(2) by (simp flip: power_add)
    finally show ?thesis by (simp add: MAX_OPCODE_def MAX_OPCODE_BITS_def)
  qed
  note defs = simple_op_def fixed_op_def fixed_range_op_def ext_op_def ext_range_op_def
    opcode_wf_def push_bit_eq_mult MAX_OPCODE_BITS_def Let_def
  show "0 < bits \<Longrightarrow> bits \<le> 24 \<Longrightarrow> opc < 2 ^ bits \<Longrightarrow> opcode_wf (simple_op opc bits f)"
    using bound[of "opc + 1"] by (simp add: defs)
  show "0 < bits \<Longrightarrow> bits \<le> 24 \<Longrightarrow> opc < 2 ^ bits \<Longrightarrow> opcode_wf (fixed_op opc bits ab g)"
    using bound[of "opc + 1"] by (simp add: defs)
  show "0 < bits \<Longrightarrow> bits \<le> 24 \<Longrightarrow> lo < hi \<Longrightarrow> hi \<le> 2 ^ bits \<Longrightarrow> opcode_wf (fixed_range_op lo hi bits ab g)"
    using bound[of hi] by (simp add: defs)
  show "0 < bits \<Longrightarrow> bits \<le> 24 \<Longrightarrow> opc < 2 ^ bits \<Longrightarrow> opcode_wf (ext_op opc bits ab h)"
    using bound[of "opc + 1"] by (simp add: defs)
  show "0 < bits \<Longrightarrow> bits \<le> 24 \<Longrightarrow> lo < hi \<Longrightarrow> hi \<le> 2 ^ bits \<Longrightarrow> opcode_wf (ext_range_op lo hi bits h)"
    using bound[of hi] by (simp add: defs)
qed

end
