(* ===== verification/Pattern.thy ===== *)
theory Pattern
  imports Dispatch
begin

text \<open>
  \<open>vm-proc/src/lib.rs\<close>: the attribute macro that turns the pattern of an instruction, such as
  \<open>e3$10nx#x\<close> or \<open>83xx @ ..83ff\<close>, into the entry of the opcode table: the width of the prefix,
  the range of opcodes and the bit fields of the operands. A pattern the macro rejects is a
  compile error, here \<open>Inl\<close>.
\<close>

unbundle bit_operations_syntax

section \<open>Scanning a pattern\<close>

definition char_code :: "char \<Rightarrow> nat" where
  "char_code c = of_char c"

text \<open>\<open>char::to_digit\<close> for the radices in use.\<close>

definition to_digit :: "nat \<Rightarrow> char \<Rightarrow> nat option" where
  "to_digit radix c = (let n = char_code c;
       d = (if 48 \<le> n \<and> n \<le> 57 then Some (n - 48)
            else if 97 \<le> n \<and> n \<le> 122 then Some (n - 87)
            else if 65 \<le> n \<and> n \<le> 90 then Some (n - 55) else None) in
     case d of Some d \<Rightarrow> if d < radix then Some d else None | None \<Rightarrow> None)"

definition is_ascii_alphanumeric :: "char \<Rightarrow> bool" where
  "is_ascii_alphanumeric c = (let n = char_code c in
     48 \<le> n \<and> n \<le> 57 \<or> 97 \<le> n \<and> n \<le> 122 \<or> 65 \<le> n \<and> n \<le> 90)"

definition is_whitespace :: "char \<Rightarrow> bool" where
  "is_whitespace c \<longleftrightarrow> char_code c = 32 \<or> 9 \<le> char_code c \<and> char_code c \<le> 13"

record scan =
  opcode_bits :: nat
  opcode_base_min :: nat
  binary_mode :: bool
  scan_args :: "(char \<times> nat) list"

definition scan_start :: scan where
  "scan_start = \<lparr>opcode_bits = 0, opcode_base_min = 0, binary_mode = False, scan_args = []\<rparr>"

text \<open>An operand letter extends the last field when it repeats it, and opens a field otherwise.\<close>

definition add_arg_bits :: "char \<Rightarrow> nat \<Rightarrow> (char \<times> nat) list \<Rightarrow> (char \<times> nat) list" where
  "add_arg_bits c bits xs =
     (if xs \<noteq> [] \<and> fst (last xs) = c then butlast xs @ [(c, snd (last xs) + bits)]
      else xs @ [(c, bits)])"

definition scan_char :: "char \<Rightarrow> scan \<Rightarrow> string + scan" where
  "scan_char c s =
     (if is_whitespace c \<or> c = CHR ''_'' then Inr s
      else if c = CHR ''$'' then Inr (s\<lparr>binary_mode := True\<rparr>)
      else if c = CHR ''#'' then Inr (s\<lparr>binary_mode := False\<rparr>)
      else if \<not> is_ascii_alphanumeric c then Inl ''Invalid pattern for the opcode''
      else
        let (radix, symbol_bits) = (if binary_mode s then (2, 1) else (16, 4));
            base = push_bit symbol_bits (opcode_base_min s) in
        case to_digit radix c of
          Some d \<Rightarrow>
            if scan_args s \<noteq> [] then Inl ''Invalid pattern for the opcode''
            else Inr (s\<lparr>opcode_bits := opcode_bits s + symbol_bits, opcode_base_min := base OR d\<rparr>)
        | None \<Rightarrow>
            Inr (s\<lparr>opcode_base_min := base, scan_args := add_arg_bits c symbol_bits (scan_args s)\<rparr>))"

fun scan_pattern :: "string \<Rightarrow> scan \<Rightarrow> string + scan" where
  "scan_pattern [] s = Inr s"
| "scan_pattern (c # cs) s = (case scan_char c s of Inl e \<Rightarrow> Inl e | Inr s' \<Rightarrow> scan_pattern cs s')"

section \<open>Explicit ranges\<close>

fun split_once :: "string \<Rightarrow> string \<Rightarrow> (string \<times> string) option" where
  "split_once sep [] = (if sep = [] then Some ([], []) else None)"
| "split_once sep (c # cs) =
     (if take (length sep) (c # cs) = sep then Some ([], drop (length sep) (c # cs))
      else case split_once sep cs of None \<Rightarrow> None | Some (a, b) \<Rightarrow> Some (c # a, b))"

definition trim :: "string \<Rightarrow> string" where
  "trim s = rev (dropWhile is_whitespace (rev (dropWhile is_whitespace s)))"

definition non_empty :: "string \<Rightarrow> string option" where
  "non_empty s = (if s = [] then None else Some s)"

text \<open>\<open>ParsedCode::from_str\<close>: the pattern and the two ends of the range after \<open>@\<close>.\<close>

definition parsed_code :: "string \<Rightarrow> string + string \<times> string option \<times> string option" where
  "parsed_code s = (case split_once ''@'' s of
      None \<Rightarrow> Inr (s, None, None)
    | Some (pat, rng) \<Rightarrow> (case split_once ''..'' rng of
        None \<Rightarrow> Inl ''expected an opcode range after `@`''
      | Some (from, to) \<Rightarrow> Inr (trim pat, non_empty (trim from), non_empty (trim to))))"

fun hex_value :: "string \<Rightarrow> nat \<Rightarrow> nat option" where
  "hex_value [] acc = Some acc"
| "hex_value (c # cs) acc = (case to_digit 16 c of None \<Rightarrow> None | Some d \<Rightarrow> hex_value cs (acc * 16 + d))"

text \<open>An end of the range: the right width, above \<open>lo\<close>, below the end of the pattern.\<close>

definition range_end :: "string \<Rightarrow> nat \<Rightarrow> nat \<Rightarrow> nat \<Rightarrow> string + nat" where
  "range_end s total_bits lo hi = (case (s, hex_value s 0) of
      ([], _) \<Rightarrow> Inl ''Invalid range value''
    | (_, None) \<Rightarrow> Inl ''Invalid range value''
    | (_, Some v) \<Rightarrow>
        if length s * 4 \<noteq> total_bits then Inl ''Invalid range size in bits''
        else if v \<le> lo then Inl ''range bound must be greater than opcode base''
        else if v \<ge> hi then Inl ''range bound must be less than opcode max value''
        else Inr v)"

section \<open>Kinds of instructions\<close>

datatype opcode_ty =
    Simple nat nat
  | Fixed nat nat nat
  | FixedRange nat nat nat nat

definition arg_bits_of :: "(char \<times> nat) list \<Rightarrow> nat" where
  "arg_bits_of xs = sum_list (map snd xs)"

definition instr_ty :: "string \<Rightarrow> string + opcode_ty \<times> (char \<times> nat) list" where
  "instr_ty pattern = (case parsed_code pattern of
      Inl e \<Rightarrow> Inl e
    | Inr (pat, range_from, range_to) \<Rightarrow> (case scan_pattern pat scan_start of
        Inl e \<Rightarrow> Inl e
      | Inr s \<Rightarrow>
          let args = scan_args s; arg_bits = arg_bits_of args;
              total_bits = opcode_bits s + arg_bits; base_min = opcode_base_min s;
              base_max = (base_min OR (push_bit arg_bits 1 - 1)) + 1 in
          if opcode_bits s = 0 then Inl ''Opcode must have a non-empty fixed prefix''
          else if total_bits > MAX_OPCODE_BITS then Inl ''Too much bits for the opcode''
          else if args = [] then
            (if range_from \<noteq> None \<or> range_to \<noteq> None then Inl ''Unexpected range for a simple opcode''
             else Inr (Simple base_min (opcode_bits s), args))
          else if range_from = None \<and> range_to = None then
            Inr (Fixed (drop_bit arg_bits base_min) (opcode_bits s) arg_bits, args)
          else
            (case (case range_from of None \<Rightarrow> Inr base_min
                   | Some r \<Rightarrow> range_end r total_bits base_min base_max) of
               Inl e \<Rightarrow> Inl e
             | Inr lo \<Rightarrow>
                 (case (case range_to of None \<Rightarrow> Inr base_max
                        | Some r \<Rightarrow> range_end r total_bits lo base_max) of
                    Inl e \<Rightarrow> Inl e
                  | Inr hi \<Rightarrow> Inr (FixedRange lo hi total_bits arg_bits, args)))))"

text \<open>
  \<open>let i = (args >> shift) & mask\<close>: the fields stand in the order of the pattern, the last one
  in the lowest bits.
\<close>

fun field :: "(char \<times> nat) list \<Rightarrow> nat \<Rightarrow> char \<Rightarrow> nat" where
  "field [] args c = 0"
| "field ((d, bits) # fs) args c =
     (if c = d then take_bit bits (drop_bit (arg_bits_of fs) args) else field fs args c)"

text \<open>
  An instruction of a module: its pattern or its numeric code with the handler, which reads the
  whole operand word or its fields (\<open>#[op]\<close>), or the operand word and the width (\<open>#[op_ext]\<close>,
  \<open>#[op_ext_range]\<close>).
\<close>

datatype ('c, 's, 'b) instr =
    Op string "nat \<Rightarrow> (char \<Rightarrow> nat) \<Rightarrow> ('c, 's, 'b, int) vm"
  | OpExt nat nat nat "nat \<Rightarrow> nat \<Rightarrow> ('c, 's, 'b, int) vm"
  | OpExtRange nat nat nat "nat \<Rightarrow> nat \<Rightarrow> ('c, 's, 'b, int) vm"

definition op_of_ty ::
    "opcode_ty \<Rightarrow> (char \<times> nat) list \<Rightarrow> (nat \<Rightarrow> (char \<Rightarrow> nat) \<Rightarrow> ('c, 's, 'b, int) vm) \<Rightarrow>
     ('c, 's, 'b) opcode" where
  "op_of_ty t fs h = (case t of
      Simple opc bits \<Rightarrow> simple_op opc bits (h 0 (\<lambda>_. 0))
    | Fixed opc opc_bits arg_bits \<Rightarrow> fixed_op opc opc_bits arg_bits (\<lambda>args. h args (field fs args))
    | FixedRange lo hi total_bits arg_bits \<Rightarrow>
        fixed_range_op lo hi total_bits arg_bits (\<lambda>args. h args (field fs args)))"

fun instr_opcode :: "('c, 's, 'b) instr \<Rightarrow> string + ('c, 's, 'b) opcode" where
  "instr_opcode (Op pattern h) = (case instr_ty pattern of
      Inl e \<Rightarrow> Inl e | Inr (t, fs) \<Rightarrow> Inr (op_of_ty t fs h))"
| "instr_opcode (OpExt opc code_bits arg_bits h) = Inr (ext_op opc code_bits arg_bits h)"
| "instr_opcode (OpExtRange lo hi total_bits h) = Inr (ext_range_op lo hi total_bits h)"

text \<open>\<open>Module::init\<close>\<close>

fun init_module :: "('c, 's, 'b) instr list \<Rightarrow> ('c, 's, 'b) entries \<Rightarrow> string + ('c, 's, 'b) entries" where
  "init_module [] xs = Inr xs"
| "init_module (i # is) xs = (case instr_opcode i of
      Inl e \<Rightarrow> Inl e
    | Inr op \<Rightarrow> (case add_opcode op xs of Inl e \<Rightarrow> Inl e | Inr ys \<Rightarrow> init_module is ys))"

section \<open>Accepted patterns are well formed\<close>

lemma arg_bits_simps [simp]:
  "arg_bits_of [] = 0" "arg_bits_of ((c, b) # fs) = b + arg_bits_of fs"
  "arg_bits_of (xs @ ys) = arg_bits_of xs + arg_bits_of ys"
  by (simp_all add: arg_bits_of_def)

lemma add_arg_bits_total: "arg_bits_of (add_arg_bits c b xs) = arg_bits_of xs + b"
  by (cases xs rule: rev_cases) (auto simp: add_arg_bits_def)

lemma or_low_bits: "d < 2 ^ k \<Longrightarrow> push_bit k b OR d = b * 2 ^ k + d" for b d :: nat
proof -
  assume "d < 2 ^ k"
  then have d: "take_bit k d = d" by (simp add: take_bit_nat_eq_self)
  have "\<not> bit (push_bit k b) n \<or> \<not> bit d n" for n
    using bit_take_bit_iff[of k d n] by (auto simp: d bit_simps)
  then have "push_bit k b + d = push_bit k b OR d" by (rule disjunctive_add)
  then show ?thesis by (simp add: push_bit_eq_mult)
qed

text \<open>The scanned code fits in its width, and the operand bits of the base are zero.\<close>

definition scan_ok :: "scan \<Rightarrow> bool" where
  "scan_ok s \<longleftrightarrow> opcode_base_min s < 2 ^ (opcode_bits s + arg_bits_of (scan_args s)) \<and>
     2 ^ arg_bits_of (scan_args s) dvd opcode_base_min s"

lemma to_digit_less: "to_digit radix c = Some d \<Longrightarrow> d < radix"
  by (auto simp: to_digit_def Let_def split: option.splits if_splits)

lemma shift_less: "b < 2 ^ w \<Longrightarrow> d < 2 ^ k \<Longrightarrow> b * 2 ^ k + d < 2 ^ (w + k)" for b d :: nat
proof -
  assume "b < 2 ^ w" "d < 2 ^ k"
  then have "b * 2 ^ k + d < (b + 1) * 2 ^ k" by simp
  also have "(b + 1) * 2 ^ k \<le> 2 ^ w * 2 ^ k" using \<open>b < 2 ^ w\<close> by (intro mult_le_mono1) simp
  finally show ?thesis by (simp add: power_add)
qed

lemma scan_char_ok:
  assumes s: "scan_ok s" and t: "scan_char c s = Inr t"
  shows "scan_ok t"
proof -
  define radix where "radix = (if binary_mode s then 2 else 16 :: nat)"
  define k where "k = (if binary_mode s then 1 else 4 :: nat)"
  have rk: "(if binary_mode s then (2, 1) else (16, 4)) = (radix, k)" and r: "radix = 2 ^ k"
    by (simp_all add: radix_def k_def)
  consider "opcode_base_min t = opcode_base_min s" "opcode_bits t = opcode_bits s" "scan_args t = scan_args s"
    | d where "to_digit radix c = Some d" "scan_args s = []"
        "t = s\<lparr>opcode_bits := opcode_bits s + k, opcode_base_min := push_bit k (opcode_base_min s) OR d\<rparr>"
    | "t = s\<lparr>opcode_base_min := push_bit k (opcode_base_min s),
         scan_args := add_arg_bits c k (scan_args s)\<rparr>"
  proof (cases "is_whitespace c \<or> c = CHR ''_'' \<or> c = CHR ''$'' \<or> c = CHR ''#''")
    case True
    then show thesis using t that(1) by (auto simp: scan_char_def split: if_splits)
  next
    case False
    then have "is_ascii_alphanumeric c" using t by (auto simp: scan_char_def split: if_splits)
    with False t show thesis
      using that(2,3) unfolding scan_char_def rk
      by (cases "to_digit radix c") (simp_all add: Let_def split: if_splits)
  qed
  then show ?thesis
  proof cases
    case 1
    then show ?thesis using s by (simp add: scan_ok_def)
  next
    case 2
    then have "d < 2 ^ k" using to_digit_less[of radix c d] r by simp
    with 2 s shift_less[of "opcode_base_min s" "opcode_bits s" d k]
    show ?thesis by (simp add: scan_ok_def or_low_bits)
  next
    case 3
    then show ?thesis
      using s shift_less[of "opcode_base_min s" "opcode_bits s + arg_bits_of (scan_args s)" 0 k]
      by (simp add: scan_ok_def add_arg_bits_total push_bit_eq_mult power_add mult.assoc
          mult_dvd_mono)
  qed
qed

lemma scan_pattern_ok: "scan_ok s \<Longrightarrow> scan_pattern p s = Inr t \<Longrightarrow> scan_ok t"
  by (induction p arbitrary: s) (auto split: sum.splits dest: scan_char_ok)

lemma range_end_bounds: "range_end r w lo hi = Inr v \<Longrightarrow> lo < v \<and> v < hi"
  by (auto simp: range_end_def split: list.splits option.splits if_splits)

lemma base_max_eq:
  fixes b :: nat
  assumes "2 ^ w dvd b" and "b < 2 ^ (n + w)"
  shows "(b OR (push_bit w 1 - 1)) + 1 = b + 2 ^ w" and "b + 2 ^ w \<le> 2 ^ (n + w)"
    and "drop_bit w b < 2 ^ n"
proof -
  from assms(1) obtain q where q: "b = q * 2 ^ w" by (metis dvd_def mult.commute)
  have "push_bit w q OR (2 ^ w - 1) = q * 2 ^ w + (2 ^ w - 1)" by (rule or_low_bits) simp
  then show "(b OR (push_bit w 1 - 1)) + 1 = b + 2 ^ w"
    by (simp add: q push_bit_eq_mult)
  have "q < 2 ^ n" using assms(2) by (simp add: q power_add)
  then show "drop_bit w b < 2 ^ n" by (simp add: q drop_bit_eq_div)
  have "(q + 1) * 2 ^ w \<le> 2 ^ n * 2 ^ w" using \<open>q < 2 ^ n\<close> by (intro mult_le_mono1) simp
  then show "b + 2 ^ w \<le> 2 ^ (n + w)" by (simp add: q power_add)
qed

text \<open>Every pattern the macro accepts gives an entry that lies inside the opcode space.\<close>

lemma instr_ty_wf:
  assumes "instr_ty pattern = Inr (t, fs)"
  shows "opcode_wf (op_of_ty t fs h)"
proof -
  obtain p r1 r2 s where p: "parsed_code pattern = Inr (p, r1, r2)"
      and s: "scan_pattern p scan_start = Inr s"
    using assms by (auto simp: instr_ty_def split: sum.splits)
  let ?w = "arg_bits_of (scan_args s)" and ?b = "opcode_base_min s" and ?n = "opcode_bits s"
  have ok: "2 ^ ?w dvd ?b" "?b < 2 ^ (?n + ?w)"
    using scan_pattern_ok[OF _ s] by (simp_all add: scan_ok_def scan_start_def)
  note B = base_max_eq[OF ok]
  note A = assms[unfolded instr_ty_def p s sum.case prod.case Let_def B(1)]
  have n: "0 < ?n" "?n + ?w \<le> 24"
    using A by (auto simp: MAX_OPCODE_BITS_def split: if_splits)
  consider "scan_args s = []" "t = Simple ?b ?n"
    | "t = Fixed (drop_bit ?w ?b) ?n ?w"
    | lo hi where "t = FixedRange lo hi (?n + ?w) ?w" "lo < hi" "hi \<le> ?b + 2 ^ ?w"
    using A n by (auto split: if_splits sum.splits option.splits dest!: range_end_bounds)
  then show ?thesis
  proof cases
    case 1
    then show ?thesis using n ok(2) by (simp add: op_of_ty_def constructors_wf)
  next
    case 2
    then show ?thesis using n B(3) by (simp add: op_of_ty_def constructors_wf)
  next
    case 3
    then show ?thesis using n B(2) by (simp add: op_of_ty_def constructors_wf)
  qed
qed

section \<open>Fields\<close>

text \<open>An operand word: the prefix, then the fields from the most significant one down.\<close>

fun assemble :: "nat \<Rightarrow> (char \<times> nat) list \<Rightarrow> (char \<Rightarrow> nat) \<Rightarrow> nat" where
  "assemble prefix [] v = prefix"
| "assemble prefix ((c, bits) # fs) v = assemble (prefix * 2 ^ bits + v c) fs v"

lemma assemble_split:
  assumes "\<forall>(c, bits) \<in> set fs. v c < 2 ^ bits"
  shows "assemble 0 fs v < 2 ^ arg_bits_of fs \<and>
         (\<forall>p. assemble p fs v = p * 2 ^ arg_bits_of fs + assemble 0 fs v)"
  using assms
proof (induction fs)
  case (Cons f fs)
  obtain c b where f: "f = (c, b)" by (cases f)
  have le: "\<forall>(c, bits) \<in> set fs. v c < 2 ^ bits" using Cons.prems by simp
  have IH: "assemble 0 fs v < 2 ^ arg_bits_of fs"
      "\<And>p. assemble p fs v = p * 2 ^ arg_bits_of fs + assemble 0 fs v"
    using Cons.IH[OF le] by blast+
  have "v c < 2 ^ b" using Cons.prems f by auto
  then have "v c * 2 ^ arg_bits_of fs + assemble 0 fs v < 2 ^ (b + arg_bits_of fs)"
    using shift_less IH(1) by blast
  moreover have "assemble 0 (f # fs) v = v c * 2 ^ arg_bits_of fs + assemble 0 fs v"
    using IH(2)[of "v c"] by (simp add: f)
  moreover have "assemble p (f # fs) v = p * 2 ^ arg_bits_of (f # fs) +
      (v c * 2 ^ arg_bits_of fs + assemble 0 fs v)" for p
    using IH(2)[of "p * 2 ^ b + v c"] by (simp add: f power_add algebra_simps)
  ultimately show ?case by (simp add: f)
qed simp

lemma field_assemble:
  assumes "\<forall>(c, bits) \<in> set fs. v c < 2 ^ bits" and "c \<in> fst ` set fs" and "distinct (map fst fs)"
  shows "field fs (assemble prefix fs v) c = v c"
  using assms
proof (induction fs arbitrary: prefix)
  case (Cons f fs)
  obtain d b where f: "f = (d, b)" by (cases f)
  have le: "\<forall>(c, bits) \<in> set fs. v c < 2 ^ bits" and d: "v d < 2 ^ b" using Cons.prems(1) f by auto
  show ?case
  proof (cases "c = d")
    case True
    have "assemble (prefix * 2 ^ b + v d) fs v =
        (prefix * 2 ^ b + v d) * 2 ^ arg_bits_of fs + assemble 0 fs v"
      and "assemble 0 fs v < 2 ^ arg_bits_of fs"
      using assemble_split[OF le] by blast+
    then have "drop_bit (arg_bits_of fs) (assemble (prefix * 2 ^ b + v d) fs v) = prefix * 2 ^ b + v d"
      by (simp only: drop_bit_eq_div) simp
    then show ?thesis using True d by (simp add: f take_bit_eq_mod)
  next
    case False
    then show ?thesis using Cons le by (auto simp: f)
  qed
qed simp

section \<open>Registering a module\<close>

fun instr_wf :: "('c, 's, 'b) instr \<Rightarrow> bool" where
  "instr_wf (Op pattern h) = True"
| "instr_wf (OpExt opc bits arg_bits h) \<longleftrightarrow>
     0 < bits \<and> bits \<le> 24 \<and> opc < 2 ^ bits \<and> arg_bits \<le> 24"
| "instr_wf (OpExtRange lo hi bits h) \<longleftrightarrow> 0 < bits \<and> bits \<le> 24 \<and> lo < hi \<and> hi \<le> 2 ^ bits"

lemma instr_opcode_wf: "instr_wf i \<Longrightarrow> instr_opcode i = Inr op \<Longrightarrow> opcode_wf op"
  by (cases i) (auto simp: constructors_wf instr_ty_wf split: sum.splits)

lemma init_module_ok:
  assumes "entries_ok xs" and "\<forall>i \<in> set is. instr_wf i" and "init_module is xs = Inr ys"
  shows "entries_ok ys \<and>
    set ys = set xs \<union> {(fst (opcode_range op), op) |op. \<exists>i \<in> set is. instr_opcode i = Inr op}"
  using assms
proof (induction "is" arbitrary: xs)
  case (Cons i "is")
  obtain op zs where i: "instr_opcode i = Inr op" and a: "add_opcode op xs = Inr zs"
    and r: "init_module is zs = Inr ys"
    using Cons.prems(3) by (auto split: sum.splits)
  have wf: "opcode_wf op" using instr_opcode_wf[OF _ i] Cons.prems(2) by simp
  have z: "entries_ok zs" "set zs = insert (fst (opcode_range op), op) (set xs)"
    using add_opcode_outcome[OF Cons.prems(1) wf] a by simp_all
  show ?case using Cons.IH[OF z(1) _ r] Cons.prems(2) z(2) i by auto
qed simp

text \<open>The range of an instruction, without its handler; disjoint ranges register without error.\<close>

definition ty_range :: "opcode_ty \<Rightarrow> nat \<times> nat" where
  "ty_range t = (case t of
      Simple opc bits \<Rightarrow> (push_bit (24 - bits) opc, push_bit (24 - bits) (opc + 1))
    | Fixed opc bits arg_bits \<Rightarrow> (push_bit (24 - bits) opc, push_bit (24 - bits) (opc + 1))
    | FixedRange lo hi bits arg_bits \<Rightarrow> (push_bit (24 - bits) lo, push_bit (24 - bits) hi))"

fun instr_range :: "('c, 's, 'b) instr \<Rightarrow> (nat \<times> nat) option" where
  "instr_range (Op pattern h) = (case instr_ty pattern of Inl e \<Rightarrow> None | Inr (t, fs) \<Rightarrow> Some (ty_range t))"
| "instr_range (OpExt opc bits arg_bits h) =
     Some (push_bit (24 - bits) opc, push_bit (24 - bits) (opc + 1))"
| "instr_range (OpExtRange lo hi bits h) = Some (push_bit (24 - bits) lo, push_bit (24 - bits) hi)"

lemma instr_range_opcode: "instr_range i = Some r \<Longrightarrow> \<exists>op. instr_opcode i = Inr op \<and> opcode_range op = r"
  by (cases i)
    (auto simp: op_of_ty_def ty_range_def simple_op_def fixed_op_def fixed_range_op_def ext_op_def
      ext_range_op_def MAX_OPCODE_BITS_def Let_def split: sum.splits opcode_ty.splits)

definition disjoint_ranges :: "nat \<times> nat \<Rightarrow> nat \<times> nat \<Rightarrow> bool" where
  "disjoint_ranges r r' \<longleftrightarrow> snd r \<le> fst r' \<or> snd r' \<le> fst r"

lemma init_module_succeeds:
  assumes "entries_ok xs" and "\<forall>i \<in> set is. instr_wf i" and "map instr_range is = map Some rs"
    and "sorted_wrt disjoint_ranges rs"
    and "\<forall>e \<in> set xs. \<forall>r \<in> set rs. disjoint_ranges (opcode_range (snd e)) r"
  shows "\<exists>ys. init_module is xs = Inr ys \<and> entries_ok ys \<and>
    (\<forall>e \<in> set ys. e \<in> set xs \<or> opcode_range (snd e) \<in> set rs)"
  using assms
proof (induction "is" arbitrary: xs rs)
  case (Cons i "is")
  obtain r rs' where rs: "rs = r # rs'" "instr_range i = Some r" "map instr_range is = map Some rs'"
    using Cons.prems(3) by auto
  obtain op where op: "instr_opcode i = Inr op" "opcode_range op = r"
    using instr_range_opcode[OF rs(2)] by blast
  have wf: "opcode_wf op" using instr_opcode_wf[OF _ op(1)] Cons.prems(2) by simp
  have keys: "\<And>e. e \<in> set xs \<Longrightarrow> fst (opcode_range (snd e)) = fst e"
    using Cons.prems(1) by (auto simp: entries_ok_def entry_ok_def entry_lo_def)
  have "no_overlap op xs"
    using Cons.prems(5) rs(1) op(2) keys
    by (fastforce simp: no_overlap_def disjoint_ranges_def entry_hi_def)
  then obtain zs where a: "add_opcode op xs = Inr zs"
    and z: "entries_ok zs" "set zs = insert (fst (opcode_range op), op) (set xs)"
    using add_opcode_outcome[OF Cons.prems(1) wf] by (cases "add_opcode op xs") auto
  have "\<forall>e \<in> set zs. \<forall>r \<in> set rs'. disjoint_ranges (opcode_range (snd e)) r"
    using Cons.prems(4,5) rs(1) op(2) z(2) by auto
  then have "\<exists>ys. init_module is zs = Inr ys \<and> entries_ok ys \<and>
      (\<forall>e \<in> set ys. e \<in> set zs \<or> opcode_range (snd e) \<in> set rs')"
    using Cons.IH[OF z(1) _ rs(3)] Cons.prems(2,4) rs(1) by auto
  then obtain ys where ys: "init_module is zs = Inr ys" "entries_ok ys"
      "\<forall>e \<in> set ys. e \<in> set zs \<or> opcode_range (snd e) \<in> set rs'" by blast
  have "e \<in> set xs \<or> opcode_range (snd e) \<in> set rs" if "e \<in> set ys" for e
    using ys(3) that z(2) rs(1) op(2) by fastforce
  with ys(1,2) op a show ?case by simp
qed auto

text \<open>Disjointness is checked on the list sorted by the lower end.\<close>

fun chained_ranges :: "(int \<times> int) list \<Rightarrow> bool" where
  "chained_ranges (x # y # zs) \<longleftrightarrow> fst x < snd x \<and> snd x \<le> fst y \<and> chained_ranges (y # zs)"
| "chained_ranges [x] \<longleftrightarrow> fst x < snd x"
| "chained_ranges [] \<longleftrightarrow> True"

definition disjoint_int :: "int \<times> int \<Rightarrow> int \<times> int \<Rightarrow> bool" where
  "disjoint_int r r' \<longleftrightarrow> snd r \<le> fst r' \<or> snd r' \<le> fst r"

lemma chained_ranges_disjoint: "chained_ranges rs \<Longrightarrow> sorted_wrt disjoint_int rs"
proof -
  have "chained_ranges rs \<Longrightarrow> sorted_wrt (\<lambda>r r'. snd r \<le> fst r') rs \<and> (\<forall>r \<in> set rs. fst r < snd r)"
    by (induction rs rule: chained_ranges.induct) auto
  then show "chained_ranges rs \<Longrightarrow> sorted_wrt disjoint_int rs"
    by (auto intro: sorted_wrt_mono_rel[rotated] simp: disjoint_int_def)
qed

lemma pairwise_insort:
  "(\<And>x y. R x y = R y x) \<Longrightarrow>
   sorted_wrt R (insort_key f x xs) \<longleftrightarrow> (\<forall>y \<in> set xs. R x y) \<and> sorted_wrt R xs"
  by (induction xs) (auto simp: set_insort_key)

lemma pairwise_sort: "(\<And>x y. R x y = R y x) \<Longrightarrow> sorted_wrt R (sort_key f xs) \<longleftrightarrow> sorted_wrt R xs"
  by (induction xs) (simp_all add: pairwise_insort)

definition ranges_ok :: "(nat \<times> nat) list \<Rightarrow> bool" where
  "ranges_ok rs \<longleftrightarrow> chained_ranges (sort_key fst (map (\<lambda>(a, b). (int a, int b)) rs))"

lemma ranges_ok_disjoint: "ranges_ok rs \<Longrightarrow> sorted_wrt disjoint_ranges rs"
proof -
  assume "ranges_ok rs"
  then have "sorted_wrt disjoint_int (sort_key fst (map (\<lambda>(a, b). (int a, int b)) rs))"
    unfolding ranges_ok_def by (rule chained_ranges_disjoint)
  then have "sorted_wrt disjoint_int (map (\<lambda>(a, b). (int a, int b)) rs)"
    by (subst (asm) pairwise_sort) (auto simp: disjoint_int_def)
  then show ?thesis
    unfolding sorted_wrt_map
    by (rule sorted_wrt_mono_rel[rotated]) (auto simp: disjoint_int_def disjoint_ranges_def)
qed

text \<open>
  Modules whose ranges lie in hulls that do not meet have disjoint ranges, so that only the hulls
  are compared across modules.
\<close>

definition covered :: "(nat \<times> nat) list \<Rightarrow> (nat \<times> nat) list \<Rightarrow> bool" where
  "covered hulls rs \<longleftrightarrow> (\<forall>r \<in> set rs. \<exists>h \<in> set hulls. fst h \<le> fst r \<and> snd r \<le> snd h)"

lemma covered_concat:
  "\<forall>m \<in> set ms. covered (snd m) (fst m) \<Longrightarrow> covered (concat (map snd ms)) (concat (map fst ms))"
  by (fastforce simp: covered_def)

lemma disjoint_covered:
  assumes "sorted_wrt disjoint_ranges (hs @ hs')" and "covered hs rs" and "covered hs' rs'"
    and "r \<in> set rs" and "r' \<in> set rs'"
  shows "disjoint_ranges r r'"
proof -
  obtain h h' where h: "h \<in> set hs" "fst h \<le> fst r" "snd r \<le> snd h"
      "h' \<in> set hs'" "fst h' \<le> fst r'" "snd r' \<le> snd h'"
    using assms(2-5) unfolding covered_def by blast
  then have "disjoint_ranges h h'" using assms(1) by (simp add: sorted_wrt_append)
  with h show ?thesis by (auto simp: disjoint_ranges_def)
qed

lemma disjoint_modules:
  assumes "\<forall>m \<in> set ms. sorted_wrt disjoint_ranges (fst m) \<and> covered (snd m) (fst m)"
    and "sorted_wrt disjoint_ranges (concat (map snd ms))"
  shows "sorted_wrt disjoint_ranges (concat (map fst ms))"
  using assms
proof (induction ms)
  case (Cons m ms)
  then have "sorted_wrt disjoint_ranges (concat (map fst ms))" by (simp add: sorted_wrt_append)
  moreover have "disjoint_ranges r r'" if "r \<in> set (fst m)" "r' \<in> set (concat (map fst ms))" for r r'
    using disjoint_covered[of "snd m" "concat (map snd ms)" "fst m" "concat (map fst ms)"]
      covered_concat[of ms] Cons.prems that by simp
  ultimately show ?case using Cons.prems(1) by (simp add: sorted_wrt_append)
qed simp

end
