(* ===== verification/Flow.thy ===== *)
theory Flow
  imports ContOps
begin

text \<open>
  How control moves: what a jump, a call and a return do to the state, the isolation of the
  caller's stack in a call with arguments, how often a counted loop runs its body, and where an exception
  nobody handles ends.
\<close>

section \<open>Charges\<close>

lemma try_consume_0:
  assumes "gas_wf g" and "0 \<le> gas_remaining g"
  shows "try_consume 0 g = (Inr (), g)"
  using assms by (simp add: try_consume_eq Let_def gas_wf_def max_def machine_bounds)

lemma stack_gas_free:
  assumes "gas_wf (gas st)" and "0 \<le> gas_remaining (gas st)" and "length s \<le> 32"
  shows "on_gas (try_consume_stack_gas (Some s)) st = (Inr (), st)"
  using assms try_consume_0[OF assms(1,2)]
  by (simp add: on_gas_eq try_consume_stack_gas_def try_consume_stack_depth_gas_def depth_def
      gas_prices FREE_STACK_DEPTH_def max_def)

text \<open>A charge the rest covers.\<close>

lemma charge_affordable:
  assumes "gas_wf (gas st)" and "int n \<le> gas_remaining (gas st)"
  shows "on_gas (try_consume (int n)) st =
     (Inr (), st\<lparr>gas := (gas st)\<lparr>gas_remaining := gas_remaining (gas st) - int n\<rparr>\<rparr>)"
    and "gas_wf ((gas st)\<lparr>gas_remaining := gas_remaining (gas st) - int n\<rparr>)"
proof -
  have "int n \<le> i64_max" using assms by (auto simp: gas_wf_def)
  then show "on_gas (try_consume (int n)) st =
      (Inr (), st\<lparr>gas := (gas st)\<lparr>gas_remaining := gas_remaining (gas st) - int n\<rparr>\<rparr>)"
    using assms by (auto simp: on_gas_eq try_consume_eq Let_def gas_wf_def machine_bounds)
  show "gas_wf ((gas st)\<lparr>gas_remaining := gas_remaining (gas st) - int n\<rparr>)"
    using assms by (simp add: gas_wf_def machine_bounds)
qed

section \<open>Jumps, calls, returns\<close>

lemma jump_loop_ord:
  "do_jump_loop n ec (OrdCont (ControlData a s save (Some 0)) k) st =
     (Inr ec, st\<lparr>cr := merge (cr st) save, code := k, cp := 0\<rparr>)"
  by (simp add: do_jump_loop.simps adjust_cr_def set_code_def force_cp_def codepage_def)

lemma jump_ord_simple:
  "vm_jump (ord_simple k 0) st = (Inr 0, st\<lparr>code := k, cp := 0\<rparr>)"
  by (simp add: vm_jump_def ord_simple_def needs_adjust_def do_jump_to_def
      jump_loop_ord)

definition return_point ::
    "'s \<Rightarrow> nat option \<Rightarrow> ('c, 's, 'b) stk option \<Rightarrow> ('c, 's, 'b) cont \<Rightarrow> ('c, 's, 'b) cont" where
  "return_point k nargs s c0 = OrdCont (ControlData nargs s (put_c 0 (Some c0) regs_default) (Some 0)) k"

lemma call_ord_simple:
  assumes "get_c 0 (cr st) = Some c0" and "cp st = 0"
  shows "vm_call A (ord_simple k 0) st = (Inr 0, st\<lparr>code := k, cp := 0,
     cr := put_c 0 (Some (return_point (code st) None None c0)) (cr st)\<rparr>)"
proof -
  have "put_c 0 x (put_c 0 y r) = put_c 0 x r" for x y and r :: "('a, 'b, 'c) control_regs"
    by (cases r) simp
  then show ?thesis using assms
    by (simp add: vm_call_def ord_simple_def call_simple_def take_code_def
        take_c0_raw_def set_c0_def do_jump_to_def jump_loop_ord return_point_def)
qed

lemma preclear_default [simp]: "preclear r regs_default = r"
  by (cases r) (simp add: regs_default_def preclear_value_def)

lemma preclear_put_c0: "preclear r (put_c 0 (Some c) regs_default) = put_c 0 None r"
  by (cases r) (simp add: regs_default_def preclear_value_def)

lemma merge_put_c0: "merge r (put_c 0 (Some c) regs_default) = put_c 0 (Some c) r"
  by (cases r) (simp add: regs_default_def merge_value_def)

lemma put_c0_twice [simp]: "put_c 0 x (put_c 0 y r) = put_c 0 x r"
  by (cases r) simp

lemma put_c0_same: "get_c 0 r = x \<Longrightarrow> put_c 0 x r = r"
  by (cases r) simp

lemma ret_to_caller:
  assumes "get_c 0 (cr st) = Some (return_point k None None c0)"
  shows "vm_ret st = (Inr 0, st\<lparr>code := k, cp := 0, cr := put_c 0 (Some c0) (cr st)\<rparr>)"
  using assms
  by (simp add: vm_ret_def take_c0_def return_point_def vm_jump_def needs_adjust_def do_jump_to_def jump_loop_ord merge_put_c0)

text \<open>A call with arguments: the callee sees exactly the top of the stack.\<close>

lemma call_args:
  assumes "stack st = xs @ ys" and "length ys \<le> 32" and "get_c 0 (cr st) = Some c0" and "cp st = 0"
    and "gas_wf (gas st)" and "0 \<le> gas_remaining (gas st)"
  shows "call_ext A (ord_simple k 0) (Some (length ys)) r st = (Inr 0, st\<lparr>code := k, cp := 0, stack := ys,
     cr := put_c 0 (Some (return_point (code st) r (Some xs) c0)) (cr st)\<rparr>)"
  using assms
  by (simp add: call_ext_def ord_simple_def check_args_def opt_nargs_def
      take_c0_raw_def preclear_cr_def call_new_stack_def call_copy_skip_def split_top_ext_eq depth_def
      stack_gas_free finish_call_def take_code_def set_c0_def do_jump_to_def jump_loop_ord
      return_point_def)

text \<open>The return with arguments: the caller gets its stack back with exactly the results on top.\<close>

lemma ret_args:
  assumes "get_c 0 (cr st) = Some (return_point k (Some (length rs)) (Some xs) c0)"
    and "stack st = zs @ rs" and "length xs + length rs \<le> 32"
    and "gas_wf (gas st)" and "0 \<le> gas_remaining (gas st)"
  shows "vm_ret st = (Inr 0, st\<lparr>code := k, cp := 0, stack := xs @ rs, cr := put_c 0 (Some c0) (cr st)\<rparr>)"
proof -
  let ?k = "return_point k (Some (length rs)) (Some xs) c0"
  let ?st = "st\<lparr>cr := put_c 0 None (cr st)\<rparr>"
  have free: "on_gas (try_consume_stack_depth_gas (length rs)) (?st\<lparr>stack := rs\<rparr>) = (Inr (), ?st\<lparr>stack := rs\<rparr>)"
    using stack_gas_free[of "?st\<lparr>stack := rs\<rparr>" rs] assms
    by (simp add: try_consume_stack_gas_def depth_def)
  have adj: "adjust_jump_cont ?k None (st\<lparr>cr := put_c 0 (Some (quit0 st)) (cr st)\<rparr>) =
      (Inr (), ?st\<lparr>stack := xs @ rs\<rparr>)"
  proof (cases "xs = []")
    case True
    show ?thesis
    proof (cases "zs = []")
      case True
      then show ?thesis using \<open>xs = []\<close> assms
        by (simp add: adjust_jump_cont_def return_point_def check_args_def opt_nargs_def depth_def
            preclear_cr_def preclear_put_c0)
    next
      case False
      then show ?thesis using \<open>xs = []\<close> assms free
        by (simp add: adjust_jump_cont_def return_point_def check_args_def opt_nargs_def depth_def
            preclear_cr_def preclear_put_c0 drop_bottom_eq)
    qed
  next
    case False
    then show ?thesis using assms stack_gas_free[of "?st\<lparr>stack := zs\<rparr>" "xs @ rs"]
      by (simp add: adjust_jump_cont_def return_point_def check_args_def opt_nargs_def depth_def
          preclear_cr_def preclear_put_c0 pass_stack_def move_from_stack_eq)
  qed
  have "vm_ret st = jump_ext ?k None (st\<lparr>cr := put_c 0 (Some (quit0 st)) (cr st)\<rparr>)"
    using assms(1)
    by (simp add: vm_ret_def take_c0_def vm_jump_def needs_adjust_def) (simp add: return_point_def)
  then show ?thesis using adj
    by (simp add: jump_ext_def do_jump_to_def return_point_def jump_loop_ord merge_put_c0)
qed

section \<open>Loops\<close>

lemma repeat_turn:
  "vm_jump (RepeatCont (Suc n) (ord_simple k 0) after) st =
     (Inr 0, st\<lparr>code := k, cp := 0, cr := put_c 0 (Some (RepeatCont n (ord_simple k 0) after)) (cr st)\<rparr>)"
  by (simp add: vm_jump_def ord_simple_def needs_adjust_def do_jump_to_def do_jump_loop.simps has_c0_def
      set_c0_def enter_next_def FREE_NESTED_CONT_JUMP_def adjust_cr_def set_code_def force_cp_def
      codepage_def)

text \<open>What follows the loop: the code after it, with the return point it had.\<close>

lemma repeat_last:
  assumes "after = return_point a None (Some []) c"
  shows "vm_jump (RepeatCont 0 body after) st = (Inr 0, st\<lparr>code := a, cp := 0, cr := put_c 0 (Some c) (cr st)\<rparr>)"
proof -
  have "adjust_jump_cont after None st = (Inr (), st\<lparr>cr := put_c 0 None (cr st)\<rparr>)"
    using assms by (simp add: adjust_jump_cont_def return_point_def check_args_def opt_nargs_def preclear_cr_def
        preclear_put_c0)
  then show ?thesis
    using assms
    by (simp add: vm_jump_def needs_adjust_def do_jump_to_def do_jump_loop.simps[of 0] enter_next_def FREE_NESTED_CONT_JUMP_def)
      (simp add: return_point_def jump_loop_ord merge_put_c0)
qed

text \<open>
  The turns of the interpreter that go on: \<open>turns A D n s s'\<close> says that \<open>n\<close> steps lead from \<open>s\<close> to \<open>s'\<close>, so that the
  loop of \<open>run_inner\<close> is at \<open>s'\<close> after as many rounds.
\<close>

inductive turns ::
    "('c, 's) api \<Rightarrow> ('c, 's, 'b, int) vm \<Rightarrow> nat \<Rightarrow> ('c, 's, 'b) vm_state \<Rightarrow> ('c, 's, 'b) vm_state \<Rightarrow> bool"
  for A D where
  turns_none: "turns A D 0 s s"
| turns_step: "step A D s = (Inr 0, s1) \<Longrightarrow> turns A D n s1 s2 \<Longrightarrow> turns A D (Suc n) s s2"

lemma turns_append: "turns A D m s s1 \<Longrightarrow> turns A D n s1 s2 \<Longrightarrow> turns A D (m + n) s s2"
  by (induction rule: turns.induct) (auto intro: turns_step)

lemma turns_one: "step A D s = (Inr 0, s') \<Longrightarrow> turns A D 1 s s'"
  using turns_step[OF _ turns_none] by simp

lemma turns_run: "turns A D n s s' \<Longrightarrow> run_inner A D (n + m) s = run_inner A D m s'"
  by (induction rule: turns.induct) (simp_all add: run_turn_def turn_of_step_def)

text \<open>
  A piece of code with a fixed effect: started with a stack that satisfies \<open>I\<close>, and with the gas it costs, it takes
  \<open>len\<close> turns to reach the end of the code, with \<open>f\<close> applied to the stack and nothing else changed.
\<close>

definition paid :: "nat \<Rightarrow> ('c, 's, 'b) vm_state \<Rightarrow> 'c gas_consumer" where
  "paid n s = (gas s)\<lparr>gas_remaining := gas_remaining (gas s) - int n\<rparr>"

definition body_effect ::
    "('c, 's) api \<Rightarrow> ('c, 's, 'b, int) vm \<Rightarrow> 's \<Rightarrow> (('c, 's, 'b) stk \<Rightarrow> bool) \<Rightarrow> (('c, 's, 'b) stk \<Rightarrow> ('c, 's, 'b) stk)
      \<Rightarrow> nat \<Rightarrow> nat \<Rightarrow> bool" where
  "body_effect A D k I f len cost \<longleftrightarrow> (\<forall>s. code s = k \<and> cp s = 0 \<and> I (stack s) \<and> gas_wf (gas s) \<and>
     int cost \<le> gas_remaining (gas s) \<longrightarrow> I (f (stack s)) \<and>
     (\<exists>k'. slice_size_bits A k' = 0 \<and> slice_size_refs A k' = 0 \<and>
       turns A D len s (s\<lparr>code := k', stack := f (stack s), steps := steps s + len, gas := paid cost s\<rparr>)))"

lemma implicit_return:
  assumes "slice_size_bits A (code s) = 0" and "slice_size_refs A (code s) = 0"
    and "gas_wf (gas s)" and "5 \<le> gas_remaining (gas s)"
  shows "step A D s = vm_ret (s\<lparr>steps := steps s + 1, gas := paid 5 s\<rparr>)"
  using assms charge_affordable(1)[of "bump_steps s" 5]
  by (simp add: step_def bump_steps_def paid_def try_consume_implicit_ret_gas_def IMPLICIT_RET_GAS_PRICE_def)

lemma repeat_rounds:
  assumes body: "body_effect A D k I f len cost"
    and "code s = k" and "cp s = 0" and "get_c 0 (cr s) = Some (RepeatCont m (ord_simple k 0) after)"
    and after: "after = return_point a None (Some []) c"
    and "I (stack s)" and "gas_wf (gas s)" and "int (Suc m * (cost + 5)) \<le> gas_remaining (gas s)"
  shows "turns A D (Suc m * (len + 1)) s (s\<lparr>code := a, cr := put_c 0 (Some c) (cr s), stack := (f ^^ Suc m) (stack s),
    steps := steps s + Suc m * (len + 1), gas := paid (Suc m * (cost + 5)) s\<rparr>)"
  using assms(2-4,6-8)
proof (induction m arbitrary: s)
  case 0
  obtain k' where k': "slice_size_bits A k' = 0" "slice_size_refs A k' = 0"
    and t: "turns A D len s (s\<lparr>code := k', stack := f (stack s), steps := steps s + len, gas := paid cost s\<rparr>)" (is "turns _ _ _ _ ?s1")
    using body[unfolded body_effect_def, rule_format, of s] 0 by auto
  have "gas_wf (paid cost s)" using charge_affordable(2)[of s cost] 0 by (simp add: paid_def)
  then have "step A D ?s1 = vm_ret (?s1\<lparr>steps := steps ?s1 + 1, gas := paid 5 ?s1\<rparr>)"
    using k' 0 by (intro implicit_return) (simp_all add: paid_def)
  also have "\<dots> = (Inr 0, s\<lparr>code := a, cr := put_c 0 (Some c) (cr s), stack := f (stack s),
      steps := steps s + (len + 1), gas := paid (cost + 5) s\<rparr>)"
    using 0 by (simp add: vm_ret_def take_c0_def repeat_last[OF after] paid_def)
  finally show ?case using turns_append[OF t turns_one] by simp
next
  case (Suc m)
  have "cost + 5 \<le> Suc (Suc m) * (cost + 5)" by simp
  then have enough: "int cost + 5 \<le> gas_remaining (gas s)" using Suc.prems(6) by linarith
  obtain k' where k': "slice_size_bits A k' = 0" "slice_size_refs A k' = 0" and inv: "I (f (stack s))"
    and t: "turns A D len s (s\<lparr>code := k', stack := f (stack s), steps := steps s + len, gas := paid cost s\<rparr>)" (is "turns _ _ _ _ ?s1")
    using body[unfolded body_effect_def, rule_format, of s] Suc.prems enough by auto
  let ?c = "RepeatCont m (ord_simple k 0) after"
  let ?s2 = "s\<lparr>code := k, cr := put_c 0 (Some ?c) (cr s), stack := f (stack s), steps := steps s + (len + 1),
    gas := paid (cost + 5) s\<rparr>"
  have "gas_wf (paid cost s)" using charge_affordable(2)[of s cost] Suc.prems(5) enough by (simp add: paid_def)
  then have "step A D ?s1 = vm_ret (?s1\<lparr>steps := steps ?s1 + 1, gas := paid 5 ?s1\<rparr>)"
    using k' enough by (intro implicit_return) (simp_all add: paid_def)
  also have "\<dots> = (Inr 0, ?s2)"
    using Suc.prems by (simp add: vm_ret_def take_c0_def repeat_turn paid_def)
  finally have one: "turns A D (len + 1) s ?s2" using turns_append[OF t turns_one] by simp
  have "gas_wf (paid (cost + 5) s)" using charge_affordable(2)[of s "cost + 5"] Suc.prems(5) enough by (simp add: paid_def)
  then have "turns A D (Suc m * (len + 1)) ?s2 (?s2\<lparr>code := a, cr := put_c 0 (Some c) (cr ?s2),
      stack := (f ^^ Suc m) (stack ?s2), steps := steps ?s2 + Suc m * (len + 1), gas := paid (Suc m * (cost + 5)) ?s2\<rparr>)"
    using Suc.prems inv by (intro Suc.IH) (simp_all add: paid_def algebra_simps)
  from turns_append[OF one this] show ?case
    by (simp add: paid_def funpow_swap1 algebra_simps)
qed

lemma repeat_starts:
  assumes "stack st = xs @ [VInt (int n), VCont (ord_simple k 0)]" and "n < 2 ^ 31" and "cp st = 0"
    and "get_c 0 (cr st) = Some c"
  shows "exec_repeat A False st = (Inr 0, if n = 0 then st\<lparr>stack := xs\<rparr> else st\<lparr>stack := xs, code := k,
    cr := put_c 0 (Some (RepeatCont (n - 1) (ord_simple k 0) (return_point (code st) None (Some []) c))) (cr st)\<rparr>)"
proof -
  have p: "pop_cont (xs @ [VInt (int n), VCont (ord_simple k 0)]) = (Inr (ord_simple k 0), xs @ [VInt (int n)])"
    using pop_simps(2)[of "xs @ [VInt (int n)]" "VCont (ord_simple k 0)"] by (simp add: pop_cont_def into_cont_def)
  have q: "pop_smallint_signed_range i32_min i32_max (xs @ [VInt (int n)]) = (Inr (int n), xs)"
    using assms(2) by (simp add: pop_smallint_signed_range_def i32_min_def i32_max_def)
  show ?thesis
  proof (cases n)
    case 0
    then show ?thesis using assms(1) p q by (simp add: exec_repeat_def)
  next
    case (Suc m)
    let ?st = "st\<lparr>stack := xs, code := slice_default A, cr := put_c 0 (Some (quit0 st)) (cr st)\<rparr>"
    have "extract_cc A SaveC0 None None (st\<lparr>stack := xs\<rparr>) = (Inr (return_point (code st) None (Some []) c), ?st)"
      using assms(3,4)
      by (simp add: extract_cc_def take_stack_def take_code_def SaveC0_def return_point_def regs_default_def Let_def)
    moreover have "nat (int n) = Suc m" using Suc by simp
    ultimately have "exec_repeat A False st = vm_jump (RepeatCont (Suc m) (ord_simple k 0) (return_point (code st) None (Some []) c)) ?st"
      using assms(1) p q Suc by (simp add: exec_repeat_def c1_envelope_if_def vm_repeat_def del: of_nat_Suc nat_int)
    then show ?thesis using assms(3) Suc by (cases st) (simp add: repeat_turn)
  qed
qed

section \<open>Exceptions\<close>

lemma throw_uncaught:
  fixes st :: "('c, 's, 'b) vm_state"
  assumes "get_c 2 (cr st) = Some ExcQuitCont" and "0 \<le> n" and "n \<le> 0xffff"
    and "gas_wf (gas st)" and "EXCEPTION_GAS_PRICE \<le> gas_remaining (gas st)"
  shows "throw_exception A n st = (Inr (not_i32 n), st\<lparr>stack := [VInt 0], code := slice_default A,
     gas := (gas st)\<lparr>gas_remaining := gas_remaining (gas st) - EXCEPTION_GAS_PRICE\<rparr>\<rparr>)"
proof -
  let ?g = "(gas st)\<lparr>gas_remaining := gas_remaining (gas st) - EXCEPTION_GAS_PRICE\<rparr>"
  have "try_consume EXCEPTION_GAS_PRICE (gas st) = (Inr (), ?g)"
    using assms(4,5) by (simp add: try_consume_eq Let_def gas_wf_def gas_prices max_def machine_bounds)
  moreover have "pop_smallint_range 0 0xffff ([VInt 0, VInt n] :: ('c, 's, 'b) stk) = (Inr (nat n), [VInt 0])"
    using pop_smallint_range_int[of 0 "0xffff" "[VInt 0]" n] assms(2,3) by simp
  ultimately show ?thesis using assms(1,2)
    by (simp add: throw_exception_def throw_with_def try_consume_exception_gas_def vm_jump_def
        needs_adjust_def do_jump_to_def do_jump_loop.simps exc_quit_number_def)
qed

end
