(* ===== verification/HashSpec.thy ===== *)
theory HashSpec
  imports AddrSpec Pattern Flow
begin

text \<open>
  The input of HASHEXT. Its reader cuts a sequence of bit strings, none of which need be whole bytes, into bytes;
  here it is shown to hash the bytes of their concatenation, to charge for exactly that, and to refuse a
  concatenation that is not a whole number of bytes.
\<close>

section \<open>Bits and bytes\<close>

lemma bits_value_append: "bits_value (xs @ ys) = bits_value xs * 2 ^ length ys + bits_value ys"
proof (induction ys rule: rev_induct)
  case (snoc y ys)
  have "bits_value (xs @ ys @ [y]) = 2 * bits_value (xs @ ys) + of_bool y"
    using bits_value_snoc[of "xs @ ys" y] by simp
  then show ?case using snoc by (simp add: bits_value_snoc)
qed (simp add: bits_value_def)

lemma bits_value_zeros [simp]: "bits_value (replicate n False) = 0"
proof (induction n)
  case (Suc n)
  then show ?case using bits_value_append[of "[False]" "replicate n False"] by (simp add: bits_value_def)
qed (simp add: bits_value_def)

lemma or_bits_value:
  assumes "length ys \<le> n"
  shows "or (bits_value xs * 2 ^ n) (bits_value ys * 2 ^ (n - length ys)) =
    bits_value (xs @ ys) * 2 ^ (n - length ys)"
proof -
  have "bits_value ys * 2 ^ (n - length ys) < 2 ^ length ys * 2 ^ (n - length ys)"
    using bits_value_bound[of ys] by simp
  then have less: "bits_value ys * 2 ^ (n - length ys) < 2 ^ n" using assms by (simp flip: power_add)
  have n: "(2 :: nat) ^ n = 2 ^ length ys * 2 ^ (n - length ys)" using assms by (simp flip: power_add)
  show ?thesis
    unfolding or_low_bits[unfolded push_bit_eq_mult, OF less] bits_value_append by (simp add: n algebra_simps)
qed

lemma byte_bits_append: "byte_bits (xs @ ys) = byte_bits xs @ byte_bits ys"
  by (simp add: byte_bits_def)

lemma length_byte_bits: "length (byte_bits bs) = 8 * length bs"
  by (simp add: byte_bits_def length_concat comp_def sum_list_triv)

lemma byte_bits_take: "byte_bits (take n bs) = take (8 * n) (byte_bits bs)"
  using byte_bits_append[of "take n bs" "drop n bs"] length_byte_bits[of "take n bs"]
  by (cases "n \<le> length bs") (simp_all add: length_byte_bits)

lemma byte_bits_nth: "i < length bs \<Longrightarrow> to_bits 8 (int (bs ! i)) = take 8 (drop (8 * i) (byte_bits bs))"
proof -
  assume i: "i < length bs"
  have "byte_bits bs = byte_bits (take i bs) @ to_bits 8 (int (bs ! i)) @ byte_bits (drop (Suc i) bs)"
    using arg_cong[OF id_take_nth_drop[OF i], of byte_bits] by (simp add: byte_bits_def)
  then show ?thesis using i by (simp add: length_byte_bits)
qed

lemma last_byte:
  fixes n :: nat
  assumes "n mod 8 \<noteq> 0"
  shows "(n + 7) div 8 = Suc (n div 8)" and "8 * Suc (n div 8) - n = 8 - n mod 8"
proof -
  define j m where "j = n div 8" and "m = n mod 8"
  then have n: "n = 8 * j + m" "0 < m" "m < 8" using assms by simp_all
  have "(8 * j + m + 7) div 8 = Suc j" by (rule div_nat_eqI) (use n(2,3) in simp_all)
  then show "(n + 7) div 8 = Suc (n div 8)" "8 * Suc (n div 8) - n = 8 - n mod 8"
    unfolding j_def[symmetric] m_def[symmetric] using n by simp_all
qed

section \<open>The reader\<close>

text \<open>The bits of an unfinished byte are at the top of \<open>hr_prev_byte\<close>.\<close>

definition pending :: "hash_reader \<Rightarrow> bool list \<Rightarrow> bool" where
  "pending r p \<longleftrightarrow> length p < 8 \<and> hr_rem_bits r = length p \<and>
     (p \<noteq> [] \<longrightarrow> hr_prev_byte r = bits_value p * 2 ^ (8 - length p))"

text \<open>What is charged once the first \<open>m\<close> inputs with \<open>t\<close> bits in all are read.\<close>

definition hash_price :: "nat \<Rightarrow> nat \<Rightarrow> nat \<Rightarrow> nat" where
  "hash_price bpg m t = m + t div 8 div bpg"

lemma hash_price_mono: "m \<le> m' \<Longrightarrow> t \<le> t' \<Longrightarrow> hash_price bpg m t \<le> hash_price bpg m' t'"
  unfolding hash_price_def by (intro add_mono div_le_mono)

text \<open>The bits of an input, which is a slice or a builder.\<close>

definition hash_input ::
    "('s \<Rightarrow> bool list) \<Rightarrow> ('b \<Rightarrow> bool list) \<Rightarrow> ('c, 's, 'b) sval \<Rightarrow> bool list \<Rightarrow> bool" where
  "hash_input sbits bbits v d \<longleftrightarrow> (case v of VSlice k \<Rightarrow> d = sbits k | VBuilder b \<Rightarrow> d = bbits b | _ \<Rightarrow> False)"

text \<open>The hash functions with the bytes they take for a unit of gas, and a digest as a value of the stack.\<close>

definition hash_of :: "('c, 's, 'b) instr_lib \<Rightarrow> nat \<Rightarrow> nat \<times> (nat list \<Rightarrow> nat list)" where
  "hash_of M i = (if i = 0 then (33, sha256 M) else if i = 1 then (16, sha512 M) else (19, blake2b512 M))"

definition digest_value :: "('c, 's, 'b) cell_lib \<Rightarrow> nat list \<Rightarrow> ('c, 's, 'b) sval" where
  "digest_value L d = (if length d \<le> 32 then VInt (int (bi_from_bytes_be L d))
     else VTuple (map (\<lambda>c. VInt (int (bi_from_bytes_be L c))) (chunks32 d)))"

context bit_readers
begin

text \<open>What one input adds.\<close>

definition advances :: "hash_reader \<Rightarrow> bool list \<Rightarrow> bool list \<Rightarrow> cell_error + nat list \<times> hash_reader \<Rightarrow> bool" where
  "advances r p bs res \<longleftrightarrow> (\<exists>chunk r' p'. res = Inr (chunk, r') \<and> p @ bs = byte_bits chunk @ p' \<and> pending r' p' \<and>
     set chunk \<subseteq> {..<256} \<and> hr_total_bits r' = hr_total_bits r \<and> hr_gas_consumed r' = hr_gas_consumed r)"

lemma load_rest_ok:
  assumes "n = length (sbits k)"
  shows "\<exists>chunk r' p'. load_rest L k n first r = Inr (first @ chunk, r') \<and> sbits k = byte_bits chunk @ p' \<and>
    pending r' p' \<and> set chunk \<subseteq> {..<256} \<and> hr_total_bits r' = hr_total_bits r \<and> hr_gas_consumed r' = hr_gas_consumed r"
proof -
  obtain bs k' where raw: "sl_load_raw L k n = Inr (bs, k')" and len: "length bs = (n + 7) div 8" "\<forall>b \<in> set bs. b < 256"
    and b: "take n (byte_bits bs) = sbits k" "drop n (byte_bits bs) = replicate (8 * ((n + 7) div 8) - n) False"
    using load_raw[of n k] assms by auto
  have all: "byte_bits bs = sbits k @ replicate (8 * ((n + 7) div 8) - n) False"
    using append_take_drop_id[of n "byte_bits bs"] b by simp
  let ?j = "n div 8" and ?p = "drop (8 * (n div 8)) (sbits k)"
  have p: "length ?p = n mod 8" using assms by (simp add: minus_mult_div_eq_mod)
  have "byte_bits (take ?j bs) = take (8 * ?j) (sbits k)"
    using assms by (simp add: byte_bits_take all)
  then have split: "sbits k = byte_bits (take ?j bs) @ ?p" by simp
  have last: "bs ! ?j = bits_value ?p * 2 ^ (8 - length ?p)" if "n mod 8 \<noteq> 0"
  proof -
    have l: "?j < length bs" using len last_byte(1)[OF that] by simp
    have r: "8 * ((n + 7) div 8) - n = 8 - n mod 8" unfolding last_byte(1)[OF that] by (rule last_byte(2)[OF that])
    have "take 8 (drop (8 * ?j) (byte_bits bs)) = ?p @ replicate (8 - n mod 8) False"
      unfolding all r using p assms that by (simp add: min_def)
    then have "bits_value (to_bits 8 (int (bs ! ?j))) = bits_value ?p * 2 ^ (8 - n mod 8)"
      using byte_bits_nth[OF l] by (simp add: bits_value_append)
    moreover have "bs ! ?j < 2 ^ 8" using len(2) l by simp
    ultimately show ?thesis using value_to_bits[of "bs ! ?j" 8] p by simp
  qed
  let ?r = "r\<lparr>hr_rem_bits := n mod 8, hr_prev_byte := (if n mod 8 = 0 then 0 else bs ! ?j)\<rparr>"
  have "pending ?r ?p"
    using p last unfolding pending_def by (cases "n mod 8 = 0") auto
  moreover have "load_rest L k n first r = Inr (first @ take ?j bs, ?r)" by (simp add: load_rest_def raw Let_def)
  moreover have "set (take ?j bs) \<subseteq> {..<256}" using len(2) set_take_subset[of ?j bs] by auto
  ultimately show ?thesis using split by (intro exI[of _ "take ?j bs"] exI[of _ ?r] exI[of _ ?p]) simp
qed

lemma load_bytes_ok:
  assumes "pending r p"
  shows "advances (r\<lparr>hr_total_bits := hr_total_bits r + length (sbits k)\<rparr>) p (sbits k) (load_bytes A L M k r)"
proof -
  let ?n = "length (sbits k)" and ?r = "r\<lparr>hr_total_bits := hr_total_bits r + length (sbits k)\<rparr>"
  have small: "\<exists>k'. sl_load_small_uint M k m = Inr (bits_value (take m (sbits k)), k') \<and> sbits k' = drop m (sbits k)"
    if "m \<le> 8" "m \<le> ?n" for m
    using load_small_uint[OF that(1), unfolded loads_bits_def, rule_format, of k] that(2) by auto
  have q: "length p < 8" "hr_rem_bits r = length p" "p \<noteq> [] \<Longrightarrow> hr_prev_byte r = bits_value p * 2 ^ (8 - length p)"
    using assms by (auto simp: pending_def)
  have small_byte: "take_bit 8 (push_bit (8 - m) (bits_value x)) = bits_value x * 2 ^ (8 - m)" if "length x \<le> m" "m \<le> 8" for x m
  proof -
    have "bits_value x < 2 ^ m"
      using bits_value_bound[of x] that(1) by (meson order_less_le_trans power_increasing one_le_numeral)
    then have "bits_value x * 2 ^ (8 - m) < 2 ^ m * 2 ^ (8 - m)" by simp
    then have "bits_value x * 2 ^ (8 - m) < 2 ^ 8" using that(2) by (simp flip: power_add)
    then show ?thesis by (simp add: push_bit_eq_mult take_bit_nat_eq_self)
  qed
  consider (short) "p \<noteq> []" "?n < 8 - length p" | (fill) "p \<noteq> []" "8 - length p \<le> ?n"
    | (start) "p = []" "1 \<le> ?n" "?n < 8" | (whole) "p = []" "\<not> (1 \<le> ?n \<and> ?n < 8)" by linarith
  then show ?thesis
  proof cases
    case short
    let ?m = "8 - length p - ?n"
    obtain k' where k': "sl_load_small_uint M k ?n = Inr (bits_value (sbits k), k')"
      using small[of ?n] short(2) by (auto simp: less_diff_conv)
    have eq: "8 - (length p + ?n) = ?m" by simp
    have "or (hr_prev_byte r) (take_bit 8 (push_bit ?m (bits_value (sbits k)))) =
        bits_value (p @ sbits k) * 2 ^ (8 - length (p @ sbits k))"
      using small_byte[of "sbits k" "8 - ?m"] or_bits_value[of "sbits k" "8 - length p" p] short q by simp
    then show ?thesis
      unfolding advances_def load_bytes_def using short q k'
      by (intro exI[of _ "[]"] exI[of _ "?r\<lparr>hr_rem_bits := hr_rem_bits r + ?n,
          hr_prev_byte := or (hr_prev_byte r) (take_bit 8 (push_bit ?m (bits_value (sbits k))))\<rparr>"] exI[of _ "p @ sbits k"])
        (auto simp: size_bits Let_def pending_def byte_bits_def)
  next
    case fill
    let ?a = "8 - length p"
    obtain k' where k': "sl_load_small_uint M k ?a = Inr (bits_value (take ?a (sbits k)), k')" "sbits k' = drop ?a (sbits k)"
      using small[of ?a] fill by auto
    let ?b = "or (hr_prev_byte r) (bits_value (take ?a (sbits k)))"
    have val: "?b = bits_value (p @ take ?a (sbits k))"
      using or_bits_value[of "take ?a (sbits k)" ?a p] fill q by simp
    have "?b < 256" unfolding val using bits_value_bound[of "p @ take ?a (sbits k)"] fill q(1) by simp
    moreover have b: "to_bits 8 (int ?b) = p @ take ?a (sbits k)"
      unfolding val using to_bits_value[of "p @ take ?a (sbits k)"] fill q(1) by simp
    moreover obtain chunk r' p' where l: "load_rest L k' (?n - ?a) [?b] ?r = Inr ([?b] @ chunk, r')" "sbits k' = byte_bits chunk @ p'"
      "pending r' p'" "set chunk \<subseteq> {..<256}" "hr_total_bits r' = hr_total_bits ?r" "hr_gas_consumed r' = hr_gas_consumed ?r"
      using load_rest_ok[of "?n - ?a" k' "[?b]" ?r] k'(2) by auto
    moreover have "p @ sbits k = byte_bits ([?b] @ chunk) @ p'"
      using b k'(2) l(2) append_take_drop_id[of ?a "sbits k"] by (simp add: byte_bits_def)
    moreover have "load_bytes A L M k r = Inr ([?b] @ chunk, r')"
      using fill q k'(1) l(1) by (simp add: load_bytes_def size_bits Let_def)
    ultimately show ?thesis unfolding advances_def using l(3-6)
      by (intro exI[of _ "[?b] @ chunk"] exI[of _ r'] exI[of _ p']) simp
  next
    case start
    obtain k' where k': "sl_load_small_uint M k ?n = Inr (bits_value (sbits k), k')"
      using small[of ?n] start by auto
    then show ?thesis
      unfolding advances_def load_bytes_def using start q k' small_byte[of "sbits k" ?n]
      by (intro exI[of _ "[]"] exI[of _ "?r\<lparr>hr_rem_bits := ?n,
          hr_prev_byte := take_bit 8 (push_bit (8 - ?n) (bits_value (sbits k)))\<rparr>"] exI[of _ "sbits k"])
        (auto simp: size_bits Let_def pending_def byte_bits_def)
  next
    case whole
    then have "load_bytes A L M k r = load_rest L k ?n [] ?r"
      using q(2) by (auto simp: load_bytes_def size_bits Let_def)
    then show ?thesis unfolding advances_def using load_rest_ok[of ?n k "[]" ?r] whole by auto
  qed
qed

text \<open>The inputs that are still to be read, by their bits.\<close>

definition feeds :: "nat \<Rightarrow> bool \<Rightarrow> nat \<Rightarrow> bool list list \<Rightarrow> ('c, 's, 'b) vm_state \<Rightarrow> bool" where
  "feeds cnt rv index ds st \<longleftrightarrow> (\<forall>g i. i < length ds \<longrightarrow>
     (\<exists>k. get_data_slice M cnt rv (index + i) (st\<lparr>gas := g\<rparr>) = (Inr k, st\<lparr>gas := g\<rparr>) \<and> sbits k = ds ! i))"

lemma feeds_Cons:
  assumes "feeds cnt rv index (d # ds) st"
  shows "\<exists>k. get_data_slice M cnt rv index st = (Inr k, st) \<and> sbits k = d"
    and "feeds cnt rv (Suc index) ds (st\<lparr>gas := g\<rparr>)"
proof -
  note f = assms[unfolded feeds_def, rule_format]
  show "\<exists>k. get_data_slice M cnt rv index st = (Inr k, st) \<and> sbits k = d" using f[of 0 "gas st"] by simp
  show "feeds cnt rv (Suc index) ds (st\<lparr>gas := g\<rparr>)"
    unfolding feeds_def
  proof (intro allI impI)
    fix g' i
    assume "i < length ds"
    then show "\<exists>k. get_data_slice M cnt rv (Suc index + i) (st\<lparr>gas := g, gas := g'\<rparr>) =
        (Inr k, st\<lparr>gas := g, gas := g'\<rparr>) \<and> sbits k = ds ! i"
      using f[of "Suc i" g'] by simp
  qed
qed

lemma read_hash_input_ok:
  assumes "pending r p" and "feeds cnt rv index ds st" and "gas_wf (gas st)"
    and "hr_gas_consumed r = hash_price bpg index (hr_total_bits r)"
    and "int (hash_price bpg (index + length ds) (hr_total_bits r + length (concat ds)) - hr_gas_consumed r) \<le> gas_remaining (gas st)"
  shows "\<exists>bytes p'. p @ concat ds = byte_bits bytes @ p' \<and> length p' < 8 \<and> set bytes \<subseteq> {..<256} \<and>
    read_hash_input A L M bpg cnt rv (length ds) index r st =
      (if p' = [] then Inr bytes else Inl (VmErr (CellError ECellUnderflow)),
       st\<lparr>gas := (gas st)\<lparr>gas_remaining := gas_remaining (gas st) -
         int (hash_price bpg (index + length ds) (hr_total_bits r + length (concat ds)) - hr_gas_consumed r)\<rparr>\<rparr>)"
  using assms
proof (induction ds arbitrary: index r p st)
  case Nil
  then show ?case
    by (intro exI[of _ "[]"] exI[of _ p]) (auto simp: pending_def byte_bits_def vm_fail_def)
next
  case (Cons d ds)
  obtain k where k: "get_data_slice M cnt rv index st = (Inr k, st)" "sbits k = d"
    using feeds_Cons(1)[OF Cons.prems(2)] by blast
  obtain chunk r1 p1 where l: "load_bytes A L M k r = Inr (chunk, r1)" "p @ d = byte_bits chunk @ p1" "pending r1 p1"
      "set chunk \<subseteq> {..<256}" "hr_total_bits r1 = hr_total_bits r + length d" "hr_gas_consumed r1 = hr_gas_consumed r"
    using load_bytes_ok[OF Cons.prems(1), of k, unfolded advances_def] k(2) by auto
  let ?now = "hash_price bpg (Suc index) (hr_total_bits r + length d)"
  let ?due = "hash_price bpg (index + length (d # ds)) (hr_total_bits r + length (concat (d # ds)))"
  let ?g = "(gas st)\<lparr>gas_remaining := gas_remaining (gas st) - int (?now - hr_gas_consumed r)\<rparr>"
  have mono: "hr_gas_consumed r \<le> ?now" "?now \<le> ?due"
    unfolding Cons.prems(4) by (intro hash_price_mono; simp)+
  have rest: "int (?now - hr_gas_consumed r) \<le> gas_remaining (gas st)"
    "int (?due - ?now) \<le> gas_remaining (gas st) - int (?now - hr_gas_consumed r)"
    "int (?due - ?now) = int (?due - hr_gas_consumed r) - int (?now - hr_gas_consumed r)"
    using Cons.prems(5) mono by simp_all
  note g = charge_affordable[OF Cons.prems(3) rest(1)]
  let ?r2 = "r1\<lparr>hr_gas_consumed := ?now\<rparr>"
  have "pending ?r2 p1" using l(3) by (simp add: pending_def)
  then obtain bytes p' where b: "p1 @ concat ds = byte_bits bytes @ p'" "length p' < 8" "set bytes \<subseteq> {..<256}"
    and run: "read_hash_input A L M bpg cnt rv (length ds) (Suc index) ?r2 (st\<lparr>gas := ?g\<rparr>) =
      (if p' = [] then Inr bytes else Inl (VmErr (CellError ECellUnderflow)),
       st\<lparr>gas := (gas st)\<lparr>gas_remaining := gas_remaining (gas st) - int (?due - hr_gas_consumed r)\<rparr>\<rparr>)"
    using Cons.IH[of ?r2 p1 "Suc index" "st\<lparr>gas := ?g\<rparr>"] feeds_Cons(2)[OF Cons.prems(2)] g(2) l(5,6) rest
    by (auto simp: add.assoc)
  have "read_hash_input A L M bpg cnt rv (Suc (length ds)) index r st =
      (if p' = [] then Inr (chunk @ bytes) else Inl (VmErr (CellError ECellUnderflow)),
       st\<lparr>gas := (gas st)\<lparr>gas_remaining := gas_remaining (gas st) - int (?due - hr_gas_consumed r)\<rparr>\<rparr>)"
    using k(1) l(1,5,6) g(1) run
    by (simp add: hash_price_def HASH_EXT_ENTRY_GAS_PRICE_def Let_def)
  moreover have "p @ concat (d # ds) = byte_bits (chunk @ bytes) @ p'"
    using arg_cong[OF l(2), of "\<lambda>x. x @ concat ds"] b(1) by (simp add: byte_bits_append)
  ultimately show ?case
    using b(2,3) l(4) by (intro exI[of _ "chunk @ bytes"] exI[of _ p']) simp
qed

lemma stack_feeds:
  assumes "stack st = xs @ vs" and "list_all2 (hash_input sbits bbits) (if rv then rev vs else vs) ds"
  shows "feeds (length vs) rv 0 ds st"
  unfolding feeds_def
proof (intro allI impI)
  fix g i
  assume i: "i < length ds"
  have n: "length ds = length vs" using list_all2_lengthD[OF assms(2)] by (simp split: if_splits)
  let ?v = "(if rv then rev vs else vs) ! i"
  have "length vs - Suc i < length xs + length vs" using i n by simp
  then have "fetch (if rv then i else length vs - 1 - i) (xs @ vs) = (Inr ?v, xs @ vs)"
    using i n by (auto simp: fetch_def depth_def nth_append rev_nth)
  moreover have "hash_input sbits bbits ?v (ds ! i)" using list_all2_nthD2[OF assms(2) i] by simp
  ultimately show "\<exists>k. get_data_slice M (length vs) rv (0 + i) (st\<lparr>gas := g\<rparr>) = (Inr k, st\<lparr>gas := g\<rparr>) \<and> sbits k = ds ! i"
    using assms(1) by (cases ?v) (auto simp: get_data_slice_def hash_input_def data_slice on_stack_eq)
qed

lemma hash_ext_ok:
  assumes "stack st = xs @ vs @ [VInt (int (length vs))]" and "length xs + length vs < MAX_DEPTH"
    and "list_all2 (hash_input sbits bbits) (if rv then rev vs else vs) ds" and "i \<le> 2"
    and "is_ton 4 (version st)" and "gas_wf (gas st)" and "length vs < 2 ^ 32"
    and "int (hash_price (fst (hash_of M i)) (length vs) (length (concat ds))) \<le> gas_remaining (gas st)"
  shows "\<exists>bytes g. set bytes \<subseteq> {..<256} \<and> gas_remaining g = gas_remaining (gas st) -
       int (hash_price (fst (hash_of M i)) (length vs) (length (concat ds))) \<and>
    (if 8 dvd length (concat ds) then byte_bits bytes = concat ds \<and> exec_hash_ext A L M False rv i st =
         (Inr 0, st\<lparr>stack := xs @ [digest_value L (snd (hash_of M i) bytes)], gas := g\<rparr>)
     else exec_hash_ext A L M False rv i st = (Inl (VmErr (CellError ECellUnderflow)), st\<lparr>stack := xs @ vs, gas := g\<rparr>))"
proof -
  let ?st = "st\<lparr>stack := xs @ vs\<rparr>" and ?bpg = "fst (hash_of M i)"
  let ?g = "(gas st)\<lparr>gas_remaining := gas_remaining (gas st) - int (hash_price ?bpg (length vs) (length (concat ds)))\<rparr>"
  have n: "length ds = length vs" using list_all2_lengthD[OF assms(3)] by (simp split: if_splits)
  have new: "pending hash_reader_new []" "hr_gas_consumed hash_reader_new = 0" "hr_total_bits hash_reader_new = 0"
    by (simp_all add: pending_def hash_reader_new_def)
  obtain bytes p where b: "concat ds = byte_bits bytes @ p" "length p < 8" "set bytes \<subseteq> {..<256}"
    and run: "read_hash_input A L M ?bpg (length vs) rv (length vs) 0 hash_reader_new ?st =
      (if p = [] then Inr bytes else Inl (VmErr (CellError ECellUnderflow)), ?st\<lparr>gas := ?g\<rparr>)"
    using read_hash_input_ok[OF new(1) stack_feeds[of ?st xs vs rv ds], of ?bpg] assms(3,6,8) n new(2,3)
    by (auto simp: hash_price_def)
  have p: "p = [] \<longleftrightarrow> 8 dvd length (concat ds)"
    using b(1,2) arg_cong[OF b(1), of length] by (auto simp: length_byte_bits dvd_add_right_iff dest: dvd_imp_le)
  have hash: "compute_hash_ext A L M i (length vs) rv =
      bnd (read_hash_input A L M ?bpg (length vs) rv (length vs) 0 hash_reader_new) (\<lambda>bs. ret (snd (hash_of M i) bs))"
    using assms(4) by (auto simp: compute_hash_ext_def hash_of_def Let_def)
  have cnt: "pop_smallint_range 0 (min (length xs + length vs) (2 ^ 32 - 1)) (xs @ vs @ [VInt (int (length vs))]) =
      (Inr (length vs), xs @ vs)"
    using pop_smallint_under[of 0 "length vs" "min (length xs + length vs) (2 ^ 32 - 1)" "xs @ vs"] assms(7) by simp
  show ?thesis
  proof (cases "p = []")
    case True
    then have "exec_hash_ext A L M False rv i st = (Inr 0, st\<lparr>stack := xs @ [digest_value L (snd (hash_of M i) bytes)], gas := ?g\<rparr>)"
      using assms(1,2,4,5) run cnt
      by (simp add: exec_hash_ext_def require_version_def require_ton_def hash depth_def pop_many_eq digest_value_def push_int_def)
    then show ?thesis using True p b by (intro exI[of _ bytes] exI[of _ ?g]) simp
  next
    case False
    then have "exec_hash_ext A L M False rv i st = (Inl (VmErr (CellError ECellUnderflow)), st\<lparr>stack := xs @ vs, gas := ?g\<rparr>)"
      using assms(1,2,4,5) run cnt
      by (simp add: exec_hash_ext_def require_version_def require_ton_def hash depth_def)
    then show ?thesis using False p b by (intro exI[of _ bytes] exI[of _ ?g]) simp
  qed
qed

end

end
