(* ===== verification/LogicOps.thy ===== *)
theory LogicOps
  imports ArithOps
begin

text \<open>\<open>vm/src/instr/logicops.rs\<close>: shifts, bitwise operations and the width tests.\<close>

section \<open>Handlers\<close>

definition exec_lshift_tinyint8 :: "('c, 's) api \<Rightarrow> nat \<Rightarrow> bool \<Rightarrow> ('c, 's, 'b, int) vm" where
  "exec_lshift_tinyint8 A y quiet = int_unop A (push_bit y) quiet"

definition exec_rshift_tinyint8 :: "('c, 's) api \<Rightarrow> nat \<Rightarrow> bool \<Rightarrow> ('c, 's, 'b, int) vm" where
  "exec_rshift_tinyint8 A y quiet = int_unop A (drop_bit y) quiet"

text \<open>A shift amount is popped before the number.\<close>

definition popped_shift ::
    "('c, 's) api \<Rightarrow> (nat \<Rightarrow> int \<Rightarrow> int) \<Rightarrow> bool \<Rightarrow> ('c, 's, 'b, int) vm" where
  "popped_shift A f quiet = bnd (on_stack (pop_smallint_range 0 1023)) (\<lambda>y. int_unop A (f y) quiet)"

definition exec_lshift :: "('c, 's) api \<Rightarrow> bool \<Rightarrow> ('c, 's, 'b, int) vm" where
  "exec_lshift A quiet = popped_shift A push_bit quiet"

definition exec_rshift :: "('c, 's) api \<Rightarrow> bool \<Rightarrow> ('c, 's, 'b, int) vm" where
  "exec_rshift A quiet = popped_shift A drop_bit quiet"

definition exec_pow2 :: "('c, 's) api \<Rightarrow> bool \<Rightarrow> ('c, 's, 'b, int) vm" where
  "exec_pow2 A quiet = st_op (bnd (pop_smallint_range 0 1023) (\<lambda>y.
     push_raw_int A (push_bit y 1) quiet))"

text \<open>
  \<open>AND\<close> and \<open>OR\<close> know their result when one operand is \<open>NaN\<close> and the other absorbs: zero for
  \<open>AND\<close>, minus one for \<open>OR\<close>.
\<close>

definition exec_and :: "('c, 's) api \<Rightarrow> bool \<Rightarrow> ('c, 's, 'b, int) vm" where
  "exec_and A quiet = st_op (bnd pop_int_or_nan (\<lambda>y. bnd pop_int_or_nan (\<lambda>x.
     case (x, y) of
       (Some x, Some y) \<Rightarrow> push_raw_int A (x AND y) quiet
     | (Some x, None) \<Rightarrow> if x = 0 then push_zero else nan_or_overflow quiet
     | (None, Some x) \<Rightarrow> if x = 0 then push_zero else nan_or_overflow quiet
     | (None, None) \<Rightarrow> nan_or_overflow quiet)))"

definition exec_or :: "('c, 's) api \<Rightarrow> bool \<Rightarrow> ('c, 's, 'b, int) vm" where
  "exec_or A quiet = st_op (bnd pop_int_or_nan (\<lambda>y. bnd pop_int_or_nan (\<lambda>x.
     case (x, y) of
       (Some x, Some y) \<Rightarrow> push_raw_int A (x OR y) quiet
     | (Some x, None) \<Rightarrow>
         if sgn x = -1 \<and> \<bar>x\<bar> = 1 then push_int (-1) else nan_or_overflow quiet
     | (None, Some x) \<Rightarrow>
         if sgn x = -1 \<and> \<bar>x\<bar> = 1 then push_int (-1) else nan_or_overflow quiet
     | (None, None) \<Rightarrow> nan_or_overflow quiet)))"

definition exec_xor :: "('c, 's) api \<Rightarrow> bool \<Rightarrow> ('c, 's, 'b, int) vm" where
  "exec_xor A quiet = int_binop A (\<lambda>x y. x XOR y) quiet"

definition exec_not :: "('c, 's) api \<Rightarrow> bool \<Rightarrow> ('c, 's, 'b, int) vm" where
  "exec_not A quiet = int_unop A (\<lambda>x. NOT x) quiet"

definition push_fitting ::
    "('c, 'x) api \<Rightarrow> nat \<Rightarrow> bool \<Rightarrow> bool \<Rightarrow> (('c, 's, 'b) stk, fault, unit) act" where
  "push_fitting A y s quiet = bnd pop_int_or_nan (\<lambda>x. case x of
     Some x \<Rightarrow>
       if has_correct_sign A x s \<and> bitsize A x s \<le> y then push_raw (VInt x)
       else nan_or_overflow quiet
   | None \<Rightarrow> nan_or_overflow quiet)"

definition exec_fits_tinyint8 :: "('c, 's) api \<Rightarrow> nat \<Rightarrow> bool \<Rightarrow> bool \<Rightarrow> ('c, 's, 'b, int) vm" where
  "exec_fits_tinyint8 A y s quiet = st_op (push_fitting A y s quiet)"

definition exec_fits :: "('c, 's) api \<Rightarrow> bool \<Rightarrow> bool \<Rightarrow> ('c, 's, 'b, int) vm" where
  "exec_fits A s quiet =
     st_op (bnd (pop_smallint_range 0 1023) (\<lambda>y. push_fitting A y s quiet))"

definition isize_max :: int where "isize_max = i64_max"

definition exec_bitsize :: "('c, 's) api \<Rightarrow> bool \<Rightarrow> bool \<Rightarrow> ('c, 's, 'b, int) vm" where
  "exec_bitsize A s quiet = st_op (bnd pop_int_or_nan (\<lambda>x. case x of
     Some x \<Rightarrow>
       if \<not> has_correct_sign A x s
       then thn (vm_ensure quiet (IntegerOutOfRange 0 isize_max x)) push_nan
       else push_int (int (bitsize A x s))
   | None \<Rightarrow> nan_or_overflow quiet))"

lemmas logicops_defs = exec_lshift_tinyint8_def exec_rshift_tinyint8_def exec_lshift_def
  exec_rshift_def exec_pow2_def exec_and_def exec_or_def exec_xor_def exec_not_def
  exec_fits_tinyint8_def exec_fits_def exec_bitsize_def

section \<open>Behaviour\<close>

text \<open>A bitwise result of two 257-bit integers is a 257-bit integer: these never overflow.\<close>

lemma fits_signed_bits:
  assumes "0 < n"
  shows "fits_signed n x \<longleftrightarrow> signed_take_bit (n - 1) x = x"
  by (simp add: fits_signed_def signed_take_bit_int_eq_self_iff)

lemma signed_take_bit_bitwise:
  fixes x y :: int
  shows "signed_take_bit n (x AND y) = signed_take_bit n x AND signed_take_bit n y"
    and "signed_take_bit n (x OR y) = signed_take_bit n x OR signed_take_bit n y"
    and "signed_take_bit n (x XOR y) = signed_take_bit n x XOR signed_take_bit n y"
    and "signed_take_bit n (NOT x) = NOT (signed_take_bit n x)"
  by (rule bit_eqI; auto simp: bit_simps)+

lemma fits_signed_bitwise:
  assumes "fits_signed 257 x" and "fits_signed 257 y"
  shows "fits_signed 257 (x AND y)" "fits_signed 257 (x OR y)" "fits_signed 257 (x XOR y)"
    "fits_signed 257 (NOT x)"
  using assms by (simp_all add: fits_signed_bits signed_take_bit_bitwise)

lemma exec_bitwise_ints:
  assumes "bitsize_ok A" and "stack st = xs @ [VInt x, VInt y]" and "length xs < MAX_DEPTH"
    and "fits_signed 257 x" "fits_signed 257 y"
  shows "exec_and A q st = (Inr 0, st\<lparr>stack := xs @ [VInt (x AND y)]\<rparr>)"
    and "exec_or A q st = (Inr 0, st\<lparr>stack := xs @ [VInt (x OR y)]\<rparr>)"
    and "exec_xor A q st = (Inr 0, st\<lparr>stack := xs @ [VInt (x XOR y)]\<rparr>)"
  using assms fits_signed_bitwise[OF assms(4,5)]
  by (simp_all add: exec_and_def exec_or_def exec_xor_def int_binop_def st_op_eq pop_nums
      push_raw_int_eq depth_def)

lemma exec_shift_ints:
  assumes "bitsize_ok A" and "stack st = xs @ [VInt x, VInt (int n)]" and "length xs < MAX_DEPTH"
    and "n \<le> 1023"
  shows "exec_lshift A q st = checked st xs (x * 2 ^ n) q"
    and "exec_rshift A q st = checked st xs (x div 2 ^ n) q"
proof -
  have p: "pop_smallint_range 0 1023 (stack st) = (Inr n, xs @ [VInt x])"
    using assms(2,4) pop_smallint_range_int[of 0 1023 "xs @ [VInt x]" "int n"] by simp
  have u: "int_unop A f q (st\<lparr>stack := xs @ [VInt x]\<rparr>) = checked st xs (f x) q" for f
    using int_unop_int[OF assms(1), of "st\<lparr>stack := xs @ [VInt x]\<rparr>" xs x f q] assms(3)
    by (simp add: checked_def)
  show "exec_lshift A q st = checked st xs (x * 2 ^ n) q"
    by (simp add: exec_lshift_def popped_shift_def p u push_bit_eq_mult)
  show "exec_rshift A q st = checked st xs (x div 2 ^ n) q"
    by (simp add: exec_rshift_def popped_shift_def p u drop_bit_eq_div)
qed

section \<open>The invariant\<close>

lemma calm_push_fitting [calm_rules]: "calm (push_fitting A y s q)"
  unfolding push_fitting_def by (intro calm_rules)

lemma logicops_safe:
  "safe (exec_lshift_tinyint8 A y q)" "safe (exec_rshift_tinyint8 A y q)" "safe (exec_lshift A q)"
  "safe (exec_rshift A q)" "safe (exec_pow2 A q)" "safe (exec_and A q)" "safe (exec_or A q)"
  "safe (exec_xor A q)" "safe (exec_not A q)" "safe (exec_fits_tinyint8 A y s q)"
  "safe (exec_fits A s q)" "safe (exec_bitsize A s q)"
  unfolding logicops_defs popped_shift_def by (intro safe_rules calm_rules)+

end
