(* ===== verification/StackOps.thy ===== *)
theory StackOps
  imports Safety
begin

text \<open>
  \<open>vm/src/instr/stackops.rs\<close>: the stack manipulation instructions, one definition per
  handler, with the arguments the opcode decoder passes. Each rearranges the top of the stack;
  the lemmas say how, on any stack below it.
\<close>

section \<open>Handlers\<close>

definition STACK_FEE_THRESHOLD :: nat where "STACK_FEE_THRESHOLD = 255"

definition should_consume_gas :: "vm_version \<Rightarrow> bool" where
  "should_consume_gas v = is_ton 4 v"

definition max_stack_size :: "vm_version \<Rightarrow> nat" where
  "max_stack_size v = (if should_consume_gas v then MAX_DEPTH else STACK_FEE_THRESHOLD)"

text \<open>\<open>if let Some(diff) = x.checked_sub(STACK_FEE_THRESHOLD) { st.gas.try_consume(diff)? }\<close>\<close>

definition consume_stack_fee :: "nat \<Rightarrow> ('c, 's, 'b, unit) vm" where
  "consume_stack_fee x =
     (if STACK_FEE_THRESHOLD \<le> x then on_gas (try_consume (int (x - STACK_FEE_THRESHOLD)))
      else ret ())"

definition pop_stack_index :: "('c, 's, 'b, nat) vm" where
  "pop_stack_index = bnd (gets version) (\<lambda>v. on_stack (pop_smallint_range 0 (max_stack_size v)))"

definition exec_nop :: "('c, 's, 'b, int) vm" where
  "exec_nop = ret 0"

definition exec_swap :: "('c, 's, 'b, int) vm" where
  "exec_swap = st_op (swap 0 1)"

definition exec_xchg :: "nat \<Rightarrow> nat \<Rightarrow> ('c, 's, 'b, int) vm" where
  "exec_xchg i j = st_op (swap i j)"

definition exec_dup :: "('c, 's, 'b, int) vm" where
  "exec_dup = st_op (push_nth 0)"

definition exec_over :: "('c, 's, 'b, int) vm" where
  "exec_over = st_op (push_nth 1)"

definition exec_push :: "nat \<Rightarrow> ('c, 's, 'b, int) vm" where
  "exec_push i = st_op (push_nth i)"

definition exec_drop :: "('c, 's, 'b, int) vm" where
  "exec_drop = st_op pop"

definition exec_nip :: "('c, 's, 'b, int) vm" where
  "exec_nip = st_op (thn (swap 0 1) pop)"

definition exec_pop :: "nat \<Rightarrow> ('c, 's, 'b, int) vm" where
  "exec_pop i = st_op (thn (swap 0 i) pop)"

definition exec_xchg3 :: "nat \<Rightarrow> nat \<Rightarrow> nat \<Rightarrow> ('c, 's, 'b, int) vm" where
  "exec_xchg3 i j k = st_op (thn (swap 2 i) (thn (swap 1 j) (swap 0 k)))"

definition exec_xchg2 :: "nat \<Rightarrow> nat \<Rightarrow> ('c, 's, 'b, int) vm" where
  "exec_xchg2 i j = st_op (thn (swap 1 i) (swap 0 j))"

definition exec_xcpu :: "nat \<Rightarrow> nat \<Rightarrow> ('c, 's, 'b, int) vm" where
  "exec_xcpu i j = st_op (thn (swap 0 i) (push_nth j))"

definition exec_puxc :: "nat \<Rightarrow> nat \<Rightarrow> ('c, 's, 'b, int) vm" where
  "exec_puxc i j = st_op (thn (push_nth i) (thn (swap 0 1) (swap 0 j)))"

definition exec_push2 :: "nat \<Rightarrow> nat \<Rightarrow> ('c, 's, 'b, int) vm" where
  "exec_push2 i j = st_op (thn (push_nth i) (push_nth (1 + j)))"

definition exec_xc2pu :: "nat \<Rightarrow> nat \<Rightarrow> nat \<Rightarrow> ('c, 's, 'b, int) vm" where
  "exec_xc2pu i j k = st_op (thn (swap 1 i) (thn (swap 0 j) (push_nth k)))"

definition exec_xcpuxc :: "nat \<Rightarrow> nat \<Rightarrow> nat \<Rightarrow> ('c, 's, 'b, int) vm" where
  "exec_xcpuxc i j k = st_op (thn (swap 1 i) (thn (push_nth j) (thn (swap 0 1) (swap 0 k))))"

definition exec_xcpu2 :: "nat \<Rightarrow> nat \<Rightarrow> nat \<Rightarrow> ('c, 's, 'b, int) vm" where
  "exec_xcpu2 i j k = st_op (thn (swap 0 i) (thn (push_nth j) (push_nth (1 + k))))"

definition exec_puxc2 :: "nat \<Rightarrow> nat \<Rightarrow> nat \<Rightarrow> ('c, 's, 'b, int) vm" where
  "exec_puxc2 i j k = st_op (thn (push_nth i) (thn (swap 2 0) (thn (swap 1 j) (swap 0 k))))"

definition exec_puxcpu :: "nat \<Rightarrow> nat \<Rightarrow> nat \<Rightarrow> ('c, 's, 'b, int) vm" where
  "exec_puxcpu i j k = st_op (thn (push_nth i) (thn (swap 0 1) (thn (swap 0 j) (push_nth k))))"

definition exec_pu2xc :: "nat \<Rightarrow> nat \<Rightarrow> nat \<Rightarrow> ('c, 's, 'b, int) vm" where
  "exec_pu2xc i j k =
     st_op (thn (push_nth i) (thn (swap 1 0) (thn (push_nth j) (thn (swap 1 0) (swap 0 k)))))"

definition exec_push3 :: "nat \<Rightarrow> nat \<Rightarrow> nat \<Rightarrow> ('c, 's, 'b, int) vm" where
  "exec_push3 i j k = st_op (thn (push_nth i) (thn (push_nth (1 + j)) (push_nth (2 + k))))"

definition blkswap :: "nat \<Rightarrow> nat \<Rightarrow> (('c, 's, 'b) stk, fault, unit) act" where
  "blkswap i j = thn (reverse_range j i) (thn (reverse_range 0 j) (reverse_range 0 (i + j)))"

definition exec_blkswap :: "nat \<Rightarrow> nat \<Rightarrow> ('c, 's, 'b, int) vm" where
  "exec_blkswap i j = st_op (blkswap i j)"

definition exec_rot :: "('c, 's, 'b, int) vm" where
  "exec_rot = st_op (thn (swap 1 2) (swap 0 1))"

definition exec_rotrev :: "('c, 's, 'b, int) vm" where
  "exec_rotrev = st_op (thn (swap 0 1) (swap 1 2))"

definition exec_2swap :: "('c, 's, 'b, int) vm" where
  "exec_2swap = st_op (thn (swap 1 3) (swap 0 2))"

definition exec_2drop :: "('c, 's, 'b, int) vm" where
  "exec_2drop = st_op (thn pop pop)"

definition exec_2dup :: "('c, 's, 'b, int) vm" where
  "exec_2dup = st_op (thn (push_nth 1) (push_nth 1))"

definition exec_2over :: "('c, 's, 'b, int) vm" where
  "exec_2over = st_op (thn (push_nth 3) (push_nth 3))"

definition exec_reverse :: "nat \<Rightarrow> nat \<Rightarrow> ('c, 's, 'b, int) vm" where
  "exec_reverse i j = st_op (reverse_range j i)"

definition exec_blkdrop :: "nat \<Rightarrow> ('c, 's, 'b, int) vm" where
  "exec_blkdrop i = st_op (pop_many i)"

primrec blkpush_loop :: "nat \<Rightarrow> nat \<Rightarrow> (('c, 's, 'b) stk, fault, unit) act" where
  "blkpush_loop j 0 = ret ()"
| "blkpush_loop j (Suc i) = thn (push_nth j) (blkpush_loop j i)"

definition exec_blkpush :: "nat \<Rightarrow> nat \<Rightarrow> ('c, 's, 'b, int) vm" where
  "exec_blkpush i j = st_op (blkpush_loop j i)"

definition exec_pick :: "('c, 's, 'b, int) vm" where
  "exec_pick = bnd pop_stack_index (\<lambda>i. st_op (push_nth i))"

primrec roll_loop :: "nat \<Rightarrow> (('c, 's, 'b) stk, fault, unit) act" where
  "roll_loop 0 = ret ()"
| "roll_loop (Suc i) = thn (swap (Suc i) i) (roll_loop i)"

definition exec_roll :: "('c, 's, 'b, int) vm" where
  "exec_roll = bnd pop_stack_index (\<lambda>i. thn (consume_stack_fee i) (st_op (roll_loop i)))"

definition rollrev_loop :: "nat \<Rightarrow> (('c, 's, 'b) stk, fault, unit) act" where
  "rollrev_loop x = run_while_list (\<lambda>i. swap i (i + 1)) [0..<x]"

definition exec_rollrev :: "('c, 's, 'b, int) vm" where
  "exec_rollrev = bnd pop_stack_index (\<lambda>x. thn (consume_stack_fee x) (st_op (rollrev_loop x)))"

definition exec_blkswap_x :: "('c, 's, 'b, int) vm" where
  "exec_blkswap_x =
     bnd pop_stack_index (\<lambda>y.
     bnd pop_stack_index (\<lambda>x.
     if x > 0 \<and> y > 0 then
       bnd (gets version) (\<lambda>v.
       thn (if should_consume_gas v then consume_stack_fee (x + y) else ret ())
           (st_op (blkswap x y)))
     else ret 0))"

definition exec_reverse_x :: "('c, 's, 'b, int) vm" where
  "exec_reverse_x =
     bnd pop_stack_index (\<lambda>y.
     bnd pop_stack_index (\<lambda>x.
     thn (consume_stack_fee x) (st_op (reverse_range y x))))"

definition exec_drop_x :: "('c, 's, 'b, int) vm" where
  "exec_drop_x = bnd pop_stack_index (\<lambda>x. st_op (pop_many x))"

definition exec_tuck :: "('c, 's, 'b, int) vm" where
  "exec_tuck = st_op (thn (swap 0 1) (push_nth 1))"

definition exec_xchg_x :: "('c, 's, 'b, int) vm" where
  "exec_xchg_x = bnd pop_stack_index (\<lambda>x. st_op (swap 0 x))"

definition exec_depth :: "('c, 's, 'b, int) vm" where
  "exec_depth = st_op (bnd (gets depth) (\<lambda>d. push_int (int d)))"

definition exec_chkdepth :: "('c, 's, 'b, int) vm" where
  "exec_chkdepth = bnd pop_stack_index (\<lambda>x.
     st_op (bnd (gets depth) (\<lambda>d. vm_ensure (x \<le> d) (StackUnderflow x))))"

definition exec_onlytop_x :: "('c, 's, 'b, int) vm" where
  "exec_onlytop_x =
     bnd pop_stack_index (\<lambda>x.
     bnd (gets (depth \<circ> stack)) (\<lambda>dep.
     if dep < x then vm_fail (StackUnderflow x)
     else
       let d = dep - x in
       thn (if d > 0 then thn (consume_stack_fee x) (on_stack (modify (drop d))) else ret ())
           (st_op (modify (take x)))))"

definition exec_only_x :: "('c, 's, 'b, int) vm" where
  "exec_only_x =
     bnd pop_stack_index (\<lambda>x.
     bnd (gets (depth \<circ> stack)) (\<lambda>dep.
     if dep < x then vm_fail (StackUnderflow x) else st_op (modify (take (dep - x)))))"

definition exec_blkdrop2 :: "nat \<Rightarrow> nat \<Rightarrow> ('c, 's, 'b, int) vm" where
  "exec_blkdrop2 i j = st_op (bnd (gets depth) (\<lambda>d.
     thn (vm_ensure (i + j \<le> d) (StackUnderflow (i + j)))
         (modify (\<lambda>s. take (d - (i + j)) s @ drop (d - j) s))))"

lemmas stackops_defs = exec_nop_def exec_swap_def exec_xchg_def exec_dup_def exec_over_def
  exec_push_def exec_drop_def exec_nip_def exec_pop_def exec_xchg3_def exec_xchg2_def exec_xcpu_def
  exec_puxc_def exec_push2_def exec_xc2pu_def exec_xcpuxc_def exec_xcpu2_def exec_puxc2_def
  exec_puxcpu_def exec_pu2xc_def exec_push3_def exec_blkswap_def exec_rot_def exec_rotrev_def
  exec_2swap_def exec_2drop_def exec_2dup_def exec_2over_def exec_reverse_def exec_blkdrop_def
  exec_blkpush_def exec_pick_def exec_roll_def exec_rollrev_def exec_blkswap_x_def
  exec_reverse_x_def exec_drop_x_def exec_tuck_def exec_xchg_x_def exec_depth_def exec_chkdepth_def
  exec_onlytop_x_def exec_only_x_def exec_blkdrop2_def

section \<open>Behaviour\<close>

lemma swap_adjacent:
  "swap (length zs) (Suc (length zs)) (xs @ [a, b] @ zs) = (Inr (), xs @ [b, a] @ zs)"
  "swap (Suc (length zs)) (length zs) (xs @ [a, b] @ zs) = (Inr (), xs @ [b, a] @ zs)"
  by (simp_all add: swap_top[of _ "[a, b] @ zs" _ xs, simplified] swap_list_def)

lemma roll_loop_top: "roll_loop (length ys) (xs @ v # ys) = (Inr (), xs @ ys @ [v])"
proof (induction ys arbitrary: xs)
  case (Cons y ys)
  have "swap (Suc (length ys)) (length ys) (xs @ v # y # ys) = (Inr (), (xs @ [y]) @ v # ys)"
    using swap_adjacent(2)[of ys xs v y] by simp
  with Cons[of "xs @ [y]"] show ?case by simp
qed simp

lemma rollrev_steps:
  "run_while_list (\<lambda>i. swap i (i + 1)) [length zs..<length zs + length ys] (xs @ ys @ v # zs)
     = (Inr (), xs @ v # ys @ zs)"
proof (induction ys arbitrary: zs rule: rev_induct)
  case (snoc y ys)
  have s: "swap (length zs) (length zs + 1) (xs @ (ys @ [y]) @ v # zs)
      = (Inr (), xs @ ys @ v # y # zs)"
    using swap_adjacent(1)[of zs "xs @ ys" y v] by simp
  have l: "[length zs..<length zs + length (ys @ [y])] =
      length zs # [length (y # zs)..<length (y # zs) + length ys]"
    by (subst upt_conv_Cons) simp_all
  show ?case
    unfolding l run_while_list_simps using s snoc[of "y # zs"] by (simp del: upt_Suc)
qed simp

lemma rollrev_loop_top: "rollrev_loop (length ys) (xs @ ys @ [v]) = (Inr (), xs @ v # ys)"
  using rollrev_steps[of "[]" ys xs v] by (simp add: rollrev_loop_def)

lemma blkswap_blocks:
  assumes "us \<noteq> []" and "vs \<noteq> []"
  shows "blkswap (length us) (length vs) (xs @ us @ vs) = (Inr (), xs @ vs @ us)"
proof -
  have 1: "reverse_range (length vs) (length us) (xs @ us @ vs) = (Inr (), xs @ rev us @ vs)"
    using assms by (simp add: reverse_range_eq reverse_sub_def depth_def)
  have 2: "reverse_range 0 (length vs) (xs @ rev us @ vs) = (Inr (), xs @ rev us @ rev vs)"
    using assms by (simp add: reverse_range_eq reverse_sub_def depth_def)
  have 3: "reverse_range 0 (length us + length vs) (xs @ rev us @ rev vs) = (Inr (), xs @ vs @ us)"
    using assms by (simp add: reverse_range_eq reverse_sub_def depth_def)
  show ?thesis by (simp add: blkswap_def 1 2 3)
qed

text \<open>The handlers with fixed operands, as rearrangements of the top of the stack.\<close>

lemma rearrange_ops:
  fixes st :: "('c, 's, 'b) vm_state" and xs :: "('c, 's, 'b) stk"
  shows "stack st = xs @ [a, b] \<Longrightarrow> exec_swap st = (Inr 0, st\<lparr>stack := xs @ [b, a]\<rparr>)"
    and "stack st = xs @ [a, b] \<Longrightarrow> exec_nip st = (Inr 0, st\<lparr>stack := xs @ [b]\<rparr>)"
    and "stack st = xs @ [a, b, c] \<Longrightarrow> exec_rot st = (Inr 0, st\<lparr>stack := xs @ [b, c, a]\<rparr>)"
    and "stack st = xs @ [a, b, c] \<Longrightarrow> exec_rotrev st = (Inr 0, st\<lparr>stack := xs @ [c, a, b]\<rparr>)"
    and "stack st = xs @ [a, b, c, d] \<Longrightarrow> exec_2swap st = (Inr 0, st\<lparr>stack := xs @ [c, d, a, b]\<rparr>)"
    and "stack st = xs @ [a, b] \<Longrightarrow> exec_2drop st = (Inr 0, st\<lparr>stack := xs\<rparr>)"
proof -
  have s2: "swap 0 (Suc 0) (xs @ [p, q]) = (Inr (), xs @ [q, p])" for p q :: "('c, 's, 'b) sval" and xs
    using swap_adjacent(1)[of "[]" xs p q] by simp
  have s3: "swap (Suc 0) 2 (xs @ [p, q, r]) = (Inr (), xs @ [q, p, r])"
    "swap 0 (Suc 0) (xs @ [p, q, r]) = (Inr (), xs @ [p, r, q])" for p q r :: "('c, 's, 'b) sval" and xs
    using swap_adjacent(1)[of "[r]" xs p q] s2[of "xs @ [p]" q r]
    by (simp_all add: numeral_2_eq_2)
  have s4: "swap (Suc 0) 3 (xs @ [p, q, r, t]) = (Inr (), xs @ [r, q, p, t])"
    "swap 0 2 (xs @ [p, q, r, t]) = (Inr (), xs @ [p, t, r, q])" for p q r t :: "('c, 's, 'b) sval" and xs
    by (simp_all add: swap_top[of _ "[p, q, r, t]" _ xs, simplified] swap_list_def)
  have p1: "pop (xs @ [p, q]) = (Inr q, xs @ [p])" for p q :: "('c, 's, 'b) sval" and xs
    using pop_simps(2)[of "xs @ [p]" q] by simp
  show "stack st = xs @ [a, b] \<Longrightarrow> exec_swap st = (Inr 0, st\<lparr>stack := xs @ [b, a]\<rparr>)"
    by (simp add: exec_swap_def s2)
  show "stack st = xs @ [a, b] \<Longrightarrow> exec_nip st = (Inr 0, st\<lparr>stack := xs @ [b]\<rparr>)"
    by (simp add: exec_nip_def s2 p1)
  show "stack st = xs @ [a, b, c] \<Longrightarrow> exec_rot st = (Inr 0, st\<lparr>stack := xs @ [b, c, a]\<rparr>)"
    by (simp add: exec_rot_def s3)
  show "stack st = xs @ [a, b, c] \<Longrightarrow> exec_rotrev st = (Inr 0, st\<lparr>stack := xs @ [c, a, b]\<rparr>)"
    by (simp add: exec_rotrev_def s3)
  show "stack st = xs @ [a, b, c, d] \<Longrightarrow> exec_2swap st = (Inr 0, st\<lparr>stack := xs @ [c, d, a, b]\<rparr>)"
    by (simp add: exec_2swap_def s4)
  show "stack st = xs @ [a, b] \<Longrightarrow> exec_2drop st = (Inr 0, st\<lparr>stack := xs\<rparr>)"
    by (simp add: exec_2drop_def p1)
qed

lemma copy_ops:
  fixes st :: "('c, 's, 'b) vm_state" and xs :: "('c, 's, 'b) stk"
  assumes room: "length xs + 6 < MAX_DEPTH"
  shows "stack st = xs @ [a] \<Longrightarrow> exec_dup st = (Inr 0, st\<lparr>stack := xs @ [a, a]\<rparr>)"
    and "stack st = xs @ [a, b] \<Longrightarrow> exec_over st = (Inr 0, st\<lparr>stack := xs @ [a, b, a]\<rparr>)"
    and "stack st = xs @ [a, b] \<Longrightarrow> exec_tuck st = (Inr 0, st\<lparr>stack := xs @ [b, a, b]\<rparr>)"
    and "stack st = xs @ [a, b] \<Longrightarrow> exec_2dup st = (Inr 0, st\<lparr>stack := xs @ [a, b, a, b]\<rparr>)"
    and "stack st = xs @ [a, b, c, d] \<Longrightarrow>
           exec_2over st = (Inr 0, st\<lparr>stack := xs @ [a, b, c, d, a, b]\<rparr>)"
proof -
  have p: "push_nth i (xs @ ys) = (Inr (), xs @ ys @ [ys ! (length ys - i - 1)])"
    if "i < length ys" "length ys \<le> 5" for i and ys :: "('c, 's, 'b) stk"
    using that room by (intro push_nth_top) auto
  have s2: "swap 0 (Suc 0) (xs @ [p, q]) = (Inr (), xs @ [q, p])" for p q
    using swap_adjacent(1)[of "[]" xs p q] by simp
  show "stack st = xs @ [a] \<Longrightarrow> exec_dup st = (Inr 0, st\<lparr>stack := xs @ [a, a]\<rparr>)"
    by (simp add: exec_dup_def p)
  show "stack st = xs @ [a, b] \<Longrightarrow> exec_over st = (Inr 0, st\<lparr>stack := xs @ [a, b, a]\<rparr>)"
    by (simp add: exec_over_def p)
  show "stack st = xs @ [a, b] \<Longrightarrow> exec_tuck st = (Inr 0, st\<lparr>stack := xs @ [b, a, b]\<rparr>)"
    by (simp add: exec_tuck_def s2 p)
  show "stack st = xs @ [a, b] \<Longrightarrow> exec_2dup st = (Inr 0, st\<lparr>stack := xs @ [a, b, a, b]\<rparr>)"
    by (simp add: exec_2dup_def p)
  show "stack st = xs @ [a, b, c, d] \<Longrightarrow>
          exec_2over st = (Inr 0, st\<lparr>stack := xs @ [a, b, c, d, a, b]\<rparr>)"
    by (simp add: exec_2over_def p)
qed

lemma pop_stack_index_int:
  "n \<le> max_stack_size (version st) \<Longrightarrow> stack st = s @ [VInt (int n)] \<Longrightarrow>
   pop_stack_index st = (Inr n, st\<lparr>stack := s\<rparr>)"
  by (simp add: pop_stack_index_def pop_smallint_range_int max_stack_size_def MAX_DEPTH_def
      STACK_FEE_THRESHOLD_def split: if_splits)

lemma consume_stack_fee_small: "n < STACK_FEE_THRESHOLD \<Longrightarrow> consume_stack_fee n = ret ()"
  by (simp add: consume_stack_fee_def)

section \<open>The invariant\<close>

lemma safe_consume_stack_fee [safe_rules]: "safe (consume_stack_fee x)"
  unfolding consume_stack_fee_def by (intro safe_rules) simp

lemma safe_pop_stack_index [safe_rules]: "safe pop_stack_index"
  unfolding pop_stack_index_def by (intro safe_rules calm_rules)

lemma calm_loops [calm_rules]: "calm (blkpush_loop j i)" "calm (roll_loop i)" "calm (rollrev_loop i)"
proof -
  show "calm (blkpush_loop j i)" by (induction i) (auto intro!: calm_rules simp del: ret_apply)
  show "calm (roll_loop i)" by (induction i) (auto intro!: calm_rules simp del: ret_apply)
  show "calm (rollrev_loop i)" unfolding rollrev_loop_def by (intro calm_rules)
qed

lemma calm_blkswap [calm_rules]: "calm (blkswap i j)"
  unfolding blkswap_def by (intro calm_rules)

lemma stackops_safe:
  "safe exec_nop" "safe exec_swap" "safe (exec_xchg i j)" "safe exec_dup" "safe exec_over"
  "safe (exec_push i)" "safe exec_drop" "safe exec_nip" "safe (exec_pop i)" "safe (exec_xchg3 i j k)"
  "safe (exec_xchg2 i j)" "safe (exec_xcpu i j)" "safe (exec_puxc i j)" "safe (exec_push2 i j)"
  "safe (exec_xc2pu i j k)" "safe (exec_xcpuxc i j k)" "safe (exec_xcpu2 i j k)"
  "safe (exec_puxc2 i j k)" "safe (exec_puxcpu i j k)" "safe (exec_pu2xc i j k)"
  "safe (exec_push3 i j k)" "safe (exec_blkswap i j)" "safe exec_rot" "safe exec_rotrev"
  "safe exec_2swap" "safe exec_2drop" "safe exec_2dup" "safe exec_2over" "safe (exec_reverse i j)"
  "safe (exec_blkdrop i)" "safe (exec_blkpush i j)" "safe exec_pick" "safe exec_roll"
  "safe exec_rollrev" "safe exec_blkswap_x" "safe exec_reverse_x" "safe exec_drop_x" "safe exec_tuck"
  "safe exec_xchg_x" "safe exec_depth" "safe exec_chkdepth" "safe exec_onlytop_x" "safe exec_only_x"
  "safe (exec_blkdrop2 i j)"
  unfolding stackops_defs by (intro safe_rules calm_rules)+

end
