(* ===== verification/TupleOps.thy ===== *)
theory TupleOps
  imports Safety
begin

text \<open>
  \<open>vm/src/instr/tupleops.rs\<close>: nulls and tuples. Building, changing and exploding a tuple is
  charged per element; the \<open>expect\<close>s on a popped tuple that passed its range check are panics
  of the model.
\<close>

section \<open>Shared routines\<close>

definition charge_tuple :: "nat \<Rightarrow> ('c, 's, 'b, unit) vm" where
  "charge_tuple n = on_gas (try_consume_tuple_gas n)"

definition make_tuple_impl :: "nat \<Rightarrow> ('c, 's, 'b, int) vm" where
  "make_tuple_impl n =
     bnd (gets (depth \<circ> stack)) (\<lambda>d.
     if n \<le> d then
       bnd (on_stack (gets (\<lambda>s. take n (drop (d - n) s)))) (\<lambda>tuple.
       thn (on_stack (modify (\<lambda>s. take (d - n) s @ drop (d - n + n) s)))
      (thn (charge_tuple (length tuple)) (st_op (push_raw (VTuple tuple)))))
     else vm_fail (StackUnderflow n))"

definition tuple_index_impl :: "nat \<Rightarrow> ('c, 's, 'b, int) vm" where
  "tuple_index_impl i = st_op (bnd (pop_tuple_range 0 255) (\<lambda>tuple.
     thn (vm_ensure (i < length tuple) (IntegerOutOfRange 0 (int (length tuple)) (int i)))
         (push_raw (tuple ! i))))"

text \<open>\<open>Vec::get\<close>\<close>

definition nth_opt :: "'a list \<Rightarrow> nat \<Rightarrow> 'a option" where
  "nth_opt t i = (if i < length t then Some (t ! i) else None)"

definition tuple_index_quiet_impl :: "nat \<Rightarrow> ('c, 's, 'b, int) vm" where
  "tuple_index_quiet_impl i = st_op (bnd (pop_opt_tuple_range 0 255) (\<lambda>t.
     push_opt_raw (Option.bind t (\<lambda>t. nth_opt t i))))"

definition do_explode_tuple :: "('c, 's, 'b) sval list \<Rightarrow> nat \<Rightarrow> ('c, 's, 'b, unit) vm" where
  "do_explode_tuple tuple n =
     thn (on_stack (run_while_list push_raw (take n tuple))) (charge_tuple n)"

definition untuple_impl :: "nat \<Rightarrow> ('c, 's, 'b, int) vm" where
  "untuple_impl n =
     bnd (on_stack (pop_tuple_range n n)) (\<lambda>tuple. thn (do_explode_tuple tuple n) (ret 0))"

definition untuple_first_impl :: "nat \<Rightarrow> ('c, 's, 'b, int) vm" where
  "untuple_first_impl n =
     bnd (on_stack (pop_tuple_range n 255)) (\<lambda>tuple. thn (do_explode_tuple tuple n) (ret 0))"

definition explode_tuple_impl :: "nat \<Rightarrow> ('c, 's, 'b, int) vm" where
  "explode_tuple_impl n =
     bnd (on_stack (pop_tuple_range 0 n)) (\<lambda>tuple.
     thn (do_explode_tuple tuple (length tuple)) (st_op (push_int (int (length tuple)))))"

definition tuple_set_index_impl :: "nat \<Rightarrow> ('c, 's, 'b, int) vm" where
  "tuple_set_index_impl i =
     bnd (on_stack pop) (\<lambda>x.
     bnd (on_stack (pop_tuple_range 0 255)) (\<lambda>tuple.
     thn (vm_ensure (i < length tuple) (IntegerOutOfRange 0 (int (length tuple)) (int i)))
    (thn (charge_tuple (length (tuple[i := x]))) (st_op (push_raw (VTuple (tuple[i := x])))))))"

text \<open>The tuple after \<open>SETINDEXQ\<close>, and the number of elements to charge for.\<close>

definition set_index_quiet ::
    "('c, 's, 'b) sval list option \<Rightarrow> nat \<Rightarrow> ('c, 's, 'b) sval \<Rightarrow>
     ('c, 's, 'b) sval list option \<times> nat" where
  "set_index_quiet tuple i x = (case tuple of
      None \<Rightarrow>
        if is_null x then (None, 0)
        else (Some ((replicate (i + 1) VNull)[i := x]), i + 1)
    | Some items \<Rightarrow>
        if i < length items then (Some (items[i := x]), length items)
        else if is_null x then (Some items, 0)
        else (Some ((items @ replicate (i + 1 - length items) VNull)[i := x]), i + 1))"

definition tuple_set_index_quiet_impl :: "nat \<Rightarrow> ('c, 's, 'b, int) vm" where
  "tuple_set_index_quiet_impl i =
     bnd (on_stack pop) (\<lambda>x.
     bnd (on_stack (pop_opt_tuple_range 0 255)) (\<lambda>tuple.
     thn (vm_ensure (i < 255) (IntegerOutOfRange 0 255 (int i)))
    (case set_index_quiet tuple i x of (tuple', updated_items) \<Rightarrow>
       thn (charge_tuple updated_items)
           (st_op (case tuple' of None \<Rightarrow> push_null | Some t \<Rightarrow> push_raw (VTuple t))))))"

definition index_stack_value_as_tuple ::
    "('c, 's, 'b) sval \<Rightarrow> nat \<Rightarrow> vm_error + ('c, 's, 'b) sval" where
  "index_stack_value_as_tuple v i = (case as_tuple_range 0 255 v of
      None \<Rightarrow> Inl (InvalidType TyTuple (ty v))
    | Some tuple \<Rightarrow> (case nth_opt tuple i of
        None \<Rightarrow> Inl (IntegerOutOfRange 0 (int (length tuple)) (int i))
      | Some v \<Rightarrow> Inr v))"

section \<open>Handlers\<close>

definition exec_push_null :: "('c, 's, 'b, int) vm" where
  "exec_push_null = st_op push_null"

definition exec_is_null :: "('c, 's, 'b, int) vm" where
  "exec_is_null = st_op (bnd pop (\<lambda>v. push_bool (is_null v)))"

definition exec_mktuple :: "nat \<Rightarrow> ('c, 's, 'b, int) vm" where
  "exec_mktuple i = make_tuple_impl i"

definition exec_tuple_index :: "nat \<Rightarrow> ('c, 's, 'b, int) vm" where
  "exec_tuple_index i = tuple_index_impl i"

definition exec_untuple :: "nat \<Rightarrow> ('c, 's, 'b, int) vm" where
  "exec_untuple i = untuple_impl i"

definition exec_untuple_first :: "nat \<Rightarrow> ('c, 's, 'b, int) vm" where
  "exec_untuple_first i = untuple_first_impl i"

definition exec_explode_tuple :: "nat \<Rightarrow> ('c, 's, 'b, int) vm" where
  "exec_explode_tuple i = explode_tuple_impl i"

definition exec_tuple_set_index :: "nat \<Rightarrow> ('c, 's, 'b, int) vm" where
  "exec_tuple_set_index i = tuple_set_index_impl i"

definition exec_tuple_quiet_index :: "nat \<Rightarrow> ('c, 's, 'b, int) vm" where
  "exec_tuple_quiet_index i = tuple_index_quiet_impl i"

definition exec_tuple_quiet_set_index :: "nat \<Rightarrow> ('c, 's, 'b, int) vm" where
  "exec_tuple_quiet_set_index i = tuple_set_index_quiet_impl i"

definition exec_mktuple_var :: "('c, 's, 'b, int) vm" where
  "exec_mktuple_var = bnd (on_stack (pop_smallint_range 0 255)) make_tuple_impl"

definition exec_tuple_index_var :: "('c, 's, 'b, int) vm" where
  "exec_tuple_index_var = bnd (on_stack (pop_smallint_range 0 254)) tuple_index_impl"

definition exec_untuple_var :: "('c, 's, 'b, int) vm" where
  "exec_untuple_var = bnd (on_stack (pop_smallint_range 0 255)) untuple_impl"

definition exec_untuple_first_var :: "('c, 's, 'b, int) vm" where
  "exec_untuple_first_var = bnd (on_stack (pop_smallint_range 0 255)) untuple_first_impl"

definition exec_explode_tuple_var :: "('c, 's, 'b, int) vm" where
  "exec_explode_tuple_var = bnd (on_stack (pop_smallint_range 0 255)) explode_tuple_impl"

definition exec_tuple_set_index_var :: "('c, 's, 'b, int) vm" where
  "exec_tuple_set_index_var = bnd (on_stack (pop_smallint_range 0 254)) tuple_set_index_impl"

definition exec_tuple_quiet_index_var :: "('c, 's, 'b, int) vm" where
  "exec_tuple_quiet_index_var = bnd (on_stack (pop_smallint_range 0 254)) tuple_index_quiet_impl"

definition exec_tuple_quiet_set_index_var :: "('c, 's, 'b, int) vm" where
  "exec_tuple_quiet_set_index_var =
     bnd (on_stack (pop_smallint_range 0 254)) tuple_set_index_quiet_impl"

definition exec_tuple_length :: "('c, 's, 'b, int) vm" where
  "exec_tuple_length = st_op (bnd (pop_tuple_range 0 255) (\<lambda>t. push_int (int (length t))))"

definition exec_tuple_length_quiet :: "('c, 's, 'b, int) vm" where
  "exec_tuple_length_quiet = st_op (bnd pop (\<lambda>v. case as_tuple v of
     Some t \<Rightarrow> push_int (int (length t)) | None \<Rightarrow> push_int (-1)))"

definition exec_is_tuple :: "('c, 's, 'b, int) vm" where
  "exec_is_tuple = st_op (bnd pop (\<lambda>v. push_bool (is_tuple v)))"

definition exec_tuple_last :: "('c, 's, 'b, int) vm" where
  "exec_tuple_last = st_op (bnd (pop_tuple_range 1 255) (\<lambda>t.
     if t = [] then fail Panic else push_raw (last t)))"

definition exec_tuple_push :: "('c, 's, 'b, int) vm" where
  "exec_tuple_push =
     bnd (on_stack pop) (\<lambda>x.
     bnd (on_stack (pop_tuple_range 0 254)) (\<lambda>t.
     thn (charge_tuple (length (t @ [x]))) (st_op (push_raw (VTuple (t @ [x]))))))"

definition exec_tuple_pop :: "('c, 's, 'b, int) vm" where
  "exec_tuple_pop =
     bnd (on_stack (pop_tuple_range 1 255)) (\<lambda>t.
     if t = [] then fail Panic
     else
       thn (charge_tuple (length (butlast t)))
           (st_op (thn (push_raw (VTuple (butlast t))) (push_raw (last t)))))"

text \<open>Insert \<open>n\<close> placeholders under the number on top, or one entry deeper when \<open>d\<close>.\<close>

definition swap_if ::
    "(('c, 's, 'b) stk, fault, unit) act \<Rightarrow> nat \<Rightarrow> bool \<Rightarrow> bool \<Rightarrow> ('c, 's, 'b, int) vm" where
  "swap_if push n c d = st_op (bnd pop_int (\<lambda>x.
     thn (if (x = 0) \<noteq> c
          then thn (run_while_list (\<lambda>_. push) [0..<n]) (if d then swap 0 n else ret ())
          else ret ())
         (push_raw (VInt x))))"

definition exec_zero_swap_if :: "bool \<Rightarrow> bool \<Rightarrow> ('c, 's, 'b, int) vm" where
  "exec_zero_swap_if c d = swap_if push_zero 1 c d"

definition exec_zero_swap_if2 :: "bool \<Rightarrow> bool \<Rightarrow> ('c, 's, 'b, int) vm" where
  "exec_zero_swap_if2 c d = swap_if push_zero 2 c d"

definition exec_null_swap_if :: "bool \<Rightarrow> bool \<Rightarrow> ('c, 's, 'b, int) vm" where
  "exec_null_swap_if c d = swap_if push_null 1 c d"

definition exec_null_swap_if2 :: "bool \<Rightarrow> bool \<Rightarrow> ('c, 's, 'b, int) vm" where
  "exec_null_swap_if2 c d = swap_if push_null 2 c d"

definition index_popped ::
    "nat \<Rightarrow> (('c, 's, 'b) sval \<Rightarrow> vm_error + ('c, 's, 'b) sval) \<Rightarrow> ('c, 's, 'b, int) vm" where
  "index_popped i f = st_op (bnd (pop_tuple_range 0 255) (\<lambda>tuple.
     case nth_opt tuple i of
       None \<Rightarrow> vm_fail (IntegerOutOfRange 0 (int (length tuple)) (int i))
     | Some v \<Rightarrow> bnd (lift_res VmErr (f v)) push_raw))"

definition exec_tuple_index2 :: "nat \<Rightarrow> nat \<Rightarrow> ('c, 's, 'b, int) vm" where
  "exec_tuple_index2 i j = index_popped i (\<lambda>v. index_stack_value_as_tuple v j)"

definition exec_tuple_index3 :: "nat \<Rightarrow> nat \<Rightarrow> nat \<Rightarrow> ('c, 's, 'b, int) vm" where
  "exec_tuple_index3 i j k = index_popped i (\<lambda>v. case index_stack_value_as_tuple v j of
     Inl e \<Rightarrow> Inl e | Inr v \<Rightarrow> index_stack_value_as_tuple v k)"

lemmas tuple_impl_defs = make_tuple_impl_def tuple_index_impl_def tuple_index_quiet_impl_def
  do_explode_tuple_def untuple_impl_def untuple_first_impl_def explode_tuple_impl_def
  tuple_set_index_impl_def tuple_set_index_quiet_impl_def swap_if_def index_popped_def

lemmas tupleops_defs = exec_push_null_def exec_is_null_def exec_mktuple_def exec_tuple_index_def
  exec_untuple_def exec_untuple_first_def exec_explode_tuple_def exec_tuple_set_index_def
  exec_tuple_quiet_index_def exec_tuple_quiet_set_index_def exec_mktuple_var_def
  exec_tuple_index_var_def exec_untuple_var_def exec_untuple_first_var_def
  exec_explode_tuple_var_def exec_tuple_set_index_var_def exec_tuple_quiet_index_var_def
  exec_tuple_quiet_set_index_var_def exec_tuple_length_def exec_tuple_length_quiet_def
  exec_is_tuple_def exec_tuple_push_def exec_zero_swap_if_def exec_zero_swap_if2_def
  exec_null_swap_if_def exec_null_swap_if2_def exec_tuple_index2_def exec_tuple_index3_def

section \<open>Behaviour\<close>

text \<open>The range check makes the \<open>expect\<close>s unreachable.\<close>

lemma pop_tuple_range_len: "pop_tuple_range lo hi s = (Inr t, s') \<Longrightarrow> lo \<le> length t \<and> length t \<le> hi"
  by (auto simp: pop_tuple_range_def bnd_eq_Inr_iff thn_eq_Inr_iff vm_ensure_def ensure_def
      split: if_splits)

lemma nonempty_popped:
  "bnd (pop_tuple_range 1 255) (\<lambda>t. if t = [] then fail e else f t) = bnd (pop_tuple_range 1 255) f"
  "bnd (on_stack (pop_tuple_range 1 255)) (\<lambda>t. if t = [] then fail e' else h t) =
     bnd (on_stack (pop_tuple_range 1 255)) h"
  by (rule ext, auto simp: bnd_def on_stack_eq split: prod.splits sum.splits
      dest: pop_tuple_range_len)+

lemma pop_tuple_range_tuple [simp]:
  "lo \<le> length t \<Longrightarrow> length t \<le> hi \<Longrightarrow> pop_tuple_range lo hi (xs @ [VTuple t]) = (Inr t, xs)"
  by (simp add: pop_tuple_range_def)

lemma charge_tuple_ok:
  assumes "gas_wf (gas st)" and "int n \<le> gas_remaining (gas st)"
  shows "charge_tuple n st =
     (Inr (), st\<lparr>gas := (gas st)\<lparr>gas_remaining := gas_remaining (gas st) - int n\<rparr>\<rparr>)"
proof -
  have "int n \<le> i64_max" using assms by (auto simp: gas_wf_def)
  then show ?thesis using assms
    by (auto simp: charge_tuple_def try_consume_tuple_gas_def TUPLE_ENTRY_GAS_PRICE_def on_gas_eq
        try_consume_eq Let_def gas_wf_def machine_bounds)
qed

lemma push_all:
  "length xs + length ys \<le> MAX_DEPTH \<Longrightarrow> run_while_list push_raw ys xs = (Inr (), xs @ ys)"
proof (induction ys arbitrary: xs)
  case (Cons y ys)
  then show ?case using Cons.IH[of "xs @ [y]"] by (simp add: depth_def)
qed simp

lemma exec_mktuple_ok:
  assumes "stack st = xs @ ys" and "length xs < MAX_DEPTH"
    and "gas_wf (gas st)" and "int (length ys) \<le> gas_remaining (gas st)"
  shows "exec_mktuple (length ys) st = (Inr 0, st\<lparr>stack := xs @ [VTuple ys],
     gas := (gas st)\<lparr>gas_remaining := gas_remaining (gas st) - int (length ys)\<rparr>\<rparr>)"
  using assms
  by (simp add: exec_mktuple_def make_tuple_impl_def depth_def charge_tuple_ok)

lemma exec_untuple_ok:
  assumes "stack st = xs @ [VTuple ys]" and "length xs + length ys \<le> MAX_DEPTH"
    and "gas_wf (gas st)" and "int (length ys) \<le> gas_remaining (gas st)"
  shows "exec_untuple (length ys) st = (Inr 0, st\<lparr>stack := xs @ ys,
     gas := (gas st)\<lparr>gas_remaining := gas_remaining (gas st) - int (length ys)\<rparr>\<rparr>)"
  using assms
  by (simp add: exec_untuple_def untuple_impl_def do_explode_tuple_def push_all charge_tuple_ok)

lemma exec_tuple_set_index_ok:
  assumes "stack st = xs @ [VTuple t, v]" and "i < length t" and "length t \<le> 255"
    and "length xs < MAX_DEPTH" and "gas_wf (gas st)" and "int (length t) \<le> gas_remaining (gas st)"
  shows "exec_tuple_set_index i st = (Inr 0, st\<lparr>stack := xs @ [VTuple (t[i := v])],
     gas := (gas st)\<lparr>gas_remaining := gas_remaining (gas st) - int (length t)\<rparr>\<rparr>)"
proof -
  have "pop (xs @ [VTuple t, v]) = (Inr v, xs @ [VTuple t])"
    using pop_simps(2)[of "xs @ [VTuple t]" v] by simp
  then show ?thesis using assms
    by (simp add: exec_tuple_set_index_def tuple_set_index_impl_def charge_tuple_ok depth_def)
qed

lemma exec_tuple_index_ok:
  assumes "stack st = xs @ [VTuple t]" and "length t \<le> 255" and "length xs < MAX_DEPTH"
  shows "exec_tuple_index i st =
     (if i < length t then (Inr 0, st\<lparr>stack := xs @ [t ! i]\<rparr>)
      else (Inl (VmErr (IntegerOutOfRange 0 (int (length t)) (int i))), st\<lparr>stack := xs\<rparr>))"
  using assms
  by (simp add: exec_tuple_index_def tuple_index_impl_def depth_def st_op_eq)

text \<open>With the quiet operations an optional tuple is an array padded with nulls.\<close>

definition quiet_nth :: "('c, 's, 'b) sval list option \<Rightarrow> nat \<Rightarrow> ('c, 's, 'b) sval" where
  "quiet_nth tuple j = (case Option.bind tuple (\<lambda>t. nth_opt t j) of None \<Rightarrow> VNull | Some v \<Rightarrow> v)"

lemma is_null_iff: "is_null v \<longleftrightarrow> v = VNull"
  by (cases v) (simp_all add: is_null_def)

lemma set_index_quiet_nth:
  assumes "set_index_quiet tuple i x = (tuple', n)"
  shows "quiet_nth tuple' j = (if j = i then x else quiet_nth tuple j)"
proof (cases tuple)
  case None
  then show ?thesis using assms
    by (auto simp: set_index_quiet_def quiet_nth_def nth_opt_def is_null_iff nth_list_update
        simp del: replicate.simps split: if_splits)
next
  case (Some t)
  then show ?thesis using assms
    by (auto simp: set_index_quiet_def quiet_nth_def nth_opt_def is_null_iff nth_list_update
        nth_append simp del: replicate.simps split: if_splits)
qed

lemma set_index_quiet_len:
  assumes "set_index_quiet tuple i x = (tuple', n)" and "i < 255"
    and "\<And>t. tuple = Some t \<Longrightarrow> length t \<le> 255"
  shows "n \<le> 255 \<and> (\<forall>t. tuple' = Some t \<longrightarrow> length t \<le> 255)"
  using assms
  by (auto simp: set_index_quiet_def simp del: replicate.simps list_update.simps
      split: option.splits if_splits)

section \<open>The invariant\<close>

lemma safe_charge_tuple [safe_rules]: "safe (charge_tuple n)"
  unfolding charge_tuple_def try_consume_tuple_gas_def
  by (intro safe_try_consume) (simp add: TUPLE_ENTRY_GAS_PRICE_def)

lemma safe_tuple_impls [safe_rules]:
  "safe (make_tuple_impl n)" "safe (tuple_index_impl n)" "safe (tuple_index_quiet_impl n)"
  "safe (do_explode_tuple t n)" "safe (untuple_impl n)" "safe (untuple_first_impl n)"
  "safe (explode_tuple_impl n)" "safe (tuple_set_index_impl n)"
  "safe (tuple_set_index_quiet_impl n)" "safe (index_popped n f)"
  unfolding tuple_impl_defs by (intro safe_rules calm_rules)+

lemma safe_swap_if [safe_rules]: "calm p \<Longrightarrow> safe (swap_if p n c d)"
  unfolding swap_if_def by (intro safe_rules calm_rules)

lemma tupleops_safe:
  "safe exec_push_null" "safe exec_is_null" "safe (exec_mktuple i)" "safe (exec_tuple_index i)"
  "safe (exec_untuple i)" "safe (exec_untuple_first i)" "safe (exec_explode_tuple i)"
  "safe (exec_tuple_set_index i)" "safe (exec_tuple_quiet_index i)"
  "safe (exec_tuple_quiet_set_index i)" "safe exec_mktuple_var" "safe exec_tuple_index_var"
  "safe exec_untuple_var" "safe exec_untuple_first_var" "safe exec_explode_tuple_var"
  "safe exec_tuple_set_index_var" "safe exec_tuple_quiet_index_var"
  "safe exec_tuple_quiet_set_index_var" "safe exec_tuple_length" "safe exec_tuple_length_quiet"
  "safe exec_is_tuple" "safe exec_tuple_push" "safe (exec_zero_swap_if c d)"
  "safe (exec_zero_swap_if2 c d)" "safe (exec_null_swap_if c d)" "safe (exec_null_swap_if2 c d)"
  "safe (exec_tuple_index2 i j)" "safe (exec_tuple_index3 i j k)"
  unfolding tupleops_defs by (intro safe_rules calm_rules)+

lemma tupleops_safe2: "safe exec_tuple_last" "safe exec_tuple_pop"
  unfolding exec_tuple_last_def exec_tuple_pop_def nonempty_popped
  by (intro safe_rules calm_rules)+

end
