(* ===== verification/GasOps.thy ===== *)
theory GasOps
  imports Safety "HOL-Library.Signed_Division"
begin

text \<open>\<open>vm/src/instr/gasops.rs\<close>: gas limits, gas prices and the explicit commit.\<close>

section \<open>Handlers\<close>

definition exec_set_gas :: "int \<Rightarrow> ('c, 's, 'b, int) vm" where
  "exec_set_gas limit =
     bnd (gets (consumed \<circ> gas)) (\<lambda>c.
     thn (vm_ensure (limit \<ge> c) OutOfGas)
    (thn (modify (\<lambda>st. st\<lparr>gas := set_limit limit (gas st)\<rparr>))
    (bnd (gets modifiers) (\<lambda>m. if stop_on_accept m then vm_jump (QuitCont 0) else ret 0))))"

text \<open>\<open>x.magnitude().to_i64()\<close>\<close>

definition magnitude_i64 :: "int \<Rightarrow> int option" where
  "magnitude_i64 x = (if \<bar>x\<bar> \<le> i64_max then Some \<bar>x\<bar> else None)"

definition magnitude_or_max :: "int \<Rightarrow> int" where
  "magnitude_or_max x = (case magnitude_i64 x of Some v \<Rightarrow> v | None \<Rightarrow> i64_max)"

text \<open>\<open>x <<= 16; x /= price\<close>; the price is a \<open>NonZeroU64\<close>.\<close>

definition bought_gas :: "int \<Rightarrow> int \<Rightarrow> int" where
  "bought_gas price x = push_bit 16 x sdiv price"

definition exec_accept :: "('c, 's, 'b, int) vm" where
  "exec_accept = exec_set_gas i64_max"

definition exec_set_gas_limit :: "('c, 's, 'b, int) vm" where
  "exec_set_gas_limit =
     bnd (on_stack pop_int) (\<lambda>x. exec_set_gas (if 0 < x then magnitude_or_max x else 0))"

definition exec_buy_gas :: "('c, 's, 'b, int) vm" where
  "exec_buy_gas =
     bnd (on_stack pop_int) (\<lambda>x.
     bnd (gets (gas_price \<circ> gas)) (\<lambda>price.
     exec_set_gas (if 0 < x then magnitude_or_max (bought_gas price x) else 0)))"

definition exec_gram_to_gas :: "('c, 's, 'b, int) vm" where
  "exec_gram_to_gas =
     bnd (gets (gas_price \<circ> gas)) (\<lambda>price.
     st_op (bnd pop_int (\<lambda>x.
       if 0 < x then
         (case magnitude_i64 (bought_gas price x) of
            Some _ \<Rightarrow> push_raw (VInt (bought_gas price x))
          | None \<Rightarrow> push_int i64_max)
       else push_zero)))"

definition exec_gas_to_gram :: "('c, 's) api \<Rightarrow> ('c, 's, 'b, int) vm" where
  "exec_gas_to_gram A =
     bnd (gets (gas_price \<circ> gas)) (\<lambda>price.
     st_op (bnd pop_int (\<lambda>g. push_raw_int A (drop_bit 16 (g * price)) False)))"

definition exec_gas_consumed :: "('c, 's, 'b, int) vm" where
  "exec_gas_consumed =
     bnd (gets version) (\<lambda>v.
     thn (lift_res VmErr (require_ton 4 v))
    (bnd (gets (consumed \<circ> gas)) (\<lambda>c. st_op (push_int c))))"

definition exec_commit :: "('c, 's) api \<Rightarrow> ('c, 's, 'b, int) vm" where
  "exec_commit A = thn (force_commit A) (ret 0)"

lemmas gasops_defs = exec_accept_def exec_set_gas_limit_def exec_buy_gas_def exec_gram_to_gas_def
  exec_gas_to_gram_def exec_gas_consumed_def exec_commit_def

section \<open>Behaviour\<close>

text \<open>
  A new limit never changes what has been spent, is capped by the maximum of the transaction, and
  a limit below the gas already consumed ends the run.
\<close>

lemma exec_set_gas_cases:
  assumes "gas_wf (gas st)" and "spent (gas st) \<le> i64_max" and "0 \<le> limit"
    and "\<not> stop_on_accept (modifiers st)"
  shows "limit < consumed (gas st) \<Longrightarrow> exec_set_gas limit st = (Inl (VmErr OutOfGas), st)"
    and "consumed (gas st) \<le> limit \<Longrightarrow>
      \<exists>g. exec_set_gas limit st = (Inr 0, st\<lparr>gas := g\<rparr>) \<and> gas_wf g \<and> spent g = spent (gas st) \<and>
          gas_remaining g = min limit (gas_max g) - spent g"
proof -
  show "limit < consumed (gas st) \<Longrightarrow> exec_set_gas limit st = (Inl (VmErr OutOfGas), st)"
    by (simp add: exec_set_gas_def)
  note S = set_limit_spent[OF assms(1,2,3)]
  have "gas_remaining (set_limit limit (gas st)) =
      min limit (gas_max (set_limit limit (gas st))) - spent (set_limit limit (gas st))"
    using S by (simp add: spent_def)
  then show "consumed (gas st) \<le> limit \<Longrightarrow>
      \<exists>g. exec_set_gas limit st = (Inr 0, st\<lparr>gas := g\<rparr>) \<and> gas_wf g \<and> spent g = spent (gas st) \<and>
          gas_remaining g = min limit (gas_max g) - spent g"
    using S assms(4) by (intro exI[of _ "set_limit limit (gas st)"]) (simp add: exec_set_gas_def)
qed

lemma magnitude_or_max_bounds: "0 \<le> magnitude_or_max x" "magnitude_or_max x \<le> i64_max"
  by (auto simp: magnitude_or_max_def magnitude_i64_def machine_bounds)

section \<open>The invariant\<close>

lemma good_set_limit:
  assumes "good f st" and "consumed (gas st) \<le> limit" and "0 \<le> limit"
  shows "good f (st\<lparr>gas := set_limit limit (gas st)\<rparr>)"
  using assms set_limit_live[of f "gas st" limit] set_limit_chained[of f "gas st" "parent_meters st" limit]
  by (auto simp: good_def meter_inv_def parent_meters_def parents_ok_def)

lemma safe_exec_set_gas [safe_rules]:
  assumes "0 \<le> limit"
  shows "safe (exec_set_gas limit :: ('c, 's, 'b, int) vm)"
proof (rule upholdsI)
  let ?m = "bnd (gets modifiers) (\<lambda>m. if stop_on_accept m then vm_jump (QuitCont 0) else ret 0)
    :: ('c, 's, 'b, int) vm"
  have m: "safe ?m" by (intro safe_rules)
  fix f and st :: "('c, 's, 'b) vm_state" and e t
  assume g: "good f st" and run: "exec_set_gas limit st = (Inl e, t)"
  show "bad f e t"
  proof (cases "consumed (gas st) \<le> limit")
    case True
    then have "?m (st\<lparr>gas := set_limit limit (gas st)\<rparr>) = (Inl e, t)"
      using run by (simp add: exec_set_gas_def)
    then show ?thesis using upholds_InlD[OF m good_set_limit[OF g True assms]] by blast
  next
    case False
    then show ?thesis using run g by (auto simp: exec_set_gas_def bad_def good_halted)
  qed
next
  let ?m = "bnd (gets modifiers) (\<lambda>m. if stop_on_accept m then vm_jump (QuitCont 0) else ret 0)
    :: ('c, 's, 'b, int) vm"
  have m: "safe ?m" by (intro safe_rules)
  fix f and st :: "('c, 's, 'b) vm_state" and x t
  assume g: "good f st" and run: "exec_set_gas limit st = (Inr x, t)"
  then have c: "consumed (gas st) \<le> limit" by (cases "consumed (gas st) \<le> limit") (simp_all add: exec_set_gas_def)
  then have "?m (st\<lparr>gas := set_limit limit (gas st)\<rparr>) = (Inr x, t)"
    using run by (simp add: exec_set_gas_def)
  then show "good f t" using upholds_InrD[OF m good_set_limit[OF g c assms]] by blast
qed

lemma gasops_safe:
  "safe exec_accept" "safe exec_set_gas_limit" "safe exec_buy_gas" "safe exec_gram_to_gas"
  "safe (exec_gas_to_gram A)" "safe exec_gas_consumed" "safe (exec_commit A)"
  unfolding gasops_defs
  by ((intro safe_rules calm_rules; simp add: magnitude_or_max_bounds machine_bounds)+)

end
