(* ===== verification/InstrTables.thy ===== *)
theory InstrTables
  imports Pattern Run ArithOps CmpOps LogicOps CellOps ContOps StackOps TupleOps GasOps
begin

text \<open>
  The instruction tables of the modelled modules (the \<open>#[op]\<close>, \<open>#[op_ext]\<close> and
  \<open>#[op_ext_range]\<close> attributes of \<open>vm/src/instr/*.rs\<close>, in the order of the source). An entry names
  the pattern and passes the handler its operands: \<open>args\<close> is the operand word, \<open>f\<close> reads a field
  of the pattern. Every handler keeps the invariant of the VM, and the opcode ranges of the
  tables are computed from the patterns and do not meet.
\<close>

section \<open>Instruction tables\<close>

definition arithops_instrs :: "('c, 's) api \<Rightarrow> ('c, 's, 'b) instr list" where
  "arithops_instrs A = [
     Op ''7x'' (\<lambda>args _. exec_push_tinyint4 (int (take_bit 4 (args + 5)) - 5)),
     Op ''80xx'' (\<lambda>args _. exec_push_tinyint4 (signed_take_bit 7 (int args))),
     Op ''81xxxx'' (\<lambda>args _. exec_push_tinyint4 (signed_take_bit 15 (int args))),
     OpExtRange (push_bit 5 0x82) (push_bit 5 0x82 + 31) 13 (exec_push_int A),
     Op ''83xx @ ..83ff'' (\<lambda>args _. exec_push_pow2 (take_bit 8 args + 1)),
     Op ''83ff'' (\<lambda>_ _. exec_push_nan),
     Op ''84xx'' (\<lambda>args _. exec_push_pow2dec (take_bit 8 args + 1)),
     Op ''85xx'' (\<lambda>args _. exec_push_negpow2 (take_bit 8 args + 1)),
     Op ''a0'' (\<lambda>_ _. exec_add A False),
     Op ''b7a0'' (\<lambda>_ _. exec_add A True),
     Op ''a1'' (\<lambda>_ _. exec_sub A False),
     Op ''b7a1'' (\<lambda>_ _. exec_sub A True),
     Op ''a2'' (\<lambda>_ _. exec_subr A False),
     Op ''b7a2'' (\<lambda>_ _. exec_subr A True),
     Op ''a3'' (\<lambda>_ _. exec_negate A False),
     Op ''b7a3'' (\<lambda>_ _. exec_negate A True),
     Op ''a4'' (\<lambda>_ _. exec_inc A False),
     Op ''b7a4'' (\<lambda>_ _. exec_inc A True),
     Op ''a5'' (\<lambda>_ _. exec_dec A False),
     Op ''b7a5'' (\<lambda>_ _. exec_dec A True),
     Op ''a6yy'' (\<lambda>args _. exec_addint A (signed_take_bit 7 (int args)) False),
     Op ''b7a6yy'' (\<lambda>args _. exec_addint A (signed_take_bit 7 (int args)) True),
     Op ''a7yy'' (\<lambda>args _. exec_mulint A (signed_take_bit 7 (int args)) False),
     Op ''b7a7yy'' (\<lambda>args _. exec_mulint A (signed_take_bit 7 (int args)) True),
     Op ''a8'' (\<lambda>_ _. exec_mul A False),
     Op ''b7a8'' (\<lambda>_ _. exec_mul A True),
     Op ''a90m'' (\<lambda>_ f. exec_divmod A (f CHR ''m'') False),
     Op ''b7a90m'' (\<lambda>_ f. exec_divmod A (f CHR ''m'') True),
     Op ''a92m'' (\<lambda>_ f. exec_shrmod A (f CHR ''m'') False False),
     Op ''a93mmm'' (\<lambda>_ f. exec_shrmod A (f CHR ''m'') True False),
     Op ''b7a92m'' (\<lambda>_ f. exec_shrmod A (f CHR ''m'') False True),
     Op ''a98m'' (\<lambda>_ f. exec_muldivmod A (f CHR ''m'') False),
     Op ''b7a98m'' (\<lambda>_ f. exec_muldivmod A (f CHR ''m'') True),
     Op ''a9am'' (\<lambda>_ f. exec_mulshrmod A (f CHR ''m'') False False),
     Op ''a9bmmm'' (\<lambda>_ f. exec_mulshrmod A (f CHR ''m'') True False),
     Op ''b7a9am'' (\<lambda>_ f. exec_mulshrmod A (f CHR ''m'') False True),
     Op ''a9cm'' (\<lambda>_ f. exec_shldivmod A (f CHR ''m'') False False),
     Op ''a9dmmm'' (\<lambda>_ f. exec_shldivmod A (f CHR ''m'') True False),
     Op ''b7a9cm'' (\<lambda>_ f. exec_shldivmod A (f CHR ''m'') False True),
     Op ''b608'' (\<lambda>_ _. exec_minmax True False False),
     Op ''b609'' (\<lambda>_ _. exec_minmax False True False),
     Op ''b60a'' (\<lambda>_ _. exec_minmax True True False),
     Op ''b7b608'' (\<lambda>_ _. exec_minmax True False True),
     Op ''b7b609'' (\<lambda>_ _. exec_minmax False True True),
     Op ''b7b60a'' (\<lambda>_ _. exec_minmax True True True),
     Op ''b60b'' (\<lambda>_ _. exec_abs A False),
     Op ''b7b60b'' (\<lambda>_ _. exec_abs A True)]"

definition cmpops_instrs :: "('c, 's, 'b) instr list" where
  "cmpops_instrs = [
     Op ''b8'' (\<lambda>_ _. exec_sgn False),
     Op ''b7b8'' (\<lambda>_ _. exec_sgn True),
     Op ''b9'' (\<lambda>_ _. exec_cmp LESS_MODE False),
     Op ''ba'' (\<lambda>_ _. exec_cmp EQUAL_MODE False),
     Op ''bb'' (\<lambda>_ _. exec_cmp LEQ_MODE False),
     Op ''bc'' (\<lambda>_ _. exec_cmp GREATER_MODE False),
     Op ''bd'' (\<lambda>_ _. exec_cmp NEQ_MODE False),
     Op ''be'' (\<lambda>_ _. exec_cmp GEQ_MODE False),
     Op ''bf'' (\<lambda>_ _. exec_cmp CMP_MODE False),
     Op ''b7b9'' (\<lambda>_ _. exec_cmp LESS_MODE True),
     Op ''b7ba'' (\<lambda>_ _. exec_cmp EQUAL_MODE True),
     Op ''b7bb'' (\<lambda>_ _. exec_cmp LEQ_MODE True),
     Op ''b7bc'' (\<lambda>_ _. exec_cmp GREATER_MODE True),
     Op ''b7bd'' (\<lambda>_ _. exec_cmp NEQ_MODE True),
     Op ''b7be'' (\<lambda>_ _. exec_cmp GEQ_MODE True),
     Op ''b7bf'' (\<lambda>_ _. exec_cmp CMP_MODE True),
     Op ''c0yy'' (\<lambda>args _. exec_cmp_int (signed_take_bit 7 (int args)) EQUAL_MODE False),
     Op ''c1yy'' (\<lambda>args _. exec_cmp_int (signed_take_bit 7 (int args)) LESS_MODE False),
     Op ''c2yy'' (\<lambda>args _. exec_cmp_int (signed_take_bit 7 (int args)) GREATER_MODE False),
     Op ''c3yy'' (\<lambda>args _. exec_cmp_int (signed_take_bit 7 (int args)) NEQ_MODE False),
     Op ''b7c0yy'' (\<lambda>args _. exec_cmp_int (signed_take_bit 7 (int args)) EQUAL_MODE True),
     Op ''b7c1yy'' (\<lambda>args _. exec_cmp_int (signed_take_bit 7 (int args)) LESS_MODE True),
     Op ''b7c2yy'' (\<lambda>args _. exec_cmp_int (signed_take_bit 7 (int args)) GREATER_MODE True),
     Op ''b7c3yy'' (\<lambda>args _. exec_cmp_int (signed_take_bit 7 (int args)) NEQ_MODE True),
     Op ''c4'' (\<lambda>_ _. exec_is_nan),
     Op ''c5'' (\<lambda>_ _. exec_chk_nan)]"

definition logicops_instrs :: "('c, 's) api \<Rightarrow> ('c, 's, 'b) instr list" where
  "logicops_instrs A = [
     Op ''aayy'' (\<lambda>args _. exec_lshift_tinyint8 A (take_bit 8 args + 1) False),
     Op ''b7aayy'' (\<lambda>args _. exec_lshift_tinyint8 A (take_bit 8 args + 1) True),
     Op ''abyy'' (\<lambda>args _. exec_rshift_tinyint8 A (take_bit 8 args + 1) False),
     Op ''b7abyy'' (\<lambda>args _. exec_rshift_tinyint8 A (take_bit 8 args + 1) True),
     Op ''ac'' (\<lambda>_ _. exec_lshift A False),
     Op ''b7ac'' (\<lambda>_ _. exec_lshift A True),
     Op ''ad'' (\<lambda>_ _. exec_rshift A False),
     Op ''b7ad'' (\<lambda>_ _. exec_rshift A True),
     Op ''ae'' (\<lambda>_ _. exec_pow2 A False),
     Op ''b7ae'' (\<lambda>_ _. exec_pow2 A True),
     Op ''b0'' (\<lambda>_ _. exec_and A False),
     Op ''b7b0'' (\<lambda>_ _. exec_and A True),
     Op ''b1'' (\<lambda>_ _. exec_or A False),
     Op ''b7b1'' (\<lambda>_ _. exec_or A True),
     Op ''b2'' (\<lambda>_ _. exec_xor A False),
     Op ''b7b2'' (\<lambda>_ _. exec_xor A True),
     Op ''b3'' (\<lambda>_ _. exec_not A False),
     Op ''b7b3'' (\<lambda>_ _. exec_not A True),
     Op ''b4yy'' (\<lambda>args _. exec_fits_tinyint8 A (take_bit 8 args + 1) True False),
     Op ''b7b4yy'' (\<lambda>args _. exec_fits_tinyint8 A (take_bit 8 args + 1) True True),
     Op ''b5yy'' (\<lambda>args _. exec_fits_tinyint8 A (take_bit 8 args + 1) False False),
     Op ''b7b5yy'' (\<lambda>args _. exec_fits_tinyint8 A (take_bit 8 args + 1) False True),
     Op ''b600'' (\<lambda>_ _. exec_fits A True False),
     Op ''b7b600'' (\<lambda>_ _. exec_fits A True True),
     Op ''b601'' (\<lambda>_ _. exec_fits A False False),
     Op ''b7b601'' (\<lambda>_ _. exec_fits A False True),
     Op ''b602'' (\<lambda>_ _. exec_bitsize A True False),
     Op ''b7b602'' (\<lambda>_ _. exec_bitsize A True True),
     Op ''b603'' (\<lambda>_ _. exec_bitsize A False False),
     Op ''b7b603'' (\<lambda>_ _. exec_bitsize A False True)]"

definition cellops_instrs :: "('c, 's) api \<Rightarrow> ('c, 's, 'b) cell_lib \<Rightarrow> ('c, 's, 'b) instr list" where
  "cellops_instrs A L = [
     OpExt 0x88 8 0 (exec_push_ref A),
     OpExt 0x89 8 0 (exec_push_ref_slice A),
     OpExt 0x8a 8 0 (exec_push_ref_cont A),
     OpExt 0x8b 8 4 (exec_push_slice A L),
     OpExt 0x8c 8 7 (exec_push_slice_r A L),
     OpExtRange (push_bit 10 0x8d) (push_bit 7 (push_bit 3 0x8d + 5)) 18 (exec_push_slice_r2 A L),
     OpExt (drop_bit 1 0x8e) 7 9 (exec_push_cont A L),
     OpExt 0x9 4 4 (exec_push_cont_simple A L),
     Op ''c700'' (\<lambda>_ _. exec_slice_bool_unary_op A L IsEmpty),
     Op ''c701'' (\<lambda>_ _. exec_slice_bool_unary_op A L NoBits),
     Op ''c702'' (\<lambda>_ _. exec_slice_bool_unary_op A L NoRefs),
     Op ''c703'' (\<lambda>_ _. exec_slice_bool_unary_op A L FirstBit),
     Op ''c704'' (\<lambda>_ _. exec_slice_lex_cmp L),
     Op ''c705'' (\<lambda>_ _. exec_slice_bin_op A L DataEq),
     Op ''c708'' (\<lambda>_ _. exec_slice_bin_op A L IsPrefix),
     Op ''c709'' (\<lambda>_ _. exec_slice_bin_op A L IsPrefixRev),
     Op ''c70a'' (\<lambda>_ _. exec_slice_bin_op A L IsProperPrefix),
     Op ''c70b'' (\<lambda>_ _. exec_slice_bin_op A L IsProperPrefixRev),
     Op ''c70c'' (\<lambda>_ _. exec_slice_bin_op A L IsSuffix),
     Op ''c70d'' (\<lambda>_ _. exec_slice_bin_op A L IsSuffixRev),
     Op ''c70e'' (\<lambda>_ _. exec_slice_bin_op A L IsProperSuffix),
     Op ''c70f'' (\<lambda>_ _. exec_slice_bin_op A L IsProperSuffixRev),
     Op ''c710'' (\<lambda>_ _. exec_slice_int_unary_op L Leading0),
     Op ''c711'' (\<lambda>_ _. exec_slice_int_unary_op L Leading1),
     Op ''c712'' (\<lambda>_ _. exec_slice_int_unary_op L Trailing0),
     Op ''c713'' (\<lambda>_ _. exec_slice_int_unary_op L Trailing1),
     Op ''c8'' (\<lambda>_ _. exec_new_builder L),
     Op ''c9'' (\<lambda>_ _. exec_builder_to_cell L),
     Op ''caxx'' (\<lambda>args _. exec_store_int A L (take_bit 8 args + 1) True),
     Op ''cbxx'' (\<lambda>args _. exec_store_int A L (take_bit 8 args + 1) False),
     Op ''cc'' (\<lambda>_ _. exec_store_ref L False),
     Op ''cf10'' (\<lambda>_ _. exec_store_ref L False),
     Op ''cf18'' (\<lambda>_ _. exec_store_ref L True),
     Op ''cd'' (\<lambda>_ _. exec_store_builder_as_ref_rev L False),
     Op ''cf15'' (\<lambda>_ _. exec_store_builder_as_ref_rev L False),
     Op ''cf1d'' (\<lambda>_ _. exec_store_builder_as_ref_rev L True),
     Op ''ce'' (\<lambda>_ _. exec_store_slice A L False),
     Op ''cf12'' (\<lambda>_ _. exec_store_slice A L False),
     Op ''cf1a'' (\<lambda>_ _. exec_store_slice A L True),
     Op ''cf0$0sss'' (\<lambda>args _. exec_store_int_var A L args),
     Op ''cf0$1sss#nn'' (\<lambda>args _. exec_store_int_fixed A L (drop_bit 8 args) (take_bit 8 args + 1)),
     Op ''cf11'' (\<lambda>_ _. exec_store_builder_as_ref L False),
     Op ''cf19'' (\<lambda>_ _. exec_store_builder_as_ref L True),
     Op ''cf13'' (\<lambda>_ _. exec_store_builder L False),
     Op ''cf1b'' (\<lambda>_ _. exec_store_builder L True),
     Op ''cf14'' (\<lambda>_ _. exec_store_ref_rev L False),
     Op ''cf1c'' (\<lambda>_ _. exec_store_ref_rev L True),
     Op ''cf16'' (\<lambda>_ _. exec_store_slice_rev A L False),
     Op ''cf1e'' (\<lambda>_ _. exec_store_slice_rev A L True),
     Op ''cf17'' (\<lambda>_ _. exec_store_builder_rev L False),
     Op ''cf1f'' (\<lambda>_ _. exec_store_builder_rev L True),
     OpExtRange 0xcf20 0xcf22 16 (exec_store_const_ref A L),
     Op ''cf22$ss'' (\<lambda>args _. exec_store_le_int L args),
     Op ''cf23'' (\<lambda>_ _. exec_builder_to_special_cell L),
     Op ''cf30'' (\<lambda>_ _. exec_builder_depth A L),
     Op ''cf31'' (\<lambda>_ _. exec_builder_bits L),
     Op ''cf32'' (\<lambda>_ _. exec_builder_refs L),
     Op ''cf33'' (\<lambda>_ _. exec_builder_bits_refs L),
     Op ''cf35'' (\<lambda>_ _. exec_builder_rem_bits L),
     Op ''cf36'' (\<lambda>_ _. exec_builder_rem_refs L),
     Op ''cf37'' (\<lambda>_ _. exec_builder_rem_bits_refs L),
     Op ''cf38xx'' (\<lambda>args _. exec_builder_chk_bits L (take_bit 8 args + 1) False),
     Op ''cf3cxx'' (\<lambda>args _. exec_builder_chk_bits L (take_bit 8 args + 1) True),
     Op ''cf39'' (\<lambda>_ _. exec_builder_chk_bits_refs L Bits False),
     Op ''cf3a'' (\<lambda>_ _. exec_builder_chk_bits_refs L Refs False),
     Op ''cf3b'' (\<lambda>_ _. exec_builder_chk_bits_refs L BitRefs False),
     Op ''cf3d'' (\<lambda>_ _. exec_builder_chk_bits_refs L Bits True),
     Op ''cf3e'' (\<lambda>_ _. exec_builder_chk_bits_refs L Refs True),
     Op ''cf3f'' (\<lambda>_ _. exec_builder_chk_bits_refs L BitRefs True),
     Op ''cf40'' (\<lambda>_ _. exec_store_same L (Some False)),
     Op ''cf41'' (\<lambda>_ _. exec_store_same L (Some True)),
     Op ''cf42'' (\<lambda>_ _. exec_store_same L None),
     OpExt (drop_bit 7 0xcf80) 9 5 (exec_store_const_slice A L),
     Op ''d0'' (\<lambda>_ _. exec_cell_to_slice A),
     Op ''d1'' (\<lambda>_ _. exec_slice_chk_empty A),
     Op ''d2xx'' (\<lambda>args _. exec_load_int_fixed A (take_bit 8 args + 1) True),
     Op ''d3xx'' (\<lambda>args _. exec_load_int_fixed A (take_bit 8 args + 1) False),
     Op ''d4'' (\<lambda>_ _. exec_load_ref A L),
     Op ''d5'' (\<lambda>_ _. exec_load_ref_rev_to_slice A L),
     Op ''d6xx'' (\<lambda>args _. exec_load_slice_fixed A L (take_bit 8 args + 1)),
     Op ''d70$0sss'' (\<lambda>args _. exec_load_int_var A args),
     Op ''d70$1sss#nn'' (\<lambda>args _. exec_load_int_fixed2 A (drop_bit 8 args) (take_bit 8 args + 1)),
     Op ''d71$0xxx'' (\<lambda>args _. exec_preload_uint_fixed_0e A L (push_bit 5 (take_bit 3 args + 1))),
     Op ''d71$10ss'' (\<lambda>args _. exec_load_slice A L args),
     Op ''d71$11ss#nn'' (\<lambda>args _. exec_load_slice_fixed2 A L (drop_bit 8 args) (take_bit 8 args + 1)),
     Op ''d720'' (\<lambda>_ _. exec_slice_range_op A L CutFirst),
     Op ''d721'' (\<lambda>_ _. exec_slice_range_op A L SkipFirst),
     Op ''d722'' (\<lambda>_ _. exec_slice_range_op A L CutLast),
     Op ''d723'' (\<lambda>_ _. exec_slice_range_op A L SkipLast),
     Op ''d724'' (\<lambda>_ _. exec_slice_substr A L),
     Op ''d726'' (\<lambda>_ _. exec_slice_begins_with L False),
     Op ''d727'' (\<lambda>_ _. exec_slice_begins_with L True),
     OpExt (drop_bit 3 0xd728) 13 8 (exec_slice_begins_with_const A L),
     Op ''d730'' (\<lambda>_ _. exec_slice_full_range_op A L CutFirst),
     Op ''d731'' (\<lambda>_ _. exec_slice_full_range_op A L SkipFirst),
     Op ''d732'' (\<lambda>_ _. exec_slice_full_range_op A L CutLast),
     Op ''d733'' (\<lambda>_ _. exec_slice_full_range_op A L SkipLast),
     Op ''d734'' (\<lambda>_ _. exec_subslice A L),
     Op ''d736'' (\<lambda>_ _. exec_split A L False),
     Op ''d737'' (\<lambda>_ _. exec_split A L True),
     Op ''d739'' (\<lambda>_ _. exec_cell_to_slice_maybe_special A L),
     Op ''d73a'' (\<lambda>_ _. exec_load_special_cell A L False),
     Op ''d73b'' (\<lambda>_ _. exec_load_special_cell A L True),
     Op ''d741'' (\<lambda>_ _. exec_check_slice A Bits False),
     Op ''d742'' (\<lambda>_ _. exec_check_slice A Refs False),
     Op ''d743'' (\<lambda>_ _. exec_check_slice A BitRefs False),
     Op ''d745'' (\<lambda>_ _. exec_check_slice A Bits True),
     Op ''d746'' (\<lambda>_ _. exec_check_slice A Refs True),
     Op ''d747'' (\<lambda>_ _. exec_check_slice A BitRefs True),
     Op ''d748'' (\<lambda>_ _. exec_preload_ref A),
     Op ''d749'' (\<lambda>_ _. exec_slice_bits_refs A Bits),
     Op ''d74a'' (\<lambda>_ _. exec_slice_bits_refs A Refs),
     Op ''d74b'' (\<lambda>_ _. exec_slice_bits_refs A BitRefs),
     Op ''d74$11xx'' (\<lambda>_ f. exec_preload_ref_fixed A (f CHR ''x'')),
     Op ''d75s'' (\<lambda>args _. exec_load_le_int A L args),
     Op ''d760'' (\<lambda>_ _. exec_load_same A L (Some False)),
     Op ''d761'' (\<lambda>_ _. exec_load_same A L (Some True)),
     Op ''d762'' (\<lambda>_ _. exec_load_same A L None),
     Op ''d764'' (\<lambda>_ _. exec_slice_depth A L),
     Op ''d765'' (\<lambda>_ _. exec_cell_depth A L),
     Op ''d766'' (\<lambda>_ _. exec_cell_level A),
     Op ''d767'' (\<lambda>_ _. exec_cell_level_mask L),
     Op ''d76$10xx'' (\<lambda>_ f. exec_cell_level_op L (f CHR ''x'') LevelHash),
     Op ''d76$11xx'' (\<lambda>_ f. exec_cell_level_op L (f CHR ''x'') LevelDepth),
     Op ''d770'' (\<lambda>_ _. exec_cell_level_op_var L LevelHash),
     Op ''d771'' (\<lambda>_ _. exec_cell_level_op_var L LevelDepth)]"

definition contops_instrs :: "('c, 's) api \<Rightarrow> ('c, 's, 'b) instr list" where
  "contops_instrs A = [
     Op ''d8'' (\<lambda>_ _. exec_execute A),
     Op ''d9'' (\<lambda>_ _. exec_jmpx),
     Op ''dapr'' (\<lambda>_ f. exec_callx_args A (f CHR ''p'') (f CHR ''r'')),
     Op ''db0p'' (\<lambda>_ f. exec_callx_args_p A (f CHR ''p'')),
     Op ''db1p'' (\<lambda>_ f. exec_jmpx_args (f CHR ''p'')),
     Op ''db2r'' (\<lambda>_ f. exec_ret_args (f CHR ''r'')),
     Op ''db30'' (\<lambda>_ _. exec_ret),
     Op ''db31'' (\<lambda>_ _. exec_ret_alt),
     Op ''db32'' (\<lambda>_ _. exec_ret_bool),
     Op ''db34'' (\<lambda>_ _. exec_callcc A),
     Op ''db35'' (\<lambda>_ _. exec_jmpx_data),
     Op ''db36pr'' (\<lambda>args f. exec_callcc_args A (f CHR ''p'') (int (take_bit 4 (args + 1)) - 1)),
     Op ''db38'' (\<lambda>_ _. exec_callx_varargs A),
     Op ''db39'' (\<lambda>_ _. exec_ret_varargs),
     Op ''db3a'' (\<lambda>_ _. exec_jmpx_varargs),
     Op ''db3b'' (\<lambda>_ _. exec_callcc_varargs A),
     OpExt 0xdb3c 16 0 (exec_callref A),
     OpExt 0xdb3d 16 0 (exec_jmpref A),
     OpExt 0xdb3e 16 0 (exec_jmpref_data A),
     Op ''db3f'' (\<lambda>_ _. exec_ret_data),
     Op ''db4xxx'' (\<lambda>_ f. exec_runvm A (f CHR ''x'')),
     Op ''db50'' (\<lambda>_ _. exec_runvmx A),
     Op ''dc'' (\<lambda>_ _. exec_ifret),
     Op ''dd'' (\<lambda>_ _. exec_ifnotret),
     Op ''de'' (\<lambda>_ _. exec_if A),
     Op ''df'' (\<lambda>_ _. exec_ifnot A),
     Op ''e0'' (\<lambda>_ _. exec_if_jmp),
     Op ''e1'' (\<lambda>_ _. exec_ifnot_jmp),
     Op ''e2'' (\<lambda>_ _. exec_if_else A),
     OpExt 0xe300 16 0 (exec_ifref A),
     OpExt 0xe301 16 0 (exec_ifnotref A),
     OpExt 0xe302 16 0 (exec_ifjmpref A),
     OpExt 0xe303 16 0 (exec_ifnotjmpref A),
     Op ''e304'' (\<lambda>_ _. exec_condsel),
     Op ''e305'' (\<lambda>_ _. exec_condsel_chk),
     Op ''e308'' (\<lambda>_ _. exec_ifretalt),
     Op ''e309'' (\<lambda>_ _. exec_ifnotretalt),
     OpExt 0xe30d 16 0 (exec_ifrefelse A),
     OpExt 0xe30e 16 0 (exec_ifelseref A),
     OpExt 0xe30f 16 0 (exec_ifref_elseref A),
     Op ''e3$10nx#x'' (\<lambda>_ f. exec_if_bit_jmp (f CHR ''n'' \<noteq> 0) (f CHR ''x'')),
     OpExt (drop_bit 6 0xe3c0) 10 0 (exec_if_bit_jmpref A),
     Op ''e4'' (\<lambda>_ _. exec_repeat A False),
     Op ''e314'' (\<lambda>_ _. exec_repeat A True),
     Op ''e5'' (\<lambda>_ _. exec_repeat_end A False),
     Op ''e315'' (\<lambda>_ _. exec_repeat_end A True),
     Op ''e6'' (\<lambda>_ _. exec_until A False),
     Op ''e316'' (\<lambda>_ _. exec_until A True),
     Op ''e7'' (\<lambda>_ _. exec_until_end A False),
     Op ''e317'' (\<lambda>_ _. exec_until_end A True),
     Op ''e8'' (\<lambda>_ _. exec_while A False),
     Op ''e318'' (\<lambda>_ _. exec_while A True),
     Op ''e9'' (\<lambda>_ _. exec_while_end A False),
     Op ''e319'' (\<lambda>_ _. exec_while_end A True),
     Op ''ea'' (\<lambda>_ _. exec_again A False),
     Op ''e31a'' (\<lambda>_ _. exec_again A True),
     Op ''eb'' (\<lambda>_ _. exec_again_end A False),
     Op ''e31b'' (\<lambda>_ _. exec_again_end A True),
     Op ''ecrn'' (\<lambda>args f. exec_setcontargs (f CHR ''r'') (int (take_bit 4 (args + 1)) - 1)),
     Op ''ed0p'' (\<lambda>_ f. exec_return_args (f CHR ''p'')),
     Op ''ed10'' (\<lambda>_ _. exec_return_varargs),
     Op ''ed11'' (\<lambda>_ _. exec_setcont_varargs),
     Op ''ed12'' (\<lambda>_ _. exec_setnum_varargs),
     Op ''ed1e'' (\<lambda>_ _. exec_bless),
     Op ''ed1f'' (\<lambda>_ _. exec_bless_varargs),
     Op ''ed4i'' (\<lambda>_ f. exec_push_ctr (f CHR ''i'')),
     Op ''ed5i'' (\<lambda>_ f. exec_pop_ctr (f CHR ''i'')),
     Op ''ed6i'' (\<lambda>_ f. exec_setcont_ctr (f CHR ''i'')),
     Op ''ed7i'' (\<lambda>_ f. exec_setret_ctr (f CHR ''i'')),
     Op ''ed8i'' (\<lambda>_ f. exec_setalt_ctr (f CHR ''i'')),
     Op ''ed9i'' (\<lambda>_ f. exec_popsave (f CHR ''i'')),
     Op ''edai'' (\<lambda>_ f. exec_savectr (f CHR ''i'')),
     Op ''edbi'' (\<lambda>_ f. exec_savealt_ctr (f CHR ''i'')),
     Op ''edci'' (\<lambda>_ f. exec_saveboth_ctr (f CHR ''i'')),
     Op ''ede0'' (\<lambda>_ _. exec_push_ctr_var),
     Op ''ede1'' (\<lambda>_ _. exec_pop_ctr_var),
     Op ''ede2'' (\<lambda>_ _. exec_setcont_ctr_var),
     Op ''ede3xx'' (\<lambda>args _. exec_setcont_ctr_many (Some (take_bit 8 args))),
     Op ''ede4'' (\<lambda>_ _. exec_setcont_ctr_many None),
     Op ''edf0'' (\<lambda>_ _. exec_compos And),
     Op ''edf1'' (\<lambda>_ _. exec_compos Or),
     Op ''edf2'' (\<lambda>_ _. exec_compos Both),
     Op ''edf3'' (\<lambda>_ _. exec_atexit),
     Op ''edf4'' (\<lambda>_ _. exec_atexit_alt),
     Op ''edf5'' (\<lambda>_ _. exec_setexit_alt),
     Op ''edf6'' (\<lambda>_ _. exec_thenret),
     Op ''edf7'' (\<lambda>_ _. exec_thenret_alt),
     Op ''edf8'' (\<lambda>_ _. exec_invert),
     Op ''edf9'' (\<lambda>_ _. exec_booleval A),
     Op ''edfa'' (\<lambda>_ _. exec_samealt False),
     Op ''edfb'' (\<lambda>_ _. exec_samealt True),
     Op ''eern'' (\<lambda>args f. exec_bless_args (f CHR ''r'') (int (take_bit 4 (args + 1)) - 1)),
     Op ''f0nn'' (\<lambda>_ f. exec_calldict_short A (f CHR ''n'')),
     Op ''f1$00nn#nnn'' (\<lambda>_ f. exec_calldict_short A (f CHR ''n'')),
     Op ''f1$01nn#nnn'' (\<lambda>_ f. exec_jmpdict (f CHR ''n'')),
     Op ''f1$10nn#nnn'' (\<lambda>_ f. exec_preparedict (f CHR ''n'')),
     Op ''f2$00nn#n'' (\<lambda>_ f. exec_throw_fixed A (f CHR ''n'') Direct),
     Op ''f2$01nn#n'' (\<lambda>_ f. exec_throw_fixed A (f CHR ''n'') (Cond True)),
     Op ''f2$10nn#n'' (\<lambda>_ f. exec_throw_fixed A (f CHR ''n'') (Cond False)),
     Op ''f2c$0nnn#nn'' (\<lambda>_ f. exec_throw_fixed A (f CHR ''n'') Direct),
     Op ''f2d$0nnn#nn'' (\<lambda>_ f. exec_throw_fixed A (f CHR ''n'') (Cond True)),
     Op ''f2e$0nnn#nn'' (\<lambda>_ f. exec_throw_fixed A (f CHR ''n'') (Cond False)),
     Op ''f2c$1nnn#nn'' (\<lambda>_ f. exec_throw_arg_fixed A (f CHR ''n'') Direct),
     Op ''f2d$1nnn#nn'' (\<lambda>_ f. exec_throw_arg_fixed A (f CHR ''n'') (Cond True)),
     Op ''f2e$1nnn#nn'' (\<lambda>_ f. exec_throw_arg_fixed A (f CHR ''n'') (Cond False)),
     Op ''f2fx @ ..f2f6'' (\<lambda>_ f. exec_throw_any A (f CHR ''x'')),
     Op ''f2ff'' (\<lambda>_ _. exec_try A),
     Op ''f3pr'' (\<lambda>_ f. exec_tryargs A (f CHR ''p'') (f CHR ''r'')),
     Op ''fff0'' (\<lambda>_ _. exec_set_cp_any),
     Op ''ff00'' (\<lambda>_ _. exec_set_cp 0),
     Op ''ffxx @ ff01..fff0'' (\<lambda>args _. exec_set_cp (int (take_bit 8 args))),
     Op ''fffx @ fff1..'' (\<lambda>args _. exec_set_cp (int (take_bit 4 args) - 16))]"

definition stackops_instrs :: "('c, 's, 'b) instr list" where
  "stackops_instrs = [
     Op ''00'' (\<lambda>_ _. exec_nop),
     Op ''01'' (\<lambda>_ _. exec_swap),
     Op ''0j @ 02..'' (\<lambda>_ f. exec_xchg 0 (f CHR ''j'')),
     Op ''10ij'' (\<lambda>_ f. thn (vm_ensure (f CHR ''i'' \<noteq> 0 \<and> f CHR ''i'' < f CHR ''j'') InvalidOpcode) (exec_xchg (f CHR ''i'') (f CHR ''j''))),
     Op ''11jj'' (\<lambda>_ f. exec_xchg 0 (f CHR ''j'')),
     Op ''1j @ 12..'' (\<lambda>_ f. exec_xchg 1 (f CHR ''j'')),
     Op ''20'' (\<lambda>_ _. exec_dup),
     Op ''21'' (\<lambda>_ _. exec_over),
     Op ''2i @ 22..'' (\<lambda>_ f. exec_push (f CHR ''i'')),
     Op ''56ii'' (\<lambda>_ f. exec_push (f CHR ''i'')),
     Op ''30'' (\<lambda>_ _. exec_drop),
     Op ''31'' (\<lambda>_ _. exec_nip),
     Op ''3i @ 32..'' (\<lambda>_ f. exec_pop (f CHR ''i'')),
     Op ''57ii'' (\<lambda>_ f. exec_pop (f CHR ''i'')),
     Op ''4ijk'' (\<lambda>_ f. exec_xchg3 (f CHR ''i'') (f CHR ''j'') (f CHR ''k'')),
     Op ''540ijk'' (\<lambda>_ f. exec_xchg3 (f CHR ''i'') (f CHR ''j'') (f CHR ''k'')),
     Op ''50ij'' (\<lambda>_ f. exec_xchg2 (f CHR ''i'') (f CHR ''j'')),
     Op ''51ij'' (\<lambda>_ f. exec_xcpu (f CHR ''i'') (f CHR ''j'')),
     Op ''52ij'' (\<lambda>_ f. exec_puxc (f CHR ''i'') (f CHR ''j'')),
     Op ''53ij'' (\<lambda>_ f. exec_push2 (f CHR ''i'') (f CHR ''j'')),
     Op ''541ijk'' (\<lambda>_ f. exec_xc2pu (f CHR ''i'') (f CHR ''j'') (f CHR ''k'')),
     Op ''542ijk'' (\<lambda>_ f. exec_xcpuxc (f CHR ''i'') (f CHR ''j'') (f CHR ''k'')),
     Op ''543ijk'' (\<lambda>_ f. exec_xcpu2 (f CHR ''i'') (f CHR ''j'') (f CHR ''k'')),
     Op ''544ijk'' (\<lambda>_ f. exec_puxc2 (f CHR ''i'') (f CHR ''j'') (f CHR ''k'')),
     Op ''545ijk'' (\<lambda>_ f. exec_puxcpu (f CHR ''i'') (f CHR ''j'') (f CHR ''k'')),
     Op ''546ijk'' (\<lambda>_ f. exec_pu2xc (f CHR ''i'') (f CHR ''j'') (f CHR ''k'')),
     Op ''547ijk'' (\<lambda>_ f. exec_push3 (f CHR ''i'') (f CHR ''j'') (f CHR ''k'')),
     Op ''55ij'' (\<lambda>args _. exec_blkswap (1 + take_bit 4 (drop_bit 4 args)) (1 + take_bit 4 args)),
     Op ''58'' (\<lambda>_ _. exec_rot),
     Op ''59'' (\<lambda>_ _. exec_rotrev),
     Op ''5a'' (\<lambda>_ _. exec_2swap),
     Op ''5b'' (\<lambda>_ _. exec_2drop),
     Op ''5c'' (\<lambda>_ _. exec_2dup),
     Op ''5d'' (\<lambda>_ _. exec_2over),
     Op ''5eij'' (\<lambda>args f. exec_reverse (2 + take_bit 4 (drop_bit 4 args)) (f CHR ''j'')),
     Op ''5f0i'' (\<lambda>_ f. exec_blkdrop (f CHR ''i'')),
     Op ''5fij @ 5f10..'' (\<lambda>_ f. exec_blkpush (f CHR ''i'') (f CHR ''j'')),
     Op ''60'' (\<lambda>_ _. exec_pick),
     Op ''61'' (\<lambda>_ _. exec_roll),
     Op ''62'' (\<lambda>_ _. exec_rollrev),
     Op ''63'' (\<lambda>_ _. exec_blkswap_x),
     Op ''64'' (\<lambda>_ _. exec_reverse_x),
     Op ''65'' (\<lambda>_ _. exec_drop_x),
     Op ''66'' (\<lambda>_ _. exec_tuck),
     Op ''67'' (\<lambda>_ _. exec_xchg_x),
     Op ''68'' (\<lambda>_ _. exec_depth),
     Op ''69'' (\<lambda>_ _. exec_chkdepth),
     Op ''6a'' (\<lambda>_ _. exec_onlytop_x),
     Op ''6b'' (\<lambda>_ _. exec_only_x),
     Op ''6cij @ 6c10..'' (\<lambda>_ f. exec_blkdrop2 (f CHR ''i'') (f CHR ''j''))]"

definition tupleops_instrs :: "('c, 's, 'b) instr list" where
  "tupleops_instrs = [
     Op ''6d'' (\<lambda>_ _. exec_push_null),
     Op ''6e'' (\<lambda>_ _. exec_is_null),
     Op ''6f0i'' (\<lambda>_ f. exec_mktuple (f CHR ''i'')),
     Op ''6f1i'' (\<lambda>_ f. exec_tuple_index (f CHR ''i'')),
     Op ''6f2i'' (\<lambda>_ f. exec_untuple (f CHR ''i'')),
     Op ''6f3i'' (\<lambda>_ f. exec_untuple_first (f CHR ''i'')),
     Op ''6f4i'' (\<lambda>_ f. exec_explode_tuple (f CHR ''i'')),
     Op ''6f5i'' (\<lambda>_ f. exec_tuple_set_index (f CHR ''i'')),
     Op ''6f6i'' (\<lambda>_ f. exec_tuple_quiet_index (f CHR ''i'')),
     Op ''6f7i'' (\<lambda>_ f. exec_tuple_quiet_set_index (f CHR ''i'')),
     Op ''6f80'' (\<lambda>_ _. exec_mktuple_var),
     Op ''6f81'' (\<lambda>_ _. exec_tuple_index_var),
     Op ''6f82'' (\<lambda>_ _. exec_untuple_var),
     Op ''6f83'' (\<lambda>_ _. exec_untuple_first_var),
     Op ''6f84'' (\<lambda>_ _. exec_explode_tuple_var),
     Op ''6f85'' (\<lambda>_ _. exec_tuple_set_index_var),
     Op ''6f86'' (\<lambda>_ _. exec_tuple_quiet_index_var),
     Op ''6f87'' (\<lambda>_ _. exec_tuple_quiet_set_index_var),
     Op ''6f88'' (\<lambda>_ _. exec_tuple_length),
     Op ''6f89'' (\<lambda>_ _. exec_tuple_length_quiet),
     Op ''6f8a'' (\<lambda>_ _. exec_is_tuple),
     Op ''6f8b'' (\<lambda>_ _. exec_tuple_last),
     Op ''6f8c'' (\<lambda>_ _. exec_tuple_push),
     Op ''6f8d'' (\<lambda>_ _. exec_tuple_pop),
     Op ''6f90'' (\<lambda>_ _. exec_zero_swap_if True False),
     Op ''6f91'' (\<lambda>_ _. exec_zero_swap_if False False),
     Op ''6f92'' (\<lambda>_ _. exec_zero_swap_if True True),
     Op ''6f93'' (\<lambda>_ _. exec_zero_swap_if False True),
     Op ''6f94'' (\<lambda>_ _. exec_zero_swap_if2 True False),
     Op ''6f95'' (\<lambda>_ _. exec_zero_swap_if2 False False),
     Op ''6f96'' (\<lambda>_ _. exec_zero_swap_if2 True True),
     Op ''6f97'' (\<lambda>_ _. exec_zero_swap_if2 False True),
     Op ''6fa0'' (\<lambda>_ _. exec_null_swap_if True False),
     Op ''6fa1'' (\<lambda>_ _. exec_null_swap_if False False),
     Op ''6fa2'' (\<lambda>_ _. exec_null_swap_if True True),
     Op ''6fa3'' (\<lambda>_ _. exec_null_swap_if False True),
     Op ''6fa4'' (\<lambda>_ _. exec_null_swap_if2 True False),
     Op ''6fa5'' (\<lambda>_ _. exec_null_swap_if2 False False),
     Op ''6fa6'' (\<lambda>_ _. exec_null_swap_if2 True True),
     Op ''6fa7'' (\<lambda>_ _. exec_null_swap_if2 False True),
     Op ''6fb$iijj'' (\<lambda>_ f. exec_tuple_index2 (f CHR ''i'') (f CHR ''j'')),
     Op ''6f$11iijjkk'' (\<lambda>_ f. exec_tuple_index3 (f CHR ''i'') (f CHR ''j'') (f CHR ''k''))]"

definition gasops_instrs :: "('c, 's) api \<Rightarrow> ('c, 's, 'b) instr list" where
  "gasops_instrs A = [
     Op ''f800'' (\<lambda>_ _. exec_accept),
     Op ''f801'' (\<lambda>_ _. exec_set_gas_limit),
     Op ''f802'' (\<lambda>_ _. exec_buy_gas),
     Op ''f804'' (\<lambda>_ _. exec_gram_to_gas),
     Op ''f805'' (\<lambda>_ _. exec_gas_to_gram A),
     Op ''f807'' (\<lambda>_ _. exec_gas_consumed),
     Op ''f80f'' (\<lambda>_ _. exec_commit A)]"

section \<open>Every instruction keeps the invariant\<close>

fun instr_safe :: "('c, 's, 'b) instr \<Rightarrow> bool" where
  "instr_safe (Op pattern h) \<longleftrightarrow> (\<forall>args f. lenient (h args f))"
| "instr_safe (OpExt opc bits arg_bits h) \<longleftrightarrow> (\<forall>args n. lenient (h args n))"
| "instr_safe (OpExtRange lo hi bits h) \<longleftrightarrow> (\<forall>args n. lenient (h args n))"

lemma arithops_instrs_safe: "\<forall>i \<in> set (arithops_instrs A). instr_safe i"
  unfolding arithops_instrs_def by (simp add: safe_lenient arithops_safe)

lemma cmpops_instrs_safe: "\<forall>i \<in> set cmpops_instrs. instr_safe i"
  unfolding cmpops_instrs_def by (simp add: safe_lenient cmpops_safe)

lemma logicops_instrs_safe: "\<forall>i \<in> set (logicops_instrs A). instr_safe i"
  unfolding logicops_instrs_def by (simp add: safe_lenient logicops_safe)

lemma cellops_instrs_safe: "\<forall>i \<in> set (cellops_instrs A L). instr_safe i"
  unfolding cellops_instrs_def by (simp add: safe_lenient cellops_safe cellops_safe2 cellops_safe3)

lemma contops_instrs_safe: "\<forall>i \<in> set (contops_instrs A). instr_safe i"
  unfolding contops_instrs_def
  by (simp add: safe_lenient contops_safe contops_safe2 safe_throw_fixed safe_runvm safe_setcontargs
      safe_return_args safe_invert)

lemma safe_ensured_xchg: "safe (thn (vm_ensure b e) (exec_xchg i j))"
  by (intro safe_rules stackops_safe)

lemma stackops_instrs_safe: "\<forall>i \<in> set stackops_instrs. instr_safe i"
  unfolding stackops_instrs_def by (simp add: safe_lenient stackops_safe safe_ensured_xchg)

lemma tupleops_instrs_safe: "\<forall>i \<in> set tupleops_instrs. instr_safe i"
  unfolding tupleops_instrs_def by (simp add: safe_lenient tupleops_safe tupleops_safe2)

lemma gasops_instrs_safe: "\<forall>i \<in> set (gasops_instrs A). instr_safe i"
  unfolding gasops_instrs_def by (simp add: safe_lenient gasops_safe)

section \<open>The tables register without overlap\<close>

text \<open>The opcode ranges of the tables, as the patterns give them.\<close>

definition arithops_ranges :: "(nat \<times> nat) list" where
  "arithops_ranges = [
     (0x700000, 0x800000), (0x800000, 0x810000), (0x810000, 0x820000), (0x820000, 0x82f800),
     (0x830000, 0x83ff00), (0x83ff00, 0x840000), (0x840000, 0x850000), (0x850000, 0x860000),
     (0xa00000, 0xa10000), (0xb7a000, 0xb7a100), (0xa10000, 0xa20000), (0xb7a100, 0xb7a200),
     (0xa20000, 0xa30000), (0xb7a200, 0xb7a300), (0xa30000, 0xa40000), (0xb7a300, 0xb7a400),
     (0xa40000, 0xa50000), (0xb7a400, 0xb7a500), (0xa50000, 0xa60000), (0xb7a500, 0xb7a600),
     (0xa60000, 0xa70000), (0xb7a600, 0xb7a700), (0xa70000, 0xa80000), (0xb7a700, 0xb7a800),
     (0xa80000, 0xa90000), (0xb7a800, 0xb7a900), (0xa90000, 0xa91000), (0xb7a900, 0xb7a910),
     (0xa92000, 0xa93000), (0xa93000, 0xa94000), (0xb7a920, 0xb7a930), (0xa98000, 0xa99000),
     (0xb7a980, 0xb7a990), (0xa9a000, 0xa9b000), (0xa9b000, 0xa9c000), (0xb7a9a0, 0xb7a9b0),
     (0xa9c000, 0xa9d000), (0xa9d000, 0xa9e000), (0xb7a9c0, 0xb7a9d0), (0xb60800, 0xb60900),
     (0xb60900, 0xb60a00), (0xb60a00, 0xb60b00), (0xb7b608, 0xb7b609), (0xb7b609, 0xb7b60a),
     (0xb7b60a, 0xb7b60b), (0xb60b00, 0xb60c00), (0xb7b60b, 0xb7b60c)]"

definition cmpops_ranges :: "(nat \<times> nat) list" where
  "cmpops_ranges = [
     (0xb80000, 0xb90000), (0xb7b800, 0xb7b900), (0xb90000, 0xba0000), (0xba0000, 0xbb0000),
     (0xbb0000, 0xbc0000), (0xbc0000, 0xbd0000), (0xbd0000, 0xbe0000), (0xbe0000, 0xbf0000),
     (0xbf0000, 0xc00000), (0xb7b900, 0xb7ba00), (0xb7ba00, 0xb7bb00), (0xb7bb00, 0xb7bc00),
     (0xb7bc00, 0xb7bd00), (0xb7bd00, 0xb7be00), (0xb7be00, 0xb7bf00), (0xb7bf00, 0xb7c000),
     (0xc00000, 0xc10000), (0xc10000, 0xc20000), (0xc20000, 0xc30000), (0xc30000, 0xc40000),
     (0xb7c000, 0xb7c100), (0xb7c100, 0xb7c200), (0xb7c200, 0xb7c300), (0xb7c300, 0xb7c400),
     (0xc40000, 0xc50000), (0xc50000, 0xc60000)]"

definition logicops_ranges :: "(nat \<times> nat) list" where
  "logicops_ranges = [
     (0xaa0000, 0xab0000), (0xb7aa00, 0xb7ab00), (0xab0000, 0xac0000), (0xb7ab00, 0xb7ac00),
     (0xac0000, 0xad0000), (0xb7ac00, 0xb7ad00), (0xad0000, 0xae0000), (0xb7ad00, 0xb7ae00),
     (0xae0000, 0xaf0000), (0xb7ae00, 0xb7af00), (0xb00000, 0xb10000), (0xb7b000, 0xb7b100),
     (0xb10000, 0xb20000), (0xb7b100, 0xb7b200), (0xb20000, 0xb30000), (0xb7b200, 0xb7b300),
     (0xb30000, 0xb40000), (0xb7b300, 0xb7b400), (0xb40000, 0xb50000), (0xb7b400, 0xb7b500),
     (0xb50000, 0xb60000), (0xb7b500, 0xb7b600), (0xb60000, 0xb60100), (0xb7b600, 0xb7b601),
     (0xb60100, 0xb60200), (0xb7b601, 0xb7b602), (0xb60200, 0xb60300), (0xb7b602, 0xb7b603),
     (0xb60300, 0xb60400), (0xb7b603, 0xb7b604)]"

definition cellops_ranges :: "(nat \<times> nat) list" where
  "cellops_ranges = [
     (0x880000, 0x890000), (0x890000, 0x8a0000), (0x8a0000, 0x8b0000), (0x8b0000, 0x8c0000),
     (0x8c0000, 0x8d0000), (0x8d0000, 0x8da000), (0x8e0000, 0x900000), (0x900000, 0xa00000),
     (0xc70000, 0xc70100), (0xc70100, 0xc70200), (0xc70200, 0xc70300), (0xc70300, 0xc70400),
     (0xc70400, 0xc70500), (0xc70500, 0xc70600), (0xc70800, 0xc70900), (0xc70900, 0xc70a00),
     (0xc70a00, 0xc70b00), (0xc70b00, 0xc70c00), (0xc70c00, 0xc70d00), (0xc70d00, 0xc70e00),
     (0xc70e00, 0xc70f00), (0xc70f00, 0xc71000), (0xc71000, 0xc71100), (0xc71100, 0xc71200),
     (0xc71200, 0xc71300), (0xc71300, 0xc71400), (0xc80000, 0xc90000), (0xc90000, 0xca0000),
     (0xca0000, 0xcb0000), (0xcb0000, 0xcc0000), (0xcc0000, 0xcd0000), (0xcf1000, 0xcf1100),
     (0xcf1800, 0xcf1900), (0xcd0000, 0xce0000), (0xcf1500, 0xcf1600), (0xcf1d00, 0xcf1e00),
     (0xce0000, 0xcf0000), (0xcf1200, 0xcf1300), (0xcf1a00, 0xcf1b00), (0xcf0000, 0xcf0800),
     (0xcf0800, 0xcf1000), (0xcf1100, 0xcf1200), (0xcf1900, 0xcf1a00), (0xcf1300, 0xcf1400),
     (0xcf1b00, 0xcf1c00), (0xcf1400, 0xcf1500), (0xcf1c00, 0xcf1d00), (0xcf1600, 0xcf1700),
     (0xcf1e00, 0xcf1f00), (0xcf1700, 0xcf1800), (0xcf1f00, 0xcf2000), (0xcf2000, 0xcf2200),
     (0xcf2200, 0xcf2300), (0xcf2300, 0xcf2400), (0xcf3000, 0xcf3100), (0xcf3100, 0xcf3200),
     (0xcf3200, 0xcf3300), (0xcf3300, 0xcf3400), (0xcf3500, 0xcf3600), (0xcf3600, 0xcf3700),
     (0xcf3700, 0xcf3800), (0xcf3800, 0xcf3900), (0xcf3c00, 0xcf3d00), (0xcf3900, 0xcf3a00),
     (0xcf3a00, 0xcf3b00), (0xcf3b00, 0xcf3c00), (0xcf3d00, 0xcf3e00), (0xcf3e00, 0xcf3f00),
     (0xcf3f00, 0xcf4000), (0xcf4000, 0xcf4100), (0xcf4100, 0xcf4200), (0xcf4200, 0xcf4300),
     (0xcf8000, 0xd00000), (0xd00000, 0xd10000), (0xd10000, 0xd20000), (0xd20000, 0xd30000),
     (0xd30000, 0xd40000), (0xd40000, 0xd50000), (0xd50000, 0xd60000), (0xd60000, 0xd70000),
     (0xd70000, 0xd70800), (0xd70800, 0xd71000), (0xd71000, 0xd71800), (0xd71800, 0xd71c00),
     (0xd71c00, 0xd72000), (0xd72000, 0xd72100), (0xd72100, 0xd72200), (0xd72200, 0xd72300),
     (0xd72300, 0xd72400), (0xd72400, 0xd72500), (0xd72600, 0xd72700), (0xd72700, 0xd72800),
     (0xd72800, 0xd73000), (0xd73000, 0xd73100), (0xd73100, 0xd73200), (0xd73200, 0xd73300),
     (0xd73300, 0xd73400), (0xd73400, 0xd73500), (0xd73600, 0xd73700), (0xd73700, 0xd73800),
     (0xd73900, 0xd73a00), (0xd73a00, 0xd73b00), (0xd73b00, 0xd73c00), (0xd74100, 0xd74200),
     (0xd74200, 0xd74300), (0xd74300, 0xd74400), (0xd74500, 0xd74600), (0xd74600, 0xd74700),
     (0xd74700, 0xd74800), (0xd74800, 0xd74900), (0xd74900, 0xd74a00), (0xd74a00, 0xd74b00),
     (0xd74b00, 0xd74c00), (0xd74c00, 0xd75000), (0xd75000, 0xd76000), (0xd76000, 0xd76100),
     (0xd76100, 0xd76200), (0xd76200, 0xd76300), (0xd76400, 0xd76500), (0xd76500, 0xd76600),
     (0xd76600, 0xd76700), (0xd76700, 0xd76800), (0xd76800, 0xd76c00), (0xd76c00, 0xd77000),
     (0xd77000, 0xd77100), (0xd77100, 0xd77200)]"

definition contops_ranges :: "(nat \<times> nat) list" where
  "contops_ranges = [
     (0xd80000, 0xd90000), (0xd90000, 0xda0000), (0xda0000, 0xdb0000), (0xdb0000, 0xdb1000),
     (0xdb1000, 0xdb2000), (0xdb2000, 0xdb3000), (0xdb3000, 0xdb3100), (0xdb3100, 0xdb3200),
     (0xdb3200, 0xdb3300), (0xdb3400, 0xdb3500), (0xdb3500, 0xdb3600), (0xdb3600, 0xdb3700),
     (0xdb3800, 0xdb3900), (0xdb3900, 0xdb3a00), (0xdb3a00, 0xdb3b00), (0xdb3b00, 0xdb3c00),
     (0xdb3c00, 0xdb3d00), (0xdb3d00, 0xdb3e00), (0xdb3e00, 0xdb3f00), (0xdb3f00, 0xdb4000),
     (0xdb4000, 0xdb5000), (0xdb5000, 0xdb5100), (0xdc0000, 0xdd0000), (0xdd0000, 0xde0000),
     (0xde0000, 0xdf0000), (0xdf0000, 0xe00000), (0xe00000, 0xe10000), (0xe10000, 0xe20000),
     (0xe20000, 0xe30000), (0xe30000, 0xe30100), (0xe30100, 0xe30200), (0xe30200, 0xe30300),
     (0xe30300, 0xe30400), (0xe30400, 0xe30500), (0xe30500, 0xe30600), (0xe30800, 0xe30900),
     (0xe30900, 0xe30a00), (0xe30d00, 0xe30e00), (0xe30e00, 0xe30f00), (0xe30f00, 0xe31000),
     (0xe38000, 0xe3c000), (0xe3c000, 0xe40000), (0xe40000, 0xe50000), (0xe31400, 0xe31500),
     (0xe50000, 0xe60000), (0xe31500, 0xe31600), (0xe60000, 0xe70000), (0xe31600, 0xe31700),
     (0xe70000, 0xe80000), (0xe31700, 0xe31800), (0xe80000, 0xe90000), (0xe31800, 0xe31900),
     (0xe90000, 0xea0000), (0xe31900, 0xe31a00), (0xea0000, 0xeb0000), (0xe31a00, 0xe31b00),
     (0xeb0000, 0xec0000), (0xe31b00, 0xe31c00), (0xec0000, 0xed0000), (0xed0000, 0xed1000),
     (0xed1000, 0xed1100), (0xed1100, 0xed1200), (0xed1200, 0xed1300), (0xed1e00, 0xed1f00),
     (0xed1f00, 0xed2000), (0xed4000, 0xed5000), (0xed5000, 0xed6000), (0xed6000, 0xed7000),
     (0xed7000, 0xed8000), (0xed8000, 0xed9000), (0xed9000, 0xeda000), (0xeda000, 0xedb000),
     (0xedb000, 0xedc000), (0xedc000, 0xedd000), (0xede000, 0xede100), (0xede100, 0xede200),
     (0xede200, 0xede300), (0xede300, 0xede400), (0xede400, 0xede500), (0xedf000, 0xedf100),
     (0xedf100, 0xedf200), (0xedf200, 0xedf300), (0xedf300, 0xedf400), (0xedf400, 0xedf500),
     (0xedf500, 0xedf600), (0xedf600, 0xedf700), (0xedf700, 0xedf800), (0xedf800, 0xedf900),
     (0xedf900, 0xedfa00), (0xedfa00, 0xedfb00), (0xedfb00, 0xedfc00), (0xee0000, 0xef0000),
     (0xf00000, 0xf10000), (0xf10000, 0xf14000), (0xf14000, 0xf18000), (0xf18000, 0xf1c000),
     (0xf20000, 0xf24000), (0xf24000, 0xf28000), (0xf28000, 0xf2c000), (0xf2c000, 0xf2c800),
     (0xf2d000, 0xf2d800), (0xf2e000, 0xf2e800), (0xf2c800, 0xf2d000), (0xf2d800, 0xf2e000),
     (0xf2e800, 0xf2f000), (0xf2f000, 0xf2f600), (0xf2ff00, 0xf30000), (0xf30000, 0xf40000),
     (0xfff000, 0xfff100), (0xff0000, 0xff0100), (0xff0100, 0xfff000), (0xfff100, 0x1000000)]"

definition stackops_ranges :: "(nat \<times> nat) list" where
  "stackops_ranges = [
     (0x000000, 0x010000), (0x010000, 0x020000), (0x020000, 0x100000), (0x100000, 0x110000),
     (0x110000, 0x120000), (0x120000, 0x200000), (0x200000, 0x210000), (0x210000, 0x220000),
     (0x220000, 0x300000), (0x560000, 0x570000), (0x300000, 0x310000), (0x310000, 0x320000),
     (0x320000, 0x400000), (0x570000, 0x580000), (0x400000, 0x500000), (0x540000, 0x541000),
     (0x500000, 0x510000), (0x510000, 0x520000), (0x520000, 0x530000), (0x530000, 0x540000),
     (0x541000, 0x542000), (0x542000, 0x543000), (0x543000, 0x544000), (0x544000, 0x545000),
     (0x545000, 0x546000), (0x546000, 0x547000), (0x547000, 0x548000), (0x550000, 0x560000),
     (0x580000, 0x590000), (0x590000, 0x5a0000), (0x5a0000, 0x5b0000), (0x5b0000, 0x5c0000),
     (0x5c0000, 0x5d0000), (0x5d0000, 0x5e0000), (0x5e0000, 0x5f0000), (0x5f0000, 0x5f1000),
     (0x5f1000, 0x600000), (0x600000, 0x610000), (0x610000, 0x620000), (0x620000, 0x630000),
     (0x630000, 0x640000), (0x640000, 0x650000), (0x650000, 0x660000), (0x660000, 0x670000),
     (0x670000, 0x680000), (0x680000, 0x690000), (0x690000, 0x6a0000), (0x6a0000, 0x6b0000),
     (0x6b0000, 0x6c0000), (0x6c1000, 0x6d0000)]"

definition tupleops_ranges :: "(nat \<times> nat) list" where
  "tupleops_ranges = [
     (0x6d0000, 0x6e0000), (0x6e0000, 0x6f0000), (0x6f0000, 0x6f1000), (0x6f1000, 0x6f2000),
     (0x6f2000, 0x6f3000), (0x6f3000, 0x6f4000), (0x6f4000, 0x6f5000), (0x6f5000, 0x6f6000),
     (0x6f6000, 0x6f7000), (0x6f7000, 0x6f8000), (0x6f8000, 0x6f8100), (0x6f8100, 0x6f8200),
     (0x6f8200, 0x6f8300), (0x6f8300, 0x6f8400), (0x6f8400, 0x6f8500), (0x6f8500, 0x6f8600),
     (0x6f8600, 0x6f8700), (0x6f8700, 0x6f8800), (0x6f8800, 0x6f8900), (0x6f8900, 0x6f8a00),
     (0x6f8a00, 0x6f8b00), (0x6f8b00, 0x6f8c00), (0x6f8c00, 0x6f8d00), (0x6f8d00, 0x6f8e00),
     (0x6f9000, 0x6f9100), (0x6f9100, 0x6f9200), (0x6f9200, 0x6f9300), (0x6f9300, 0x6f9400),
     (0x6f9400, 0x6f9500), (0x6f9500, 0x6f9600), (0x6f9600, 0x6f9700), (0x6f9700, 0x6f9800),
     (0x6fa000, 0x6fa100), (0x6fa100, 0x6fa200), (0x6fa200, 0x6fa300), (0x6fa300, 0x6fa400),
     (0x6fa400, 0x6fa500), (0x6fa500, 0x6fa600), (0x6fa600, 0x6fa700), (0x6fa700, 0x6fa800),
     (0x6fb000, 0x6fc000), (0x6fc000, 0x700000)]"

definition gasops_ranges :: "(nat \<times> nat) list" where
  "gasops_ranges = [
     (0xf80000, 0xf80100), (0xf80100, 0xf80200), (0xf80200, 0xf80300), (0xf80400, 0xf80500),
     (0xf80500, 0xf80600), (0xf80700, 0xf80800), (0xf80f00, 0xf81000)]"

lemmas pattern_simps = instr_ty_def parsed_code_def scan_char_def to_digit_def char_code_def
  is_ascii_alphanumeric_def is_whitespace_def scan_start_def add_arg_bits_def trim_def non_empty_def
  range_end_def arg_bits_of_def MAX_OPCODE_BITS_def ty_range_def Let_def

lemma arithops_instr_ranges: "map instr_range (arithops_instrs A) = map Some arithops_ranges"
  unfolding arithops_instrs_def arithops_ranges_def by (simp add: pattern_simps)

lemma cmpops_instr_ranges: "map instr_range (cmpops_instrs) = map Some cmpops_ranges"
  unfolding cmpops_instrs_def cmpops_ranges_def by (simp add: pattern_simps)

lemma logicops_instr_ranges: "map instr_range (logicops_instrs A) = map Some logicops_ranges"
  unfolding logicops_instrs_def logicops_ranges_def by (simp add: pattern_simps)

lemma cellops_instr_ranges: "map instr_range (cellops_instrs A L) = map Some cellops_ranges"
  unfolding cellops_instrs_def cellops_ranges_def by (simp add: pattern_simps push_bit_eq_mult drop_bit_eq_div)

lemma contops_instr_ranges: "map instr_range (contops_instrs A) = map Some contops_ranges"
  unfolding contops_instrs_def contops_ranges_def by (simp add: pattern_simps)

lemma stackops_instr_ranges: "map instr_range (stackops_instrs) = map Some stackops_ranges"
  unfolding stackops_instrs_def stackops_ranges_def by (simp add: pattern_simps push_bit_eq_mult)

lemma tupleops_instr_ranges: "map instr_range (tupleops_instrs) = map Some tupleops_ranges"
  unfolding tupleops_instrs_def tupleops_ranges_def by (simp add: pattern_simps)

lemma gasops_instr_ranges: "map instr_range (gasops_instrs A) = map Some gasops_ranges"
  unfolding gasops_instrs_def gasops_ranges_def by (simp add: pattern_simps)

lemmas int_ranges = ranges_ok_def list.map prod.case of_nat_numeral of_nat_0 of_nat_1

lemma arithops_ranges_ok: "ranges_ok arithops_ranges"
  unfolding arithops_ranges_def int_ranges by code_simp

lemma cmpops_ranges_ok: "ranges_ok cmpops_ranges"
  unfolding cmpops_ranges_def int_ranges by code_simp

lemma logicops_ranges_ok: "ranges_ok logicops_ranges"
  unfolding logicops_ranges_def int_ranges by code_simp

lemma cellops_ranges_ok: "ranges_ok cellops_ranges"
  unfolding cellops_ranges_def int_ranges by code_simp

lemma contops_ranges_ok: "ranges_ok contops_ranges"
  unfolding contops_ranges_def int_ranges by code_simp

lemma stackops_ranges_ok: "ranges_ok stackops_ranges"
  unfolding stackops_ranges_def int_ranges by code_simp

lemma tupleops_ranges_ok: "ranges_ok tupleops_ranges"
  unfolding tupleops_ranges_def int_ranges by code_simp

lemma gasops_ranges_ok: "ranges_ok gasops_ranges"
  unfolding gasops_ranges_def int_ranges by code_simp

end
