(* ===== verification/DebugOps.thy ===== *)
theory DebugOps
  imports InstrLib
begin

text \<open>
  \<open>vm/src/instr/debugops.rs\<close> for a virtual machine without a debug writer (\<open>st.debug\<close> is \<open>None\<close>):
  the instructions that print return at once, the others skip their operands. The writer itself is
  not part of the model's state, and no instruction reads it back.
\<close>

definition exec_dump_stack :: "('c, 's, 'b, int) vm" where
  "exec_dump_stack = ret 0"

definition exec_dummy_debug :: "nat \<Rightarrow> ('c, 's, 'b, int) vm" where
  "exec_dummy_debug x = ret 0"

definition exec_dump_string :: "('c, 's, 'b, int) vm" where
  "exec_dump_string = ret 0"

definition exec_dump_value :: "nat \<Rightarrow> ('c, 's, 'b, int) vm" where
  "exec_dump_value x = ret 0"

text \<open>The text of \<open>DEBUGSTR\<close> follows its opcode: 1 to 16 bytes.\<close>

definition exec_dummy_debug_str :: "('c, 's) api \<Rightarrow> nat \<Rightarrow> nat \<Rightarrow> ('c, 's, 'b, int) vm" where
  "exec_dummy_debug_str A args bits =
     (let data_bits = (take_bit 4 args + 1) * 8 in
      bnd (gets code) (\<lambda>k.
      thn (vm_ensure (has_remaining A k (bits + data_bits) 0) InvalidOpcode)
     (thn (skip_checked A (bits + data_bits) 0) (ret 0))))"

lemma debugops_safe:
  "safe exec_dump_stack" "safe (exec_dummy_debug x)" "safe exec_dump_string" "safe (exec_dump_value x)"
  "safe (exec_dummy_debug_str A args bits)"
  unfolding exec_dump_stack_def exec_dummy_debug_def exec_dump_string_def exec_dump_value_def
    exec_dummy_debug_str_def
  by (intro safe_rules)+

end
