(* ===== verification/DictOps.thy ===== *)
theory DictOps
  imports InstrLib
begin

text \<open>
  \<open>vm/src/instr/dictops.rs\<close>: dictionaries on the stack, as optional root cells. The dictionary
  algorithms are those of \<open>everscale_types\<close> (fields \<open>dict_*\<close> of \<open>instr_lib\<close>), run on the VM's gas
  consumer; the handlers choose the key, the value, and what they push on each outcome. \<open>dump_*\<close> and the
  \<open>Display\<close> implementations are output only.
\<close>

section \<open>Operands\<close>

text \<open>\<open>DictOpArgs\<close>, \<open>ShortDictOpArgs\<close>, \<open>DictGetNearArgs\<close> and \<open>DictExecArgs\<close>: bits of the opcode's operand.\<close>

definition da_is_ref :: "nat \<Rightarrow> bool" where "da_is_ref s = bit s 0"
definition da_is_signed :: "nat \<Rightarrow> bool" where "da_is_signed s = (\<not> bit s 1)"
definition da_is_int :: "nat \<Rightarrow> bool" where "da_is_int s = bit s 2"
definition da_is_max :: "nat \<Rightarrow> bool" where "da_is_max s = bit s 3"
definition da_is_rem :: "nat \<Rightarrow> bool" where "da_is_rem s = bit s 4"

definition sa_is_signed :: "nat \<Rightarrow> bool" where "sa_is_signed s = (\<not> bit s 0)"
definition sa_is_int :: "nat \<Rightarrow> bool" where "sa_is_int s = bit s 1"

definition na_is_eq :: "nat \<Rightarrow> bool" where "na_is_eq s = bit s 0"
definition na_is_prev :: "nat \<Rightarrow> bool" where "na_is_prev s = bit s 1"
definition na_is_signed :: "nat \<Rightarrow> bool" where "na_is_signed s = (\<not> bit s 2)"
definition na_is_int :: "nat \<Rightarrow> bool" where "na_is_int s = bit s 3"

definition ea_is_signed :: "nat \<Rightarrow> bool" where "ea_is_signed s = (\<not> bit s 0)"
definition ea_is_exec :: "nat \<Rightarrow> bool" where "ea_is_exec s = bit s 1"
definition ea_is_z :: "nat \<Rightarrow> bool" where "ea_is_z s = bit s 2"

section \<open>Keys and values\<close>

definition push_opt_cell :: "'c option \<Rightarrow> (('c, 's, 'b) stk, fault, unit) act" where
  "push_opt_cell d = push_opt_raw (map_option VCell d)"

definition int_key ::
    "('c, 's, 'b) cell_lib \<Rightarrow> ('c, 's, 'b) instr_lib \<Rightarrow> int \<Rightarrow> nat \<Rightarrow> bool \<Rightarrow> cell_error + 's" where
  "int_key L M x n sgnd = map_sum id (b_as_data_slice M) (b_store_bigint M (b_new L) x n sgnd)"

definition int_key_truncate ::
    "('c, 's, 'b) cell_lib \<Rightarrow> ('c, 's, 'b) instr_lib \<Rightarrow> int \<Rightarrow> nat \<Rightarrow> bool \<Rightarrow> cell_error + 's" where
  "int_key_truncate L M x n sgnd = map_sum id (b_as_data_slice M) (b_store_bigint_truncate M (b_new L) x n sgnd)"

definition slice_key :: "('c, 's, 'b) instr_lib \<Rightarrow> 's \<Rightarrow> nat \<Rightarrow> cell_error + 's" where
  "slice_key M cs n = map_sum id fst (sl_load_prefix M cs n 0)"

definition key_fits :: "('c, 's) api \<Rightarrow> int \<Rightarrow> nat \<Rightarrow> bool \<Rightarrow> bool" where
  "key_fits A x n sgnd \<longleftrightarrow> has_correct_sign A x sgnd \<and> bitsize A x sgnd \<le> n"

text \<open>The key of an update: an integer that does not fit is an error.\<close>

definition pop_key ::
    "('c, 's, 'b) cell_lib \<Rightarrow> ('c, 's, 'b) instr_lib \<Rightarrow> bool \<Rightarrow> bool \<Rightarrow> nat \<Rightarrow> (('c, 's, 'b) stk, fault, 's) act" where
  "pop_key L M is_int sgnd n =
     (if is_int then bnd pop_int (\<lambda>x. lift_res cell_fault (int_key L M x n sgnd))
      else bnd pop_cs (\<lambda>cs. lift_res cell_fault (slice_key M cs n)))"

text \<open>The key of a lookup or a deletion: an integer that does not fit is absent (\<open>None\<close>).\<close>

definition pop_key_opt ::
    "('c, 's) api \<Rightarrow> (int \<Rightarrow> nat \<Rightarrow> bool \<Rightarrow> cell_error + 's) \<Rightarrow> ('c, 's, 'b) instr_lib \<Rightarrow> bool \<Rightarrow> bool \<Rightarrow> nat
      \<Rightarrow> (('c, 's, 'b) stk, fault, 's option) act" where
  "pop_key_opt A key M is_int sgnd n =
     (if is_int then bnd pop_int (\<lambda>x.
        if \<not> key_fits A x n sgnd then ret None
        else bnd (lift_res cell_fault (key x n sgnd)) (\<lambda>k. ret (Some k)))
      else bnd pop_cs (\<lambda>cs. bnd (lift_res cell_fault (slice_key M cs n)) (\<lambda>k. ret (Some k))))"

definition to_value_ref :: "('c, 's) api \<Rightarrow> ('c, 's, 'b) cell_lib \<Rightarrow> 's \<Rightarrow> vm_error + ('c, 's, 'b) sval" where
  "to_value_ref A L cs =
     (if slice_size_bits A cs = 0 \<and> slice_size_refs A cs = 1
      then (case sl_load_reference L cs of Inl e \<Rightarrow> Inl (CellError e) | Inr (c, _) \<Rightarrow> Inr (VCell c))
      else Inl DictError)"

definition extract_value_ref ::
    "('c, 's) api \<Rightarrow> ('c, 's, 'b) cell_lib \<Rightarrow> bool \<Rightarrow> 's \<Rightarrow> vm_error + ('c, 's, 'b) sval" where
  "extract_value_ref A L is_ref cs = (if is_ref then to_value_ref A L cs else Inr (VSlice cs))"

text \<open>\<open>prev.map(f).transpose()\<close>\<close>

definition transpose_opt :: "('a \<Rightarrow> vm_error + 'v) \<Rightarrow> 'a option \<Rightarrow> ('s, fault, 'v option) act" where
  "transpose_opt f x = (case x of None \<Rightarrow> ret None | Some a \<Rightarrow> bnd (lift_res VmErr (f a)) (\<lambda>v. ret (Some v)))"

definition value_to_store ::
    "('c, 's, 'b) instr_lib \<Rightarrow> bool \<Rightarrow> bool \<Rightarrow> ('c, 's, 'b) sval \<Rightarrow> vm_error + ('c, 's) stored" where
  "value_to_store M b is_ref v =
     (if b then map_sum id (\<lambda>x. StoreSlice (b_as_full_slice M x)) (into_cell_builder v)
      else if is_ref then map_sum id StoreCell (into_cell v)
      else map_sum id StoreSlice (into_cell_slice v))"

section \<open>Dictionaries in slices\<close>

definition exec_stdict :: "('c, 's, 'b) instr_lib \<Rightarrow> ('c, 's, 'b, int) vm" where
  "exec_stdict M = st_op (bnd pop_builder (\<lambda>b. bnd pop_cell_opt (\<lambda>c.
     bnd (lift_res cell_fault (b_store_opt_cell M b c)) (\<lambda>b'. push_raw (VBuilder b')))))"

definition exec_skip_dict :: "('c, 's) api \<Rightarrow> ('c, 's, 'b) instr_lib \<Rightarrow> ('c, 's, 'b, int) vm" where
  "exec_skip_dict A M = st_op (bnd pop_cs (\<lambda>cs.
     bnd (lift_res cell_fault (sl_load_bit M cs)) (\<lambda>(has_root, cs1).
     bnd (if has_root then lift_res cell_fault (slice_skip_first A cs1 0 1) else ret cs1) (\<lambda>cs2.
     push_raw (VSlice cs2)))))"

definition exec_load_dict_slice ::
    "('c, 's, 'b) cell_lib \<Rightarrow> ('c, 's, 'b) instr_lib \<Rightarrow> bool \<Rightarrow> ('c, 's, 'b, int) vm" where
  "exec_load_dict_slice L M preload = st_op (bnd pop_cs (\<lambda>cs.
     bnd (lift_res cell_fault (sl_get_bit L cs 0)) (\<lambda>has_root.
     bnd (lift_res cell_fault (sl_load_prefix M cs 1 (of_bool has_root))) (\<lambda>(dict_cs, cs').
     thn (push_raw (VSlice dict_cs)) (if preload then ret () else push_raw (VSlice cs'))))))"

definition exec_load_dict ::
    "('c, 's) api \<Rightarrow> ('c, 's, 'b) cell_lib \<Rightarrow> ('c, 's, 'b) instr_lib \<Rightarrow> bool \<Rightarrow> bool \<Rightarrow> ('c, 's, 'b, int) vm" where
  "exec_load_dict A L M preload quiet = st_op (bnd pop_cs (\<lambda>cs.
     if (case sl_get_bit L cs 0 of Inr has_root \<Rightarrow> has_remaining A cs 1 (of_bool has_root) | Inl _ \<Rightarrow> False) then
       bnd (lift_res cell_fault (sl_load_opt_cell M cs)) (\<lambda>(dict, cs').
       thn (push_opt_cell dict)
      (thn (if preload then ret () else push_raw (VSlice cs')) (if quiet then push_bool True else ret ())))
     else if quiet then thn (if preload then ret () else push_raw (VSlice cs)) (push_bool False)
     else vm_fail (CellError ECellUnderflow)))"

section \<open>Lookup\<close>

definition exec_dict_get ::
    "('c, 's) api \<Rightarrow> ('c, 's, 'b) cell_lib \<Rightarrow> ('c, 's, 'b) instr_lib \<Rightarrow> nat \<Rightarrow> ('c, 's, 'b, int) vm" where
  "exec_dict_get A L M s =
     bnd (on_stack (pop_smallint_range 0 1023)) (\<lambda>n.
     bnd (on_stack pop_cell_opt) (\<lambda>dict.
     bnd (on_stack (pop_key_opt A (int_key_truncate L M) M (da_is_int s) (da_is_signed s) n)) (\<lambda>key.
     case key of
       None \<Rightarrow> st_op (push_bool False)
     | Some k \<Rightarrow>
         bnd (if da_is_ref s then
                bnd (on_gas (run_read A (dict_get M dict n k))) (transpose_opt (to_value_ref A L))
              else
                bnd (on_gas (run_read A (dict_get_owned M dict n k))) (\<lambda>v. ret (map_option VSlice v))) (\<lambda>found.
         case found of
           None \<Rightarrow> st_op (push_bool False)
         | Some v \<Rightarrow> st_op (thn (push_raw v) (push_bool True))))))"

definition exec_dict_get_optref ::
    "('c, 's) api \<Rightarrow> ('c, 's, 'b) cell_lib \<Rightarrow> ('c, 's, 'b) instr_lib \<Rightarrow> nat \<Rightarrow> ('c, 's, 'b, int) vm" where
  "exec_dict_get_optref A L M s =
     bnd (on_stack (pop_smallint_range 0 1023)) (\<lambda>n.
     bnd (on_stack pop_cell_opt) (\<lambda>dict.
     bnd (on_stack (pop_key_opt A (int_key L M) M (sa_is_int s) (sa_is_signed s) n)) (\<lambda>key.
     case key of
       None \<Rightarrow> st_op push_null
     | Some k \<Rightarrow>
         bnd (on_gas (run_read A (dict_get M dict n k))) (\<lambda>found.
         bnd (transpose_opt (to_value_ref A L) found) (\<lambda>v. st_op (push_opt_raw v))))))"

text \<open>A key out of range is answered by the bound on its side, if it lies on the searched side.\<close>

definition flip_bound :: "dict_bound \<Rightarrow> dict_bound" where
  "flip_bound d = (case d of BoundMin \<Rightarrow> BoundMax | BoundMax \<Rightarrow> BoundMin)"

definition exec_dict_get_near ::
    "('c, 's) api \<Rightarrow> ('c, 's, 'b) cell_lib \<Rightarrow> ('c, 's, 'b) instr_lib \<Rightarrow> nat \<Rightarrow> ('c, 's, 'b, int) vm" where
  "exec_dict_get_near A L M s =
     (let max_key_bits = (if na_is_int s then 256 + of_bool (na_is_signed s) else 1023);
          sgnd = na_is_signed s;
          dir = (if na_is_prev s then BoundMin else BoundMax)
      in bnd (on_stack (pop_smallint_range 0 max_key_bits)) (\<lambda>n.
         bnd (on_stack pop_cell_opt) (\<lambda>dict.
         if na_is_int s then
           bnd (on_stack pop_int) (\<lambda>x.
           bnd (if key_fits A x n sgnd then
                  bnd (lift_res cell_fault (int_key L M x n sgnd)) (\<lambda>k.
                  on_gas (run_read A (dict_find_owned M dict n k dir (na_is_eq s) sgnd)))
                else if (x < 0) \<noteq> na_is_prev s then
                  on_gas (run_read A (dict_find_bound_owned M dict n (flip_bound dir) sgnd))
                else ret None) (\<lambda>nearest.
           case nearest of
             None \<Rightarrow> st_op (push_bool False)
           | Some (key, v) \<Rightarrow>
               thn (on_stack (push_raw (VSlice v)))
              (bnd (lift_res cell_fault (slice_load_bigint A (b_as_data_slice M key) n sgnd)) (\<lambda>(y, _).
               st_op (thn (push_raw (VInt y)) (push_bool True))))))
         else
           bnd (on_stack pop_cs) (\<lambda>cs.
           bnd (lift_res cell_fault (slice_key M cs n)) (\<lambda>k.
           bnd (on_gas (run_read A (dict_find_owned M dict n k dir (na_is_eq s) False))) (\<lambda>nearest.
           case nearest of
             None \<Rightarrow> st_op (push_bool False)
           | Some (key, v) \<Rightarrow>
               thn (on_stack (push_raw (VSlice v)))
              (bnd (on_gas (build_ext L key)) (\<lambda>cell.
               st_op (thn (push_raw (VSlice (slice_of_cell A cell))) (push_bool True))))))))))"

text \<open>The least or greatest key, with its value; the removing forms push the rest of the dictionary first.\<close>

definition exec_dict_get_min ::
    "('c, 's) api \<Rightarrow> ('c, 's, 'b) cell_lib \<Rightarrow> ('c, 's, 'b) instr_lib \<Rightarrow> nat \<Rightarrow> ('c, 's, 'b, int) vm" where
  "exec_dict_get_min A L M s =
     (let max_key_bits = (if da_is_int s then 256 + of_bool (da_is_signed s) else 1023);
          bound = (if da_is_max s then BoundMax else BoundMin);
          sgnd = da_is_signed s;
          push_key = (\<lambda>n key.
            if da_is_int s then
              bnd (lift_res cell_fault (slice_load_bigint A (b_as_data_slice M key) n sgnd)) (\<lambda>(y, _).
              st_op (thn (push_raw (VInt y)) (push_bool True)))
            else
              bnd (on_gas (build_ext L key)) (\<lambda>cell.
              st_op (thn (push_raw (VSlice (slice_of_cell A cell))) (push_bool True))))
      in bnd (on_stack (pop_smallint_range 0 max_key_bits)) (\<lambda>n.
         bnd (on_stack pop_cell_opt) (\<lambda>dict.
         if da_is_rem s then
           bnd (on_gas (run_ctx A L (dict_remove_bound_owned M dict n bound sgnd))) (\<lambda>(dict', removed).
           bnd (transpose_opt (\<lambda>(key, v). map_sum id (Pair key) (extract_value_ref A L (da_is_ref s) v)) removed) (\<lambda>prev.
           thn (on_stack (push_opt_cell dict'))
          (case prev of
             None \<Rightarrow> st_op (push_bool False)
           | Some (key, v) \<Rightarrow> thn (on_stack (push_raw v)) (push_key n key))))
         else
           bnd (on_gas (run_read A (dict_find_bound_owned M dict n bound sgnd))) (\<lambda>found.
           case found of
             None \<Rightarrow> st_op (push_bool False)
           | Some (key, v0) \<Rightarrow>
               bnd (lift_res VmErr (extract_value_ref A L (da_is_ref s) v0)) (\<lambda>v.
               thn (on_stack (push_raw v)) (push_key n key))))))"

section \<open>Update\<close>

text \<open>
  Any error of a replacing or adding insertion is answered by false, also that of an exhausted gas
  consumer; the dictionary goes back as it was.
\<close>

definition exec_dict_set ::
    "('c, 's) api \<Rightarrow> ('c, 's, 'b) cell_lib \<Rightarrow> ('c, 's, 'b) instr_lib \<Rightarrow> nat \<Rightarrow> bool \<Rightarrow> set_mode \<Rightarrow> ('c, 's, 'b, int) vm" where
  "exec_dict_set A L M s b mode =
     bnd (on_stack (pop_smallint_range 0 1023)) (\<lambda>n.
     bnd (on_stack pop_cell_opt) (\<lambda>dict.
     bnd (on_stack (pop_key L M (da_is_int s) (da_is_signed s) n)) (\<lambda>key.
     bnd (on_stack pop) (\<lambda>v0.
     bnd (lift_res VmErr (value_to_store M b (da_is_ref s) v0)) (\<lambda>v.
     bnd (attempt (run_ctx A L (dict_insert M dict key n v mode))) (\<lambda>result.
     thn (on_stack (push_opt_cell (case result of Inr dict' \<Rightarrow> dict' | Inl _ \<Rightarrow> dict)))
    (if mode = SetSet then (case result of Inl e \<Rightarrow> fail (cell_fault e) | Inr _ \<Rightarrow> ret 0)
     else st_op (push_bool (case result of Inr _ \<Rightarrow> True | Inl _ \<Rightarrow> False)))))))))"

definition exec_dict_setget ::
    "('c, 's) api \<Rightarrow> ('c, 's, 'b) cell_lib \<Rightarrow> ('c, 's, 'b) instr_lib \<Rightarrow> nat \<Rightarrow> bool \<Rightarrow> set_mode \<Rightarrow> ('c, 's, 'b, int) vm" where
  "exec_dict_setget A L M s b mode =
     (let ok_f = (mode \<noteq> SetAdd) in
      bnd (on_stack (pop_smallint_range 0 1023)) (\<lambda>n.
      bnd (on_stack pop_cell_opt) (\<lambda>dict.
      bnd (on_stack (pop_key L M (da_is_int s) (da_is_signed s) n)) (\<lambda>key.
      bnd (on_stack pop) (\<lambda>v0.
      bnd (lift_res VmErr (value_to_store M b (da_is_ref s) v0)) (\<lambda>v.
      bnd (on_gas (run_ctx A L (dict_insert_owned M dict key n v mode))) (\<lambda>(dict', prev0).
      bnd (transpose_opt (extract_value_ref A L (da_is_ref s)) prev0) (\<lambda>prev.
      thn (on_stack (push_opt_cell dict'))
     (case prev of
        Some p \<Rightarrow> st_op (thn (push_raw p) (push_bool ok_f))
      | None \<Rightarrow> st_op (push_bool (\<not> ok_f)))))))))))"

definition exec_dict_delete ::
    "('c, 's) api \<Rightarrow> ('c, 's, 'b) cell_lib \<Rightarrow> ('c, 's, 'b) instr_lib \<Rightarrow> nat \<Rightarrow> ('c, 's, 'b, int) vm" where
  "exec_dict_delete A L M s =
     bnd (on_stack (pop_smallint_range 0 1023)) (\<lambda>n.
     bnd (on_stack pop_cell_opt) (\<lambda>dict.
     bnd (on_stack (pop_key_opt A (int_key L M) M (sa_is_int s) (sa_is_signed s) n)) (\<lambda>key.
     case key of
       None \<Rightarrow> st_op (thn (push_opt_cell dict) (push_bool False))
     | Some k \<Rightarrow>
         bnd (on_gas (run_ctx A L (dict_remove_owned M dict k n True))) (\<lambda>(dict', result).
         st_op (thn (push_opt_cell dict') (push_bool (result \<noteq> None)))))))"

definition exec_dict_deleteget ::
    "('c, 's) api \<Rightarrow> ('c, 's, 'b) cell_lib \<Rightarrow> ('c, 's, 'b) instr_lib \<Rightarrow> nat \<Rightarrow> ('c, 's, 'b, int) vm" where
  "exec_dict_deleteget A L M s =
     bnd (on_stack (pop_smallint_range 0 1023)) (\<lambda>n.
     bnd (on_stack pop_cell_opt) (\<lambda>dict.
     bnd (on_stack (pop_key_opt A (int_key L M) M (da_is_int s) (da_is_signed s) n)) (\<lambda>key.
     case key of
       None \<Rightarrow> st_op (thn (push_opt_cell dict) (push_bool False))
     | Some k \<Rightarrow>
         bnd (on_gas (run_ctx A L (dict_remove_owned M dict k n False))) (\<lambda>(dict', prev0).
         bnd (transpose_opt (extract_value_ref A L (da_is_ref s)) prev0) (\<lambda>prev.
         thn (on_stack (push_opt_cell dict'))
        (case prev of
           Some p \<Rightarrow> st_op (thn (push_raw p) (push_bool True))
         | None \<Rightarrow> st_op (push_bool False)))))))"

definition exec_dict_setget_optref ::
    "('c, 's) api \<Rightarrow> ('c, 's, 'b) cell_lib \<Rightarrow> ('c, 's, 'b) instr_lib \<Rightarrow> nat \<Rightarrow> ('c, 's, 'b, int) vm" where
  "exec_dict_setget_optref A L M s =
     bnd (on_stack (pop_smallint_range 0 1023)) (\<lambda>n.
     bnd (on_stack pop_cell_opt) (\<lambda>dict.
     bnd (on_stack (pop_key L M (sa_is_int s) (sa_is_signed s) n)) (\<lambda>key.
     bnd (on_stack pop_cell_opt) (\<lambda>v.
     bnd (on_gas (run_ctx A L (case v of
            Some c \<Rightarrow> dict_insert_owned M dict key n (StoreCell c) SetSet
          | None \<Rightarrow> dict_remove_owned M dict key n False))) (\<lambda>(dict', prev0).
     bnd (transpose_opt (extract_value_ref A L True) prev0) (\<lambda>prev.
     st_op (thn (push_opt_cell dict') (push_opt_raw prev))))))))"

section \<open>Control flow\<close>

definition exec_dict_get_exec ::
    "('c, 's) api \<Rightarrow> ('c, 's, 'b) cell_lib \<Rightarrow> ('c, 's, 'b) instr_lib \<Rightarrow> nat \<Rightarrow> ('c, 's, 'b, int) vm" where
  "exec_dict_get_exec A L M s =
     (let sgnd = ea_is_signed s;
          absent = (\<lambda>x. if ea_is_z s then st_op (push_raw (VInt x)) else ret 0)
      in bnd (on_stack (pop_smallint_range 0 1023)) (\<lambda>n.
         bnd (on_stack pop_cell_opt) (\<lambda>dict.
         bnd (on_stack pop_int) (\<lambda>x.
         if \<not> key_fits A x n sgnd then absent x
         else
           bnd (lift_res cell_fault (int_key L M x n sgnd)) (\<lambda>k.
           bnd (on_gas (run_read A (dict_get_owned M dict n k))) (\<lambda>found.
           case found of
             None \<Rightarrow> absent x
           | Some v \<Rightarrow> bnd (gets cp) (\<lambda>p.
               if ea_is_exec s then vm_call A (ord_simple v p) else vm_jump (ord_simple v p))))))))"

definition exec_push_const_dict ::
    "('c, 's) api \<Rightarrow> ('c, 's, 'b) cell_lib \<Rightarrow> ('c, 's, 'b) instr_lib \<Rightarrow> nat \<Rightarrow> nat \<Rightarrow> ('c, 's, 'b, int) vm" where
  "exec_push_const_dict A L M args bits =
     bnd (gets code) (\<lambda>k0.
     thn (vm_ensure (has_remaining A k0 bits 1) InvalidOpcode)
    (thn (skip_checked A (bits - 11) 0)
    (bnd (gets code) (\<lambda>k.
     bnd (lift_res cell_fault (sl_load_prefix M k 1 1)) (\<lambda>(slice, k1).
     bnd (lift_res cell_fault (slice_get_reference A slice 0)) (\<lambda>dict.
     bnd (lift_res cell_fault (sl_load_uint L k1 10)) (\<lambda>(n, k2).
     thn (modify (\<lambda>st. st\<lparr>code := k2\<rparr>))
         (st_op (thn (push_raw (VCell dict)) (push_int (int n)))))))))))"

section \<open>The invariant\<close>

lemma calm_dict [calm_rules]:
  "calm (push_opt_cell d)" "calm (pop_key L M i sgnd n)" "calm (pop_key_opt A key M i sgnd n)"
  "calm (transpose_opt f x)"
  unfolding push_opt_cell_def pop_key_def pop_key_opt_def transpose_opt_def by (intro calm_rules)+

lemma safe_transpose [safe_rules]: "safe (transpose_opt f x)"
  unfolding transpose_opt_def by (intro safe_rules)

lemma safe_set_code_to [safe_rules]: "safe (modify (\<lambda>st. st\<lparr>code := k\<rparr>))"
  by (rule safe_modify) simp

lemma dictops_safe:
  "safe (exec_stdict M)" "safe (exec_skip_dict A M)" "safe (exec_load_dict_slice L M preload)"
  "safe (exec_load_dict A L M preload quiet)" "safe (exec_dict_get A L M s)"
  "safe (exec_dict_get_optref A L M s)" "safe (exec_dict_get_near A L M s)"
  unfolding exec_stdict_def exec_skip_dict_def exec_load_dict_slice_def exec_load_dict_def exec_dict_get_def
    exec_dict_get_optref_def exec_dict_get_near_def
  by (intro safe_rules calm_rules)+

lemma dictops_safe2:
  "safe (exec_dict_get_min A L M s)" "safe (exec_dict_setget A L M s b mode)"
  "safe (exec_dict_delete A L M s)" "safe (exec_dict_deleteget A L M s)"
  "safe (exec_dict_setget_optref A L M s)" "safe (exec_dict_get_exec A L M s)"
  "safe (exec_push_const_dict A L M args bits)"
  unfolding exec_dict_get_min_def exec_dict_setget_def exec_dict_delete_def exec_dict_deleteget_def
    exec_dict_setget_optref_def exec_dict_get_exec_def exec_push_const_dict_def Let_def
  by (intro safe_rules calm_rules)+

lemma dict_set_lenient: "lenient (exec_dict_set A L M s b mode)"
proof -
  let ?k = "\<lambda>dict result. thn (on_stack (push_opt_cell (case result of Inr dict' \<Rightarrow> dict' | Inl _ \<Rightarrow> dict)))
    (if mode = SetSet then (case result of Inl e \<Rightarrow> fail (cell_fault e) | Inr _ \<Rightarrow> ret 0)
     else st_op (push_bool (case result of Inr _ \<Rightarrow> True | Inl _ \<Rightarrow> False))) :: ('a, 'b, 'c, int) vm"
  have "lenient (bnd (attempt m) (?k dict))" if m: "upholds meter_inv meter_err m" for m dict
  proof (rule lenient_attempt[OF m], goal_cases)
    case (1 r)
    have "safe ((case r of Inl e \<Rightarrow> fail (cell_fault e) | Inr _ \<Rightarrow> ret 0) :: ('a, 'b, 'c, int) vm)"
      by (cases r) (auto intro: vm.upholds_fail safe_rules simp: cell_fault_def)
    then show ?case by (intro safe_lenient vm.upholds_thn vm.upholds_if) (intro safe_rules calm_rules | assumption)+
  next
    case 2
    show ?case unfolding sum.case by (intro mild_rules calm_rules)
  qed
  note last = this[OF run_ctx_metered]
  show ?thesis
    unfolding exec_dict_set_def
    by (intro lenient_after[OF safe_on_stack] lenient_after[OF safe_lift(1)] calm_rules last)
qed

end
