(* ===== verification/RandOps.thy ===== *)
theory RandOps
  imports InstrLib
begin

text \<open>
  \<open>vm/src/instr/randops.rs\<close>: the pseudo-random generator, whose seed is an item of the tuple in
  \<open>c7\<close>. SHA-256 and SHA-512 are fields of \<open>instr_lib\<close>.
\<close>

section \<open>Handlers\<close>

definition RANDSEED_IDX :: nat where "RANDSEED_IDX = 6"

text \<open>The magnitude of an integer as at most 32 bytes, most significant first; higher bytes are dropped. The error of a
  negative one carries a text, here -1.\<close>

definition to_bytes_be :: "('c, 's, 'b) cell_lib \<Rightarrow> int \<Rightarrow> vm_error + nat list" where
  "to_bytes_be L x = (if x < 0 then Inl (IntegerOutOfRange 0 i64_max (-1))
     else Inr (magnitude_be L x))"

text \<open>The tuple \<open>c7\<close> with the item tuple in it: the checks shared by the two functions.\<close>

definition c7_with_items :: "('c, 's, 'b) control_regs \<Rightarrow> vm_error + ('c, 's, 'b) sval list \<times> ('c, 's, 'b) sval list" where
  "c7_with_items r = (case reg_c7 r of
      None \<Rightarrow> Inl (ControlRegisterOutOfRange 7)
    | Some [] \<Rightarrow> Inl (InvalidType TyTuple TyNull)
    | Some (t1v # rest) \<Rightarrow> (case as_tuple_range 0 255 t1v of
        None \<Rightarrow> Inl (InvalidType TyTuple (ty t1v))
      | Some t1 \<Rightarrow> Inr (t1, t1v # rest)))"

definition seed_bytes :: "('c, 's, 'b) cell_lib \<Rightarrow> ('c, 's, 'b) sval list \<Rightarrow> vm_error + nat list" where
  "seed_bytes L t1 = (if RANDSEED_IDX < length t1
     then (case into_int (t1 ! RANDSEED_IDX) of Inl e \<Rightarrow> Inl e | Inr x \<Rightarrow> to_bytes_be L x)
     else Inl (InvalidType TyInt TyNull))"

text \<open>The new item tuple goes back into \<open>c7\<close>; then both tuples are paid for.\<close>

definition store_items :: "('c, 's, 'b) sval list \<Rightarrow> ('c, 's, 'b) sval list \<Rightarrow> ('c, 's, 'b, unit) vm" where
  "store_items c7 t1 =
     (let c7' = c7[0 := VTuple t1] in
      thn (modify (\<lambda>st. st\<lparr>cr := set_c7 c7' (cr st)\<rparr>))
     (thn (on_gas (try_consume_tuple_gas (length t1)))
          (on_gas (try_consume_tuple_gas (length c7')))))"

definition generate_random_u256 ::
    "('c, 's, 'b) cell_lib \<Rightarrow> ('c, 's, 'b) instr_lib \<Rightarrow> ('c, 's, 'b, nat list) vm" where
  "generate_random_u256 L M =
     bnd (gets cr) (\<lambda>r.
     bnd (lift_res VmErr (c7_with_items r)) (\<lambda>(t1, c7).
     bnd (lift_res VmErr (seed_bytes L t1)) (\<lambda>bytes.
     let hash = sha512 M (pad_left 32 bytes);
         new_seed = int (bi_from_bytes_be L (take 32 hash))
     in thn (store_items c7 (t1[RANDSEED_IDX := VInt new_seed])) (ret (drop 32 hash)))))"

definition exec_randu256 :: "('c, 's, 'b) cell_lib \<Rightarrow> ('c, 's, 'b) instr_lib \<Rightarrow> ('c, 's, 'b, int) vm" where
  "exec_randu256 L M = bnd (generate_random_u256 L M) (\<lambda>bytes.
     st_op (push_int (int (bi_from_bytes_be L bytes))))"

definition exec_rand_int :: "('c, 's, 'b) cell_lib \<Rightarrow> ('c, 's, 'b) instr_lib \<Rightarrow> ('c, 's, 'b, int) vm" where
  "exec_rand_int L M = bnd (on_stack pop_int) (\<lambda>x. bnd (generate_random_u256 L M) (\<lambda>bytes.
     st_op (push_raw (VInt (drop_bit 256 (x * int (bi_from_bytes_be L bytes)))))))"

text \<open>\<open>resize_with\<close> grows the item tuple with nulls when it has no seed yet.\<close>

definition set_seed :: "int \<Rightarrow> ('c, 's, 'b) sval list \<Rightarrow> ('c, 's, 'b) sval list" where
  "set_seed x t1 =
     (let t1' = (if length t1 \<le> RANDSEED_IDX then resize (RANDSEED_IDX + 1) VNull t1 else t1)
      in t1'[RANDSEED_IDX := VInt x])"

definition exec_set_rand ::
    "('c, 's, 'b) cell_lib \<Rightarrow> ('c, 's, 'b) instr_lib \<Rightarrow> bool \<Rightarrow> ('c, 's, 'b, int) vm" where
  "exec_set_rand L M mix =
     bnd (on_stack pop_int) (\<lambda>x.
     thn (vm_ensure (0 \<le> x \<and> x < 2 ^ 256) (IntegerOutOfRange 0 256 (int (bit_length (nat \<bar>x\<bar>)))))
    (bnd (gets cr) (\<lambda>r.
     bnd (lift_res VmErr (c7_with_items r)) (\<lambda>(t1, c7).
     bnd (if mix then
            bnd (lift_res VmErr (seed_bytes L t1)) (\<lambda>seed.
            bnd (lift_res VmErr (to_bytes_be L x)) (\<lambda>bytes.
            ret (int (bi_from_bytes_be L (sha256 M (pad_left 32 seed @ pad_left 32 bytes))))))
          else ret x) (\<lambda>x'.
     thn (store_items c7 (set_seed x' t1)) (ret 0))))))"

section \<open>The invariant\<close>

lemma safe_store_items [safe_rules]: "safe (store_items c7 t1)"
  unfolding store_items_def by (intro safe_rules)

lemma safe_random [safe_rules]: "safe (generate_random_u256 L M)"
  unfolding generate_random_u256_def by (intro safe_rules)

lemma randops_safe: "safe (exec_randu256 L M)" "safe (exec_rand_int L M)" "safe (exec_set_rand L M mix)"
  unfolding exec_randu256_def exec_rand_int_def exec_set_rand_def by (intro safe_rules calm_rules)+

end
