(* ===== verification/MessageOps.thy ===== *)
theory MessageOps
  imports ConfigOps
begin

text \<open>
  \<open>vm/src/instr/messageops.rs\<close>: output actions, installed as a linked list of cells in \<open>c5\<close>, and the
  fees of a message before it is sent. The layout of a parsed message is always set, so
  \<open>msg.layout.unwrap()\<close> is the pair of fields of \<open>relaxed_message\<close>.
\<close>

section \<open>Helpers of the source\<close>

definition MYADDR_IDX :: nat where "MYADDR_IDX = 8"
definition IN_MSG_VALUE_IDX :: nat where "IN_MSG_VALUE_IDX = 11"
definition ACTIONS_REG_IDX :: nat where "ACTIONS_REG_IDX = 5"
definition MAX_BIT_LEN :: nat where "MAX_BIT_LEN = 1023"
definition MAX_REF_COUNT :: nat where "MAX_REF_COUNT = 4"

text \<open>\<open>CellBuilder::build_from_ext((c5, action), gas)\<close>: the previous list and the action.\<close>

definition build_action ::
    "('c, 's) api \<Rightarrow> ('c, 's, 'b) cell_lib \<Rightarrow> ('c, 's, 'b) instr_lib \<Rightarrow> 'c \<Rightarrow> 'c out_action \<Rightarrow> ('c, 'c) gas_act" where
  "build_action A L M c5 action =
     bnd (lift_res id (b_store_reference L (b_new L) c5)) (\<lambda>b.
     bnd (run_ctx A L (store_out_action M b action)) (build_ext L))"

definition add_action ::
    "('c, 's) api \<Rightarrow> ('c, 's, 'b) cell_lib \<Rightarrow> ('c, 's, 'b) instr_lib \<Rightarrow> 'c out_action \<Rightarrow> ('c, 's, 'b, int) vm" where
  "add_action A L M action = bnd (gets (regs_get_d ACTIONS_REG_IDX \<circ> cr)) (\<lambda>c5. case c5 of
      None \<Rightarrow> vm_fail (ControlRegisterOutOfRange ACTIONS_REG_IDX)
    | Some c \<Rightarrow>
        bnd (on_gas (build_action A L M c action)) (\<lambda>actions_head.
        thn (modify (\<lambda>st. st\<lparr>cr := snd (regs_set_d ACTIONS_REG_IDX actions_head (cr st))\<rparr>)) (ret 0)))"

definition bigint_to_tokens :: "('c, 's, 'b) instr_lib \<Rightarrow> int \<Rightarrow> vm_error + nat" where
  "bigint_to_tokens M x =
     (if 0 \<le> x \<and> x < 2 ^ 128 \<and> nat x \<le> tokens_max M then Inr (nat x)
      else Inl (IntegerOutOfRange 0 (wrap_i64 (int (tokens_max M))) x))"

definition tokens_bit_len :: "('c, 's, 'b) instr_lib \<Rightarrow> nat \<Rightarrow> vm_error + nat" where
  "tokens_bit_len M v = (case tokens_bits M v of None \<Rightarrow> Inl IntegerOverflow | Some n \<Rightarrow> Inr n)"

definition tokens_mul_frac :: "nat \<Rightarrow> nat \<Rightarrow> nat" where
  "tokens_mul_frac v num = drop_bit 16 (min (v * num) (2 ^ 128 - 1))"

definition ext_addr_bit_len :: "('c, 's, 'b) instr_lib \<Rightarrow> (nat \<times> nat list) option \<Rightarrow> nat" where
  "ext_addr_bit_len M addr = (case addr of Some a \<Rightarrow> 2 + ext_addr_bits M a | None \<Rightarrow> 2)"

text \<open>Returns the mode and whether to send.\<close>

definition pop_send_msg_mode_ext :: "(('c, 's, 'b) stk, fault, nat \<times> bool) act" where
  "pop_send_msg_mode_ext = bnd (pop_smallint_range 0 2047) (\<lambda>raw_mode.
     let mode = take_bit 10 raw_mode in
     thn (vm_ensure (mode < 256) (IntegerOutOfRange 0 255 (int mode))) (ret (mode, \<not> bit raw_mode 10)))"

definition pop_change_library_mode :: "vm_version \<Rightarrow> (('c, 's, 'b) stk, fault, nat) act" where
  "pop_change_library_mode v =
     (if is_ton 4 v then
        bnd (pop_smallint_range 0 0b11111) (\<lambda>mode.
        thn (vm_ensure (take_bit 4 mode \<le> 2) (IntegerOutOfRange 0 0b11111 (int mode))) (ret mode))
      else pop_smallint_range 0 2)"

text \<open>\<open>parse_addr_workchain\<close>: the workchain of a standard or a variable address.\<close>

definition parse_addr_workchain ::
    "('c, 's) api \<Rightarrow> ('c, 's, 'b) cell_lib \<Rightarrow> ('c, 's, 'b) instr_lib \<Rightarrow> 's \<Rightarrow> ('s', fault, int) act" where
  "parse_addr_workchain A L M addr =
     bnd (lift_res cell_fault (sl_load_bit M addr)) (\<lambda>(is_int, cs1).
     thn (vm_ensure is_int (IntegerOutOfRange 1 1 0))
    (bnd (lift_res cell_fault (sl_load_bit M cs1)) (\<lambda>(is_var, cs2).
     bnd (lift_res cell_fault (sl_load_bit M cs2)) (\<lambda>(has_anycast, cs3).
     bnd (if has_anycast then
            bnd (lift_res cell_fault (load_uint_leq L cs3 30)) (\<lambda>(n, cs).
            bnd (lift_res cell_fault (split_depth_new M n)) (\<lambda>d.
            lift_res cell_fault (slice_skip_first A cs d 0)))
          else ret cs3) (\<lambda>cs4.
     if is_var then
       bnd (lift_res cell_fault (slice_skip_first A cs4 9 0)) (\<lambda>cs5.
       bnd (lift_res cell_fault (sl_load_u32 L cs5)) (\<lambda>(w, _). ret (signed_take_bit 31 (int w))))
     else
       bnd (lift_res cell_fault (sl_load_u8 M cs4)) (\<lambda>(w, _). ret (signed_take_bit 7 (int w))))))))"

section \<open>Actions\<close>

definition exec_send_message_raw ::
    "('c, 's) api \<Rightarrow> ('c, 's, 'b) cell_lib \<Rightarrow> ('c, 's, 'b) instr_lib \<Rightarrow> ('c, 's, 'b, int) vm" where
  "exec_send_message_raw A L M =
     bnd (on_stack (pop_smallint_range 0 255)) (\<lambda>mode.
     bnd (on_stack pop_cell) (\<lambda>cell.
     bnd (lift_res cell_fault (lazy_from_raw M cell)) (\<lambda>out_msg.
     add_action A L M (SendMsg (send_flags_of M mode) out_msg))))"

definition exec_reserve_raw ::
    "('c, 's) api \<Rightarrow> ('c, 's, 'b) cell_lib \<Rightarrow> ('c, 's, 'b) instr_lib \<Rightarrow> bool \<Rightarrow> ('c, 's, 'b, int) vm" where
  "exec_reserve_raw A L M x =
     bnd (gets version) (\<lambda>v.
     bnd (on_stack (pop_smallint_range 0 (if is_ton 4 v then 0b11111 else 0b1111))) (\<lambda>mode.
     bnd (if x then on_stack pop_cell_opt else ret None) (\<lambda>extra.
     bnd (on_stack pop_int) (\<lambda>n.
     bnd (lift_res VmErr (bigint_to_tokens M n)) (\<lambda>t.
     add_action A L M (ReserveCurrency (reserve_flags_of M mode) \<lparr>tokens = t, other = extra\<rparr>))))))"

definition exec_set_code_action ::
    "('c, 's) api \<Rightarrow> ('c, 's, 'b) cell_lib \<Rightarrow> ('c, 's, 'b) instr_lib \<Rightarrow> ('c, 's, 'b, int) vm" where
  "exec_set_code_action A L M = bnd (on_stack pop_cell) (\<lambda>c. add_action A L M (SetCode c))"

definition exec_set_lib_code ::
    "('c, 's) api \<Rightarrow> ('c, 's, 'b) cell_lib \<Rightarrow> ('c, 's, 'b) instr_lib \<Rightarrow> ('c, 's, 'b, int) vm" where
  "exec_set_lib_code A L M =
     bnd (gets version) (\<lambda>v.
     bnd (on_stack (pop_change_library_mode v)) (\<lambda>mode.
     bnd (on_stack pop_cell) (\<lambda>c.
     add_action A L M (ChangeLibrary (library_flags_of M mode) (LibCell c)))))"

definition exec_change_lib ::
    "('c, 's) api \<Rightarrow> ('c, 's, 'b) cell_lib \<Rightarrow> ('c, 's, 'b) instr_lib \<Rightarrow> ('c, 's, 'b, int) vm" where
  "exec_change_lib A L M =
     bnd (gets version) (\<lambda>v.
     bnd (on_stack (pop_change_library_mode v)) (\<lambda>mode.
     bnd (on_stack pop_int) (\<lambda>x.
     thn (vm_ensure (0 \<le> x) (IntegerOutOfRange 0 i64_max x))
         (add_action A L M (ChangeLibrary (library_flags_of M mode)
            (LibHash (word_of_nat (bytes_value (pad_left 32 (magnitude_be L x))))))))))"

section \<open>The fees of a message\<close>

text \<open>What the first part of the handler collects: the fields of an internal message, or their defaults.\<close>

record msg_facts =
  mf_masterchain :: bool
  mf_ihr_disabled :: bool
  mf_value :: nat
  mf_extra :: bool
  mf_user_fwd_fee :: nat
  mf_user_ihr_fee :: nat

definition msg_facts_of :: "int \<Rightarrow> 'c relaxed_msg_info \<Rightarrow> msg_facts" where
  "msg_facts_of my_workchain info = (case info of
      RelInt i \<Rightarrow> \<lparr>mf_masterchain = (my_workchain = -1 \<or> addr_is_masterchain (ri_dst i)),
        mf_ihr_disabled = ri_ihr_disabled i, mf_value = tokens (ri_value i),
        mf_extra = (other (ri_value i) \<noteq> None), mf_user_fwd_fee = ri_fwd_fee i, mf_user_ihr_fee = ri_ihr_fee i\<rparr>
    | RelExtOut _ \<Rightarrow> \<lparr>mf_masterchain = (my_workchain = -1), mf_ihr_disabled = True, mf_value = 0,
        mf_extra = False, mf_user_fwd_fee = 0, mf_user_ihr_fee = 0\<rparr>)"

definition msg_prices ::
    "('c, 's) api \<Rightarrow> ('c, 's, 'b) cell_lib \<Rightarrow> ('c, 's, 'b) instr_lib \<Rightarrow> ('c, 's, 'b) sval list
      \<Rightarrow> ('c, 's, 'b) sval list option \<Rightarrow> bool \<Rightarrow> ('c, 's, 'b, msg_forward_prices) vm" where
  "msg_prices A L M t1 t2 mc = (case t2 of
      Some t \<Rightarrow>
        bnd (lift_res VmErr (try_get_ref into_cell_slice t (if mc then 4 else 5))) (\<lambda>cs.
        lift_res cell_fault (load_fwd_prices M cs))
    | None \<Rightarrow>
        bnd (lift_res VmErr (try_get_ref into_cell t1 CONFIG_IDX)) (\<lambda>root.
        bnd (u32_key L M (if mc then 24 else 25)) (\<lambda>key.
        bnd (on_gas (run_read A (dict_get M (Some root) 32 key))) (\<lambda>found.
        case found of
          None \<Rightarrow> vm_fail (Unknown ''invalid prices config'')
        | Some cs \<Rightarrow>
            bnd (lift_res cell_fault (sl_load_reference L cs)) (\<lambda>(c, _).
            bnd (on_gas (load_cell_impl A LoadFull c)) (\<lambda>c'.
            lift_res cell_fault (parse_fwd_prices M c')))))))"

text \<open>The bits and cells below the root of the message, without the extra currencies since version 10.\<close>

definition msg_stats ::
    "('c, 's) api \<Rightarrow> ('c, 's, 'b) cell_lib \<Rightarrow> ('c, 's, 'b) instr_lib \<Rightarrow> ('c, 's, 'b) sval list option \<Rightarrow> vm_version
      \<Rightarrow> bool \<Rightarrow> 'c \<Rightarrow> ('c, 's, 'b, nat \<times> nat) vm" where
  "msg_stats A L M t2 v has_extra msg_cell =
     bnd (case t2 of
            Some t \<Rightarrow> bnd (lift_res VmErr (try_get_ref into_cell_slice t 6)) (\<lambda>cs.
              bnd (lift_res cell_fault (load_size_limits M cs)) (\<lambda>l. ret (max_msg_cells l)))
          | None \<Rightarrow> ret (2 ^ 13)) (\<lambda>max_cells.
     bnd (lift_res cell_fault (sl_apply L (slice_of_cell A msg_cell))) (\<lambda>cs0.
     let cs1 = or_same (slice_skip_first A cs0 (slice_size_bits A cs0) 0) cs0;
         cs2 = (if is_ton 10 v \<and> has_extra then or_same (slice_skip_first A cs1 0 1) cs1 else cs1)
     in ret (tree_stats M max_cells cs2)))"

definition balance_tokens ::
    "('c, 's, 'b) instr_lib \<Rightarrow> ('c, 's, 'b) sval list \<Rightarrow> nat \<Rightarrow> vm_error + nat \<times> bool" where
  "balance_tokens M t1 i = (case try_get_ref into_tuple t1 i of
      Inl e \<Rightarrow> Inl e
    | Inr bal \<Rightarrow>
        let extra = (1 < length bal \<and> (case bal ! 1 of VCell _ \<Rightarrow> True | _ \<Rightarrow> False)) in
        (case tuple_try_get bal 0 of
           Inl e \<Rightarrow> Inl e
         | Inr v \<Rightarrow> (case as_int v of
             None \<Rightarrow> Inl (InvalidType TyInt (ty v))
           | Some x \<Rightarrow> map_sum id (\<lambda>t. (t, extra)) (bigint_to_tokens M x))))"

text \<open>
  The value an internal message will carry: the whole balance, or its value and that of the incoming
  message. Before version 10 their extra currencies count as well.
\<close>

definition adjust_value ::
    "('c, 's, 'b) instr_lib \<Rightarrow> ('c, 's, 'b) sval list \<Rightarrow> vm_version \<Rightarrow> send_mode \<Rightarrow> 'c relaxed_msg_info \<Rightarrow> msg_facts
      \<Rightarrow> vm_error + msg_facts" where
  "adjust_value M t1 v mode info mf = (case info of
      RelExtOut _ \<Rightarrow> Inr mf
    | RelInt _ \<Rightarrow>
        if all_balance mode then
          (case balance_tokens M t1 BALANCE_IDX of
             Inl e \<Rightarrow> Inl e
           | Inr (t, extra) \<Rightarrow>
               Inr (mf\<lparr>mf_value := t, mf_extra := (if is_ton_before 10 v then extra else mf_extra mf)\<rparr>))
        else if with_remaining_balance mode then
          (case balance_tokens M t1 IN_MSG_VALUE_IDX of
             Inl e \<Rightarrow> Inl e
           | Inr (t, extra) \<Rightarrow>
               if tokens_max M < mf_value mf + t then Inl (CellError EIntOverflow)
               else Inr (mf\<lparr>mf_value := mf_value mf + t,
                 mf_extra := (mf_extra mf \<or> is_ton_before 10 v \<and> extra)\<rparr>))
        else Inr mf)"

definition relaxed_msg_fees ::
    "('c, 's, 'b) instr_lib \<Rightarrow> msg_forward_prices \<Rightarrow> msg_facts \<Rightarrow> nat \<times> nat \<Rightarrow> nat \<times> nat" where
  "relaxed_msg_fees M p mf stats =
     (let short = forward_fee_of M p (fst stats) (snd stats)
      in (max short (mf_user_fwd_fee mf),
          if mf_ihr_disabled mf then 0
          else max (tokens_mul_frac short (ihr_price_factor p)) (mf_user_ihr_fee mf)))"

definition sum_bits :: "nat \<Rightarrow> (vm_error + nat) list \<Rightarrow> vm_error + nat" where
  "sum_bits n rs = foldl (\<lambda>acc r. case acc of Inl e \<Rightarrow> Inl e | Inr a \<Rightarrow> map_sum id ((+) a) r) (Inr n) rs"

definition msg_root_bits ::
    "('c, 's) api \<Rightarrow> ('c, 's, 'b) instr_lib \<Rightarrow> msg_forward_prices \<Rightarrow> msg_facts \<Rightarrow> 's \<Rightarrow> ('c, 's) relaxed_message \<Rightarrow> bool
      \<Rightarrow> nat \<times> nat \<Rightarrow> vm_error + nat" where
  "msg_root_bits A M p mf my_addr msg init_to_cell fees =
     (let my = slice_size_bits A my_addr;
          info = (case rx_info msg of
             RelExtOut e \<Rightarrow> Inr (2 + my + ext_addr_bit_len M (re_dst e) + 64 + 32)
           | RelInt i \<Rightarrow>
               sum_bits (4 + my + int_addr_bit_len M (ri_dst i) + 1 + 64 + 32)
                 [tokens_bit_len M (mf_value mf),
                  tokens_bit_len M (fst fees - tokens_mul_frac (fst fees) (first_frac p)),
                  tokens_bit_len M (snd fees)]);
          init = 1 + (case rx_init msg of
             Some st \<Rightarrow> 1 + (if init_to_cell then 0 else state_init_bit_len M st) | None \<Rightarrow> 0);
          body = 1 + (if rx_body_to_cell msg then 0 else slice_size_bits A (rx_body msg))
      in map_sum id (\<lambda>n. n + init + body) info)"

definition msg_root_refs ::
    "('c, 's) api \<Rightarrow> ('c, 's, 'b) instr_lib \<Rightarrow> msg_facts \<Rightarrow> ('c, 's) relaxed_message \<Rightarrow> bool \<Rightarrow> nat" where
  "msg_root_refs A M mf msg init_to_cell =
     (case rx_info msg of RelExtOut _ \<Rightarrow> 0 | RelInt _ \<Rightarrow> of_bool (mf_extra mf)) +
     (case rx_init msg of Some st \<Rightarrow> if init_to_cell then 1 else state_init_refs M st | None \<Rightarrow> 0) +
     (if rx_body_to_cell msg then 1 else slice_size_refs A (rx_body msg))"

definition msg_overflows ::
    "('c, 's) api \<Rightarrow> ('c, 's, 'b) instr_lib \<Rightarrow> msg_forward_prices \<Rightarrow> msg_facts \<Rightarrow> 's \<Rightarrow> ('c, 's) relaxed_message \<Rightarrow> bool
      \<Rightarrow> nat \<times> nat \<Rightarrow> vm_error + bool" where
  "msg_overflows A M p mf my_addr msg init_to_cell fees =
     map_sum id (\<lambda>bits. MAX_BIT_LEN < bits \<or> MAX_REF_COUNT < msg_root_refs A M mf msg init_to_cell)
       (msg_root_bits A M p mf my_addr msg init_to_cell fees)"

text \<open>
  A root that is too large gets its state moved to a cell of its own, and then its body, each one cell
  more to pay for.
\<close>

definition msg_layout_fees ::
    "('c, 's) api \<Rightarrow> ('c, 's, 'b) instr_lib \<Rightarrow> msg_forward_prices \<Rightarrow> msg_facts \<Rightarrow> 's \<Rightarrow> ('c, 's) relaxed_message
      \<Rightarrow> nat \<times> nat \<Rightarrow> vm_error + nat \<times> nat" where
  "msg_layout_fees A M p mf my_addr msg stats0 =
     (let over = msg_overflows A M p mf my_addr msg;
          with_init = (case rx_init msg of
             Some st \<Rightarrow>
               if rx_init_to_cell msg then Inr (True, stats0)
               else map_sum id (\<lambda>o1. if o1
                 then (True, (fst stats0 + state_init_bit_len M st, snd stats0 + 1))
                 else (False, stats0)) (over False (relaxed_msg_fees M p mf stats0))
           | None \<Rightarrow> Inr (rx_init_to_cell msg, stats0))
      in case with_init of
           Inl e \<Rightarrow> Inl e
         | Inr (init_to_cell, stats) \<Rightarrow>
             if rx_body_to_cell msg then Inr (relaxed_msg_fees M p mf stats)
             else map_sum id (\<lambda>o2. if o2
                 then relaxed_msg_fees M p mf (fst stats + slice_size_bits A (rx_body msg), snd stats + 1)
                 else relaxed_msg_fees M p mf stats) (over init_to_cell (relaxed_msg_fees M p mf stats)))"

definition exec_send_message ::
    "('c, 's) api \<Rightarrow> ('c, 's, 'b) cell_lib \<Rightarrow> ('c, 's, 'b) instr_lib \<Rightarrow> ('c, 's, 'b, int) vm" where
  "exec_send_message A L M =
     thn (require_version 4)
    (bnd (on_stack pop_send_msg_mode_ext) (\<lambda>(raw_mode, send).
     bnd (on_stack pop_cell) (\<lambda>raw_msg_cell.
     bnd (on_gas (load_cell_impl A LoadUseGas raw_msg_cell)) (\<lambda>msg_cell.
     bnd (lift_res cell_fault (parse_relaxed M msg_cell)) (\<lambda>msg.
     bnd (gets version) (\<lambda>v.
     bnd c7_params (\<lambda>t1.
     bnd (if is_ton 6 v then bnd (lift_res VmErr (try_get_tuple_range t1 PARSED_CONFIG_IDX 0 255)) (\<lambda>t. ret (Some t))
          else ret None) (\<lambda>t2.
     bnd (lift_res VmErr (try_get_ref into_cell_slice t1 MYADDR_IDX)) (\<lambda>my_addr.
     bnd (parse_addr_workchain A L M my_addr) (\<lambda>my_workchain.
     let mf0 = msg_facts_of my_workchain (rx_info msg); mode = send_flags_of M raw_mode in
     bnd (msg_prices A L M t1 t2 (mf_masterchain mf0)) (\<lambda>p.
     bnd (msg_stats A L M t2 v (mf_extra mf0) msg_cell) (\<lambda>stats.
     bnd (lift_res VmErr (adjust_value M t1 v mode (rx_info msg) mf0)) (\<lambda>mf.
     bnd (lift_res VmErr (msg_layout_fees A M p mf my_addr msg stats)) (\<lambda>(fwd, ihr).
     thn (on_stack (push_int (int (min (fwd + ihr) (2 ^ 128 - 1)))))
    (if send then
       bnd (lift_res cell_fault (lazy_from_raw M raw_msg_cell)) (\<lambda>out_msg.
       add_action A L M (SendMsg mode out_msg))
     else ret 0)))))))))))))))"

section \<open>The invariant\<close>

lemma build_action_metered [safe_rules]: "upholds meter_inv meter_err (build_action A L M c a)"
  unfolding build_action_def by (intro metered_rules safe_rules TrueI)

lemma safe_add_action [safe_rules]: "safe (add_action A L M a)"
proof -
  have "regs_ok r \<Longrightarrow> regs_ok (snd (regs_set_d i c r))" for i c and r :: "('a, 'b, 'c) control_regs"
    by (cases r) (simp add: regs_set_d_def regs_ok_def)
  then have "safe (modify (\<lambda>st. st\<lparr>cr := snd (regs_set_d ACTIONS_REG_IDX c (cr st))\<rparr>) :: ('a, 'b, 'c, unit) vm)" for c
    by (intro safe_modify good_cr)
  then show ?thesis unfolding add_action_def by (intro safe_rules | assumption)+
qed

lemma safe_parse_workchain [safe_rules]: "safe (parse_addr_workchain A L M addr)"
  unfolding parse_addr_workchain_def by (intro safe_rules)

lemma calm_modes [calm_rules]: "calm pop_send_msg_mode_ext" "calm (pop_change_library_mode v)"
  unfolding pop_send_msg_mode_ext_def pop_change_library_mode_def by (intro calm_rules)+

lemma messageops_safe:
  "safe (exec_send_message_raw A L M)" "safe (exec_reserve_raw A L M x)" "safe (exec_set_code_action A L M)"
  "safe (exec_set_lib_code A L M)" "safe (exec_change_lib A L M)"
  unfolding exec_send_message_raw_def exec_reserve_raw_def exec_set_code_action_def exec_set_lib_code_def
    exec_change_lib_def
  by (intro safe_rules calm_rules)+

lemma exec_send_message_safe:
  assumes "keys_fit L"
  shows "safe (exec_send_message A L M)"
proof -
  have p: "safe (msg_prices A L M t1 t2 mc)" for t1 t2 mc
    unfolding msg_prices_def by (intro safe_rules safe_u32_key[OF assms])
  have s: "safe (msg_stats A L M t2 v extra c)" for t2 v extra c
    unfolding msg_stats_def by (intro safe_rules)
  show ?thesis unfolding exec_send_message_def by (intro safe_rules calm_rules p s)
qed

end
