(* ===== verification/SizeOps.thy ===== *)
theory SizeOps
  imports InstrLib
begin

text \<open>
  \<open>vm/src/instr/sizeops.rs\<close>: the size of a cell tree, each distinct cell counted once. Every cell
  visited is charged as a load, so the traversal ends also without a bound of its own.
\<close>

section \<open>The traversal\<close>

record size_stats =
  sz_visited :: "hash set"
  sz_bits :: nat
  sz_refs :: nat
  sz_cells :: nat

definition size_stats_default :: size_stats where
  "size_stats_default = \<lparr>sz_visited = {}, sz_bits = 0, sz_refs = 0, sz_cells = 0\<rparr>"

text \<open>The counters are \<open>u64\<close>: a traversal that overflowed them would first run out of gas.\<close>

definition count_size :: "nat \<Rightarrow> nat \<Rightarrow> size_stats \<Rightarrow> size_stats" where
  "count_size bits refs s = s\<lparr>sz_bits := sz_bits s + bits, sz_refs := sz_refs s + refs\<rparr>"

text \<open>
  \<open>reduce_stack\<close> over the stack of iterators, the last pushed first: an error of the gas consumer, or
  whether the limit was kept. A cell seen before is skipped; a new one is loaded, counted, and its
  references come next. Each load lowers the gas, which bounds the traversal.
\<close>

lemma load_use_gas:
  assumes "load_cell_impl A LoadUseGas cell g = (Inr c, g')"
  shows "c = cell" and "0 \<le> gas_remaining g'" and "gas_remaining g' < gas_remaining g"
proof -
  define price where "price = (if cell_repr_hash A cell \<notin> loaded_cells g then NEW_CELL_GAS else OLD_CELL_GAS)"
  have p: "0 < price" "truncate_gas price = price"
    by (simp_all add: price_def gas_prices truncate_gas_def machine_bounds)
  show "c = cell" "0 \<le> gas_remaining g'" "gas_remaining g' < gas_remaining g"
    using assms p
    by (auto simp: load_cell_impl_def load_cell_loop.simps LoadUseGas_def thn_def bnd_def visit_cell_eq
        price_def[symmetric] try_consume_def Let_def saturating_sub_i64_def machine_bounds split: if_splits)
qed

function reduce_stack ::
    "('c, 's) api \<Rightarrow> ('c, 's, 'b) cell_lib \<Rightarrow> ('c, 's, 'b) instr_lib \<Rightarrow> nat \<Rightarrow> 'c list list \<Rightarrow> size_stats
      \<Rightarrow> ('c, bool \<times> size_stats) gas_act" where
  "reduce_stack A L M limit [] s g = (Inr (True, s), g)"
| "reduce_stack A L M limit ([] # rs) s g = reduce_stack A L M limit rs s g"
| "reduce_stack A L M limit ((cell # cs) # rs) s g =
     (if cell_repr_hash A cell \<in> sz_visited s then reduce_stack A L M limit (cs # rs) s g
      else let s1 = s\<lparr>sz_visited := insert (cell_repr_hash A cell) (sz_visited s)\<rparr> in
      if limit \<le> sz_cells s1 then (Inr (False, s1), g)
      else (case load_cell_impl A LoadUseGas cell g of
          (Inl e, g') \<Rightarrow> (Inl e, g')
        | (Inr cell', g') \<Rightarrow>
            let kids = cl_references L cell'
            in reduce_stack A L M limit (if kids = [] then cs # rs else kids # cs # rs)
                 ((count_size (bit_len M cell') (length kids) s1)\<lparr>sz_cells := sz_cells s1 + 1\<rparr>) g'))"
  by pat_completeness auto
termination
proof (relation "measures [\<lambda>(A, L, M, limit, rs, s, g). nat (gas_remaining g),
    \<lambda>(A, L, M, limit, rs, s, g). sum_list (map (Suc \<circ> length) rs)]", goal_cases)
  case (4 A L M limit cell cs rs s g s1 r g' cell' kids)
  then show ?case using load_use_gas[of A cell g cell' g'] by (simp add: eq_commute[of "(r, g')"])
qed simp_all

definition add_cell_size ::
    "('c, 's) api \<Rightarrow> ('c, 's, 'b) cell_lib \<Rightarrow> ('c, 's, 'b) instr_lib \<Rightarrow> nat \<Rightarrow> 'c \<Rightarrow> size_stats
      \<Rightarrow> ('c, bool \<times> size_stats) gas_act" where
  "add_cell_size A L M limit cell s =
     (if cell_repr_hash A cell \<in> sz_visited s then ret (True, s)
      else let s1 = s\<lparr>sz_visited := insert (cell_repr_hash A cell) (sz_visited s)\<rparr> in
      if limit \<le> sz_cells s1 then ret (False, s1)
      else bnd (load_cell_impl A LoadUseGas cell) (\<lambda>cell'.
        let refs = cl_references L cell'
        in reduce_stack A L M limit [refs]
             ((count_size (bit_len M cell') (length refs) s1)\<lparr>sz_cells := sz_cells s1 + 1\<rparr>)))"

definition add_slice_size ::
    "('c, 's) api \<Rightarrow> ('c, 's, 'b) cell_lib \<Rightarrow> ('c, 's, 'b) instr_lib \<Rightarrow> nat \<Rightarrow> 's \<Rightarrow> size_stats
      \<Rightarrow> ('c, bool \<times> size_stats) gas_act" where
  "add_slice_size A L M limit cs s =
     (let refs = sl_references L cs
      in reduce_stack A L M limit [refs] (count_size (slice_size_bits A cs) (length refs) s))"

section \<open>The instruction\<close>

definition exec_compute_data_size ::
    "('c, 's) api \<Rightarrow> ('c, 's, 'b) cell_lib \<Rightarrow> ('c, 's, 'b) instr_lib \<Rightarrow> bool \<Rightarrow> bool \<Rightarrow> ('c, 's, 'b, int) vm" where
  "exec_compute_data_size A L M is_slice q =
     bnd (on_stack pop_int_or_nan) (\<lambda>bound.
     bnd (if is_slice then bnd (on_stack pop_cs) (\<lambda>cs. ret (Inr cs))
          else bnd (on_stack pop_cell) (\<lambda>c. ret (Inl c))) (\<lambda>v.
     bnd (case bound of Some n \<Rightarrow> if 0 \<le> n then ret (nat n) else vm_fail IntegerOverflow
          | None \<Rightarrow> vm_fail IntegerOverflow) (\<lambda>n.
     let limit = (if n < 2 ^ 64 then n else 2 ^ 64 - 1) in
     bnd (on_gas (case v of Inr cs \<Rightarrow> add_slice_size A L M limit cs size_stats_default
                | Inl c \<Rightarrow> add_cell_size A L M limit c size_stats_default)) (\<lambda>(ok, s).
     thn (if ok then on_stack (thn (push_int (int (sz_cells s)))
                   (thn (push_int (int (sz_bits s))) (push_int (int (sz_refs s)))))
          else vm_ensure q (CellError ECellOverflow))
         (if q then st_op (push_bool ok) else ret 0)))))"

section \<open>The invariant\<close>

lemma reduce_stack_metered_at:
  "meter_inv i g \<Longrightarrow> (case reduce_stack A L M limit rs s g of
     (Inl e, g') \<Rightarrow> meter_err i e g' | (Inr _, g') \<Rightarrow> meter_inv i g')"
proof (induction A L M limit rs s g rule: reduce_stack.induct)
  case (3 A L M limit cell cs rs s g)
  obtain r g' where l: "load_cell_impl A LoadUseGas cell g = (r, g')" by fastforce
  show ?case
  proof (cases r)
    case (Inl e)
    then show ?thesis
      using 3 upholds_InlD[OF special_metered(2) 3(3), of A LoadUseGas cell e g'] l by (simp add: Let_def)
  next
    case (Inr c)
    then have "meter_inv i g'" using upholds_InrD[OF special_metered(2) 3(3)] l by blast
    then show ?thesis using 3 l Inr by (simp add: Let_def)
  qed
qed simp_all

lemma reduce_stack_metered [safe_rules]:
  "upholds meter_inv meter_err (reduce_stack A L M limit rs s)"
  by (rule upholdsI) (use reduce_stack_metered_at in \<open>fastforce split: prod.splits sum.splits\<close>)+

lemma size_metered [safe_rules]:
  "upholds meter_inv meter_err (add_cell_size A L M limit c s)"
  "upholds meter_inv meter_err (add_slice_size A L M limit cs s)"
  unfolding add_cell_size_def add_slice_size_def by (intro metered_rules safe_rules)+

lemma sizeops_safe: "safe (exec_compute_data_size A L M is_slice q)"
  unfolding exec_compute_data_size_def
  by (intro safe_rules calm_rules | (split sum.split, intro conjI allI impI))+

end
