(* ===== verification/AppTables.thy ===== *)
theory AppTables
  imports InstrTables DebugOps DictOps RandOps ConfigOps MessageOps CryptOps CurrencyOps SizeOps
begin

text \<open>
  The instruction tables of the application-specific modules (dictionaries, random numbers,
  configuration, messages, cryptography, currency, sizes, debug), as in \<open>InstrTables\<close>, and the
  opcode ranges of all sixteen modules together, which do not meet.
\<close>

section \<open>Instruction tables\<close>

definition debugops_instrs :: "('c, 's) api \<Rightarrow> ('c, 's, 'b) instr list" where
  "debugops_instrs A = [
     Op ''fe00'' (\<lambda>_ _. exec_dump_stack),
     Op ''fexx @ fe01..fe14'' (\<lambda>args _. exec_dummy_debug (take_bit 8 args)),
     Op ''fexx @ fe15..fe20'' (\<lambda>args _. exec_dummy_debug (take_bit 8 args)),
     Op ''fexx @ fe30..fef0'' (\<lambda>args _. exec_dummy_debug (take_bit 8 args)),
     Op ''fe14'' (\<lambda>_ _. exec_dump_string),
     Op ''fe2x'' (\<lambda>_ f. exec_dump_value (f CHR ''x'')),
     OpExt 0xfef 12 4 (exec_dummy_debug_str A)]"

definition dictops_instrs ::
    "('c, 's) api \<Rightarrow> ('c, 's, 'b) cell_lib \<Rightarrow> ('c, 's, 'b) instr_lib \<Rightarrow> ('c, 's, 'b) instr list" where
  "dictops_instrs A L M = [
     Op ''f400'' (\<lambda>_ _. exec_stdict M),
     Op ''f401'' (\<lambda>_ _. exec_skip_dict A M),
     Op ''f402'' (\<lambda>_ _. exec_load_dict_slice L M False),
     Op ''f403'' (\<lambda>_ _. exec_load_dict_slice L M True),
     Op ''f404'' (\<lambda>_ _. exec_load_dict A L M False False),
     Op ''f405'' (\<lambda>_ _. exec_load_dict A L M True False),
     Op ''f406'' (\<lambda>_ _. exec_load_dict A L M False True),
     Op ''f407'' (\<lambda>_ _. exec_load_dict A L M True True),
     Op ''f4ss @ f40a..f410'' (\<lambda>args _. exec_dict_get A L M args),
     Op ''f4ss @ f412..f418'' (\<lambda>args _. exec_dict_set A L M args False SetSet),
     Op ''f4ss @ f422..f428'' (\<lambda>args _. exec_dict_set A L M args False SetReplace),
     Op ''f4ss @ f432..f438'' (\<lambda>args _. exec_dict_set A L M args False SetAdd),
     Op ''f4ss @ f441..f444'' (\<lambda>args _. exec_dict_set A L M (push_bit 1 args) True SetSet),
     Op ''f4ss @ f449..f44c'' (\<lambda>args _. exec_dict_set A L M (push_bit 1 args) True SetReplace),
     Op ''f4ss @ f451..f454'' (\<lambda>args _. exec_dict_set A L M (push_bit 1 args) True SetAdd),
     Op ''f4ss @ f41a..f420'' (\<lambda>args _. exec_dict_setget A L M args False SetSet),
     Op ''f4ss @ f42a..f430'' (\<lambda>args _. exec_dict_setget A L M args False SetReplace),
     Op ''f4ss @ f43a..f440'' (\<lambda>args _. exec_dict_setget A L M args False SetAdd),
     Op ''f4ss @ f445..f448'' (\<lambda>args _. exec_dict_setget A L M (push_bit 1 args) True SetSet),
     Op ''f4ss @ f44d..f450'' (\<lambda>args _. exec_dict_setget A L M (push_bit 1 args) True SetReplace),
     Op ''f4ss @ f455..f458'' (\<lambda>args _. exec_dict_setget A L M (push_bit 1 args) True SetAdd),
     Op ''f4ss @ f459..f45c'' (\<lambda>args _. exec_dict_delete A L M args),
     Op ''f4ss @ f462..f468'' (\<lambda>args _. exec_dict_deleteget A L M args),
     Op ''f4ss @ f469..f46c'' (\<lambda>args _. exec_dict_get_optref A L M args),
     Op ''f4ss @ f46d..f470'' (\<lambda>args _. exec_dict_setget_optref A L M args),
     Op ''f4ss @ f474..f480'' (\<lambda>args _. exec_dict_get_near A L M args),
     Op ''f4ss @ f482..f488'' (\<lambda>args _. exec_dict_get_min A L M args),
     Op ''f4ss @ f48a..f490'' (\<lambda>args _. exec_dict_get_min A L M args),
     Op ''f4ss @ f492..f498'' (\<lambda>args _. exec_dict_get_min A L M args),
     Op ''f4ss @ f49a..f4a0'' (\<lambda>args _. exec_dict_get_min A L M args),
     Op ''f4a$00ss'' (\<lambda>args _. exec_dict_get_exec A L M args),
     Op ''f4b$11ss'' (\<lambda>args _. exec_dict_get_exec A L M args),
     OpExtRange 0xf4a400 0xf4a800 24 (exec_push_const_dict A L M)]"

definition randops_instrs ::
    "('c, 's, 'b) cell_lib \<Rightarrow> ('c, 's, 'b) instr_lib \<Rightarrow> ('c, 's, 'b) instr list" where
  "randops_instrs L M = [
     Op ''f810'' (\<lambda>_ _. exec_randu256 L M),
     Op ''f811'' (\<lambda>_ _. exec_rand_int L M),
     Op ''f814'' (\<lambda>_ _. exec_set_rand L M False),
     Op ''f815'' (\<lambda>_ _. exec_set_rand L M True)]"

definition configops_instrs ::
    "('c, 's) api \<Rightarrow> ('c, 's, 'b) cell_lib \<Rightarrow> ('c, 's, 'b) instr_lib \<Rightarrow> ('c, 's, 'b) instr list" where
  "configops_instrs A L M = [
     Op ''f82i'' (\<lambda>_ f. exec_get_param (f CHR ''i'')),
     Op ''f830'' (\<lambda>_ _. exec_get_config_dict),
     Op ''f832'' (\<lambda>_ _. exec_get_config_param A L M False),
     Op ''f833'' (\<lambda>_ _. exec_get_config_param A L M True),
     Op ''f83400'' (\<lambda>_ _. exec_get_prev_blocks_info 0),
     Op ''f83401'' (\<lambda>_ _. exec_get_prev_blocks_info 1),
     Op ''f835'' (\<lambda>_ _. exec_get_global_id A L M),
     Op ''f836'' (\<lambda>_ _. exec_get_gas_fee M),
     Op ''f837'' (\<lambda>_ _. exec_get_storage_fee M),
     Op ''f838'' (\<lambda>_ _. exec_get_forward_fee M),
     Op ''f839'' (\<lambda>_ _. exec_get_precompiled_gas),
     Op ''f83a'' (\<lambda>_ _. exec_get_original_fwd_fee M),
     Op ''f83b'' (\<lambda>_ _. exec_get_gas_fee_simple M),
     Op ''f83c'' (\<lambda>_ _. exec_get_forward_fee_simple M),
     Op ''f880'' (\<lambda>_ _. exec_get_extra_currency_balance A L M),
     Op ''f840'' (\<lambda>_ _. exec_get_global_var),
     Op ''f8ii @ f841..f860'' (\<lambda>args _. exec_get_global (take_bit 5 args)),
     Op ''f860'' (\<lambda>_ _. exec_set_global_var),
     Op ''f8ii @ f861..f880'' (\<lambda>args _. exec_set_global (take_bit 5 args)),
     Op ''f881ii'' (\<lambda>_ f. exec_get_param_long (f CHR ''i'')),
     Op ''f89i'' (\<lambda>_ f. exec_get_in_msg_param (f CHR ''i''))]"

definition messageops_instrs ::
    "('c, 's) api \<Rightarrow> ('c, 's, 'b) cell_lib \<Rightarrow> ('c, 's, 'b) instr_lib \<Rightarrow> ('c, 's, 'b) instr list" where
  "messageops_instrs A L M = [
     Op ''fb00'' (\<lambda>_ _. exec_send_message_raw A L M),
     Op ''fb02'' (\<lambda>_ _. exec_reserve_raw A L M False),
     Op ''fb03'' (\<lambda>_ _. exec_reserve_raw A L M True),
     Op ''fb04'' (\<lambda>_ _. exec_set_code_action A L M),
     Op ''fb06'' (\<lambda>_ _. exec_set_lib_code A L M),
     Op ''fb07'' (\<lambda>_ _. exec_change_lib A L M),
     Op ''fb08'' (\<lambda>_ _. exec_send_message A L M)]"

definition cryptops_instrs ::
    "('c, 's) api \<Rightarrow> ('c, 's, 'b) cell_lib \<Rightarrow> ('c, 's, 'b) instr_lib \<Rightarrow> ('c, 's, 'b) instr list" where
  "cryptops_instrs A L M = [
     Op ''f900'' (\<lambda>_ _. exec_compute_hash A L HashCell),
     Op ''f901'' (\<lambda>_ _. exec_compute_hash A L HashSlice),
     Op ''f902'' (\<lambda>_ _. exec_compute_sha256 A L M),
     Op ''f90$01pr#ii'' (\<lambda>_ f. exec_hash_ext A L M (f CHR ''p'' \<noteq> 0) (f CHR ''r'' \<noteq> 0) (f CHR ''i'')),
     Op ''f910'' (\<lambda>_ _. exec_ed25519_check_signature A L M False True),
     Op ''f911'' (\<lambda>_ _. exec_ed25519_check_signature A L M True True),
     Op ''f916'' (\<lambda>_ _. exec_ed25519_check_signature A L M False False),
     Op ''f917'' (\<lambda>_ _. exec_ed25519_check_signature A L M True False)]"

definition currencyops_instrs ::
    "('c, 's) api \<Rightarrow> ('c, 's, 'b) cell_lib \<Rightarrow> ('c, 's, 'b) instr_lib \<Rightarrow> ('c, 's, 'b) instr list" where
  "currencyops_instrs A L M = [
     Op ''fa00'' (\<lambda>_ _. exec_load_var_integer M 4 False),
     Op ''fa01'' (\<lambda>_ _. exec_load_var_integer M 4 True),
     Op ''fa04'' (\<lambda>_ _. exec_load_var_integer M 5 False),
     Op ''fa05'' (\<lambda>_ _. exec_load_var_integer M 5 True),
     Op ''fa02'' (\<lambda>_ _. exec_store_var_integer M 4 False),
     Op ''fa03'' (\<lambda>_ _. exec_store_var_integer M 4 True),
     Op ''fa06'' (\<lambda>_ _. exec_store_var_integer M 5 False),
     Op ''fa07'' (\<lambda>_ _. exec_store_var_integer M 5 True),
     Op ''fa40'' (\<lambda>_ _. exec_load_message_addr A L M False),
     Op ''fa41'' (\<lambda>_ _. exec_load_message_addr A L M True),
     Op ''fa42'' (\<lambda>_ _. exec_parse_message_addr L M False),
     Op ''fa43'' (\<lambda>_ _. exec_parse_message_addr L M True),
     Op ''fa44'' (\<lambda>_ _. exec_rewrite_message_addr A L M False False),
     Op ''fa45'' (\<lambda>_ _. exec_rewrite_message_addr A L M False True),
     Op ''fa46'' (\<lambda>_ _. exec_rewrite_message_addr A L M True False),
     Op ''fa47'' (\<lambda>_ _. exec_rewrite_message_addr A L M True True)]"

definition sizeops_instrs ::
    "('c, 's) api \<Rightarrow> ('c, 's, 'b) cell_lib \<Rightarrow> ('c, 's, 'b) instr_lib \<Rightarrow> ('c, 's, 'b) instr list" where
  "sizeops_instrs A L M = [
     Op ''f940'' (\<lambda>_ _. exec_compute_data_size A L M False True),
     Op ''f941'' (\<lambda>_ _. exec_compute_data_size A L M False False),
     Op ''f942'' (\<lambda>_ _. exec_compute_data_size A L M True True),
     Op ''f943'' (\<lambda>_ _. exec_compute_data_size A L M True False)]"

section \<open>Every instruction keeps the invariant\<close>

text \<open>
  DICTREPLACE, DICTADD and the quiet address rewriting answer a failed operation with a flag, also
  when it failed for want of gas; what they keep is the weaker \<open>lenient\<close>.
\<close>

lemma debugops_instrs_safe: "\<forall>i \<in> set (debugops_instrs A). instr_safe i"
  unfolding debugops_instrs_def by (simp add: safe_lenient debugops_safe)

lemma dictops_instrs_safe: "\<forall>i \<in> set (dictops_instrs A L M). instr_safe i"
  unfolding dictops_instrs_def by (simp add: safe_lenient dictops_safe dictops_safe2 dict_set_lenient)

lemma randops_instrs_safe: "\<forall>i \<in> set (randops_instrs L M). instr_safe i"
  unfolding randops_instrs_def by (simp add: safe_lenient randops_safe)

lemma configops_instrs_safe: "keys_fit L \<Longrightarrow> \<forall>i \<in> set (configops_instrs A L M). instr_safe i"
  unfolding configops_instrs_def by (simp add: safe_lenient configops_safe exec_get_global_id_safe exec_get_extra_balance_safe)

lemma messageops_instrs_safe: "keys_fit L \<Longrightarrow> \<forall>i \<in> set (messageops_instrs A L M). instr_safe i"
  unfolding messageops_instrs_def by (simp add: safe_lenient messageops_safe exec_send_message_safe)

lemma cryptops_instrs_safe: "\<forall>i \<in> set (cryptops_instrs A L M). instr_safe i"
  unfolding cryptops_instrs_def by (simp add: safe_lenient cryptops_safe)

lemma currencyops_instrs_safe: "\<forall>i \<in> set (currencyops_instrs A L M). instr_safe i"
  unfolding currencyops_instrs_def by (simp add: safe_lenient currencyops_safe rewrite_addr_lenient)

lemma sizeops_instrs_safe: "\<forall>i \<in> set (sizeops_instrs A L M). instr_safe i"
  unfolding sizeops_instrs_def by (simp add: safe_lenient sizeops_safe)

section \<open>The tables register without overlap\<close>

definition debugops_ranges :: "(nat \<times> nat) list" where
  "debugops_ranges = [
     (0xfe0000, 0xfe0100), (0xfe0100, 0xfe1400), (0xfe1500, 0xfe2000), (0xfe3000, 0xfef000),
     (0xfe1400, 0xfe1500), (0xfe2000, 0xfe3000), (0xfef000, 0xff0000)]"

definition dictops_ranges :: "(nat \<times> nat) list" where
  "dictops_ranges = [
     (0xf40000, 0xf40100), (0xf40100, 0xf40200), (0xf40200, 0xf40300), (0xf40300, 0xf40400),
     (0xf40400, 0xf40500), (0xf40500, 0xf40600), (0xf40600, 0xf40700), (0xf40700, 0xf40800),
     (0xf40a00, 0xf41000), (0xf41200, 0xf41800), (0xf42200, 0xf42800), (0xf43200, 0xf43800),
     (0xf44100, 0xf44400), (0xf44900, 0xf44c00), (0xf45100, 0xf45400), (0xf41a00, 0xf42000),
     (0xf42a00, 0xf43000), (0xf43a00, 0xf44000), (0xf44500, 0xf44800), (0xf44d00, 0xf45000),
     (0xf45500, 0xf45800), (0xf45900, 0xf45c00), (0xf46200, 0xf46800), (0xf46900, 0xf46c00),
     (0xf46d00, 0xf47000), (0xf47400, 0xf48000), (0xf48200, 0xf48800), (0xf48a00, 0xf49000),
     (0xf49200, 0xf49800), (0xf49a00, 0xf4a000), (0xf4a000, 0xf4a400), (0xf4bc00, 0xf4c000),
     (0xf4a400, 0xf4a800)]"

definition randops_ranges :: "(nat \<times> nat) list" where
  "randops_ranges = [
     (0xf81000, 0xf81100), (0xf81100, 0xf81200), (0xf81400, 0xf81500), (0xf81500, 0xf81600)]"

definition configops_ranges :: "(nat \<times> nat) list" where
  "configops_ranges = [
     (0xf82000, 0xf83000), (0xf83000, 0xf83100), (0xf83200, 0xf83300), (0xf83300, 0xf83400),
     (0xf83400, 0xf83401), (0xf83401, 0xf83402), (0xf83500, 0xf83600), (0xf83600, 0xf83700),
     (0xf83700, 0xf83800), (0xf83800, 0xf83900), (0xf83900, 0xf83a00), (0xf83a00, 0xf83b00),
     (0xf83b00, 0xf83c00), (0xf83c00, 0xf83d00), (0xf88000, 0xf88100), (0xf84000, 0xf84100),
     (0xf84100, 0xf86000), (0xf86000, 0xf86100), (0xf86100, 0xf88000), (0xf88100, 0xf88200),
     (0xf89000, 0xf8a000)]"

definition messageops_ranges :: "(nat \<times> nat) list" where
  "messageops_ranges = [
     (0xfb0000, 0xfb0100), (0xfb0200, 0xfb0300), (0xfb0300, 0xfb0400), (0xfb0400, 0xfb0500),
     (0xfb0600, 0xfb0700), (0xfb0700, 0xfb0800), (0xfb0800, 0xfb0900)]"

definition cryptops_ranges :: "(nat \<times> nat) list" where
  "cryptops_ranges = [
     (0xf90000, 0xf90100), (0xf90100, 0xf90200), (0xf90200, 0xf90300), (0xf90400, 0xf90800),
     (0xf91000, 0xf91100), (0xf91100, 0xf91200), (0xf91600, 0xf91700), (0xf91700, 0xf91800)]"

definition currencyops_ranges :: "(nat \<times> nat) list" where
  "currencyops_ranges = [
     (0xfa0000, 0xfa0100), (0xfa0100, 0xfa0200), (0xfa0400, 0xfa0500), (0xfa0500, 0xfa0600),
     (0xfa0200, 0xfa0300), (0xfa0300, 0xfa0400), (0xfa0600, 0xfa0700), (0xfa0700, 0xfa0800),
     (0xfa4000, 0xfa4100), (0xfa4100, 0xfa4200), (0xfa4200, 0xfa4300), (0xfa4300, 0xfa4400),
     (0xfa4400, 0xfa4500), (0xfa4500, 0xfa4600), (0xfa4600, 0xfa4700), (0xfa4700, 0xfa4800)]"

definition sizeops_ranges :: "(nat \<times> nat) list" where
  "sizeops_ranges = [
     (0xf94000, 0xf94100), (0xf94100, 0xf94200), (0xf94200, 0xf94300), (0xf94300, 0xf94400)]"

lemma debugops_instr_ranges: "map instr_range (debugops_instrs A) = map Some debugops_ranges"
  unfolding debugops_instrs_def debugops_ranges_def by (simp add: pattern_simps)

lemma dictops_instr_ranges: "map instr_range (dictops_instrs A L M) = map Some dictops_ranges"
  unfolding dictops_instrs_def dictops_ranges_def by (simp add: pattern_simps)

lemma randops_instr_ranges: "map instr_range (randops_instrs L M) = map Some randops_ranges"
  unfolding randops_instrs_def randops_ranges_def by (simp add: pattern_simps)

lemma configops_instr_ranges: "map instr_range (configops_instrs A L M) = map Some configops_ranges"
  unfolding configops_instrs_def configops_ranges_def by (simp add: pattern_simps)

lemma messageops_instr_ranges: "map instr_range (messageops_instrs A L M) = map Some messageops_ranges"
  unfolding messageops_instrs_def messageops_ranges_def by (simp add: pattern_simps)

lemma cryptops_instr_ranges: "map instr_range (cryptops_instrs A L M) = map Some cryptops_ranges"
  unfolding cryptops_instrs_def cryptops_ranges_def by (simp add: pattern_simps)

lemma currencyops_instr_ranges: "map instr_range (currencyops_instrs A L M) = map Some currencyops_ranges"
  unfolding currencyops_instrs_def currencyops_ranges_def by (simp add: pattern_simps)

lemma sizeops_instr_ranges: "map instr_range (sizeops_instrs A L M) = map Some sizeops_ranges"
  unfolding sizeops_instrs_def sizeops_ranges_def by (simp add: pattern_simps)

lemma debugops_ranges_ok: "ranges_ok debugops_ranges"
  unfolding debugops_ranges_def int_ranges by code_simp

lemma dictops_ranges_ok: "ranges_ok dictops_ranges"
  unfolding dictops_ranges_def int_ranges by code_simp

lemma randops_ranges_ok: "ranges_ok randops_ranges"
  unfolding randops_ranges_def int_ranges by code_simp

lemma configops_ranges_ok: "ranges_ok configops_ranges"
  unfolding configops_ranges_def int_ranges by code_simp

lemma messageops_ranges_ok: "ranges_ok messageops_ranges"
  unfolding messageops_ranges_def int_ranges by code_simp

lemma cryptops_ranges_ok: "ranges_ok cryptops_ranges"
  unfolding cryptops_ranges_def int_ranges by code_simp

lemma currencyops_ranges_ok: "ranges_ok currencyops_ranges"
  unfolding currencyops_ranges_def int_ranges by code_simp

lemma sizeops_ranges_ok: "ranges_ok sizeops_ranges"
  unfolding sizeops_ranges_def int_ranges by code_simp

text \<open>The ranges of each module do not meet, and lie in hulls that do not meet across modules.\<close>

definition module_ranges :: "((nat \<times> nat) list \<times> (nat \<times> nat) list) list" where
  "module_ranges = [
     (arithops_ranges, [(0x700000, 0x880000), (0xa00000, 0xa9e000), (0xb60800, 0xb7a9d0), (0xb7b608, 0xb7b60c)]),
     (cmpops_ranges, [(0xb7b800, 0xc60000)]),
     (logicops_ranges, [(0xaa0000, 0xb60400), (0xb7aa00, 0xb7b604)]),
     (cellops_ranges, [(0x880000, 0xa00000), (0xc70000, 0xd80000)]),
     (contops_ranges, [(0xd80000, 0xf40000), (0xff0000, 0x1000000)]),
     (stackops_ranges, [(0x000000, 0x6d0000)]),
     (tupleops_ranges, [(0x6d0000, 0x700000)]),
     (debugops_ranges, [(0xfe0000, 0xff0000)]),
     (dictops_ranges, [(0xf40000, 0xf4c000)]),
     (gasops_ranges, [(0xf80000, 0xf81000)]),
     (randops_ranges, [(0xf81000, 0xf81600)]),
     (configops_ranges, [(0xf82000, 0xf8a000)]),
     (messageops_ranges, [(0xfb0000, 0xfb0900)]),
     (cryptops_ranges, [(0xf90000, 0xf91800)]),
     (currencyops_ranges, [(0xfa0000, 0xfa4800)]),
     (sizeops_ranges, [(0xf94000, 0xf94400)])]"

lemma module_ranges_covered: "\<forall>m \<in> set module_ranges. covered (snd m) (fst m)"
  by (simp add: module_ranges_def covered_def arithops_ranges_def cmpops_ranges_def
      logicops_ranges_def cellops_ranges_def contops_ranges_def stackops_ranges_def
      tupleops_ranges_def debugops_ranges_def dictops_ranges_def gasops_ranges_def
      randops_ranges_def configops_ranges_def messageops_ranges_def cryptops_ranges_def
      currencyops_ranges_def sizeops_ranges_def)

lemma module_ranges_disjoint: "sorted_wrt disjoint_ranges (concat (map fst module_ranges))"
proof (rule disjoint_modules)
  show "\<forall>m \<in> set module_ranges. sorted_wrt disjoint_ranges (fst m) \<and> covered (snd m) (fst m)"
    using module_ranges_covered arithops_ranges_ok cmpops_ranges_ok logicops_ranges_ok
        cellops_ranges_ok contops_ranges_ok stackops_ranges_ok tupleops_ranges_ok
        debugops_ranges_ok dictops_ranges_ok gasops_ranges_ok randops_ranges_ok
        configops_ranges_ok messageops_ranges_ok cryptops_ranges_ok currencyops_ranges_ok
        sizeops_ranges_ok
    by (auto simp: module_ranges_def intro: ranges_ok_disjoint)
  show "sorted_wrt disjoint_ranges (concat (map snd module_ranges))"
    by (simp add: module_ranges_def disjoint_ranges_def)
qed

end
