(* ===== verification/Codepage.thy ===== *)
theory Codepage
  imports AppTables
begin

text \<open>
  \<open>codepage0\<close> of \<open>vm/src/instr/mod.rs\<close>: the modules are registered in order and the table is
  built, from all sixteen modules. The code page keeps the contract of the interpreter loop, so a VM over it ends and does not panic.
\<close>

section \<open>The code page\<close>

fun init_modules ::
    "('c, 's, 'b) instr list list \<Rightarrow> ('c, 's, 'b) entries \<Rightarrow> string + ('c, 's, 'b) entries" where
  "init_modules [] xs = Inr xs"
| "init_modules (m # ms) xs = (case init_module m xs of Inl e \<Rightarrow> Inl e | Inr ys \<Rightarrow> init_modules ms ys)"

definition cp0_modules ::
    "('c, 's) api \<Rightarrow> ('c, 's, 'b) cell_lib \<Rightarrow> ('c, 's, 'b) instr_lib \<Rightarrow> ('c, 's, 'b) instr list list" where
  "cp0_modules A L M = [
     arithops_instrs A, cmpops_instrs, logicops_instrs A, cellops_instrs A L, contops_instrs A,
     stackops_instrs, tupleops_instrs, debugops_instrs A, dictops_instrs A L M, gasops_instrs A,
     randops_instrs L M, configops_instrs A L M, messageops_instrs A L M, cryptops_instrs A L M,
     currencyops_instrs A L M, sizeops_instrs A L M]"

definition codepage0 ::
    "('c, 's) api \<Rightarrow> ('c, 's, 'b) cell_lib \<Rightarrow> ('c, 's, 'b) instr_lib \<Rightarrow> string + ('c, 's, 'b) entries" where
  "codepage0 A L M = (case init_modules (cp0_modules A L M) [] of
     Inl e \<Rightarrow> Inl e | Inr xs \<Rightarrow> Inr (build_opcodes xs))"

section \<open>Lookup in the code page\<close>

lemma init_modules_concat: "init_modules ms xs = init_module (concat ms) xs"
proof (induction ms arbitrary: xs)
  case (Cons m ms)
  have "init_module (m @ is) xs = (case init_module m xs of Inl e \<Rightarrow> Inl e | Inr ys \<Rightarrow> init_module is ys)"
    for m "is" :: "('a, 'b, 'c) instr list" and xs
    by (induction m arbitrary: xs) (auto split: sum.splits)
  then show ?case using Cons by (auto split: sum.splits)
qed simp

lemma modelled_instrs_wf:
  "\<forall>i \<in> set (arithops_instrs A). instr_wf i" "\<forall>i \<in> set cmpops_instrs. instr_wf i"
  "\<forall>i \<in> set (logicops_instrs A). instr_wf i" "\<forall>i \<in> set (contops_instrs A). instr_wf i"
  "\<forall>i \<in> set stackops_instrs. instr_wf i" "\<forall>i \<in> set tupleops_instrs. instr_wf i"
  "\<forall>i \<in> set (gasops_instrs A). instr_wf i" "\<forall>i \<in> set (cellops_instrs A L). instr_wf i"
  by (simp_all add: arithops_instrs_def cmpops_instrs_def logicops_instrs_def contops_instrs_def
      stackops_instrs_def tupleops_instrs_def gasops_instrs_def cellops_instrs_def push_bit_eq_mult drop_bit_eq_div)

lemma app_instrs_wf:
  "\<forall>i \<in> set (debugops_instrs A). instr_wf i" "\<forall>i \<in> set (dictops_instrs A L M). instr_wf i"
  "\<forall>i \<in> set (randops_instrs L M). instr_wf i" "\<forall>i \<in> set (configops_instrs A L M). instr_wf i"
  "\<forall>i \<in> set (messageops_instrs A L M). instr_wf i" "\<forall>i \<in> set (cryptops_instrs A L M). instr_wf i"
  "\<forall>i \<in> set (currencyops_instrs A L M). instr_wf i" "\<forall>i \<in> set (sizeops_instrs A L M). instr_wf i"
  by (simp_all add: debugops_instrs_def dictops_instrs_def randops_instrs_def configops_instrs_def
      messageops_instrs_def cryptops_instrs_def currencyops_instrs_def sizeops_instrs_def)

lemma cp0_instrs_wf: "\<forall>i \<in> set (concat (cp0_modules A L M)). instr_wf i"
  unfolding cp0_modules_def concat.simps set_append ball_Un by (simp add: modelled_instrs_wf app_instrs_wf)

lemma cp0_instrs_safe:
  assumes "keys_fit L"
  shows "\<forall>i \<in> set (concat (cp0_modules A L M)). instr_safe i"
  unfolding cp0_modules_def concat.simps set_append ball_Un
  using assms
  by (simp add: arithops_instrs_safe cmpops_instrs_safe logicops_instrs_safe contops_instrs_safe
      stackops_instrs_safe tupleops_instrs_safe gasops_instrs_safe cellops_instrs_safe
      debugops_instrs_safe dictops_instrs_safe randops_instrs_safe configops_instrs_safe
      messageops_instrs_safe cryptops_instrs_safe currencyops_instrs_safe sizeops_instrs_safe)

lemma codepage0_builds: "\<exists>table. codepage0 A L M = Inr table"
proof -
  let ?is = "concat (cp0_modules A L M)"
  have "map instr_range ?is = map Some (concat (map fst module_ranges))"
    by (simp add: cp0_modules_def module_ranges_def arithops_instr_ranges cmpops_instr_ranges
        logicops_instr_ranges contops_instr_ranges stackops_instr_ranges tupleops_instr_ranges
        gasops_instr_ranges cellops_instr_ranges debugops_instr_ranges dictops_instr_ranges
        randops_instr_ranges configops_instr_ranges messageops_instr_ranges cryptops_instr_ranges
        currencyops_instr_ranges sizeops_instr_ranges)
  then obtain ys where "init_module ?is [] = Inr ys"
    using init_module_succeeds[of "[]" ?is "concat (map fst module_ranges)"] module_ranges_disjoint
      cp0_instrs_wf[of A L M] by (auto simp: entries_ok_def)
  then show ?thesis by (simp add: codepage0_def init_modules_concat)
qed

lemma codepage0_entries:
  assumes "codepage0 A L M = Inr table"
  obtains xs where "table = build_opcodes xs" "entries_ok xs"
    "set xs = {(fst (opcode_range op), op) |op.
       \<exists>i \<in> set (concat (cp0_modules A L M)). instr_opcode i = Inr op}"
proof -
  obtain xs where xs: "init_module (concat (cp0_modules A L M)) [] = Inr xs" "table = build_opcodes xs"
    using assms by (auto simp: codepage0_def init_modules_concat split: sum.splits)
  show ?thesis
    using that[OF xs(2)] init_module_ok[OF _ cp0_instrs_wf xs(1)]
    by (simp add: entries_ok_def)
qed

text \<open>An instruction of the code page is found at every opcode of its range; elsewhere is the dummy.\<close>

lemma codepage0_lookup:
  assumes "codepage0 A L M = Inr table" and "opc < MAX_OPCODE"
  shows "i \<in> set (concat (cp0_modules A L M)) \<Longrightarrow> instr_opcode i = Inr op \<Longrightarrow> covers op opc \<Longrightarrow>
           lookup_impl opc table = op"
    and "is_dummy (lookup_impl opc table) \<or>
           (\<exists>i \<in> set (concat (cp0_modules A L M)). instr_opcode i = Inr (lookup_impl opc table))"
proof -
  obtain xs where xs: "table = build_opcodes xs" "entries_ok xs"
    "set xs = {(fst (opcode_range op), op) |op.
       \<exists>i \<in> set (concat (cp0_modules A L M)). instr_opcode i = Inr op}"
    using codepage0_entries[OF assms(1)] by blast
  note L = lookup_build_outcome[OF xs(2) assms(2), folded xs(1)]
  show "is_dummy (lookup_impl opc table) \<or>
           (\<exists>i \<in> set (concat (cp0_modules A L M)). instr_opcode i = Inr (lookup_impl opc table))"
    using L(1) unfolding xs(3) by (auto split: if_splits)
  assume i: "i \<in> set (concat (cp0_modules A L M))" "instr_opcode i = Inr op" "covers op opc"
  have m: "(fst (opcode_range op), op) \<in> set xs" unfolding xs(3) using i by blast
  then obtain e where e: "e \<in> set xs" "covers (snd e) opc" "lookup_impl opc table = snd e"
    using L(1) i(3) by (auto split: if_splits)
  have "snd d = op" if d: "d \<in> set xs" "covers (snd d) opc" for d
  proof (rule ccontr)
    assume "snd d \<noteq> op"
    have k: "fst (opcode_range (snd d)) = fst d"
      using d(1) xs(2) by (auto simp: entries_ok_def entry_ok_def entry_lo_def)
    let ?o = "(fst (opcode_range op), op)"
    consider "fst d < fst ?o" | "fst ?o < fst d" | "fst d = fst ?o" by linarith
    then show False
    proof cases
      case 1
      then show ?thesis
        using entries_ok_ordered[OF xs(2) d(1) m] d(2) i(3) by (auto simp: covers_def entry_hi_def)
    next
      case 2
      then show ?thesis
        using entries_ok_ordered[OF xs(2) m d(1)] d(2) i(3) k by (auto simp: covers_def entry_hi_def)
    next
      case 3
      have "distinct (map fst xs)"
        using entries_ok_keys[OF xs(2)] by (simp add: sorted_wrt_map strict_sorted_iff flip: sorted_wrt_map)
      then have "d = ?o" using 3 d(1) m by (simp add: distinct_map inj_on_def)
      then show ?thesis using \<open>snd d \<noteq> op\<close> by (metis snd_conv)
    qed
  qed
  then show "lookup_impl opc table = op" using e by metis
qed

section \<open>The contract of the interpreter loop\<close>

text \<open>
  What the loop relies on of \<open>CellSlice::get_uint\<close>: reading no more bits than are left succeeds,
  with a value of that width.
\<close>

definition reads_bits :: "('c, 's) api \<Rightarrow> bool" where
  "reads_bits A \<longleftrightarrow>
     (\<forall>k n. n \<le> slice_size_bits A k \<longrightarrow> n \<le> 24 \<longrightarrow> (\<exists>v. slice_get_uint A k 0 n = Inr v \<and> v < 2 ^ n))"

lemma safe_skip_code: "safe (skip_code A bits)"
  unfolding skip_code_def by (intro safe_rules safe_modify) simp

lemma opcode_gas_bounds: "bits \<le> 48 \<Longrightarrow> 10 \<le> opcode_gas bits \<and> opcode_gas bits \<le> i64_max"
  by (simp add: opcode_gas_def GAS_PER_INSTRUCTION_def GAS_PER_BIT_def machine_bounds)

text \<open>An opcode charges before it does anything else, at least the price of an instruction.\<close>

fun opcode_safe :: "('c, 's, 'b) opcode \<Rightarrow> bool" where
  "opcode_safe (DummyOpcode lo hi) \<longleftrightarrow> True"
| "opcode_safe (SimpleOpcode h lo hi bits) \<longleftrightarrow> lenient h \<and> bits \<le> 48"
| "opcode_safe (FixedOpcode h lo hi bits) \<longleftrightarrow> (\<forall>args. lenient (h args)) \<and> bits \<le> 48"
| "opcode_safe (ExtOpcode h lo hi bits) \<longleftrightarrow> (\<forall>args n. lenient (h args n)) \<and> bits \<le> 48"

lemma opcode_exec_charges:
  assumes "opcode_safe op"
  shows "charges 10 (opcode_exec A op opc bits)"
proof (cases op)
  case (DummyOpcode lo hi)
  then show ?thesis
    by (auto intro!: charges_first safe_lenient safe_rules simp: GAS_PER_INSTRUCTION_def machine_bounds)
next
  case (SimpleOpcode h lo hi n)
  have "charges 10 (thn (on_gas (try_consume (opcode_gas n)))
      (thn (vm_ensure (n \<le> bits) InvalidOpcode) (thn (skip_code A n) h)))"
    by (rule charges_first)
      (use assms SimpleOpcode opcode_gas_bounds[of n] in \<open>auto intro!: lenient_thn safe_rules safe_skip_code\<close>)
  then show ?thesis by (simp add: SimpleOpcode)
next
  case (FixedOpcode h lo hi n)
  have "charges 10 (thn (on_gas (try_consume (opcode_gas n)))
      (thn (vm_ensure (n \<le> bits) InvalidOpcode) (thn (skip_code A n) (h args))))" for args
    by (rule charges_first)
      (use assms FixedOpcode opcode_gas_bounds[of n] in \<open>auto intro!: lenient_thn safe_rules safe_skip_code\<close>)
  then show ?thesis by (simp add: FixedOpcode)
next
  case (ExtOpcode h lo hi n)
  have "charges 10 (thn (on_gas (try_consume (opcode_gas n)))
      (thn (vm_ensure (n \<le> bits) InvalidOpcode) (h args n)))" for args
    by (rule charges_first)
      (use assms ExtOpcode opcode_gas_bounds[of n] in \<open>auto intro!: lenient_thn safe_rules\<close>)
  then show ?thesis by (simp add: ExtOpcode)
qed

text \<open>In a dead state its charge fails.\<close>

lemma opcode_exec_dead:
  assumes "dead f st" and "opcode_exec A op opc bits st = (r, t)"
  shows "r = Inl (cell_fault ECancelled) \<and> halted f t"
  using assms(2)
  by (cases op; simp only: opcode_exec.simps)
    (erule dead_charged_first[OF assms(1), rotated];
      simp add: opcode_gas_def GAS_PER_INSTRUCTION_def GAS_PER_BIT_def)+

lemma op_of_ty_safe:
  assumes "instr_ty pattern = Inr (t, fs)" and "\<And>args f. lenient (h args f)"
  shows "opcode_safe (op_of_ty t fs h)"
proof -
  have "case t of Simple _ bits \<Rightarrow> bits \<le> 24 | Fixed _ bits ab \<Rightarrow> bits + ab \<le> 24
      | FixedRange _ _ bits _ \<Rightarrow> bits \<le> 24"
    using assms(1)
    by (auto simp: instr_ty_def MAX_OPCODE_BITS_def Let_def
        split: sum.splits if_splits option.splits opcode_ty.splits)
  then show ?thesis using assms(2)
    by (cases t) (simp_all add: op_of_ty_def simple_op_def fixed_op_def fixed_range_op_def Let_def)
qed

lemma instr_opcode_safe:
  assumes "instr_wf i" and "instr_safe i" and "instr_opcode i = Inr op"
  shows "opcode_safe op"
proof (cases i)
  case (Op pattern h)
  then show ?thesis using assms(2,3) by (auto split: sum.splits intro!: op_of_ty_safe)
qed (use assms in \<open>auto simp: ext_op_def ext_range_op_def Let_def\<close>)

lemma charges_mono: "a \<le> b \<Longrightarrow> charges b m \<Longrightarrow> charges a m"
proof -
  assume "a \<le> b" and m: "charges b m"
  then have "charged b f st \<Longrightarrow> charged a f st" for f and st :: "('a, 'b, 'c) vm_state"
    using good_mono[of "f - b" st "f - a"] by (auto simp: charged_def)
  with m show ?thesis unfolding charges_def by (blast intro: hoare_conseq)
qed

lemma get_opcode_ok:
  assumes "reads_bits A"
  obtains opc bits where "get_opcode_from_slice A k = Some (opc, bits)" "opc < MAX_OPCODE"
proof -
  let ?b = "min 24 (slice_size_bits A k)"
  obtain v where v: "slice_get_uint A k 0 ?b = Inr v" "v < 2 ^ ?b"
    using assms unfolding reads_bits_def by (metis min.cobounded1 min.cobounded2)
  have "v * 2 ^ (24 - ?b) < 2 ^ ?b * 2 ^ (24 - ?b)" using v(2) by simp
  also have "\<dots> = 2 ^ 24" by (simp flip: power_add)
  finally show ?thesis
    using that v(1) by (simp add: get_opcode_from_slice_def MAX_OPCODE_BITS_def MAX_OPCODE_def
        push_bit_eq_mult Let_def)
qed

lemma lookup_safe:
  assumes "keys_fit L" and "codepage0 A L M = Inr table" and "opc < MAX_OPCODE"
  shows "opcode_safe (lookup_impl opc table)"
proof (cases "is_dummy (lookup_impl opc table)")
  case True
  then show ?thesis by (cases "lookup_impl opc table") simp_all
next
  case False
  then show ?thesis
    using codepage0_lookup(2)[OF assms(2,3)] cp0_instrs_safe[OF assms(1), of A M] cp0_instrs_wf[of A L M]
      instr_opcode_safe by blast
qed

lemma dispatch_charges:
  assumes "reads_bits A" and "keys_fit L" and "codepage0 A L M = Inr table"
  shows "charges 10 (dispatch A table)"
  unfolding dispatch_def
proof (rule charges_after[OF vm.upholds_gets])
  fix k
  obtain opc bits where g: "get_opcode_from_slice A k = Some (opc, bits)" "opc < MAX_OPCODE"
    by (rule get_opcode_ok[OF assms(1)])
  show "charges 10 (case get_opcode_from_slice A k of None \<Rightarrow> fail Panic
      | Some (opc, bits) \<Rightarrow> opcode_exec A (lookup_impl opc table) opc bits)"
    using opcode_exec_charges[OF lookup_safe[OF assms(2,3) g(2)]] by (simp add: g(1))
qed

lemma dispatch_dead:
  assumes "reads_bits A" and "dead f st" and "dispatch A table st = (r, t)"
  shows "r = Inl (cell_fault ECancelled) \<and> halted f t"
proof -
  obtain opc bits where "get_opcode_from_slice A (code st) = Some (opc, bits)"
    by (rule get_opcode_ok[OF assms(1)])
  then show ?thesis
    using assms(3) opcode_exec_dead[OF assms(2)] by (simp add: dispatch_def)
qed

lemma codepage0_dispatcher:
  assumes "reads_bits A" and "keys_fit L" and "codepage0 A L M = Inr table"
  shows "dispatcher (dispatch A table)"
  using charges_mono[OF _ dispatch_charges[OF assms], of 5]
  by unfold_locales (simp_all add: dispatch_dead[OF assms(1)])

section \<open>Whole runs\<close>

text \<open>The gas a run can spend: the limit it starts with, or the maximum it can be raised to.\<close>

definition gas_budget :: "gas_params \<Rightarrow> int" where
  "gas_budget p = max (truncate_gas (gp_max p)) (truncate_gas (saturating_add_u64 (gp_limit p) (gp_credit p)))"

lemma build_good:
  assumes "gas_params_wf (b_gas b)"
  shows "good (gas_budget (b_gas b)) (build A b)" and "parents (build A b) = []"
proof -
  have g: "gas_wf (gas (build A b))" "spent (gas (build A b)) = 0"
    by (simp_all add: build_def Let_def with_libraries_wf[OF assms] split: prod.splits)
  have "gas_base (gas (build A b)) \<le> gas_budget (b_gas b)" "gas_max (gas (build A b)) \<le> gas_budget (b_gas b)"
    by (simp_all add: build_def with_libraries_def gas_budget_def Let_def split: prod.splits)
  then show "good (gas_budget (b_gas b)) (build A b)"
    using g by (auto simp: good_def meter_inv_def live_def parent_meters_def parents_ok_def regs_ok_def
        build_def machine_bounds Let_def split: prod.splits)
  show "parents (build A b) = []" by (simp add: build_def Let_def split: prod.splits)
qed

text \<open>
  A run over the code page ends with an exit code, within a number of turns given by the gas
  budget: it does not panic and it does not run for ever, nested VMs included.
\<close>

lemma cp0_run_returns:
  assumes "reads_bits A" and "keys_fit L" and "codepage0 A L M = Inr table"
    and "gas_params_wf (b_gas b)" and "gas_budget (b_gas b) < int n"
  shows "\<exists>exit st. vm_run A (dispatch A table) (Suc (Suc n)) (build A b) = Some (Some exit, st)"
  by (rule dispatcher.vm_run_returns[OF codepage0_dispatcher[OF assms(1-3)] build_good[OF assms(4)] assms(5)])

end
