(* ===== verification/CodeSpec.thy ===== *)
theory CodeSpec
  imports HashSpec Codepage
begin

text \<open>
  From the bits of the code to the handler: over cells that are bit strings, the opcode the dispatcher
  reads begins with the first bits of the code, so an instruction of code page 0 is found by the bits it
  is registered with, charged by its width and run. Two instructions are followed through the
  handler: \<open>SWAP\<close> and \<open>IFBITJMPREF\<close>.
\<close>

section \<open>Reading the opcode\<close>

lemma leading_bits:
  fixes v x :: nat
  assumes "x < 2 ^ i"
  shows "drop_bit (i + j) (push_bit j (v * 2 ^ i + x)) = v" "push_bit j (v * 2 ^ i + x) < (v + 1) * 2 ^ (i + j)"
proof -
  show "drop_bit (i + j) (push_bit j (v * 2 ^ i + x)) = v"
    using assms by (simp add: drop_bit_eq_div push_bit_eq_mult power_add div_mult2_eq mult.commute[of "2 ^ i"])
  have "v * 2 ^ i + x < (v + 1) * 2 ^ i" using assms by simp
  then have "(v * 2 ^ i + x) * 2 ^ j < (v + 1) * 2 ^ i * 2 ^ j" by (rule mult_strict_right_mono) simp
  then show "push_bit j (v * 2 ^ i + x) < (v + 1) * 2 ^ (i + j)"
    by (simp only: push_bit_eq_mult power_add mult.assoc)
qed

definition swap_top_two :: "'a list \<Rightarrow> 'a list" where
  "swap_top_two s = take (length s - 2) s @ rev (drop (length s - 2) s)"

context bit_cells
begin

lemma code_opcode:
  assumes "sbits k = pre @ ops" and "length pre \<le> 24"
  obtains opc bits where "get_opcode_from_slice A k = Some (opc, bits)" "length pre \<le> bits" "bits \<le> length (sbits k)"
    "drop_bit (24 - length pre) opc = bits_value pre" "opc < MAX_OPCODE"
proof -
  define m where "m = min 24 (length (sbits k))"
  define i where "i = m - length pre"
  define x where "x = bits_value (take i ops)"
  have m: "length pre \<le> m" "m \<le> length (sbits k)" "m \<le> 64" and i: "i \<le> length ops" "24 - length pre = i + (24 - m)"
    using assms by (auto simp: m_def i_def)
  have "take m (sbits k) = pre @ take i ops" using m(1) by (simp add: assms(1) i_def)
  then have "bits_value (take m (sbits k)) = bits_value pre * 2 ^ i + x"
    using i(1) by (simp add: bits_value_append x_def)
  then have get: "slice_get_uint A k 0 m = Inr (bits_value pre * 2 ^ i + x)"
    using get_uint[of 0 m k] m(2,3) by simp
  have x: "x < 2 ^ i" using bits_value_bound[of "take i ops"] i(1) by (simp add: x_def)
  have "(bits_value pre + 1) * 2 ^ (24 - length pre) \<le> 2 ^ length pre * 2 ^ (24 - length pre)"
    using bits_value_bound[of pre] by (intro mult_right_mono) simp_all
  also have "\<dots> = MAX_OPCODE" using assms(2) by (simp only: power_add[symmetric] MAX_OPCODE_def MAX_OPCODE_BITS_def) simp
  finally have "push_bit (24 - m) (bits_value pre * 2 ^ i + x) < MAX_OPCODE"
    using leading_bits(2)[OF x, of "24 - m" "bits_value pre"] by (simp only: i(2))
  moreover have "get_opcode_from_slice A k = Some (push_bit (24 - m) (bits_value pre * 2 ^ i + x), m)"
    by (simp add: get_opcode_from_slice_def size_bits MAX_OPCODE_BITS_def get m_def[symmetric])
  ultimately show thesis
    using that[OF _ m(1,2)] leading_bits(1)[OF x, of "24 - m" "bits_value pre"] by (simp only: i(2))
qed

text \<open>An instruction registered for the first bits of the code is the one that is run.\<close>

lemma dispatch_registered:
  assumes "codepage0 A L M = Inr table" and "sbits (code st) = pre @ ops" and "length pre \<le> 24"
    and "i \<in> set (concat (cp0_modules A L M))" and "instr_opcode i = Inr op"
    and "opcode_range op = (push_bit (24 - length pre) (bits_value pre), push_bit (24 - length pre) (bits_value pre + 1))"
  obtains opc bits where "dispatch A table st = opcode_exec A op opc bits st" "length pre \<le> bits"
    "bits \<le> length (sbits (code st))" "drop_bit (24 - length pre) opc = bits_value pre"
proof -
  obtain opc bits where o: "get_opcode_from_slice A (code st) = Some (opc, bits)" "length pre \<le> bits"
    "bits \<le> length (sbits (code st))" "drop_bit (24 - length pre) opc = bits_value pre" "opc < MAX_OPCODE"
    using code_opcode[OF assms(2,3)] by blast
  let ?q = "2 ^ (24 - length pre) :: nat"
  have "bits_value pre * ?q + opc mod ?q = opc" using o(4) div_mult_mod_eq[of opc ?q] by (simp add: drop_bit_eq_div)
  moreover have "opc mod ?q < ?q" by simp
  ultimately have "bits_value pre * ?q \<le> opc \<and> opc < (bits_value pre + 1) * ?q"
    by (simp only: add_mult_distrib mult_1) linarith
  then have "covers op opc" by (simp add: covers_def assms(6) push_bit_eq_mult)
  from codepage0_lookup(1)[OF assms(1) o(5) assms(4,5) this] o that show thesis
    by (simp add: dispatch_def)
qed

section \<open>Instructions\<close>

text \<open>\<open>SWAP\<close>: eight bits of code, eighteen units of gas.\<close>

lemma dispatch_swap:
  assumes "codepage0 A L M = Inr table" and "sbits (code st) = to_bits 8 1 @ ops"
    and "stack st = xs @ [a, b]" and "gas_wf (gas st)" and "18 \<le> gas_remaining (gas st)"
  shows "\<exists>k. dispatch A table st = (Inr 0, st\<lparr>stack := xs @ [b, a], code := k, gas := paid 18 st\<rparr>) \<and>
    sbits k = ops \<and> srefs k = srefs (code st)"
proof -
  let ?op = "simple_op 1 8 exec_swap :: ('c, 's, 'b) opcode"
  have v: "bits_value (to_bits 8 1) = 1" using value_to_bits[of 1 8] by simp
  have i: "Op ''01'' (\<lambda>_ _. exec_swap) \<in> set (concat (cp0_modules A L M))"
    by (simp add: cp0_modules_def stackops_instrs_def)
  have "instr_ty ''01'' = Inr (Simple 1 8, [])" by code_simp
  then have "instr_opcode (Op ''01'' (\<lambda>_ _. exec_swap)) = Inr ?op" by (simp add: op_of_ty_def)
  from dispatch_registered[OF assms(1,2) _ i this] obtain opc bits where
    d: "dispatch A table st = opcode_exec A ?op opc bits st" "8 \<le> bits"
    by (auto simp: v simple_op_def MAX_OPCODE_BITS_def Let_def)
  obtain k where k: "slice_skip_first A (code st) 8 0 = Inr k" "sbits k = ops" "srefs k = srefs (code st)"
    using skip_first[of 8 "code st" 0] assms(2) by (auto simp: slice_is_def)
  have "on_gas (try_consume 18) st = (Inr (), st\<lparr>gas := paid 18 st\<rparr>)"
    using charge_affordable(1)[of st 18] assms(4,5) by (simp add: paid_def)
  then have "dispatch A table st = exec_swap (st\<lparr>gas := paid 18 st, code := k\<rparr>)"
    using d k by (simp add: simple_op_def Let_def opcode_gas_def GAS_PER_INSTRUCTION_def GAS_PER_BIT_def skip_code_def)
  then show ?thesis
    using k assms(3) rearrange_ops(1)[of "st\<lparr>gas := paid 18 st, code := k\<rparr>" xs a b] by (intro exI[of _ k]) simp
qed

lemma swap_body:
  assumes "codepage0 A L M = Inr table" and "sbits k = to_bits 8 1" and "srefs k = []"
  shows "body_effect A (dispatch A table) k (\<lambda>s. 2 \<le> length s) swap_top_two 1 18"
  unfolding body_effect_def
proof (intro allI impI, elim conjE)
  fix s :: "('c, 's, 'b) vm_state"
  assume s: "code s = k" "2 \<le> length (stack s)" "gas_wf (gas s)" "int 18 \<le> gas_remaining (gas s)"
  obtain zs b where zs: "stack s = zs @ [b]" using s(2) by (cases "stack s" rule: rev_cases) auto
  then obtain xs a where "zs = xs @ [a]" using s(2) by (cases zs rule: rev_cases) auto
  with zs have st: "stack s = xs @ [a, b]" by simp
  then have swapped: "swap_top_two (stack s) = xs @ [b, a]" by (simp add: swap_top_two_def)
  let ?s = "s\<lparr>steps := steps s + 1\<rparr>"
  obtain k' where "dispatch A table ?s = (Inr 0, ?s\<lparr>stack := xs @ [b, a], code := k', gas := paid 18 ?s\<rparr>)"
    "sbits k' = []" "srefs k' = []"
    using dispatch_swap[OF assms(1), of ?s "[]" xs a b] s st assms(2,3) by auto
  moreover have "slice_size_bits A (code s) \<noteq> 0" using s(1) assms(2) length_to_bits[of 8 1] by (simp add: size_bits del: length_0_conv)
  then have "step A (dispatch A table) s = dispatch A table ?s" by (simp add: step_def bump_steps_def)
  ultimately have "step A (dispatch A table) s = (Inr 0, s\<lparr>code := k', stack := xs @ [b, a], steps := steps s + 1, gas := paid 18 s\<rparr>)"
    "slice_size_bits A k' = 0" "slice_size_refs A k' = 0"
    by (simp_all add: size_bits size_refs paid_def)
  then show "2 \<le> length (swap_top_two (stack s)) \<and> (\<exists>k'. slice_size_bits A k' = 0 \<and> slice_size_refs A k' = 0 \<and>
      turns A (dispatch A table) 1 s (s\<lparr>code := k', stack := swap_top_two (stack s), steps := steps s + 1, gas := paid 18 s\<rparr>))"
    using turns_one[of A "dispatch A table" s] by (auto simp: swapped)
qed

text \<open>
  \<open>IFBITJMPREF\<close> as it is registered: ten bits and no operand, so the word the handler receives is the prefix
  itself, and the six bits behind it stay in the code.
\<close>

lemma dispatch_if_bit_jmpref:
  assumes "codepage0 A L M = Inr table" and "sbits (code st) = to_bits 10 0x38f @ ops" and "gas_wf (gas st)"
    and "20 \<le> gas_remaining (gas st)"
  shows "dispatch A table st = exec_if_bit_jmpref A 0x38f 10 (st\<lparr>gas := paid 20 st\<rparr>)"
proof -
  let ?i = "OpExt (drop_bit 6 0xe3c0) 10 0 (exec_if_bit_jmpref A)"
  let ?op = "ext_op 0x38f 10 0 (exec_if_bit_jmpref A)"
  have v: "bits_value (to_bits 10 0x38f) = 0x38f" using value_to_bits[of "0x38f" 10] by simp
  have i: "?i \<in> set (concat (cp0_modules A L M))" by (simp add: cp0_modules_def contops_instrs_def)
  have o: "instr_opcode ?i = Inr ?op" by (simp add: drop_bit_eq_div)
  obtain opc bits where d: "dispatch A table st = opcode_exec A ?op opc bits st" "10 \<le> bits" "drop_bit 14 opc = 0x38f"
    using dispatch_registered[OF assms(1,2) _ i o, unfolded v] by (simp add: ext_op_def MAX_OPCODE_BITS_def Let_def) blast
  have "on_gas (try_consume 20) st = (Inr (), st\<lparr>gas := paid 20 st\<rparr>)"
    using charge_affordable(1)[of st 20] assms(3,4) by (simp add: paid_def)
  then show ?thesis
    using d by (simp add: ext_op_def Let_def MAX_OPCODE_BITS_def opcode_gas_def GAS_PER_INSTRUCTION_def GAS_PER_BIT_def)
qed

text \<open>The reference behind an instruction is taken off the code, and what it refers to becomes code for the price of a load.\<close>

lemma cell_prefix:
  assumes "sbits (code st) = pre @ ops" and "srefs (code st) = c # rs"
    and "cell_reference A (slice_cell A (code st)) (slice_offset_refs A (code st)) = Some c"
  shows "\<exists>k. exec_cell_prefix A (length pre) st = (Inr c, st\<lparr>code := k\<rparr>) \<and> sbits k = ops \<and> srefs k = rs"
proof -
  obtain k1 where k1: "slice_skip_first A (code st) (length pre) 0 = Inr k1" "sbits k1 = ops" "srefs k1 = c # rs"
    using skip_first[of "length pre" "code st" 0] assms(1,2) by (auto simp: slice_is_def)
  obtain k2 where k2: "slice_skip_first A k1 0 1 = Inr k2" "sbits k2 = ops" "srefs k2 = rs"
    using skip_first[of 0 k1 1] k1(2,3) by (auto simp: slice_is_def)
  have "cell_reference A (slice_cell A k1) (slice_offset_refs A (code st)) = Some c"
    using assms(3) cell_skip_first[OF k1(1)] by simp
  then show ?thesis
    using k1 k2 assms(1,2)
    by (intro exI[of _ k2]) (simp add: exec_cell_prefix_def reference_at_def has_remaining_def size_bits size_refs skip_checked_def)
qed

lemma load_code:
  assumes "cell_kind A c = Ordinary" and "gas_wf (gas st)" and "100 \<le> gas_remaining (gas st)" and "cp st = 0"
  shows "\<exists>g. ref_to_cont A c st = (Inr (ord_simple (slice_of_cell A c) 0), st\<lparr>gas := g\<rparr>) \<and>
    gas_remaining g = gas_remaining (gas st) - (if cell_repr_hash A c \<in> loaded_cells (gas st) then 25 else 100)"
  using load_ordinary[OF assms(1,2) refl] assms(3,4)
  by (cases "cell_repr_hash A c \<in> loaded_cells (gas st)")
    (auto simp: ref_to_cont_def load_cell_as_slice_def LoadFull_def NEW_CELL_GAS_def OLD_CELL_GAS_def)

lemma if_bit_jmpref_outcome:
  assumes "sbits (code st) = pre @ ops" and "length pre = bits" and "srefs (code st) = c # rs"
    and "cell_reference A (slice_cell A (code st)) (slice_offset_refs A (code st)) = Some c"
    and "cell_kind A c = Ordinary" and "stack st = xs @ [VInt x]" and "length xs < MAX_DEPTH" and "cp st = 0"
    and "gas_wf (gas st)" and "100 \<le> gas_remaining (gas st)"
  shows "\<exists>k g. exec_if_bit_jmpref A args bits st =
      (Inr 0, st\<lparr>code := (if bit x (take_bit 5 args) \<noteq> bit args 5 then slice_of_cell A c else k), gas := g\<rparr>) \<and>
    sbits k = ops \<and> srefs k = rs \<and> gas_remaining g = gas_remaining (gas st) -
      (if bit x (take_bit 5 args) = bit args 5 then 0
       else if cell_repr_hash A c \<in> loaded_cells (gas st) then 25 else 100)"
proof -
  obtain k where k: "exec_cell_prefix A bits st = (Inr c, st\<lparr>code := k\<rparr>)" "sbits k = ops" "srefs k = rs"
    using cell_prefix[OF assms(1,3,4)] assms(2) by auto
  obtain g where g: "ref_to_cont A c (st\<lparr>code := k\<rparr>) = (Inr (ord_simple (slice_of_cell A c) 0), st\<lparr>code := k, gas := g\<rparr>)"
    "gas_remaining g = gas_remaining (gas st) - (if cell_repr_hash A c \<in> loaded_cells (gas st) then 25 else 100)"
    using load_code[OF assms(5), of "st\<lparr>code := k\<rparr>"] assms(8-10) by auto
  have peek: "peek_bit n (xs @ [VInt x]) = (Inr (bit x n), xs @ [VInt x])" for n
    using assms(7) by (simp add: peek_bit_def depth_def)
  let ?jump = "bit x (take_bit 5 args) \<noteq> bit args 5"
  have "exec_if_bit_jmpref A args bits st = (if ?jump then bnd (ref_to_cont A c) vm_jump else ret 0) (st\<lparr>code := k\<rparr>)"
    using assms(6) k(1) peek by (cases st) (simp add: exec_if_bit_jmpref_def)
  then have "exec_if_bit_jmpref A args bits st =
      (Inr 0, st\<lparr>code := (if ?jump then slice_of_cell A c else k), gas := (if ?jump then g else gas st)\<rparr>)"
    using g(1) assms(8) by (cases st) (simp add: jump_ord_simple)
  then show ?thesis
    using k(2,3) g(2) by (intro exI[of _ k] exI[of _ "if ?jump then g else gas st"]) simp
qed

end

end
