(* ===== verification/ExecConfig.thy ===== *)
theory ExecConfig
  imports ExecTypes
begin

text \<open>
  \<open>executor/src/config.rs\<close>: what the executor asks of the parsed configuration. Storage fees are the
  price of every second since the last payment, and the gas bought for a balance is the most that
  the balance pays for.
\<close>

section \<open>Lookups\<close>

definition is_blackhole :: "('c, 's) parsed_config \<Rightarrow> std_addr \<Rightarrow> bool" where
  "is_blackhole cfg addr = (case blackhole_addr cfg of
      Some bh \<Rightarrow> is_masterchain addr \<and> sa_address addr = bh
    | None \<Rightarrow> False)"

definition config_is_special :: "('c, 's) parsed_config \<Rightarrow> std_addr \<Rightarrow> bool" where
  "config_is_special cfg addr \<longleftrightarrow>
     is_masterchain addr \<and> (sa_address addr \<in> special_accounts cfg \<or> sa_address addr = config_address cfg)"

definition fwd_prices :: "('c, 's) parsed_config \<Rightarrow> bool \<Rightarrow> msg_forward_prices" where
  "fwd_prices cfg mc = (if mc then mc_fwd_prices cfg else base_fwd_prices cfg)"

definition gas_prices :: "('c, 's) parsed_config \<Rightarrow> bool \<Rightarrow> gas_limits_prices" where
  "gas_prices cfg mc = (if mc then mc_gas_prices cfg else base_gas_prices cfg)"

section \<open>Storage fees\<close>

text \<open>The saturating operations of \<open>u128\<close>.\<close>

definition u128_max :: nat where "u128_max = 2 ^ 128 - 1"

definition sat_add128 :: "nat \<Rightarrow> nat \<Rightarrow> nat" where "sat_add128 a b = min (a + b) u128_max"

definition sat_mul128 :: "nat \<Rightarrow> nat \<Rightarrow> nat" where "sat_mul128 a b = min (a * b) u128_max"

definition get_prices :: "bool \<Rightarrow> storage_prices \<Rightarrow> nat \<times> nat" where
  "get_prices mc p = (if mc then (mc_bit_price_ps p, mc_cell_price_ps p) else (bit_price_ps p, cell_price_ps p))"

text \<open>The fee of one segment of \<open>delta\<close> seconds.\<close>

definition segment_fee :: "bool \<Rightarrow> storage_used \<Rightarrow> storage_prices \<Rightarrow> nat \<Rightarrow> nat" where
  "segment_fee mc us p delta = (case get_prices mc p of (bprice, cprice) \<Rightarrow>
     sat_mul128 (sat_add128 (bprice * used_bits us) (cprice * used_cells us)) delta)"

text \<open>The loop over the segments, most recent first; \<open>until\<close> is the code's \<open>upto\<close>.\<close>

fun storage_fee_loop :: "bool \<Rightarrow> storage_info \<Rightarrow> nat \<Rightarrow> nat \<Rightarrow> storage_prices list \<Rightarrow> nat" where
  "storage_fee_loop mc st until tot [] = tot"
| "storage_fee_loop mc st until tot (p # ps) =
     (if utime_since p > until then storage_fee_loop mc st until tot ps
      else let delta = until - max (utime_since p) (last_paid st);
               tot' = sat_add128 tot (segment_fee mc (used st) p delta)
           in if utime_since p \<le> last_paid st then tot'
              else storage_fee_loop mc st (utime_since p) tot' ps)"

definition compute_storage_fees :: "('c, 's) parsed_config \<Rightarrow> storage_info \<Rightarrow> nat \<Rightarrow> bool \<Rightarrow> bool \<Rightarrow> nat" where
  "compute_storage_fees cfg st time special mc =
     (if time \<le> last_paid st \<or> last_paid st = 0 \<or> special then 0
      else case config_storage_prices cfg of
        [] \<Rightarrow> 0
      | oldest # _ \<Rightarrow>
          if time \<le> utime_since oldest then 0
          else shift_ceil_price (storage_fee_loop mc st time 0 (rev (config_storage_prices cfg))))"

text \<open>
  \<open>parse_storage_prices\<close> over the values of the dictionary of parameter 18, an entry being a broken
  value or a slice; \<open>load\<close> is \<open>StoragePrices::load_from\<close>.
\<close>

fun parse_storage_prices ::
    "('s \<Rightarrow> cell_error + storage_prices) \<Rightarrow> nat \<Rightarrow> 's option \<Rightarrow> storage_prices list \<Rightarrow> (cell_error + 's) list \<Rightarrow>
     cell_error + 's option \<times> storage_prices list" where
  "parse_storage_prices load time latest prices [] = Inr (latest, prices)"
| "parse_storage_prices load time latest prices (Inl e # vs) = Inl e"
| "parse_storage_prices load time latest prices (Inr v # vs) = (case load v of
      Inl e \<Rightarrow> Inl e
    | Inr p \<Rightarrow> parse_storage_prices load time (if utime_since p \<le> time then Some v else latest) (prices @ [p]) vs)"

section \<open>Gas\<close>

text \<open>\<open>u64\<close> prices in \<open>u128\<close> arithmetic; the shift to the left drops what leaves 128 bits.\<close>

definition max_gas_threshold :: "gas_limits_prices \<Rightarrow> nat" where
  "max_gas_threshold p =
     (if prices_gas_limit p > flat_gas_limit p
      then sat_add128 (shift_ceil_price (gas_unit_price p * (prices_gas_limit p - flat_gas_limit p))) (flat_gas_price p)
      else flat_gas_price p)"

definition gas_bought_for :: "gas_limits_prices \<Rightarrow> nat \<Rightarrow> nat" where
  "gas_bought_for p bal =
     (if bal = 0 \<or> bal < flat_gas_price p then 0
      else if bal \<ge> max_gas_threshold p \<or> gas_unit_price p = 0 then prices_gas_limit p
      else let res = sat_add128 (take_bit 128 (push_bit 16 (bal - flat_gas_price p)) div gas_unit_price p) (flat_gas_limit p)
           in if res < 2 ^ 64 then res else 2 ^ 64 - 1)"

definition compute_gas_params ::
    "('c, 's) parsed_config \<Rightarrow> nat \<Rightarrow> nat \<Rightarrow> bool \<Rightarrow> bool \<Rightarrow> bool \<Rightarrow> bool \<Rightarrow> gas_params" where
  "compute_gas_params cfg account_balance msg_balance_remaining special mc is_tx_ordinary is_in_msg_external =
     (let p = gas_prices cfg mc;
          gas_max = (if special then special_gas_limit p else gas_bought_for p account_balance);
          limit = (if \<not> is_tx_ordinary \<or> special then gas_max
                   else min (gas_bought_for p msg_balance_remaining) gas_max);
          credit = (if is_tx_ordinary \<and> is_in_msg_external then min (prices_gas_credit p) gas_max else 0)
      in \<lparr>gp_max = int gas_max, gp_limit = int limit, gp_credit = int credit, gp_price = int (gas_unit_price p)\<rparr>)"

section \<open>Storage fees are paid by the second\<close>

text \<open>The price per second in force at \<open>t\<close>: that of the last segment begun by then.\<close>

definition segment_rate :: "bool \<Rightarrow> storage_used \<Rightarrow> storage_prices \<Rightarrow> nat" where
  "segment_rate mc us p = (case get_prices mc p of (bprice, cprice) \<Rightarrow>
     bprice * used_bits us + cprice * used_cells us)"

definition rate_at :: "bool \<Rightarrow> storage_used \<Rightarrow> storage_prices list \<Rightarrow> nat \<Rightarrow> nat" where
  "rate_at mc us ps t = (case find (\<lambda>p. utime_since p \<le> t) (rev ps) of
     None \<Rightarrow> 0 | Some p \<Rightarrow> segment_rate mc us p)"

lemma sat_mul_add: "sat_mul128 (sat_add128 a b) d = min ((a + b) * d) u128_max"
proof (cases "a + b \<le> u128_max \<or> d = 0")
  case True
  then show ?thesis by (auto simp: sat_mul128_def sat_add128_def)
next
  case False
  then have "u128_max * 1 \<le> u128_max * d" "u128_max * 1 \<le> (a + b) * d"
    by (intro mult_le_mono; linarith)+
  with False show ?thesis by (simp add: sat_mul128_def sat_add128_def min_absorb2 del: mult_le_cancel1)
qed

lemma segment_fee_rate: "segment_fee mc us p d = min (d * segment_rate mc us p) u128_max"
  by (simp add: segment_fee_def segment_rate_def sat_mul_add mult.commute[of d] split: prod.splits)

lemma sum_const_rate:
  assumes "\<And>t. a \<le> t \<Longrightarrow> t < b \<Longrightarrow> f t = (r :: nat)"
  shows "(\<Sum>t = a..<b. f t) = (b - a) * r"
  using assms by simp

lemma min_add_min: "min (min a m + min b m) m = min (a + b) (m :: nat)"
  by (simp add: min_def)

lemma storage_fee_loop_sum:
  assumes "sorted (map utime_since ps)" and "last_paid st < until"
  shows "storage_fee_loop mc st until (min tot u128_max) (rev ps) =
    min (tot + (\<Sum>t = last_paid st..<until. rate_at mc (used st) ps t)) u128_max"
  using assms
proof (induction ps arbitrary: until tot rule: rev_induct)
  case Nil
  then show ?case by (simp add: rate_at_def)
next
  case (snoc p ps)
  have sorted: "sorted (map utime_since ps)" and le: "\<And>q. q \<in> set ps \<Longrightarrow> utime_since q \<le> utime_since p"
    using snoc.prems by (auto simp: sorted_append)
  let ?r = "rate_at mc (used st)" and ?l = "last_paid st" and ?u = "utime_since p"
  have new: "?r (ps @ [p]) t = segment_rate mc (used st) p" if "?u \<le> t" for t
    using that by (simp add: rate_at_def)
  have old: "?r (ps @ [p]) t = ?r ps t" if "t < ?u" for t
    using that by (simp add: rate_at_def)
  show ?case
  proof (cases "?u > until")
    case True
    then have "(\<Sum>t = ?l..<until. ?r (ps @ [p]) t) = (\<Sum>t = ?l..<until. ?r ps t)"
      by (intro sum.cong) (auto intro!: old)
    with True snoc.IH[OF sorted snoc.prems(2)] show ?thesis by simp
  next
    case False
    let ?m = "max ?u ?l"
    have seg: "(\<Sum>t = ?m..<until. ?r (ps @ [p]) t) = (until - ?m) * segment_rate mc (used st) p"
      by (intro sum_const_rate new) simp
    have split: "(\<Sum>t = ?l..<until. ?r (ps @ [p]) t) =
        (\<Sum>t = ?l..<?m. ?r (ps @ [p]) t) + (until - ?m) * segment_rate mc (used st) p"
      unfolding seg[symmetric] using False snoc.prems(2) by (intro sum.atLeastLessThan_concat[symmetric]) auto
    have before: "(\<Sum>t = ?l..<?m. ?r (ps @ [p]) t) = (\<Sum>t = ?l..<?m. ?r ps t)"
      by (intro sum.cong) (auto intro!: old)
    let ?t = "tot + (until - ?m) * segment_rate mc (used st) p"
    have tot: "sat_add128 (min tot u128_max) (segment_fee mc (used st) p (until - ?m)) = min ?t u128_max"
      by (simp add: sat_add128_def segment_fee_rate min_add_min)
    show ?thesis
    proof (cases "?u \<le> ?l")
      case True
      with False tot split show ?thesis by (simp add: Let_def max_def)
    next
      case gt: False
      with False tot split before snoc.IH[OF sorted, of ?u ?t] show ?thesis
        by (simp add: Let_def max_def add.commute add.left_commute)
    qed
  qed
qed

lemma storage_fees_by_second:
  assumes "sorted (map utime_since (config_storage_prices cfg))" and "last_paid st \<noteq> 0"
  shows "compute_storage_fees cfg st time False mc =
    shift_ceil_price (min (\<Sum>t = last_paid st..<time. rate_at mc (used st) (config_storage_prices cfg) t) u128_max)"
proof (cases "last_paid st < time")
  case True
  note loop = storage_fee_loop_sum[OF assms(1) True, of mc 0]
  show ?thesis
  proof (cases "config_storage_prices cfg")
    case Nil
    then show ?thesis by (simp add: compute_storage_fees_def rate_at_def shift_ceil_price_def)
  next
    case (Cons oldest ps)
    have "rate_at mc (used st) (config_storage_prices cfg) t = 0" if "t < time" "time \<le> utime_since oldest" for t
    proof -
      have "\<forall>p \<in> set (config_storage_prices cfg). \<not> utime_since p \<le> t"
        using that assms(1) unfolding Cons by fastforce
      then have "find (\<lambda>p. utime_since p \<le> t) (rev (config_storage_prices cfg)) = None"
        by (simp add: find_None_iff)
      then show ?thesis by (simp add: rate_at_def)
    qed
    then have "time \<le> utime_since oldest \<Longrightarrow>
        (\<Sum>t = last_paid st..<time. rate_at mc (used st) (config_storage_prices cfg) t) = 0"
      by simp
    with True assms(2) loop Cons show ?thesis
      by (cases "time \<le> utime_since oldest") (simp_all add: compute_storage_fees_def shift_ceil_price_def)
  qed
qed (simp add: compute_storage_fees_def shift_ceil_price_def)

lemma storage_fees_bound: "compute_storage_fees cfg st time special mc \<le> 2 ^ 112"
proof -
  have "storage_fee_loop mc st u t ps \<le> u128_max" if "t \<le> u128_max" for u t ps
    using that by (induction mc st u t ps rule: storage_fee_loop.induct) (auto simp: Let_def sat_add128_def)
  then have "shift_ceil_price (storage_fee_loop mc st time 0 ps) \<le> 2 ^ 112" for ps
    by (fastforce simp: shift_ceil_price_le u128_max_def intro: order_trans)
  then show ?thesis by (auto simp: compute_storage_fees_def split: list.splits)
qed

section \<open>The gas bought is the most the balance pays for\<close>

text \<open>What \<open>g\<close> units of gas cost: the flat price up to the flat limit, the unit price above.\<close>

definition gas_cost :: "gas_limits_prices \<Rightarrow> nat \<Rightarrow> nat" where
  "gas_cost p g = (if g \<le> flat_gas_limit p then flat_gas_price p
     else flat_gas_price p + shift_ceil_price (gas_unit_price p * (g - flat_gas_limit p)))"

definition prices_fit :: "gas_limits_prices \<Rightarrow> bool" where
  "prices_fit p \<longleftrightarrow> gas_unit_price p < 2 ^ 64 \<and> prices_gas_limit p < 2 ^ 64 \<and> flat_gas_price p < 2 ^ 64"

lemma unit_times_gas:
  assumes "prices_fit p"
  shows "gas_unit_price p * (prices_gas_limit p - flat_gas_limit p) \<le> 2 ^ 128"
proof -
  have "gas_unit_price p * (prices_gas_limit p - flat_gas_limit p) \<le> 2 ^ 64 * 2 ^ 64"
    using assms by (intro mult_le_mono) (auto simp: prices_fit_def)
  then show ?thesis by simp
qed

lemma gas_bought_middle:
  assumes "prices_fit p" and "flat_gas_price p \<le> bal" and "bal < max_gas_threshold p" and "gas_unit_price p \<noteq> 0"
    and "bal \<noteq> 0"
  shows "flat_gas_limit p < prices_gas_limit p"
    "gas_bought_for p bal = (bal - flat_gas_price p) * 2 ^ 16 div gas_unit_price p + flat_gas_limit p"
    "gas_bought_for p bal < prices_gas_limit p"
proof -
  let ?g = "gas_unit_price p" and ?d = "prices_gas_limit p - flat_gas_limit p" and ?b = "bal - flat_gas_price p"
  show lim: "flat_gas_limit p < prices_gas_limit p"
    using assms(2,3) by (auto simp: max_gas_threshold_def split: if_splits)
  then have "bal < shift_ceil_price (?g * ?d) + flat_gas_price p"
    using assms(3) by (simp add: max_gas_threshold_def sat_add128_def)
  then have "?b * 2 ^ 16 < ?g * ?d"
    using assms(2) shift_ceil_price_le[of "?g * ?d" ?b] by linarith
  moreover note unit_times_gas[OF assms(1)]
  ultimately have small: "?b * 2 ^ 16 < 2 ^ 128" and q: "?b * 2 ^ 16 div ?g < ?d"
    using assms(4) by (auto simp: div_less_iff_less_mult mult.commute)
  let ?res = "?b * 2 ^ 16 div ?g + flat_gas_limit p"
  have fits: "?res < prices_gas_limit p" using q lim by linarith
  then have fits64: "?res < 2 ^ 64" using assms(1) by (simp add: prices_fit_def)
  have shift: "take_bit 128 (push_bit 16 ?b) = ?b * 2 ^ 16"
    using small by (simp add: push_bit_eq_mult take_bit_eq_mod)
  have sat: "sat_add128 (?b * 2 ^ 16 div ?g) (flat_gas_limit p) = ?res"
    unfolding sat_add128_def u128_max_def using fits64 by (intro min_absorb1) simp
  show eq: "gas_bought_for p bal = ?res"
    using assms(2-5) fits64 unfolding gas_bought_for_def shift sat Let_def by simp
  show "gas_bought_for p bal < prices_gas_limit p" using fits unfolding eq .
qed

lemma gas_cost_limit:
  assumes "prices_fit p" and "flat_gas_price p \<le> bal" and "max_gas_threshold p \<le> bal \<or> gas_unit_price p = 0"
  shows "gas_cost p (prices_gas_limit p) \<le> bal"
proof -
  have "shift_ceil_price (gas_unit_price p * (prices_gas_limit p - flat_gas_limit p)) \<le> 2 ^ 112"
    unfolding shift_ceil_price_le
    using unit_times_gas[OF assms(1)] by simp
  moreover have "flat_gas_price p < 2 ^ 64" using assms(1) by (simp add: prices_fit_def)
  ultimately show ?thesis
    using assms(2,3)
    by (auto simp: gas_cost_def max_gas_threshold_def sat_add128_def u128_max_def min_def shift_ceil_price_def
        split: if_splits)
qed

lemma gas_cost_next:
  assumes "flat_gas_price p \<le> bal" and "gas_unit_price p \<noteq> 0"
    and "g = (bal - flat_gas_price p) * 2 ^ 16 div gas_unit_price p + flat_gas_limit p"
  shows "gas_cost p g \<le> bal" "bal < gas_cost p (g + 1)"
proof -
  let ?b = "bal - flat_gas_price p" and ?u = "gas_unit_price p"
  let ?q = "?b * 2 ^ 16 div ?u"
  have "?u * ?q \<le> ?b * 2 ^ 16" by (simp add: times_div_less_eq_dividend)
  then have "shift_ceil_price (?u * ?q) \<le> ?b" by (simp only: shift_ceil_price_le)
  then have "flat_gas_price p + shift_ceil_price (?u * ?q) \<le> bal" using assms(1) by linarith
  then show "gas_cost p g \<le> bal" using assms(1) by (simp add: gas_cost_def assms(3))
  have "?b * 2 ^ 16 < ?u * (?q + 1)"
    using assms(2) dividend_less_times_div[of ?u "?b * 2 ^ 16"] by simp
  then have "\<not> shift_ceil_price (?u * (?q + 1)) \<le> ?b" by (simp only: shift_ceil_price_le not_le)
  then show "bal < gas_cost p (g + 1)" using assms(1) by (simp add: gas_cost_def assms(3))
qed

lemma gas_bought_most:
  assumes "prices_fit p" and "bal \<noteq> 0" and "flat_gas_price p \<le> bal"
  shows "gas_bought_for p bal \<le> prices_gas_limit p" "gas_cost p (gas_bought_for p bal) \<le> bal"
    "gas_bought_for p bal < prices_gas_limit p \<Longrightarrow> bal < gas_cost p (gas_bought_for p bal + 1)"
proof -
  have "gas_bought_for p bal \<le> prices_gas_limit p \<and> gas_cost p (gas_bought_for p bal) \<le> bal \<and>
    (gas_bought_for p bal < prices_gas_limit p \<longrightarrow> bal < gas_cost p (gas_bought_for p bal + 1))"
  proof (cases "max_gas_threshold p \<le> bal \<or> gas_unit_price p = 0")
    case True
    then have "gas_bought_for p bal = prices_gas_limit p" using assms(2,3) by (auto simp: gas_bought_for_def)
    with True gas_cost_limit[OF assms(1,3)] show ?thesis by simp
  next
    case False
    then have mid: "bal < max_gas_threshold p" "gas_unit_price p \<noteq> 0" by auto
    note m = gas_bought_middle[OF assms(1,3) mid assms(2)]
    with gas_cost_next[OF assms(3) mid(2) m(2)] show ?thesis by simp
  qed
  then show "gas_bought_for p bal \<le> prices_gas_limit p" "gas_cost p (gas_bought_for p bal) \<le> bal"
    "gas_bought_for p bal < prices_gas_limit p \<Longrightarrow> bal < gas_cost p (gas_bought_for p bal + 1)"
    by auto
qed

end
