(* ===== verification/StorageStat.thy ===== *)
theory StorageStat
  imports ExecTypes
begin

text \<open>
  \<open>ExtStorageStat\<close> and \<open>OwnedExtStorageStat\<close> of \<open>executor/src/util.rs\<close>, and the limits of a contract
  state: the cells and bits of a tree, every cell counted once. The owned variant keeps the cells
  alive for its hashes, which the model need not do, so both are one.
\<close>

section \<open>The traversal\<close>

text \<open>
  The recursion follows the references of cells, so it ends; the model takes fuel, and a fuel
  above the depth of the cell is enough.
\<close>

datatype stat_fail = Exceeded | OutOfFuel

type_synonym 'a stat_act = "(ext_storage_stat, stat_fail, 'a) act"

definition MAX_ALLOWED_MERKLE_DEPTH :: nat where "MAX_ALLOWED_MERKLE_DEPTH = 2"

definition U32_MAX :: nat where "U32_MAX = 2 ^ 32 - 1"

definition stat_with_limits :: "nat \<Rightarrow> nat \<Rightarrow> ext_storage_stat" where
  "stat_with_limits bits cells =
     \<lparr>visited = Map.empty, limit_bits = bits, limit_cells = cells, stat_cells = 0, stat_bits = 0\<rparr>"

definition stat_unlimited :: ext_storage_stat where
  "stat_unlimited = stat_with_limits U32_MAX U32_MAX"

definition set_unlimited :: "ext_storage_stat \<Rightarrow> ext_storage_stat" where
  "set_unlimited s = s\<lparr>limit_bits := U32_MAX, limit_cells := U32_MAX\<rparr>"

definition is_merkle :: "('c, 's) api \<Rightarrow> 'c \<Rightarrow> bool" where
  "is_merkle A c \<longleftrightarrow> cell_kind A c = MerkleProof \<or> cell_kind A c = MerkleUpdate"

text \<open>\<open>checked_add\<close> on both counters, then the limits.\<close>

definition count_cell :: "('c, 's, 'b) exec_lib \<Rightarrow> 'c \<Rightarrow> unit stat_act" where
  "count_cell X c =
     bnd (gets stat_cells) (\<lambda>n.
     thn (ensure (n + 1 \<le> U32_MAX) Exceeded)
    (thn (modify (\<lambda>s. s\<lparr>stat_cells := n + 1\<rparr>))
    (bnd (gets stat_bits) (\<lambda>b.
     thn (ensure (b + cell_bit_len X c \<le> U32_MAX) Exceeded)
    (thn (modify (\<lambda>s. s\<lparr>stat_bits := b + cell_bit_len X c\<rparr>))
    (bnd (gets (\<lambda>s. stat_cells s \<le> limit_cells s \<and> stat_bits s \<le> limit_bits s)) (\<lambda>fits.
     ensure fits Exceeded)))))))"

definition finish_cell :: "('c, 's) api \<Rightarrow> 'c \<Rightarrow> nat \<Rightarrow> nat stat_act" where
  "finish_cell A c m =
     (let d = min 255 (m + of_bool (is_merkle A c)) in
      thn (modify (\<lambda>s. s\<lparr>visited := (visited s)(cell_repr_hash A c \<mapsto> d)\<rparr>))
     (thn (ensure (d \<le> MAX_ALLOWED_MERKLE_DEPTH) Exceeded) (ret d)))"

function add_cell_impl ::
    "('c, 's) api \<Rightarrow> ('c, 's, 'b) cell_lib \<Rightarrow> ('c, 's, 'b) exec_lib \<Rightarrow> nat \<Rightarrow> 'c \<Rightarrow> nat stat_act"
  and add_refs ::
    "('c, 's) api \<Rightarrow> ('c, 's, 'b) cell_lib \<Rightarrow> ('c, 's, 'b) exec_lib \<Rightarrow> nat \<Rightarrow> 'c list \<Rightarrow> nat \<Rightarrow> nat stat_act" where
  "add_cell_impl A L X 0 c = fail OutOfFuel"
| "add_cell_impl A L X (Suc n) c =
     bnd (gets (\<lambda>s. visited s (cell_repr_hash A c))) (\<lambda>seen. case seen of
       Some d \<Rightarrow> ret d
     | None \<Rightarrow>
         thn (count_cell X c)
        (bnd (add_refs A L X n (cl_references L c) 0) (finish_cell A c)))"
| "add_refs A L X n [] m = ret m"
| "add_refs A L X n (c # cs) m =
     bnd (add_cell_impl A L X n c) (\<lambda>d. add_refs A L X n cs (max d m))"
  by pat_completeness auto
termination
  by (relation "measures [\<lambda>x. case x of Inl (A, L, X, n, c) \<Rightarrow> n | Inr (A, L, X, n, cs, m) \<Rightarrow> n,
        \<lambda>x. case x of Inl _ \<Rightarrow> 0 | Inr (A, L, X, n, cs, m) \<Rightarrow> Suc (length cs)]") auto

text \<open>\<open>add_cell\<close> with the fuel its cell needs; the success is all it returns.\<close>

definition add_cell ::
    "('c, 's) api \<Rightarrow> ('c, 's, 'b) cell_lib \<Rightarrow> ('c, 's, 'b) exec_lib \<Rightarrow> 'c \<Rightarrow> ext_storage_stat \<Rightarrow> bool \<times> ext_storage_stat" where
  "add_cell A L X c s = (case add_cell_impl A L X (Suc (cell_repr_depth A c)) c s of
     (Inl _, s') \<Rightarrow> (False, s') | (Inr _, s') \<Rightarrow> (True, s'))"

fun add_cells ::
    "('c, 's) api \<Rightarrow> ('c, 's, 'b) cell_lib \<Rightarrow> ('c, 's, 'b) exec_lib \<Rightarrow> 'c list \<Rightarrow> ext_storage_stat \<Rightarrow> bool \<times> ext_storage_stat" where
  "add_cells A L X [] s = (True, s)"
| "add_cells A L X (c # cs) s = (case add_cell A L X c s of
     (False, s') \<Rightarrow> (False, s') | (True, s') \<Rightarrow> add_cells A L X cs s')"

text \<open>The root of a slice is counted whatever the limits; \<open>None\<close> when a child exceeds them.\<close>

definition compute_for_slice ::
    "('c, 's) api \<Rightarrow> ('c, 's, 'b) cell_lib \<Rightarrow> ('c, 's, 'b) exec_lib \<Rightarrow> 's \<Rightarrow> nat \<Rightarrow> nat \<Rightarrow> (nat \<times> nat) option" where
  "compute_for_slice A L X cs bits cells =
     (case add_cells A L X (sl_references L cs)
         ((stat_with_limits bits cells)\<lparr>stat_cells := 1, stat_bits := slice_size_bits A cs\<rparr>) of
        (False, _) \<Rightarrow> None
      | (True, s) \<Rightarrow> Some (stat_bits s, stat_cells s))"

section \<open>The limits of a state\<close>

datatype state_limits_result = Unchanged | Exceeds | Fits

text \<open>The loop over the public libraries stops at the first broken entry or above the limit.\<close>

fun public_libs_ok :: "nat \<Rightarrow> nat \<Rightarrow> (cell_error + bool) list \<Rightarrow> bool" where
  "public_libs_ok limit n [] = True"
| "public_libs_ok limit n (Inl e # ls) = False"
| "public_libs_ok limit n (Inr pub # ls) =
     (if n + of_bool pub > limit then False else public_libs_ok limit (n + of_bool pub) ls)"

definition opt_list :: "'a option \<Rightarrow> 'a list" where
  "opt_list x = (case x of None \<Rightarrow> [] | Some v \<Rightarrow> [v])"

definition check_state_limits ::
    "('c, 's) api \<Rightarrow> ('c, 's, 'b) cell_lib \<Rightarrow> ('c, 's, 'b) exec_lib \<Rightarrow> 'c state_init \<Rightarrow> size_limits \<Rightarrow> bool \<Rightarrow>
     ext_storage_stat option \<Rightarrow> state_limits_result \<times> ext_storage_stat option" where
  "check_state_limits A L X st limits check_public_libs cache =
     (case add_cells A L X (opt_list (si_code st) @ opt_list (si_data st) @ opt_list (si_libraries st))
         (stat_with_limits (max_acc_state_bits limits) (max_acc_state_cells limits)) of
        (False, _) \<Rightarrow> (Exceeds, cache)
      | (True, s) \<Rightarrow>
          if check_public_libs \<and>
             \<not> public_libs_ok (max_acc_public_libraries limits) 0 (dict_public_libs X (si_libraries st))
          then (Exceeds, cache) else (Fits, Some s))"

definition check_state_limits_diff ::
    "('c, 's) api \<Rightarrow> ('c, 's, 'b) cell_lib \<Rightarrow> ('c, 's, 'b) exec_lib \<Rightarrow> 'c state_init \<Rightarrow> 'c state_init \<Rightarrow> size_limits \<Rightarrow>
     bool \<Rightarrow> ext_storage_stat option \<Rightarrow> state_limits_result \<times> ext_storage_stat option" where
  "check_state_limits_diff A L X old_state new_state limits mc cache =
     (let libs_changed = si_libraries old_state \<noteq> si_libraries new_state in
      if si_code old_state = si_code new_state \<and> si_data old_state = si_data new_state \<and> \<not> libs_changed
      then (Unchanged, cache)
      else check_state_limits A L X new_state limits (mc \<and> libs_changed) cache)"

section \<open>Every cell is counted once\<close>

text \<open>What the traversal relies on of a set of cells: hashes tell them apart, their references are among
  them and less deep.\<close>

definition tree_cells :: "('c, 's) api \<Rightarrow> ('c, 's, 'b) cell_lib \<Rightarrow> 'c set \<Rightarrow> bool" where
  "tree_cells A L C \<longleftrightarrow> inj_on (cell_repr_hash A) C \<and>
     (\<forall>c \<in> C. \<forall>d \<in> set (cl_references L c). d \<in> C \<and> cell_repr_depth A d < cell_repr_depth A c)"

inductive_set reach :: "('c, 's, 'b) cell_lib \<Rightarrow> 'c \<Rightarrow> 'c set" for L :: "('c, 's, 'b) cell_lib" and c :: 'c where
  reach_root: "c \<in> reach L c"
| reach_ref: "d \<in> reach L c \<Longrightarrow> e \<in> set (cl_references L d) \<Longrightarrow> e \<in> reach L c"

lemma reach_trans: "e \<in> reach L d \<Longrightarrow> d \<in> reach L c \<Longrightarrow> e \<in> reach L c"
  by (induction rule: reach.induct) (auto intro: reach.intros)

lemma reach_unfold: "reach L c = insert c (\<Union>d \<in> set (cl_references L c). reach L d)"
proof -
  have "e \<in> insert c (\<Union>d \<in> set (cl_references L c). reach L d)" if "e \<in> reach L c" for e
    using that by induction (auto intro: reach.intros)
  moreover have "reach L d \<subseteq> reach L c" if "d \<in> set (cl_references L c)" for d
    using reach_trans[OF _ reach_ref[OF reach_root that]] by blast
  ultimately show ?thesis by (auto intro: reach_root)
qed

lemma reach_depth:
  assumes "tree_cells A L C" and "c \<in> C" and "d \<in> reach L c"
  shows "d \<in> C \<and> cell_repr_depth A d \<le> cell_repr_depth A c"
  using assms(3)
proof induction
  case (reach_ref d e)
  then have "e \<in> C \<and> cell_repr_depth A e < cell_repr_depth A d" using assms(1) unfolding tree_cells_def by blast
  with reach_ref show ?case by simp
qed (simp add: assms(2))

lemma reach_cells: "tree_cells A L C \<Longrightarrow> c \<in> C \<Longrightarrow> reach L c \<subseteq> C"
  using reach_depth by fastforce

lemma tree_refs: "tree_cells A L C \<Longrightarrow> c \<in> C \<Longrightarrow> set (cl_references L c) \<subseteq> C"
  by (auto simp: tree_cells_def)

lemma root_not_below:
  assumes "tree_cells A L C" and "c \<in> C" and "d \<in> set (cl_references L c)"
  shows "c \<notin> reach L d"
  using assms reach_depth[OF assms(1), of d c] by (fastforce simp: tree_cells_def)

text \<open>
  \<open>counts C n b S s\<close>: beyond \<open>n\<close> cells and \<open>b\<close> bits the counters hold exactly the cells of \<open>S\<close>, which
  are the visited ones of \<open>C\<close> and closed under references.
\<close>

definition counts ::
    "('c, 's) api \<Rightarrow> ('c, 's, 'b) cell_lib \<Rightarrow> ('c, 's, 'b) exec_lib \<Rightarrow> 'c set \<Rightarrow> nat \<Rightarrow> nat \<Rightarrow> 'c set \<Rightarrow>
     ext_storage_stat \<Rightarrow> bool" where
  "counts A L X C n b S s \<longleftrightarrow> S \<subseteq> C \<and> finite S \<and> (\<forall>c \<in> S. reach L c \<subseteq> S) \<and> dom (visited s) = cell_repr_hash A ` S \<and>
     stat_cells s = n + card S \<and> stat_bits s = b + sum (cell_bit_len X) S"

lemma count_cell_eq:
  "count_cell X c s = (Inr u, t) \<longleftrightarrow>
     t = s\<lparr>stat_cells := stat_cells s + 1, stat_bits := stat_bits s + cell_bit_len X c\<rparr> \<and>
     stat_cells t \<le> U32_MAX \<and> stat_bits t \<le> U32_MAX \<and>
     stat_cells t \<le> limit_cells t \<and> stat_bits t \<le> limit_bits t"
  by (auto simp: count_cell_def act_defs split: prod.splits sum.splits if_splits)

lemma counts_visited:
  assumes "tree_cells A L C" and "c \<in> C" and "counts A L X C n b S s"
  shows "visited s (cell_repr_hash A c) = None \<longleftrightarrow> c \<notin> S"
proof -
  have "visited s (cell_repr_hash A c) = None \<longleftrightarrow> cell_repr_hash A c \<notin> dom (visited s)"
    by (simp add: domIff)
  also have "\<dots> \<longleftrightarrow> c \<notin> S"
    using assms inj_on_image_mem_iff[of "cell_repr_hash A" C c S] by (simp add: tree_cells_def counts_def)
  finally show ?thesis .
qed

lemma counts_finish:
  assumes "counts A L X C (n + 1) (b + cell_bit_len X c) S s" and "c \<notin> S" and "c \<in> C"
    and "(\<Union>d \<in> set (cl_references L c). reach L d) \<subseteq> S"
  shows "counts A L X C n b (insert c S) (s\<lparr>visited := (visited s)(cell_repr_hash A c \<mapsto> d)\<rparr>)"
  using assms reach_unfold[of L c] by (auto simp: counts_def)

lemma finish_cell_eq:
  "finish_cell A c m s = (Inr d, t) \<Longrightarrow> t = s\<lparr>visited := (visited s)(cell_repr_hash A c \<mapsto> d)\<rparr>"
  by (auto simp: finish_cell_def act_defs Let_def split: prod.splits sum.splits if_splits)

lemma add_cell_step:
  assumes T: "tree_cells A L C" and S: "counts A L X C k b S s" and C: "c \<in> C"
    and run: "add_cell_impl A L X (Suc n) c s = (Inr d, t)"
    and refs: "\<And>s1 m s2. counts A L X C (k + 1) (b + cell_bit_len X c) S s1 \<Longrightarrow>
      add_refs A L X n (cl_references L c) 0 s1 = (Inr m, s2) \<Longrightarrow>
      counts A L X C (k + 1) (b + cell_bit_len X c) (S \<union> (\<Union>d \<in> set (cl_references L c). reach L d)) s2"
  shows "counts A L X C k b (S \<union> reach L c) t"
proof (cases "c \<in> S")
  case True
  then have "S \<union> reach L c = S" using S by (auto simp: counts_def)
  moreover obtain d0 where "visited s (cell_repr_hash A c) = Some d0"
    using counts_visited[OF T C S] True by auto
  then have "t = s" using run by simp
  ultimately show ?thesis using S by simp
next
  case False
  let ?U = "\<Union>d \<in> set (cl_references L c). reach L d"
  from False have "visited s (cell_repr_hash A c) = None" using counts_visited[OF T C S] by simp
  with run have r: "thn (count_cell X c) (bnd (add_refs A L X n (cl_references L c) 0) (finish_cell A c)) s = (Inr d, t)"
    by simp
  then obtain s1 m s2 where r1: "count_cell X c s = (Inr (), s1)"
    and r2: "add_refs A L X n (cl_references L c) 0 s1 = (Inr m, s2)" and r3: "finish_cell A c m s2 = (Inr d, t)"
    by (auto simp: bnd_eq_Inr_iff thn_eq_Inr_iff)
  have "counts A L X C (k + 1) (b + cell_bit_len X c) S s1"
    using S r1 by (auto simp: count_cell_eq counts_def)
  from refs[OF this r2] have "counts A L X C (k + 1) (b + cell_bit_len X c) (S \<union> ?U) s2" .
  moreover have "c \<notin> S \<union> ?U" using False root_not_below[OF T C] by auto
  ultimately have "counts A L X C k b (insert c (S \<union> ?U)) t"
    unfolding finish_cell_eq[OF r3] using C by (intro counts_finish) auto
  moreover have "insert c (S \<union> ?U) = S \<union> reach L c" using reach_unfold[of L c] by auto
  ultimately show ?thesis by simp
qed

lemma add_cell_counts:
  "tree_cells A L C \<Longrightarrow> counts A L X C k b S s \<Longrightarrow> c \<in> C \<Longrightarrow> add_cell_impl A L X n c s = (Inr d, t) \<Longrightarrow>
     counts A L X C k b (S \<union> reach L c) t"
  "tree_cells A L C \<Longrightarrow> counts A L X C k b S s \<Longrightarrow> set cs \<subseteq> C \<Longrightarrow> add_refs A L X n cs m s = (Inr d, t) \<Longrightarrow>
     counts A L X C k b (S \<union> (\<Union>c \<in> set cs. reach L c)) t"
proof (induction A L X n c and A L X n cs m arbitrary: k b S s d t and k b S s d t
    rule: add_cell_impl_add_refs.induct)
  case (2 A L X n c)
  show ?case
    by (rule add_cell_step[OF "2.prems"]) (rule "2.IH"[OF "2.prems"(1) _ tree_refs[OF "2.prems"(1,3)]])
next
  case (4 A L X n c cs m)
  then obtain d1 s1 where r: "add_cell_impl A L X n c s = (Inr d1, s1)"
    "add_refs A L X n cs (max d1 m) s1 = (Inr d, t)"
    by (auto simp: bnd_eq_Inr_iff)
  have "c \<in> C" "set cs \<subseteq> C" using "4.prems"(3) by simp_all
  from "4.IH"(2)[OF "4.prems"(1) "4.IH"(1)[OF "4.prems"(1,2) this(1) r(1)] this(2) r(2)] show ?case
    by (simp add: Un_assoc)
qed auto

text \<open>Enough fuel.\<close>

lemma refs_depth:
  "tree_cells A L C \<Longrightarrow> c \<in> C \<Longrightarrow> cell_repr_depth A c < Suc n \<Longrightarrow> \<forall>d \<in> set (cl_references L c). cell_repr_depth A d < n"
  unfolding tree_cells_def by (meson less_Suc_eq_le order_less_le_trans)

lemma bnd_no_fail:
  assumes "fst (m s) \<noteq> Inl e" and "\<And>x t. fst (f x t) \<noteq> Inl e"
  shows "fst (bnd m f s) \<noteq> Inl e"
  using assms by (auto simp: bnd_def split: prod.splits sum.splits)

lemma thn_no_fail: "fst (m s) \<noteq> Inl e \<Longrightarrow> (\<And>t. fst (n t) \<noteq> Inl e) \<Longrightarrow> fst (thn m n s) \<noteq> Inl e"
  unfolding thn_def by (rule bnd_no_fail)

lemma fuel_enough:
  "tree_cells A L C \<Longrightarrow> c \<in> C \<Longrightarrow> cell_repr_depth A c < n \<Longrightarrow> fst (add_cell_impl A L X n c s) \<noteq> Inl OutOfFuel"
  "tree_cells A L C \<Longrightarrow> set cs \<subseteq> C \<Longrightarrow> \<forall>c \<in> set cs. cell_repr_depth A c < n \<Longrightarrow> fst (add_refs A L X n cs m s) \<noteq> Inl OutOfFuel"
proof (induction A L X n c and A L X n cs m arbitrary: s and s rule: add_cell_impl_add_refs.induct)
  case (2 A L X n c)
  note IH = "2.IH"[OF "2.prems"(1) tree_refs[OF "2.prems"(1,2)] refs_depth[OF "2.prems"]]
  have "fst (count_cell X c s) \<noteq> Inl OutOfFuel" "fst (finish_cell A c m s') \<noteq> Inl OutOfFuel" for s' m
    by (auto simp: count_cell_def finish_cell_def act_defs Let_def split: prod.splits sum.splits)
  with IH have "fst (thn (count_cell X c) (bnd (add_refs A L X n (cl_references L c) 0) (finish_cell A c)) s)
      \<noteq> Inl OutOfFuel"
    by (intro thn_no_fail bnd_no_fail)
  then show ?case by (simp split: option.splits)
next
  case (4 A L X n c cs m)
  have "fst (bnd (add_cell_impl A L X n c) (\<lambda>d. add_refs A L X n cs (max d m)) s) \<noteq> Inl OutOfFuel"
    by (rule bnd_no_fail, rule "4.IH"(1), rule "4.prems"(1)) (use 4 in auto)
  then show ?case by simp
qed simp_all

text \<open>Within the limits and without Merkle cells nothing fails.\<close>

definition no_merkle :: "ext_storage_stat \<Rightarrow> bool" where
  "no_merkle s \<longleftrightarrow> (\<forall>h d. visited s h = Some d \<longrightarrow> d = 0)"

definition within_limits :: "('c, 's, 'b) exec_lib \<Rightarrow> nat \<Rightarrow> nat \<Rightarrow> 'c set \<Rightarrow> ext_storage_stat \<Rightarrow> bool" where
  "within_limits X k b S s \<longleftrightarrow> finite S \<and>
     k + card S \<le> min U32_MAX (limit_cells s) \<and> b + sum (cell_bit_len X) S \<le> min U32_MAX (limit_bits s)"

lemma within_mono: "within_limits X k b S s \<Longrightarrow> S' \<subseteq> S \<Longrightarrow> within_limits X k b S' s"
  unfolding within_limits_def
  using card_mono[of S S'] sum_mono2[of S S' "cell_bit_len X"] finite_subset[of S' S] by fastforce

lemma within_count:
  assumes "within_limits X k b (insert c S) s" and "c \<notin> S" and "finite S"
  shows "within_limits X (k + 1) (b + cell_bit_len X c) S (s\<lparr>stat_cells := x, stat_bits := y\<rparr>)"
  using assms by (simp add: within_limits_def ac_simps)

definition clean_run :: "ext_storage_stat \<Rightarrow> (stat_fail + nat) \<times> ext_storage_stat \<Rightarrow> bool" where
  "clean_run s r \<longleftrightarrow> (\<exists>t. r = (Inr 0, t) \<and> no_merkle t \<and> limit_cells t = limit_cells s \<and> limit_bits t = limit_bits s)"

lemma add_cell_clean_step:
  assumes T: "tree_cells A L C" and S: "counts A L X C k b S s" and C: "c \<in> C" and W: "within_limits X k b (S \<union> reach L c) s"
    and M: "no_merkle s" "\<forall>d \<in> reach L c. \<not> is_merkle A d"
    and refs: "\<And>s1. counts A L X C (k + 1) (b + cell_bit_len X c) S s1 \<Longrightarrow>
      within_limits X (k + 1) (b + cell_bit_len X c) (S \<union> (\<Union>d \<in> set (cl_references L c). reach L d)) s1 \<Longrightarrow>
      no_merkle s1 \<Longrightarrow> clean_run s1 (add_refs A L X n (cl_references L c) 0 s1)"
  shows "clean_run s (add_cell_impl A L X (Suc n) c s)"
proof (cases "visited s (cell_repr_hash A c)")
  case (Some d)
  with M(1) show ?thesis by (simp add: clean_run_def no_merkle_def)
next
  case None
  then have c: "c \<notin> S" using counts_visited[OF T C S] by simp
  let ?U = "\<Union>d \<in> set (cl_references L c). reach L d"
  let ?s1 = "s\<lparr>stat_cells := stat_cells s + 1, stat_bits := stat_bits s + cell_bit_len X c\<rparr>"
  have r: "S \<union> reach L c = insert c (S \<union> ?U)" using reach_unfold[of L c] by auto
  have fin: "finite S" "finite (S \<union> ?U)" using W S unfolding r by (auto simp: within_limits_def counts_def)
  have nU: "c \<notin> S \<union> ?U" using c root_not_below[OF T C] by auto
  have w1: "within_limits X (k + 1) (b + cell_bit_len X c) (S \<union> ?U) ?s1"
    by (rule within_count[OF W[unfolded r] nU fin(2)])
  have "within_limits X (k + 1) (b + cell_bit_len X c) S ?s1" by (rule within_mono[OF w1]) simp
  then have cnt: "count_cell X c s = (Inr (), ?s1)"
    unfolding count_cell_eq using S by (auto simp: within_limits_def counts_def)
  have s1: "counts A L X C (k + 1) (b + cell_bit_len X c) S ?s1" "no_merkle ?s1"
    using S M(1) by (simp_all add: counts_def no_merkle_def)
  obtain s2 where s2: "add_refs A L X n (cl_references L c) 0 ?s1 = (Inr 0, s2)" "no_merkle s2"
    "limit_cells s2 = limit_cells s" "limit_bits s2 = limit_bits s"
    using refs[OF s1(1) w1 s1(2)] by (auto simp: clean_run_def)
  have "\<not> is_merkle A c" by (rule bspec[OF M(2) reach_root])
  then have "finish_cell A c 0 s2 = (Inr 0, s2\<lparr>visited := (visited s2)(cell_repr_hash A c \<mapsto> 0)\<rparr>)"
    by (simp add: finish_cell_def MAX_ALLOWED_MERKLE_DEPTH_def Let_def)
  moreover have "no_merkle (s2\<lparr>visited := (visited s2)(cell_repr_hash A c \<mapsto> 0)\<rparr>)"
    using s2(2) unfolding no_merkle_def by auto
  ultimately show ?thesis
    using None cnt s2(1,3,4) unfolding clean_run_def by auto
qed

lemma add_cell_clean:
  "tree_cells A L C \<Longrightarrow> counts A L X C k b S s \<Longrightarrow> c \<in> C \<Longrightarrow> within_limits X k b (S \<union> reach L c) s \<Longrightarrow> no_merkle s \<Longrightarrow>
     \<forall>d \<in> reach L c. \<not> is_merkle A d \<Longrightarrow> cell_repr_depth A c < n \<Longrightarrow>
     clean_run s (add_cell_impl A L X n c s)"
  "tree_cells A L C \<Longrightarrow> counts A L X C k b S s \<Longrightarrow> set cs \<subseteq> C \<Longrightarrow> within_limits X k b (S \<union> (\<Union>c \<in> set cs. reach L c)) s \<Longrightarrow>
     no_merkle s \<Longrightarrow> \<forall>c \<in> set cs. \<forall>d \<in> reach L c. \<not> is_merkle A d \<Longrightarrow> \<forall>c \<in> set cs. cell_repr_depth A c < n \<Longrightarrow>
     m = 0 \<Longrightarrow> clean_run s (add_refs A L X n cs m s)"
proof (induction A L X n c and A L X n cs m arbitrary: k b S s and k b S s
    rule: add_cell_impl_add_refs.induct)
  case (2 A L X n c)
  note d = refs_depth[OF "2.prems"(1,3,7)] tree_refs[OF "2.prems"(1,3)]
  have m: "\<forall>d \<in> set (cl_references L c). \<forall>e \<in> reach L d. \<not> is_merkle A e"
    using "2.prems"(6) reach_unfold[of L c] by auto
  show ?case
    by (rule add_cell_clean_step[OF "2.prems"(1-6)]) (rule "2.IH"[OF "2.prems"(1) _ d(2) _ _ m d(1) refl])
next
  case (3 A L X n m)
  then show ?case by (simp add: clean_run_def)
next
  case (4 A L X n c cs m)
  have C: "c \<in> C" "set cs \<subseteq> C" using "4.prems"(3) by simp_all
  have "within_limits X k b (S \<union> reach L c) s"
    by (rule within_mono[OF "4.prems"(4)]) auto
  then obtain t where t: "add_cell_impl A L X n c s = (Inr 0, t)" "no_merkle t"
    "limit_cells t = limit_cells s" "limit_bits t = limit_bits s"
    using "4.IH"(1)[OF "4.prems"(1,2) C(1) _ "4.prems"(5)] "4.prems"(6,7) by (auto simp: clean_run_def)
  have "counts A L X C k b (S \<union> reach L c) t" by (rule add_cell_counts(1)[OF "4.prems"(1,2) C(1) t(1)])
  moreover have "within_limits X k b (S \<union> reach L c \<union> (\<Union>c \<in> set cs. reach L c)) t"
    using "4.prems"(4) t(3,4) by (simp add: within_limits_def Un_assoc)
  ultimately have "clean_run t (add_refs A L X n cs (max 0 m) t)"
    using "4.IH"(2)[OF "4.prems"(1) _ C(2) _ t(2)] "4.prems"(6-8) by simp
  then show ?case using t by (simp add: clean_run_def)
qed simp

text \<open>What \<open>add_cell\<close> does from an empty statistic.\<close>

lemma fresh_counts: "counts A L X C 0 0 {} (stat_with_limits bits cells)" "no_merkle (stat_with_limits bits cells)"
  by (simp_all add: counts_def stat_with_limits_def no_merkle_def)

lemma add_cell_Inr: "add_cell A L X c s = (True, t) \<longleftrightarrow> (\<exists>d. add_cell_impl A L X (Suc (cell_repr_depth A c)) c s = (Inr d, t))"
  by (auto simp: add_cell_def split: prod.splits sum.splits)

lemma add_cells_counts:
  "tree_cells A L C \<Longrightarrow> set cs \<subseteq> C \<Longrightarrow> counts A L X C k b S s \<Longrightarrow> add_cells A L X cs s = (True, t) \<Longrightarrow>
     counts A L X C k b (S \<union> (\<Union>c \<in> set cs. reach L c)) t"
proof (induction cs arbitrary: S s)
  case (Cons c cs)
  then obtain s1 where r: "add_cell A L X c s = (True, s1)" "add_cells A L X cs s1 = (True, t)"
    by (auto split: prod.splits bool.splits)
  from r(1) obtain d where "add_cell_impl A L X (Suc (cell_repr_depth A c)) c s = (Inr d, s1)"
    unfolding add_cell_Inr by blast
  from add_cell_counts(1)[OF Cons.prems(1,3) _ this] Cons.prems(2)
  have "counts A L X C k b (S \<union> reach L c) s1" by simp
  with Cons.IH[OF Cons.prems(1) _ this r(2)] Cons.prems(2) show ?case by (simp add: Un_assoc)
qed simp

lemma add_cells_clean:
  "tree_cells A L C \<Longrightarrow> set cs \<subseteq> C \<Longrightarrow> counts A L X C k b S s \<Longrightarrow>
     within_limits X k b (S \<union> (\<Union>c \<in> set cs. reach L c)) s \<Longrightarrow> no_merkle s \<Longrightarrow>
     \<forall>c \<in> set cs. \<forall>d \<in> reach L c. \<not> is_merkle A d \<Longrightarrow> fst (add_cells A L X cs s)"
proof (induction cs arbitrary: S s)
  case (Cons c cs)
  have C: "c \<in> C" "set cs \<subseteq> C" using Cons.prems(2) by simp_all
  have "within_limits X k b (S \<union> reach L c) s" by (rule within_mono[OF Cons.prems(4)]) auto
  then obtain t where t: "add_cell_impl A L X (Suc (cell_repr_depth A c)) c s = (Inr 0, t)" "no_merkle t"
    "limit_cells t = limit_cells s" "limit_bits t = limit_bits s"
    using add_cell_clean(1)[OF Cons.prems(1,3) C(1) _ Cons.prems(5) _ lessI] Cons.prems(6) unfolding clean_run_def
    by (meson list.set_intros(1))
  have "counts A L X C k b (S \<union> reach L c) t" by (rule add_cell_counts(1)[OF Cons.prems(1,3) C(1) t(1)])
  moreover have "within_limits X k b (S \<union> reach L c \<union> (\<Union>c \<in> set cs. reach L c)) t"
    using Cons.prems(4) t(3,4) by (simp add: within_limits_def Un_assoc)
  ultimately have "fst (add_cells A L X cs t)" using Cons.IH[OF Cons.prems(1) C(2) _ _ t(2)] Cons.prems(6) by simp
  moreover have "add_cell A L X c s = (True, t)" using t(1) by (auto simp: add_cell_Inr)
  ultimately show ?case by simp
qed simp

text \<open>The size of a slice: its own bits and one cell, and every cell below it once.\<close>

lemma slice_counts:
  "counts A L X C 1 (slice_size_bits A cs) {} ((stat_with_limits bits cells)\<lparr>stat_cells := 1, stat_bits := slice_size_bits A cs\<rparr>)"
  by (simp add: counts_def stat_with_limits_def)

lemma compute_for_slice_Some:
  assumes "tree_cells A L C" and "set (sl_references L cs) \<subseteq> C" and "compute_for_slice A L X cs bits cells = Some (b, n)"
  shows "n = 1 + card (\<Union>c \<in> set (sl_references L cs). reach L c)"
    "b = slice_size_bits A cs + sum (cell_bit_len X) (\<Union>c \<in> set (sl_references L cs). reach L c)"
proof -
  obtain t where run: "add_cells A L X (sl_references L cs)
      ((stat_with_limits bits cells)\<lparr>stat_cells := 1, stat_bits := slice_size_bits A cs\<rparr>) = (True, t)"
    and t: "b = stat_bits t" "n = stat_cells t"
    using assms(3) by (auto simp: compute_for_slice_def split: prod.splits bool.splits)
  have "counts A L X C 1 (slice_size_bits A cs) ({} \<union> (\<Union>c \<in> set (sl_references L cs). reach L c)) t"
    by (rule add_cells_counts[OF assms(1,2) slice_counts run])
  then show "n = 1 + card (\<Union>c \<in> set (sl_references L cs). reach L c)"
    "b = slice_size_bits A cs + sum (cell_bit_len X) (\<Union>c \<in> set (sl_references L cs). reach L c)"
    by (simp_all add: t counts_def)
qed

end
