(* ===== verification/Phases.thy ===== *)
theory Phases
  imports ExecConfig StorageStat
begin

text \<open>
  The phases of a transaction around the virtual machine: receiving the message
  (\<open>executor/src/phase/receive.rs\<close>), crediting its value (\<open>credit.rs\<close>), paying for storage (\<open>storage.rs\<close>)
  and bouncing it (\<open>bounce.rs\<close>). Each is an action on the executor state; what a phase does to the
  message it is handed is part of its result. The lemmas say where every token goes.
\<close>

section \<open>Receiving the message\<close>

record 'c msg_state_init =
  msi_root :: 'c
  msi_parsed :: "'c state_init"

record ('c, 's) received_message =
  rm_root :: 'c
  rm_init :: "'c msg_state_init option"
  rm_body :: 's
  rm_is_external :: bool
  rm_bounce_enabled :: bool
  rm_balance_remaining :: "'c currency"

definition check_message_dst :: "int_addr \<Rightarrow> ('c, 's, unit) ex" where
  "check_message_dst dst = (case dst of
      AddrStd a \<Rightarrow>
        thn (ex_ensure (sa_anycast a = None) ''anycast is not supported'')
       (bnd (gets address) (\<lambda>me. ex_ensure (a = me) ''message destination address mismatch''))
    | AddrVar _ \<Rightarrow> ex_fail ''`addr_var` is not supported'')"

text \<open>The internal branch: the value and the lt range.\<close>

definition receive_internal :: "('c, 's, 'b) exec_lib \<Rightarrow> 'c int_msg_info \<Rightarrow> ('c, 's, 'c currency) ex" where
  "receive_internal X info =
     thn (check_message_dst (msg_dst info))
    (bnd (ex_lift (cc_add_tokens X (msg_value info) (ihr_fee info))) (\<lambda>remaining.
     thn (modify (\<lambda>es. if created_lt info \<ge> start_lt es
            then let lt = add_u64 (created_lt info) 1 in es\<lparr>start_lt := lt, end_lt := add_u64 lt 1\<rparr> else es))
    (ret remaining)))"

text \<open>The external branch: the import fee. The root cell of the message is free.\<close>

definition receive_external ::
    "('c, 's) api \<Rightarrow> ('c, 's, 'b) cell_lib \<Rightarrow> ('c, 's, 'b) exec_lib \<Rightarrow> int_addr \<Rightarrow> 's \<Rightarrow> ('c, 's, 'c currency) ex" where
  "receive_external A L X dst cs =
     thn (check_message_dst dst)
    (bnd (gets id) (\<lambda>es.
       case compute_for_slice A L X cs (max_msg_bits (config_size_limits (config es)))
              (max_msg_cells (config_size_limits (config es))) of
         None \<Rightarrow> ex_fail ''inbound message limits exceeded''
       | Some (bits, cells) \<Rightarrow>
           let fee = (if is_special es then 0
                 else compute_fwd_fee X (fwd_prices (config es) (is_masterchain (address es)))
                   (bits - slice_size_bits A cs) (cells - 1)) in
           thn (ex_ensure (fee \<le> tokens (balance es)) ''cannot pay for importing an external message'')
          (thn (modify (\<lambda>es. es\<lparr>balance := (balance es)\<lparr>tokens := tokens (balance es) - fee\<rparr>\<rparr>))
          (thn (add_fees X fee) (ret cc_zero)))))"

definition receive_header ::
    "('c, 's) api \<Rightarrow> ('c, 's, 'b) cell_lib \<Rightarrow> ('c, 's, 'b) exec_lib \<Rightarrow> 'c msg_info \<Rightarrow> 's \<Rightarrow>
     ('c, 's, bool \<times> bool \<times> 'c currency) ex" where
  "receive_header A L X info cs = (case info of
      MsgInt info \<Rightarrow> bnd (receive_internal X info) (\<lambda>v. ret (False, bounce info, v))
    | MsgExtIn dst \<Rightarrow> bnd (receive_external A L X dst cs) (\<lambda>v. ret (True, False, v))
    | MsgExtOut \<Rightarrow> ex_fail ''unexpected incoming ExtOut message'')"

text \<open>The state init, inline or in a reference, with its own cell.\<close>

definition receive_init_ref ::
    "('c, 's) api \<Rightarrow> ('c, 's, 'b) cell_lib \<Rightarrow> ('c, 's, 'b) exec_lib \<Rightarrow> 's \<Rightarrow> ('c, 's, 'c msg_state_init \<times> 's) ex" where
  "receive_init_ref A L X cs =
     bnd (ex_lift (sl_load_reference L cs)) (\<lambda>(root, rest).
     thn (ex_ensure (\<not> cl_is_exotic L root) ''state init must be an ordinary cell'')
    (bnd (ex_lift (load_state_init X (slice_of_cell A root))) (\<lambda>(parsed, left).
     thn (ex_ensure (slice_empty A left) ''state init contains extra data'')
    (ret (\<lparr>msi_root = root, msi_parsed = parsed\<rparr>, rest)))))"

definition receive_init_inline ::
    "('c, 's) api \<Rightarrow> ('c, 's, 'b) cell_lib \<Rightarrow> ('c, 's, 'b) exec_lib \<Rightarrow> 's \<Rightarrow> ('c, 's, 'c msg_state_init \<times> 's) ex" where
  "receive_init_inline A L X cs =
     bnd (ex_lift (load_state_init X cs)) (\<lambda>(parsed, rest).
     bnd (ex_lift (sl_skip_last L cs (slice_size_bits A rest) (slice_size_refs A rest))) (\<lambda>init_cs.
     bnd (ex_lift (build_from_slice X init_cs)) (\<lambda>root.
     ret (\<lparr>msi_root = root, msi_parsed = parsed\<rparr>, rest))))"

definition receive_init ::
    "('c, 's) api \<Rightarrow> ('c, 's, 'b) cell_lib \<Rightarrow> ('c, 's, 'b) exec_lib \<Rightarrow> 's \<Rightarrow> ('c, 's, 'c msg_state_init option \<times> 's) ex" where
  "receive_init A L X cs =
     bnd (ex_lift (load_bit X cs)) (\<lambda>(has_init, cs1).
     if \<not> has_init then ret (None, cs1)
     else bnd (ex_lift (load_bit X cs1)) (\<lambda>(as_ref, cs2).
       bnd (if as_ref then receive_init_ref A L X cs2 else receive_init_inline A L X cs2) (\<lambda>(init, cs3).
       ret (Some init, cs3))))"

definition receive_body ::
    "('c, 's) api \<Rightarrow> ('c, 's, 'b) cell_lib \<Rightarrow> ('c, 's, 'b) exec_lib \<Rightarrow> 's \<Rightarrow> ('c, 's, 's) ex" where
  "receive_body A L X cs =
     bnd (ex_lift (load_bit X cs)) (\<lambda>(as_ref, cs1).
     if as_ref then
       bnd (ex_lift (sl_load_reference L cs1)) (\<lambda>(body, cs2).
       thn (ex_ensure (slice_empty A cs2) ''message contains extra data'') (ret (slice_of_cell A body)))
     else ret cs1)"

definition receive_blackhole :: "'c currency \<Rightarrow> ('c, 's, 'c currency) ex" where
  "receive_blackhole v =
     bnd (gets (\<lambda>es. is_blackhole (config es) (address es))) (\<lambda>hole.
     if hole then thn (modify (\<lambda>es. es\<lparr>burned := tokens v\<rparr>)) (ret (v\<lparr>tokens := 0\<rparr>)) else ret v)"

definition receive_in_msg ::
    "('c, 's) api \<Rightarrow> ('c, 's, 'b) cell_lib \<Rightarrow> ('c, 's, 'b) exec_lib \<Rightarrow> 'c \<Rightarrow> ('c, 's, ('c, 's) received_message) ex" where
  "receive_in_msg A L X msg_root =
     bnd (ex_lift (load_msg_info X (slice_of_cell A msg_root))) (\<lambda>(info, cs).
     bnd (receive_header A L X info cs) (\<lambda>(external, bounces, v).
     bnd (receive_init A L X cs) (\<lambda>(init, cs1).
     bnd (receive_body A L X cs1) (\<lambda>body.
     bnd (receive_blackhole v) (\<lambda>remaining.
     ret \<lparr>rm_root = msg_root, rm_init = init, rm_body = body, rm_is_external = external,
          rm_bounce_enabled = bounces, rm_balance_remaining = remaining\<rparr>)))))"

section \<open>Crediting the value\<close>

record 'c credit_phase_info =
  due_fees_collected :: "nat option"
  credit :: "'c currency"

definition credit_phase :: "('c, 's, 'b) exec_lib \<Rightarrow> ('c, 's) received_message \<Rightarrow> ('c, 's, 'c credit_phase_info) ex" where
  "credit_phase X msg =
     bnd (gets balance) (\<lambda>b.
     bnd (ex_lift (cc_add X b (rm_balance_remaining msg))) (\<lambda>b'.
     thn (set_balance b')
    (ret \<lparr>due_fees_collected = None, credit = rm_balance_remaining msg\<rparr>)))"

section \<open>Paying for storage\<close>

datatype account_status_change = StatusUnchanged | StatusFrozen | StatusDeleted

record storage_phase_info =
  storage_fees_collected :: nat
  storage_fees_due :: "nat option"
  status_change :: account_status_change

text \<open>What the account owes: the fees up to now and what was due before.\<close>

definition storage_to_pay :: "('c, 's, 'b) exec_lib \<Rightarrow> ('c, 's) exec_state \<Rightarrow> nat" where
  "storage_to_pay X es =
     (let fees = compute_storage_fees (config es) (storage_stat es) (block_unixtime (params es)) (is_special es)
            (is_masterchain (address es))
      in case due_payment (storage_stat es) of None \<Rightarrow> fees | Some due \<Rightarrow> tk_saturating_add X fees due)"

text \<open>The change of status when \<open>fees_due\<close> stay unpaid.\<close>

definition unpaid_status :: "('c, 's) exec_state \<Rightarrow> nat \<Rightarrow> account_status_change" where
  "unpaid_status es fees_due =
     (let prices = gas_prices (config es) (is_masterchain (address es)) in
      if is_special es then StatusUnchanged
      else case acc_now es of
        AccActive _ \<Rightarrow> if fees_due > freeze_due_limit prices then StatusFrozen else StatusUnchanged
      | st \<Rightarrow>
          if (st = AccUninit \<or> \<not> disable_delete_frozen_accounts (params es))
             \<and> fees_due > delete_due_limit prices \<and> other (balance es) \<noteq> None
          then StatusDeleted else StatusUnchanged)"

definition collect_storage :: "nat \<Rightarrow> ('c, 's) exec_state \<Rightarrow> storage_phase_info \<times> ('c, 's) exec_state" where
  "collect_storage to_pay es =
     (if to_pay = 0 then
        (\<lparr>storage_fees_collected = 0, storage_fees_due = None, status_change = StatusUnchanged\<rparr>, es)
      else case tk_sub (tokens (balance es)) to_pay of
        Some rest \<Rightarrow>
          (\<lparr>storage_fees_collected = to_pay, storage_fees_due = None, status_change = StatusUnchanged\<rparr>,
           es\<lparr>balance := (balance es)\<lparr>tokens := rest\<rparr>, storage_stat := (storage_stat es)\<lparr>due_payment := None\<rparr>\<rparr>)
      | None \<Rightarrow>
          let fees_due = to_pay - tokens (balance es);
              due = (if fees_due = 0 then None else Some fees_due);
              es' = es\<lparr>balance := (balance es)\<lparr>tokens := 0\<rparr>\<rparr>
          in (\<lparr>storage_fees_collected = tokens (balance es), storage_fees_due = due,
               status_change = unpaid_status es' fees_due\<rparr>,
              if is_special es' then es' else es'\<lparr>storage_stat := (storage_stat es')\<lparr>due_payment := due\<rparr>\<rparr>))"

definition apply_status_change :: "account_status_change \<Rightarrow> ('c, 's) exec_state \<Rightarrow> ('c, 's) exec_state" where
  "apply_status_change ch es = (case ch of
      StatusUnchanged \<Rightarrow> es
    | StatusFrozen \<Rightarrow> es\<lparr>end_status := StFrozen\<rparr>
    | StatusDeleted \<Rightarrow> es\<lparr>end_status := StNotExists\<rparr>)"

definition adjust_message :: "bool \<Rightarrow> nat \<Rightarrow> ('c, 's) received_message \<Rightarrow> ('c, 's) received_message" where
  "adjust_message adjust bal msg =
     (if adjust \<and> tokens (rm_balance_remaining msg) > bal
      then msg\<lparr>rm_balance_remaining := (rm_balance_remaining msg)\<lparr>tokens := bal\<rparr>\<rparr> else msg)"

definition storage_phase ::
    "('c, 's, 'b) exec_lib \<Rightarrow> bool \<Rightarrow> ('c, 's) received_message option \<Rightarrow>
     ('c, 's, storage_phase_info \<times> ('c, 's) received_message option) ex" where
  "storage_phase X adjust_msg_balance received =
     bnd (gets id) (\<lambda>es.
     thn (ex_ensure (last_paid (storage_stat es) \<le> block_unixtime (params es))
           ''current unixtime is less than the account last_paid'')
    (thn (modify (\<lambda>es. es\<lparr>storage_stat := (storage_stat es)\<lparr>last_paid :=
           if is_special es then 0 else block_unixtime (params es)\<rparr>\<rparr>))
    (bnd (\<lambda>es1. apfst Inr (collect_storage (storage_to_pay X es) es1)) (\<lambda>info.
     thn (modify (apply_status_change (status_change info)))
    (bnd (gets (\<lambda>es. tokens (balance es))) (\<lambda>bal.
     thn (add_fees X (storage_fees_collected info))
    (ret (info, map_option (adjust_message adjust_msg_balance bal) received))))))))"

section \<open>Bouncing the message\<close>

datatype bounce_phase_info =
    BounceNoFunds (bn_bits: nat) (bn_cells: nat) (bn_req_fwd_fees: nat)
  | BounceExecuted (be_bits: nat) (be_cells: nat) (be_msg_fees: nat) (be_fwd_fees: nat)

definition ROOT_BODY_BITS :: nat where "ROOT_BODY_BITS = 256"
definition BOUNCE_SELECTOR :: nat where "BOUNCE_SELECTOR = 2 ^ 32 - 1"

definition bounce_full_body ::
    "('c, 's) api \<Rightarrow> ('c, 's, 'b) exec_lib \<Rightarrow> 's \<Rightarrow> ('c, 's, 'c option) ex" where
  "bounce_full_body A X body =
     bnd (gets (\<lambda>es. full_body_in_bounced (params es))) (\<lambda>full.
     if \<not> full then ret None
     else if slice_is_full X body then ret (Some (slice_cell A body))
     else bnd (ex_lift (build_from_slice X body)) (\<lambda>c. ret (Some c)))"

text \<open>The selector, the prefix of the original body and the whole body, appended to a builder.\<close>

definition store_bounce_body ::
    "('c, 's, 'b) cell_lib \<Rightarrow> ('c, 's, 'b) exec_lib \<Rightarrow> 's \<Rightarrow> 'c option \<Rightarrow> 'b \<Rightarrow> ('c, 's, 'b) ex" where
  "store_bounce_body L X prefix full b =
     bnd (ex_lift (b_store_u32 L b BOUNCE_SELECTOR)) (\<lambda>b1.
     bnd (ex_lift (store_slice_data X b1 prefix)) (\<lambda>b2.
     case full of None \<Rightarrow> ret b2 | Some c \<Rightarrow> ex_lift (b_store_reference L b2 c)))"

text \<open>The body goes into the root of the message or, when it has no room, into a child.\<close>

definition place_bounce_body ::
    "('c, 's) api \<Rightarrow> ('c, 's, 'b) cell_lib \<Rightarrow> ('c, 's, 'b) exec_lib \<Rightarrow> 's \<Rightarrow> 'c option \<Rightarrow> 'b \<Rightarrow> ('c, 's, 'b) ex" where
  "place_bounce_body A L X prefix full b =
     (if b_has_capacity L b (slice_size_bits A prefix + 33) 0
      then bnd (ex_lift (store_bit X b False)) (store_bounce_body L X prefix full)
      else bnd (store_bounce_body L X prefix full (b_new L)) (\<lambda>child.
           bnd (ex_lift (build_cell X child)) (\<lambda>c.
           bnd (ex_lift (store_bit X b True)) (\<lambda>b1. ex_lift (b_store_reference L b1 c)))))"

definition bounce_message ::
    "('c, 's) api \<Rightarrow> ('c, 's, 'b) cell_lib \<Rightarrow> ('c, 's, 'b) exec_lib \<Rightarrow> 'c int_msg_info \<Rightarrow> 's \<Rightarrow> 'c option \<Rightarrow> ('c, 's, 'c) ex" where
  "bounce_message A L X info body full =
     bnd (ex_lift (store_msg_info X (MsgInt info) (b_new L))) (\<lambda>b.
     bnd (ex_lift (store_bit X b False)) (\<lambda>b1.
     bnd (place_bounce_body A L X (sl_get_prefix L body ROOT_BODY_BITS 0) full b1) (\<lambda>b2.
     ex_lift (build_cell X b2))))"

text \<open>
  The message goes out with what is left of \<open>v\<close> after the forwarding fee, a part of which stays
  with the validators as \<open>msg_fees\<close>.
\<close>

definition bounced_info ::
    "('c, 's) exec_state \<Rightarrow> 'c int_msg_info \<Rightarrow> int_addr \<Rightarrow> 'c currency \<Rightarrow> nat \<Rightarrow> 'c int_msg_info" where
  "bounced_info es info dst v fees =
     info\<lparr>ihr_disabled := True, bounce := False, bounced := True, msg_src := msg_dst info, msg_dst := dst,
       msg_value := v, ihr_fee := 0, fwd_fee := fees, created_lt := end_lt es,
       created_at := block_unixtime (params es)\<rparr>"

definition bounce_send ::
    "('c, 's) api \<Rightarrow> ('c, 's, 'b) cell_lib \<Rightarrow> ('c, 's, 'b) exec_lib \<Rightarrow> 'c int_msg_info \<Rightarrow> int_addr \<Rightarrow> 's \<Rightarrow> 'c option \<Rightarrow>
     msg_forward_prices \<Rightarrow> 'c currency \<Rightarrow> nat \<Rightarrow> nat \<Rightarrow> nat \<Rightarrow> ('c, 's, bounce_phase_info) ex" where
  "bounce_send A L X info dst body full prices v fees bits cells =
     bnd (gets balance) (\<lambda>b.
     bnd (ex_lift (cc_sub X b v)) (\<lambda>b'.
     thn (set_balance b')
    (let msg_fees = get_first_part X prices fees in
     thn (add_fees X msg_fees)
    (bnd (gets id) (\<lambda>es.
     bnd (bounce_message A L X (bounced_info es info dst (v\<lparr>tokens := tokens v - fees\<rparr>) (fees - msg_fees)) body full) (\<lambda>msg.
     thn (modify (\<lambda>es. es\<lparr>out_msgs := out_msgs es @ [msg], end_lt := add_u64 (end_lt es) 1\<rparr>))
    (ret (BounceExecuted (new_varuint56_truncate bits) (new_varuint56_truncate cells) msg_fees (fees - msg_fees)))))))))"

definition bounce_size :: "ext_storage_stat \<Rightarrow> nat \<Rightarrow> bounce_phase_info" where
  "bounce_size s = BounceNoFunds (new_varuint56_truncate (stat_bits s)) (new_varuint56_truncate (stat_cells s))"

text \<open>The size and the price of the bounced message, and what is left for it after the other fees.\<close>

definition bounce_priced ::
    "('c, 's) api \<Rightarrow> ('c, 's, 'b) cell_lib \<Rightarrow> ('c, 's, 'b) exec_lib \<Rightarrow> nat \<Rightarrow> nat \<Rightarrow> ('c, 's) received_message \<Rightarrow>
     'c int_msg_info \<Rightarrow> int_addr \<Rightarrow> 'c option \<Rightarrow> ('c, 's, bounce_phase_info) ex" where
  "bounce_priced A L X gas_fees action_fine msg info dst full =
     bnd (gets id) (\<lambda>es.
     let v = rm_balance_remaining msg; limits = config_size_limits (config es) in
     case add_cells A L X (opt_list (other v) @ opt_list full)
            (stat_with_limits (max_msg_bits limits) (max_msg_cells limits)) of
       (False, s) \<Rightarrow> ret (bounce_size s (tk_max X))
     | (True, s) \<Rightarrow>
         let prices = fwd_prices (config es) (is_masterchain (address es) \<or> addr_is_masterchain dst);
             fees = compute_fwd_fee X prices (stat_bits s) (stat_cells s)
         in case Option.bind (tk_sub (tokens v) gas_fees) (\<lambda>t. tk_sub t action_fine) of
              Some t \<Rightarrow>
                if fees \<le> t then bounce_send A L X info dst (rm_body msg) full prices (v\<lparr>tokens := t\<rparr>) fees
                    (stat_bits s) (stat_cells s)
                else ret (bounce_size s (fees - t))
            | None \<Rightarrow> ret (bounce_size s fees))"

definition bounce_internal ::
    "('c, 's) api \<Rightarrow> ('c, 's, 'b) cell_lib \<Rightarrow> ('c, 's, 'b) exec_lib \<Rightarrow> nat \<Rightarrow> nat \<Rightarrow> ('c, 's) received_message \<Rightarrow>
     'c int_msg_info \<Rightarrow> ('c, 's, bounce_phase_info) ex" where
  "bounce_internal A L X gas_fees action_fine msg info =
     bnd (gets (\<lambda>es. workchains (config es))) (\<lambda>wcs.
     case check_rewrite_dst_addr wcs (msg_src info) of
       None \<Rightarrow> ex_fail ''invalid destination address in a bounced message''
     | Some dst \<Rightarrow>
         bnd (bounce_full_body A X (rm_body msg)) (bounce_priced A L X gas_fees action_fine msg info dst))"

definition bounce_phase ::
    "('c, 's) api \<Rightarrow> ('c, 's, 'b) cell_lib \<Rightarrow> ('c, 's, 'b) exec_lib \<Rightarrow> nat \<Rightarrow> nat \<Rightarrow> ('c, 's) received_message \<Rightarrow>
     ('c, 's, bounce_phase_info) ex" where
  "bounce_phase A L X gas_fees action_fine msg =
     bnd (ex_lift (parse_msg_info X (rm_root msg))) (\<lambda>info.
     case info of
       MsgInt info \<Rightarrow> bounce_internal A L X gas_fees action_fine msg info
     | _ \<Rightarrow> ex_fail ''bounce phase is defined only for internal messages'')"

section \<open>Reasoning about the phases\<close>

lemma ex_lift_Inr [simp]: "ex_lift (Inr x) = ret x"
  by (simp add: ex_lift_def)

lemma ex_lift_Inl [simp]: "ex_lift (Inl e) = fail (Wrapped e)"
  by (simp add: ex_lift_def)

lemma ex_lift_eq [simp]: "ex_lift r es = (Inr x, es') \<longleftrightarrow> r = Inr x \<and> es' = es"
  by (cases r) auto

lemma ex_ensure_eq [simp]: "ex_ensure b msg es = (Inr u, es') \<longleftrightarrow> b \<and> es' = es"
  by (cases b) (auto simp: ex_ensure_def)

lemma ex_fail_eq [simp]: "ex_fail msg es = (Inl (Anyhow msg), es)"
  by (simp add: ex_fail_def)

lemma add_fees_Inr [simp]:
  "add_fees X fee es = (Inr u, es') \<longleftrightarrow> total_fees es + fee \<le> tk_max X \<and> es' = es\<lparr>total_fees := total_fees es + fee\<rparr>"
  by (auto simp: add_fees_eq)

lemma set_balance_eq [simp]: "set_balance b es = (Inr (), es\<lparr>balance := b\<rparr>)"
  by (simp add: set_balance_def)

lemmas ex_run = bnd_eq_Inr_iff thn_eq_Inr_iff

text \<open>
  What an account and its transaction hold: the balance, the fees collected, the tokens burned and
  what the outbound messages carry. \<open>lt_ok\<close>: the range of logical times has one for each message.
\<close>

definition amount :: "'c msg_info \<Rightarrow> nat" where
  "amount info = (case info of MsgInt i \<Rightarrow> tokens (msg_value i) + ihr_fee i + fwd_fee i | _ \<Rightarrow> 0)"

definition out_worth :: "('c, 's, 'b) exec_lib \<Rightarrow> 'c \<Rightarrow> nat" where
  "out_worth X c = (case parse_msg_info X c of Inr info \<Rightarrow> amount info | Inl _ \<Rightarrow> 0)"

definition wealth :: "('c, 's, 'b) exec_lib \<Rightarrow> ('c, 's) exec_state \<Rightarrow> nat" where
  "wealth X es = tokens (balance es) + total_fees es + burned es + sum_list (map (out_worth X) (out_msgs es))"

definition lt_ok :: "('c, 's) exec_state \<Rightarrow> bool" where
  "lt_ok es \<longleftrightarrow> end_lt es = (start_lt es + 1 + length (out_msgs es)) mod 2 ^ 64"

definition income :: "('c, 's) api \<Rightarrow> ('c, 's, 'b) exec_lib \<Rightarrow> 'c \<Rightarrow> nat" where
  "income A X msg_root = (case load_msg_info X (slice_of_cell A msg_root) of
      Inr (MsgInt i, _) \<Rightarrow> tokens (msg_value i) + ihr_fee i
    | _ \<Rightarrow> 0)"

lemma cc_add_tokens_Inr [simp]:
  "cc_add_tokens X a t = Inr c \<longleftrightarrow> tokens a + t \<le> tk_max X \<and> c = a\<lparr>tokens := tokens a + t\<rparr>"
  by (auto simp: cc_add_tokens_def tk_add_def)

section \<open>Where the tokens go\<close>

lemma credit_phase_Inr:
  assumes "credit_phase X msg es = (Inr info, es')"
  obtains b where "es' = es\<lparr>balance := b\<rparr>" "tokens b = tokens (balance es) + tokens (rm_balance_remaining msg)"
    "credit info = rm_balance_remaining msg" "due_fees_collected info = None"
  using assms cc_add_tokens_eq by (fastforce simp: credit_phase_def ex_run)

lemma check_message_dst_Inr:
  "check_message_dst dst es = (Inr u, es') \<longleftrightarrow> (\<exists>a. dst = AddrStd a \<and> sa_anycast a = None \<and> a = address es \<and> es' = es)"
  by (auto simp: check_message_dst_def ex_run split: int_addr.splits)

lemma receive_internal_Inr:
  assumes "receive_internal X info es = (Inr v, es')"
  obtains lt lt' where "es' = es\<lparr>start_lt := lt, end_lt := lt'\<rparr>" "tokens v = tokens (msg_value info) + ihr_fee info"
    "created_lt info < start_lt es \<Longrightarrow> lt = start_lt es \<and> lt' = end_lt es"
    "start_lt es \<le> created_lt info \<Longrightarrow> lt = add_u64 (created_lt info) 1 \<and> lt' = add_u64 lt 1"
    "msg_dst info = AddrStd (address es)"
proof (cases "start_lt es \<le> created_lt info")
  case True
  with assms that[of "add_u64 (add_u64 (created_lt info) 1) 1" "add_u64 (created_lt info) 1"] show thesis
    by (auto simp: receive_internal_def ex_run check_message_dst_Inr Let_def)
next
  case False
  with assms that[of "end_lt es" "start_lt es"] show thesis
    by (auto simp: receive_internal_def ex_run check_message_dst_Inr)
qed

lemma receive_external_Inr:
  assumes "receive_external A L X dst cs es = (Inr v, es')"
  obtains fee where "fee \<le> tokens (balance es)" "v = cc_zero"
    "es' = es\<lparr>balance := (balance es)\<lparr>tokens := tokens (balance es) - fee\<rparr>, total_fees := total_fees es + fee\<rparr>"
    "is_special es \<Longrightarrow> fee = 0"
  using assms
  by (auto simp: receive_external_def ex_run check_message_dst_Inr Let_def split: option.splits prod.splits if_splits)

lemma receive_init_state: "receive_init A L X cs es = (Inr r, es') \<Longrightarrow> es' = es"
  by (auto simp: receive_init_def receive_init_ref_def receive_init_inline_def ex_run
      split: if_splits prod.splits)

lemma receive_body_state: "receive_body A L X cs es = (Inr r, es') \<Longrightarrow> es' = es"
  by (auto simp: receive_body_def ex_run split: if_splits prod.splits)

lemma receive_blackhole_Inr:
  assumes "receive_blackhole v es = (Inr w, es')"
  shows "es' = es\<lparr>burned := burned es'\<rparr>" "burned es = 0 \<Longrightarrow> tokens w + burned es' = tokens v"
    "is_blackhole (config es) (address es) \<Longrightarrow> tokens w = 0"
  using assms by (auto simp: receive_blackhole_def ex_run split: if_splits)

text \<open>
  Receiving a message takes in exactly what it carries: with the value still to be credited, what
  the account holds has grown by it, and only the fee of an external message has changed hands.
\<close>

lemma receive_header_Inr:
  assumes "receive_header A L X info cs es = (Inr (external, bounces, v), es')" and "lt_ok es" and "out_msgs es = []"
  shows "total_fees es' + tokens (balance es') = total_fees es + tokens (balance es)"
    "tokens v = (case info of MsgInt i \<Rightarrow> tokens (msg_value i) + ihr_fee i | _ \<Rightarrow> 0)"
    "es' = es\<lparr>balance := balance es', total_fees := total_fees es', start_lt := start_lt es', end_lt := end_lt es'\<rparr>"
    "lt_ok es'" "external \<Longrightarrow> \<not> bounces \<and> v = cc_zero"
  using assms
  by (auto simp: receive_header_def ex_run lt_ok_def add_u64_def cc_zero_def
      elim!: receive_internal_Inr receive_external_Inr split: msg_info.splits)

lemma receive_in_msg_Inr:
  assumes "receive_in_msg A L X msg_root es = (Inr msg, es')" and "burned es = 0" and "lt_ok es" and "out_msgs es = []"
  shows "wealth X es' + tokens (rm_balance_remaining msg) = wealth X es + income A X msg_root"
    "es' = es\<lparr>balance := balance es', total_fees := total_fees es', start_lt := start_lt es', end_lt := end_lt es',
       burned := burned es'\<rparr>"
    "lt_ok es'" "rm_root msg = msg_root"
    "rm_is_external msg \<Longrightarrow> \<not> rm_bounce_enabled msg \<and> tokens (rm_balance_remaining msg) = 0"
proof -
  obtain info cs external bounces v es1 where load: "load_msg_info X (slice_of_cell A msg_root) = Inr (info, cs)"
    and header: "receive_header A L X info cs es = (Inr (external, bounces, v), es1)"
    and hole: "receive_blackhole v es1 = (Inr (rm_balance_remaining msg), es')"
    and msg: "rm_root msg = msg_root" "rm_is_external msg = external" "rm_bounce_enabled msg = bounces"
    using assms(1) by (auto simp: receive_in_msg_def ex_run dest!: receive_init_state receive_body_state)
  note h = receive_header_Inr[OF header assms(3,4)] and b = receive_blackhole_Inr[OF hole]
  have burned: "burned es1 = 0" using arg_cong[OF h(3), of burned] assms(2) by simp
  show "rm_root msg = msg_root" by (fact msg(1))
  show "es' = es\<lparr>balance := balance es', total_fees := total_fees es', start_lt := start_lt es', end_lt := end_lt es',
       burned := burned es'\<rparr>"
    using h(3) b(1) by (cases es; cases es1; cases es') simp
  show "lt_ok es'" using h(4) b(1) by (cases es1; cases es') (simp add: lt_ok_def)
  show "wealth X es' + tokens (rm_balance_remaining msg) = wealth X es + income A X msg_root"
    using h(1-3) b(1) b(2)[OF burned] load assms(2,4)
    by (cases es; cases es1; cases es') (auto simp: wealth_def income_def split: msg_info.splits)
  show "\<not> rm_bounce_enabled msg \<and> tokens (rm_balance_remaining msg) = 0" if "rm_is_external msg"
    using h(5) msg that b(2)[OF burned] by (simp add: cc_zero_def)
qed

lemma unpaid_status_storage [simp]:
  "unpaid_status (es\<lparr>storage_stat := st, balance := b\<rparr>) d = unpaid_status (es\<lparr>balance := b\<rparr>) d"
  by (cases "acc_now es") (simp_all add: unpaid_status_def Let_def)

lemma collect_storage_eq:
  assumes "collect_storage p es = (info, es')"
  shows "tokens (balance es') + storage_fees_collected info = tokens (balance es)"
    "p = storage_fees_collected info + (case storage_fees_due info of None \<Rightarrow> 0 | Some d \<Rightarrow> d)"
    "es' = es\<lparr>balance := (balance es)\<lparr>tokens := tokens (balance es')\<rparr>,
       storage_stat := (storage_stat es)\<lparr>due_payment := due_payment (storage_stat es')\<rparr>\<rparr>"
    "storage_fees_due info \<noteq> None \<Longrightarrow> tokens (balance es') = 0"
    "p \<noteq> 0 \<Longrightarrow> \<not> is_special es \<Longrightarrow> due_payment (storage_stat es') = storage_fees_due info"
    "storage_fees_due info = None \<Longrightarrow> status_change info = StatusUnchanged"
    "storage_fees_due info \<noteq> None \<Longrightarrow> status_change info =
       unpaid_status (es\<lparr>balance := (balance es)\<lparr>tokens := 0\<rparr>\<rparr>) (the (storage_fees_due info))"
  using assms
  by (auto simp: collect_storage_def tk_sub_def Let_def split: if_splits option.splits)

text \<open>Every outcome of the storage phase.\<close>

lemma storage_phase_Inr:
  assumes "storage_phase X adj rcv es = (Inr (info, rcv'), es')"
  shows "tokens (balance es') + storage_fees_collected info = tokens (balance es)"
    "total_fees es' = total_fees es + storage_fees_collected info"
    "storage_to_pay X es = storage_fees_collected info + (case storage_fees_due info of None \<Rightarrow> 0 | Some d \<Rightarrow> d)"
    "storage_fees_due info \<noteq> None \<Longrightarrow> tokens (balance es') = 0"
    "storage_to_pay X es \<noteq> 0 \<Longrightarrow> \<not> is_special es \<Longrightarrow> due_payment (storage_stat es') = storage_fees_due info"
    "storage_fees_due info = None \<Longrightarrow> status_change info = StatusUnchanged"
    "rcv' = map_option (adjust_message adj (tokens (balance es'))) rcv"
    "last_paid (storage_stat es') = (if is_special es then 0 else block_unixtime (params es))"
    "last_paid (storage_stat es) \<le> block_unixtime (params es)"
    "es' = es\<lparr>balance := (balance es)\<lparr>tokens := tokens (balance es')\<rparr>, total_fees := total_fees es',
       storage_stat := storage_stat es', end_status := end_status es'\<rparr>"
    "end_status es' = (case status_change info of StatusUnchanged \<Rightarrow> end_status es | StatusFrozen \<Rightarrow> StFrozen
       | StatusDeleted \<Rightarrow> StNotExists)"
    "storage_fees_due info \<noteq> None \<Longrightarrow> status_change info =
       unpaid_status (es\<lparr>balance := (balance es)\<lparr>tokens := 0\<rparr>\<rparr>) (the (storage_fees_due info))"
proof -
  let ?es1 = "es\<lparr>storage_stat := (storage_stat es)\<lparr>last_paid := if is_special es then 0 else block_unixtime (params es)\<rparr>\<rparr>"
  obtain es2 where time: "last_paid (storage_stat es) \<le> block_unixtime (params es)"
    and collect: "collect_storage (storage_to_pay X es) ?es1 = (info, es2)"
    and es': "es' = (apply_status_change (status_change info) es2)\<lparr>total_fees :=
        total_fees (apply_status_change (status_change info) es2) + storage_fees_collected info\<rparr>"
    and rcv: "rcv' = map_option (adjust_message adj (tokens (balance (apply_status_change (status_change info) es2)))) rcv"
    using assms by (cases "collect_storage (storage_to_pay X es) ?es1") (auto simp: storage_phase_def ex_run)
  note c = collect_storage_eq[OF collect]
  have e: "es2 = ?es1\<lparr>balance := (balance es)\<lparr>tokens := tokens (balance es2)\<rparr>,
      storage_stat := (storage_stat ?es1)\<lparr>due_payment := due_payment (storage_stat es2)\<rparr>\<rparr>"
    using c(3) by simp
  have proj: "total_fees es2 = total_fees es" "end_status es2 = end_status es" "is_special es2 = is_special es"
    "last_paid (storage_stat es2) = last_paid (storage_stat ?es1)"
    by (subst e, simp)+
  show "tokens (balance es') + storage_fees_collected info = tokens (balance es)"
    "total_fees es' = total_fees es + storage_fees_collected info"
    "storage_fees_due info \<noteq> None \<Longrightarrow> tokens (balance es') = 0"
    "storage_to_pay X es \<noteq> 0 \<Longrightarrow> \<not> is_special es \<Longrightarrow> due_payment (storage_stat es') = storage_fees_due info"
    "rcv' = map_option (adjust_message adj (tokens (balance es'))) rcv"
    "last_paid (storage_stat es') = (if is_special es then 0 else block_unixtime (params es))"
    "end_status es' = (case status_change info of StatusUnchanged \<Rightarrow> end_status es | StatusFrozen \<Rightarrow> StFrozen
       | StatusDeleted \<Rightarrow> StNotExists)"
    using c(1,4,5) proj rcv
    by (auto simp: es' apply_status_change_def split: account_status_change.splits)
  show "es' = es\<lparr>balance := (balance es)\<lparr>tokens := tokens (balance es')\<rparr>, total_fees := total_fees es',
       storage_stat := storage_stat es', end_status := end_status es'\<rparr>"
    using e by (cases es; cases es2) (auto simp: es' apply_status_change_def split: account_status_change.splits)
  show "storage_to_pay X es = storage_fees_collected info + (case storage_fees_due info of None \<Rightarrow> 0 | Some d \<Rightarrow> d)"
    by (fact c(2))
  show "storage_fees_due info = None \<Longrightarrow> status_change info = StatusUnchanged" by (fact c(6))
  show "last_paid (storage_stat es) \<le> block_unixtime (params es)" by (fact time)
  show "status_change info = unpaid_status (es\<lparr>balance := (balance es)\<lparr>tokens := 0\<rparr>\<rparr>) (the (storage_fees_due info))"
    if "storage_fees_due info \<noteq> None"
    using c(7)[OF that] by simp
qed

section \<open>The bounced message\<close>

lemma store_bounce_body_Inr:
  assumes "store_bounce_body L X prefix full b es = (Inr b', es')"
  obtains b1 b2 where "b_store_u32 L b BOUNCE_SELECTOR = Inr b1" "store_slice_data X b1 prefix = Inr b2"
    "case full of None \<Rightarrow> b' = b2 | Some c \<Rightarrow> b_store_reference L b2 c = Inr b'" "es' = es"
  using assms by (cases full) (auto simp: store_bounce_body_def ex_run)

lemma store_bounce_body_state: "store_bounce_body L X prefix full b es = (Inr b', es') \<Longrightarrow> es' = es"
  by (rule store_bounce_body_Inr)

lemma place_bounce_body_Inr:
  assumes "place_bounce_body A L X prefix full b es = (Inr b', es')"
  obtains b1 where "store_bit X b False = Inr b1" "store_bounce_body L X prefix full b1 es = (Inr b', es')" "es' = es"
  | b1 c where "store_bit X b True = Inr b1" "b_store_reference L b1 c = Inr b'" "es' = es"
proof (cases "b_has_capacity L b (slice_size_bits A prefix + 33) 0")
  case True
  with assms that(1) show thesis
    by (auto simp: place_bounce_body_def ex_run dest: store_bounce_body_state)
next
  case False
  with assms that(2) show thesis
    by (auto simp: place_bounce_body_def ex_run dest: store_bounce_body_state)
qed

lemma bounce_message_Inr:
  assumes "bounce_message A L X info body full es = (Inr c, es')"
  obtains b b1 b2 where "store_msg_info X (MsgInt info) (b_new L) = Inr b" "store_bit X b False = Inr b1"
    "place_bounce_body A L X (sl_get_prefix L body ROOT_BODY_BITS 0) full b1 es = (Inr b2, es)"
    "build_cell X b2 = Inr c" "es' = es"
  using assms by (auto simp: bounce_message_def ex_run elim: place_bounce_body_Inr)

lemma bounce_full_body_state: "bounce_full_body A X body es = (Inr r, es') \<Longrightarrow> es' = es"
  by (auto simp: bounce_full_body_def ex_run split: if_splits)

lemma bounce_send_Inr:
  assumes "bounce_send A L X info dst body full prices v fees bits cells es = (Inr r, es')"
  obtains b c where "cc_sub X (balance es) v = Inr b"
    "bounce_message A L X (bounced_info (es\<lparr>balance := b, total_fees := total_fees es + get_first_part X prices fees\<rparr>)
       info dst (v\<lparr>tokens := tokens v - fees\<rparr>) (fees - get_first_part X prices fees)) body full
       (es\<lparr>balance := b, total_fees := total_fees es + get_first_part X prices fees\<rparr>) =
       (Inr c, es\<lparr>balance := b, total_fees := total_fees es + get_first_part X prices fees\<rparr>)"
    "es' = es\<lparr>balance := b, total_fees := total_fees es + get_first_part X prices fees, out_msgs := out_msgs es @ [c],
       end_lt := add_u64 (end_lt es) 1\<rparr>"
    "r = BounceExecuted (new_varuint56_truncate bits) (new_varuint56_truncate cells) (get_first_part X prices fees)
       (fees - get_first_part X prices fees)"
proof -
  let ?m = "get_first_part X prices fees"
  let ?es1 = "\<lambda>b. es\<lparr>balance := b, total_fees := total_fees es + ?m\<rparr>"
  let ?info = "\<lambda>b. bounced_info (?es1 b) info dst (v\<lparr>tokens := tokens v - fees\<rparr>) (fees - ?m)"
  obtain b c es2 where sub: "cc_sub X (balance es) v = Inr b"
    and c: "bounce_message A L X (?info b) body full (?es1 b) = (Inr c, es2)"
    and e: "es' = es2\<lparr>out_msgs := out_msgs es2 @ [c], end_lt := add_u64 (end_lt es2) 1\<rparr>"
    and r: "r = BounceExecuted (new_varuint56_truncate bits) (new_varuint56_truncate cells) ?m (fees - ?m)"
    using assms by (auto simp: bounce_send_def ex_run Let_def)
  from c have "es2 = ?es1 b" by (rule bounce_message_Inr)
  with sub c e r that show thesis by simp
qed

lemma bounce_priced_Inr:
  assumes "bounce_priced A L X gas_fees action_fine msg info dst full es = (Inr r, es')"
  obtains s req where "r = bounce_size s req" "es' = es"
  | prices t fees bits cells where "fees \<le> t" "bounce_send A L X info dst (rm_body msg) full prices
         ((rm_balance_remaining msg)\<lparr>tokens := t\<rparr>) fees bits cells es = (Inr r, es')"
    "tokens (rm_balance_remaining msg) = t + gas_fees + action_fine"
  using assms
  by (auto simp: bounce_priced_def Let_def tk_sub_def split: prod.splits bool.splits option.splits if_splits bind_splits)

lemma bounce_phase_Inr:
  assumes "bounce_phase A L X gas_fees action_fine msg es = (Inr r, es')"
  obtains info dst full where "parse_msg_info X (rm_root msg) = Inr (MsgInt info)"
    "check_rewrite_dst_addr (workchains (config es)) (msg_src info) = Some dst"
    "bounce_priced A L X gas_fees action_fine msg info dst full es = (Inr r, es')"
proof -
  obtain info where "parse_msg_info X (rm_root msg) = Inr (MsgInt info)"
    and int: "bounce_internal A L X gas_fees action_fine msg info es = (Inr r, es')"
    using assms unfolding bounce_phase_def ex_run by (elim exE conjE) (auto split: msg_info.split_asm)
  with that show thesis
    by (cases "check_rewrite_dst_addr (workchains (config es)) (msg_src info)")
      (auto simp: bounce_internal_def ex_run dest: bounce_full_body_state)
qed

text \<open>
  What the bounce relies on of serialisation: a cell built from a builder that begins with a message
  header (\<open>starts\<close>) is parsed to that header, whatever was stored after it; and of the price tables:
  the first part of a forwarding fee is a part of it. Then a bounced message takes its value, less
  fees, from the account and what is held stays the same; a bounce without funds changes nothing.
\<close>

locale header_codec =
  fixes L :: "('c, 's, 'b) cell_lib" and X :: "('c, 's, 'b) exec_lib" and starts :: "'b \<Rightarrow> 'c msg_info \<Rightarrow> bool"
  assumes starts_header: "store_msg_info X i (b_new L) = Inr b \<Longrightarrow> starts b i"
    and starts_bit: "store_bit X b v = Inr b' \<Longrightarrow> starts b i \<Longrightarrow> starts b' i"
    and starts_u32: "b_store_u32 L b u = Inr b' \<Longrightarrow> starts b i \<Longrightarrow> starts b' i"
    and starts_data: "store_slice_data X b cs = Inr b' \<Longrightarrow> starts b i \<Longrightarrow> starts b' i"
    and starts_reference: "b_store_reference L b c = Inr b' \<Longrightarrow> starts b i \<Longrightarrow> starts b' i"
    and build_parse: "starts b i \<Longrightarrow> build_cell X b = Inr c \<Longrightarrow> parse_msg_info X c = Inr i"
    and first_part_le: "get_first_part X prices fees \<le> fees"
begin

lemma store_bounce_body_starts:
  "store_bounce_body L X prefix full b es = (Inr b', es') \<Longrightarrow> starts b i \<Longrightarrow> starts b' i"
  by (elim store_bounce_body_Inr) (auto split: option.splits dest: starts_u32 starts_data starts_reference)

lemma bounce_message_parse:
  assumes "bounce_message A L X info body full es = (Inr c, es')"
  shows "parse_msg_info X c = Inr (MsgInt info)"
  using assms
proof (rule bounce_message_Inr)
  fix b b1 b2
  assume "store_msg_info X (MsgInt info) (b_new L) = Inr b" "store_bit X b False = Inr b1"
    and place: "place_bounce_body A L X (sl_get_prefix L body ROOT_BODY_BITS 0) full b1 es = (Inr b2, es)"
    and build: "build_cell X b2 = Inr c"
  then have "starts b1 (MsgInt info)" by (blast dest: starts_header starts_bit)
  with place have "starts b2 (MsgInt info)"
    by (elim place_bounce_body_Inr) (blast dest: starts_bit starts_reference store_bounce_body_starts)+
  then show ?thesis using build by (rule build_parse)
qed

lemma bounce_send_wealth:
  assumes "bounce_send A L X info dst body full prices v fees bits cells es = (Inr r, es')" and "fees \<le> tokens v"
  shows "wealth X es' = wealth X es" "lt_ok es \<Longrightarrow> lt_ok es'" "length (out_msgs es') = length (out_msgs es) + 1"
proof -
  let ?m = "get_first_part X prices fees"
  from assms(1) obtain b c where sub: "cc_sub X (balance es) v = Inr b"
    and c: "bounce_message A L X (bounced_info (es\<lparr>balance := b, total_fees := total_fees es + ?m\<rparr>)
       info dst (v\<lparr>tokens := tokens v - fees\<rparr>) (fees - ?m)) body full
       (es\<lparr>balance := b, total_fees := total_fees es + ?m\<rparr>) = (Inr c, es\<lparr>balance := b, total_fees := total_fees es + ?m\<rparr>)"
    and es': "es' = es\<lparr>balance := b, total_fees := total_fees es + ?m, out_msgs := out_msgs es @ [c],
       end_lt := add_u64 (end_lt es) 1\<rparr>"
    by (rule bounce_send_Inr)
  have "out_worth X c = (tokens v - fees) + (fees - ?m)"
    using bounce_message_parse[OF c] by (simp add: out_worth_def amount_def bounced_info_def)
  then show "wealth X es' = wealth X es"
    using cc_sub_tokens_eq[OF sub] assms(2) first_part_le[of prices fees] by (simp add: wealth_def es')
  show "lt_ok es'" if "lt_ok es" using that by (simp add: lt_ok_def es' add_u64_def mod_simps)
  show "length (out_msgs es') = length (out_msgs es) + 1" by (simp add: es')
qed

lemma bounce_phase_wealth:
  assumes "bounce_phase A L X gas_fees action_fine msg es = (Inr r, es')"
  shows "wealth X es' = wealth X es" "lt_ok es \<Longrightarrow> lt_ok es'"
    "case r of BounceNoFunds _ _ _ \<Rightarrow> es' = es | BounceExecuted _ _ _ _ \<Rightarrow> length (out_msgs es') = length (out_msgs es) + 1"
proof -
  have "wealth X es' = wealth X es \<and> (lt_ok es \<longrightarrow> lt_ok es') \<and>
    (case r of BounceNoFunds _ _ _ \<Rightarrow> es' = es | BounceExecuted _ _ _ _ \<Rightarrow> length (out_msgs es') = length (out_msgs es) + 1)"
    using assms
  proof (elim bounce_phase_Inr bounce_priced_Inr)
    fix info dst full prices t fees bits cells
    assume "fees \<le> t" and send: "bounce_send A L X info dst (rm_body msg) full prices
         ((rm_balance_remaining msg)\<lparr>tokens := t\<rparr>) fees bits cells es = (Inr r, es')"
    moreover from send have "\<exists>x y z w. r = BounceExecuted x y z w" by (elim bounce_send_Inr) auto
    ultimately show ?thesis using bounce_send_wealth[OF send] by auto
  qed (simp add: bounce_size_def)
  then show "wealth X es' = wealth X es" "lt_ok es \<Longrightarrow> lt_ok es'"
    "case r of BounceNoFunds _ _ _ \<Rightarrow> es' = es | BounceExecuted _ _ _ _ \<Rightarrow> length (out_msgs es') = length (out_msgs es) + 1"
    by auto
qed

end

end
