(* ===== verification/Actions.thy ===== *)
theory Actions
  imports Phases
begin

text \<open>
  The action phase (\<open>executor/src/phase/action.rs\<close>): the list of actions the contract left in \<open>c5\<close> is
  unpacked, parsed and executed in order, sending messages, reserving balance and changing code and
  libraries. An action works on an \<open>action_ctx\<close>, which reaches the executor state only when all of them
  succeed. The lemmas follow the balance through every action.
\<close>

section \<open>The phase and its context\<close>

definition RcActionListInvalid :: int where "RcActionListInvalid = 32"
definition RcTooManyActions :: int where "RcTooManyActions = 33"
definition RcActionInvalid :: int where "RcActionInvalid = 34"
definition RcInvalidSrcAddr :: int where "RcInvalidSrcAddr = 35"
definition RcInvalidDstAddr :: int where "RcInvalidDstAddr = 36"
definition RcNotEnoughBalance :: int where "RcNotEnoughBalance = 37"
definition RcNotEnoughExtraBalance :: int where "RcNotEnoughExtraBalance = 38"
definition RcFailedToFitMessage :: int where "RcFailedToFitMessage = 39"
definition RcMessageOutOfLimits :: int where "RcMessageOutOfLimits = 40"
definition RcNoLibCode :: int where "RcNoLibCode = 41"
definition RcInvalidLibrariesDict :: int where "RcInvalidLibrariesDict = 42"
definition RcLibOutOfLimits :: int where "RcLibOutOfLimits = 43"
definition RcTooManyExtraCurrencies :: int where "RcTooManyExtraCurrencies = 44"
definition RcStateOutOfLimits :: int where "RcStateOutOfLimits = 50"

definition MAX_ACTIONS :: nat where "MAX_ACTIONS = 255"
definition MAX_MSG_EXTRA_CURRENCIES :: nat where "MAX_MSG_EXTRA_CURRENCIES = 2"

record action_phase_info =
  ap_success :: bool
  ap_valid :: bool
  ap_no_funds :: bool
  ap_status_change :: account_status_change
  total_fwd_fees :: "nat option"
  total_action_fees :: "nat option"
  result_code :: int
  result_arg :: "nat option"
  total_actions :: nat
  special_actions :: nat
  skipped_actions :: nat
  messages_created :: nat
  action_list_hash :: hash
  message_bits :: nat
  message_cells :: nat

datatype 'c public_library_change = LibAdd 'c | LibRemove hash

record ('c, 's) action_ctx =
  need_bounce_on_fail :: bool
  ctx_message :: "('c, 's) received_message option"
  original_balance :: "'c currency"
  remaining_balance :: "'c currency"
  reserved_balance :: "'c currency"
  action_fine :: nat
  new_state :: "'c state_init"
  ctx_end_lt :: nat
  ctx_out_msgs :: "'c list"
  delete_account :: bool
  public_libs_diff :: "'c public_library_change list option"
  ctx_gas_fees :: nat
  ctx_phase :: action_phase_info

text \<open>\<open>ActionFailed\<close>, or an \<open>unwrap\<close> that fails.\<close>

datatype action_error = ActionFailed | ActionPanic

type_synonym ('c, 's, 'a) actx = "(('c, 's) action_ctx, action_error, 'a) act"

datatype message_rewrite = StateInitToCell | BodyToCell

datatype send_msg_result = Sent | Rewrite message_rewrite

fun next_rewrite :: "message_rewrite option \<Rightarrow> message_rewrite option" where
  "next_rewrite None = Some StateInitToCell"
| "next_rewrite (Some StateInitToCell) = Some BodyToCell"
| "next_rewrite (Some BodyToCell) = None"

definition act_lift :: "cell_error + 'a \<Rightarrow> ('c, 's, 'a) actx" where
  "act_lift r = lift_res (\<lambda>_. ActionFailed) r"

definition act_unwrap :: "cell_error + 'a \<Rightarrow> ('c, 's, 'a) actx" where
  "act_unwrap r = lift_res (\<lambda>_. ActionPanic) r"

definition on_phase :: "(action_phase_info \<Rightarrow> action_phase_info) \<Rightarrow> ('c, 's, unit) actx" where
  "on_phase f = modify (\<lambda>ctx. ctx\<lparr>ctx_phase := f (ctx_phase ctx)\<rparr>)"

text \<open>The failure of an action with a result code.\<close>

definition fail_with :: "int \<Rightarrow> ('c, 's, 'a) actx" where
  "fail_with rc = thn (on_phase (\<lambda>ap. ap\<lparr>result_code := rc\<rparr>)) (fail ActionFailed)"

definition bump_special :: "('c, 's, unit) actx" where
  "bump_special = on_phase (\<lambda>ap. ap\<lparr>special_actions := special_actions ap + 1\<rparr>)"

section \<open>Extra currencies\<close>

fun check_extra_balance :: "nat \<Rightarrow> nat \<Rightarrow> (cell_error + nat \<times> nat) list \<Rightarrow> bool" where
  "check_extra_balance limit i [] = True"
| "check_extra_balance limit i (e # es) =
     (if i > limit \<or> isl e then False else check_extra_balance limit (i + 1) es)"

datatype balance_extra_error = OutOfLimit | InvalidDict

fun normalize_extra_loop ::
    "('c, 's, 'b) exec_lib \<Rightarrow> nat \<Rightarrow> nat \<Rightarrow> 'c option \<Rightarrow> (cell_error + nat \<times> nat) list \<Rightarrow> balance_extra_error + 'c option" where
  "normalize_extra_loop X limit i result [] = Inr result"
| "normalize_extra_loop X limit i result (e # es) =
     (if i > limit then Inl OutOfLimit
      else case e of
        Inl _ \<Rightarrow> Inl InvalidDict
      | Inr (currency_id, amt) \<Rightarrow>
          if amt = 0 then (case xc_remove X result currency_id of
              Inl _ \<Rightarrow> Inl InvalidDict
            | Inr result' \<Rightarrow> normalize_extra_loop X limit (i + 1) result' es)
          else normalize_extra_loop X limit (i + 1) result es)"

definition normalize_extra_balance ::
    "('c, 's, 'b) exec_lib \<Rightarrow> 'c option \<Rightarrow> nat \<Rightarrow> balance_extra_error + 'c option" where
  "normalize_extra_balance X v limit = normalize_extra_loop X limit 0 v (xc_iter X v)"

section \<open>Parts of a message\<close>

definition load_state_init_as_slice ::
    "('c, 's) api \<Rightarrow> ('c, 's, 'b) cell_lib \<Rightarrow> ('c, 's, 'b) exec_lib \<Rightarrow> 's \<Rightarrow> ('c, 's, 's \<times> 's) actx" where
  "load_state_init_as_slice A L X cs =
     bnd (act_lift (load_bit X cs)) (\<lambda>(has_init, cs1).
     bnd (if \<not> has_init then ret cs1
          else bnd (act_lift (load_bit X cs1)) (\<lambda>(as_ref, cs2).
            if as_ref then
              bnd (act_lift (sl_load_reference L cs2)) (\<lambda>(state_root, cs3).
              thn (ensure (\<not> cl_is_exotic L state_root) ActionFailed)
             (bnd (act_lift (load_state_init X (slice_of_cell A state_root))) (\<lambda>(_, left).
              thn (ensure (slice_empty A left) ActionFailed) (ret cs3))))
            else bnd (act_lift (load_state_init X cs2)) (\<lambda>(_, cs3). ret cs3))) (\<lambda>rest.
     bnd (act_lift (sl_skip_last L cs (slice_size_bits A rest) (slice_size_refs A rest))) (\<lambda>res.
     ret (res, rest))))"

definition load_body_as_slice ::
    "('c, 's) api \<Rightarrow> ('c, 's, 'b) exec_lib \<Rightarrow> 's \<Rightarrow> ('c, 's, 's \<times> 's) actx" where
  "load_body_as_slice A X cs =
     bnd (act_lift (load_bit X cs)) (\<lambda>(as_ref, cs1).
     if as_ref then bnd (act_lift (slice_skip_first A cs1 0 1)) (\<lambda>cs2. ret (cs, cs2))
     else ret (cs, snd (load_remaining X cs1)))"

text \<open>Moving an inline state init or body to a child, when the message does not fit one cell.\<close>

definition rewrite_state_init_to_cell ::
    "('c, 's, 'b) cell_lib \<Rightarrow> ('c, 's, 'b) exec_lib \<Rightarrow> 's \<Rightarrow> ('c, 's, 'b) actx" where
  "rewrite_state_init_to_cell L X cs =
     bnd (act_unwrap (load_small_uint X cs 2)) (\<lambda>(_, cs1).
     bnd (act_unwrap (build_from_slice X cs1)) (\<lambda>cell.
     bnd (act_unwrap (store_small_uint X (b_new L) 3 2)) (\<lambda>b.
     act_unwrap (b_store_reference L b cell))))"

definition rewrite_body_to_cell ::
    "('c, 's, 'b) cell_lib \<Rightarrow> ('c, 's, 'b) exec_lib \<Rightarrow> 's \<Rightarrow> ('c, 's, 'b) actx" where
  "rewrite_body_to_cell L X cs =
     bnd (act_unwrap (load_bit X cs)) (\<lambda>(_, cs1).
     bnd (act_unwrap (build_from_slice X cs1)) (\<lambda>cell.
     bnd (act_unwrap (store_bit X (b_new L) True)) (\<lambda>b.
     act_unwrap (b_store_reference L b cell))))"

section \<open>Sending a message\<close>

text \<open>\<open>check_skip_invalid\<close>: an action with "ignore errors" is skipped instead of failing.\<close>

definition check_skip_invalid :: "send_mode \<Rightarrow> int \<Rightarrow> ('c, 's, send_msg_result) actx" where
  "check_skip_invalid mode rc =
     (if send_ignore_error mode
      then thn (on_phase (\<lambda>ap. ap\<lparr>skipped_actions := skipped_actions ap + 1\<rparr>)) (ret Sent)
      else fail_with rc)"

definition unpack_out_msg ::
    "('c, 's) api \<Rightarrow> ('c, 's, 'b) cell_lib \<Rightarrow> ('c, 's, 'b) exec_lib \<Rightarrow> 'c \<Rightarrow> ('c, 's, 'c relaxed_msg_info \<times> 's \<times> 's) actx" where
  "unpack_out_msg A L X out_msg =
     bnd (act_lift (load_relaxed_msg_info X (slice_of_cell A out_msg))) (\<lambda>(info, cs).
     bnd (load_state_init_as_slice A L X cs) (\<lambda>(state_init_cs, cs1).
     bnd (load_body_as_slice A X cs1) (\<lambda>(body_cs, cs2).
     thn (ensure (slice_empty A cs2) ActionFailed) (ret (info, state_init_cs, body_cs)))))"

text \<open>
  The state init is moved only when it holds two references or more; otherwise the body is tried in
  the same attempt.
\<close>

definition apply_rewrite ::
    "('c, 's) api \<Rightarrow> ('c, 's, 'b) cell_lib \<Rightarrow> ('c, 's, 'b) exec_lib \<Rightarrow> message_rewrite option \<Rightarrow> 's \<Rightarrow> 's \<Rightarrow>
     ('c, 's, message_rewrite option \<times> 's \<times> 's) actx" where
  "apply_rewrite A L X rewrite state_init_cs body_cs =
     bnd (if rewrite = Some StateInitToCell then
            (if slice_size_refs A state_init_cs \<ge> 2
             then bnd (rewrite_state_init_to_cell L X state_init_cs) (\<lambda>b. ret (rewrite, as_full_slice X b))
             else ret (Some BodyToCell, state_init_cs))
          else ret (rewrite, state_init_cs)) (\<lambda>(rewrite, state_init_cs).
     if rewrite = Some BodyToCell \<and> slice_size_bits A body_cs > 1 then
       bnd (act_unwrap (sl_get_bit L body_cs 0)) (\<lambda>as_ref.
       if as_ref then ret (rewrite, state_init_cs, body_cs)
       else bnd (rewrite_body_to_cell L X body_cs) (\<lambda>b. ret (rewrite, state_init_cs, as_full_slice X b)))
     else ret (rewrite, state_init_cs, body_cs))"

definition strict :: "('c, 's) exec_state \<Rightarrow> bool" where
  "strict es = strict_extra_currency (params es)"

text \<open>
  The header as the account may send it: its own source address, an accepted destination, no fees
  yet, the current time. \<open>k\<close> goes on with it and with whether the masterchain's prices apply.
\<close>

definition check_info_int ::
    "('c, 's, 'b) exec_lib \<Rightarrow> ('c, 's) exec_state \<Rightarrow> send_mode \<Rightarrow> 'c relaxed_int_info \<Rightarrow>
     ('c relaxed_msg_info \<Rightarrow> bool \<Rightarrow> ('c, 's, send_msg_result) actx) \<Rightarrow> ('c, 's, send_msg_result) actx" where
  "check_info_int X es mode i k =
     (case check_rewrite_src_addr (address es) (ri_src i) of
        None \<Rightarrow> fail_with RcInvalidSrcAddr
      | Some src \<Rightarrow>
      (case check_rewrite_dst_addr (workchains (config es)) (ri_dst i) of
        None \<Rightarrow> check_skip_invalid mode RcInvalidDstAddr
      | Some dst \<Rightarrow>
      (case (if strict es then normalize_extra_balance X (other (ri_value i)) MAX_MSG_EXTRA_CURRENCIES
             else Inr (other (ri_value i))) of
        Inl InvalidDict \<Rightarrow> check_skip_invalid mode RcNotEnoughBalance
      | Inl OutOfLimit \<Rightarrow> check_skip_invalid mode RcTooManyExtraCurrencies
      | Inr oth \<Rightarrow>
          bnd (gets ctx_end_lt) (\<lambda>lt.
          k (RelInt (i\<lparr>ri_src := src, ri_dst := dst, ri_value := (ri_value i)\<lparr>other := oth\<rparr>, ri_ihr_fee := 0,
               ri_fwd_fee := 0, ri_created_at := block_unixtime (params es), ri_created_lt := lt,
               ri_ihr_disabled := True, ri_bounced := False\<rparr>))
            (is_masterchain (address es) \<or> addr_is_masterchain dst)))))"

definition check_info_ext ::
    "('c, 's) exec_state \<Rightarrow> send_mode \<Rightarrow> relaxed_ext_info \<Rightarrow>
     ('c relaxed_msg_info \<Rightarrow> bool \<Rightarrow> ('c, 's, send_msg_result) actx) \<Rightarrow> ('c, 's, send_msg_result) actx" where
  "check_info_ext es mode i k =
     (if delete_if_empty mode \<or> with_remaining_balance mode \<or> all_balance mode \<or> send_unknown mode
      then fail ActionFailed
      else case check_rewrite_src_addr (address es) (re_src i) of
        None \<Rightarrow> fail_with RcInvalidSrcAddr
      | Some src \<Rightarrow>
          bnd (gets ctx_end_lt) (\<lambda>lt.
          k (RelExtOut (i\<lparr>re_src := src, re_created_at := block_unixtime (params es), re_created_lt := lt\<rparr>))
            (is_masterchain (address es))))"

text \<open>
  What is there to pay for visiting the cells of the message: \<open>None\<close> when the value of an internal
  message with "remaining balance" does not cover the fees so far.
\<close>

definition message_funds ::
    "('c, 's, 'b) exec_lib \<Rightarrow> send_mode \<Rightarrow> 'c relaxed_msg_info \<Rightarrow> ('c, 's) action_ctx \<Rightarrow> nat option" where
  "message_funds X mode info ctx =
     (let funds = tokens (remaining_balance ctx) in
      case info of
        RelInt i \<Rightarrow>
          if \<not> all_balance mode \<and> \<not> pay_fee_separately mode then
            (if with_remaining_balance mode then
               (let msg_balance = (case ctx_message ctx of Some msg \<Rightarrow> tokens (rm_balance_remaining msg) | None \<Rightarrow> 0) in
                case tk_add X (tokens (ri_value i)) msg_balance of
                  Inl _ \<Rightarrow> None
                | Inr t \<Rightarrow> map_option (min funds)
                    (Option.bind (tk_sub t (ctx_gas_fees ctx)) (\<lambda>t. tk_sub t (action_fine ctx))))
             else Some (min funds (tokens (ri_value i))))
          else Some funds
      | RelExtOut _ \<Rightarrow> Some funds)"

definition fine_per_cell :: "('c, 's) exec_state \<Rightarrow> msg_forward_prices \<Rightarrow> nat" where
  "fine_per_cell es prices = (if is_special es then 0 else drop_bit 16 (cell_price prices) div 4)"

definition max_cell_count :: "('c, 's) exec_state \<Rightarrow> msg_forward_prices \<Rightarrow> nat \<Rightarrow> nat" where
  "max_cell_count es prices funds =
     (let limit = max_msg_cells (config_size_limits (config es)); fine = fine_per_cell es prices in
      if \<not> is_special es \<and> funds < limit * fine then min (funds div fine) (2 ^ 32 - 1) else limit)"

definition collect_fine :: "('c, 's, 'b) exec_lib \<Rightarrow> nat \<Rightarrow> nat \<Rightarrow> nat \<Rightarrow> ('c, 's, unit) actx" where
  "collect_fine X per_cell max_cells cells =
     bnd (gets remaining_balance) (\<lambda>b.
     let fine = min (min (per_cell * min max_cells cells) (2 ^ 64 - 1)) (tokens b) in
     bnd (gets action_fine) (\<lambda>f.
     bnd (act_lift (tk_add X f fine)) (\<lambda>f'.
     thn (modify (\<lambda>ctx. ctx\<lparr>action_fine := f'\<rparr>))
    (bnd (act_lift (cc_sub_tokens b fine)) (\<lambda>b'.
     modify (\<lambda>ctx. ctx\<lparr>remaining_balance := b'\<rparr>))))))"

definition message_children ::
    "('c, 's, 'b) cell_lib \<Rightarrow> ('c, 's) exec_state \<Rightarrow> 'c relaxed_msg_info \<Rightarrow> 's \<Rightarrow> 's \<Rightarrow> 'c list" where
  "message_children L es info state_init_cs body_cs =
     sl_references L state_init_cs @ sl_references L body_cs @
     (case info of RelInt i \<Rightarrow> if strict es then [] else opt_list (other (ri_value i)) | RelExtOut _ \<Rightarrow> [])"

text \<open>The value an internal message is sent with, and what it takes from the balance.\<close>

definition attach_value ::
    "('c, 's, 'b) exec_lib \<Rightarrow> ('c, 's) exec_state \<Rightarrow> send_mode \<Rightarrow> 'c currency \<Rightarrow> ('c, 's) action_ctx \<Rightarrow> 'c currency option" where
  "attach_value X es mode v ctx =
     (if all_balance mode then
        Some (if strict es then v\<lparr>tokens := tokens (remaining_balance ctx)\<rparr> else remaining_balance ctx)
      else if with_remaining_balance mode then
        (let added = (case ctx_message ctx of
             None \<Rightarrow> Inr v
           | Some msg \<Rightarrow> if strict es then cc_add_tokens X v (tokens (rm_balance_remaining msg))
                         else cc_add X v (rm_balance_remaining msg)) in
         case added of
           Inl _ \<Rightarrow> None
         | Inr v' \<Rightarrow>
             if pay_fee_separately mode then Some v'
             else (case cc_sub_tokens v' (action_fine ctx) of
                 Inl _ \<Rightarrow> None
               | Inr v2 \<Rightarrow> (case cc_sub_tokens v2 (ctx_gas_fees ctx) of Inl _ \<Rightarrow> None | Inr v3 \<Rightarrow> Some v3)))
      else Some v)"

definition rewrite_message_value ::
    "('c, 's, 'b) exec_lib \<Rightarrow> ('c, 's) exec_state \<Rightarrow> send_mode \<Rightarrow> nat \<Rightarrow> 'c currency \<Rightarrow> ('c, 's) action_ctx \<Rightarrow>
     ('c currency \<times> nat) option" where
  "rewrite_message_value X es mode fees v ctx =
     (case attach_value X es mode v ctx of
        None \<Rightarrow> None
      | Some v' \<Rightarrow>
          if pay_fee_separately mode \<and> \<not> all_balance mode then
            (case tk_add X (tokens v') fees of Inl _ \<Rightarrow> None | Inr t \<Rightarrow> Some (v', t))
          else (case tk_sub (tokens v') fees of None \<Rightarrow> None | Some t \<Rightarrow> Some (v'\<lparr>tokens := t\<rparr>, tokens v')))"

definition sat_add56 :: "nat \<Rightarrow> nat \<Rightarrow> nat" where
  "sat_add56 a b = min (a + b) (2 ^ 56 - 1)"

definition update_total_msg_stat :: "nat \<Rightarrow> nat \<Rightarrow> nat \<Rightarrow> action_phase_info \<Rightarrow> action_phase_info" where
  "update_total_msg_stat bits cells root_bits ap =
     ap\<lparr>message_bits := sat_add56 (message_bits ap) (bits + root_bits),
        message_cells := sat_add56 (message_cells ap) (cells + 1)\<rparr>"

definition add_opt :: "nat option \<Rightarrow> nat \<Rightarrow> nat option" where
  "add_opt x n = Some ((case x of None \<Rightarrow> 0 | Some v \<Rightarrow> v) + n)"

text \<open>The message is out: counters, logical time, fees, and the account deleted with an emptied balance.\<close>

definition finish_send ::
    "('c, 's, 'b) exec_lib \<Rightarrow> ('c, 's) exec_state \<Rightarrow> send_mode \<Rightarrow> ext_storage_stat \<Rightarrow> 'c \<Rightarrow> nat \<Rightarrow> nat \<Rightarrow>
     ('c, 's, send_msg_result) actx" where
  "finish_send X es mode stats msg collected fee =
     thn (on_phase (update_total_msg_stat (stat_bits stats) (stat_cells stats) (cell_bit_len X msg)))
    (thn (on_phase (\<lambda>ap. ap\<lparr>messages_created := messages_created ap + 1\<rparr>))
    (thn (modify (\<lambda>ctx. ctx\<lparr>ctx_end_lt := add_u64 (ctx_end_lt ctx) 1, ctx_out_msgs := ctx_out_msgs ctx @ [msg]\<rparr>))
    (thn (on_phase (\<lambda>ap. ap\<lparr>total_action_fees := add_opt (total_action_fees ap) collected,
                               total_fwd_fees := add_opt (total_fwd_fees ap) fee\<rparr>))
    (thn (if all_balance mode \<and> delete_if_empty mode
          then modify (\<lambda>ctx. ctx\<lparr>delete_account :=
            (if strict es then tokens (reserved_balance ctx) = 0 else cc_is_zero (reserved_balance ctx))\<rparr>)
          else ret ())
    (ret Sent)))))"

text \<open>The message balance that a message has taken along.\<close>

definition clear_used :: "('c, 's) exec_state \<Rightarrow> send_mode \<Rightarrow> ('c, 's) received_message \<Rightarrow> ('c, 's) received_message" where
  "clear_used es mode msg =
     (if all_balance mode \<or> with_remaining_balance mode
      then msg\<lparr>rm_balance_remaining :=
        (if strict es then (rm_balance_remaining msg)\<lparr>tokens := 0\<rparr> else cc_zero)\<rparr>
      else msg)"

definition rewrite_or_skip ::
    "message_rewrite option \<Rightarrow> (int \<Rightarrow> ('c, 's, send_msg_result) actx) \<Rightarrow> ('c, 's, send_msg_result) actx" where
  "rewrite_or_skip rewrite skip =
     (case next_rewrite rewrite of Some r \<Rightarrow> ret (Rewrite r) | None \<Rightarrow> skip RcFailedToFitMessage)"

definition send_internal ::
    "('c, 's, 'b) exec_lib \<Rightarrow> ('c, 's) exec_state \<Rightarrow> send_mode \<Rightarrow> message_rewrite option \<Rightarrow> msg_forward_prices \<Rightarrow> nat \<Rightarrow>
     ext_storage_stat \<Rightarrow> (int \<Rightarrow> ('c, 's, send_msg_result) actx) \<Rightarrow> 'c relaxed_int_info \<Rightarrow> 's \<Rightarrow> 's \<Rightarrow> ('c, 's, send_msg_result) actx" where
  "send_internal X es mode rewrite prices fee stats skip i state_init_cs body_cs =
     bnd (gets id) (\<lambda>ctx.
     case rewrite_message_value X es mode fee (ri_value i) ctx of
       None \<Rightarrow> skip RcNotEnoughBalance
     | Some (v, to_pay) \<Rightarrow>
         if tokens (remaining_balance ctx) < to_pay then skip RcNotEnoughBalance
         else if strict es \<and> \<not> check_extra_balance MAX_MSG_EXTRA_CURRENCIES 0 (xc_iter X (other v))
         then skip RcTooManyExtraCurrencies
         else (case xc_sub X (other (remaining_balance ctx)) (other v) of
             Inl _ \<Rightarrow> skip RcNotEnoughExtraBalance
           | Inr oth \<Rightarrow>
               let collected = get_first_part X prices fee;
                   info = RelInt (i\<lparr>ri_value := v, ri_fwd_fee := fee - collected\<rparr>)
               in case build_relaxed_message X info state_init_cs body_cs of
                    Inl _ \<Rightarrow> rewrite_or_skip rewrite skip
                  | Inr msg \<Rightarrow>
                      thn (modify (\<lambda>ctx. ctx\<lparr>ctx_message := map_option (clear_used es mode) (ctx_message ctx),
                             remaining_balance := \<lparr>tokens = tokens (remaining_balance ctx) - to_pay, other = oth\<rparr>\<rparr>))
                     (finish_send X es mode stats msg collected fee)))"

definition send_external ::
    "('c, 's, 'b) exec_lib \<Rightarrow> ('c, 's) exec_state \<Rightarrow> send_mode \<Rightarrow> message_rewrite option \<Rightarrow> nat \<Rightarrow> ext_storage_stat \<Rightarrow>
     (int \<Rightarrow> ('c, 's, send_msg_result) actx) \<Rightarrow> relaxed_ext_info \<Rightarrow> 's \<Rightarrow> 's \<Rightarrow> ('c, 's, send_msg_result) actx" where
  "send_external X es mode rewrite fee stats skip i state_init_cs body_cs =
     bnd (gets remaining_balance) (\<lambda>b.
     if tokens b < fee then skip RcNotEnoughBalance
     else case build_relaxed_message X (RelExtOut i) state_init_cs body_cs of
       Inl _ \<Rightarrow> rewrite_or_skip rewrite skip
     | Inr msg \<Rightarrow>
         thn (modify (\<lambda>ctx. ctx\<lparr>remaining_balance := b\<lparr>tokens := tokens b - fee\<rparr>\<rparr>))
        (finish_send X es mode stats msg fee fee))"

text \<open>From the size of the message on, a refusal costs the fine for the cells visited.\<close>

definition send_checked ::
    "('c, 's) api \<Rightarrow> ('c, 's, 'b) cell_lib \<Rightarrow> ('c, 's, 'b) exec_lib \<Rightarrow> ('c, 's) exec_state \<Rightarrow> send_mode \<Rightarrow>
     message_rewrite option \<Rightarrow> 's \<Rightarrow> 's \<Rightarrow> 'c relaxed_msg_info \<Rightarrow> bool \<Rightarrow> ('c, 's, send_msg_result) actx" where
  "send_checked A L X es mode rewrite state_init_cs body_cs info mc =
     (let prices = fwd_prices (config es) mc in
      bnd (gets (\<lambda>ctx. if is_special es then Some 0 else message_funds X mode info ctx)) (\<lambda>funds.
      case funds of
        None \<Rightarrow> check_skip_invalid mode RcNotEnoughBalance
      | Some funds \<Rightarrow>
          let max_cells = max_cell_count es prices funds;
              fine = collect_fine X (fine_per_cell es prices) max_cells
          in case add_cells A L X (message_children L es info state_init_cs body_cs)
                 (stat_with_limits (max_msg_bits (config_size_limits (config es))) max_cells) of
               (False, s) \<Rightarrow> thn (fine (stat_cells s)) (check_skip_invalid mode RcMessageOutOfLimits)
             | (True, s) \<Rightarrow>
                 let skip = (\<lambda>rc. thn (fine (stat_cells s)) (check_skip_invalid mode rc));
                     fee = (if is_special es then 0 else compute_fwd_fee X prices (stat_bits s) (stat_cells s))
                 in (case info of
                       RelInt i \<Rightarrow> send_internal X es mode rewrite prices fee s skip i state_init_cs body_cs
                     | RelExtOut i \<Rightarrow> send_external X es mode rewrite fee s skip i state_init_cs body_cs)))"

definition do_send_message ::
    "('c, 's) api \<Rightarrow> ('c, 's, 'b) cell_lib \<Rightarrow> ('c, 's, 'b) exec_lib \<Rightarrow> ('c, 's) exec_state \<Rightarrow> send_mode \<Rightarrow> 'c \<Rightarrow>
     message_rewrite option \<Rightarrow> ('c, 's, send_msg_result) actx" where
  "do_send_message A L X es mode out_msg rewrite =
     thn (if send_bounce_on_error mode then modify (\<lambda>ctx. ctx\<lparr>need_bounce_on_fail := True\<rparr>) else ret ())
    (thn (ensure (\<not> send_unknown mode \<and> \<not> (all_balance mode \<and> with_remaining_balance mode)) ActionFailed)
    (thn (ensure (\<not> cl_is_exotic L out_msg) ActionFailed)
    (bnd (unpack_out_msg A L X out_msg) (\<lambda>(info, si, body).
     bnd (apply_rewrite A L X rewrite si body) (\<lambda>(rewrite, si, body).
     case info of
       RelInt i \<Rightarrow> check_info_int X es mode i (send_checked A L X es mode rewrite si body)
     | RelExtOut i \<Rightarrow> check_info_ext es mode i (send_checked A L X es mode rewrite si body))))))"

text \<open>
  The loop around \<open>do_send_message\<close>: an attempt asks for the next rewrite, of which there are two, so
  three attempts are all there can be.
\<close>

fun send_attempts ::
    "('c, 's) api \<Rightarrow> ('c, 's, 'b) cell_lib \<Rightarrow> ('c, 's, 'b) exec_lib \<Rightarrow> ('c, 's) exec_state \<Rightarrow> send_mode \<Rightarrow> 'c \<Rightarrow> nat \<Rightarrow>
     message_rewrite option \<Rightarrow> ('c, 's, unit) actx" where
  "send_attempts A L X es mode out_msg 0 rewrite = fail ActionPanic"
| "send_attempts A L X es mode out_msg (Suc n) rewrite =
     bnd (do_send_message A L X es mode out_msg rewrite) (\<lambda>res. case res of
       Sent \<Rightarrow> ret ()
     | Rewrite r \<Rightarrow> send_attempts A L X es mode out_msg n (Some r))"

section \<open>The other actions\<close>

definition do_set_code :: "'c \<Rightarrow> ('c, 's, unit) actx" where
  "do_set_code c = thn (modify (\<lambda>ctx. ctx\<lparr>new_state := (new_state ctx)\<lparr>si_code := Some c\<rparr>\<rparr>)) bump_special"

text \<open>The amount to reserve, relative to the original balance when the mode says so.\<close>

definition reserve_target ::
    "('c, 's, 'b) exec_lib \<Rightarrow> ('c, 's) exec_state \<Rightarrow> reserve_mode \<Rightarrow> 'c currency \<Rightarrow> ('c, 's, 'c currency) actx" where
  "reserve_target X es mode r =
     (if with_original_balance mode then
        bnd (gets original_balance) (\<lambda>orig.
        if reverse mode then
          (if strict es then
             (case tk_sub (tokens orig) (tokens r) of None \<Rightarrow> fail ActionFailed | Some t \<Rightarrow> ret (r\<lparr>tokens := t\<rparr>))
           else act_lift (cc_sub X orig r))
        else if strict es then act_lift (cc_add_tokens X r (tokens orig))
        else act_lift (cc_add X r orig))
      else if reverse mode then fail ActionFailed
      else ret r)"

text \<open>\<open>swap_reserve\<close>: "all but" keeps the amount and reserves the rest.\<close>

definition swap_reserve ::
    "('c, 's) exec_state \<Rightarrow> reserve_mode \<Rightarrow> 'c currency \<Rightarrow> 'c currency \<Rightarrow> 'c currency \<times> 'c currency" where
  "swap_reserve es mode left r =
     (if all_but mode then
        (if strict es then (left\<lparr>tokens := tokens r\<rparr>, r\<lparr>tokens := tokens left\<rparr>) else (r, left))
      else (left, r))"

definition reserve_amount ::
    "('c, 's, 'b) exec_lib \<Rightarrow> ('c, 's) exec_state \<Rightarrow> reserve_mode \<Rightarrow> 'c currency \<Rightarrow> ('c, 's, unit) actx" where
  "reserve_amount X es mode r1 =
     bnd (gets remaining_balance) (\<lambda>b.
     bnd (if reserve_ignore_error mode then act_lift (cc_clamp X r1 b) else ret r1) (\<lambda>r2.
     case tk_sub (tokens b) (tokens r2) of
       None \<Rightarrow> fail_with RcNotEnoughBalance
     | Some t \<Rightarrow>
     (case xc_sub X (other b) (other r2) of
       Inl _ \<Rightarrow> fail_with RcNotEnoughExtraBalance
     | Inr oth \<Rightarrow>
         bnd (act_lift (xc_normalize X (other r2))) (\<lambda>norm.
         case swap_reserve es mode \<lparr>tokens = t, other = oth\<rparr> (r2\<lparr>other := norm\<rparr>) of (left, r3) \<Rightarrow>
         thn (modify (\<lambda>ctx. ctx\<lparr>remaining_balance := left\<rparr>))
        (bnd (gets reserved_balance) (\<lambda>res.
         bnd (act_lift (cc_add X res r3)) (\<lambda>res'.
         thn (modify (\<lambda>ctx. ctx\<lparr>reserved_balance := res'\<rparr>)) bump_special)))))))"

definition do_reserve_currency ::
    "('c, 's, 'b) exec_lib \<Rightarrow> ('c, 's) exec_state \<Rightarrow> reserve_mode \<Rightarrow> 'c currency \<Rightarrow> ('c, 's, unit) actx" where
  "do_reserve_currency X es mode r0 =
     thn (if reserve_bounce_on_error mode then modify (\<lambda>ctx. ctx\<lparr>need_bounce_on_fail := True\<rparr>) else ret ())
    (thn (ensure (\<not> reserve_unknown mode) ActionFailed)
    (thn (ensure (\<not> (strict es \<and> other r0 \<noteq> None)) ActionFailed)
    (bnd (reserve_target X es mode r0) (reserve_amount X es mode))))"

definition set_libraries :: "'c option \<Rightarrow> ('c, 's, unit) actx" where
  "set_libraries libs = modify (\<lambda>ctx. ctx\<lparr>new_state := (new_state ctx)\<lparr>si_libraries := libs\<rparr>\<rparr>)"

definition push_lib_diff :: "('c, 's) exec_state \<Rightarrow> 'c public_library_change list \<Rightarrow> ('c, 's, unit) actx" where
  "push_lib_diff es ch =
     (if is_masterchain (address es)
      then modify (\<lambda>ctx. ctx\<lparr>public_libs_diff := map_option (\<lambda>d. d @ ch) (public_libs_diff ctx)\<rparr>) else ret ())"

definition add_library ::
    "('c, 's) api \<Rightarrow> ('c, 's, 'b) cell_lib \<Rightarrow> ('c, 's, 'b) exec_lib \<Rightarrow> ('c, 's) exec_state \<Rightarrow> bool \<Rightarrow> bool option \<Rightarrow> 'c \<Rightarrow>
     ('c, 's, unit) actx" where
  "add_library A L X es public was_public lib_root =
     (if \<not> fst (add_cell A L X lib_root (stat_with_limits U32_MAX (max_library_cells (config_size_limits (config es)))))
      then fail_with RcLibOutOfLimits
      else bnd (gets (\<lambda>ctx. si_libraries (new_state ctx))) (\<lambda>libs.
        case lib_set X libs (cell_repr_hash A lib_root) (public, lib_root) of
          Inl _ \<Rightarrow> fail_with RcInvalidLibrariesDict
        | Inr libs' \<Rightarrow>
            thn (set_libraries libs')
           (thn (push_lib_diff es
                  (if public \<and> was_public \<noteq> Some True then [LibAdd lib_root]
                   else if \<not> public \<and> was_public = Some True then [LibRemove (cell_repr_hash A lib_root)] else []))
            bump_special)))"

definition lib_ref_hash :: "('c, 's) api \<Rightarrow> 'c lib_ref \<Rightarrow> hash" where
  "lib_ref_hash A lib = (case lib of LibCell c \<Rightarrow> cell_repr_hash A c | LibHash h \<Rightarrow> h)"

definition do_change_library ::
    "('c, 's) api \<Rightarrow> ('c, 's, 'b) cell_lib \<Rightarrow> ('c, 's, 'b) exec_lib \<Rightarrow> ('c, 's) exec_state \<Rightarrow> library_mode \<Rightarrow> 'c lib_ref \<Rightarrow>
     ('c, 's, unit) actx" where
  "do_change_library A L X es mode lib =
     thn (if library_bounce_on_error mode then modify (\<lambda>ctx. ctx\<lparr>need_bounce_on_fail := True\<rparr>) else ret ())
    (thn (ensure (\<not> (add_private mode \<and> add_public mode)) ActionFailed)
    (bnd (gets (\<lambda>ctx. si_libraries (new_state ctx))) (\<lambda>libs.
     let h = lib_ref_hash A lib; public = add_public mode in
     if public \<or> add_private mode then
       (case lib_get X libs h of
          Inr (Some (was_public, lib_root)) \<Rightarrow>
            if was_public = public then bump_special
            else add_library A L X es public (Some was_public) lib_root
        | _ \<Rightarrow> (case lib of
            LibCell lib_root \<Rightarrow> add_library A L X es public None lib_root
          | LibHash _ \<Rightarrow> fail_with RcNoLibCode))
     else
       (case lib_remove X libs h of
          Inl _ \<Rightarrow> fail_with RcInvalidLibrariesDict
        | Inr (removed, libs') \<Rightarrow>
            thn (set_libraries libs')
           (thn (push_lib_diff es (case removed of Some (True, _) \<Rightarrow> [LibRemove h] | _ \<Rightarrow> []))
            bump_special)))))"

section \<open>The list of actions\<close>

text \<open>
  Unpacking follows the first reference of each item: the result code and its argument, or the
  number of actions and their cells, last action first.
\<close>

function unpack_actions ::
    "('c, 's) api \<Rightarrow> ('c, 's, 'b) cell_lib \<Rightarrow> nat \<Rightarrow> 'c \<Rightarrow> 'c list \<Rightarrow> (int \<times> nat) + (nat \<times> 'c list)" where
  "unpack_actions A L idx actions acc =
     (if cl_is_exotic L actions then Inl (RcActionListInvalid, idx)
      else if slice_empty A (slice_of_cell A actions) then Inr (idx, acc)
      else case sl_load_reference L (slice_of_cell A actions) of
        Inl _ \<Rightarrow> Inl (RcActionListInvalid, idx)
      | Inr (child, _) \<Rightarrow>
          if idx + 1 > MAX_ACTIONS then Inl (RcTooManyActions, idx + 1)
          else unpack_actions A L (idx + 1) child (acc @ [actions]))"
  by pat_completeness auto
termination
  by (relation "measure (\<lambda>(A, L, idx, actions, acc). MAX_ACTIONS - idx)") auto

declare unpack_actions.simps [simp del]

datatype 'c parsed_action = Parsed "'c out_action" | SkippedAction | BadAction bool

definition parse_action ::
    "('c, 's) api \<Rightarrow> ('c, 's, 'b) cell_lib \<Rightarrow> ('c, 's, 'b) exec_lib \<Rightarrow> 'c \<Rightarrow> cell_error + 'c parsed_action" where
  "parse_action A L X item =
     (let cs = (case sl_load_reference L (slice_of_cell A item) of Inr (_, cs) \<Rightarrow> cs | Inl _ \<Rightarrow> slice_of_cell A item);
          fallback =
            (if slice_size_bits A cs \<ge> 40 then
               (case sl_load_u32 L cs of
                  Inl e \<Rightarrow> Inl e
                | Inr (tag, cs1) \<Rightarrow>
                    if tag \<noteq> TAG_SEND_MSG X then Inr (BadAction False)
                    else (case load_u8 X cs1 of
                        Inl e \<Rightarrow> Inl e
                      | Inr (m, _) \<Rightarrow>
                          if send_ignore_error (send_flags X m) then Inr SkippedAction
                          else Inr (BadAction (send_bounce_on_error (send_flags X m)))))
             else Inr (BadAction False))
      in case load_out_action X cs of
           Inr (act, left) \<Rightarrow> if slice_empty A left then Inr (Parsed act) else fallback
         | Inl _ \<Rightarrow> fallback)"

text \<open>The first bad action ends the parsing, with its index and whether it asks for a bounce.\<close>

fun parse_actions ::
    "('c, 's) api \<Rightarrow> ('c, 's, 'b) cell_lib \<Rightarrow> ('c, 's, 'b) exec_lib \<Rightarrow> nat \<Rightarrow> nat \<Rightarrow> 'c list \<Rightarrow> 'c out_action option list \<Rightarrow>
     cell_error + nat \<times> (nat \<times> bool + 'c out_action option list)" where
  "parse_actions A L X idx skipped [] acc = Inr (skipped, Inr acc)"
| "parse_actions A L X idx skipped (item # items) acc = (case parse_action A L X item of
      Inl e \<Rightarrow> Inl e
    | Inr (Parsed act) \<Rightarrow> parse_actions A L X (idx + 1) skipped items (acc @ [Some act])
    | Inr SkippedAction \<Rightarrow> parse_actions A L X (idx + 1) (skipped + 1) items (acc @ [None])
    | Inr (BadAction bounces) \<Rightarrow> Inr (skipped, Inl (idx, bounces)))"

definition do_action ::
    "('c, 's) api \<Rightarrow> ('c, 's, 'b) cell_lib \<Rightarrow> ('c, 's, 'b) exec_lib \<Rightarrow> ('c, 's) exec_state \<Rightarrow> 'c out_action \<Rightarrow> ('c, 's, unit) actx" where
  "do_action A L X es act = (case act of
      SendMsg mode out_msg \<Rightarrow> send_attempts A L X es mode out_msg 3 None
    | SetCode c \<Rightarrow> do_set_code c
    | ReserveCurrency mode v \<Rightarrow> do_reserve_currency X es mode v
    | ChangeLibrary mode lib \<Rightarrow> do_change_library A L X es mode lib)"

fun run_actions ::
    "('c, 's) api \<Rightarrow> ('c, 's, 'b) cell_lib \<Rightarrow> ('c, 's, 'b) exec_lib \<Rightarrow> ('c, 's) exec_state \<Rightarrow> nat \<Rightarrow> 'c out_action option list \<Rightarrow>
     ('c, 's, unit) actx" where
  "run_actions A L X es idx [] = ret ()"
| "run_actions A L X es idx (None # acts) = run_actions A L X es (idx + 1) acts"
| "run_actions A L X es idx (Some act # acts) =
     thn (modify (\<lambda>ctx. ctx\<lparr>need_bounce_on_fail := False\<rparr>))
    (thn (on_phase (\<lambda>ap. ap\<lparr>result_code := -1, result_arg := Some idx\<rparr>))
    (thn (do_action A L X es act) (run_actions A L X es (idx + 1) acts)))"

section \<open>The phase\<close>

record 'c action_phase_full =
  apf_phase :: action_phase_info
  apf_action_fine :: nat
  state_exceeds_limits :: bool
  apf_bounce :: bool
  apf_libs_diff :: "'c public_library_change list option"

definition action_phase_start :: "hash \<Rightarrow> action_phase_info" where
  "action_phase_start h = \<lparr>ap_success = False, ap_valid = False, ap_no_funds = False,
     ap_status_change = StatusUnchanged, total_fwd_fees = None, total_action_fees = None, result_code = -1,
     result_arg = None, total_actions = 0, special_actions = 0, skipped_actions = 0, messages_created = 0,
     action_list_hash = h, message_bits = 0, message_cells = 0\<rparr>"

definition action_phase_bad :: "action_phase_info \<Rightarrow> bool \<Rightarrow> 'c action_phase_full" where
  "action_phase_bad ap bounces = \<lparr>apf_phase = ap, apf_action_fine = 0, state_exceeds_limits = False, apf_bounce = bounces,
     apf_libs_diff = None\<rparr>"

text \<open>
  \<open>apply_fine_on_error\<close>: the fine, with the fees of the messages not sent when configured so, is
  taken from the account.
\<close>

definition apply_fine_on_error ::
    "('c, 's, 'b) exec_lib \<Rightarrow> ('c, 's) action_ctx \<Rightarrow> ('c, 's, ('c, 's) action_ctx) ex" where
  "apply_fine_on_error X ctx =
     bnd (gets (\<lambda>es. charge_action_fees_on_fail (params es))) (\<lambda>charge.
     bnd (if charge then ex_lift (tk_add X (action_fine ctx) (case total_action_fees (ctx_phase ctx) of None \<Rightarrow> 0 | Some f \<Rightarrow> f))
          else ret (action_fine ctx)) (\<lambda>fine.
     let ctx' = ctx\<lparr>action_fine := fine, ctx_phase := (ctx_phase ctx)\<lparr>total_fwd_fees := None,
           total_action_fees := (if fine = 0 then None else Some fine)\<rparr>\<rparr> in
     bnd (gets balance) (\<lambda>b.
     bnd (ex_lift (cc_sub_tokens b fine)) (\<lambda>b'.
     thn (set_balance b')
    (thn (add_fees X fine) (ret ctx'))))))"

definition action_result :: "('c, 's) action_ctx \<Rightarrow> bool \<Rightarrow> bool \<Rightarrow> 'c public_library_change list option \<Rightarrow>
    'c action_phase_full \<times> ('c, 's) received_message option" where
  "action_result ctx exceeds bounces diff = (\<lparr>apf_phase = ctx_phase ctx, apf_action_fine = action_fine ctx,
     state_exceeds_limits = exceeds, apf_bounce = bounces, apf_libs_diff = diff\<rparr>, ctx_message ctx)"

text \<open>An action failed: the context is dropped, the account pays the fine.\<close>

definition actions_failed ::
    "('c, 's, 'b) exec_lib \<Rightarrow> ('c, 's) action_ctx \<Rightarrow>
     ('c, 's, 'c action_phase_full \<times> ('c, 's) received_message option) ex" where
  "actions_failed X ctx =
     (let ap = ctx_phase ctx;
          rc = (if result_code ap = -1 then RcActionInvalid else result_code ap);
          ap' = ap\<lparr>result_code := rc, ap_no_funds :=
            (if rc = RcNotEnoughBalance \<or> rc = RcNotEnoughExtraBalance then True else ap_no_funds ap)\<rparr>
      in bnd (apply_fine_on_error X (ctx\<lparr>ctx_phase := ap'\<rparr>)) (\<lambda>ctx'.
         ret (action_result ctx' False (need_bounce_on_fail ctx') None)))"

definition state_limits ::
    "('c, 's) api \<Rightarrow> ('c, 's, 'b) cell_lib \<Rightarrow> ('c, 's, 'b) exec_lib \<Rightarrow> 'c state_init \<Rightarrow> ('c, 's, state_limits_result) ex" where
  "state_limits A L X st =
     bnd (gets id) (\<lambda>es.
     if is_special es then ret Unchanged
     else let limits = config_size_limits (config es); mc = is_masterchain (address es) in
       case (case acc_now es of
               AccActive current \<Rightarrow> check_state_limits_diff A L X current st limits mc (cached_storage_stat es)
             | _ \<Rightarrow> check_state_limits A L X st limits mc (cached_storage_stat es)) of
         (res, cache) \<Rightarrow> thn (modify (\<lambda>es. es\<lparr>cached_storage_stat := cache\<rparr>)) (ret res))"

definition delete_status :: "('c, 's) action_ctx \<Rightarrow> 'c currency \<Rightarrow> ('c, 's) exec_state \<Rightarrow> ('c, 's) exec_state" where
  "delete_status ctx remaining es =
     (if delete_account ctx
      then es\<lparr>end_status := (if cc_is_zero remaining then StNotExists else StUninit), cached_storage_stat := None\<rparr>
      else es)"

text \<open>The fees of the phase: those of the messages and the fine.\<close>

definition done_fees :: "('c, 's, 'b) exec_lib \<Rightarrow> ('c, 's) action_ctx \<Rightarrow> ('c, 's, nat option) ex" where
  "done_fees X ctx =
     (if action_fine ctx = 0 then ret (total_action_fees (ctx_phase ctx))
      else bnd (ex_lift (tk_add X (case total_action_fees (ctx_phase ctx) of None \<Rightarrow> 0 | Some f \<Rightarrow> f) (action_fine ctx)))
        (\<lambda>f. ret (Some f)))"

text \<open>All actions succeeded and the state fits: the context becomes the state of the account.\<close>

definition actions_done ::
    "('c, 's, 'b) exec_lib \<Rightarrow> bool \<Rightarrow> ('c, 's) action_ctx \<Rightarrow>
     ('c, 's, 'c action_phase_full \<times> ('c, 's) received_message option) ex" where
  "actions_done X inspect ctx =
     bnd (done_fees X ctx) (\<lambda>action_fees.
     bnd (ex_lift (cc_add X (remaining_balance ctx) (reserved_balance ctx))) (\<lambda>remaining.
     let ap = (ctx_phase ctx)\<lparr>total_action_fees := action_fees, result_code := 0, result_arg := None, ap_success := True,
           ap_status_change := (if delete_account ctx then StatusDeleted else ap_status_change (ctx_phase ctx))\<rparr> in
     thn (modify (delete_status ctx remaining))
    (thn (case action_fees of None \<Rightarrow> ret () | Some f \<Rightarrow> add_fees X f)
    (thn (modify (\<lambda>es. es\<lparr>balance := remaining, out_msgs := ctx_out_msgs ctx, end_lt := ctx_end_lt ctx,
            acc_now := AccActive (new_state ctx)\<rparr>))
    (ret (action_result (ctx\<lparr>ctx_phase := ap\<rparr>) False False
            (if inspect then Some (case public_libs_diff ctx of None \<Rightarrow> [] | Some d \<Rightarrow> d) else None)))))))"

definition action_start ::
    "('c, 's) exec_state \<Rightarrow> bool \<Rightarrow> ('c, 's) received_message option \<Rightarrow> 'c currency \<Rightarrow> 'c state_init \<Rightarrow> nat \<Rightarrow>
     action_phase_info \<Rightarrow> ('c, 's) action_ctx" where
  "action_start es inspect received orig st gas_fees ap =
     \<lparr>need_bounce_on_fail = False, ctx_message = received, original_balance = orig, remaining_balance = balance es,
      reserved_balance = cc_zero, action_fine = 0, new_state = st, ctx_end_lt = end_lt es, ctx_out_msgs = [],
      delete_account = False, public_libs_diff = (if inspect then Some [] else None), ctx_gas_fees = gas_fees,
      ctx_phase = ap\<rparr>"

definition run_action_list ::
    "('c, 's) api \<Rightarrow> ('c, 's, 'b) cell_lib \<Rightarrow> ('c, 's, 'b) exec_lib \<Rightarrow> bool \<Rightarrow> ('c, 's) action_ctx \<Rightarrow> 'c out_action option list \<Rightarrow>
     ('c, 's, 'c action_phase_full \<times> ('c, 's) received_message option) ex" where
  "run_action_list A L X inspect start acts =
     bnd (gets (\<lambda>es. run_actions A L X es 0 acts start)) (\<lambda>outcome. case outcome of
       (Inl ActionPanic, _) \<Rightarrow> fail ExecPanic
     | (Inl ActionFailed, ctx) \<Rightarrow> actions_failed X ctx
     | (Inr _, ctx) \<Rightarrow>
         bnd (state_limits A L X (new_state ctx)) (\<lambda>check.
         if check = Exceeds then
           bnd (apply_fine_on_error X ctx) (\<lambda>ctx'.
           ret (action_result (ctx'\<lparr>ctx_phase := (ctx_phase ctx')\<lparr>result_code := RcStateOutOfLimits\<rparr>\<rparr>) True
                 (need_bounce_on_fail ctx') None))
         else actions_done X inspect ctx))"

definition action_phase ::
    "('c, 's) api \<Rightarrow> ('c, 's, 'b) cell_lib \<Rightarrow> ('c, 's, 'b) exec_lib \<Rightarrow> bool \<Rightarrow> ('c, 's) received_message option \<Rightarrow> 'c currency \<Rightarrow>
     'c state_init \<Rightarrow> 'c \<Rightarrow> nat \<Rightarrow> ('c, 's, 'c action_phase_full \<times> ('c, 's) received_message option) ex" where
  "action_phase A L X inspect received orig st actions gas_fees =
     (let ap = action_phase_start (cell_repr_hash A actions) in
      case unpack_actions A L 0 actions [] of
        Inl (rc, arg) \<Rightarrow> ret (action_phase_bad (ap\<lparr>result_code := rc, result_arg := Some arg\<rparr>) False, received)
      | Inr (n, items) \<Rightarrow>
          bnd (ex_lift (parse_actions A L X 0 0 (rev items) [])) (\<lambda>(skipped, parsed).
          let ap1 = ap\<lparr>total_actions := n, skipped_actions := skipped\<rparr> in
          case parsed of
            Inl (idx, bounces) \<Rightarrow>
              ret (action_phase_bad (ap1\<lparr>result_code := RcActionInvalid, result_arg := Some idx\<rparr>) bounces, received)
          | Inr acts \<Rightarrow>
              bnd (gets (\<lambda>es. action_start es inspect received orig st gas_fees (ap1\<lparr>ap_valid := True\<rparr>))) (\<lambda>start.
              run_action_list A L X inspect start acts)))"

section \<open>Where the balance goes\<close>

text \<open>
  What the context holds: the balance left and reserved, the fine, the fees collected and what the
  messages carry. \<open>ctx_inv\<close> fixes it, and one logical time for each message from \<open>lt\<close> on.
\<close>

definition opt0 :: "nat option \<Rightarrow> nat" where
  "opt0 x = (case x of None \<Rightarrow> 0 | Some v \<Rightarrow> v)"

definition ctx_wealth :: "('c, 's, 'b) exec_lib \<Rightarrow> ('c, 's) action_ctx \<Rightarrow> nat" where
  "ctx_wealth X ctx = tokens (remaining_balance ctx) + tokens (reserved_balance ctx) + action_fine ctx +
     opt0 (total_action_fees (ctx_phase ctx)) + sum_list (map (out_worth X) (ctx_out_msgs ctx))"

definition ctx_inv :: "('c, 's, 'b) exec_lib \<Rightarrow> nat \<times> nat \<Rightarrow> ('c, 's) action_ctx \<Rightarrow> bool" where
  "ctx_inv X = (\<lambda>(w, lt) ctx. ctx_wealth X ctx = w \<and> ctx_end_lt ctx = (lt + length (ctx_out_msgs ctx)) mod 2 ^ 64)"

interpretation acts: action_invariant "ctx_inv X" "\<lambda>_ _ _. True" "\<lambda>_. True"
  for X :: "('c, 's, 'b) exec_lib"
  by unfold_locales simp

abbreviation ctx_keeps :: "('c, 's, 'b) exec_lib \<Rightarrow> ('c, 's, 'a) actx \<Rightarrow> bool" where
  "ctx_keeps X \<equiv> upholds (ctx_inv X) (\<lambda>_ _ _. True)"

named_theorems ctx_rules \<open>actions that keep what the context holds\<close>

lemmas acts.upholds_rules [ctx_rules] acts.upholds_fail [OF TrueI, ctx_rules] acts.upholds_ensure [OF TrueI, ctx_rules]

lemma opt0_add [simp]: "opt0 (add_opt x n) = opt0 x + n"
  by (simp add: opt0_def add_opt_def)

lemma ctx_inv_state: "ctx_inv X i ctx \<Longrightarrow> ctx_wealth X ctx' = ctx_wealth X ctx \<Longrightarrow> ctx_end_lt ctx' = ctx_end_lt ctx \<Longrightarrow>
    ctx_out_msgs ctx' = ctx_out_msgs ctx \<Longrightarrow> ctx_inv X i ctx'"
  by (simp add: ctx_inv_def split: prod.splits)

lemma act_lift_Inr: "act_lift r ctx = (Inr x, ctx') \<longleftrightarrow> r = Inr x \<and> ctx' = ctx"
  by (cases r) (auto simp: act_lift_def)

lemma fail_with_Inr: "fail_with rc ctx \<noteq> (Inr x, ctx')"
  by (simp add: fail_with_def on_phase_def)

lemma run_actions_Cons: "run_actions A L X es idx (a # acts) = (case a of
    None \<Rightarrow> run_actions A L X es (idx + 1) acts
  | Some act \<Rightarrow> thn (modify (\<lambda>ctx. ctx\<lparr>need_bounce_on_fail := False\<rparr>))
    (thn (on_phase (\<lambda>ap. ap\<lparr>result_code := -1, result_arg := Some idx\<rparr>))
    (thn (do_action A L X es act) (run_actions A L X es (idx + 1) acts))))"
  by (cases a) simp_all

lemma keeps_lift [ctx_rules]: "ctx_keeps X (act_lift r)" "ctx_keeps X (act_unwrap r)"
  by (simp_all add: act_lift_def act_unwrap_def acts.upholds_lift_res)

lemma keeps_on_phase [ctx_rules]:
  "(\<And>ap. total_action_fees (f ap) = total_action_fees ap) \<Longrightarrow> ctx_keeps X (on_phase f)"
  unfolding on_phase_def by (rule acts.upholds_modify) (auto elim!: ctx_inv_state simp: ctx_wealth_def)

lemma keeps_fail_with [ctx_rules]: "ctx_keeps X (fail_with rc)"
  unfolding fail_with_def by (intro ctx_rules) simp

lemma keeps_bump [ctx_rules]: "ctx_keeps X bump_special"
  unfolding bump_special_def by (intro ctx_rules) simp

lemma keeps_skip [ctx_rules]: "ctx_keeps X (check_skip_invalid mode rc)"
  unfolding check_skip_invalid_def by (intro ctx_rules) simp

lemma keeps_need_bounce [ctx_rules]: "ctx_keeps X (modify (\<lambda>ctx. ctx\<lparr>need_bounce_on_fail := b\<rparr>))"
  by (rule acts.upholds_modify) (auto elim!: ctx_inv_state simp: ctx_wealth_def)

lemma keeps_new_state [ctx_rules]: "ctx_keeps X (modify (\<lambda>ctx. ctx\<lparr>new_state := f (new_state ctx)\<rparr>))"
  by (rule acts.upholds_modify) (auto elim!: ctx_inv_state simp: ctx_wealth_def)

lemma collect_fine_Inr:
  assumes "collect_fine X p m n ctx = (Inr x, ctx')"
  obtains f where "f \<le> tokens (remaining_balance ctx)"
    "ctx' = ctx\<lparr>action_fine := action_fine ctx + f,
       remaining_balance := (remaining_balance ctx)\<lparr>tokens := tokens (remaining_balance ctx) - f\<rparr>\<rparr>"
proof -
  define f where "f = min (min (p * min m n) (2 ^ 64 - 1)) (tokens (remaining_balance ctx))"
  have f: "f \<le> tokens (remaining_balance ctx)" by (simp add: f_def)
  have "collect_fine X p m n ctx = (if action_fine ctx + f \<le> tk_max X
    then (Inr (), ctx\<lparr>action_fine := action_fine ctx + f,
       remaining_balance := (remaining_balance ctx)\<lparr>tokens := tokens (remaining_balance ctx) - f\<rparr>\<rparr>)
    else (Inl ActionFailed, ctx))"
    unfolding collect_fine_def by (simp add: f_def Let_def act_lift_def tk_add_def cc_sub_tokens_def tk_sub_def)
  with assms f that show thesis by (simp split: if_splits)
qed

lemma keeps_collect_fine [ctx_rules]: "ctx_keeps X (collect_fine X p m n)"
  by (rule upholdsI) (auto elim!: collect_fine_Inr ctx_inv_state simp: ctx_wealth_def)

lemma src_addr_own: "check_rewrite_src_addr me a = Some b \<Longrightarrow> b = Some (AddrStd me)"
  by (auto simp: check_rewrite_src_addr_def split: option.split_asm int_addr.split_asm if_split_asm)

lemma reserve_amount_Inr:
  assumes "reserve_amount X es mode r ctx = (Inr u, ctx')"
  obtains left res where "tokens left + tokens res = tokens (remaining_balance ctx) + tokens (reserved_balance ctx)"
    "ctx' = ctx\<lparr>remaining_balance := left, reserved_balance := res,
       ctx_phase := (ctx_phase ctx)\<lparr>special_actions := special_actions (ctx_phase ctx) + 1\<rparr>\<rparr>"
proof -
  let ?b = "remaining_balance ctx"
  obtain r2 ctx1 where "(if reserve_ignore_error mode then act_lift (cc_clamp X r ?b) else ret r) ctx = (Inr r2, ctx1)"
    and rest: "(case tk_sub (tokens ?b) (tokens r2) of None \<Rightarrow> fail_with RcNotEnoughBalance
      | Some t \<Rightarrow> (case xc_sub X (other ?b) (other r2) of
          Inl _ \<Rightarrow> fail_with RcNotEnoughExtraBalance
        | Inr oth \<Rightarrow> bnd (act_lift (xc_normalize X (other r2))) (\<lambda>norm.
            case swap_reserve es mode \<lparr>tokens = t, other = oth\<rparr> (r2\<lparr>other := norm\<rparr>) of (left, r3) \<Rightarrow>
            thn (modify (\<lambda>ctx. ctx\<lparr>remaining_balance := left\<rparr>))
           (bnd (gets reserved_balance) (\<lambda>res. bnd (act_lift (cc_add X res r3)) (\<lambda>res'.
            thn (modify (\<lambda>ctx. ctx\<lparr>reserved_balance := res'\<rparr>)) bump_special)))))) ctx1 = (Inr u, ctx')"
    using assms unfolding reserve_amount_def bnd_eq_Inr_iff by auto
  then have "ctx1 = ctx" by (auto simp: act_lift_Inr split: if_splits)
  let ?swap = "\<lambda>t oth norm. swap_reserve es mode \<lparr>tokens = t, other = oth\<rparr> (r2\<lparr>other := norm\<rparr>)"
  from rest \<open>ctx1 = ctx\<close> obtain t oth norm res where t: "tk_sub (tokens ?b) (tokens r2) = Some t"
    and add: "cc_add X (reserved_balance ctx) (snd (?swap t oth norm)) = Inr res"
    and ctx': "ctx' = ctx\<lparr>remaining_balance := fst (?swap t oth norm), reserved_balance := res,
       ctx_phase := (ctx_phase ctx)\<lparr>special_actions := special_actions (ctx_phase ctx) + 1\<rparr>\<rparr>"
    by (cases "tk_sub (tokens ?b) (tokens r2)"; cases "xc_sub X (other ?b) (other r2)")
      (auto simp: bnd_eq_Inr_iff thn_eq_Inr_iff act_lift_Inr bump_special_def on_phase_def fail_with_Inr case_prod_beta)
  have "tokens (fst (?swap t oth norm)) + tokens (snd (?swap t oth norm)) = tokens ?b"
    using t by (auto simp: swap_reserve_def tk_sub_def split: if_splits)
  with cc_add_tokens_eq[OF add] show thesis by (intro that[OF _ ctx']) simp
qed

lemma keeps_reserve_amount [ctx_rules]: "ctx_keeps X (reserve_amount X es mode r)"
  by (rule upholdsI) (auto elim!: reserve_amount_Inr ctx_inv_state simp: ctx_wealth_def)

lemma rewrite_message_value_pays:
  "rewrite_message_value X es mode fee v ctx = Some (v', to_pay) \<Longrightarrow> to_pay = tokens v' + fee"
  by (auto simp: rewrite_message_value_def tk_add_def tk_sub_def split: option.splits sum.splits if_splits)

lemma finish_send_Inr:
  assumes "finish_send X es mode stats msg collected fee ctx = (Inr r, ctx')"
  shows "ctx_wealth X ctx' = ctx_wealth X ctx + collected + out_worth X msg" "r = Sent"
    "ctx_out_msgs ctx' = ctx_out_msgs ctx @ [msg]" "ctx_end_lt ctx' = add_u64 (ctx_end_lt ctx) 1"
  using assms
  by (auto simp: finish_send_def on_phase_def thn_eq_Inr_iff ctx_wealth_def update_total_msg_stat_def split: if_splits)

text \<open>
  What sending relies on of serialisation: an outbound message built from a complete header is parsed
  to that header.
\<close>

definition sent_info :: "'c relaxed_int_info \<Rightarrow> int_addr \<Rightarrow> 'c int_msg_info" where
  "sent_info i src = \<lparr>ihr_disabled = ri_ihr_disabled i, bounce = ri_bounce i, bounced = ri_bounced i, msg_src = src,
     msg_dst = ri_dst i, msg_value = ri_value i, ihr_fee = ri_ihr_fee i, fwd_fee = ri_fwd_fee i,
     created_lt = ri_created_lt i, created_at = ri_created_at i\<rparr>"

locale message_codec = header_codec L X starts
  for L :: "('c, 's, 'b) cell_lib" and X :: "('c, 's, 'b) exec_lib" and starts :: "'b \<Rightarrow> 'c msg_info \<Rightarrow> bool" +
  assumes build_parse_int: "build_relaxed_message X (RelInt ri) si body = Inr c \<Longrightarrow> ri_src ri = Some src \<Longrightarrow>
      parse_msg_info X c = Inr (MsgInt (sent_info ri src))"
    and build_parse_ext: "build_relaxed_message X (RelExtOut re) si body = Inr c \<Longrightarrow> re_src re = Some src \<Longrightarrow>
      parse_msg_info X c = Inr MsgExtOut"
begin

lemma sent_worth:
  "build_relaxed_message X (RelInt ri) si body = Inr c \<Longrightarrow> ri_src ri = Some src \<Longrightarrow>
     out_worth X c = tokens (ri_value ri) + ri_ihr_fee ri + ri_fwd_fee ri"
  "build_relaxed_message X (RelExtOut re) si body = Inr c \<Longrightarrow> re_src re = Some src \<Longrightarrow> out_worth X c = 0"
  by (simp_all add: out_worth_def amount_def sent_info_def build_parse_int build_parse_ext)

lemma keeps_rewrite_or_skip:
  "(\<And>rc. ctx_keeps X (skip rc)) \<Longrightarrow> ctx_keeps X (rewrite_or_skip rewrite skip)"
  unfolding rewrite_or_skip_def by (intro ctx_rules)

lemma keeps_sent:
  assumes "ctx_inv X i ctx" and "finish_send X es mode stats msg collected fee ctx1 = (Inr r, ctx')"
    and "ctx_wealth X ctx1 + collected + out_worth X msg = ctx_wealth X ctx" and "ctx_end_lt ctx1 = ctx_end_lt ctx"
    and "ctx_out_msgs ctx1 = ctx_out_msgs ctx"
  shows "ctx_inv X i ctx'"
  using assms(1,3-5) finish_send_Inr[OF assms(2)]
  by (simp add: ctx_inv_def add_u64_def mod_simps add.assoc split: prod.splits)

lemma keeps_send_internal:
  assumes skip: "\<And>rc. ctx_keeps X (skip rc)" and src: "ri_src ri = Some src" and ihr: "ri_ihr_fee ri = 0"
  shows "ctx_keeps X (send_internal X es mode rewrite prices fee stats skip ri si body)"
proof (rule upholdsI)
  fix i ctx r ctx'
  assume inv: "ctx_inv X i ctx" and run: "send_internal X es mode rewrite prices fee stats skip ri si body ctx = (Inr r, ctx')"
  note keep = upholds_InrD[OF skip inv] upholds_InrD[OF keeps_rewrite_or_skip[of skip, OF skip] inv]
  let ?c = "get_first_part X prices fee"
  show "ctx_inv X i ctx'"
  proof (cases "rewrite_message_value X es mode fee (ri_value ri) ctx")
    case None
    with run keep show ?thesis by (simp add: send_internal_def)
  next
    case (Some vp)
    then obtain v to_pay where vp: "rewrite_message_value X es mode fee (ri_value ri) ctx = Some (v, to_pay)" by (cases vp) auto
    then have pay: "to_pay = tokens v + fee" by (rule rewrite_message_value_pays)
    consider (skip) rc where "skip rc ctx = (Inr r, ctx')" | (again) "rewrite_or_skip rewrite skip ctx = (Inr r, ctx')"
      | (sent) oth msg where "to_pay \<le> tokens (remaining_balance ctx)"
        "build_relaxed_message X (RelInt (ri\<lparr>ri_value := v, ri_fwd_fee := fee - ?c\<rparr>)) si body = Inr msg"
        "finish_send X es mode stats msg ?c fee (ctx\<lparr>ctx_message := map_option (clear_used es mode) (ctx_message ctx),
           remaining_balance := \<lparr>tokens = tokens (remaining_balance ctx) - to_pay, other = oth\<rparr>\<rparr>) = (Inr r, ctx')"
      using run vp by (auto simp: send_internal_def Let_def not_less split: if_splits sum.splits)
    then show ?thesis
    proof cases
      case sent
      have "out_worth X msg = tokens v + (fee - ?c)" using sent_worth(1)[OF sent(2)] src ihr by simp
      then show ?thesis
        using sent(1) pay first_part_le[of prices fee] by (intro keeps_sent[OF inv sent(3)]) (simp_all add: ctx_wealth_def)
    qed (use keep in blast)+
  qed
qed simp

lemma keeps_send_external:
  assumes skip: "\<And>rc. ctx_keeps X (skip rc)" and src: "re_src re = Some src"
  shows "ctx_keeps X (send_external X es mode rewrite fee stats skip re si body)"
proof (rule upholdsI)
  fix i ctx r ctx'
  assume inv: "ctx_inv X i ctx" and run: "send_external X es mode rewrite fee stats skip re si body ctx = (Inr r, ctx')"
  note keep = upholds_InrD[OF skip inv] upholds_InrD[OF keeps_rewrite_or_skip[of skip, OF skip] inv]
  consider (skip) rc where "skip rc ctx = (Inr r, ctx')" | (again) "rewrite_or_skip rewrite skip ctx = (Inr r, ctx')"
    | (sent) msg where "fee \<le> tokens (remaining_balance ctx)" "build_relaxed_message X (RelExtOut re) si body = Inr msg"
      "finish_send X es mode stats msg fee fee (ctx\<lparr>remaining_balance := (remaining_balance ctx)\<lparr>tokens :=
         tokens (remaining_balance ctx) - fee\<rparr>\<rparr>) = (Inr r, ctx')"
    using run by (auto simp: send_external_def not_less split: if_splits sum.splits)
  then show "ctx_inv X i ctx'"
  proof cases
    case sent
    then show ?thesis using sent_worth(2)[OF sent(2) src] by (intro keeps_sent[OF inv sent(3)]) (simp_all add: ctx_wealth_def)
  qed (use keep in blast)+
qed simp

lemma keeps_send_checked:
  assumes "\<And>ri. info = RelInt ri \<Longrightarrow> (\<exists>src. ri_src ri = Some src) \<and> ri_ihr_fee ri = 0"
    and "\<And>re. info = RelExtOut re \<Longrightarrow> \<exists>src. re_src re = Some src"
  shows "ctx_keeps X (send_checked A L X es mode rewrite si body info mc)"
proof -
  have "ctx_keeps X (case info of
      RelInt i \<Rightarrow> send_internal X es mode rewrite p fee s (\<lambda>rc. thn (collect_fine X a b c) (check_skip_invalid mode rc)) i si body
    | RelExtOut i \<Rightarrow> send_external X es mode rewrite fee s (\<lambda>rc. thn (collect_fine X a b c) (check_skip_invalid mode rc)) i si body)"
    for p fee s a b c
    using assms by (cases info) (auto intro!: keeps_send_internal keeps_send_external ctx_rules)
  then show ?thesis
    unfolding send_checked_def
    by (auto simp: Let_def intro!: ctx_rules split: prod.splits bool.splits)
qed

lemma keeps_check_info_int:
  assumes "\<And>ri mc. (\<exists>src. ri_src ri = Some src) \<and> ri_ihr_fee ri = 0 \<Longrightarrow> ctx_keeps X (k (RelInt ri) mc)"
  shows "ctx_keeps X (check_info_int X es mode ri k)"
proof (cases "check_rewrite_src_addr (address es) (ri_src ri)")
  case None
  then show ?thesis by (simp add: check_info_int_def keeps_fail_with)
next
  case (Some src)
  moreover obtain a where "src = Some a"
    using src_addr_own[OF Some] by blast
  ultimately show ?thesis
    unfolding check_info_int_def
    by (auto intro!: ctx_rules assms split: option.splits sum.splits balance_extra_error.splits)
qed

lemma keeps_check_info_ext:
  assumes "\<And>re mc. \<exists>src. re_src re = Some src \<Longrightarrow> ctx_keeps X (k (RelExtOut re) mc)"
  shows "ctx_keeps X (check_info_ext es mode re k)"
proof (cases "check_rewrite_src_addr (address es) (re_src re)")
  case None
  then show ?thesis by (auto simp: check_info_ext_def intro!: ctx_rules keeps_fail_with)
next
  case (Some src)
  moreover obtain a where "src = Some a"
    using src_addr_own[OF Some] by blast
  ultimately show ?thesis
    unfolding check_info_ext_def by (auto intro!: ctx_rules assms)
qed

lemma keeps_send_message: "ctx_keeps X (do_send_message A L X es mode msg rewrite)"
  unfolding do_send_message_def unpack_out_msg_def apply_rewrite_def load_state_init_as_slice_def load_body_as_slice_def
    rewrite_state_init_to_cell_def rewrite_body_to_cell_def
  by (intro ctx_rules)
    (auto intro!: ctx_rules keeps_check_info_int keeps_check_info_ext keeps_send_checked split: relaxed_msg_info.splits option.splits)

lemma keeps_send_attempts: "ctx_keeps X (send_attempts A L X es mode msg n rewrite)"
  by (induction n arbitrary: rewrite) (auto intro!: ctx_rules keeps_send_message split: send_msg_result.splits)

lemma keeps_push_lib_diff [ctx_rules]: "ctx_keeps X (push_lib_diff es ch)"
  unfolding push_lib_diff_def
  by (intro ctx_rules acts.upholds_modify) (auto elim!: ctx_inv_state simp: ctx_wealth_def)

lemma keeps_add_library: "ctx_keeps X (add_library A L X es public was root')"
  unfolding add_library_def set_libraries_def
  by (auto intro!: ctx_rules split: sum.splits)

lemma keeps_change_library: "ctx_keeps X (do_change_library A L X es mode lib)"
  unfolding do_change_library_def set_libraries_def
  by (auto intro!: ctx_rules keeps_add_library simp: Let_def split: sum.splits option.splits lib_ref.splits)

lemma keeps_reserve: "ctx_keeps X (do_reserve_currency X es mode r)"
  unfolding do_reserve_currency_def reserve_target_def
  by (auto intro!: ctx_rules split: option.splits)

lemma keeps_set_code: "ctx_keeps X (do_set_code c)"
  unfolding do_set_code_def by (intro ctx_rules)

lemma keeps_do_action [ctx_rules]: "ctx_keeps X (do_action A L X es act)"
  unfolding do_action_def
  by (cases act) (simp_all add: keeps_send_attempts keeps_set_code keeps_reserve keeps_change_library)

lemma keeps_run_actions: "ctx_keeps X (run_actions A L X es idx acts)"
  by (induction acts arbitrary: idx rule: list.induct)
    (auto simp: run_actions_Cons intro!: ctx_rules split: option.splits)

end

section \<open>The account after the phase\<close>

lemma action_start_inv:
  "ctx_inv X (tokens (balance es) + opt0 (total_action_fees ap), end_lt es) (action_start es inspect received orig st gas_fees ap)"
  if "end_lt es < 2 ^ 64"
  using that by (simp add: ctx_inv_def ctx_wealth_def action_start_def cc_zero_def)

lemma apply_fine_Inr:
  assumes "apply_fine_on_error X ctx es = (Inr ctx', es')"
  obtains fine where "es' = es\<lparr>balance := (balance es)\<lparr>tokens := tokens (balance es) - fine\<rparr>, total_fees := total_fees es + fine\<rparr>"
    "fine \<le> tokens (balance es)" "action_fine ctx' = fine" "ctx_message ctx' = ctx_message ctx"
    "total_action_fees (ctx_phase ctx') = (if fine = 0 then None else Some fine)"
  using assms
  by (auto simp: apply_fine_on_error_def ex_run Let_def cc_sub_tokens_def tk_sub_def split: if_splits option.splits)

lemma state_limits_Inr:
  assumes "state_limits A L X st es = (Inr r, es')"
  obtains cache where "es' = es\<lparr>cached_storage_stat := cache\<rparr>"
  using assms that[of "cached_storage_stat es"]
  by (auto simp: state_limits_def ex_run Let_def split: if_splits prod.splits account_state.splits)

text \<open>
  Whatever the actions do, the phase keeps what the account holds: every token is in the balance, in
  the fees or in a message, and there is a logical time for each message.
\<close>

lemma actions_failed_Inr:
  assumes "actions_failed X ctx es = (Inr r, es')"
  obtains fine where "es' = es\<lparr>balance := (balance es)\<lparr>tokens := tokens (balance es) - fine\<rparr>, total_fees := total_fees es + fine\<rparr>"
    "fine \<le> tokens (balance es)"
  using assms by (auto simp: actions_failed_def ex_run Let_def elim!: apply_fine_Inr)

lemma done_fees_Inr:
  "done_fees X ctx es = (Inr fees, es') \<Longrightarrow> es' = es \<and> opt0 fees = opt0 (total_action_fees (ctx_phase ctx)) + action_fine ctx"
  by (auto simp: done_fees_def ex_run tk_add_def opt0_def split: if_splits)

lemma actions_done_Inr:
  assumes "actions_done X inspect ctx es = (Inr r, es')"
  shows "tokens (balance es') = tokens (remaining_balance ctx) + tokens (reserved_balance ctx)"
    "total_fees es' = total_fees es + opt0 (total_action_fees (ctx_phase ctx)) + action_fine ctx"
    "out_msgs es' = ctx_out_msgs ctx" "end_lt es' = ctx_end_lt ctx" "burned es' = burned es" "start_lt es' = start_lt es"
proof -
  obtain fees es0 remaining where fees: "done_fees X ctx es = (Inr fees, es0)"
    and add: "cc_add X (remaining_balance ctx) (reserved_balance ctx) = Inr remaining"
    and rest: "thn (modify (delete_status ctx remaining)) (thn (case fees of None \<Rightarrow> ret () | Some f \<Rightarrow> add_fees X f)
      (modify (\<lambda>es. es\<lparr>balance := remaining, out_msgs := ctx_out_msgs ctx, end_lt := ctx_end_lt ctx,
            acc_now := AccActive (new_state ctx)\<rparr>))) es0 = (Inr (), es')"
    using assms unfolding actions_done_def Let_def bnd_eq_Inr_iff thn_eq_Inr_iff by auto
  have del: "total_fees (delete_status ctx remaining es) = total_fees es" "burned (delete_status ctx remaining es) = burned es"
    "start_lt (delete_status ctx remaining es) = start_lt es"
    by (simp_all add: delete_status_def)
  let ?es = "\<lambda>f. (delete_status ctx remaining es)\<lparr>total_fees := total_fees es + f, balance := remaining,
      out_msgs := ctx_out_msgs ctx, end_lt := ctx_end_lt ctx, acc_now := AccActive (new_state ctx)\<rparr>"
  have "es0 = es" using done_fees_Inr[OF fees] by simp
  then have es': "es' = ?es (opt0 fees)"
    using rest del(1) by (cases fees) (auto intro!: exec_state.equality simp: thn_eq_Inr_iff opt0_def)
  show "tokens (balance es') = tokens (remaining_balance ctx) + tokens (reserved_balance ctx)"
    using cc_add_tokens_eq[OF add] by (simp add: es')
  show "total_fees es' = total_fees es + opt0 (total_action_fees (ctx_phase ctx)) + action_fine ctx"
    using done_fees_Inr[OF fees] by (simp add: es')
  show "out_msgs es' = ctx_out_msgs ctx" "end_lt es' = ctx_end_lt ctx" "burned es' = burned es" "start_lt es' = start_lt es"
    by (simp_all add: es' del)
qed

context message_codec
begin

lemma run_action_list_wealth:
  assumes "run_action_list A L X inspect (action_start es inspect received orig st gas_fees ap) acts es = (Inr r, es')"
    and "total_action_fees ap = None" and "lt_ok es" and "out_msgs es = []"
  shows "wealth X es' = wealth X es \<and> lt_ok es' \<and> burned es' = burned es \<and> start_lt es' = start_lt es"
proof -
  let ?start = "action_start es inspect received orig st gas_fees ap"
  have lt: "end_lt es = (start_lt es + 1) mod 2 ^ 64" using assms(3,4) by (simp add: lt_ok_def)
  then have inv: "ctx_inv X (tokens (balance es), end_lt es) ?start"
    using action_start_inv[of es X ap inspect received orig st gas_fees] assms(2) by (simp add: opt0_def)
  obtain res ctx where run: "run_actions A L X es 0 acts ?start = (res, ctx)" by fastforce
  show ?thesis
  proof (cases res)
    case (Inl e)
    with assms(1) run have "actions_failed X ctx es = (Inr r, es')"
      by (cases e) (simp_all add: run_action_list_def)
    with assms(3) show ?thesis by (elim actions_failed_Inr) (simp add: wealth_def lt_ok_def)
  next
    case (Inr u)
    then have inv': "ctx_inv X (tokens (balance es), end_lt es) ctx"
      using upholds_InrD[OF keeps_run_actions inv] run by blast
    obtain check es1 where limits: "state_limits A L X (new_state ctx) es = (Inr check, es1)"
      and cont: "(if check = Exceeds then bnd (apply_fine_on_error X ctx) (\<lambda>ctx'.
           ret (action_result (ctx'\<lparr>ctx_phase := (ctx_phase ctx')\<lparr>result_code := RcStateOutOfLimits\<rparr>\<rparr>) True
                 (need_bounce_on_fail ctx') None))
         else actions_done X inspect ctx) es1 = (Inr r, es')"
      using assms(1) run Inr by (auto simp: run_action_list_def bnd_eq_Inr_iff)
    from limits obtain cache where es1: "es1 = es\<lparr>cached_storage_stat := cache\<rparr>" by (rule state_limits_Inr)
    show ?thesis
    proof (cases "check = Exceeds")
      case True
      with cont es1 assms(3) show ?thesis
        by (auto simp: bnd_eq_Inr_iff wealth_def lt_ok_def elim!: apply_fine_Inr)
    next
      case False
      then have "actions_done X inspect ctx es1 = (Inr r, es')" using cont by simp
      note d = actions_done_Inr[OF this]
      from inv' d es1 lt assms(4) show ?thesis
        by (simp add: ctx_inv_def ctx_wealth_def wealth_def lt_ok_def mod_simps)
    qed
  qed
qed

lemma action_phase_wealth:
  assumes "action_phase A L X inspect received orig st actions gas_fees es = (Inr r, es')"
    and "lt_ok es" and "out_msgs es = []"
  shows "wealth X es' = wealth X es \<and> lt_ok es' \<and> burned es' = burned es \<and> start_lt es' = start_lt es"
proof (cases "unpack_actions A L 0 actions []")
  case (Inl e)
  with assms show ?thesis by (cases e) (auto simp: action_phase_def)
next
  case (Inr u)
  obtain n items where u: "u = (n, items)" by fastforce
  with assms(1) Inr obtain skipped parsed where p: "parse_actions A L X 0 0 (rev items) [] = Inr (skipped, parsed)"
    by (auto simp: action_phase_def Let_def bnd_eq_Inr_iff)
  show ?thesis
  proof (cases parsed)
    case (Inl e)
    with assms Inr u p show ?thesis by (cases e) (auto simp: action_phase_def Let_def)
  next
    case (Inr acts)
    with assms(1) \<open>unpack_actions A L 0 actions [] = Inr u\<close> u p have
      "\<exists>ap. total_action_fees ap = None \<and>
         run_action_list A L X inspect (action_start es inspect received orig st gas_fees ap) acts es = (Inr r, es')"
      by (intro exI[of _ "(action_phase_start (cell_repr_hash A actions))\<lparr>total_actions := n, skipped_actions := skipped,
            ap_valid := True\<rparr>"]) (simp add: action_phase_def Let_def action_phase_start_def)
    with run_action_list_wealth assms(2,3) show ?thesis by blast
  qed
qed

end

end
