(* ===== verification/SmcInfo.thy ===== *)
theory SmcInfo
  imports ExecTypes
begin

text \<open>
  \<open>vm/src/smc_info.rs\<close>: what a contract is told about its account, transaction and message, as the
  tuple in \<open>c7\<close>. Each version of the context extends the one before it, and \<open>write_items_*\<close> appends its
  items to those of its base.
\<close>

section \<open>The contexts\<close>

record 'c smc_info_base =
  smc_now :: nat
  smc_block_lt :: nat
  smc_tx_lt :: nat
  smc_rand_seed :: hash
  smc_account_balance :: "'c currency"
  smc_addr :: int_addr
  smc_config :: "'c option"

record ('c, 's, 'b) smc_info_v4 =
  v4_base :: "'c smc_info_base"
  v4_code :: "'c option"
  v4_message_balance :: "'c currency"
  v4_storage_fees :: nat
  v4_prev_blocks_info :: "('c, 's, 'b) sval list option"

record ('c, 's, 'b) smc_info_v6 =
  v6_base :: "('c, 's, 'b) smc_info_v4"
  v6_unpacked_config :: "('c, 's, 'b) sval list option"
  v6_due_payment :: nat

record ('c, 's, 'b) smc_info_v11 =
  v11_base :: "('c, 's, 'b) smc_info_v6"
  v11_in_msg :: "('c, 's, 'b) sval list option"

text \<open>The builders \<open>require_ton_*\<close> with nothing set yet.\<close>

definition require_ton_v4 :: "'c smc_info_base \<Rightarrow> ('c, 's, 'b) smc_info_v4" where
  "require_ton_v4 base = \<lparr>v4_base = base, v4_code = None, v4_message_balance = cc_zero, v4_storage_fees = 0,
     v4_prev_blocks_info = None\<rparr>"

definition require_ton_v6 :: "('c, 's, 'b) smc_info_v4 \<Rightarrow> ('c, 's, 'b) smc_info_v6" where
  "require_ton_v6 base = \<lparr>v6_base = base, v6_unpacked_config = None, v6_due_payment = 0\<rparr>"

definition require_ton_v11 :: "('c, 's, 'b) smc_info_v6 \<Rightarrow> ('c, 's, 'b) smc_info_v11" where
  "require_ton_v11 base = \<lparr>v11_base = base, v11_in_msg = None\<rparr>"

definition mixed_rand_seed :: "('c, 's, 'b) exec_lib \<Rightarrow> hash \<Rightarrow> hash \<Rightarrow> hash" where
  "mixed_rand_seed X block_seed account = (if block_seed = 0 then 0 else sha256_pair X block_seed account)"

section \<open>The items\<close>

definition cell_or_null :: "'c option \<Rightarrow> ('c, 's, 'b) sval" where
  "cell_or_null c = (case c of None \<Rightarrow> VNull | Some c \<Rightarrow> VCell c)"

definition tuple_or_null :: "('c, 's, 'b) sval list option \<Rightarrow> ('c, 's, 'b) sval" where
  "tuple_or_null t = (case t of None \<Rightarrow> VNull | Some t \<Rightarrow> VTuple t)"

definition balance_as_tuple :: "'c currency \<Rightarrow> ('c, 's, 'b) sval list" where
  "balance_as_tuple b = [VInt (int (tokens b)), cell_or_null (other b)]"

definition SMC_MAGIC :: int where "SMC_MAGIC = 0x076ef1ea"

definition write_items_base ::
    "('c, 's) api \<Rightarrow> ('c, 's, 'b) exec_lib \<Rightarrow> 'c smc_info_base \<Rightarrow> ('c, 's, 'b) sval list \<Rightarrow> ('c, 's, 'b) sval list" where
  "write_items_base A X b items = items @
     [VInt SMC_MAGIC, VInt 0, VInt 0, VInt (int (smc_now b)), VInt (int (smc_block_lt b)), VInt (int (smc_tx_lt b)),
      VInt (uint (smc_rand_seed b)), VTuple (balance_as_tuple (smc_account_balance b)),
      VSlice (slice_of_cell A (addr_cell X (smc_addr b))), cell_or_null (smc_config b)]"

definition write_items_v4 ::
    "('c, 's) api \<Rightarrow> ('c, 's, 'b) exec_lib \<Rightarrow> ('c, 's, 'b) smc_info_v4 \<Rightarrow> ('c, 's, 'b) sval list \<Rightarrow> ('c, 's, 'b) sval list" where
  "write_items_v4 A X i items = write_items_base A X (v4_base i) items @
     [cell_or_null (v4_code i), VTuple (balance_as_tuple (v4_message_balance i)), VInt (int (v4_storage_fees i)),
      tuple_or_null (v4_prev_blocks_info i)]"

definition write_items_v6 ::
    "('c, 's) api \<Rightarrow> ('c, 's, 'b) exec_lib \<Rightarrow> ('c, 's, 'b) smc_info_v6 \<Rightarrow> ('c, 's, 'b) sval list \<Rightarrow> ('c, 's, 'b) sval list" where
  "write_items_v6 A X i items = write_items_v4 A X (v6_base i) items @
     [tuple_or_null (v6_unpacked_config i), VInt (int (v6_due_payment i)), VNull]"

definition empty_msg_tuple :: "('c, 's) api \<Rightarrow> ('c, 's, 'b) exec_lib \<Rightarrow> ('c, 's, 'b) sval list" where
  "empty_msg_tuple A X =
     [VInt 0, VInt 0, VSlice (slice_of_cell A (addr_none_cell X)), VInt 0, VInt 0, VInt 0, VInt 0, VInt 0, VNull, VNull]"

definition write_items_v11 ::
    "('c, 's) api \<Rightarrow> ('c, 's, 'b) exec_lib \<Rightarrow> ('c, 's, 'b) smc_info_v11 \<Rightarrow> ('c, 's, 'b) sval list \<Rightarrow> ('c, 's, 'b) sval list" where
  "write_items_v11 A X i items = write_items_v6 A X (v11_base i) items @
     [VTuple (case v11_in_msg i of Some msg \<Rightarrow> msg | None \<Rightarrow> empty_msg_tuple A X)]"

text \<open>\<open>build_c7\<close> of each version: one tuple in a tuple.\<close>

definition build_c7 :: "('c, 's, 'b) sval list \<Rightarrow> ('c, 's, 'b) sval list" where
  "build_c7 items = [VTuple items]"

section \<open>The unpacked configuration and message\<close>

definition slice_or_null :: "'s option \<Rightarrow> ('c, 's, 'b) sval" where
  "slice_or_null cs = (case cs of None \<Rightarrow> VNull | Some cs \<Rightarrow> VSlice cs)"

definition unpacked_config_tuple :: "('c, 's) api \<Rightarrow> ('c, 's) unpacked_config \<Rightarrow> ('c, 's, 'b) sval list" where
  "unpacked_config_tuple A u =
     (let param = (\<lambda>c. slice_or_null (map_option (slice_of_cell A) c)) in
      [slice_or_null (latest_storage_prices u), param (raw_global_id u), param (raw_mc_gas_prices u),
       param (raw_gas_prices u), param (raw_mc_fwd_prices u), param (raw_fwd_prices u), param (raw_size_limits u)])"

text \<open>\<open>find_storage_prices\<close>: the latest entry begun by now, over the dictionary's values from the last one.\<close>

fun find_storage_prices ::
    "('c, 's, 'b) cell_lib \<Rightarrow> nat \<Rightarrow> (cell_error + 's) list \<Rightarrow> cell_error + 's option" where
  "find_storage_prices L time [] = Inr None"
| "find_storage_prices L time (Inl e # vs) = Inl e"
| "find_storage_prices L time (Inr v # vs) = (case sl_load_u32 L v of
      Inl e \<Rightarrow> Inl e
    | Inr (utime, _) \<Rightarrow> if time < utime then find_storage_prices L time vs else Inr (Some v))"

record ('c, 's) unpacked_in_msg =
  um_bounce :: bool
  um_bounced :: bool
  um_src_addr :: 's
  um_fwd_fee :: nat
  um_created_lt :: nat
  um_created_at :: nat
  um_original_value :: nat
  um_remaining_value :: "'c currency"
  um_state_init :: "'c option"

definition make_bool :: "bool \<Rightarrow> ('c, 's, 'b) sval" where
  "make_bool b = VInt (if b then -1 else 0)"

definition unpacked_in_msg_tuple :: "('c, 's) unpacked_in_msg \<Rightarrow> ('c, 's, 'b) sval list" where
  "unpacked_in_msg_tuple m =
     [make_bool (um_bounce m), make_bool (um_bounced m), VSlice (um_src_addr m), VInt (int (um_fwd_fee m)),
      VInt (int (um_created_lt m)), VInt (int (um_created_at m)), VInt (int (um_original_value m)),
      VInt (int (tokens (um_remaining_value m))), cell_or_null (other (um_remaining_value m)),
      cell_or_null (um_state_init m)]"

text \<open>\<open>src_addr_slice_range\<close>: the source address behind the three flags, as a slice.\<close>

definition src_addr_slice ::
    "('c, 's) api \<Rightarrow> ('c, 's, 'b) cell_lib \<Rightarrow> ('c, 's, 'b) exec_lib \<Rightarrow> 's \<Rightarrow> cell_error + 's" where
  "src_addr_slice A L X cs = (case slice_skip_first A cs 3 0 of
      Inl e \<Rightarrow> Inl e
    | Inr addr_cs \<Rightarrow> (case load_int_addr X addr_cs of
        Inl e \<Rightarrow> Inl e
      | Inr (_, rest) \<Rightarrow> sl_skip_last L addr_cs (slice_size_bits A rest) (slice_size_refs A rest)))"

text \<open>The state init of the message as a cell.\<close>

definition in_msg_state_init ::
    "('c, 's) api \<Rightarrow> ('c, 's, 'b) cell_lib \<Rightarrow> ('c, 's, 'b) exec_lib \<Rightarrow> 's \<Rightarrow> cell_error + 'c option" where
  "in_msg_state_init A L X cs = (case load_bit X cs of
      Inl e \<Rightarrow> Inl e
    | Inr (False, _) \<Rightarrow> Inr None
    | Inr (True, cs1) \<Rightarrow> (case load_bit X cs1 of
        Inl e \<Rightarrow> Inl e
      | Inr (True, cs2) \<Rightarrow> map_sum id (\<lambda>(c, _). Some c) (sl_load_reference L cs2)
      | Inr (False, cs2) \<Rightarrow> (case load_state_init X cs2 of
          Inl e \<Rightarrow> Inl e
        | Inr (_, rest) \<Rightarrow> (case sl_skip_last L cs2 (slice_size_bits A rest) (slice_size_refs A rest) of
            Inl e \<Rightarrow> Inl e
          | Inr init_cs \<Rightarrow> map_sum id Some (build_from_slice X init_cs)))))"

definition unpack_in_msg_partial ::
    "('c, 's) api \<Rightarrow> ('c, 's, 'b) cell_lib \<Rightarrow> ('c, 's, 'b) exec_lib \<Rightarrow> 'c \<Rightarrow> 'c currency option \<Rightarrow>
     cell_error + ('c, 's) unpacked_in_msg option" where
  "unpack_in_msg_partial A L X msg_root remaining = (case cell_as_slice X msg_root of
      Inl e \<Rightarrow> Inl e
    | Inr cs \<Rightarrow> (case load_msg_type_is_int X cs of
        Inl e \<Rightarrow> Inl e
      | Inr (False, _) \<Rightarrow> Inr None
      | Inr (True, cs1) \<Rightarrow> (case src_addr_slice A L X cs1 of
          Inl e \<Rightarrow> Inl e
        | Inr src \<Rightarrow> (case load_int_msg_info X cs1 of
            Inl e \<Rightarrow> Inl e
          | Inr (info, cs2) \<Rightarrow> (case in_msg_state_init A L X cs2 of
              Inl e \<Rightarrow> Inl e
            | Inr init \<Rightarrow> Inr (Some \<lparr>um_bounce = bounce info, um_bounced = bounced info, um_src_addr = src,
                um_fwd_fee = fwd_fee info, um_created_lt = created_lt info, um_created_at = created_at info,
                um_original_value = tokens (msg_value info),
                um_remaining_value = (case remaining of Some v \<Rightarrow> v | None \<Rightarrow> msg_value info),
                um_state_init = init\<rparr>))))))"

section \<open>Positions of the items\<close>

lemma write_items_length:
  "length (write_items_base A X b items) = length items + 10"
  "length (write_items_v4 A X i4 items) = length items + 14"
  "length (write_items_v6 A X i6 items) = length items + 17"
  "length (write_items_v11 A X i items) = length items + 18"
  by (simp_all add: write_items_base_def write_items_v4_def write_items_v6_def write_items_v11_def)

lemmas write_items = write_items_base_def write_items_v4_def write_items_v6_def write_items_v11_def

lemma c7_items:
  "write_items_v11 A X i [] ! 0 = VInt SMC_MAGIC"
  "write_items_v11 A X i [] ! 7 = VTuple (balance_as_tuple (smc_account_balance (v4_base (v6_base (v11_base i)))))"
  "write_items_v11 A X i [] ! 10 = cell_or_null (v4_code (v6_base (v11_base i)))"
  "write_items_v11 A X i [] ! 11 = VTuple (balance_as_tuple (v4_message_balance (v6_base (v11_base i))))"
  "write_items_v11 A X i [] ! 12 = VInt (int (v4_storage_fees (v6_base (v11_base i))))"
  "write_items_v11 A X i [] ! 14 = tuple_or_null (v6_unpacked_config (v11_base i))"
  "write_items_v11 A X i [] ! 15 = VInt (int (v6_due_payment (v11_base i)))"
  by (simp_all add: write_items)

end
