(* ===== verification/Compute.thy ===== *)
theory Compute
  imports Phases SmcInfo Codepage
begin

text \<open>
  The compute phase (\<open>executor/src/phase/compute.rs\<close>): the state of the account, or the one the message
  brings, is run in the virtual machine with the gas its balance buys, and what the run leaves
  behind becomes the new state and the list of actions. The instructions are an argument \<open>D\<close>, the
  dispatcher of the code page.
\<close>

section \<open>Input and output\<close>

datatype ('c, 's) transaction_input = TxOrdinary "('c, 's) received_message" | TxTickTock (tx_is_tock: bool)

definition in_msg :: "('c, 's) transaction_input \<Rightarrow> ('c, 's) received_message option" where
  "in_msg input = (case input of TxOrdinary msg \<Rightarrow> Some msg | TxTickTock _ \<Rightarrow> None)"

definition in_msg_init :: "('c, 's) transaction_input \<Rightarrow> 'c msg_state_init option" where
  "in_msg_init input = (case input of TxOrdinary msg \<Rightarrow> rm_init msg | TxTickTock _ \<Rightarrow> None)"

definition is_ordinary :: "('c, 's) transaction_input \<Rightarrow> bool" where
  "is_ordinary input = (case input of TxOrdinary _ \<Rightarrow> True | TxTickTock _ \<Rightarrow> False)"

datatype skip_reason = NoState | BadState | NoGas

record executed_compute_phase =
  cp_success :: bool
  cp_msg_state_used :: bool
  cp_account_activated :: bool
  cp_gas_fees :: nat
  cp_gas_used :: nat
  cp_gas_limit :: nat
  cp_gas_credit :: "nat option"
  cp_exit_code :: int
  cp_exit_arg :: "int option"
  cp_vm_steps :: nat

datatype compute_phase_info = ComputeSkipped skip_reason | ComputeExecuted executed_compute_phase

record 'c compute_phase_full =
  compute_phase_of :: compute_phase_info
  accepted :: bool
  cpf_original_balance :: "'c currency"
  cpf_new_state :: "'c state_init"
  cpf_actions :: 'c

section \<open>The state to run\<close>

text \<open>
  The state the message brings for an account that is not active: its hash is the account's address,
  or the hash the account was frozen with.
\<close>

definition unfreeze_hash :: "('c, 's) exec_state \<Rightarrow> hash" where
  "unfreeze_hash es = (case acc_now es of AccFrozen h \<Rightarrow> h | _ \<Rightarrow> sa_address (address es))"

definition deploy_limits :: "('c, 's) exec_state \<Rightarrow> size_limits" where
  "deploy_limits es =
     (if is_masterchain (address es) \<and> acc_now es = AccUninit
      then (config_size_limits (config es))\<lparr>max_acc_public_libraries := 0\<rparr> else config_size_limits (config es))"

text \<open>
  \<open>None\<close> libraries stand for no dictionary at all. A skip reason, or the libraries of the state and of
  the message, whether the message's state is used, and the state to run.
\<close>

type_synonym 'c run_state = "'c option option \<times> 'c option option \<times> bool \<times> 'c state_init"

definition use_msg_state ::
    "('c, 's) api \<Rightarrow> ('c, 's, 'b) cell_lib \<Rightarrow> ('c, 's, 'b) exec_lib \<Rightarrow> 'c msg_state_init \<Rightarrow> 'c state_init \<Rightarrow>
     ('c, 's, skip_reason + 'c run_state) ex" where
  "use_msg_state A L X from_msg st =
     bnd (gets id) (\<lambda>es.
     if cell_repr_hash A (msi_root from_msg) \<noteq> unfreeze_hash es \<or> si_split_depth (msi_parsed from_msg) \<noteq> None
     then ret (Inl BadState)
     else case check_state_limits_diff A L X st (msi_parsed from_msg) (deploy_limits es)
            (is_masterchain (address es)) (cached_storage_stat es) of
       (check, cache) \<Rightarrow>
         thn (modify (\<lambda>es. es\<lparr>cached_storage_stat := cache\<rparr>))
        (if check = Exceeds then ret (Inl BadState)
         else thn (modify (\<lambda>es. es\<lparr>acc_now := AccActive (msi_parsed from_msg)\<rparr>))
             (ret (Inr (None, Some (si_libraries (msi_parsed from_msg)), True, msi_parsed from_msg)))))"

definition select_state ::
    "('c, 's) api \<Rightarrow> ('c, 's, 'b) cell_lib \<Rightarrow> ('c, 's, 'b) exec_lib \<Rightarrow> 'c msg_state_init option \<Rightarrow> bool \<Rightarrow> 'c state_init \<Rightarrow>
     ('c, 's, skip_reason + 'c run_state) ex" where
  "select_state A L X init external st =
     bnd (gets id) (\<lambda>es. case (init, acc_now es) of
       (None, AccUninit) \<Rightarrow> ret (Inl NoState)
     | (None, AccFrozen _) \<Rightarrow> ret (Inl BadState)
     | (None, AccActive cur) \<Rightarrow> ret (Inr (Some (si_libraries cur), None, False, st))
     | (Some from_msg, AccActive cur) \<Rightarrow>
         if external \<and> cell_repr_hash A (msi_root from_msg) \<noteq> sa_address (address es) then ret (Inl BadState)
         else ret (Inr (Some (si_libraries cur), Some (si_libraries (msi_parsed from_msg)), False, st))
     | (Some from_msg, _) \<Rightarrow> use_msg_state A L X from_msg st)"

section \<open>The virtual machine\<close>

text \<open>\<open>Dict::find\<close> of a library dictionary, and \<open>into_code\<close> of an optional cell.\<close>

definition dict_libraries :: "('c, 's, 'b) exec_lib \<Rightarrow> 'c option \<Rightarrow> 'c library_provider" where
  "dict_libraries X libs h = map_sum id (map_option snd) (lib_get X libs h)"

definition into_code :: "('c, 's) api \<Rightarrow> ('c, 's, 'b) cell_lib \<Rightarrow> ('c, 's, 'b) exec_lib \<Rightarrow> 'c option \<Rightarrow> 's option" where
  "into_code A L X c = (case c of
      None \<Rightarrow> None
    | Some c \<Rightarrow>
        if cl_is_exotic L c
        then (if cl_is_library L c then Some (slice_of_cell A (rebuild_library X c)) else None)
        else Some (slice_of_cell A c))"

definition make_in_msg_tuple ::
    "('c, 's) api \<Rightarrow> ('c, 's, 'b) cell_lib \<Rightarrow> ('c, 's, 'b) exec_lib \<Rightarrow> ('c, 's) received_message \<Rightarrow>
     cell_error + ('c, 's, 'b) sval list option" where
  "make_in_msg_tuple A L X msg = (case cell_as_slice X (rm_root msg) of
      Inl e \<Rightarrow> Inl e
    | Inr cs \<Rightarrow> (case load_msg_type_is_int X cs of
        Inl e \<Rightarrow> Inl e
      | Inr (False, _) \<Rightarrow> Inr None
      | Inr (True, cs1) \<Rightarrow> (case src_addr_slice A L X cs1 of
          Inl e \<Rightarrow> Inl e
        | Inr src \<Rightarrow> (case load_int_msg_info X cs1 of
            Inl e \<Rightarrow> Inl e
          | Inr (info, _) \<Rightarrow> Inr (Some (unpacked_in_msg_tuple
              \<lparr>um_bounce = bounce info, um_bounced = bounced info, um_src_addr = src, um_fwd_fee = fwd_fee info,
               um_created_lt = created_lt info, um_created_at = created_at info,
               um_original_value = tokens (msg_value info), um_remaining_value = rm_balance_remaining msg,
               um_state_init = map_option msi_root (rm_init msg)\<rparr>))))))"

definition prepare_vm_stack :: "('c, 's) exec_state \<Rightarrow> ('c, 's) transaction_input \<Rightarrow> ('c, 's, 'b) stk" where
  "prepare_vm_stack es input = (case input of
      TxOrdinary msg \<Rightarrow>
        [VInt (int (tokens (balance es))), VInt (int (tokens (rm_balance_remaining msg))), VCell (rm_root msg),
         VSlice (rm_body msg), VInt (if rm_is_external msg then -1 else 0)]
    | TxTickTock tock \<Rightarrow>
        [VInt (int (tokens (balance es))), VInt (uint (sa_address (address es))), VInt (if tock then -1 else 0), VInt (-2)])"

definition smc_info_of ::
    "('c, 's) api \<Rightarrow> ('c, 's, 'b) exec_lib \<Rightarrow> ('c, 's) exec_state \<Rightarrow> 'c option \<Rightarrow> 'c currency \<Rightarrow> nat \<Rightarrow>
     ('c, 's, 'b) sval list option \<Rightarrow> ('c, 's, 'b) smc_info_v11" where
  "smc_info_of A X es c msg_balance storage_fee in_msg_tuple =
     (let base = \<lparr>smc_now = block_unixtime (params es), smc_block_lt = block_lt (params es), smc_tx_lt = start_lt es,
            smc_rand_seed = mixed_rand_seed X (rand_seed (params es)) (sa_address (address es)),
            smc_account_balance = balance es, smc_addr = AddrStd (address es), smc_config = config_root (config es)\<rparr>;
          v4 = (require_ton_v4 base)\<lparr>v4_code := Some (case c of Some c \<Rightarrow> c | None \<Rightarrow> cell_empty A),
            v4_message_balance := msg_balance, v4_storage_fees := storage_fee\<rparr>;
          v6 = (require_ton_v6 v4)\<lparr>v6_unpacked_config := Some (unpacked_config_tuple A (unpacked (config es)))\<rparr>
      in (require_ton_v11 v6)\<lparr>v11_in_msg := in_msg_tuple\<rparr>)"

definition vm_builder_of ::
    "('c, 's) api \<Rightarrow> ('c, 's, 'b) cell_lib \<Rightarrow> ('c, 's, 'b) exec_lib \<Rightarrow> ('c, 's) exec_state \<Rightarrow> ('c, 's) transaction_input \<Rightarrow>
     gas_params \<Rightarrow> 'c run_state \<Rightarrow> 'c currency \<Rightarrow> nat \<Rightarrow> ('c, 's, 'b) sval list option \<Rightarrow> ('c, 's, 'b) vm_builder" where
  "vm_builder_of A L X es input g run msg_balance storage_fee in_msg_tuple =
     (case run of (state_libs, msg_libs, _, st) \<Rightarrow>
      \<lparr>b_code = into_code A L X (si_code st),
       b_data = Some (case si_data st of Some d \<Rightarrow> d | None \<Rightarrow> cell_empty A),
       b_stack = prepare_vm_stack es input,
       b_libraries = Some (find_triple (find_option (map_option (dict_libraries X) msg_libs))
          (find_option (map_option (dict_libraries X) state_libs)) (params_libraries (params es))),
       b_c7 = Some (build_c7 (write_items_v11 A X (smc_info_of A X es (si_code st) msg_balance storage_fee in_msg_tuple) [])),
       b_gas = g, b_init_selector = UseCode False, b_version = Some (Ton 11), b_modifiers = vm_modifiers (params es)\<rparr>)"

text \<open>The fuel of a run: three more than the gas it may spend, which is enough for any code.\<close>

definition vm_fuel :: "gas_params \<Rightarrow> nat" where
  "vm_fuel g = Suc (Suc (nat (gas_budget g + 1)))"

section \<open>The phase\<close>

text \<open>The status of an account whose message's state was accepted, and the gas fees.\<close>

definition charge_gas :: "('c, 's, 'b) exec_lib \<Rightarrow> bool \<Rightarrow> nat \<Rightarrow> ('c, 's, unit) ex" where
  "charge_gas X activate fees =
     thn (if activate then modify (\<lambda>es. es\<lparr>end_status := StActive\<rparr>) else ret ())
    (bnd (gets balance) (\<lambda>b.
     bnd (ex_lift (cc_sub_tokens b fees)) (\<lambda>b'.
     thn (set_balance b') (add_fees X fees))))"

text \<open>What the finished run is worth: acceptance, gas, the new data and the actions.\<close>

definition finish_compute ::
    "('c, 's, 'b) exec_lib \<Rightarrow> bool \<Rightarrow> gas_params \<Rightarrow> bool \<Rightarrow> 'c compute_phase_full \<Rightarrow> int \<Rightarrow> ('c, 's, 'b) vm_state \<Rightarrow>
     ('c, 's, 'c compute_phase_full) ex" where
  "finish_compute X force_accept g msg_state_used res exit vm =
     (let acc = (force_accept \<or> gas_credit (gas vm) = 0);
          success = (acc \<and> committed_state vm \<noteq> None);
          used = nat (min (consumed (gas vm)) (gas_limit (gas vm)))
      in bnd (gets id) (\<lambda>es.
         let fees = (if acc \<and> \<not> is_special es
               then compute_gas_fee X (gas_prices (config es) (is_masterchain (address es))) used else 0);
             activated = (acc \<and> msg_state_used \<and> orig_status es \<noteq> StActive);
             res1 = (case committed_state vm of
                 Some com \<Rightarrow> if acc then res\<lparr>cpf_new_state := (cpf_new_state res)\<lparr>si_data := Some (com_c4 com)\<rparr>,
                    cpf_actions := com_c5 com\<rparr> else res
               | None \<Rightarrow> res)
         in thn (charge_gas X (acc \<and> msg_state_used) fees)
           (ret (res1\<lparr>accepted := acc, compute_phase_of := ComputeExecuted
              \<lparr>cp_success = success, cp_msg_state_used = msg_state_used, cp_account_activated = activated,
               cp_gas_fees = fees, cp_gas_used = new_varuint56_truncate used,
               cp_gas_limit = new_varuint56_truncate (nat (gp_limit g)),
               cp_gas_credit = (if gp_credit g = 0 then None else Some (new_varuint24_truncate (nat (gp_credit g)))),
               cp_exit_code = exit,
               cp_exit_arg = (if success then None else
                 (case get_exit_arg (stack vm) of Some x \<Rightarrow> if x = 0 then None else Some x | None \<Rightarrow> None)),
               cp_vm_steps = min (steps vm) (2 ^ 32 - 1)\<rparr>\<rparr>))))"

definition run_vm ::
    "('c, 's) api \<Rightarrow> ('c, 's, 'b) cell_lib \<Rightarrow> ('c, 's, 'b) exec_lib \<Rightarrow> ('c, 's, 'b, int) vm \<Rightarrow> ('c, 's) transaction_input \<Rightarrow>
     bool \<Rightarrow> gas_params \<Rightarrow> 'c currency \<Rightarrow> nat \<Rightarrow> 'c compute_phase_full \<Rightarrow> 'c run_state \<Rightarrow> ('c, 's, 'c compute_phase_full) ex" where
  "run_vm A L X D input force_accept g msg_balance storage_fee res run =
     bnd (ex_lift (case in_msg input of Some msg \<Rightarrow> make_in_msg_tuple A L X msg | None \<Rightarrow> Inr None)) (\<lambda>in_msg_tuple.
     bnd (gets (\<lambda>es. vm_run A D (vm_fuel g) (build A (vm_builder_of A L X es input g run msg_balance storage_fee in_msg_tuple))))
       (\<lambda>outcome. case outcome of
          Some (Some exit, vm) \<Rightarrow>
            finish_compute X force_accept g (fst (snd (snd run)))
              (res\<lparr>cpf_new_state := snd (snd (snd run))\<rparr>) (not_i32 exit) vm
        | _ \<Rightarrow> fail ExecPanic))"

definition compute_phase ::
    "('c, 's) api \<Rightarrow> ('c, 's, 'b) cell_lib \<Rightarrow> ('c, 's, 'b) exec_lib \<Rightarrow> ('c, 's, 'b, int) vm \<Rightarrow> ('c, 's) transaction_input \<Rightarrow>
     nat \<Rightarrow> bool \<Rightarrow> ('c, 's, 'c compute_phase_full) ex" where
  "compute_phase A L X D input storage_fee force_accept =
     bnd (gets id) (\<lambda>es.
     bnd (case in_msg input of Some msg \<Rightarrow> ex_lift (cc_sub X (balance es) (rm_balance_remaining msg)) | None \<Rightarrow> ret (balance es)) (\<lambda>orig.
     let st = (case acc_now es of AccActive cur \<Rightarrow> cur | _ \<Rightarrow> state_init_default);
         res = \<lparr>compute_phase_of = ComputeSkipped NoGas, accepted = False, cpf_original_balance = orig, cpf_new_state = st,
                cpf_actions = cell_empty A\<rparr>;
         (msg_balance, external) = (case in_msg input of
            Some msg \<Rightarrow> (rm_balance_remaining msg, rm_is_external msg) | None \<Rightarrow> (cc_zero, False));
         g = (if force_accept then gas_params_getter
              else compute_gas_params (config es) (tokens (balance es)) (tokens msg_balance) (is_special es)
                     (is_masterchain (address es)) (is_ordinary input) external)
     in if tokens (balance es) = 0 \<or> (gp_limit g = 0 \<and> gp_credit g = 0) then ret res
        else bnd (select_state A L X (in_msg_init input) external st) (\<lambda>sel. case sel of
          Inl reason \<Rightarrow> ret (res\<lparr>compute_phase_of := ComputeSkipped reason\<rparr>)
        | Inr run \<Rightarrow> run_vm A L X D input force_accept g msg_balance storage_fee res run)))"

section \<open>Where the tokens go\<close>

text \<open>A phase that only touches the fields below keeps the messages and the logical times.\<close>

definition quiet :: "('c, 's) exec_state \<Rightarrow> ('c, 's) exec_state \<Rightarrow> bool" where
  "quiet es es' \<longleftrightarrow> es' = es\<lparr>balance := balance es', total_fees := total_fees es', end_status := end_status es',
     acc_now := acc_now es', cached_storage_stat := cached_storage_stat es'\<rparr> \<and>
     tokens (balance es') + total_fees es' = tokens (balance es) + total_fees es"

lemma quiet_refl: "quiet es es"
  by (simp add: quiet_def)

lemma quiet_state:
  "quiet es (es\<lparr>acc_now := st\<rparr>)" "quiet es (es\<lparr>cached_storage_stat := cache\<rparr>)" "quiet es (es\<lparr>end_status := status\<rparr>)"
  by (simp_all add: quiet_def)

lemma quiet_trans:
  assumes "quiet es es1" and "quiet es1 es2"
  shows "quiet es es2"
  using assms by (cases es; cases es1; cases es2) (auto simp: quiet_def)

lemma quiet_wealth:
  assumes "quiet es es'"
  shows "wealth X es' = wealth X es" "out_msgs es' = out_msgs es" "lt_ok es' = lt_ok es" "burned es' = burned es"
    "start_lt es' = start_lt es"
  using assms by (cases es; cases es'; auto simp: quiet_def wealth_def lt_ok_def)+

interpretation quiets: action_invariant quiet "\<lambda>_ _ _. True" "\<lambda>_. True"
  by unfold_locales simp

abbreviation quietly :: "('c, 's, 'a) ex \<Rightarrow> bool" where
  "quietly \<equiv> upholds quiet (\<lambda>_ _ _. True)"

named_theorems quiet_rules \<open>actions that only move tokens and set the status\<close>

lemmas quiets.upholds_rules [quiet_rules] quiets.upholds_fail [OF TrueI, quiet_rules]

lemma quietlyI: "(\<And>es r es'. m es = (Inr r, es') \<Longrightarrow> quiet es es') \<Longrightarrow> quietly m"
  by (rule upholdsI) (auto intro: quiet_trans)

lemma quietlyD: "quietly m \<Longrightarrow> m es = (Inr r, es') \<Longrightarrow> quiet es es'"
  using upholds_InrD[of quiet "\<lambda>_ _ _. True" m es es r es'] quiet_refl by blast

lemma quiet_lift [quiet_rules]: "quietly (ex_lift r)" "quietly (ex_fail msg)"
  by (simp_all add: ex_lift_def ex_fail_def quiets.upholds_lift_res quiets.upholds_fail)

lemma quiet_modify [quiet_rules]:
  "quietly (modify (\<lambda>es. es\<lparr>acc_now := st\<rparr>))" "quietly (modify (\<lambda>es. es\<lparr>cached_storage_stat := cache\<rparr>))"
  "quietly (modify (\<lambda>es. es\<lparr>end_status := status\<rparr>))"
  by (rule quiets.upholds_modify; erule quiet_trans; rule quiet_state)+

lemma use_msg_state_quiet [quiet_rules]: "quietly (use_msg_state A L X from_msg st)"
  unfolding use_msg_state_def by (intro quiet_rules)

lemma select_state_quiet [quiet_rules]: "quietly (select_state A L X init external st)"
  unfolding select_state_def
  by (auto intro!: quiet_rules split: option.split account_state.split)

lemma charge_gas_quiet [quiet_rules]: "quietly (charge_gas X activate fees)"
proof (rule quietlyI)
  fix es r es'
  assume "charge_gas X activate fees es = (Inr r, es')"
  then show "quiet es es'"
    by (auto simp: charge_gas_def ex_run quiet_def cc_sub_tokens_def tk_sub_def split: if_split_asm option.split_asm)
qed

lemma finish_compute_quiet [quiet_rules]: "quietly (finish_compute X force_accept g msu res exit vm)"
  unfolding finish_compute_def Let_def by (intro quiet_rules)

lemma run_vm_quiet [quiet_rules]: "quietly (run_vm A L X D input force_accept g v fee res run)"
  unfolding run_vm_def by (intro quiet_rules)

lemma compute_phase_quiet: "quietly (compute_phase A L X D input fee force_accept)"
  unfolding compute_phase_def Let_def
  by (intro quiet_rules) (auto intro!: quiet_rules split: option.split sum.split)

section \<open>The machine always comes back\<close>

text \<open>
  With the gas a configuration grants and the instructions of code page 0, a run ends within its fuel:
  the phase fails only with an error of the cell library, never with a panic.
\<close>

abbreviation no_panic :: "('c, 's, 'a) ex \<Rightarrow> bool" where
  "no_panic \<equiv> upholds (\<lambda>_ :: unit. \<lambda>_. True) (\<lambda>_ e _. e \<noteq> ExecPanic)"

interpretation calm: action_invariant "\<lambda>_ :: unit. \<lambda>_ :: ('c, 's) exec_state. True" "\<lambda>_ e _. e \<noteq> ExecPanic" "\<lambda>e. e \<noteq> ExecPanic"
  by unfold_locales simp

named_theorems calm_rules \<open>actions of the executor that never panic\<close>

lemmas calm.upholds_rules [calm_rules]

lemma calm_phase_basic [calm_rules]:
  "no_panic (ex_lift r)" "no_panic (modify f)" "no_panic (set_balance b)"
  by (auto simp: ex_lift_def set_balance_def intro!: calm.upholds_lift_res calm.upholds_modify)

lemma calm_add_fees [calm_rules]: "no_panic (add_fees X fee)"
  unfolding add_fees_def by (intro calm_rules)

lemma calm_use_msg_state [calm_rules]: "no_panic (use_msg_state A L X from_msg st)"
  unfolding use_msg_state_def by (intro calm_rules)

lemma calm_select_state [calm_rules]: "no_panic (select_state A L X init external st)"
  unfolding select_state_def by (auto intro!: calm_rules split: option.split account_state.split)

lemma calm_finish_compute [calm_rules]: "no_panic (finish_compute X force_accept g msu res exit vm)"
  unfolding finish_compute_def charge_gas_def Let_def by (intro calm_rules)

lemma compute_gas_params_wf: "gas_params_wf (compute_gas_params cfg bal msg_bal special mc ord external)"
  by (simp add: compute_gas_params_def gas_params_wf_def Let_def)

lemma vm_run_fuel:
  assumes "reads_bits A" and "keys_fit L" and "codepage0 A L M = Inr table" and "gas_params_wf (b_gas b)"
  shows "\<exists>exit st. vm_run A (dispatch A table) (vm_fuel (b_gas b)) (build A b) = Some (Some exit, st)"
  unfolding vm_fuel_def by (rule cp0_run_returns[OF assms]) simp

lemma run_vm_calm:
  assumes "reads_bits A" and "keys_fit L" and "codepage0 A L M = Inr table" and g: "gas_params_wf g"
  shows "no_panic (run_vm A L' X (dispatch A table) input force_accept g v fee res run)"
  unfolding run_vm_def
proof (rule calm.upholds_bnd, rule calm_phase_basic)
  fix tuple
  let ?b = "\<lambda>es. vm_builder_of A L' X es input g run v fee tuple"
  have "b_gas (?b es) = g" for es by (simp add: vm_builder_of_def split: prod.split)
  then have run: "\<exists>exit st. vm_run A (dispatch A table) (vm_fuel g) (build A (?b es)) = Some (Some exit, st)" for es
    using vm_run_fuel[OF assms(1-3), of "?b es"] g by simp
  show "no_panic (bnd (gets (\<lambda>es. vm_run A (dispatch A table) (vm_fuel g) (build A (?b es))))
     (\<lambda>outcome. case outcome of
          Some (Some exit, vm) \<Rightarrow>
            finish_compute X force_accept g (fst (snd (snd run)))
              (res\<lparr>cpf_new_state := snd (snd (snd run))\<rparr>) (not_i32 exit) vm
        | _ \<Rightarrow> fail ExecPanic))"
  proof (rule upholdsI; simp?)
    fix es e t
    obtain exit st where "vm_run A (dispatch A table) (vm_fuel g) (build A (?b es)) = Some (Some exit, st)"
      using run by blast
    moreover assume "(case vm_run A (dispatch A table) (vm_fuel g) (build A (?b es)) of
          Some (Some exit, vm) \<Rightarrow>
            finish_compute X force_accept g (fst (snd (snd run)))
              (res\<lparr>cpf_new_state := snd (snd (snd run))\<rparr>) (not_i32 exit) vm
        | _ \<Rightarrow> fail ExecPanic) es = (Inl e, t)"
    ultimately show "e \<noteq> ExecPanic" using upholds_InlD[OF calm_finish_compute] by fastforce
  qed
qed

lemma compute_phase_calm:
  assumes "reads_bits A" and "keys_fit L" and "codepage0 A L M = Inr table"
  shows "no_panic (compute_phase A L' X (dispatch A table) input fee False)"
  unfolding compute_phase_def Let_def
  by (intro calm_rules) (auto intro!: calm_rules run_vm_calm[OF assms] compute_gas_params_wf split: option.split sum.split)

lemma bnd_gets: "bnd (gets g) f es = f (g es) es"
  by simp

section \<open>Where a new state comes from\<close>

definition brings_state :: "('c, 's) api \<Rightarrow> ('c, 's) exec_state \<Rightarrow> 'c msg_state_init \<Rightarrow> bool" where
  "brings_state A es init \<longleftrightarrow> account_status_of (acc_now es) \<noteq> StActive \<and> si_split_depth (msi_parsed init) = None \<and>
     cell_repr_hash A (msi_root init) = unfreeze_hash es"

definition uses_msg_state :: "skip_reason + 'c run_state \<Rightarrow> bool" where
  "uses_msg_state sel = (case sel of Inl _ \<Rightarrow> False | Inr run \<Rightarrow> fst (snd (snd run)))"

lemma use_msg_state_Inr:
  assumes "use_msg_state A L X init st es = (Inr sel, es')"
  shows "end_status es' = end_status es" "acc_now es' = acc_now es \<and> \<not> uses_msg_state sel \<or>
    acc_now es' = AccActive (msi_parsed init) \<and> cell_repr_hash A (msi_root init) = unfreeze_hash es \<and>
      si_split_depth (msi_parsed init) = None \<and> uses_msg_state sel"
  using assms by (auto simp: use_msg_state_def uses_msg_state_def ex_run split: if_split_asm prod.split_asm)

lemma select_state_Inr:
  assumes "select_state A L X init external st es = (Inr sel, es')"
  shows "end_status es' = end_status es" "acc_now es' = acc_now es \<and> \<not> uses_msg_state sel \<or>
    (\<exists>m. init = Some m \<and> brings_state A es m \<and> acc_now es' = AccActive (msi_parsed m) \<and>
      uses_msg_state sel)"
  using assms
  by (auto simp: select_state_def bnd_gets brings_state_def uses_msg_state_def[of "Inl _"] uses_msg_state_def[of "Inr _"] dest: use_msg_state_Inr
      split: option.split_asm account_state.split_asm if_split_asm)

lemma charge_gas_state:
  "charge_gas X activate fees es = (Inr u, es') \<Longrightarrow>
     acc_now es' = acc_now es \<and> end_status es' = (if activate then StActive else end_status es)"
  by (auto simp: charge_gas_def ex_run set_balance_def add_fees_eq split: if_split_asm)

lemma finish_compute_state:
  "finish_compute X force_accept g msu res exit vm es = (Inr full, es') \<Longrightarrow>
     acc_now es' = acc_now es \<and> (end_status es' = end_status es \<or> end_status es' = StActive \<and> accepted full \<and> msu)"
  unfolding finish_compute_def Let_def ex_run by (elim exE conjE) (auto dest!: charge_gas_state split: if_split_asm)

lemma run_vm_state:
  assumes "run_vm A L X D input force_accept g v fee res run es = (Inr full, es')"
  shows "acc_now es' = acc_now es" "end_status es' = end_status es \<or>
    end_status es' = StActive \<and> accepted full \<and> fst (snd (snd run))"
proof -
  obtain exit vm res where "finish_compute X force_accept g (fst (snd (snd run))) res (not_i32 exit) vm es = (Inr full, es')"
    using assms unfolding run_vm_def ex_run by (elim exE conjE) (auto split: option.split_asm prod.split_asm)
  from finish_compute_state[OF this] show "acc_now es' = acc_now es" "end_status es' = end_status es \<or>
    end_status es' = StActive \<and> accepted full \<and> fst (snd (snd run))" by simp_all
qed

lemma compute_phase_state:
  assumes "compute_phase A L X D input fee force_accept es = (Inr full, es')"
  shows "acc_now es' = acc_now es \<and> end_status es' = end_status es \<or>
    (\<exists>m. in_msg_init input = Some m \<and> brings_state A es m \<and> acc_now es' = AccActive (msi_parsed m) \<and>
      (end_status es' = end_status es \<or> end_status es' = StActive \<and> accepted full))"
proof -
  let ?run = "\<lambda>external st sel es1. select_state A L X (in_msg_init input) external st es = (Inr sel, es1) \<and>
    (case sel of Inl _ \<Rightarrow> es' = es1 | Inr run \<Rightarrow> \<exists>g v res. run_vm A L X D input force_accept g v fee res run es1 = (Inr full, es'))"
  have "es' = es \<or> (\<exists>external st sel es1. ?run external st sel es1)"
    using assms unfolding compute_phase_def ex_run Let_def
    by (fastforce simp: ex_run split: if_split_asm option.split_asm sum.split_asm)
  then show ?thesis
  proof (elim disjE exE conjE)
    fix external st sel es1
    assume "select_state A L X (in_msg_init input) external st es = (Inr sel, es1)"
      and run: "case sel of Inl _ \<Rightarrow> es' = es1 | Inr run \<Rightarrow> \<exists>g v res. run_vm A L X D input force_accept g v fee res run es1 = (Inr full, es')"
    note sel = select_state_Inr[OF this(1)]
    show ?thesis
    proof (cases sel)
      case (Inr run1)
      with run obtain g v res where "run_vm A L X D input force_accept g v fee res run1 es1 = (Inr full, es')" by auto
      from run_vm_state[OF this] sel show ?thesis by (auto simp: uses_msg_state_def Inr)
    qed (use sel run in auto)
  qed simp
qed

end
