(* ===== verification/Transactions.thy ===== *)
theory Transactions
  imports Actions Compute
begin

text \<open>
  Whole transactions: \<open>Executor::begin\<close> and \<open>commit\<close> (\<open>executor/src/lib.rs\<close>), and the order of the phases in
  ordinary and tick-tock transactions (\<open>tx/ordinary.rs\<close>, \<open>tx/ticktock.rs\<close>). The lemmas compose those of
  the phases: a transaction neither makes nor loses tokens.
\<close>

section \<open>Beginning a transaction\<close>

record executor =
  min_lt :: nat
  override_special :: "bool option"

definition executor_new :: executor where
  "executor_new = \<lparr>min_lt = 0, override_special = None\<rparr>"

definition begin_account ::
    "'c executor_params \<Rightarrow> ('c, 's) parsed_config \<Rightarrow> executor \<Rightarrow> std_addr \<Rightarrow> 'c account option \<Rightarrow> exec_error + ('c, 's) exec_state" where
  "begin_account ps cfg ex addr acc =
     (let special = (case override_special ex of Some b \<Rightarrow> b | None \<Rightarrow> config_is_special cfg addr);
          start = (\<lambda>stat b st orig final lt. \<lparr>params = ps, config = cfg, is_special = special, address = addr,
            storage_stat = stat, balance = b, acc_now = st, orig_status = orig, end_status = final, start_lt = lt,
            end_lt = add_u64 lt 1, out_msgs = [], total_fees = 0, burned = 0, cached_storage_stat = None\<rparr>)
      in case acc of
           Some a \<Rightarrow>
             if acc_address a = AddrStd addr
             then Inr (start (acc_storage_stat a) (acc_balance a) (acc_state a) (account_status_of (acc_state a))
                    (account_status_of (acc_state a)) (max (min_lt ex) (acc_last_trans_lt a)))
             else Inl (Anyhow ''account address mismatch'')
         | None \<Rightarrow>
             Inr (start \<lparr>used = \<lparr>used_cells = 0, used_bits = 0, used_public_cells = 0\<rparr>, last_paid = 0, due_payment = None\<rparr>
                    cc_zero AccUninit StNotExists StUninit (min_lt ex)))"

section \<open>Ordinary transactions\<close>

type_synonym ('c, 's, 'a) tx = "(('c, 's) exec_state, tx_error, 'a) act"

definition fatal :: "('c, 's, 'a) ex \<Rightarrow> ('c, 's, 'a) tx" where
  "fatal m = zoom id (\<lambda>es _. es) Fatal m"

record 'c ordinary_tx_info =
  credit_first :: bool
  tx_storage_phase :: storage_phase_info
  tx_credit_phase :: "'c credit_phase_info option"
  tx_compute_phase :: compute_phase_info
  tx_action_phase :: "action_phase_info option"
  aborted :: bool
  tx_bounce_phase :: "bounce_phase_info option"
  destroyed :: bool

definition receive_tx_msg ::
    "('c, 's) api \<Rightarrow> ('c, 's, 'b) cell_lib \<Rightarrow> ('c, 's, 'b) exec_lib \<Rightarrow> bool \<Rightarrow> 'c \<Rightarrow> ('c, 's, ('c, 's) received_message) tx" where
  "receive_tx_msg A L X is_external msg_root es = (case receive_in_msg A L X msg_root es of
      (Inr msg, es') \<Rightarrow>
        if rm_is_external msg = is_external then (Inr msg, es')
        else (Inl (Fatal (Anyhow ''received an unexpected inbound message'')), es')
    | (Inl e, es') \<Rightarrow> (Inl (if is_external then Skipped else Fatal e), es'))"

definition credit_if_internal ::
    "('c, 's, 'b) exec_lib \<Rightarrow> bool \<Rightarrow> ('c, 's) received_message \<Rightarrow> ('c, 's, 'c credit_phase_info option) ex" where
  "credit_if_internal X is_external msg =
     (if is_external then ret None else bnd (credit_phase X msg) (\<lambda>info. ret (Some info)))"

text \<open>A message that may bounce is credited after the storage phase, any other before it.\<close>

definition credit_and_storage ::
    "('c, 's, 'b) exec_lib \<Rightarrow> bool \<Rightarrow> ('c, 's) received_message \<Rightarrow>
     ('c, 's, storage_phase_info \<times> 'c credit_phase_info option \<times> ('c, 's) received_message) ex" where
  "credit_and_storage X is_external msg =
     (if rm_bounce_enabled msg then
        bnd (storage_phase X False (Some msg)) (\<lambda>(storage, msg1).
        bnd (credit_if_internal X is_external (the msg1)) (\<lambda>crd.
        ret (storage, crd, the msg1)))
      else
        bnd (credit_if_internal X is_external msg) (\<lambda>crd.
        bnd (storage_phase X True (Some msg)) (\<lambda>(storage, msg1).
        ret (storage, crd, the msg1))))"

definition compute_succeeded :: "compute_phase_info \<Rightarrow> bool" where
  "compute_succeeded cph = (case cph of ComputeExecuted p \<Rightarrow> cp_success p | ComputeSkipped _ \<Rightarrow> False)"

definition compute_fees :: "compute_phase_info \<Rightarrow> nat" where
  "compute_fees cph = (case cph of ComputeExecuted p \<Rightarrow> cp_gas_fees p | ComputeSkipped _ \<Rightarrow> 0)"

text \<open>The action phase of a successful compute phase.\<close>

definition act_on_success ::
    "('c, 's) api \<Rightarrow> ('c, 's, 'b) cell_lib \<Rightarrow> ('c, 's, 'b) exec_lib \<Rightarrow> bool \<Rightarrow> ('c, 's) received_message option \<Rightarrow>
     'c compute_phase_full \<Rightarrow> ('c, 's, 'c action_phase_full option \<times> ('c, 's) received_message option \<times> bool) ex" where
  "act_on_success A L X inspect msg full =
     (if compute_succeeded (compute_phase_of full) then
        bnd (action_phase A L X inspect msg (cpf_original_balance full) (cpf_new_state full) (cpf_actions full)
              (compute_fees (compute_phase_of full))) (\<lambda>(apf, msg1).
        bnd (gets (\<lambda>es. end_status es = StNotExists)) (\<lambda>gone. ret (Some apf, msg1, gone)))
      else ret (None, msg, False))"

definition needs_bounce ::
    "('c, 's) received_message \<Rightarrow> compute_phase_info \<Rightarrow> 'c action_phase_full option \<Rightarrow> bool" where
  "needs_bounce msg cph apf \<longleftrightarrow> rm_bounce_enabled msg \<and>
     (\<not> compute_succeeded cph \<or> (case apf of Some r \<Rightarrow> state_exceeds_limits r \<or> apf_bounce r | None \<Rightarrow> False))"

definition bounce_if_needed ::
    "('c, 's) api \<Rightarrow> ('c, 's, 'b) cell_lib \<Rightarrow> ('c, 's, 'b) exec_lib \<Rightarrow> ('c, 's) received_message \<Rightarrow> compute_phase_info \<Rightarrow>
     'c action_phase_full option \<Rightarrow> ('c, 's, bounce_phase_info option) ex" where
  "bounce_if_needed A L X msg cph apf =
     (if needs_bounce msg cph apf then
        bnd (bounce_phase A L X (compute_fees cph) (case apf of Some r \<Rightarrow> apf_action_fine r | None \<Rightarrow> 0) msg)
          (\<lambda>r. ret (Some r))
      else ret None)"

definition run_ordinary_transaction ::
    "('c, 's) api \<Rightarrow> ('c, 's, 'b) cell_lib \<Rightarrow> ('c, 's, 'b) exec_lib \<Rightarrow> ('c, 's, 'b, int) vm \<Rightarrow> bool \<Rightarrow> bool \<Rightarrow> 'c \<Rightarrow>
     ('c, 's, 'c ordinary_tx_info) tx" where
  "run_ordinary_transaction A L X D inspect is_external msg_root =
     bnd (receive_tx_msg A L X is_external msg_root) (\<lambda>msg0.
     bnd (fatal (credit_and_storage X is_external msg0)) (\<lambda>(storage, crd, msg).
     bnd (fatal (compute_phase A L X D (TxOrdinary msg) (storage_fees_collected storage) False)) (\<lambda>full.
     thn (ensure (\<not> (is_external \<and> \<not> accepted full)) Skipped)
    (bnd (fatal (act_on_success A L X inspect (Some msg) full)) (\<lambda>(apf, msg1, gone).
     bnd (fatal (bounce_if_needed A L X (the msg1) (compute_phase_of full) apf)) (\<lambda>bounce_info.
     ret \<lparr>credit_first = \<not> rm_bounce_enabled (the msg1), tx_storage_phase = storage, tx_credit_phase = crd,
          tx_compute_phase = compute_phase_of full, tx_action_phase = map_option apf_phase apf,
          aborted = (case apf of Some r \<Rightarrow> \<not> ap_success (apf_phase r) | None \<Rightarrow> True),
          tx_bounce_phase = bounce_info, destroyed = gone\<rparr>))))))"

section \<open>Tick-tock transactions\<close>

record tick_tock_tx_info =
  tt_kind_is_tock :: bool
  tt_storage_phase :: storage_phase_info
  tt_compute_phase :: compute_phase_info
  tt_action_phase :: "action_phase_info option"
  tt_aborted :: bool
  tt_destroyed :: bool

definition run_tick_tock_transaction ::
    "('c, 's) api \<Rightarrow> ('c, 's, 'b) cell_lib \<Rightarrow> ('c, 's, 'b) exec_lib \<Rightarrow> ('c, 's, 'b, int) vm \<Rightarrow> bool \<Rightarrow> bool \<Rightarrow>
     ('c, 's, tick_tock_tx_info) tx" where
  "run_tick_tock_transaction A L X D inspect tock =
     bnd (gets (\<lambda>es. account_status_of (acc_now es) = StActive)) (\<lambda>active.
     thn (ensure active Skipped)
    (bnd (fatal (storage_phase X False None)) (\<lambda>(storage, _).
     bnd (fatal (compute_phase A L X D (TxTickTock tock) (storage_fees_collected storage) False)) (\<lambda>full.
     bnd (fatal (act_on_success A L X inspect None full)) (\<lambda>(apf, _, gone).
     ret \<lparr>tt_kind_is_tock = tock, tt_storage_phase = storage, tt_compute_phase = compute_phase_of full,
          tt_action_phase = map_option apf_phase apf,
          tt_aborted = (case apf of Some r \<Rightarrow> \<not> ap_success (apf_phase r) | None \<Rightarrow> True), tt_destroyed = gone\<rparr>)))))"

section \<open>The account after the transaction\<close>

definition build_account_state ::
    "('c, 's) api \<Rightarrow> ('c, 's, 'b) exec_lib \<Rightarrow> ('c, 's) exec_state \<Rightarrow> cell_error + 'c account_state option" where
  "build_account_state A X es = (case end_status es of
      StNotExists \<Rightarrow> Inr None
    | StUninit \<Rightarrow> Inr (if cc_is_zero (balance es) then None else Some AccUninit)
    | StActive \<Rightarrow> Inr (Some (acc_now es))
    | StFrozen \<Rightarrow>
        (case (case acc_now es of
                 AccUninit \<Rightarrow> Inr (sa_address (address es))
               | AccActive st \<Rightarrow> map_sum id (cell_repr_hash A) (build_state_init X st)
               | AccFrozen h \<Rightarrow> Inr h) of
           Inl e \<Rightarrow> Inl e
         | Inr h \<Rightarrow> Inr (Some (if h = sa_address (address es) then AccUninit else AccFrozen h))))"

text \<open>The shard's record of an account, and the transaction as it is stored.\<close>

record 'c shard_account =
  sh_account :: 'c
  last_trans_hash :: hash
  last_trans_lt :: nat

record 'c transaction =
  tx_account :: hash
  tx_lt :: nat
  tx_prev_trans_hash :: hash
  tx_prev_trans_lt :: nat
  tx_now :: nat
  tx_out_msg_count :: nat
  tx_orig_status :: account_status
  tx_end_status :: account_status
  tx_in_msg :: "'c option"
  tx_out_msgs :: "'c option"
  tx_total_fees :: nat
  tx_state_update :: 'c
  tx_info :: 'c

datatype 'c tx_info_kind = OrdinaryInfo "'c ordinary_tx_info" | TickTockInfo tick_tock_tx_info

text \<open>What \<open>commit\<close> calls of serialisation; \<open>build_out_msgs\<close> builds the dictionary of the messages by their index.\<close>

record ('c, 's, 'b) tx_lib =
  load_account :: "'c \<Rightarrow> cell_error + 'c account option"
  load_currency :: "'s \<Rightarrow> cell_error + 'c currency \<times> 's"
  load_storage_info :: "'s \<Rightarrow> cell_error + storage_info \<times> 's"
  store_currency :: "'c currency \<Rightarrow> 'b \<Rightarrow> cell_error + 'b"
  store_account_state :: "'c account_state \<Rightarrow> 'b \<Rightarrow> cell_error + 'b"
  build_account :: "std_addr \<Rightarrow> storage_info \<Rightarrow> 's \<Rightarrow> cell_error + 'c"
  build_account_none :: "cell_error + 'c"
  build_tx_info :: "'c tx_info_kind \<Rightarrow> cell_error + 'c"
  build_hash_update :: "hash \<Rightarrow> hash \<Rightarrow> cell_error + 'c"
  build_out_msgs :: "'c list \<Rightarrow> cell_error + 'c option"
  build_transaction_cell :: "'c transaction \<Rightarrow> cell_error + 'c"

text \<open>
  The storage used by an account: the previous numbers when no cell below the root has changed, and
  otherwise those of the cells visited so far with the ones not yet visited.
\<close>

definition skip_extra :: "('c, 's) api \<Rightarrow> ('c, 's, 'b) tx_lib \<Rightarrow> 's \<Rightarrow> cell_error + 's" where
  "skip_extra A T cs = (case slice_skip_first A cs 64 0 of
      Inl e \<Rightarrow> Inl e
    | Inr cs1 \<Rightarrow> (case load_currency T cs1 of
        Inl e \<Rightarrow> Inl e
      | Inr (b, _) \<Rightarrow> if other b = None then Inr cs else slice_skip_first A cs 0 1))"

definition can_reuse :: "('c, 's) api \<Rightarrow> ('c, 's, 'b) cell_lib \<Rightarrow> storage_used \<Rightarrow> 's \<Rightarrow> 's \<Rightarrow> bool" where
  "can_reuse A L prev_used prev_storage new_storage \<longleftrightarrow>
     used_cells prev_used \<noteq> 0 \<and> slice_size_bits A prev_storage \<le> used_bits prev_used \<and>
     slice_size_refs A prev_storage = slice_size_refs A new_storage \<and>
     list_all (\<lambda>(p, n). p = n) (zip (sl_references L prev_storage) (sl_references L new_storage))"

definition recompute_used ::
    "('c, 's) api \<Rightarrow> ('c, 's, 'b) cell_lib \<Rightarrow> ('c, 's, 'b) exec_lib \<Rightarrow> 's \<Rightarrow> ext_storage_stat option \<Rightarrow>
     storage_used \<times> ext_storage_stat" where
  "recompute_used A L X new_storage cache =
     (let start = set_unlimited (case cache of Some s \<Rightarrow> s | None \<Rightarrow> stat_unlimited);
          stats = foldl (\<lambda>s c. snd (add_cell A L X c s)) start (sl_references L new_storage)
      in (\<lparr>used_cells = new_varuint56_truncate (stat_cells stats + 1),
           used_bits = new_varuint56_truncate (stat_bits stats + slice_size_bits A new_storage), used_public_cells = 0\<rparr>, stats))"

definition compute_storage_used ::
    "('c, 's) api \<Rightarrow> ('c, 's, 'b) cell_lib \<Rightarrow> ('c, 's, 'b) exec_lib \<Rightarrow> ('c, 's, 'b) tx_lib \<Rightarrow> (storage_used \<times> 's) option \<Rightarrow> 's \<Rightarrow>
     ext_storage_stat option \<Rightarrow> bool \<Rightarrow> cell_error + storage_used \<times> ext_storage_stat option" where
  "compute_storage_used A L X T prev new_storage cache without_extra =
     (let skip = (\<lambda>cs. if without_extra then skip_extra A T cs else Inr cs) in
      case (case prev of None \<Rightarrow> Inr None | Some (us, cs) \<Rightarrow> map_sum id (\<lambda>cs'. Some (us, cs')) (skip cs)) of
        Inl e \<Rightarrow> Inl e
      | Inr prev' \<Rightarrow> (case skip new_storage of
          Inl e \<Rightarrow> Inl e
        | Inr storage \<Rightarrow>
            let fresh = (case recompute_used A L X storage cache of (us, s) \<Rightarrow> (us, Some s)) in
            Inr (case prev' of
                None \<Rightarrow> fresh
              | Some (us, prev_storage) \<Rightarrow>
                  if can_reuse A L us prev_storage storage
                  then (us\<lparr>used_bits := new_varuint56_truncate
                          (used_bits us - slice_size_bits A prev_storage + slice_size_bits A storage)\<rparr>, cache)
                  else fresh)))"

text \<open>The storage part of the previous account, and of the new one.\<close>

definition prev_account_storage ::
    "('c, 's) api \<Rightarrow> ('c, 's, 'b) exec_lib \<Rightarrow> ('c, 's, 'b) tx_lib \<Rightarrow> 'c \<Rightarrow> ('c, 's, (storage_used \<times> 's) option) ex" where
  "prev_account_storage A X T acc =
     bnd (ex_lift (load_bit X (slice_of_cell A acc))) (\<lambda>(exists, cs).
     if \<not> exists then ret None
     else bnd (ex_lift (load_int_addr X cs)) (\<lambda>(_, cs1).
       bnd (ex_lift (load_storage_info T cs1)) (\<lambda>(info, cs2). ret (Some (used info, cs2)))))"

definition new_account_storage ::
    "('c, 's, 'b) cell_lib \<Rightarrow> ('c, 's, 'b) exec_lib \<Rightarrow> ('c, 's, 'b) tx_lib \<Rightarrow> 'c account_state \<Rightarrow> ('c, 's, 's) ex" where
  "new_account_storage L X T st =
     bnd (gets id) (\<lambda>es.
     bnd (ex_lift (b_store_u64 L (b_new L) (end_lt es))) (\<lambda>b.
     bnd (ex_lift (store_currency T (balance es) b)) (\<lambda>b1.
     bnd (ex_lift (store_account_state T st b1)) (\<lambda>b2. ret (as_full_slice X b2)))))"

record 'c account_meta =
  meta_balance :: "'c currency"
  meta_libraries :: "'c option"
  meta_exists :: bool

definition commit_account ::
    "('c, 's) api \<Rightarrow> ('c, 's, 'b) cell_lib \<Rightarrow> ('c, 's, 'b) exec_lib \<Rightarrow> ('c, 's, 'b) tx_lib \<Rightarrow> 'c shard_account \<Rightarrow>
     ('c, 's, 'c \<times> 'c account_meta \<times> account_status) ex" where
  "commit_account A L X T original =
     bnd (gets (build_account_state A X)) (\<lambda>r.
     bnd (ex_lift r) (\<lambda>state. case state of
       None \<Rightarrow>
         bnd (ex_lift (build_account_none T)) (\<lambda>c.
         ret (c, \<lparr>meta_balance = cc_zero, meta_libraries = None, meta_exists = False\<rparr>, StNotExists))
     | Some st \<Rightarrow>
         bnd (prev_account_storage A X T (sh_account original)) (\<lambda>prev.
         bnd (new_account_storage L X T st) (\<lambda>storage.
         bnd (gets id) (\<lambda>es.
         bnd (ex_lift (compute_storage_used A L X T prev storage (cached_storage_stat es) (strict_extra_currency (params es))))
           (\<lambda>(us, cache).
         thn (modify (\<lambda>es. es\<lparr>storage_stat := (storage_stat es)\<lparr>used := us\<rparr>, cached_storage_stat := cache\<rparr>))
        (bnd (gets storage_stat) (\<lambda>stat.
         bnd (ex_lift (build_account T (address es) stat storage)) (\<lambda>c.
         ret (c, \<lparr>meta_balance = balance es,
                   meta_libraries = (case st of AccActive i \<Rightarrow> si_libraries i | _ \<Rightarrow> None), meta_exists = True\<rparr>,
              account_status_of st))))))))))"

definition build_transaction ::
    "('c, 's, 'b) tx_lib \<Rightarrow> 'c shard_account \<Rightarrow> 'c option \<Rightarrow> 'c \<Rightarrow> account_status \<Rightarrow> 'c \<Rightarrow> ('c, 's, 'c transaction) ex" where
  "build_transaction T original msg_cell info final update =
     bnd (gets id) (\<lambda>es.
     bnd (ex_lift (build_out_msgs T (out_msgs es))) (\<lambda>outs.
     ret \<lparr>tx_account = sa_address (address es), tx_lt = start_lt es, tx_prev_trans_hash = last_trans_hash original,
          tx_prev_trans_lt = last_trans_lt original, tx_now = block_unixtime (params es),
          tx_out_msg_count = length (out_msgs es), tx_orig_status = orig_status es, tx_end_status = final,
          tx_in_msg = msg_cell, tx_out_msgs = outs, tx_total_fees = total_fees es, tx_state_update = update, tx_info = info\<rparr>))"

record 'c executor_output =
  out_new_state :: "'c shard_account"
  out_state_meta :: "'c account_meta"
  out_transaction :: 'c
  out_total_fees :: nat
  out_next_lt :: nat
  out_out_msgs :: "'c list"
  out_gas_used :: nat
  out_burned :: nat

definition commit ::
    "('c, 's) api \<Rightarrow> ('c, 's, 'b) cell_lib \<Rightarrow> ('c, 's, 'b) exec_lib \<Rightarrow> ('c, 's, 'b) tx_lib \<Rightarrow> 'c shard_account \<Rightarrow> 'c option \<Rightarrow>
     'c \<Rightarrow> nat \<Rightarrow> ('c, 's, 'c executor_output) ex" where
  "commit A L X T original msg_cell info used_gas =
     bnd (commit_account A L X T original) (\<lambda>(acc, meta, final).
     bnd (ex_lift (build_hash_update T (cell_repr_hash A (sh_account original)) (cell_repr_hash A acc))) (\<lambda>update.
     bnd (build_transaction T original msg_cell info final update) (\<lambda>trans.
     bnd (ex_lift (build_transaction_cell T trans)) (\<lambda>c.
     bnd (gets id) (\<lambda>es.
     ret \<lparr>out_new_state = \<lparr>sh_account = acc, last_trans_hash = cell_repr_hash A c, last_trans_lt = start_lt es\<rparr>,
          out_state_meta = meta, out_transaction = c, out_total_fees = total_fees es, out_next_lt = end_lt es,
          out_out_msgs = out_msgs es, out_gas_used = used_gas, out_burned = burned es\<rparr>)))))"

text \<open>\<open>with_info\<close>: the gas a transaction reports.\<close>

definition tx_gas_used :: "'c tx_info_kind \<Rightarrow> nat" where
  "tx_gas_used info =
     (case (case info of OrdinaryInfo i \<Rightarrow> tx_compute_phase i | TickTockInfo i \<Rightarrow> tt_compute_phase i) of
        ComputeExecuted p \<Rightarrow> cp_gas_used p
      | ComputeSkipped _ \<Rightarrow> 0)"

text \<open>\<open>begin_ordinary_ext\<close> and \<open>begin_tick_tock_ext\<close>: the executed transaction and the state to commit it from.\<close>

definition begin_ordinary ::
    "('c, 's) api \<Rightarrow> ('c, 's, 'b) cell_lib \<Rightarrow> ('c, 's, 'b) exec_lib \<Rightarrow> ('c, 's, 'b) tx_lib \<Rightarrow> ('c, 's, 'b, int) vm \<Rightarrow>
     'c executor_params \<Rightarrow> ('c, 's) parsed_config \<Rightarrow> executor \<Rightarrow> std_addr \<Rightarrow> bool \<Rightarrow> bool \<Rightarrow> 'c \<Rightarrow> 'c shard_account \<Rightarrow>
     tx_error + ('c \<times> nat \<times> ('c, 's) exec_state)" where
  "begin_ordinary A L X T D ps cfg ex addr inspect is_external msg_root original =
     (case load_account T (sh_account original) of
        Inl e \<Rightarrow> Inl (Fatal (Wrapped e))
      | Inr acc \<Rightarrow> (case begin_account ps cfg ex addr acc of
          Inl e \<Rightarrow> Inl (Fatal e)
        | Inr es \<Rightarrow> (case run_ordinary_transaction A L X D inspect is_external msg_root es of
            (Inl e, _) \<Rightarrow> Inl e
          | (Inr info, es') \<Rightarrow> (case build_tx_info T (OrdinaryInfo info) of
              Inl e \<Rightarrow> Inl (Fatal (Wrapped e))
            | Inr c \<Rightarrow> Inr (c, tx_gas_used (OrdinaryInfo info), es')))))"

definition begin_tick_tock ::
    "('c, 's) api \<Rightarrow> ('c, 's, 'b) cell_lib \<Rightarrow> ('c, 's, 'b) exec_lib \<Rightarrow> ('c, 's, 'b) tx_lib \<Rightarrow> ('c, 's, 'b, int) vm \<Rightarrow>
     'c executor_params \<Rightarrow> ('c, 's) parsed_config \<Rightarrow> executor \<Rightarrow> std_addr \<Rightarrow> bool \<Rightarrow> bool \<Rightarrow> 'c shard_account \<Rightarrow>
     tx_error + ('c \<times> nat \<times> ('c, 's) exec_state)" where
  "begin_tick_tock A L X T D ps cfg ex addr inspect tock original =
     (case load_account T (sh_account original) of
        Inl e \<Rightarrow> Inl (Fatal (Wrapped e))
      | Inr acc \<Rightarrow> (case begin_account ps cfg ex addr acc of
          Inl e \<Rightarrow> Inl (Fatal e)
        | Inr es \<Rightarrow> (case run_tick_tock_transaction A L X D inspect tock es of
            (Inl e, _) \<Rightarrow> Inl e
          | (Inr info, es') \<Rightarrow> (case build_tx_info T (TickTockInfo info) of
              Inl e \<Rightarrow> Inl (Fatal (Wrapped e))
            | Inr c \<Rightarrow> Inr (c, tx_gas_used (TickTockInfo info), es')))))"

section \<open>A transaction keeps what the account holds\<close>

lemma fatal_Inr [simp]: "fatal m es = (Inr x, es') \<longleftrightarrow> m es = (Inr x, es')"
  by (auto simp: fatal_def zoom_def split: prod.splits)

lemma storage_phase_wealth:
  assumes "storage_phase X adj rcv es = (Inr (info, rcv'), es')"
  shows "wealth X es' = wealth X es" "out_msgs es' = out_msgs es" "lt_ok es' = lt_ok es" "burned es' = burned es"
    "start_lt es' = start_lt es"
proof -
  note s = storage_phase_Inr[OF assms]
  show same: "out_msgs es' = out_msgs es" "burned es' = burned es" "start_lt es' = start_lt es"
    by (subst s(10), simp)+
  have "end_lt es' = end_lt es" by (subst s(10)) simp
  with same show "lt_ok es' = lt_ok es" by (simp add: lt_ok_def)
  show "wealth X es' = wealth X es" using s(1,2) same by (simp add: wealth_def)
qed

lemma credit_if_internal_Inr:
  assumes "credit_if_internal X external msg es = (Inr crd, es')" and "external \<Longrightarrow> tokens (rm_balance_remaining msg) = 0"
  shows "wealth X es' = wealth X es + tokens (rm_balance_remaining msg)" "out_msgs es' = out_msgs es"
    "lt_ok es' = lt_ok es" "burned es' = burned es" "start_lt es' = start_lt es"
  using assms
  by (auto simp: credit_if_internal_def ex_run wealth_def lt_ok_def elim!: credit_phase_Inr split: if_splits)

lemma credit_and_storage_Inr:
  assumes "credit_and_storage X external msg es = (Inr (storage, crd, msg'), es')"
    and "external \<Longrightarrow> tokens (rm_balance_remaining msg) = 0"
  shows "wealth X es' = wealth X es + tokens (rm_balance_remaining msg)" "out_msgs es' = out_msgs es"
    "lt_ok es' = lt_ok es" "burned es' = burned es" "start_lt es' = start_lt es"
    "rm_bounce_enabled msg' = rm_bounce_enabled msg" "rm_root msg' = rm_root msg"
proof -
  have "wealth X es' = wealth X es + tokens (rm_balance_remaining msg) \<and> out_msgs es' = out_msgs es \<and>
    lt_ok es' = lt_ok es \<and> burned es' = burned es \<and> start_lt es' = start_lt es \<and>
    rm_bounce_enabled msg' = rm_bounce_enabled msg \<and> rm_root msg' = rm_root msg"
  proof (cases "rm_bounce_enabled msg")
    case True
    with assms(1) obtain msg1 es1 where run: "storage_phase X False (Some msg) es = (Inr (storage, msg1), es1)"
      "credit_if_internal X external (the msg1) es1 = (Inr crd, es')" "msg' = the msg1"
      by (auto simp: credit_and_storage_def ex_run)
    moreover have "msg1 = Some msg" using storage_phase_Inr(7)[OF run(1)] by (simp add: adjust_message_def)
    ultimately show ?thesis
      using storage_phase_wealth[OF run(1)] credit_if_internal_Inr[OF run(2)] assms(2) by simp
  next
    case False
    with assms(1) obtain msg1 es1 where run: "credit_if_internal X external msg es = (Inr crd, es1)"
      "storage_phase X True (Some msg) es1 = (Inr (storage, msg1), es')" "msg' = the msg1"
      by (auto simp: credit_and_storage_def ex_run)
    moreover have "msg1 = Some (adjust_message True (tokens (balance es')) msg)"
      using storage_phase_Inr(7)[OF run(2)] by simp
    ultimately show ?thesis
      using storage_phase_wealth[OF run(2)] credit_if_internal_Inr[OF run(1)] assms(2)
      by (simp add: adjust_message_def)
  qed
  then show "wealth X es' = wealth X es + tokens (rm_balance_remaining msg)" "out_msgs es' = out_msgs es"
    "lt_ok es' = lt_ok es" "burned es' = burned es" "start_lt es' = start_lt es"
    "rm_bounce_enabled msg' = rm_bounce_enabled msg" "rm_root msg' = rm_root msg"
    by blast+
qed

context message_codec
begin

lemma act_on_success_wealth:
  assumes "act_on_success A L X inspect msg full es = (Inr r, es')" and "lt_ok es" and "out_msgs es = []"
  shows "wealth X es' = wealth X es \<and> lt_ok es'"
  using assms action_phase_wealth[OF _ assms(2,3)]
  by (fastforce simp: act_on_success_def ex_run split: if_split_asm)

lemma bounce_if_needed_wealth:
  assumes "bounce_if_needed A L X msg cph apf es = (Inr r, es')" and "lt_ok es"
  shows "wealth X es' = wealth X es \<and> lt_ok es'"
  using assms bounce_phase_wealth
  by (fastforce simp: bounce_if_needed_def ex_run split: if_split_asm)

lemma run_ordinary_wealth:
  assumes "run_ordinary_transaction A L X D inspect external msg_root es = (Inr info, es')"
    and "burned es = 0" and "lt_ok es" and "out_msgs es = []"
  shows "wealth X es' = wealth X es + income A X msg_root \<and> lt_ok es'"
proof -
  obtain msg0 es1 storage crd msg es2 full es3 apf msg1 gone es4 bi
    where recv: "receive_tx_msg A L X external msg_root es = (Inr msg0, es1)"
      and cs: "credit_and_storage X external msg0 es1 = (Inr (storage, crd, msg), es2)"
      and comp: "compute_phase A L X D (TxOrdinary msg) (storage_fees_collected storage) False es2 = (Inr full, es3)"
      and act: "act_on_success A L X inspect (Some msg) full es3 = (Inr (apf, msg1, gone), es4)"
      and bnc: "bounce_if_needed A L X (the msg1) (compute_phase_of full) apf es4 = (Inr bi, es')"
    using assms(1) by (auto simp: run_ordinary_transaction_def ex_run ensure_def split: if_split_asm)
  have recv': "receive_in_msg A L X msg_root es = (Inr msg0, es1)" "rm_is_external msg0 = external"
    using recv by (auto simp: receive_tx_msg_def split: prod.splits sum.splits if_splits)
  note r = receive_in_msg_Inr[OF recv'(1) assms(2-4)]
  have es1: "out_msgs es1 = []" using arg_cong[OF r(2), of out_msgs] assms(4) by simp
  have zero: "external \<Longrightarrow> tokens (rm_balance_remaining msg0) = 0" using r(5) recv'(2) by simp
  note c = credit_and_storage_Inr[OF cs zero] and q = quiet_wealth(1)[where X = X, OF quietlyD[OF compute_phase_quiet comp]]
    quiet_wealth(2-5)[OF quietlyD[OF compute_phase_quiet comp]]
  have a: "wealth X es4 = wealth X es3 \<and> lt_ok es4"
    using act_on_success_wealth[OF act] q c r(3) es1 by simp
  with bounce_if_needed_wealth[OF bnc] q c r(1) show ?thesis by simp
qed

lemma run_tick_tock_wealth:
  assumes "run_tick_tock_transaction A L X D inspect tock es = (Inr info, es')" and "lt_ok es" and "out_msgs es = []"
  shows "wealth X es' = wealth X es \<and> lt_ok es'"
proof -
  obtain storage msg es1 full es2 r where st: "storage_phase X False None es = (Inr (storage, msg), es1)"
    and comp: "compute_phase A L X D (TxTickTock tock) (storage_fees_collected storage) False es1 = (Inr full, es2)"
    and act: "act_on_success A L X inspect None full es2 = (Inr r, es')"
    using assms(1) by (auto simp: run_tick_tock_transaction_def ex_run ensure_def split: if_split_asm)
  note s = storage_phase_wealth[OF st] and q = quiet_wealth(1)[where X = X, OF quietlyD[OF compute_phase_quiet comp]]
    quiet_wealth(2-5)[OF quietlyD[OF compute_phase_quiet comp]]
  with act_on_success_wealth[OF act] assms(2,3) show ?thesis by simp
qed

end

lemma begin_account_Inr:
  assumes "begin_account ps cfg ex addr acc = Inr es"
  shows "burned es = 0" "total_fees es = 0" "out_msgs es = []" "lt_ok es"
    "balance es = (case acc of Some a \<Rightarrow> acc_balance a | None \<Rightarrow> cc_zero)"
    "wealth X es = (case acc of Some a \<Rightarrow> tokens (acc_balance a) | None \<Rightarrow> 0)"
  using assms
  by (auto simp: begin_account_def Let_def lt_ok_def add_u64_def wealth_def cc_zero_def split: option.splits if_splits)

end
