(* ===== verification/StorageUsed.thy ===== *)
theory StorageUsed
  imports Transactions CellSpec
begin

text \<open>
  The numbers \<open>compute_storage_used\<close> (\<open>executor/src/lib.rs\<close>) keeps of an account against the set of its
  cells. The count goes on from the cells visited when a state was last checked against its limits; these are
  shown to be the cells of that state whatever the transaction does, and the numbers to be exact exactly when
  they are taken over from the previous account or the state checked is part of the storage.
\<close>

section \<open>The storage an account uses\<close>

text \<open>
  The cells below a slice, and the numbers for a set of cells: every cell once, the root of the account for one
  more. They are exact when the cells are those below the storage.
\<close>

definition below :: "('c, 's, 'b) cell_lib \<Rightarrow> 's \<Rightarrow> 'c set" where
  "below L cs = (\<Union>c \<in> set (sl_references L cs). reach L c)"

definition used_for ::
    "('c, 's) api \<Rightarrow> ('c, 's, 'b) exec_lib \<Rightarrow> 's \<Rightarrow> 'c set \<Rightarrow> storage_used \<Rightarrow> bool" where
  "used_for A X cs U us \<longleftrightarrow> used_cells us = 1 + card U \<and> used_bits us = slice_size_bits A cs + sum (cell_bit_len X) U"

definition exact_used ::
    "('c, 's) api \<Rightarrow> ('c, 's, 'b) cell_lib \<Rightarrow> ('c, 's, 'b) exec_lib \<Rightarrow> 's \<Rightarrow> storage_used \<Rightarrow> bool" where
  "exact_used A L X cs us \<longleftrightarrow> used_for A X cs (below L cs) us"

text \<open>Cells that can be counted: below \<open>u32\<close> and free of Merkle cells.\<close>

definition countable_cells ::
    "('c, 's) api \<Rightarrow> ('c, 's, 'b) cell_lib \<Rightarrow> ('c, 's, 'b) exec_lib \<Rightarrow> 's \<Rightarrow> 'c set \<Rightarrow> bool" where
  "countable_cells A L X cs U \<longleftrightarrow> tree_cells A L U \<and> finite U \<and> card U \<le> U32_MAX \<and> sum (cell_bit_len X) U \<le> U32_MAX \<and>
     slice_size_bits A cs \<le> MAX_BITS \<and> (\<forall>c \<in> U. \<not> is_merkle A c)"

text \<open>
  Where the cells visited before come from: from nothing, or from the check of the limits of a state, which visits
  all cells of its code, data and libraries.
\<close>

definition state_cells :: "('c, 's, 'b) cell_lib \<Rightarrow> 'c state_init \<Rightarrow> 'c set" where
  "state_cells L st = (\<Union>c \<in> set (opt_list (si_code st) @ opt_list (si_data st) @ opt_list (si_libraries st)). reach L c)"

definition cache_of ::
    "('c, 's) api \<Rightarrow> ('c, 's, 'b) cell_lib \<Rightarrow> ('c, 's, 'b) exec_lib \<Rightarrow> ext_storage_stat option \<Rightarrow> 'c set \<Rightarrow> bool" where
  "cache_of A L X cache S \<longleftrightarrow> cache = None \<and> S = {} \<or>
     (\<exists>st limits libs old. check_state_limits A L X st limits libs old = (Fits, cache) \<and> S = state_cells L st)"

text \<open>The previous numbers are taken over.\<close>

definition taken_over ::
    "('c, 's) api \<Rightarrow> ('c, 's, 'b) cell_lib \<Rightarrow> ('c, 's, 'b) tx_lib \<Rightarrow> bool \<Rightarrow> (storage_used \<times> 's) option \<Rightarrow> 's \<Rightarrow> bool" where
  "taken_over A L T without_extra prev cs \<longleftrightarrow> (\<exists>us0 prev0 prev1. prev = Some (us0, prev0) \<and>
     (if without_extra then skip_extra A T prev0 else Inr prev0) = Inr prev1 \<and> can_reuse A L us0 prev1 cs)"

lemma foldl_add_cells:
  "fst (add_cells A L X cs s) \<Longrightarrow> foldl (\<lambda>s c. snd (add_cell A L X c s)) s cs = snd (add_cells A L X cs s)"
  by (induction cs arbitrary: s) (auto split: prod.splits bool.splits)

text \<open>Without Merkle cells the visited cells have no Merkle depth.\<close>

lemma merkle_free:
  "add_cell_impl A L X n c s = (Inr d, t) \<Longrightarrow> no_merkle s \<Longrightarrow> \<forall>e \<in> reach L c. \<not> is_merkle A e \<Longrightarrow> no_merkle t \<and> d = 0"
  "add_refs A L X n cs m s = (Inr d, t) \<Longrightarrow> no_merkle s \<Longrightarrow> \<forall>c \<in> set cs. \<forall>e \<in> reach L c. \<not> is_merkle A e \<Longrightarrow> m = 0 \<Longrightarrow>
     no_merkle t \<and> d = 0"
proof (induction A L X n c and A L X n cs m arbitrary: s d t and s d t rule: add_cell_impl_add_refs.induct)
  case (2 A L X n c)
  show ?case
  proof (cases "visited s (cell_repr_hash A c)")
    case (Some d0)
    then show ?thesis using "2.prems" by (auto simp: no_merkle_def)
  next
    case None
    then obtain s1 m s2 where r1: "count_cell X c s = (Inr (), s1)"
      and r2: "add_refs A L X n (cl_references L c) 0 s1 = (Inr m, s2)" and r3: "finish_cell A c m s2 = (Inr d, t)"
      using "2.prems"(1) by (auto simp: bnd_eq_Inr_iff thn_eq_Inr_iff)
    have "no_merkle s1" using r1 "2.prems"(2) by (auto simp: count_cell_eq no_merkle_def)
    moreover have "\<forall>d \<in> set (cl_references L c). \<forall>e \<in> reach L d. \<not> is_merkle A e" "\<not> is_merkle A c"
      using "2.prems"(3) reach_unfold[of L c] by auto
    ultimately have "no_merkle s2" "m = 0" using "2.IH"[OF r2 _ _ refl] by auto
    then show ?thesis
      using r3 \<open>\<not> is_merkle A c\<close>
      by (auto simp: finish_cell_def act_defs Let_def no_merkle_def split: if_splits)
  qed
next
  case (4 A L X n c cs m)
  then obtain d1 s1 where run: "add_cell_impl A L X n c s = (Inr d1, s1)" "add_refs A L X n cs (max d1 m) s1 = (Inr d, t)"
    by (auto simp: bnd_eq_Inr_iff)
  have "no_merkle s1 \<and> d1 = 0" using "4.IH"(1)[OF run(1) "4.prems"(2)] "4.prems"(3) by simp
  then show ?case using "4.IH"(2)[OF run(2)] "4.prems"(3,4) by simp
qed auto

lemma add_cells_merkle_free:
  "add_cells A L X cs s = (True, t) \<Longrightarrow> no_merkle s \<Longrightarrow> \<forall>c \<in> set cs. \<forall>e \<in> reach L c. \<not> is_merkle A e \<Longrightarrow> no_merkle t"
proof (induction cs arbitrary: s)
  case (Cons c cs)
  then obtain s1 where r: "add_cell A L X c s = (True, s1)" "add_cells A L X cs s1 = (True, t)"
    by (auto split: prod.splits bool.splits)
  obtain d where d: "add_cell_impl A L X (Suc (cell_repr_depth A c)) c s = (Inr d, s1)"
    using r(1) unfolding add_cell_Inr by blast
  have "no_merkle s1" using merkle_free(1)[OF d Cons.prems(2)] Cons.prems(3) by simp
  then show ?case using Cons.IH[OF r(2)] Cons.prems(3) by simp
qed simp

lemma check_fits:
  assumes "check_state_limits A L X st limits libs old = (Fits, cache)"
  obtains s where "cache = Some s"
    "add_cells A L X (opt_list (si_code st) @ opt_list (si_data st) @ opt_list (si_libraries st))
      (stat_with_limits (max_acc_state_bits limits) (max_acc_state_cells limits)) = (True, s)"
proof -
  obtain ok s where "add_cells A L X (opt_list (si_code st) @ opt_list (si_data st) @ opt_list (si_libraries st))
      (stat_with_limits (max_acc_state_bits limits) (max_acc_state_cells limits)) = (ok, s)" by fastforce
  with assms that show thesis by (cases ok) (auto simp: check_state_limits_def split: if_splits)
qed

lemma cache_counts:
  assumes "cache_of A L X cache S" and "countable_cells A L X cs U" and "S \<subseteq> U"
  shows "counts A L X U 0 0 S (set_unlimited (case cache of Some s \<Rightarrow> s | None \<Rightarrow> stat_unlimited)) \<and>
    no_merkle (set_unlimited (case cache of Some s \<Rightarrow> s | None \<Rightarrow> stat_unlimited))"
proof (cases cache)
  case None
  moreover have "S = {}"
    using assms(1) None by (auto simp: cache_of_def elim: check_fits)
  ultimately show ?thesis
    by (simp add: counts_def no_merkle_def set_unlimited_def stat_unlimited_def stat_with_limits_def)
next
  case (Some s)
  then obtain st limits libs old where st: "S = state_cells L st" "check_state_limits A L X st limits libs old = (Fits, Some s)"
    using assms(1) by (auto simp: cache_of_def)
  let ?roots = "opt_list (si_code st) @ opt_list (si_data st) @ opt_list (si_libraries st)"
  have run: "add_cells A L X ?roots (stat_with_limits (max_acc_state_bits limits) (max_acc_state_cells limits)) = (True, s)"
    using st(2) by (auto elim: check_fits)
  have S: "S = (\<Union>c \<in> set ?roots. reach L c)" using st(1) by (simp add: state_cells_def)
  have "set ?roots \<subseteq> U" using assms(3) S reach_root[of _ L] by blast
  then have "counts A L X U 0 0 S s"
    using add_cells_counts[OF _ _ fresh_counts(1) run, of U] assms(2) S by (simp add: countable_cells_def)
  moreover have "\<forall>c \<in> set ?roots. \<forall>e \<in> reach L c. \<not> is_merkle A e"
    using assms(2,3) S unfolding countable_cells_def by blast
  then have "no_merkle s" by (rule add_cells_merkle_free[OF run fresh_counts(2)])
  ultimately show ?thesis using Some by (simp add: counts_def no_merkle_def set_unlimited_def)
qed

lemma recompute_used_counts:
  assumes "cache_of A L X cache S" and "countable_cells A L X cs (S \<union> below L cs)"
  shows "used_for A X cs (S \<union> below L cs) (fst (recompute_used A L X cs cache))"
proof -
  let ?s = "set_unlimited (case cache of Some s \<Rightarrow> s | None \<Rightarrow> stat_unlimited)" and ?U = "S \<union> below L cs"
  let ?refs = "sl_references L cs"
  have s: "counts A L X ?U 0 0 S ?s" "no_merkle ?s" using cache_counts[OF assms Un_upper1] by simp_all
  have U: "tree_cells A L ?U" "set ?refs \<subseteq> ?U" "S \<union> (\<Union>c \<in> set ?refs. reach L c) = ?U"
    using assms(2) reach_root[of _ L] by (auto simp: countable_cells_def below_def)
  have "within_limits X 0 0 ?U ?s"
    using assms(2) by (simp add: countable_cells_def within_limits_def set_unlimited_def)
  then have "fst (add_cells A L X ?refs ?s)"
    using add_cells_clean[OF U(1,2) s(1) _ s(2)] assms(2) U(3) by (auto simp: countable_cells_def)
  then obtain t where t: "add_cells A L X ?refs ?s = (True, t)" by (metis prod.collapse)
  have "counts A L X ?U 0 0 ?U t" using add_cells_counts[OF U(1,2) s(1) t] U(3) by simp
  then show ?thesis
    using assms(2) t foldl_add_cells[of A L X ?refs ?s]
    by (simp add: used_for_def recompute_used_def Let_def new_varuint56_truncate_def counts_def countable_cells_def
        U32_MAX_def MAX_BITS_def)
qed

lemma reuse_exact:
  assumes "can_reuse A L us prev cs" and "exact_used A L X prev us" and "countable_cells A L X cs (S \<union> below L cs)"
    and "\<And>k. slice_size_refs A k = length (sl_references L k)"
  shows "exact_used A L X cs (us\<lparr>used_bits := new_varuint56_truncate (used_bits us - slice_size_bits A prev + slice_size_bits A cs)\<rparr>)"
proof -
  have "sl_references L prev = sl_references L cs"
    using assms(1,4) by (simp add: can_reuse_def list_eq_iff_zip_eq list_all_iff)
  then have "below L prev = below L cs" by (simp add: below_def)
  moreover have "sum (cell_bit_len X) (below L cs) \<le> sum (cell_bit_len X) (S \<union> below L cs)"
    using assms(3) by (intro sum_mono2) (auto simp: countable_cells_def)
  ultimately show ?thesis
    using assms(2,3)
    by (simp add: exact_used_def used_for_def countable_cells_def new_varuint56_truncate_def U32_MAX_def MAX_BITS_def)
qed

lemma map_sum_Inr: "map_sum id g r = Inr y \<longleftrightarrow> (\<exists>x. r = Inr x \<and> y = g x)"
  by (cases r) auto

lemma used_for_exact:
  assumes "used_for A X cs (S \<union> below L cs) us" and "finite (S \<union> below L cs)"
  shows "exact_used A L X cs us \<longleftrightarrow> S \<subseteq> below L cs"
proof
  assume "exact_used A L X cs us"
  then have "card (below L cs) = card (S \<union> below L cs)" using assms(1) by (simp add: exact_used_def used_for_def)
  then show "S \<subseteq> below L cs" using card_subset_eq[OF assms(2), of "below L cs"] by blast
next
  assume "S \<subseteq> below L cs"
  then have "S \<union> below L cs = below L cs" by blast
  then show "exact_used A L X cs us" using assms(1) by (simp add: exact_used_def)
qed

lemma compute_storage_used_outcome:
  assumes run: "compute_storage_used A L X T prev new cache without_extra = Inr (us, cache')"
    and storage: "(if without_extra then skip_extra A T new else Inr new) = Inr cs"
    and cache: "cache_of A L X cache S" "countable_cells A L X cs (S \<union> below L cs)"
    and refs: "\<And>k. slice_size_refs A k = length (sl_references L k)"
    and prev: "\<And>us0 prev0 prev1. prev = Some (us0, prev0) \<Longrightarrow>
      (if without_extra then skip_extra A T prev0 else Inr prev0) = Inr prev1 \<Longrightarrow> exact_used A L X prev1 us0"
  shows "(if taken_over A L T without_extra prev cs then exact_used A L X cs us
      else used_for A X cs (S \<union> below L cs) us) \<and>
    (exact_used A L X cs us \<longleftrightarrow> taken_over A L T without_extra prev cs \<or> S \<subseteq> below L cs)"
proof (cases "taken_over A L T without_extra prev cs")
  case True
  then obtain us0 prev0 prev1 where p: "prev = Some (us0, prev0)"
    "(if without_extra then skip_extra A T prev0 else Inr prev0) = Inr prev1" "can_reuse A L us0 prev1 cs"
    by (auto simp: taken_over_def)
  then have "us = us0\<lparr>used_bits := new_varuint56_truncate (used_bits us0 - slice_size_bits A prev1 + slice_size_bits A cs)\<rparr>"
    using run storage by (simp add: compute_storage_used_def Let_def)
  then show ?thesis using reuse_exact[OF p(3) prev[OF p(1,2)] cache(2) refs] True by simp
next
  case False
  then have "us = fst (recompute_used A L X cs cache)"
    using run storage
    by (auto simp: taken_over_def compute_storage_used_def Let_def map_sum_Inr
        split: option.split_asm sum.split_asm prod.split_asm if_split_asm)
  then have u: "used_for A X cs (S \<union> below L cs) us" using recompute_used_counts[OF cache] by simp
  then show ?thesis using used_for_exact[OF u] cache(2) False by (auto simp: countable_cells_def)
qed

section \<open>Where the cells visited before come from\<close>

text \<open>
  Every phase keeps the visited cells those of one checked state: only the check of the limits of the state a
  message brings and of the state the actions leave sets them, and deleting the account drops them. The other
  phases do not touch them.
\<close>

definition has_source ::
    "('c, 's) api \<Rightarrow> ('c, 's, 'b) cell_lib \<Rightarrow> ('c, 's, 'b) exec_lib \<Rightarrow> ('c, 's) exec_state \<Rightarrow> bool" where
  "has_source A L X es \<longleftrightarrow> (\<exists>S. cache_of A L X (cached_storage_stat es) S)"

interpretation sourced: action_invariant "\<lambda>_ :: unit. has_source A L X" "\<lambda>_ _ _. True" "\<lambda>_. True"
  for A :: "('c, 's) api" and L :: "('c, 's, 'b) cell_lib" and X :: "('c, 's, 'b) exec_lib"
  by unfold_locales simp

abbreviation keeps_source ::
    "('c, 's) api \<Rightarrow> ('c, 's, 'b) cell_lib \<Rightarrow> ('c, 's, 'b) exec_lib \<Rightarrow> (('c, 's) exec_state, 'e, 'a) act \<Rightarrow> bool" where
  "keeps_source A L X \<equiv> upholds (\<lambda>_ :: unit. has_source A L X) (\<lambda>_ _ _. True)"

named_theorems source_rules \<open>actions that keep the source of the visited cells\<close>

lemmas sourced.upholds_rules [source_rules] sourced.upholds_fail [OF TrueI, source_rules]
  sourced.upholds_ensure [OF TrueI, source_rules]

lemma source_lift [source_rules]:
  "keeps_source A L X (ex_lift r)" "keeps_source A L X (ex_fail msg)" "keeps_source A L X (ex_ensure b msg)"
  by (simp_all add: ex_lift_def ex_fail_def ex_ensure_def sourced.upholds_lift_res sourced.upholds_fail sourced.upholds_ensure)

lemma source_modify [source_rules]:
  "(\<And>es. cached_storage_stat (f es) = cached_storage_stat es) \<Longrightarrow> keeps_source A L X (modify f)"
  by (rule sourced.upholds_modify) (simp add: has_source_def)

lemma source_fees [source_rules]: "keeps_source A L X (add_fees X fee)" "keeps_source A L X (set_balance b)"
  unfolding add_fees_def set_balance_def by (intro source_rules; simp)+

lemma check_source:
  assumes "check_state_limits A L X st limits libs cache = (res, cache')" and "cache_of A L X cache S"
  shows "\<exists>S'. cache_of A L X cache' S'"
proof (cases "res = Fits")
  case True
  then show ?thesis using assms(1) unfolding cache_of_def by blast
next
  case False
  then have "cache' = cache" using assms(1) by (auto simp: check_state_limits_def split: prod.split_asm bool.split_asm if_split_asm)
  then show ?thesis using assms(2) by blast
qed

lemma check_diff_source:
  assumes "check_state_limits_diff A L X st0 st limits mc cache = (res, cache')" and "cache_of A L X cache S"
  shows "\<exists>S'. cache_of A L X cache' S'"
  using assms by (auto simp: check_state_limits_diff_def Let_def dest: check_source split: if_split_asm)

lemma use_msg_state_source [source_rules]: "keeps_source A L X (use_msg_state A L X from_msg st)"
  by (rule upholdsI)
    (auto simp: use_msg_state_def ex_run has_source_def dest: check_diff_source split: if_split_asm prod.split_asm)

lemma select_state_source [source_rules]: "keeps_source A L X (select_state A L X init external st)"
  unfolding select_state_def by (auto intro!: source_rules split: option.split account_state.split)

lemma finish_compute_source [source_rules]: "keeps_source A L X (finish_compute X force_accept g msu res exit vm)"
  unfolding finish_compute_def charge_gas_def Let_def by (intro source_rules; simp)

lemma run_vm_source [source_rules]: "keeps_source A L X (run_vm A L X D input force_accept g v fee res run)"
  unfolding run_vm_def by (intro source_rules)

lemma compute_phase_source [source_rules]: "keeps_source A L X (compute_phase A L X D input fee force_accept)"
  unfolding compute_phase_def Let_def
  by (intro source_rules) (auto intro!: source_rules split: option.split sum.split)

lemma state_limits_source [source_rules]: "keeps_source A L X (state_limits A L X st)"
  by (rule upholdsI)
    (auto simp: state_limits_def ex_run has_source_def Let_def dest: check_source check_diff_source
      split: if_split_asm prod.split_asm account_state.split_asm)

lemma delete_status_source [source_rules]: "keeps_source A L X (modify (delete_status ctx remaining))"
  by (rule sourced.upholds_modify) (auto simp: has_source_def delete_status_def cache_of_def)

lemma apply_fine_source [source_rules]: "keeps_source A L X (apply_fine_on_error X ctx)"
  unfolding apply_fine_on_error_def Let_def by (intro source_rules)

lemma actions_failed_source [source_rules]: "keeps_source A L X (actions_failed X ctx)"
  unfolding actions_failed_def Let_def by (intro source_rules)

lemma actions_done_source [source_rules]: "keeps_source A L X (actions_done X inspect ctx)"
  unfolding actions_done_def done_fees_def Let_def by (intro source_rules; simp)

lemma run_action_list_source [source_rules]: "keeps_source A L X (run_action_list A L X inspect start acts)"
  unfolding run_action_list_def
  by (auto intro!: source_rules split: sum.split prod.split action_error.split)

lemma action_phase_source [source_rules]:
  "keeps_source A L X (action_phase A L X inspect received orig st actions gas_fees)"
  unfolding action_phase_def Let_def
  by (auto intro!: source_rules split: sum.split)

lemma receive_in_msg_source [source_rules]: "keeps_source A L X (receive_in_msg A L X msg_root)"
  unfolding receive_in_msg_def receive_header_def receive_internal_def receive_external_def receive_init_def
    receive_init_ref_def receive_init_inline_def receive_body_def receive_blackhole_def check_message_dst_def Let_def
  by (auto intro!: source_rules split: msg_info.split int_addr.split)

lemma credit_phase_source [source_rules]: "keeps_source A L X (credit_phase X msg)"
  unfolding credit_phase_def by (intro source_rules)

lemma storage_phase_source [source_rules]: "keeps_source A L X (storage_phase X adjust received)"
proof -
  have "keeps_source A L X (\<lambda>es. apfst Inr (collect_storage to_pay es))" for to_pay
    by (rule upholdsI)
      (auto simp: has_source_def collect_storage_def Let_def split: if_split_asm option.split_asm)
  moreover have "cached_storage_stat (apply_status_change ch es) = cached_storage_stat es" for ch es
    by (simp add: apply_status_change_def split: account_status_change.split)
  ultimately show ?thesis unfolding storage_phase_def by (auto intro!: source_rules)
qed

lemma bounce_phase_source [source_rules]: "keeps_source A L X (bounce_phase A L X gas_fees fine msg)"
  unfolding bounce_phase_def bounce_internal_def bounce_full_body_def bounce_priced_def bounce_send_def bounce_message_def
    place_bounce_body_def store_bounce_body_def Let_def
  by (auto intro!: source_rules split: msg_info.split option.split bool.split)

lemma fatal_source [source_rules]: "keeps_source A L X m \<Longrightarrow> keeps_source A L X (fatal m)"
  by (rule upholdsI) (auto simp: fatal_def zoom_def dest: upholds_InrD split: prod.split_asm sum.split_asm)

lemma receive_tx_source [source_rules]: "keeps_source A L X (receive_tx_msg A L X is_external msg_root)"
  by (rule upholdsI)
    (auto simp: receive_tx_msg_def dest: upholds_InrD[OF receive_in_msg_source] split: prod.split_asm sum.split_asm if_split_asm)

lemma credit_and_storage_source [source_rules]: "keeps_source A L X (credit_and_storage X is_external msg)"
  unfolding credit_and_storage_def credit_if_internal_def by (intro source_rules)

lemma act_on_success_source [source_rules]: "keeps_source A L X (act_on_success A L X inspect msg full)"
  unfolding act_on_success_def by (intro source_rules)

lemma bounce_if_needed_source [source_rules]: "keeps_source A L X (bounce_if_needed A L X msg cph apf)"
  unfolding bounce_if_needed_def by (intro source_rules)

text \<open>The visited cells after a transaction are those of one checked state, or there are none.\<close>

lemma begin_source: "begin_account ps cfg ex addr acc = Inr es \<Longrightarrow> has_source A L X es"
  by (auto simp: begin_account_def has_source_def cache_of_def Let_def split: option.split_asm if_split_asm)

lemma ordinary_source: "keeps_source A L X (run_ordinary_transaction A L X D inspect is_external msg_root)"
  unfolding run_ordinary_transaction_def by (intro source_rules)

lemma tick_tock_source: "keeps_source A L X (run_tick_tock_transaction A L X D inspect tock)"
  unfolding run_tick_tock_transaction_def by (intro source_rules)

end
