(* ===== verification/AppSpec.thy ===== *)
theory AppSpec
  imports AppTables StorageStat CellSpec
begin

text \<open>
  What the application-specific instructions promise: global variables, the random generator,
  failed insertions, and the size of a tree against the set of its cells.
\<close>

section \<open>Global variables\<close>

text \<open>A global variable beyond the end of the tuple in \<open>c7\<close>, or without a tuple, is null.\<close>

definition tuple_at :: "('c, 's, 'b) sval list option \<Rightarrow> nat \<Rightarrow> ('c, 's, 'b) sval" where
  "tuple_at t i = (case t of None \<Rightarrow> VNull | Some xs \<Rightarrow> if i < length xs then xs ! i else VNull)"

lemma set_global_tuple_at:
  "tuple_at (case set_global_tuple c7 i v of None \<Rightarrow> c7 | Some t \<Rightarrow> Some t) j =
     (if j = i then v else tuple_at c7 j)"
  by (auto simp: set_global_tuple_def tuple_at_def is_null_iff resize_def nth_append nth_list_update
      simp del: replicate.simps split: option.splits)

lemma set_global_tuple_len:
  "set_global_tuple c7 i v = Some t \<Longrightarrow> length t = (case c7 of None \<Rightarrow> Suc i | Some xs \<Rightarrow> max (Suc i) (length xs))"
  by (auto simp: set_global_tuple_def resize_def simp del: replicate.simps split: option.splits if_splits)

lemma set_global_ok:
  assumes "stack st = xs @ [v]" and "i < 255" and "gas_wf (gas st)" and "255 \<le> gas_remaining (gas st)"
    and "\<And>t. reg_c7 (cr st) = Some t \<Longrightarrow> length t \<le> 255"
  shows "\<exists>r g. exec_set_global i st = (Inr 0, st\<lparr>stack := xs, cr := r, gas := g\<rparr>) \<and>
    (\<forall>j. tuple_at (reg_c7 r) j = (if j = i then v else tuple_at (reg_c7 (cr st)) j)) \<and>
    gas_remaining (gas st) - 255 \<le> gas_remaining g"
proof -
  let ?t = "set_global_tuple (reg_c7 (cr st)) i v"
  have charge: "on_gas (try_consume_tuple_gas n) s =
      (Inr (), s\<lparr>gas := (gas s)\<lparr>gas_remaining := gas_remaining (gas s) - int n\<rparr>\<rparr>)"
    if "n \<le> 255" "gas s = gas st" for n and s :: "('a, 'b, 'c) vm_state"
    using charge_tuple_ok[of s n] that assms(3,4) by (simp add: charge_tuple_def)
  show ?thesis
  proof (cases ?t)
    case None
    then show ?thesis
      using assms(1,2) charge[of 0] set_global_tuple_at[of "reg_c7 (cr st)" i v]
      by (auto simp: exec_set_global_def set_global_common_def intro!: exI[of _ "cr st"] exI[of _ "gas st"])
  next
    case (Some t)
    then have n: "length t \<le> 255"
      using set_global_tuple_len[OF Some] assms(2,5) by (auto split: option.splits)
    then show ?thesis
      using assms(1,2) Some charge[OF n] set_global_tuple_at[of "reg_c7 (cr st)" i v]
      by (auto simp: exec_set_global_def set_global_common_def intro!: exI[of _ "set_c7 t (cr st)"])
  qed
qed

lemma get_global_ok:
  assumes "length (stack st) < MAX_DEPTH"
  shows "exec_get_global i st = (Inr 0, st\<lparr>stack := stack st @ [tuple_at (reg_c7 (cr st)) i]\<rparr>)"
  using assms by (auto simp: exec_get_global_def get_global_common_def tuple_at_def push_opt_raw_def push_null_def
      depth_def split: option.split)

section \<open>The random generator\<close>

text \<open>What is assumed of the hash function and of the conversion of bytes: 64 bytes, read in order.\<close>

definition sha512_bytes :: "('c, 's, 'b) instr_lib \<Rightarrow> bool" where
  "sha512_bytes M \<longleftrightarrow> (\<forall>bs. length (sha512 M bs) = 64 \<and> (\<forall>b \<in> set (sha512 M bs). b < 256))"

definition reads_be :: "('c, 's, 'b) cell_lib \<Rightarrow> bool" where
  "reads_be L \<longleftrightarrow> bi_from_bytes_be L = bytes_value"

lemma bytes_value_less: "(\<forall>b \<in> set bs. b < 256) \<Longrightarrow> bytes_value bs < 256 ^ length bs"
proof (induction bs rule: rev_induct)
  case (snoc b bs)
  then have "256 * bytes_value bs + b < 256 * bytes_value bs + 256" by simp
  also have "\<dots> \<le> 256 * 256 ^ length bs" using snoc by (simp flip: mult_Suc_right)
  finally show ?case by (simp add: bytes_value_def)
qed (simp add: bytes_value_def)

lemma scaled_bounds:
  fixes x r :: int
  assumes "0 \<le> r" and "r < 2 ^ n"
  shows "0 < x \<Longrightarrow> 0 \<le> drop_bit n (x * r) \<and> drop_bit n (x * r) < x"
    and "x \<le> 0 \<Longrightarrow> x \<le> drop_bit n (x * r) \<and> drop_bit n (x * r) \<le> 0"
proof -
  let ?q = "x * r div 2 ^ n"
  have q: "?q * 2 ^ n \<le> x * r" by (simp flip: minus_mod_eq_div_mult)
  show "0 \<le> drop_bit n (x * r) \<and> drop_bit n (x * r) < x" if x: "0 < x"
  proof -
    have "?q * 2 ^ n < x * 2 ^ n" using q x assms by (smt (verit) mult_strict_left_mono)
    then show ?thesis using x assms(1) by (simp add: drop_bit_eq_div pos_imp_zdiv_nonneg_iff)
  qed
  show "x \<le> drop_bit n (x * r) \<and> drop_bit n (x * r) \<le> 0" if x: "x \<le> 0"
  proof -
    have "x * 2 ^ n \<le> x * r" "x * r \<le> 0" using x assms by (auto intro: mult_left_mono_neg mult_nonpos_nonneg)
    then show ?thesis using zdiv_mono1[of "x * 2 ^ n" "x * r" "2 ^ n"] by (simp add: drop_bit_eq_div div_nonpos_pos_le0)
  qed
qed

lemma store_items_ok:
  assumes "gas_wf (gas st)" and "length t1 \<le> 255" and "length c7 \<le> 255" and "510 \<le> gas_remaining (gas st)"
  shows "store_items c7 t1 st = (Inr (), st\<lparr>cr := set_c7 (c7[0 := VTuple t1]) (cr st),
    gas := (gas st)\<lparr>gas_remaining := gas_remaining (gas st) - int (length t1) - int (length c7)\<rparr>\<rparr>)"
proof -
  have charge: "on_gas (try_consume_tuple_gas n) s =
      (Inr (), s\<lparr>gas := (gas s)\<lparr>gas_remaining := gas_remaining (gas s) - int n\<rparr>\<rparr>)"
    if "int n \<le> gas_remaining (gas s)" "gas_wf (gas s)" for n and s :: "('a, 'b, 'c) vm_state"
    using charge_tuple_ok[of s n] that by (simp add: charge_tuple_def)
  have "gas_wf ((gas st)\<lparr>gas_remaining := gas_remaining (gas st) - int (length t1)\<rparr>)"
    using assms by (simp add: gas_wf_def machine_bounds)
  then show ?thesis using assms by (simp add: store_items_def charge)
qed

text \<open>One turn of the generator: half of the digest of the seed is the new seed, the other half the output.\<close>

lemma generate_random_ok:
  assumes "reg_c7 (cr st) = Some (VTuple t1 # rest)" and "6 < length t1" and "length t1 \<le> 255"
    and "length rest < 255" and "t1 ! 6 = VInt seed" and "0 \<le> seed"
    and "gas_wf (gas st)" and "510 \<le> gas_remaining (gas st)"
  shows "\<exists>g. generate_random_u256 L M st =
      (Inr (drop 32 (sha512 M (pad_left 32 (magnitude_be L seed)))),
       st\<lparr>cr := set_c7 (VTuple (t1[6 := VInt (int (bi_from_bytes_be L
           (take 32 (sha512 M (pad_left 32 (magnitude_be L seed))))))]) # rest) (cr st), gas := g\<rparr>)"
  using assms
  by (simp add: generate_random_u256_def c7_with_items_def seed_bytes_def to_bytes_be_def as_tuple_range_def
      as_tuple_def RANDSEED_IDX_def Let_def store_items_ok)
    (rule exI, rule refl)

lemma rand_int_ok:
  assumes "sha512_bytes M" and "reads_be L" and "stack st = xs @ [VInt x]" and "length xs < MAX_DEPTH"
    and "reg_c7 (cr st) = Some (VTuple t1 # rest)" and "6 < length t1" and "length t1 \<le> 255"
    and "length rest < 255" and "t1 ! 6 = VInt seed" and "0 \<le> seed"
    and "gas_wf (gas st)" and "510 \<le> gas_remaining (gas st)"
  shows "\<exists>y seed' g. exec_rand_int L M st = (Inr 0, st\<lparr>stack := xs @ [VInt y],
       cr := set_c7 (VTuple (t1[6 := VInt seed']) # rest) (cr st), gas := g\<rparr>) \<and>
     (0 < x \<longrightarrow> 0 \<le> y \<and> y < x) \<and> (x \<le> 0 \<longrightarrow> x \<le> y \<and> y \<le> 0) \<and> 0 \<le> seed' \<and> seed' < 2 ^ 256"
proof -
  let ?h = "sha512 M (pad_left 32 (magnitude_be L seed))"
  have h: "length ?h = 64" "\<forall>b \<in> set ?h. b < 256" using assms(1) by (simp_all add: sha512_bytes_def)
  have "bytes_value bs < 2 ^ 256" if "length bs = 32" "set bs \<subseteq> set ?h" for bs
    using bytes_value_less[of bs] that h(2) by (auto simp: subset_iff)
  then have b: "bytes_value (take 32 ?h) < 2 ^ 256" "bytes_value (drop 32 ?h) < 2 ^ 256"
    using h(1) set_take_subset[of 32 ?h] set_drop_subset[of 32 ?h] by simp_all
  let ?r = "int (bytes_value (drop 32 ?h))"
  have r: "0 \<le> ?r" "?r < 2 ^ 256" using b(2) by (simp_all flip: of_nat_less_iff)
  obtain g where g: "generate_random_u256 L M (st\<lparr>stack := xs\<rparr>) = (Inr (drop 32 ?h),
      st\<lparr>stack := xs, cr := set_c7 (VTuple (t1[6 := VInt (int (bytes_value (take 32 ?h)))]) # rest) (cr st), gas := g\<rparr>)"
    using generate_random_ok[of "st\<lparr>stack := xs\<rparr>" t1 rest seed L M] assms by (auto simp: reads_be_def)
  have "exec_rand_int L M st = (Inr 0, st\<lparr>stack := xs @ [VInt (drop_bit 256 (x * ?r))],
       cr := set_c7 (VTuple (t1[6 := VInt (int (bytes_value (take 32 ?h)))]) # rest) (cr st), gas := g\<rparr>)"
    using assms(2-4) g by (simp add: exec_rand_int_def reads_be_def depth_def)
  moreover have "int (bytes_value (take 32 ?h)) < 2 ^ 256" using b(1) by (simp flip: of_nat_less_iff)
  ultimately show ?thesis using scaled_bounds[OF r, of x] by (metis of_nat_0_le_iff)
qed

section \<open>Failed insertions\<close>

text \<open>The value of an optional root on the stack.\<close>

definition root_value :: "'c option \<Rightarrow> ('c, 's, 'b) sval" where
  "root_value d = (case d of None \<Rightarrow> VNull | Some c \<Rightarrow> VCell c)"

lemma pop_root: "pop_cell_opt (xs @ [root_value d]) = (Inr d, xs)"
  by (cases d) (simp_all add: pop_cell_opt_def root_value_def is_null_iff into_cell_def)

lemma push_root: "length xs < MAX_DEPTH \<Longrightarrow> push_opt_cell d xs = (Inr (), xs @ [root_value d])"
  by (cases d) (simp_all add: push_opt_cell_def push_opt_raw_def push_null_def root_value_def depth_def)

lemma dict_set_fails:
  assumes "stack st = ys @ [root_value d, VInt (int n)]" and "n \<le> 1023"
    and "pop_key L M (da_is_int s) (da_is_signed s) n ys = (Inr key, xs @ [v])"
    and "value_to_store M b (da_is_ref s) v = Inr item"
    and "run_ctx A L (dict_insert M d key n item mode) (gas st) = (Inl e, g)"
    and "length xs + 2 \<le> MAX_DEPTH"
  shows "exec_dict_set A L M s b mode st =
    (if mode = SetSet then (Inl (cell_fault e), st\<lparr>stack := xs @ [root_value d], gas := g\<rparr>)
     else (Inr 0, st\<lparr>stack := xs @ [root_value d, VInt 0], gas := g\<rparr>))"
proof -
  have p: "pop_smallint_range 0 1023 (ys @ [root_value d, VInt (int n)]) = (Inr n, ys @ [root_value d])"
    using assms(2) by (simp add: pop_smallint_under)
  show ?thesis
    using assms p pop_root[of ys d] push_root[of xs d]
    by (simp add: exec_dict_set_def attempt_def push_bool_def make_bool_def depth_def)
qed

section \<open>The size of a tree\<close>

text \<open>
  The cells below a list of references, and the counters of a traversal that has visited the cells \<open>X\<close>
  and started from \<open>b\<close> bits and \<open>r\<close> references.
\<close>

definition cells_under :: "('c, 's, 'b) cell_lib \<Rightarrow> 'c list \<Rightarrow> 'c set" where
  "cells_under L ks = (\<Union>c \<in> set ks. reach L c)"

definition sized ::
    "('c, 's) api \<Rightarrow> ('c, 's, 'b) cell_lib \<Rightarrow> ('c, 's, 'b) instr_lib \<Rightarrow> nat \<Rightarrow> nat \<Rightarrow> nat \<Rightarrow> 'c set \<Rightarrow> size_stats \<Rightarrow> bool" where
  "sized A L M limit b r X s \<longleftrightarrow> finite X \<and> card X \<le> limit \<and> sz_visited s = cell_repr_hash A ` X \<and>
     sz_cells s = card X \<and> sz_bits s = b + (\<Sum>c \<in> X. bit_len M c) \<and>
     sz_refs s = r + (\<Sum>c \<in> X. length (cl_references L c))"

text \<open>What a traversal of the pending references ends with.\<close>

definition sized_result ::
    "('c, 's) api \<Rightarrow> ('c, 's, 'b) cell_lib \<Rightarrow> ('c, 's, 'b) instr_lib \<Rightarrow> nat \<Rightarrow> nat \<Rightarrow> nat \<Rightarrow> 'c set \<Rightarrow> 'c list
      \<Rightarrow> cell_error + bool \<times> size_stats \<Rightarrow> bool" where
  "sized_result A L M limit b r X ks res = (case res of
      Inl e \<Rightarrow> e = ECancelled
    | Inr (True, s) \<Rightarrow> \<exists>Y. X \<subseteq> Y \<and> Y \<subseteq> X \<union> cells_under L ks \<and> set ks \<subseteq> Y \<and>
        (\<forall>y \<in> Y. set (cl_references L y) \<subseteq> Y) \<and> sized A L M limit b r Y s
    | Inr (False, s) \<Rightarrow> \<exists>Y. finite Y \<and> Y \<subseteq> X \<union> cells_under L ks \<and> limit < card Y)"

lemma sized_result_mono:
  assumes "sized_result A L M limit b r X ks res" and "X' \<subseteq> X" and "X \<union> cells_under L ks \<subseteq> X' \<union> cells_under L ks'"
    and "set ks' \<subseteq> X \<union> set ks"
  shows "sized_result A L M limit b r X' ks' res"
proof (cases res)
  case (Inl e)
  then show ?thesis using assms(1) by (simp add: sized_result_def)
next
  case (Inr p)
  obtain ok s where p: "p = (ok, s)" by fastforce
  show ?thesis
  proof (cases ok)
    case True
    then obtain Y where "X \<subseteq> Y" "Y \<subseteq> X \<union> cells_under L ks" "set ks \<subseteq> Y" "\<forall>y \<in> Y. set (cl_references L y) \<subseteq> Y"
      "sized A L M limit b r Y s"
      using assms(1) Inr p by (auto simp: sized_result_def)
    moreover have "X' \<subseteq> Y" "Y \<subseteq> X' \<union> cells_under L ks'" "set ks' \<subseteq> Y" using assms(2-4) calculation(1-3) by blast+
    ultimately show ?thesis using Inr p True by (auto simp: sized_result_def)
  next
    case False
    then obtain Y where "finite Y" "Y \<subseteq> X \<union> cells_under L ks" "limit < card Y"
      using assms(1) Inr p by (auto simp: sized_result_def)
    moreover have "Y \<subseteq> X' \<union> cells_under L ks'" using assms(3) calculation(2) by blast
    ultimately show ?thesis using Inr p False by (auto simp: sized_result_def)
  qed
qed

lemma load_use_gas_error: "load_cell_impl A LoadUseGas c g = (Inl e, g') \<Longrightarrow> e = ECancelled"
  by (auto simp: load_cell_impl_def load_cell_loop.simps LoadUseGas_def thn_def bnd_def visit_cell_def
      try_consume_def Let_def split: if_splits prod.splits sum.splits)

lemma sized_insert:
  assumes "sized A L M limit b r X s" and "c \<notin> X" and "sz_cells s < limit"
  shows "sized A L M limit b r (insert c X)
    ((count_size (bit_len M c) (length (cl_references L c)) (s\<lparr>sz_visited := insert (cell_repr_hash A c) (sz_visited s)\<rparr>))
       \<lparr>sz_cells := sz_cells s + 1\<rparr>)"
  using assms by (simp add: sized_def count_size_def)

lemma reduce_stack_sized:
  "tree_cells A L C \<Longrightarrow> X \<subseteq> C \<Longrightarrow> set (concat rs) \<subseteq> C \<Longrightarrow> sized A L M limit b r X s \<Longrightarrow>
   \<forall>x \<in> X. set (cl_references L x) \<subseteq> X \<union> set (concat rs) \<Longrightarrow>
   sized_result A L M limit b r X (concat rs) (fst (reduce_stack A L M limit rs s g))"
proof (induction A L M limit rs s g arbitrary: X rule: reduce_stack.induct)
  case (1 A L M limit s g)
  then show ?case by (auto simp: sized_result_def)
next
  case (2 A L M limit rs s g)
  then show ?case by simp
next
  case (3 A L M limit cell cs rs s g)
  note tree = 3(3) and X = 3(4) and C = 3(5) and sz = 3(6) and closed = 3(7)
  let ?ks = "concat ((cell # cs) # rs)"
  have known: "cell_repr_hash A cell \<in> sz_visited s \<longleftrightarrow> cell \<in> X"
    using tree X C sz by (auto simp: tree_cells_def sized_def inj_on_def)
  have root: "cell \<in> cells_under L ?ks" by (auto simp: cells_under_def intro: reach_root)
  show ?case
  proof (cases "cell \<in> X")
    case True
    then have "sized_result A L M limit b r X (concat (cs # rs)) (fst (reduce_stack A L M limit (cs # rs) s g))"
      using 3(1)[of X] known tree X C sz closed by auto
    then have "sized_result A L M limit b r X ?ks (fst (reduce_stack A L M limit (cs # rs) s g))"
      by (rule sized_result_mono) (use True in \<open>auto simp: cells_under_def\<close>)
    then show ?thesis using True known by simp
  next
    case new: False
    let ?s1 = "s\<lparr>sz_visited := insert (cell_repr_hash A cell) (sz_visited s)\<rparr>"
    show ?thesis
    proof (cases "limit \<le> sz_cells s")
      case True
      have "finite (insert cell X) \<and> insert cell X \<subseteq> X \<union> cells_under L ?ks \<and> limit < card (insert cell X)"
        using True new sz root by (simp add: sized_def)
      then show ?thesis using True new known by (auto simp: sized_result_def Let_def)
    next
      case room: False
      obtain l g' where l: "load_cell_impl A LoadUseGas cell g = (l, g')" by fastforce
      show ?thesis
      proof (cases l)
        case (Inl e)
        then show ?thesis using new known room l load_use_gas_error[of A cell g e g']
          by (simp add: Let_def sized_result_def)
      next
        case (Inr c)
        then have c: "c = cell" using load_use_gas(1)[of A cell g c g'] l by simp
        let ?kids = "cl_references L cell"
        let ?rs = "if ?kids = [] then cs # rs else ?kids # cs # rs"
        let ?s2 = "(count_size (bit_len M cell) (length ?kids) ?s1)\<lparr>sz_cells := sz_cells ?s1 + 1\<rparr>"
        have kids: "concat ?rs = ?kids @ concat (cs # rs)" by simp
        have "sized A L M limit b r (insert cell X) ?s2" using sized_insert[OF sz new] room by simp
        moreover have "set (concat ?rs) \<subseteq> C" "insert cell X \<subseteq> C"
          using C X tree_refs[OF tree, of cell] unfolding kids by auto
        moreover have "\<forall>x \<in> insert cell X. set (cl_references L x) \<subseteq> insert cell X \<union> set (concat ?rs)"
          using closed unfolding kids by auto
        ultimately have ih: "sized_result A L M limit b r (insert cell X) (concat ?rs)
            (fst (reduce_stack A L M limit ?rs ?s2 g'))"
          using 3(2)[of ?s1 l g' c ?kids "insert cell X"] new known room l Inr c tree by simp
        have "cells_under L (concat ?rs) \<subseteq> cells_under L ?ks"
          unfolding kids by (auto simp: cells_under_def reach_unfold[of L cell])
        then have "sized_result A L M limit b r X ?ks (fst (reduce_stack A L M limit ?rs ?s2 g'))"
          using root kids by (intro sized_result_mono[OF ih]) auto
        then show ?thesis using new known room l Inr c by (simp add: Let_def)
      qed
    qed
  qed
qed

lemma closed_under: "set ks \<subseteq> Y \<Longrightarrow> \<forall>y \<in> Y. set (cl_references L y) \<subseteq> Y \<Longrightarrow> cells_under L ks \<subseteq> Y"
proof -
  assume k: "set ks \<subseteq> Y" and closed: "\<forall>y \<in> Y. set (cl_references L y) \<subseteq> Y"
  have "d \<in> Y" if "d \<in> reach L c" "c \<in> Y" for c d
    using that by induction (use closed in auto)
  with k show ?thesis by (auto simp: cells_under_def)
qed

text \<open>The operand of \<open>CDATASIZE\<close> or \<open>SDATASIZE\<close>: the cells it counts, and the bits and references that are not those of a cell.\<close>

definition size_tree :: "('c, 's) api \<Rightarrow> ('c, 's, 'b) cell_lib \<Rightarrow> 'c + 's \<Rightarrow> 'c set \<times> nat \<times> nat" where
  "size_tree A L v = (case v of
      Inl c \<Rightarrow> (reach L c, 0, 0)
    | Inr k \<Rightarrow> (cells_under L (sl_references L k), slice_size_bits A k, length (sl_references L k)))"

definition exact_size ::
    "('c, 's, 'b) cell_lib \<Rightarrow> ('c, 's, 'b) instr_lib \<Rightarrow> nat \<Rightarrow> 'c set \<times> nat \<times> nat \<Rightarrow> cell_error + bool \<times> size_stats \<Rightarrow> bool" where
  "exact_size L M limit tree res = (case tree of (R, b, r) \<Rightarrow> (case res of
      Inl e \<Rightarrow> e = ECancelled
    | Inr (ok, s) \<Rightarrow> (ok \<longleftrightarrow> finite R \<and> card R \<le> limit) \<and> (ok \<longrightarrow> sz_cells s = card R \<and>
        sz_bits s = b + (\<Sum>c \<in> R. bit_len M c) \<and> sz_refs s = r + (\<Sum>c \<in> R. length (cl_references L c)))))"

lemma sized_exact:
  assumes "sized_result A L M limit b r X ks res" and "X \<union> cells_under L ks = R"
  shows "exact_size L M limit (R, b, r) res"
proof (cases res)
  case (Inl e)
  then show ?thesis using assms(1) by (simp add: sized_result_def exact_size_def)
next
  case (Inr p)
  obtain ok s where p: "p = (ok, s)" by fastforce
  show ?thesis
  proof (cases ok)
    case True
    then obtain Y where Y: "X \<subseteq> Y" "Y \<subseteq> X \<union> cells_under L ks" "set ks \<subseteq> Y" "\<forall>y \<in> Y. set (cl_references L y) \<subseteq> Y"
      and s: "sized A L M limit b r Y s"
      using assms(1) Inr p by (auto simp: sized_result_def)
    then have "Y = R" using closed_under[OF Y(3,4)] assms(2) by blast
    then show ?thesis using s Inr p True by (simp add: exact_size_def sized_def)
  next
    case False
    then obtain Y where "finite Y" "Y \<subseteq> R" "limit < card Y"
      using assms Inr p by (auto simp: sized_result_def)
    then have "\<not> (finite R \<and> card R \<le> limit)" using card_mono[of R Y] by auto
    then show ?thesis using Inr p False by (simp add: exact_size_def)
  qed
qed

lemma add_slice_size_exact:
  assumes "tree_cells A L C" and "set (sl_references L k) \<subseteq> C"
  shows "exact_size L M limit (size_tree A L (Inr k)) (fst (add_slice_size A L M limit k size_stats_default g))"
proof -
  let ?s = "count_size (slice_size_bits A k) (length (sl_references L k)) size_stats_default"
  have "sized A L M limit (slice_size_bits A k) (length (sl_references L k)) {} ?s"
    by (simp add: sized_def count_size_def size_stats_default_def)
  then have "sized_result A L M limit (slice_size_bits A k) (length (sl_references L k)) {}
      (concat [sl_references L k]) (fst (reduce_stack A L M limit [sl_references L k] ?s g))"
    using assms by (intro reduce_stack_sized[of A L C]) auto
  then show ?thesis
    unfolding size_tree_def add_slice_size_def Let_def sum.case by (rule sized_exact) simp
qed

lemma add_cell_size_exact:
  assumes "tree_cells A L C" and "c \<in> C"
  shows "exact_size L M limit (size_tree A L (Inl c)) (fst (add_cell_size A L M limit c size_stats_default g))"
proof (cases "limit = 0")
  case True
  have "\<not> (finite (reach L c) \<and> card (reach L c) \<le> 0)" using reach_root[of c L] by (auto simp: card_gt_0_iff)
  then show ?thesis using True
    by (simp add: add_cell_size_def size_stats_default_def exact_size_def size_tree_def Let_def)
next
  case False
  let ?refs = "cl_references L c"
  let ?s = "(count_size (bit_len M c) (length ?refs) (size_stats_default\<lparr>sz_visited := {cell_repr_hash A c}\<rparr>))\<lparr>sz_cells := 1\<rparr>"
  obtain l g' where l: "load_cell_impl A LoadUseGas c g = (l, g')" by fastforce
  show ?thesis
  proof (cases l)
    case (Inl e)
    then show ?thesis using False l load_use_gas_error[of A c g e g']
      by (simp add: add_cell_size_def size_stats_default_def exact_size_def size_tree_def Let_def)
  next
    case (Inr c')
    then have c: "c' = c" using load_use_gas(1)[of A c g c' g'] l by simp
    have run: "add_cell_size A L M limit c size_stats_default g = reduce_stack A L M limit [?refs] ?s g'"
      using False l Inr c by (simp add: add_cell_size_def size_stats_default_def Let_def)
    have "sized A L M limit 0 0 {c} ?s"
      using False by (simp add: sized_def count_size_def size_stats_default_def)
    then have "sized_result A L M limit 0 0 {c} (concat [?refs]) (fst (reduce_stack A L M limit [?refs] ?s g'))"
      using assms tree_refs[OF assms] by (intro reduce_stack_sized[of A L C]) auto
    then show ?thesis
      unfolding run size_tree_def sum.case
      by (rule sized_exact) (simp add: cells_under_def reach_unfold[of L c])
  qed
qed

lemma data_size_ok:
  assumes "tree_cells A L C" and "case v of Inl c \<Rightarrow> c \<in> C | Inr k \<Rightarrow> set (sl_references L k) \<subseteq> C"
    and "stack st = xs @ [case v of Inl c \<Rightarrow> VCell c | Inr k \<Rightarrow> VSlice k, VInt (int n)]" and "n < 2 ^ 64"
    and "length xs + 4 \<le> MAX_DEPTH" and "size_tree A L v = (R, b, r)"
  shows "case exec_compute_data_size A L M (\<not> isl v) q st of
      (Inr z, t) \<Rightarrow> if finite R \<and> card R \<le> n
        then stack t = xs @ [VInt (int (card R)), VInt (int (b + (\<Sum>c \<in> R. bit_len M c))),
          VInt (int (r + (\<Sum>c \<in> R. length (cl_references L c))))] @ (if q then [VInt (-1)] else [])
        else q \<and> stack t = xs @ [VInt 0]
    | (Inl e, t) \<Rightarrow> e = cell_fault ECancelled \<or>
        \<not> q \<and> \<not> (finite R \<and> card R \<le> n) \<and> e = VmErr (CellError ECellOverflow)"
proof -
  let ?add = "case v of Inr k \<Rightarrow> add_slice_size A L M n k size_stats_default | Inl c \<Rightarrow> add_cell_size A L M n c size_stats_default"
  obtain res g where a: "?add (gas st) = (res, g)" by fastforce
  have "exact_size L M n (R, b, r) res"
    using a assms(2) add_slice_size_exact[OF assms(1), of _ M n "gas st"] add_cell_size_exact[OF assms(1), of _ M n "gas st"]
    unfolding assms(6)[symmetric] by (cases v) (simp_all, (metis fst_conv)+)
  moreover have "exec_compute_data_size A L M (\<not> isl v) q st =
     bnd (on_gas ?add) (\<lambda>(ok, s).
     thn (if ok then on_stack (thn (push_int (int (sz_cells s))) (thn (push_int (int (sz_bits s))) (push_int (int (sz_refs s)))))
          else vm_ensure q (CellError ECellOverflow))
         (if q then st_op (push_bool ok) else ret 0)) (st\<lparr>stack := xs\<rparr>)"
    using assms(3,4) pop_int_or_nan_simps(2)[of "xs @ [case v of Inl c \<Rightarrow> VCell c | Inr k \<Rightarrow> VSlice k]" "int n"]
    by (cases v) (simp_all add: exec_compute_data_size_def)
  ultimately show ?thesis
    using a assms(5)
    by (auto simp: exact_size_def push_int_def push_bool_def make_bool_def depth_def on_gas_eq
        split: sum.splits prod.splits)
qed

end
