(* ===== verification/RefCells.thy ===== *)
theory RefCells
  imports AppSpec CodeSpec
begin

text \<open>
  A reference implementation of the libraries the VM takes as arguments: a cell is a bit
  string with references, a slice the bits and references of a cell that are left to read, a
  builder what was collected. It satisfies what the development assumes of the library, so the
  code page is a dispatcher over it, and it is the instance at which the properties are exercised.
\<close>

section \<open>Cells, slices, builders\<close>

datatype rcell = RCell (rc_bits: "bool list") (rc_refs: "rcell list")

datatype rslice = RSlice (rs_cell: rcell) (rs_off: nat) (rs_bits: "bool list") (rs_refs: "rcell list")

datatype rbuilder = RBuilder (rb_bits: "bool list") (rb_refs: "rcell list") (rb_exotic: bool)

definition rslice_of :: "rcell \<Rightarrow> rslice" where
  "rslice_of c = RSlice c 0 (rc_bits c) (rc_refs c)"

fun rcell_depth :: "rcell \<Rightarrow> nat" where
  "rcell_depth (RCell bs rs) = (if rs = [] then 0 else Suc (fold max (map rcell_depth rs) 0))"

text \<open>The widths of \<open>BigInt::bitsize\<close>: of the magnitude, and of the two's complement.\<close>

definition ref_bitsize :: "int \<Rightarrow> bool \<Rightarrow> nat" where
  "ref_bitsize x sgnd =
     (if \<not> sgnd then bit_length (nat \<bar>x\<bar>)
      else if x = 0 then 0
      else if 0 < x then Suc (bit_length (nat x))
      else Suc (bit_length (nat (- x - 1))))"

text \<open>Shortest two's complement bytes, at least one, and the bytes of a magnitude.\<close>

function to_signed_bytes_le :: "int \<Rightarrow> nat list" where
  "to_signed_bytes_le x = (let b = nat (x mod 256); q = x div 256 in
     if q = 0 \<and> b < 128 \<or> q = -1 \<and> 128 \<le> b then [b] else b # to_signed_bytes_le q)"
  by pat_completeness auto
termination
proof (relation "measure (\<lambda>x. nat \<bar>x\<bar>)")
  fix x b q
  assume b: "b = nat (x mod 256)" and q: "q = x div 256"
    and n: "\<not> (q = 0 \<and> b < 128 \<or> q = - 1 \<and> 128 \<le> b)"
  have "x \<noteq> 0" "x \<noteq> -1" using n b q by auto
  then have "\<bar>x div 256\<bar> < \<bar>x\<bar>" by (cases "0 \<le> x") linarith+
  then show "(q, x) \<in> measure (\<lambda>x. nat \<bar>x\<bar>)" using q by simp
qed simp

declare to_signed_bytes_le.simps [simp del]

fun to_bytes_le :: "nat \<Rightarrow> nat list" where
  "to_bytes_le n = (if n < 256 then [n] else n mod 256 # to_bytes_le (n div 256))"

declare to_bytes_le.simps [simp del]

text \<open>Reads and cuts check what is left first.\<close>

definition guarded :: "rslice \<Rightarrow> nat \<Rightarrow> nat \<Rightarrow> 'a \<Rightarrow> cell_error + 'a" where
  "guarded k n m v = (if n \<le> length (rs_bits k) \<and> m \<le> length (rs_refs k) then Inr v else Inl ECellUnderflow)"

definition ref_drop :: "rslice \<Rightarrow> nat \<Rightarrow> nat \<Rightarrow> rslice" where
  "ref_drop k n m = RSlice (rs_cell k) (rs_off k + m) (drop n (rs_bits k)) (drop m (rs_refs k))"

definition ref_take :: "rslice \<Rightarrow> nat \<Rightarrow> nat \<Rightarrow> rslice" where
  "ref_take k n m = RSlice (rs_cell k) (rs_off k) (take n (rs_bits k)) (take m (rs_refs k))"

definition ref_skip :: "rslice \<Rightarrow> nat \<Rightarrow> nat \<Rightarrow> cell_error + rslice" where
  "ref_skip k n m = guarded k n m (ref_drop k n m)"

definition ref_get_uint :: "rslice \<Rightarrow> nat \<Rightarrow> nat \<Rightarrow> cell_error + nat" where
  "ref_get_uint k off n = guarded k (off + n) 0 (bits_value (take n (drop off (rs_bits k))))"

definition ref_load_uint :: "rslice \<Rightarrow> nat \<Rightarrow> cell_error + nat \<times> rslice" where
  "ref_load_uint k n = guarded k n 0 (bits_value (take n (rs_bits k)), ref_drop k n 0)"

definition ref_load_bigint :: "rslice \<Rightarrow> nat \<Rightarrow> bool \<Rightarrow> cell_error + int \<times> rslice" where
  "ref_load_bigint k n sgnd = guarded k n 0 (bits_int sgnd (take n (rs_bits k)), ref_drop k n 0)"

fun ref_chunks :: "nat \<Rightarrow> bool list \<Rightarrow> nat list" where
  "ref_chunks 0 bs = []"
| "ref_chunks (Suc n) bs = bits_value (take 8 (bs @ replicate 8 False)) # ref_chunks n (drop 8 bs)"

fun ref_lex :: "bool list \<Rightarrow> bool list \<Rightarrow> ordering" where
  "ref_lex [] [] = Equal"
| "ref_lex [] (_ # _) = Less"
| "ref_lex (_ # _) [] = Greater"
| "ref_lex (x # xs) (y # ys) = (if x = y then ref_lex xs ys else if y then Less else Greater)"

fun ref_common :: "bool list \<Rightarrow> bool list \<Rightarrow> nat" where
  "ref_common (x # xs) (y # ys) = (if x = y then Suc (ref_common xs ys) else 0)"
| "ref_common _ _ = 0"

definition ref_room :: "rbuilder \<Rightarrow> nat \<Rightarrow> nat \<Rightarrow> bool" where
  "ref_room b n m \<longleftrightarrow> length (rb_bits b) + n \<le> MAX_BITS \<and> length (rb_refs b) + m \<le> MAX_REFS"

definition ref_add :: "rbuilder \<Rightarrow> bool list \<Rightarrow> rcell list \<Rightarrow> cell_error + rbuilder" where
  "ref_add b bs rs = (if length (rb_bits b) + length bs \<le> MAX_BITS \<and>
       (rs = [] \<or> length (rb_refs b) + length rs \<le> MAX_REFS)
     then Inr (RBuilder (rb_bits b @ bs) (rb_refs b @ rs) (rb_exotic b)) else Inl ECellOverflow)"

definition ref_cell_hash :: "rcell \<Rightarrow> hash" where
  "ref_cell_hash c = of_nat (bits_value (True # rc_bits c))"

definition ref_api :: "(rcell, rslice) api" where
  "ref_api = \<lparr>
     bitsize = ref_bitsize,
     has_correct_sign = (\<lambda>x sgnd. sgnd \<or> 0 \<le> x),
     cell_level = (\<lambda>_. 0),
     cell_repr_depth = rcell_depth,
     cell_repr_hash = ref_cell_hash,
     cell_kind = (\<lambda>_. Ordinary),
     cell_library_hash = (\<lambda>_. Inl ECellUnderflow),
     cell_empty = RCell [] [],
     cell_reference = (\<lambda>c i. if i < length (rc_refs c) then Some (rc_refs c ! i) else None),
     slice_default = rslice_of (RCell [] []),
     slice_of_cell = rslice_of,
     slice_cell = rs_cell,
     slice_size_bits = (\<lambda>k. length (rs_bits k)),
     slice_size_refs = (\<lambda>k. length (rs_refs k)),
     slice_offset_refs = rs_off,
     slice_get_uint = ref_get_uint,
     slice_get_reference = (\<lambda>k i. if i < length (rs_refs k) then Inr (rs_refs k ! i) else Inl ECellUnderflow),
     slice_load_bigint = ref_load_bigint,
     slice_skip_first = ref_skip\<rparr>"

definition ref_lib :: "(rcell, rslice, rbuilder) cell_lib" where
  "ref_lib = \<lparr>
     sl_apply = Inr,
     sl_only_first = (\<lambda>k n m. guarded k n m (ref_take k n m)),
     sl_only_last = (\<lambda>k n m. guarded k n m (ref_drop k (length (rs_bits k) - n) (length (rs_refs k) - m))),
     sl_skip_last = (\<lambda>k n m. guarded k n m (ref_take k (length (rs_bits k) - n) (length (rs_refs k) - m))),
     sl_get_prefix = ref_take,
     sl_get_bit = (\<lambda>k i. if i < length (rs_bits k) then Inr (rs_bits k ! i) else Inl ECellUnderflow),
     sl_lex_cmp = (\<lambda>k l. Inr (ref_lex (rs_bits k) (rs_bits l))),
     sl_is_data_prefix_of = (\<lambda>k l. Inr (ref_common (rs_bits k) (rs_bits l) = length (rs_bits k))),
     sl_is_data_suffix_of = (\<lambda>k l. Inr (ref_common (rev (rs_bits k)) (rev (rs_bits l)) = length (rs_bits k))),
     sl_count_leading = (\<lambda>k v. Inr (length (takeWhile ((=) v) (rs_bits k)))),
     sl_count_trailing = (\<lambda>k v. Inr (length (takeWhile ((=) v) (rev (rs_bits k))))),
     sl_strip_data_prefix = (\<lambda>k p. if ref_common (rs_bits k) (rs_bits p) = length (rs_bits p)
       then Some (ref_drop k (length (rs_bits p)) 0) else None),
     sl_longest_common_data_prefix = (\<lambda>k l. ref_take k (ref_common (rs_bits k) (rs_bits l)) 0),
     sl_load_reference = (\<lambda>k. guarded k 0 1 (hd (rs_refs k), ref_drop k 0 1)),
     sl_load_u32 = (\<lambda>k. ref_load_uint k 32),
     sl_load_u64 = (\<lambda>k. ref_load_uint k 64),
     sl_load_uint = ref_load_uint,
     sl_load_raw = (\<lambda>k n. guarded k n 0 (ref_chunks ((n + 7) div 8) (take n (rs_bits k)), ref_drop k n 0)),
     sl_references = rs_refs,
     cl_references = rc_refs,
     cl_is_exotic = (\<lambda>_. False),
     cl_is_library = (\<lambda>_. False),
     cl_level_mask = (\<lambda>_. 0),
     cl_hash = (\<lambda>c _. ref_cell_hash c),
     cl_depth = (\<lambda>c _. rcell_depth c),
     cl_all_zeros = rslice_of (RCell (replicate MAX_BITS False) []),
     cl_all_ones = rslice_of (RCell (replicate MAX_BITS True) []),
     b_new = RBuilder [] [] False,
     b_has_capacity = ref_room,
     b_size_bits = (\<lambda>b. length (rb_bits b)),
     b_size_refs = (\<lambda>b. length (rb_refs b)),
     b_spare_bits = (\<lambda>b. MAX_BITS - length (rb_bits b)),
     b_spare_refs = (\<lambda>b. MAX_REFS - length (rb_refs b)),
     b_references = rb_refs,
     b_store_reference = (\<lambda>b c. ref_add b [] [c]),
     b_store_slice = (\<lambda>b k. ref_add b (rs_bits k) (rs_refs k)),
     b_store_builder = (\<lambda>b c. ref_add b (rb_bits c) (rb_refs c)),
     b_store_uint = (\<lambda>b v n. ref_add b (to_bits n (int v)) []),
     b_store_raw = (\<lambda>b bs n. ref_add b (take n (byte_bits bs)) []),
     b_store_u32 = (\<lambda>b v. ref_add b (to_bits 32 (int v)) []),
     b_store_u64 = (\<lambda>b v. ref_add b (to_bits 64 (int v)) []),
     b_store_zeros = (\<lambda>b n. ref_add b (replicate n False) []),
     b_store_ones = (\<lambda>b n. ref_add b (replicate n True) []),
     b_set_exotic = (\<lambda>b e. RBuilder (rb_bits b) (rb_refs b) e),
     b_prepare = Inr,
     b_finalize = (\<lambda>b. if rb_exotic b then Inl EInvalidData else Inr (RCell (rb_bits b) (rb_refs b))),
     bi_to_signed_bytes_le = to_signed_bytes_le,
     bi_to_bytes_le = (\<lambda>x. to_bytes_le (nat \<bar>x\<bar>)),
     bi_from_bytes_be = bytes_value\<rparr>"

text \<open>
  The library of the application-specific instructions. Dictionaries know the empty dictionary only: an
  operation on another one loads its root and gives up. The digests are the first bytes of what
  is hashed, and no signature checks.
\<close>

definition ref_load_var :: "rslice \<Rightarrow> nat \<Rightarrow> bool \<Rightarrow> cell_error + int \<times> rslice" where
  "ref_load_var k n sgnd = (case ref_load_uint k n of
     Inl e \<Rightarrow> Inl e
   | Inr (len, k') \<Rightarrow> ref_load_bigint k' (8 * len) sgnd)"

definition ref_store_var :: "rbuilder \<Rightarrow> int \<Rightarrow> nat \<Rightarrow> bool \<Rightarrow> cell_error + rbuilder" where
  "ref_store_var b x n sgnd = (let len = (ref_bitsize x sgnd + 7) div 8 in
     if 2 ^ n \<le> len \<or> \<not> sgnd \<and> x < 0 then Inl EIntOverflow
     else ref_add b (to_bits n (int len) @ to_bits (8 * len) x) [])"

definition ref_store_bigint :: "rbuilder \<Rightarrow> int \<Rightarrow> nat \<Rightarrow> bool \<Rightarrow> cell_error + rbuilder" where
  "ref_store_bigint b x n sgnd = (if n < ref_bitsize x sgnd \<or> \<not> sgnd \<and> x < 0 then Inl EIntOverflow
     else ref_add b (to_bits n x) [])"

definition ref_load_opt :: "rslice \<Rightarrow> cell_error + rcell option \<times> rslice" where
  "ref_load_opt k = (case rs_bits k of
     [] \<Rightarrow> Inl ECellUnderflow
   | False # _ \<Rightarrow> Inr (None, ref_drop k 1 0)
   | True # _ \<Rightarrow> guarded k 1 1 (Some (hd (rs_refs k)), ref_drop k 1 1))"

definition ref_dict_read :: "rcell option \<Rightarrow> (rcell, 'a option) ctx_read" where
  "ref_dict_read root_opt = (case root_opt of
     None \<Rightarrow> ReadDone (Inr None)
   | Some c \<Rightarrow> ReadLoad c LoadFull (\<lambda>_. ReadDone (Inl EInvalidData)))"

definition ref_dict_write :: "rcell option \<Rightarrow> 'a \<Rightarrow> (rcell, rbuilder, 'a) ctx_prog" where
  "ref_dict_write root_opt x = (case root_opt of
     None \<Rightarrow> CtxDone (Inr x)
   | Some c \<Rightarrow> CtxLoad c LoadFull (\<lambda>_. CtxDone (Inl EInvalidData)))"

definition ref_digest :: "nat \<Rightarrow> nat list \<Rightarrow> nat list" where
  "ref_digest n bs = take n (map (\<lambda>b. b mod 256) bs @ replicate n 0)"

definition ref_slice_of_builder :: "rbuilder \<Rightarrow> rcell list \<Rightarrow> rslice" where
  "ref_slice_of_builder b rs = rslice_of (RCell (rb_bits b) rs)"

definition ref_instrs :: "(rcell, rslice, rbuilder) instr_lib" where
  "ref_instrs = \<lparr>
     sl_load_bit = (\<lambda>k. guarded k 1 0 (hd (rs_bits k), ref_drop k 1 0)),
     sl_load_u8 = (\<lambda>k. ref_load_uint k 8),
     sl_load_small_uint = ref_load_uint,
     sl_load_u256 = (\<lambda>k. guarded k 256 0 (ref_chunks 32 (take 256 (rs_bits k)), ref_drop k 256 0)),
     sl_load_prefix = (\<lambda>k n m. guarded k n m (ref_take k n m, ref_drop k n m)),
     sl_load_var_bigint = ref_load_var,
     sl_load_opt_cell = ref_load_opt,
     b_store_opt_cell = (\<lambda>b c. case c of
       None \<Rightarrow> ref_add b [False] [] | Some c' \<Rightarrow> ref_add b [True] [c']),
     b_store_var_bigint = ref_store_var,
     b_store_bigint = ref_store_bigint,
     b_store_bigint_truncate = (\<lambda>b x n _. ref_add b (to_bits n x) []),
     b_as_data_slice = (\<lambda>b. ref_slice_of_builder b []),
     b_as_full_slice = (\<lambda>b. ref_slice_of_builder b (rb_refs b)),
     bit_len = (\<lambda>c. length (rc_bits c)),
     split_depth_new = (\<lambda>n. if n \<le> 30 then Inr n else Inl EIntOverflow),
     dict_get = (\<lambda>d _ _. ref_dict_read d),
     dict_get_owned = (\<lambda>d _ _. ref_dict_read d),
     dict_find_owned = (\<lambda>d _ _ _ _ _. ref_dict_read d),
     dict_find_bound_owned = (\<lambda>d _ _ _. ref_dict_read d),
     dict_insert = (\<lambda>d _ _ _ _. ref_dict_write d None),
     dict_insert_owned = (\<lambda>d _ _ _ _. ref_dict_write d (None, None)),
     dict_remove_owned = (\<lambda>d _ _ _. ref_dict_write d (None, None)),
     dict_remove_bound_owned = (\<lambda>d _ _ _. ref_dict_write d (None, None)),
     sha256 = ref_digest 32,
     sha512 = ref_digest 64,
     blake2b512 = ref_digest 64,
     ed25519 = (\<lambda>_. None),
     parse_u32 = (\<lambda>c. map_sum id fst (ref_load_uint (rslice_of c) 32)),
     parse_fwd_prices = (\<lambda>_. Inl ECellUnderflow),
     load_gas_prices = (\<lambda>_. Inl ECellUnderflow),
     load_fwd_prices = (\<lambda>_. Inl ECellUnderflow),
     load_storage_prices = (\<lambda>_. Inl ECellUnderflow),
     load_size_limits = (\<lambda>_. Inl ECellUnderflow),
     gas_fee_of = (\<lambda>p g. flat_gas_price p + gas_unit_price p * g div 65536),
     storage_fee_of = (\<lambda>p _ t n m. t * (n * bit_price_ps p + m * cell_price_ps p) div 65536),
     forward_fee_of = (\<lambda>p n m. lump_price p + (n * bit_price p + m * cell_price p) div 65536),
     tokens_max = 2 ^ 120 - 1,
     tokens_bits = (\<lambda>v. if v < 2 ^ 120 then Some (4 + 8 * ((bit_length v + 7) div 8)) else None),
     parse_relaxed = (\<lambda>_. Inl EInvalidData),
     int_addr_bit_len = (\<lambda>_. 267),
     ext_addr_bits = (\<lambda>a. 11 + fst a),
     state_init_bit_len = (\<lambda>_. 5),
     state_init_refs = (\<lambda>_. 0),
     tree_stats = (\<lambda>_ k. (length (rs_bits k), 1)),
     lazy_from_raw = Inr,
     store_out_action = (\<lambda>b _. CtxDone (Inr b)),
     send_flags_of = (\<lambda>n. \<lparr>pay_fee_separately = bit n 0, send_ignore_error = bit n 1,
       send_bounce_on_error = bit n 4, delete_if_empty = bit n 5, with_remaining_balance = bit n 6,
       all_balance = bit n 7, send_unknown = bit n 2 \<or> bit n 3\<rparr>),
     reserve_flags_of = (\<lambda>n. \<lparr>all_but = bit n 0, reserve_ignore_error = bit n 1,
       with_original_balance = bit n 2, reverse = bit n 3, reserve_bounce_on_error = bit n 4,
       reserve_unknown = 32 \<le> n\<rparr>),
     library_flags_of = (\<lambda>n. \<lparr>add_private = bit n 0, add_public = bit n 1,
       library_bounce_on_error = bit n 4\<rparr>)\<rparr>"

definition ref_table :: "(rcell, rslice, rbuilder) entries" where
  "ref_table = projr (codepage0 ref_api ref_lib ref_instrs)"

section \<open>The assumptions hold\<close>

lemma foldl_bits: "foldl (\<lambda>v b. 2 * v + of_bool b) a bs < (a + 1) * 2 ^ length bs" for a :: nat
proof (induction bs arbitrary: a)
  case (Cons b bs)
  have "foldl (\<lambda>v b. 2 * v + of_bool b) (2 * a + of_bool b) bs < (2 * a + of_bool b + 1) * 2 ^ length bs"
    by (rule Cons.IH)
  also have "\<dots> \<le> (2 * a + 2) * 2 ^ length bs" by (intro mult_le_mono1) simp
  finally show ?case by (simp add: algebra_simps)
qed simp

lemma bits_value_less: "bits_value bs < 2 ^ length bs"
  using foldl_bits[of 0 bs] by (simp add: bits_value_def)

lemma reads_bits_ref: "reads_bits ref_api"
  unfolding reads_bits_def
proof (intro allI impI)
  fix k n
  assume "n \<le> slice_size_bits ref_api k"
  then show "\<exists>v. slice_get_uint ref_api k 0 n = Inr v \<and> v < 2 ^ n"
    using bits_value_less[of "take n (rs_bits k)"]
    by (simp add: ref_api_def ref_get_uint_def guarded_def min_absorb2)
qed

lemma bit_length_le: "bit_length n \<le> k \<longleftrightarrow> n < 2 ^ k"
proof (induction n arbitrary: k rule: bit_length.induct)
  case (1 n)
  show ?case
  proof (cases k)
    case 0
    then show ?thesis by (subst bit_length.simps) simp
  next
    case (Suc j)
    have "bit_length n = (if n = 0 then 0 else Suc (bit_length (n div 2)))" by (rule bit_length.simps)
    with Suc 1[of j] show ?thesis by (auto simp: div_less_iff_less_mult)
  qed
qed

lemma bitsize_ok_ref: "bitsize_ok ref_api"
  unfolding bitsize_ok_def
proof (intro allI impI)
  fix x :: int and n :: nat
  assume "0 < n"
  then obtain m where n: "n = Suc m" by (cases n) auto
  have "nat y < 2 ^ m \<longleftrightarrow> y < 2 ^ m" if "0 \<le> y" for y :: int
    using that by (metis nat_less_iff of_nat_numeral of_nat_power)
  then show "bitsize ref_api x True \<le> n \<longleftrightarrow> fits_signed n x"
    by (auto simp: ref_api_def ref_bitsize_def fits_signed_def n bit_length_le)
qed

lemma ref_table_eq: "codepage0 ref_api ref_lib ref_instrs = Inr ref_table"
  using codepage0_builds[of ref_api ref_lib ref_instrs] by (auto simp: ref_table_def)

lemma keys_fit_ref: "keys_fit ref_lib"
  by (simp add: keys_fit_def ref_lib_def ref_add_def MAX_BITS_def)

interpretation cp0: dispatcher ref_api "dispatch ref_api ref_table"
  by (rule codepage0_dispatcher[OF reads_bits_ref keys_fit_ref ref_table_eq])

text \<open>The cells are bit strings.\<close>

lemma signed_bytes_at:
  "i < length (to_signed_bytes_le x) \<Longrightarrow> to_signed_bytes_le x ! i = byte_at x i"
  "length (to_signed_bytes_le x) \<le> i \<Longrightarrow> (last (to_signed_bytes_le x) div 128) * 255 = byte_at x i"
proof (induction x arbitrary: i rule: to_signed_bytes_le.induct)
  case (1 x)
  let ?b = "nat (x mod 256)" and ?q = "x div 256"
  let ?stop = "?q = 0 \<and> ?b < 128 \<or> ?q = -1 \<and> 128 \<le> ?b"
  have zero: "byte_at 0 j = 0" "byte_at (-1) j = 255" for j
    by (simp_all add: byte_at_def take_bit_minus_one_eq_mask mask_eq_exp_minus_1)
  have top: "n div 128 = of_bool (128 \<le> n)" if "n < 256" for n :: nat
    using that by (cases "128 \<le> n") (simp_all add: le_div_geq)
  have nz: "to_signed_bytes_le ?q \<noteq> []" by (subst to_signed_bytes_le.simps) (simp add: Let_def)
  have unf: "to_signed_bytes_le x = (if ?stop then [?b] else ?b # to_signed_bytes_le ?q)"
    by (subst to_signed_bytes_le.simps) (simp only: Let_def)
  {
    case 1
    then show ?case
      unfolding unf using "1.IH"(1)[OF refl refl]
      by (cases i) (auto simp: byte_at_simps split: if_splits)
  next
    case 2
    show ?case
    proof (cases ?stop)
      case True
      with 2 obtain j where j: "i = Suc j" by (cases i) (auto simp: unf)
      have "?b < 256" by simp
      from top[OF this] True j show ?thesis unfolding unf by (auto simp: byte_at_simps zero)
    next
      case False
      with 2 obtain j where j: "i = Suc j" "length (to_signed_bytes_le ?q) \<le> j" by (cases i) (auto simp: unf)
      have "to_signed_bytes_le x = ?b # to_signed_bytes_le ?q" unfolding unf if_not_P[OF False] ..
      then have "last (to_signed_bytes_le x) = last (to_signed_bytes_le ?q)" using nz by simp
      with "1.IH"(2)[OF refl refl False j(2)] show ?thesis by (simp only: j(1) byte_at_simps)
    qed
  }
qed

lemma unsigned_bytes_at:
  "i < length (to_bytes_le n) \<Longrightarrow> to_bytes_le n ! i = byte_at (int n) i"
  "length (to_bytes_le n) \<le> i \<Longrightarrow> 0 = byte_at (int n) i"
proof (induction n arbitrary: i rule: to_bytes_le.induct)
  case (1 n)
  have unf: "to_bytes_le n = (if n < 256 then [n] else n mod 256 # to_bytes_le (n div 256))"
    by (rule to_bytes_le.simps)
  have s: "byte_at (int n) 0 = n mod 256" "byte_at (int n) (Suc j) = byte_at (int (n div 256)) j" for j
    by (simp_all add: byte_at_simps nat_mod_distrib zdiv_int)
  have z: "byte_at 0 j = 0" for j by (simp add: byte_at_def)
  {
    case 1
    then show ?case unfolding unf using "1.IH"(1) by (cases i) (auto simp: s split: if_splits)
  next
    case 2
    then show ?case using "1.IH"(2) by (cases i) (auto simp: s z unf split: if_splits)
  }
qed

lemma bytes_ok_ref: "bytes_ok ref_lib"
  unfolding bytes_ok_def extends_bytes_def
proof (intro conjI allI impI)
  fix x :: int and i
  have "to_signed_bytes_le x \<noteq> []" by (subst to_signed_bytes_le.simps) (simp add: Let_def)
  then show "(if i < length (bi_to_signed_bytes_le ref_lib x) then bi_to_signed_bytes_le ref_lib x ! i
      else sign_byte (bi_to_signed_bytes_le ref_lib x)) = byte_at x i"
    using signed_bytes_at(1)[of i x] signed_bytes_at(2)[of x i] by (simp add: ref_lib_def sign_byte_def not_less)
  assume "0 \<le> x"
  then show "(if i < length (bi_to_bytes_le ref_lib x) then bi_to_bytes_le ref_lib x ! i else 0) = byte_at x i"
    using unsigned_bytes_at(1)[of i "nat x"] unsigned_bytes_at(2)[of "nat x" i] by (simp add: ref_lib_def not_less)
qed

lemma ref_bitsize_unsigned: "0 \<le> x \<Longrightarrow> ref_bitsize x False \<le> n \<longleftrightarrow> x < 2 ^ n"
  by (simp add: ref_bitsize_def bit_length_le)

interpretation rcells: bit_cells ref_api ref_lib rs_bits rs_refs rb_bits rb_refs "\<lambda>b. \<not> rb_exotic b"
  by (unfold_locales, rule bitsize_ok_ref, simp add: ref_api_def ref_bitsize_unsigned, rule bytes_ok_ref)
    (auto simp: ref_api_def ref_lib_def slice_is_def ref_skip_def guarded_def ref_drop_def ref_get_uint_def
    ref_take_def ref_bitsize_unsigned ref_load_bigint_def ref_room_def ref_add_def rslice_of_def
    byte_bits_def length_concat comp_def sum_list_triv split: if_splits)

text \<open>Reading a slice gives its bits, and bytes are the bits in groups of eight.\<close>

lemma ref_chunks_bits:
  "length (ref_chunks n bs) = n \<and> set (ref_chunks n bs) \<subseteq> {..<256} \<and>
   byte_bits (ref_chunks n bs) = take (8 * n) (bs @ replicate (8 * n) False)"
proof (induction n arbitrary: bs)
  case (Suc n)
  let ?b = "take 8 (bs @ replicate 8 False)"
  have l: "length ?b = 8" by simp
  have "bits_value ?b < 256" using bits_value_bound[of ?b] unfolding l by simp
  moreover have "to_bits 8 (int (bits_value ?b)) = ?b" using to_bits_value[of ?b] unfolding l .
  moreover have "?b @ take (8 * n) (drop 8 bs @ replicate (8 * n) False) = take (8 * Suc n) (bs @ replicate (8 * Suc n) False)"
    using take_add[of 8 "8 * n" "bs @ replicate (8 + 8 * n) False"] by (simp add: min_def) linarith
  ultimately show ?case using Suc[of "drop 8 bs"] by (simp add: byte_bits_def)
qed (simp add: byte_bits_def)

lemma ref_raw:
  assumes "n \<le> length bs"
  shows "take n (byte_bits (ref_chunks ((n + 7) div 8) (take n bs))) = take n bs"
    and "drop n (byte_bits (ref_chunks ((n + 7) div 8) (take n bs))) = replicate (8 * ((n + 7) div 8) - n) False"
proof -
  have n: "n \<le> 8 * ((n + 7) div 8)" by linarith
  show "take n (byte_bits (ref_chunks ((n + 7) div 8) (take n bs))) = take n bs"
    "drop n (byte_bits (ref_chunks ((n + 7) div 8) (take n bs))) = replicate (8 * ((n + 7) div 8) - n) False"
    using assms n by (simp_all add: ref_chunks_bits min_absorb1 min_absorb2)
qed

lemma ref_reads: "loads_bits rs_bits rs_refs n bits_value (\<lambda>k. ref_load_uint k n)"
  by (simp add: loads_bits_def ref_load_uint_def guarded_def ref_drop_def)

interpretation rreaders: bit_readers ref_api ref_lib rs_bits rs_refs rb_bits rb_refs "\<lambda>b. \<not> rb_exotic b" ref_instrs
proof unfold_locales
  show "loads_bits rs_bits rs_refs 1 hd (sl_load_bit ref_instrs)"
  proof -
    have "hd (take 1 xs) = hd xs" for xs :: "bool list" by (cases xs) simp_all
    then show ?thesis by (simp add: loads_bits_def ref_instrs_def guarded_def ref_drop_def)
  qed
  show "\<exists>bs k'. sl_load_raw ref_lib k n = Inr (bs, k') \<and> length bs = (n + 7) div 8 \<and> (\<forall>b \<in> set bs. b < 256) \<and>
      take n (byte_bits bs) = take n (rs_bits k) \<and> drop n (byte_bits bs) = replicate (8 * ((n + 7) div 8) - n) False"
    if "n \<le> length (rs_bits k)" for n k
    using that ref_raw[OF that] ref_chunks_bits[of "(n + 7) div 8" "take n (rs_bits k)"]
    by (auto simp: ref_lib_def guarded_def)
qed (use ref_reads in \<open>auto simp: ref_instrs_def ref_lib_def ref_api_def guarded_def ref_drop_def ref_take_def ref_skip_def
    ref_slice_of_builder_def rslice_of_def split: if_splits\<close>)

lemma ref_hashes: "sha512_bytes ref_instrs" "reads_be ref_lib"
  by (auto simp: sha512_bytes_def reads_be_def ref_instrs_def ref_lib_def ref_digest_def dest!: in_set_takeD)

end
