(* ===== verification/MsgCodec.thy ===== *)
theory MsgCodec
  imports RefCells Actions
begin

text \<open>
  The wire format of message headers over the reference cells: flags, addresses, amounts and times
  as bit strings, in the layout of the TL-B scheme of messages. Every reader inverts its writer
  whatever follows, which is what the executor relies on of serialisation.
\<close>

section \<open>Readers and what they read\<close>

type_synonym 'a reader = "(rslice, cell_error, 'a) act"

text \<open>A piece of a cell: bits and references.\<close>

type_synonym piece = "bool list \<times> rcell list"

definition join :: "piece \<Rightarrow> piece \<Rightarrow> piece" where
  "join p q = (fst p @ fst q, snd p @ snd q)"

definition pieces :: "piece list \<Rightarrow> piece" where
  "pieces ps = foldr join ps ([], [])"

text \<open>\<open>reads r p x\<close>: wherever the piece \<open>p\<close> comes first, \<open>r\<close> takes it and returns \<open>x\<close>.\<close>

definition reads :: "'a reader \<Rightarrow> piece \<Rightarrow> 'a \<Rightarrow> bool" where
  "reads r p x \<longleftrightarrow> (\<forall>k bs rs. rs_bits k = fst p @ bs \<longrightarrow> rs_refs k = snd p @ rs \<longrightarrow>
     r k = (Inr x, ref_drop k (length (fst p)) (length (snd p))))"

definition of_load :: "(rslice \<Rightarrow> cell_error + 'a \<times> rslice) \<Rightarrow> 'a reader" where
  "of_load f k = (case f k of Inl e \<Rightarrow> (Inl e, k) | Inr (x, k') \<Rightarrow> (Inr x, k'))"

definition to_load :: "'a reader \<Rightarrow> rslice \<Rightarrow> cell_error + 'a \<times> rslice" where
  "to_load r k = (case r k of (Inl e, _) \<Rightarrow> Inl e | (Inr x, k') \<Rightarrow> Inr (x, k'))"

lemma reads_ret: "x = y \<Longrightarrow> reads (ret x) ([], []) y"
  by (simp add: reads_def ref_drop_def rslice.expand)

lemma reads_bnd: "reads r p x \<Longrightarrow> reads (f x) q y \<Longrightarrow> reads (bnd r f) (join p q) y"
  by (simp add: reads_def join_def ref_drop_def add.commute add.left_commute)

lemma reads_thn: "reads r p x \<Longrightarrow> reads s q y \<Longrightarrow> reads (thn r s) (join p q) y"
  by (simp add: reads_def join_def ref_drop_def add.commute add.left_commute)

lemma reads_then: "reads r p x \<Longrightarrow> reads (f x) ([], []) y \<Longrightarrow> reads (bnd r f) p y"
  by (simp add: reads_def ref_drop_def)

lemma reads_map: "reads r p x \<Longrightarrow> y = f x \<Longrightarrow> reads (bnd r (\<lambda>x. ret (f x))) p y"
  by (simp add: reads_def)

lemma join_nil [simp]: "join p ([], []) = p" "join ([], []) p = p"
  by (simp_all add: join_def)

lemma join_assoc: "join (join p q) r = join p (join q r)"
  by (simp add: join_def)

lemma pieces_simps [simp]: "pieces [] = ([], [])" "pieces (p # ps) = join p (pieces ps)"
  by (simp_all add: pieces_def)

section \<open>Numbers\<close>

definition uint_piece :: "nat \<Rightarrow> nat \<Rightarrow> piece" where
  "uint_piece n v = (to_bits n (int v), [])"

definition read_uint :: "nat \<Rightarrow> nat reader" where
  "read_uint n = of_load (\<lambda>k. ref_load_uint k n)"

definition int_piece :: "nat \<Rightarrow> int \<Rightarrow> piece" where
  "int_piece n v = (to_bits n v, [])"

definition read_int :: "nat \<Rightarrow> int reader" where
  "read_int n = of_load (\<lambda>k. ref_load_bigint k n True)"

definition bit_piece :: "bool \<Rightarrow> piece" where
  "bit_piece b = ([b], [])"

definition read_bit :: "bool reader" where
  "read_bit = of_load (\<lambda>k. guarded k 1 0 (hd (rs_bits k), ref_drop k 1 0))"

definition ref_piece :: "rcell \<Rightarrow> piece" where
  "ref_piece c = ([], [c])"

definition read_ref :: "rcell reader" where
  "read_ref = of_load (sl_load_reference ref_lib)"

lemma reads_uint: "v < 2 ^ n \<Longrightarrow> reads (read_uint n) (uint_piece n v) v"
proof -
  assume "v < 2 ^ n"
  then have "int (bits_value (to_bits n (int v))) = int v"
    by (simp add: bits_value_to_bits take_bit_int_eq_self)
  then show ?thesis
    by (simp add: reads_def read_uint_def uint_piece_def of_load_def ref_load_uint_def guarded_def)
qed

lemma reads_int: "int_fits True n v \<Longrightarrow> reads (read_int n) (int_piece n v) v"
  by (simp add: reads_def read_int_def int_piece_def of_load_def ref_load_bigint_def guarded_def bits_int_to_bits)

lemma reads_bit: "reads read_bit (bit_piece b) b"
  by (simp add: reads_def read_bit_def bit_piece_def of_load_def guarded_def)

lemma reads_ref: "reads read_ref (ref_piece c) c"
  by (simp add: reads_def read_ref_def ref_piece_def of_load_def ref_lib_def guarded_def)

text \<open>\<open>Tokens\<close>: four bits of length, then as many bytes.\<close>

definition byte_len :: "nat \<Rightarrow> nat" where
  "byte_len v = (bit_length v + 7) div 8"

definition tokens_piece :: "nat \<Rightarrow> piece" where
  "tokens_piece v = join (uint_piece 4 (byte_len v)) (uint_piece (8 * byte_len v) v)"

definition read_tokens :: "nat reader" where
  "read_tokens = bnd (read_uint 4) (\<lambda>n. read_uint (8 * n))"

lemma reads_tokens: "v < 2 ^ 120 \<Longrightarrow> reads read_tokens (tokens_piece v) v"
proof -
  assume "v < 2 ^ 120"
  then have "bit_length v \<le> 120" by (simp only: bit_length_le)
  then have "byte_len v < 2 ^ 4" by (simp add: byte_len_def)
  moreover have "v < 2 ^ (8 * byte_len v)"
    unfolding bit_length_le[symmetric] by (simp add: byte_len_def) 
  ultimately show ?thesis unfolding read_tokens_def tokens_piece_def by (blast intro: reads_bnd reads_uint)
qed

text \<open>\<open>Maybe\<close>: a bit, and a value when it is set.\<close>

definition maybe_piece :: "('a \<Rightarrow> piece) \<Rightarrow> 'a option \<Rightarrow> piece" where
  "maybe_piece p x = (case x of None \<Rightarrow> bit_piece False | Some v \<Rightarrow> join (bit_piece True) (p v))"

definition read_maybe :: "'a reader \<Rightarrow> 'a option reader" where
  "read_maybe r = bnd read_bit (\<lambda>b. if b then bnd r (\<lambda>v. ret (Some v)) else ret None)"

lemma reads_maybe:
  assumes "\<And>v. x = Some v \<Longrightarrow> reads r (p v) v"
  shows "reads (read_maybe r) (maybe_piece p x) x"
proof (cases x)
  case None
  have "reads (read_maybe r) (join (bit_piece False) ([], [])) None"
    unfolding read_maybe_def by (rule reads_bnd[OF reads_bit]) (simp add: reads_ret)
  then show ?thesis by (simp add: maybe_piece_def None)
next
  case (Some v)
  have "reads (read_maybe r) (join (bit_piece True) (p v)) (Some v)"
    unfolding read_maybe_def by (rule reads_bnd[OF reads_bit]) (simp add: reads_map[OF assms[OF Some]])
  then show ?thesis by (simp add: maybe_piece_def Some)
qed

definition read_currency :: "rcell currency reader" where
  "read_currency = bnd read_tokens (\<lambda>t. bnd (read_maybe read_ref) (\<lambda>x. ret \<lparr>tokens = t, other = x\<rparr>))"

definition currency_piece :: "rcell currency \<Rightarrow> piece" where
  "currency_piece c = pieces [tokens_piece (tokens c), maybe_piece ref_piece (other c)]"

lemma reads_currency: "tokens c < 2 ^ 120 \<Longrightarrow> reads read_currency (currency_piece c) c"
  unfolding read_currency_def currency_piece_def pieces_simps
  by (intro reads_bnd[OF reads_tokens] reads_bnd[OF reads_maybe[OF reads_ref]] reads_ret) simp_all

section \<open>Addresses\<close>

definition anycast_ok :: "anycast option \<Rightarrow> bool" where
  "anycast_ok a = (case a of None \<Rightarrow> True | Some (d, pfx) \<Rightarrow> d < 32 \<and> pfx < 2 ^ d)"

definition anycast_piece :: "anycast option \<Rightarrow> piece" where
  "anycast_piece = maybe_piece (\<lambda>(d, pfx). join (uint_piece 5 d) (uint_piece d pfx))"

definition read_anycast :: "anycast option reader" where
  "read_anycast = read_maybe (bnd (read_uint 5) (\<lambda>d. bnd (read_uint d) (\<lambda>pfx. ret (d, pfx))))"

lemma reads_anycast: "anycast_ok a \<Longrightarrow> reads read_anycast (anycast_piece a) a"
  unfolding read_anycast_def anycast_piece_def
  by (rule reads_maybe) (auto simp: anycast_ok_def intro!: reads_bnd[OF reads_uint] reads_map[OF reads_uint])

text \<open>The address of a variable address is a list of bytes whose last bits are zero.\<close>

definition raw_piece :: "nat \<Rightarrow> nat list \<Rightarrow> piece" where
  "raw_piece n bs = (take n (byte_bits bs), [])"

definition raw_ok :: "nat \<Rightarrow> nat list \<Rightarrow> bool" where
  "raw_ok n bs \<longleftrightarrow> n \<le> length (byte_bits bs) \<and> ref_chunks ((n + 7) div 8) (take n (byte_bits bs)) = bs"

definition read_raw :: "nat \<Rightarrow> nat list reader" where
  "read_raw n = of_load (\<lambda>k. sl_load_raw ref_lib k n)"

lemma reads_raw: "raw_ok n bs \<Longrightarrow> reads (read_raw n) (raw_piece n bs) bs"
  by (simp add: raw_ok_def reads_def read_raw_def raw_piece_def of_load_def ref_lib_def guarded_def min_absorb2)

definition addr_ok :: "int_addr \<Rightarrow> bool" where
  "addr_ok addr = (case addr of
      AddrStd a \<Rightarrow> anycast_ok (sa_anycast a) \<and> int_fits True 8 (sa_workchain a)
    | AddrVar v \<Rightarrow> anycast_ok (va_anycast v) \<and> va_address_len v < 2 ^ 9 \<and> int_fits True 32 (va_workchain v) \<and>
        raw_ok (va_address_len v) (va_address v))"

definition addr_piece :: "int_addr \<Rightarrow> piece" where
  "addr_piece addr = (case addr of
      AddrStd a \<Rightarrow> pieces [bit_piece True, bit_piece False, anycast_piece (sa_anycast a),
        int_piece 8 (sa_workchain a), uint_piece 256 (unat (sa_address a))]
    | AddrVar v \<Rightarrow> pieces [bit_piece True, bit_piece True, anycast_piece (va_anycast v),
        uint_piece 9 (va_address_len v), int_piece 32 (va_workchain v), raw_piece (va_address_len v) (va_address v)])"

definition read_addr_std :: "int_addr reader" where
  "read_addr_std = bnd read_anycast (\<lambda>a. bnd (read_int 8) (\<lambda>wc. bnd (read_uint 256) (\<lambda>h.
     ret (AddrStd \<lparr>sa_anycast = a, sa_workchain = wc, sa_address = of_nat h\<rparr>))))"

definition read_addr_var :: "int_addr reader" where
  "read_addr_var = bnd read_anycast (\<lambda>a. bnd (read_uint 9) (\<lambda>n. bnd (read_int 32) (\<lambda>wc. bnd (read_raw n) (\<lambda>bs.
     ret (AddrVar \<lparr>va_anycast = a, va_address_len = n, va_workchain = wc, va_address = bs\<rparr>)))))"

text \<open>\<open>MsgAddress\<close>: the first bit separates the addresses of accounts from the missing one.\<close>

definition read_some_addr :: "int_addr reader" where
  "read_some_addr = bnd read_bit (\<lambda>var. if var then read_addr_var else read_addr_std)"

definition read_addr :: "int_addr reader" where
  "read_addr = bnd read_bit (\<lambda>b. if b then read_some_addr else fail EInvalidTag)"

definition read_addr_opt :: "int_addr option reader" where
  "read_addr_opt = bnd read_bit (\<lambda>b. if b then bnd read_some_addr (\<lambda>a. ret (Some a))
     else bnd read_bit (\<lambda>x. if x then fail EInvalidTag else ret None))"

lemma reads_addr_tail:
  assumes "addr_ok addr"
  obtains p where "addr_piece addr = join (bit_piece True) p" "reads read_some_addr p addr"
proof (cases addr)
  case (AddrStd a)
  have "reads read_addr_std (pieces [anycast_piece (sa_anycast a), int_piece 8 (sa_workchain a),
      uint_piece 256 (unat (sa_address a))]) addr"
    using assms unsigned_less[of "sa_address a"] unfolding read_addr_std_def pieces_simps AddrStd
    by (intro reads_bnd[OF reads_anycast] reads_bnd[OF reads_int] reads_bnd[OF reads_uint] reads_ret)
      (simp_all add: addr_ok_def)
  then have "reads read_some_addr (join (bit_piece False) (pieces [anycast_piece (sa_anycast a), int_piece 8 (sa_workchain a),
      uint_piece 256 (unat (sa_address a))])) addr"
    unfolding read_some_addr_def by (intro reads_bnd[OF reads_bit]) simp
  then show thesis by (rule that[rotated]) (simp add: addr_piece_def AddrStd)
next
  case (AddrVar v)
  have "reads read_addr_var (pieces [anycast_piece (va_anycast v), uint_piece 9 (va_address_len v),
      int_piece 32 (va_workchain v), raw_piece (va_address_len v) (va_address v)]) addr"
    using assms unfolding read_addr_var_def pieces_simps AddrVar
    by (intro reads_bnd[OF reads_anycast] reads_bnd[OF reads_int] reads_bnd[OF reads_uint] reads_bnd[OF reads_raw] reads_ret)
      (simp_all add: addr_ok_def)
  then have "reads read_some_addr (join (bit_piece True) (pieces [anycast_piece (va_anycast v), uint_piece 9 (va_address_len v),
      int_piece 32 (va_workchain v), raw_piece (va_address_len v) (va_address v)])) addr"
    unfolding read_some_addr_def by (intro reads_bnd[OF reads_bit]) simp
  then show thesis by (rule that[rotated]) (simp add: addr_piece_def AddrVar)
qed

lemma reads_addr: "addr_ok addr \<Longrightarrow> reads read_addr (addr_piece addr) addr"
  by (erule reads_addr_tail) (simp add: read_addr_def reads_bnd[OF reads_bit])

definition addr_opt_piece :: "int_addr option \<Rightarrow> piece" where
  "addr_opt_piece a = (case a of None \<Rightarrow> pieces [bit_piece False, bit_piece False] | Some a \<Rightarrow> addr_piece a)"

lemma reads_addr_opt:
  assumes "\<And>a. x = Some a \<Longrightarrow> addr_ok a"
  shows "reads read_addr_opt (addr_opt_piece x) x"
proof (cases x)
  case None
  then show ?thesis unfolding read_addr_opt_def addr_opt_piece_def
    by (simp add: reads_bnd[OF reads_bit] reads_map[OF reads_bit] reads_bnd[OF reads_bit, where q = "([], [])", simplified] reads_ret)
next
  case (Some a)
  obtain p where p: "addr_piece a = join (bit_piece True) p" "reads read_some_addr p a"
    by (rule reads_addr_tail[OF assms[OF Some]])
  show ?thesis unfolding read_addr_opt_def addr_opt_piece_def Some option.case p(1)
    by (rule reads_bnd[OF reads_bit]) (simp add: reads_map[OF p(2)])
qed

section \<open>Headers\<close>

text \<open>\<open>int_msg_info$0\<close>, \<open>ext_in_msg_info$10\<close>, \<open>ext_out_msg_info$11\<close>; external addresses are written as \<open>addr_none\<close>.\<close>

definition int_info_ok :: "rcell int_msg_info \<Rightarrow> bool" where
  "int_info_ok i \<longleftrightarrow> addr_ok (msg_src i) \<and> addr_ok (msg_dst i) \<and> tokens (msg_value i) < 2 ^ 120 \<and> ihr_fee i < 2 ^ 120 \<and>
     fwd_fee i < 2 ^ 120 \<and> created_lt i < 2 ^ 64 \<and> created_at i < 2 ^ 32"

definition int_info_piece :: "bool \<Rightarrow> bool \<Rightarrow> bool \<Rightarrow> int_addr option \<Rightarrow> int_addr \<Rightarrow> rcell currency \<Rightarrow> nat \<Rightarrow> nat \<Rightarrow> nat \<Rightarrow> nat \<Rightarrow> piece" where
  "int_info_piece ihr bnc bncd src dst v ihr_f fwd_f lt unixtime =
     pieces [bit_piece ihr, bit_piece bnc, bit_piece bncd, addr_opt_piece src, addr_piece dst, currency_piece v,
       tokens_piece ihr_f, tokens_piece fwd_f, uint_piece 64 lt, uint_piece 32 unixtime]"

definition read_relaxed_int :: "rcell relaxed_int_info reader" where
  "read_relaxed_int = bnd read_bit (\<lambda>ihr. bnd read_bit (\<lambda>bnc. bnd read_bit (\<lambda>bncd. bnd read_addr_opt (\<lambda>src.
     bnd read_addr (\<lambda>dst. bnd read_currency (\<lambda>v. bnd read_tokens (\<lambda>ihr_f. bnd read_tokens (\<lambda>fwd_f.
     bnd (read_uint 64) (\<lambda>lt. bnd (read_uint 32) (\<lambda>unixtime.
     ret \<lparr>ri_ihr_disabled = ihr, ri_bounce = bnc, ri_bounced = bncd, ri_src = src, ri_dst = dst, ri_value = v,
       ri_ihr_fee = ihr_f, ri_fwd_fee = fwd_f, ri_created_lt = lt, ri_created_at = unixtime\<rparr>))))))))))"

definition relaxed_ok :: "rcell relaxed_int_info \<Rightarrow> bool" where
  "relaxed_ok i \<longleftrightarrow> (case ri_src i of None \<Rightarrow> True | Some a \<Rightarrow> addr_ok a) \<and> addr_ok (ri_dst i) \<and> tokens (ri_value i) < 2 ^ 120 \<and>
     ri_ihr_fee i < 2 ^ 120 \<and> ri_fwd_fee i < 2 ^ 120 \<and> ri_created_lt i < 2 ^ 64 \<and> ri_created_at i < 2 ^ 32"

definition relaxed_piece :: "rcell relaxed_int_info \<Rightarrow> piece" where
  "relaxed_piece i = int_info_piece (ri_ihr_disabled i) (ri_bounce i) (ri_bounced i) (ri_src i) (ri_dst i) (ri_value i)
     (ri_ihr_fee i) (ri_fwd_fee i) (ri_created_lt i) (ri_created_at i)"

lemma reads_relaxed: "relaxed_ok i \<Longrightarrow> reads read_relaxed_int (relaxed_piece i) i"
  unfolding read_relaxed_int_def relaxed_piece_def int_info_piece_def pieces_simps
  by (intro reads_bnd[OF reads_bit] reads_bnd[OF reads_addr_opt] reads_bnd[OF reads_addr] reads_bnd[OF reads_currency]
      reads_bnd[OF reads_tokens] reads_bnd[OF reads_uint] reads_ret) (simp_all add: relaxed_ok_def)

text \<open>A header with a source is a relaxed one whose source is not missing.\<close>

definition relax :: "rcell int_msg_info \<Rightarrow> rcell relaxed_int_info" where
  "relax i = \<lparr>ri_ihr_disabled = ihr_disabled i, ri_bounce = bounce i, ri_bounced = bounced i, ri_src = Some (msg_src i),
     ri_dst = msg_dst i, ri_value = msg_value i, ri_ihr_fee = ihr_fee i, ri_fwd_fee = fwd_fee i,
     ri_created_lt = created_lt i, ri_created_at = created_at i\<rparr>"

definition read_int_info :: "rcell int_msg_info reader" where
  "read_int_info = bnd read_relaxed_int (\<lambda>ri. case ri_src ri of None \<Rightarrow> fail EInvalidTag | Some src \<Rightarrow> ret (sent_info ri src))"

lemma relax_simps: "relaxed_ok (relax i) \<longleftrightarrow> int_info_ok i" "ri_src (relax i) = Some (msg_src i)" "sent_info (relax i) (msg_src i) = i"
  by (simp_all add: relax_def relaxed_ok_def int_info_ok_def sent_info_def)

lemma relax_sent: "ri_src ri = Some src \<Longrightarrow> relax (sent_info ri src) = ri"
  by (simp add: relax_def sent_info_def)

lemma reads_int_info: "int_info_ok i \<Longrightarrow> reads read_int_info (relaxed_piece (relax i)) i"
proof -
  assume "int_info_ok i"
  then have "reads read_relaxed_int (relaxed_piece (relax i)) (relax i)" by (simp add: reads_relaxed relax_simps)
  then show ?thesis unfolding read_int_info_def by (rule reads_then) (simp add: relax_simps reads_ret)
qed

definition read_ext_addr :: "(nat \<times> nat list) option reader" where
  "read_ext_addr = bnd read_bit (\<lambda>b. if b then fail EInvalidTag else read_maybe (bnd (read_uint 9) (\<lambda>n. bnd (read_raw n) (\<lambda>bs. ret (n, bs)))))"

definition ext_addr_piece :: "(nat \<times> nat list) option \<Rightarrow> piece" where
  "ext_addr_piece a = join (bit_piece False) (maybe_piece (\<lambda>(n, bs). join (uint_piece 9 n) (raw_piece n bs)) a)"

definition ext_addr_ok :: "(nat \<times> nat list) option \<Rightarrow> bool" where
  "ext_addr_ok a = (case a of None \<Rightarrow> True | Some (n, bs) \<Rightarrow> n < 2 ^ 9 \<and> raw_ok n bs)"

lemma reads_ext_addr: "ext_addr_ok a \<Longrightarrow> reads read_ext_addr (ext_addr_piece a) a"
  unfolding read_ext_addr_def ext_addr_piece_def
  by (rule reads_bnd[OF reads_bit])
    (auto simp: ext_addr_ok_def intro!: reads_maybe reads_bnd[OF reads_uint] reads_map[OF reads_raw])

definition read_ext_out :: "relaxed_ext_info reader" where
  "read_ext_out = bnd read_addr_opt (\<lambda>src. bnd read_ext_addr (\<lambda>dst. bnd (read_uint 64) (\<lambda>lt. bnd (read_uint 32) (\<lambda>unixtime.
     ret \<lparr>re_src = src, re_dst = dst, re_created_lt = lt, re_created_at = unixtime\<rparr>))))"

definition ext_out_piece :: "relaxed_ext_info \<Rightarrow> piece" where
  "ext_out_piece i = pieces [addr_opt_piece (re_src i), ext_addr_piece (re_dst i), uint_piece 64 (re_created_lt i),
     uint_piece 32 (re_created_at i)]"

definition ext_out_ok :: "relaxed_ext_info \<Rightarrow> bool" where
  "ext_out_ok i \<longleftrightarrow> (case re_src i of None \<Rightarrow> True | Some a \<Rightarrow> addr_ok a) \<and> ext_addr_ok (re_dst i) \<and>
     re_created_lt i < 2 ^ 64 \<and> re_created_at i < 2 ^ 32"

lemma reads_ext_out: "ext_out_ok i \<Longrightarrow> reads read_ext_out (ext_out_piece i) i"
  unfolding read_ext_out_def ext_out_piece_def pieces_simps
  by (intro reads_bnd[OF reads_addr_opt] reads_bnd[OF reads_ext_addr] reads_bnd[OF reads_uint] reads_ret)
    (simp_all add: ext_out_ok_def)

definition read_ext_in :: "int_addr reader" where
  "read_ext_in = thn read_ext_addr (bnd read_addr (\<lambda>dst. thn read_tokens (ret dst)))"

definition ext_in_piece :: "int_addr \<Rightarrow> piece" where
  "ext_in_piece dst = pieces [ext_addr_piece None, addr_piece dst, tokens_piece 0]"

lemma reads_ext_in: "addr_ok dst \<Longrightarrow> reads read_ext_in (ext_in_piece dst) dst"
  unfolding read_ext_in_def ext_in_piece_def pieces_simps
  by (intro reads_thn[OF reads_ext_addr] reads_bnd[OF reads_addr] reads_thn[OF reads_tokens] reads_ret)
    (simp_all add: ext_addr_ok_def)

definition read_msg_info :: "rcell msg_info reader" where
  "read_msg_info = bnd read_bit (\<lambda>ext. if \<not> ext then bnd read_int_info (\<lambda>i. ret (MsgInt i))
     else bnd read_bit (\<lambda>out. if out then bnd read_ext_out (\<lambda>_. ret MsgExtOut)
       else bnd read_ext_in (\<lambda>dst. ret (MsgExtIn dst))))"

definition read_relaxed_info :: "rcell relaxed_msg_info reader" where
  "read_relaxed_info = bnd read_bit (\<lambda>ext. if \<not> ext then bnd read_relaxed_int (\<lambda>i. ret (RelInt i))
     else bnd read_bit (\<lambda>out. if out then bnd read_ext_out (\<lambda>i. ret (RelExtOut i)) else fail EInvalidTag))"

definition no_ext_out :: relaxed_ext_info where
  "no_ext_out = \<lparr>re_src = None, re_dst = None, re_created_lt = 0, re_created_at = 0\<rparr>"

definition msg_info_ok :: "rcell msg_info \<Rightarrow> bool" where
  "msg_info_ok i = (case i of MsgInt i \<Rightarrow> int_info_ok i | MsgExtIn dst \<Rightarrow> addr_ok dst | MsgExtOut \<Rightarrow> True)"

definition msg_info_piece :: "rcell msg_info \<Rightarrow> piece" where
  "msg_info_piece i = (case i of
      MsgInt i \<Rightarrow> join (bit_piece False) (relaxed_piece (relax i))
    | MsgExtIn dst \<Rightarrow> pieces [bit_piece True, bit_piece False, ext_in_piece dst]
    | MsgExtOut \<Rightarrow> pieces [bit_piece True, bit_piece True, ext_out_piece no_ext_out])"

definition relaxed_info_ok :: "rcell relaxed_msg_info \<Rightarrow> bool" where
  "relaxed_info_ok i = (case i of RelInt i \<Rightarrow> relaxed_ok i | RelExtOut i \<Rightarrow> ext_out_ok i)"

definition relaxed_info_piece :: "rcell relaxed_msg_info \<Rightarrow> piece" where
  "relaxed_info_piece i = (case i of
      RelInt i \<Rightarrow> join (bit_piece False) (relaxed_piece i)
    | RelExtOut i \<Rightarrow> pieces [bit_piece True, bit_piece True, ext_out_piece i])"

lemma reads_ext_out_info: "ext_out_ok i \<Longrightarrow> reads read_msg_info (pieces [bit_piece True, bit_piece True, ext_out_piece i]) MsgExtOut"
  unfolding read_msg_info_def pieces_simps
  by (rule reads_bnd[OF reads_bit], simp, rule reads_bnd[OF reads_bit], simp, rule reads_map[OF reads_ext_out]) simp_all

lemma reads_msg_info: "msg_info_ok i \<Longrightarrow> reads read_msg_info (msg_info_piece i) i"
proof (cases i)
  case (MsgInt m)
  assume "msg_info_ok i"
  with MsgInt show ?thesis unfolding read_msg_info_def msg_info_piece_def
    by (auto simp: msg_info_ok_def intro!: reads_bnd[OF reads_bit] reads_map[OF reads_int_info])
next
  case (MsgExtIn dst)
  assume "msg_info_ok i"
  then show ?thesis unfolding read_msg_info_def msg_info_piece_def MsgExtIn msg_info.case pieces_simps
    by (intro reads_bnd[OF reads_bit]) (simp add: msg_info_ok_def MsgExtIn reads_bnd[OF reads_bit] reads_map[OF reads_ext_in])
next
  case MsgExtOut
  then show ?thesis unfolding msg_info_piece_def MsgExtOut msg_info.case
    by (intro reads_ext_out_info) (simp add: ext_out_ok_def no_ext_out_def ext_addr_ok_def)
qed

lemma reads_relaxed_info: "relaxed_info_ok i \<Longrightarrow> reads read_relaxed_info (relaxed_info_piece i) i"
proof (cases i)
  case (RelInt m)
  assume "relaxed_info_ok i"
  with RelInt show ?thesis unfolding read_relaxed_info_def relaxed_info_piece_def
    by (auto simp: relaxed_info_ok_def intro!: reads_bnd[OF reads_bit] reads_map[OF reads_relaxed])
next
  case (RelExtOut m)
  assume "relaxed_info_ok i"
  then show ?thesis unfolding read_relaxed_info_def relaxed_info_piece_def RelExtOut relaxed_msg_info.case pieces_simps
    by (intro reads_bnd[OF reads_bit]) (simp add: relaxed_info_ok_def RelExtOut reads_bnd[OF reads_bit] reads_map[OF reads_ext_out])
qed

section \<open>State and actions\<close>

definition read_state_init :: "rcell state_init reader" where
  "read_state_init = bnd (read_maybe (read_uint 5)) (\<lambda>depth.
     bnd (read_maybe (bnd read_bit (\<lambda>tick. bnd read_bit (\<lambda>tock. ret (tick, tock))))) (\<lambda>special.
     bnd (read_maybe read_ref) (\<lambda>cd. bnd (read_maybe read_ref) (\<lambda>data. bnd (read_maybe read_ref) (\<lambda>libs.
     ret \<lparr>si_split_depth = depth, si_special = special, si_code = cd, si_data = data, si_libraries = libs\<rparr>)))))"

definition state_init_piece :: "rcell state_init \<Rightarrow> piece" where
  "state_init_piece st = pieces [maybe_piece (uint_piece 5) (si_split_depth st),
     maybe_piece (\<lambda>(tick, tock). join (bit_piece tick) (bit_piece tock)) (si_special st),
     maybe_piece ref_piece (si_code st), maybe_piece ref_piece (si_data st), maybe_piece ref_piece (si_libraries st)]"

lemma reads_state_init:
  assumes "\<And>d. si_split_depth st = Some d \<Longrightarrow> d < 32"
  shows "reads read_state_init (state_init_piece st) st"
  unfolding read_state_init_def state_init_piece_def pieces_simps
  by (intro reads_bnd[OF reads_maybe] reads_ret)
    (auto intro!: reads_uint reads_ref reads_bnd[OF reads_bit] reads_map[OF reads_bit] dest: assms)

definition send_mode_of :: "nat \<Rightarrow> send_mode" where
  "send_mode_of m = \<lparr>pay_fee_separately = bit m 0, send_ignore_error = bit m 1, send_bounce_on_error = bit m 4,
     delete_if_empty = bit m 5, with_remaining_balance = bit m 6, all_balance = bit m 7,
     send_unknown = bit m 2 \<or> bit m 3\<rparr>"

definition reserve_mode_of :: "nat \<Rightarrow> reserve_mode" where
  "reserve_mode_of m = \<lparr>all_but = bit m 0, reserve_ignore_error = bit m 1, with_original_balance = bit m 2,
     reverse = bit m 3, reserve_bounce_on_error = bit m 4, reserve_unknown = bit m 5 \<or> bit m 6 \<or> bit m 7\<rparr>"

definition library_mode_of :: "nat \<Rightarrow> library_mode" where
  "library_mode_of m = \<lparr>add_private = bit m 0, add_public = bit m 1, library_bounce_on_error = bit m 4\<rparr>"

definition read_lib_ref :: "rcell lib_ref reader" where
  "read_lib_ref = bnd read_bit (\<lambda>b. if b then bnd read_ref (\<lambda>c. ret (LibCell c))
     else bnd (read_uint 256) (\<lambda>h. ret (LibHash (of_nat h))))"

definition read_out_action :: "rcell out_action reader" where
  "read_out_action = bnd (read_uint 32) (\<lambda>tag.
     if tag = 0x0ec3c86d then bnd (read_uint 8) (\<lambda>m. bnd read_ref (\<lambda>c. ret (SendMsg (send_mode_of m) c)))
     else if tag = 0xad4de08e then bnd read_ref (\<lambda>c. ret (SetCode c))
     else if tag = 0x36e6b809 then bnd (read_uint 8) (\<lambda>m. bnd read_currency (\<lambda>v. ret (ReserveCurrency (reserve_mode_of m) v)))
     else if tag = 0x26fa1dd4 then bnd (read_uint 7) (\<lambda>m. bnd read_lib_ref (\<lambda>l. ret (ChangeLibrary (library_mode_of m) l)))
     else fail EInvalidTag)"

section \<open>The library of the executor\<close>

text \<open>
  The fees are those of the documented price tables. Dictionaries are supported as far as they are
  empty: an operation that would have to look inside one fails.
\<close>

definition ref_price :: "nat \<Rightarrow> nat" where
  "ref_price v = (v + 2 ^ 16 - 1) div 2 ^ 16"

definition only_empty :: "'a \<Rightarrow> rcell option \<Rightarrow> cell_error + 'a" where
  "only_empty x d = (case d of None \<Rightarrow> Inr x | Some _ \<Rightarrow> Inl EInvalidData)"

definition ref_build :: "piece \<Rightarrow> cell_error + rcell" where
  "ref_build p = (if length (fst p) \<le> MAX_BITS \<and> length (snd p) \<le> MAX_REFS then Inr (RCell (fst p) (snd p))
     else Inl ECellOverflow)"

definition ref_exec :: "(rcell, rslice, rbuilder) exec_lib" where
  "ref_exec = \<lparr>
     tk_max = 2 ^ 120 - 1,
     xc_add = (\<lambda>a b. if b = None then Inr a else only_empty b a),
     xc_sub = (\<lambda>a b. only_empty a b),
     compute_fwd_fee = (\<lambda>p bits cells. lump_price p + ref_price (bit_price p * bits + cell_price p * cells)),
     get_first_part = (\<lambda>p fee. fee * take_bit 16 (first_frac p) div 2 ^ 16),
     compute_gas_fee = (\<lambda>p g. if g \<le> flat_gas_limit p then flat_gas_price p
       else flat_gas_price p + ref_price (gas_unit_price p * (g - flat_gas_limit p))),
     load_bit = to_load read_bit,
     load_msg_info = to_load read_msg_info,
     parse_msg_info = (\<lambda>c. map_sum id fst (to_load read_msg_info (rslice_of c))),
     store_msg_info = (\<lambda>i b. if msg_info_ok i then ref_add b (fst (msg_info_piece i)) (snd (msg_info_piece i)) else Inl EIntOverflow),
     load_state_init = to_load read_state_init,
     build_state_init = (\<lambda>st. ref_build (state_init_piece st)),
     build_from_slice = (\<lambda>k. ref_build (rs_bits k, rs_refs k)),
     dict_public_libs = (\<lambda>d. case d of None \<Rightarrow> [] | Some _ \<Rightarrow> [Inl EInvalidData]),
     store_bit = (\<lambda>b v. ref_add b [v] []),
     store_slice_data = (\<lambda>b k. ref_add b (rs_bits k) []),
     build_cell = (\<lambda>b. Inr (RCell (rb_bits b) (rb_refs b))),
     slice_is_full = (\<lambda>k. rs_bits k = rc_bits (rs_cell k) \<and> rs_refs k = rc_refs (rs_cell k)),
     cell_bit_len = (\<lambda>c. length (rc_bits c)),
     xc_iter = (\<lambda>d. case d of None \<Rightarrow> [] | Some _ \<Rightarrow> [Inl EInvalidData]),
     xc_remove = (\<lambda>d _. only_empty None d),
     xc_normalize = (\<lambda>d. only_empty None d),
     xc_clamp = (\<lambda>a b. if b = None then Inr None else only_empty None a),
     lib_get = (\<lambda>d _. only_empty None d),
     lib_set = (\<lambda>_ _ _. Inl EInvalidData),
     lib_remove = (\<lambda>d _. only_empty (None, None) d),
     TAG_SEND_MSG = 0x0ec3c86d,
     send_flags = send_mode_of,
     load_u8 = to_load (read_uint 8),
     load_out_action = to_load read_out_action,
     load_relaxed_msg_info = to_load read_relaxed_info,
     build_relaxed_message = (\<lambda>i si body. if relaxed_info_ok i
       then ref_build (pieces [relaxed_info_piece i, (rs_bits si, rs_refs si), (rs_bits body, rs_refs body)]) else Inl EIntOverflow),
     load_remaining = (\<lambda>k. (k, ref_drop k (length (rs_bits k)) (length (rs_refs k)))),
     load_small_uint = (\<lambda>k n. ref_load_uint k n),
     store_small_uint = (\<lambda>b v n. ref_add b (to_bits n (int v)) []),
     as_full_slice = (\<lambda>b. rslice_of (RCell (rb_bits b) (rb_refs b))),
     cell_as_slice = (\<lambda>c. Inr (rslice_of c)),
     load_msg_type_is_int = to_load (bnd read_bit (\<lambda>ext. if ext then bnd read_bit (\<lambda>_. ret False) else ret True)),
     load_int_addr = to_load read_addr,
     load_int_msg_info = to_load read_int_info,
     addr_cell = (\<lambda>a. RCell (fst (addr_piece a)) []),
     addr_none_cell = RCell [False, False] [],
     rebuild_library = id,
     sha256_pair = (\<lambda>a b. a XOR b)\<rparr>"

section \<open>The laws hold\<close>

definition begins :: "rbuilder \<Rightarrow> rcell msg_info \<Rightarrow> bool" where
  "begins b i \<longleftrightarrow> msg_info_ok i \<and> (\<exists>bs rs. rb_bits b = fst (msg_info_piece i) @ bs \<and> rb_refs b = snd (msg_info_piece i) @ rs)"

lemma begins_add: "ref_add b bs rs = Inr b' \<Longrightarrow> begins b i \<Longrightarrow> begins b' i"
  by (auto simp: begins_def ref_add_def split: if_splits)

lemma reads_load: "reads r p x \<Longrightarrow> rs_bits k = fst p @ bs \<Longrightarrow> rs_refs k = snd p @ rs \<Longrightarrow>
    to_load r k = Inr (x, ref_drop k (length (fst p)) (length (snd p)))"
  by (simp add: reads_def to_load_def)

lemma reads_parse: "reads r p x \<Longrightarrow> map_sum id fst (to_load r (rslice_of (RCell (fst p @ bs) (snd p @ rs)))) = Inr x"
  using reads_load[of r p x "rslice_of (RCell (fst p @ bs) (snd p @ rs))" bs rs] by (simp add: rslice_of_def)

lemma parse_relaxed:
  assumes "reads read_msg_info p i" and "ref_build (pieces [p, q, r]) = Inr c"
  shows "parse_msg_info ref_exec c = Inr i"
proof -
  have "c = RCell (fst p @ fst q @ fst r) (snd p @ snd q @ snd r)"
    using assms(2) by (simp add: ref_build_def join_def split: if_splits)
  with reads_parse[OF assms(1)] show ?thesis by (simp add: ref_exec_def)
qed

interpretation refx: message_codec ref_lib ref_exec begins
proof unfold_locales
  show "begins b i" if "store_msg_info ref_exec i (b_new ref_lib) = Inr b" for i b
    using that by (auto simp: ref_exec_def ref_lib_def begins_def ref_add_def split: if_splits)
  show "parse_msg_info ref_exec c = Inr i" if "begins b i" "build_cell ref_exec b = Inr c" for b i c
    using that reads_parse[OF reads_msg_info] by (auto simp: begins_def ref_exec_def)
  show "get_first_part ref_exec prices fees \<le> fees" for prices fees
  proof -
    have "fees * take_bit 16 (first_frac prices) \<le> fees * 2 ^ 16"
      using take_bit_nat_less_exp[of 16 "first_frac prices"] by (intro mult_le_mono2) simp
    from div_le_mono[OF this, of "2 ^ 16"] show ?thesis by (simp add: ref_exec_def)
  qed
  show "parse_msg_info ref_exec c = Inr (MsgInt (sent_info ri src))"
    if "build_relaxed_message ref_exec (RelInt ri) si body = Inr c" "ri_src ri = Some src" for ri si body c src
  proof (rule parse_relaxed)
    have ok: "relaxed_ok ri" using that(1) by (simp add: ref_exec_def relaxed_info_ok_def split: if_splits)
    have "reads read_msg_info (msg_info_piece (MsgInt (sent_info ri src))) (MsgInt (sent_info ri src))"
      using ok by (intro reads_msg_info) (simp add: msg_info_ok_def relax_simps(1)[symmetric] relax_sent[OF that(2)])
    then show "reads read_msg_info (relaxed_info_piece (RelInt ri)) (MsgInt (sent_info ri src))"
      by (simp add: msg_info_piece_def relaxed_info_piece_def relax_sent[OF that(2)])
    show "ref_build (pieces [relaxed_info_piece (RelInt ri), (rs_bits si, rs_refs si), (rs_bits body, rs_refs body)]) = Inr c"
      using that(1) by (simp add: ref_exec_def split: if_splits)
  qed
  show "parse_msg_info ref_exec c = Inr MsgExtOut"
    if "build_relaxed_message ref_exec (RelExtOut re) si body = Inr c" "re_src re = Some src" for re si body c src
  proof (rule parse_relaxed)
    show "reads read_msg_info (relaxed_info_piece (RelExtOut re)) MsgExtOut"
      using that(1) by (auto simp: ref_exec_def relaxed_info_ok_def relaxed_info_piece_def simp del: pieces_simps
          split: if_splits intro: reads_ext_out_info)
    show "ref_build (pieces [relaxed_info_piece (RelExtOut re), (rs_bits si, rs_refs si), (rs_bits body, rs_refs body)]) = Inr c"
      using that(1) by (simp add: ref_exec_def split: if_splits)
  qed
qed (auto simp: ref_exec_def ref_lib_def elim: begins_add)

end
