(* ===== verification/Executor.thy ===== *)
theory Executor
  imports StorageUsed MsgCodec
begin

text \<open>
  What a transaction as a whole guarantees, over any serialisation of messages that can be read back
  (the locale \<open>message_codec\<close>), and the concrete transactions at which the properties are exercised:
  accounts, messages and prices over the reference cells and the message format of \<open>MsgCodec\<close>.
\<close>

section \<open>A concrete executor\<close>

definition demo_gas_prices :: gas_limits_prices where
  "demo_gas_prices = \<lparr>gas_unit_price = 26214400, prices_gas_limit = 1000000, special_gas_limit = 1000000,
     prices_gas_credit = 10000, flat_gas_limit = 100, flat_gas_price = 40000, freeze_due_limit = 100000000,
     delete_due_limit = 500000000\<rparr>"

definition demo_fwd_prices :: msg_forward_prices where
  "demo_fwd_prices = \<lparr>lump_price = 400000, bit_price = 26214400, cell_price = 2621440000, ihr_price_factor = 98304,
     first_frac = 21845, next_frac = 21845\<rparr>"

definition demo_config :: "(rcell, rslice) parsed_config" where
  "demo_config = \<lparr>blackhole_addr = None, mc_gas_prices = demo_gas_prices, base_gas_prices = demo_gas_prices,
     mc_fwd_prices = demo_fwd_prices, base_fwd_prices = demo_fwd_prices,
     config_size_limits = \<lparr>max_msg_bits = 2097152, max_msg_cells = 8192, max_acc_state_bits = 67043328,
       max_acc_state_cells = 65536, max_acc_public_libraries = 256, max_library_cells = 1000\<rparr>,
     config_storage_prices = [\<lparr>utime_since = 0, bit_price_ps = 1, cell_price_ps = 500, mc_bit_price_ps = 1000,
       mc_cell_price_ps = 500000\<rparr>],
     workchains = [0 \<mapsto> \<lparr>accept_msgs = True, wc_format = Basic\<rparr>], special_accounts = {}, config_address = 1,
     config_root = None,
     unpacked = \<lparr>latest_storage_prices = None, raw_global_id = None, raw_mc_gas_prices = None, raw_gas_prices = None,
       raw_mc_fwd_prices = None, raw_fwd_prices = None, raw_size_limits = None\<rparr>\<rparr>"

definition demo_params :: "rcell executor_params" where
  "demo_params = \<lparr>params_libraries = (\<lambda>_. Inr None), rand_seed = 0, block_unixtime = 1000, block_lt = 20000,
     vm_modifiers = \<lparr>stop_on_accept = False, chksig_always_succeed = False, signature_with_id = None\<rparr>,
     disable_delete_frozen_accounts = False, charge_action_fees_on_fail = True, full_body_in_bounced = False,
     strict_extra_currency = True\<rparr>"

definition demo_addr :: "nat \<Rightarrow> std_addr" where
  "demo_addr n = \<lparr>sa_anycast = None, sa_workchain = 0, sa_address = of_nat n\<rparr>"

text \<open>A message of one million units that may bounce, for an account that does not exist.\<close>

definition demo_info :: "rcell int_msg_info" where
  "demo_info = \<lparr>ihr_disabled = True, bounce = True, bounced = False, msg_src = AddrStd (demo_addr 7),
     msg_dst = AddrStd (demo_addr 5), msg_value = \<lparr>tokens = 1000000, other = None\<rparr>, ihr_fee = 0, fwd_fee = 1000,
     created_lt = 9, created_at = 990\<rparr>"

definition demo_msg :: rcell where
  "demo_msg = RCell (fst (msg_info_piece (MsgInt demo_info)) @ [False, False]) []"

definition demo_start :: "(rcell, rslice) exec_state" where
  "demo_start = projr (begin_account demo_params demo_config executor_new (demo_addr 5) None)"

definition demo_received :: "(rcell, rslice) received_message" where
  "demo_received = \<lparr>rm_root = demo_msg, rm_init = None, rm_body = RSlice demo_msg 0 [] [], rm_is_external = False,
     rm_bounce_enabled = True, rm_balance_remaining = \<lparr>tokens = 1000000, other = None\<rparr>\<rparr>"

definition demo_credited :: "(rcell, rslice) exec_state" where
  "demo_credited = \<lparr>params = demo_params, config = demo_config, is_special = False, address = demo_addr 5,
     storage_stat = \<lparr>used = \<lparr>used_cells = 0, used_bits = 0, used_public_cells = 0\<rparr>, last_paid = 1000, due_payment = None\<rparr>,
     balance = \<lparr>tokens = 1000000, other = None\<rparr>, acc_now = AccUninit, orig_status = StNotExists, end_status = StUninit,
     start_lt = 10, end_lt = 11, out_msgs = [], total_fees = 0, burned = 0, cached_storage_stat = None\<rparr>"

definition demo_bounced :: "(rcell, rslice) exec_state" where
  "demo_bounced = demo_credited\<lparr>balance := \<lparr>tokens = 0, other = None\<rparr>, total_fees := 133331\<rparr>"

lemma demo_begin: "begin_account demo_params demo_config executor_new (demo_addr 5) None = Inr demo_start"
  by (simp add: demo_start_def begin_account_def Let_def)

lemma ref_sel:
  "slice_of_cell ref_api = rslice_of" "slice_size_bits ref_api = (\<lambda>k. length (rs_bits k))"
  "slice_size_refs ref_api = (\<lambda>k. length (rs_refs k))" "slice_cell ref_api = rs_cell"
  "b_new ref_lib = RBuilder [] [] False" "b_has_capacity ref_lib = ref_room" "sl_get_prefix ref_lib = ref_take"
  "b_store_u32 ref_lib = (\<lambda>b v. ref_add b (to_bits 32 (int v)) [])"
  by (simp_all add: ref_api_def ref_lib_def)

lemma ref_exec_sel:
  "tk_max ref_exec = 2 ^ 120 - 1" "xc_add ref_exec None None = Inr None" "xc_sub ref_exec None None = Inr None"
  "compute_fwd_fee ref_exec p bits cells = lump_price p + ref_price (bit_price p * bits + cell_price p * cells)"
  "get_first_part ref_exec p fee = fee * take_bit 16 (first_frac p) div 2 ^ 16"
  "store_bit ref_exec = (\<lambda>b v. ref_add b [v] [])" "store_slice_data ref_exec = (\<lambda>b k. ref_add b (rs_bits k) [])"
  "build_cell ref_exec = (\<lambda>b. Inr (RCell (rb_bits b) (rb_refs b)))"
  "store_msg_info ref_exec = (\<lambda>i b. if msg_info_ok i then ref_add b (fst (msg_info_piece i)) (snd (msg_info_piece i)) else Inl EIntOverflow)"
  "cell_as_slice ref_exec = (\<lambda>c. Inr (rslice_of c))" "load_bit ref_exec (RSlice c n (b # bs) rs) = Inr (b, RSlice c n bs rs)"
  by (simp_all add: ref_exec_def only_empty_def to_load_def read_bit_def of_load_def guarded_def ref_drop_def)

lemma demo_ok: "msg_info_ok (MsgInt demo_info)"
  by (simp add: msg_info_ok_def int_info_ok_def demo_info_def addr_ok_def demo_addr_def anycast_ok_def int_fits_def fits_signed_def)

lemmas piece_defs = msg_info_piece_def relaxed_piece_def int_info_piece_def join_def relax_def bit_piece_def addr_opt_piece_def
  addr_piece_def currency_piece_def tokens_piece_def uint_piece_def int_piece_def maybe_piece_def anycast_piece_def

lemma demo_load: "load_msg_info ref_exec (rslice_of demo_msg) = Inr (MsgInt demo_info, RSlice demo_msg 0 [False, False] [])"
proof -
  have "snd (msg_info_piece (MsgInt demo_info)) = []" by (simp add: piece_defs demo_info_def demo_addr_def)
  with reads_load[OF reads_msg_info[OF demo_ok], of "rslice_of demo_msg" "[False, False]" "[]"] show ?thesis
    by (simp add: ref_exec_def rslice_of_def demo_msg_def ref_drop_def)
qed

lemma demo_parse: "parse_msg_info ref_exec demo_msg = Inr (MsgInt demo_info)"
  using demo_load by (simp add: ref_exec_def)

lemma receive_blackhole_eq: "receive_blackhole v es = (if is_blackhole (config es) (address es)
    then (Inr (v\<lparr>tokens := 0\<rparr>), es\<lparr>burned := tokens v\<rparr>) else (Inr v, es))"
  by (simp add: receive_blackhole_def)

lemma demo_receive: "receive_tx_msg ref_api ref_lib ref_exec False demo_msg demo_start =
   (Inr demo_received, demo_start\<lparr>start_lt := 10, end_lt := 11\<rparr>)"
  by (simp add: receive_tx_msg_def receive_in_msg_def demo_load ref_sel receive_header_def receive_internal_def check_message_dst_def
      demo_info_def demo_start_def begin_account_def demo_addr_def ex_ensure_def ref_exec_sel executor_new_def cc_add_tokens_def
      tk_add_def demo_received_def receive_init_def receive_body_def receive_blackhole_eq is_blackhole_def demo_config_def
      add_u64_def Let_def)

lemma demo_credit: "\<exists>info crd. credit_and_storage ref_exec False demo_received (demo_start\<lparr>start_lt := 10, end_lt := 11\<rparr>) =
   (Inr (info, crd, demo_received), demo_credited)"
  by (simp add: credit_and_storage_def storage_phase_def demo_start_def begin_account_def Let_def storage_to_pay_def
      compute_storage_fees_def ex_ensure_def collect_storage_def apply_status_change_def add_fees_def tk_add_def ref_exec_sel
      adjust_message_def credit_if_internal_def credit_phase_def cc_add_def cc_zero_def set_balance_def demo_params_def
      config_is_special_def demo_config_def executor_new_def demo_addr_def is_masterchain_def demo_received_def demo_credited_def)

lemma demo_threshold: "max_gas_threshold demo_gas_prices = 400000000"
proof -
  have "shift_ceil_price 26211778560000 = 399960000" by (simp add: shift_ceil_price_def drop_bit_eq_div take_bit_eq_mod)
  then show ?thesis by (simp add: max_gas_threshold_def demo_gas_prices_def sat_add128_def u128_max_def)
qed

lemma demo_bought: "gas_bought_for demo_gas_prices 1000000 = 2500"
proof -
  have "take_bit 128 (push_bit 16 (960000 :: nat)) = 62914560000" by (simp add: take_bit_eq_mod push_bit_eq_mult)
  then show ?thesis
    by (simp add: gas_bought_for_def demo_threshold) (simp add: demo_gas_prices_def sat_add128_def u128_max_def)
qed

lemma demo_gas_params: "compute_gas_params demo_config 1000000 1000000 False False True False =
    \<lparr>gp_max = 2500, gp_limit = 2500, gp_credit = 0, gp_price = 26214400\<rparr>"
proof -
  have "gas_prices demo_config False = demo_gas_prices" by (simp add: gas_prices_def demo_config_def)
  then show ?thesis by (simp add: compute_gas_params_def demo_bought Let_def) (simp add: demo_gas_prices_def)
qed

lemma demo_compute: "\<exists>full. compute_phase ref_api ref_lib ref_exec D (TxOrdinary demo_received) fee False demo_credited =
   (Inr full, demo_credited) \<and> compute_phase_of full = ComputeSkipped NoState"
  by (simp add: compute_phase_def in_msg_def demo_received_def demo_credited_def cc_sub_def tk_sub_def ref_exec_sel
      is_masterchain_def demo_addr_def is_ordinary_def demo_gas_params select_state_def in_msg_init_def)

lemma byte_len_0: "byte_len 0 = 0"
  by (simp add: byte_len_def bit_length.simps)

lemma demo_bits: "length (fst (msg_info_piece (MsgInt (bounced_info es demo_info (AddrStd (demo_addr 7)) \<lparr>tokens = t, other = None\<rparr> f))))
    = 647 + 8 * byte_len t + 8 * byte_len f"
  "snd (msg_info_piece (MsgInt (bounced_info es demo_info (AddrStd (demo_addr 7)) \<lparr>tokens = t, other = None\<rparr> f))) = []"
  by (simp_all add: piece_defs bounced_info_def demo_info_def demo_addr_def byte_len_0)

lemma demo_dst: "check_rewrite_dst_addr (workchains (config demo_credited)) (msg_src demo_info) = Some (AddrStd (demo_addr 7))"
  by (simp add: check_rewrite_dst_addr_def demo_info_def has_anycast_def demo_addr_def addr_workchain_def demo_credited_def
      demo_config_def format_accepts_def)

lemma demo_full_body: "bounce_full_body ref_api ref_exec body demo_credited = (Inr None, demo_credited)"
  by (simp add: bounce_full_body_def bnd_gets demo_credited_def demo_params_def)

lemma demo_message: "\<exists>c. bounce_message ref_api ref_lib ref_exec
    (bounced_info demo_bounced demo_info (AddrStd (demo_addr 7)) \<lparr>tokens = 600000, other = None\<rparr> 266669)
    (rm_body demo_received) None demo_bounced = (Inr c, demo_bounced)"
proof -
  have ok: "msg_info_ok (MsgInt (bounced_info demo_bounced demo_info (AddrStd (demo_addr 7)) \<lparr>tokens = 600000, other = None\<rparr> 266669))"
    using demo_ok by (simp add: msg_info_ok_def int_info_ok_def bounced_info_def demo_info_def demo_addr_def demo_bounced_def
        demo_credited_def demo_params_def)
  have l: "byte_len 600000 = 3" "byte_len 266669 = 3" by (simp_all add: byte_len_def bit_length.simps)
  show ?thesis
    using ok by (simp add: bounce_message_def ref_sel ref_exec_sel demo_bits l ref_add_def MAX_BITS_def ref_take_def demo_received_def
      place_bounce_body_def ref_room_def store_bounce_body_def)
qed

lemma demo_bounce: "\<exists>r es'. bounce_phase ref_api ref_lib ref_exec 0 0 demo_received demo_credited = (Inr r, es') \<and>
   length (out_msgs es') = 1"
proof -
  obtain c where c: "bounce_message ref_api ref_lib ref_exec
    (bounced_info demo_bounced demo_info (AddrStd (demo_addr 7)) \<lparr>tokens = 600000, other = None\<rparr> 266669)
    (rm_body demo_received) None demo_bounced = (Inr c, demo_bounced)" using demo_message by blast
  have prices: "fwd_prices (config demo_credited) False = demo_fwd_prices" "is_masterchain (address demo_credited) = False"
     "addr_is_masterchain (AddrStd (demo_addr 7)) = False"
    by (simp_all add: fwd_prices_def demo_credited_def demo_config_def is_masterchain_def addr_is_masterchain_def demo_addr_def)
  have send: "\<exists>r es'. bounce_send ref_api ref_lib ref_exec demo_info (AddrStd (demo_addr 7)) (rm_body demo_received) None demo_fwd_prices
     \<lparr>tokens = 1000000, other = None\<rparr> 400000 0 0 demo_credited = (Inr r, es') \<and> length (out_msgs es') = 1"
    using c by (simp add: bounce_send_def demo_bounced_def demo_credited_def cc_sub_def tk_sub_def ref_exec_sel set_balance_def
        add_fees_eq demo_fwd_prices_def Let_def)
  have msg: "rm_root demo_received = demo_msg" "rm_balance_remaining demo_received = \<lparr>tokens = 1000000, other = None\<rparr>"
    by (simp_all add: demo_received_def)
  show ?thesis
    using send by (simp add: bounce_phase_def demo_parse msg bounce_internal_def demo_dst demo_full_body bounce_priced_def Let_def
        opt_list_def stat_with_limits_def prices ref_exec_sel demo_fwd_prices_def ref_price_def tk_sub_def)
qed

text \<open>The message bounces.\<close>

lemma demo_run:
  "\<exists>info es'. run_ordinary_transaction ref_api ref_lib ref_exec (dispatch ref_api ref_table) False False demo_msg demo_start
     = (Inr info, es') \<and> length (out_msgs es') = 1"
proof -
  obtain info crd where c: "credit_and_storage ref_exec False demo_received (demo_start\<lparr>start_lt := 10, end_lt := 11\<rparr>) =
   (Inr (info, crd, demo_received), demo_credited)" using demo_credit by blast
  obtain full where f: "compute_phase ref_api ref_lib ref_exec (dispatch ref_api ref_table) (TxOrdinary demo_received)
     (storage_fees_collected info) False demo_credited = (Inr full, demo_credited)" "compute_phase_of full = ComputeSkipped NoState"
    using demo_compute by blast
  obtain r es' where b: "bounce_phase ref_api ref_lib ref_exec 0 0 demo_received demo_credited = (Inr r, es')" "length (out_msgs es') = 1"
    using demo_bounce by blast
  have t: "fatal (credit_and_storage ref_exec False demo_received) (demo_start\<lparr>start_lt := 10, end_lt := 11\<rparr>) =
      (Inr (info, crd, demo_received), demo_credited)"
    "fatal (compute_phase ref_api ref_lib ref_exec (dispatch ref_api ref_table) (TxOrdinary demo_received)
       (storage_fees_collected info) False) demo_credited = (Inr full, demo_credited)"
    "fatal (act_on_success ref_api ref_lib ref_exec False (Some demo_received) full) demo_credited = (Inr (None, Some demo_received, False), demo_credited)"
    "fatal (bounce_if_needed ref_api ref_lib ref_exec demo_received (ComputeSkipped NoState) None) demo_credited = (Inr (Some r), es')"
    using c f b by (simp_all add: act_on_success_def compute_succeeded_def bounce_if_needed_def needs_bounce_def compute_fees_def demo_received_def)
  show ?thesis using f b by (simp add: run_ordinary_transaction_def demo_receive t)
qed

section \<open>Transactions\<close>

text \<open>
  C2: an ordinary transaction conserves tokens. What the account had and what the message brought (its value
  and its unused delivery fee) is what the account has afterwards, with the fees collected, the amount
  burned and the worth of the messages sent, whatever phases ran and however they ended; and
  the logical time has advanced by one for the transaction and one for each message.
\<close>

theorem value_conserved:
  assumes "message_codec L X starts" and "begin_account ps cfg ex addr acc = Inr es"
    and "run_ordinary_transaction A L X D inspect external msg_root es = (Inr info, es')"
  shows "tokens (balance es') + total_fees es' + burned es' + sum_list (map (out_worth X) (out_msgs es')) =
      (case acc of Some a \<Rightarrow> tokens (acc_balance a) | None \<Rightarrow> 0) + income A X msg_root \<and>
    end_lt es' = (start_lt es' + 1 + length (out_msgs es')) mod 2 ^ 64"
proof -
  note b = begin_account_Inr[OF assms(2)]
  have "wealth X es' = wealth X es + income A X msg_root \<and> lt_ok es'"
    by (rule message_codec.run_ordinary_wealth[OF assms(1,3) b(1,4,3)])
  then show ?thesis
    using b(6)[of X] by (simp_all add: wealth_def lt_ok_def)
qed

theorem value_conserved_witness:
  "\<exists>info es'. run_ordinary_transaction ref_api ref_lib ref_exec (dispatch ref_api ref_table) False False demo_msg demo_start
      = (Inr info, es') \<and> length (out_msgs es') = 1 \<and>
    tokens (balance es') + total_fees es' + burned es' + sum_list (map (out_worth ref_exec) (out_msgs es')) = 1000000 \<and>
    end_lt es' = (start_lt es' + 2) mod 2 ^ 64"
proof -
  obtain info es' where run: "run_ordinary_transaction ref_api ref_lib ref_exec (dispatch ref_api ref_table) False False demo_msg demo_start
      = (Inr info, es')" and one: "length (out_msgs es') = 1"
    using demo_run by blast
  have "income ref_api ref_exec demo_msg = 1000000" by (simp add: income_def ref_sel demo_load demo_info_def)
  with value_conserved[OF refx.message_codec_axioms demo_begin run] run one show ?thesis by auto
qed

text \<open>C14: a tick-tock transaction conserves tokens; it brings nothing in.\<close>

theorem tick_tock_conserved:
  assumes "message_codec L X starts" and "begin_account ps cfg ex addr acc = Inr es"
    and "run_tick_tock_transaction A L X D inspect tock es = (Inr info, es')"
  shows "tokens (balance es') + total_fees es' + burned es' + sum_list (map (out_worth X) (out_msgs es')) =
      (case acc of Some a \<Rightarrow> tokens (acc_balance a) | None \<Rightarrow> 0) \<and>
    end_lt es' = (start_lt es' + 1 + length (out_msgs es')) mod 2 ^ 64"
proof -
  note b = begin_account_Inr[OF assms(2)]
  have "wealth X es' = wealth X es \<and> lt_ok es'"
    by (rule message_codec.run_tick_tock_wealth[OF assms(1,3) b(4,3)])
  then show ?thesis
    using b(6)[of X] by (simp_all add: wealth_def lt_ok_def)
qed

text \<open>An active account that owes more than it has.\<close>

definition demo_account :: "rcell account" where
  "demo_account = \<lparr>acc_address = AddrStd (demo_addr 5),
     acc_storage_stat = \<lparr>used = \<lparr>used_cells = 10, used_bits = 1000, used_public_cells = 0\<rparr>, last_paid = 1, due_payment = Some 300\<rparr>,
     acc_last_trans_lt = 7, acc_balance = \<lparr>tokens = 50, other = None\<rparr>, acc_state = AccActive state_init_default\<rparr>"

definition demo_owing :: "(rcell, rslice) exec_state" where
  "demo_owing = projr (begin_account demo_params demo_config executor_new (demo_addr 5) (Some demo_account))"

lemma demo_owing_begin: "begin_account demo_params demo_config executor_new (demo_addr 5) (Some demo_account) = Inr demo_owing"
  by (simp add: demo_owing_def begin_account_def Let_def demo_account_def)

lemma demo_owing_fields:
  "params demo_owing = demo_params" "config demo_owing = demo_config" "is_special demo_owing = False" "address demo_owing = demo_addr 5"
  "storage_stat demo_owing = acc_storage_stat demo_account" "balance demo_owing = \<lparr>tokens = 50, other = None\<rparr>"
  "acc_now demo_owing = AccActive state_init_default" "total_fees demo_owing = 0" "end_status demo_owing = StActive"
  by (simp_all add: demo_owing_def begin_account_def Let_def demo_account_def executor_new_def config_is_special_def
      is_masterchain_def demo_addr_def)

lemma demo_owed: "storage_to_pay ref_exec demo_owing = 392"
  by (simp add: storage_to_pay_def demo_owing_fields demo_account_def compute_storage_fees_def demo_params_def demo_config_def
      is_masterchain_def demo_addr_def segment_fee_def get_prices_def sat_mul128_def sat_add128_def u128_max_def
      shift_ceil_price_def drop_bit_eq_div take_bit_eq_mod tk_saturating_add_def ref_exec_sel Let_def)

lemma demo_storage_phase:
  "storage_phase ref_exec False None demo_owing =
     (Inr (\<lparr>storage_fees_collected = 50, storage_fees_due = Some 342, status_change = StatusUnchanged\<rparr>, None),
      demo_owing\<lparr>balance := \<lparr>tokens = 0, other = None\<rparr>, total_fees := 50,
        storage_stat := \<lparr>used = used (acc_storage_stat demo_account), last_paid = 1000, due_payment = Some 342\<rparr>\<rparr>)"
proof -
  have "last_paid (acc_storage_stat demo_account) = 1" "block_unixtime demo_params = 1000"
    by (simp_all add: demo_account_def demo_params_def)
  moreover have "\<not> freeze_due_limit (gas_prices demo_config (is_masterchain (demo_addr 5))) < 342"
    by (simp add: gas_prices_def demo_config_def demo_gas_prices_def)
  ultimately show ?thesis
    by (simp add: storage_phase_def bnd_gets demo_owing_fields demo_owed ex_ensure_def collect_storage_def tk_sub_def Let_def
        unpaid_status_def apply_status_change_def add_fees_eq ref_exec_sel)
qed

lemma demo_tick_tock:
  "\<exists>info es'. run_tick_tock_transaction ref_api ref_lib ref_exec (dispatch ref_api ref_table) False True demo_owing = (Inr info, es')"
proof -
  let ?es = "demo_owing\<lparr>balance := \<lparr>tokens = 0, other = None\<rparr>, total_fees := 50,
        storage_stat := \<lparr>used = used (acc_storage_stat demo_account), last_paid = 1000, due_payment = Some 342\<rparr>\<rparr>"
  have st: "fatal (storage_phase ref_exec False None) demo_owing =
     (Inr (\<lparr>storage_fees_collected = 50, storage_fees_due = Some 342, status_change = StatusUnchanged\<rparr>, None), ?es)"
    by (simp add: demo_storage_phase)
  obtain full where comp: "compute_phase ref_api ref_lib ref_exec (dispatch ref_api ref_table) (TxTickTock True) 50 False ?es = (Inr full, ?es)"
    and skip: "compute_phase_of full = ComputeSkipped NoGas"
    by (simp add: compute_phase_def bnd_gets in_msg_def Let_def)
  then have "fatal (compute_phase ref_api ref_lib ref_exec (dispatch ref_api ref_table) (TxTickTock True) 50 False) ?es = (Inr full, ?es)"
    by simp
  moreover have "fatal (act_on_success ref_api ref_lib ref_exec False None full) ?es = (Inr (None, None, False), ?es)"
    using skip by (simp add: act_on_success_def compute_succeeded_def)
  ultimately show ?thesis
    using st by (simp add: run_tick_tock_transaction_def bnd_gets demo_owing_fields)
qed

theorem tick_tock_conserved_witness:
  "\<exists>info es'. run_tick_tock_transaction ref_api ref_lib ref_exec (dispatch ref_api ref_table) False True demo_owing = (Inr info, es') \<and>
    tokens (balance es') + total_fees es' + burned es' + sum_list (map (out_worth ref_exec) (out_msgs es')) = 50"
proof -
  obtain info es' where "run_tick_tock_transaction ref_api ref_lib ref_exec (dispatch ref_api ref_table) False True demo_owing = (Inr info, es')"
    using demo_tick_tock by blast
  with tick_tock_conserved[OF refx.message_codec_axioms demo_owing_begin this] show ?thesis by (simp add: demo_account_def)
qed

section \<open>Phases\<close>

lemma unpaid_frozen: "unpaid_status es d = StatusFrozen \<Longrightarrow> account_status_of (acc_now es) = StActive \<and>
    freeze_due_limit (gas_prices (config es) (is_masterchain (address es))) < d"
  by (auto simp: unpaid_status_def Let_def split: account_state.split_asm if_split_asm)

lemma unpaid_deleted: "unpaid_status es d = StatusDeleted \<Longrightarrow> account_status_of (acc_now es) \<noteq> StActive \<and>
    delete_due_limit (gas_prices (config es) (is_masterchain (address es))) < d \<and> other (balance es) \<noteq> None"
  by (auto simp: unpaid_status_def Let_def split: account_state.split_asm if_split_asm)

text \<open>The limit of two extra currencies lets a message with three pass.\<close>

lemma three_currencies_pass: "check_extra_balance MAX_MSG_EXTRA_CURRENCIES 0 [Inr (1, 5), Inr (2, 5), Inr (3, 5)]"
  by (simp add: MAX_MSG_EXTRA_CURRENCIES_def)

text \<open>
  C15: the storage phase splits what the account owes into what is collected and what stays due. Nothing
  stays due unless the balance is used up; what is collected moves from the balance to the fees;
  the due amount is remembered; and the account is frozen or deleted only when the due amount
  exceeds the limit of its kind.
\<close>

theorem storage_phase_outcome:
  assumes "storage_phase X adjust received es = (Inr (info, received'), es')"
  shows "storage_to_pay X es = storage_fees_collected info + (case storage_fees_due info of None \<Rightarrow> 0 | Some d \<Rightarrow> d) \<and>
    tokens (balance es') + storage_fees_collected info = tokens (balance es) \<and>
    total_fees es' = total_fees es + storage_fees_collected info \<and>
    (storage_fees_due info \<noteq> None \<longrightarrow> tokens (balance es') = 0) \<and>
    (storage_to_pay X es \<noteq> 0 \<and> \<not> is_special es \<longrightarrow> due_payment (storage_stat es') = storage_fees_due info) \<and>
    (case status_change info of
       StatusUnchanged \<Rightarrow> end_status es' = end_status es
     | StatusFrozen \<Rightarrow> end_status es' = StFrozen \<and> account_status_of (acc_now es) = StActive \<and>
         (\<exists>d. storage_fees_due info = Some d \<and> freeze_due_limit (gas_prices (config es) (is_masterchain (address es))) < d)
     | StatusDeleted \<Rightarrow> end_status es' = StNotExists \<and> account_status_of (acc_now es) \<noteq> StActive \<and>
         (\<exists>d. storage_fees_due info = Some d \<and> delete_due_limit (gas_prices (config es) (is_masterchain (address es))) < d))"
proof -
  note s = storage_phase_Inr[OF assms]
  have "case status_change info of
       StatusUnchanged \<Rightarrow> end_status es' = end_status es
     | StatusFrozen \<Rightarrow> end_status es' = StFrozen \<and> account_status_of (acc_now es) = StActive \<and>
         (\<exists>d. storage_fees_due info = Some d \<and> freeze_due_limit (gas_prices (config es) (is_masterchain (address es))) < d)
     | StatusDeleted \<Rightarrow> end_status es' = StNotExists \<and> account_status_of (acc_now es) \<noteq> StActive \<and>
         (\<exists>d. storage_fees_due info = Some d \<and> delete_due_limit (gas_prices (config es) (is_masterchain (address es))) < d)"
  proof (cases "status_change info")
    case StatusUnchanged
    then show ?thesis using s(11) by simp
  next
    case StatusFrozen
    then obtain d where "storage_fees_due info = Some d" using s(6) by fastforce
    then show ?thesis using StatusFrozen s(11,12) unpaid_frozen by fastforce
  next
    case StatusDeleted
    then obtain d where "storage_fees_due info = Some d" using s(6) by fastforce
    then show ?thesis using StatusDeleted s(11,12) unpaid_deleted by fastforce
  qed
  with s(1-5) show ?thesis by blast
qed

theorem storage_phase_outcome_witness:
  "\<exists>info es'. storage_phase ref_exec False None demo_owing = (Inr (info, None), es') \<and>
    storage_fees_collected info = 50 \<and> storage_fees_due info = Some 342 \<and> tokens (balance es') = 0 \<and>
    due_payment (storage_stat es') = Some 342"
  using storage_phase_outcome[OF demo_storage_phase] demo_storage_phase
  by (simp add: demo_owed demo_owing_fields)

text \<open>
  C16: storage is paid for by the second. With the price list in order of time, the fee is the sum over the
  seconds since the last payment of the price in force in each, saturated at 128 bits and rounded up.
\<close>

theorem storage_fees_sum:
  assumes "sorted (map utime_since (config_storage_prices cfg))" and "last_paid st \<noteq> 0"
  shows "compute_storage_fees cfg st time False mc =
    shift_ceil_price (min (\<Sum>t = last_paid st..<time. rate_at mc (used st) (config_storage_prices cfg) t) u128_max)"
  using assms by (rule storage_fees_by_second)

theorem storage_fees_sum_witness:
  "shift_ceil_price (min (\<Sum>t = 1..<1000. rate_at False \<lparr>used_cells = 10, used_bits = 1000, used_public_cells = 0\<rparr>
     (config_storage_prices demo_config) t) u128_max) = 92"
proof -
  let ?st = "acc_storage_stat demo_account"
  have "compute_storage_fees demo_config ?st 1000 False False = 92"
    by (simp add: demo_account_def compute_storage_fees_def demo_config_def segment_fee_def get_prices_def sat_mul128_def
        sat_add128_def u128_max_def shift_ceil_price_def drop_bit_eq_div take_bit_eq_mod)
  moreover have "sorted (map utime_since (config_storage_prices demo_config))" "last_paid ?st \<noteq> 0"
    by (simp_all add: demo_config_def demo_account_def)
  ultimately show ?thesis using storage_fees_sum[of demo_config ?st 1000 False] by (simp add: demo_account_def)
qed

text \<open>
  C17: the gas bought for a balance that covers the flat price never exceeds the limit, costs no more
  than the balance, and is the most for which this is true.
\<close>

theorem gas_bought_is_most:
  assumes "prices_fit p" and "bal \<noteq> 0" and "flat_gas_price p \<le> bal"
  shows "gas_bought_for p bal \<le> prices_gas_limit p \<and> gas_cost p (gas_bought_for p bal) \<le> bal \<and>
    (gas_bought_for p bal < prices_gas_limit p \<longrightarrow> bal < gas_cost p (gas_bought_for p bal + 1))"
  using gas_bought_most[OF assms] by blast

theorem gas_bought_is_most_witness:
  "gas_cost demo_gas_prices 2500 \<le> 1000000 \<and> 1000000 < gas_cost demo_gas_prices 2501"
proof -
  have "prices_fit demo_gas_prices" "flat_gas_price demo_gas_prices \<le> 1000000" "prices_gas_limit demo_gas_prices = 1000000"
    by (simp_all add: prices_fit_def demo_gas_prices_def)
  from gas_bought_is_most[OF this(1) _ this(2)] this(3) show ?thesis by (simp add: demo_bought)
qed

text \<open>
  C4: the compute phase runs the machine to its end. Over code page 0, with the gas parameters the
  configuration grants, the fuel of the run is enough and no instruction panics: the phase may
  fail on a malformed cell or an amount out of range, but never by a panic.
\<close>

theorem compute_phase_returns:
  assumes "reads_bits A" and "keys_fit L" and "codepage0 A L M = Inr table"
  shows "fst (compute_phase A L X (dispatch A table) input fee False es) \<noteq> Inl ExecPanic"
proof
  assume "fst (compute_phase A L X (dispatch A table) input fee False es) = Inl ExecPanic"
  then obtain t where "compute_phase A L X (dispatch A table) input fee False es = (Inl ExecPanic, t)"
    by (metis prod.collapse)
  from upholds_InlD[OF compute_phase_calm[OF assms] TrueI this] show False by simp
qed

theorem compute_phase_returns_witness:
  "fst (compute_phase ref_api ref_lib ref_exec (dispatch ref_api ref_table) (TxTickTock True) 0 False demo_owing) \<noteq> Inl ExecPanic"
  by (rule compute_phase_returns[OF reads_bits_ref keys_fit_ref ref_table_eq])

text \<open>
  C18: the compute phase gives an account a new state only when the account was not active and the
  message brings a state whose hash is the address of the account, or the hash it was frozen
  with; the account becomes active only when the run also accepted the message.
\<close>

theorem deploy_checked:
  assumes "compute_phase A L X D input fee force_accept es = (Inr full, es')"
  shows "acc_now es' = acc_now es \<and> end_status es' = end_status es \<or>
    (\<exists>m. in_msg_init input = Some m \<and> account_status_of (acc_now es) \<noteq> StActive \<and>
      cell_repr_hash A (msi_root m) = unfreeze_hash es \<and> acc_now es' = AccActive (msi_parsed m) \<and>
      (end_status es' = end_status es \<or> end_status es' = StActive \<and> accepted full))"
  using compute_phase_state[OF assms] unfolding brings_state_def by blast

text \<open>An external message that deploys an empty state to the special account of its hash.\<close>

definition demo_deploy_init :: "rcell msg_state_init" where
  "demo_deploy_init = \<lparr>msi_root = RCell [True] [], msi_parsed = state_init_default\<rparr>"

definition demo_deploy_msg :: "(rcell, rslice) received_message" where
  "demo_deploy_msg = \<lparr>rm_root = RCell [True, False] [], rm_init = Some demo_deploy_init, rm_body = rslice_of (RCell [] []),
     rm_is_external = True, rm_bounce_enabled = False, rm_balance_remaining = cc_zero\<rparr>"

definition demo_deploy :: "(rcell, rslice) exec_state" where
  "demo_deploy = demo_credited\<lparr>address := demo_addr 3, is_special := True\<rparr>"

lemma demo_deploy_gas: "\<exists>g. compute_gas_params demo_config 1000000 0 True False True True = g \<and> gp_limit g = 1000000 \<and> gas_params_wf g"
  by (simp add: compute_gas_params_def Let_def gas_params_wf_def gas_prices_def demo_config_def demo_gas_prices_def)

lemma demo_deploy_select:
  "select_state ref_api ref_lib ref_exec (Some demo_deploy_init) True state_init_default demo_deploy =
     (Inr (Inr (None, Some None, True, state_init_default)), demo_deploy\<lparr>acc_now := AccActive state_init_default\<rparr>)"
proof -
  have "ref_cell_hash (RCell [True] []) = 3" by (simp add: ref_cell_hash_def bits_value_def)
  then show ?thesis
    by (simp add: select_state_def bnd_gets demo_deploy_def demo_credited_def use_msg_state_def demo_deploy_init_def ref_api_def
        unfreeze_hash_def demo_addr_def state_init_default_def check_state_limits_diff_def)
qed

lemma charge_nothing:
  "total_fees es \<le> tk_max X \<Longrightarrow> charge_gas X activate 0 es = (Inr (), if activate then es\<lparr>end_status := StActive\<rparr> else es)"
  by (simp add: charge_gas_def bnd_gets cc_sub_tokens_def tk_sub_def set_balance_def add_fees_eq)

lemma special_finish:
  "is_special es \<Longrightarrow> total_fees es \<le> tk_max X \<Longrightarrow> \<exists>full es'. finish_compute X force_accept g msu res exit vm es = (Inr full, es')"
  unfolding finish_compute_def Let_def bnd_gets by (simp add: charge_nothing)

lemma demo_deploy_run:
  "\<exists>full es'. compute_phase ref_api ref_lib ref_exec (dispatch ref_api ref_table) (TxOrdinary demo_deploy_msg) 0 False demo_deploy =
     (Inr full, es') \<and> acc_now es' = AccActive state_init_default"
proof -
  let ?es = "demo_deploy\<lparr>acc_now := AccActive state_init_default\<rparr>" and ?run = "(None, Some None, True, state_init_default)"
  obtain g where g: "compute_gas_params demo_config 1000000 0 True False True True = g" "gp_limit g = 1000000" "gas_params_wf g"
    using demo_deploy_gas by blast
  have "load_msg_type_is_int ref_exec (rslice_of (RCell [True, False] [])) = Inr (False, RSlice (RCell [True, False] []) 0 [] [])"
    by (simp add: ref_exec_def bnd_def to_load_def read_bit_def of_load_def guarded_def rslice_of_def ref_drop_def del: bnd_Inr)
  then have tup: "make_in_msg_tuple ref_api ref_lib ref_exec demo_deploy_msg = Inr None"
    by (simp add: make_in_msg_tuple_def demo_deploy_msg_def ref_exec_sel)
  have fields: "is_special ?es" "total_fees ?es \<le> tk_max ref_exec" by (simp_all add: demo_deploy_def demo_credited_def)
  have run: "\<exists>full es'. run_vm ref_api ref_lib ref_exec (dispatch ref_api ref_table) (TxOrdinary demo_deploy_msg) False g v 0 res ?run ?es =
      (Inr full, es')" for v res
  proof -
    let ?b = "vm_builder_of ref_api ref_lib ref_exec ?es (TxOrdinary demo_deploy_msg) g ?run v 0 None"
    obtain exit vm where "vm_run ref_api (dispatch ref_api ref_table) (vm_fuel (b_gas ?b)) (build ref_api ?b) = Some (Some exit, vm)"
      using vm_run_fuel[OF reads_bits_ref keys_fit_ref ref_table_eq, of ?b] g(3) by (auto simp: vm_builder_of_def)
    then show ?thesis
      using special_finish[OF fields] by (simp add: run_vm_def bnd_gets in_msg_def tup vm_builder_of_def)
  qed
  then obtain full es' where f: "run_vm ref_api ref_lib ref_exec (dispatch ref_api ref_table) (TxOrdinary demo_deploy_msg) False g cc_zero 0
      \<lparr>compute_phase_of = ComputeSkipped NoGas, accepted = False, cpf_original_balance = \<lparr>tokens = 1000000, other = None\<rparr>,
       cpf_new_state = state_init_default, cpf_actions = cell_empty ref_api\<rparr> ?run ?es = (Inr full, es')" by blast
  have "compute_phase ref_api ref_lib ref_exec (dispatch ref_api ref_table) (TxOrdinary demo_deploy_msg) 0 False demo_deploy = (Inr full, es')"
    using f demo_deploy_select g(1,2)
    by (simp add: compute_phase_def bnd_gets in_msg_def in_msg_init_def is_ordinary_def demo_deploy_def[THEN arg_cong, of balance]
        demo_deploy_def[THEN arg_cong, of acc_now] demo_deploy_def[THEN arg_cong, of config] demo_deploy_def[THEN arg_cong, of is_special]
        demo_deploy_def[THEN arg_cong, of address]
        demo_deploy_msg_def[THEN arg_cong, of rm_init] demo_deploy_msg_def[THEN arg_cong, of rm_balance_remaining]
        demo_deploy_msg_def[THEN arg_cong, of rm_is_external] demo_credited_def cc_sub_def tk_sub_def cc_zero_def ref_exec_sel
        is_masterchain_def demo_addr_def)
  with run_vm_state(1)[OF f] show ?thesis by simp
qed

theorem deploy_checked_witness:
  "\<exists>full es'. compute_phase ref_api ref_lib ref_exec (dispatch ref_api ref_table) (TxOrdinary demo_deploy_msg) 0 False demo_deploy =
     (Inr full, es') \<and> acc_now es' = AccActive state_init_default \<and> cell_repr_hash ref_api (RCell [True] []) = sa_address (address demo_deploy)"
proof -
  obtain full es' where run: "compute_phase ref_api ref_lib ref_exec (dispatch ref_api ref_table) (TxOrdinary demo_deploy_msg) 0 False demo_deploy =
     (Inr full, es')" "acc_now es' = AccActive state_init_default" using demo_deploy_run by blast
  with deploy_checked[OF run(1)] show ?thesis
    by (auto simp: demo_deploy_def demo_credited_def in_msg_init_def demo_deploy_msg_def demo_deploy_init_def unfreeze_hash_def)
qed

section \<open>Sizes\<close>

text \<open>
  C19: the size of a message counts every cell once. When the cells below a slice are told apart by
  their hashes, the computed size is one cell and the bits of the slice, with the number and the
  bits of the distinct cells that its references reach.
\<close>

theorem slice_size:
  assumes "tree_cells A L C" and "set (sl_references L cs) \<subseteq> C" and "compute_for_slice A L X cs bits cells = Some (b, n)"
  shows "n = 1 + card (below L cs) \<and> b = slice_size_bits A cs + sum (cell_bit_len X) (below L cs)"
  using compute_for_slice_Some[OF assms] by (simp add: below_def)

text \<open>A slice that reaches one cell twice.\<close>

definition demo_leaf :: rcell where "demo_leaf = RCell [True] []"
definition demo_node :: rcell where "demo_node = RCell [False, True] [demo_leaf]"
definition demo_slice :: rslice where "demo_slice = rslice_of (RCell [True, True, True] [demo_node, demo_leaf])"

lemma demo_hashes: "ref_cell_hash demo_leaf = 3" "ref_cell_hash demo_node = 5"
  by (simp_all add: ref_cell_hash_def demo_leaf_def demo_node_def bits_value_def)

lemma demo_neq: "demo_node \<noteq> demo_leaf"
  by (simp add: demo_leaf_def demo_node_def)

lemma demo_cell_sel:
  "cl_references ref_lib demo_leaf = []" "cl_references ref_lib demo_node = [demo_leaf]"
  "cell_repr_depth ref_api demo_leaf = 0" "cell_repr_depth ref_api demo_node = 1"
  "cell_repr_hash ref_api = ref_cell_hash" "is_merkle ref_api c = False" "sl_references ref_lib = rs_refs"
  "cell_bit_len ref_exec demo_leaf = 1" "cell_bit_len ref_exec demo_node = 2"
  by (simp_all add: ref_lib_def ref_api_def ref_exec_def is_merkle_def demo_leaf_def demo_node_def)

lemma demo_tree: "tree_cells ref_api ref_lib {demo_node, demo_leaf}"
  by (auto simp: tree_cells_def demo_cell_sel demo_hashes inj_on_def)

lemma demo_reach: "reach ref_lib demo_leaf = {demo_leaf}" "reach ref_lib demo_node = {demo_node, demo_leaf}"
proof -
  show l: "reach ref_lib demo_leaf = {demo_leaf}" by (subst reach_unfold) (simp add: demo_cell_sel)
  show "reach ref_lib demo_node = {demo_node, demo_leaf}" by (subst reach_unfold) (simp add: demo_cell_sel l)
qed

lemma demo_below: "below ref_lib demo_slice = {demo_node, demo_leaf}"
  by (auto simp: below_def demo_cell_sel demo_slice_def rslice_of_def demo_reach)

lemma demo_size: "compute_for_slice ref_api ref_lib ref_exec demo_slice 100 100 = Some (6, 3)"
  by (simp add: compute_for_slice_def demo_cell_sel demo_slice_def rslice_of_def ref_sel stat_with_limits_def add_cell_def
      count_cell_def finish_cell_def bnd_gets demo_hashes U32_MAX_def MAX_ALLOWED_MERKLE_DEPTH_def Let_def)

theorem slice_size_witness:
  "compute_for_slice ref_api ref_lib ref_exec demo_slice 100 100 = Some (6, 3) \<and> 3 = 1 + card {demo_node, demo_leaf} \<and>
   6 = slice_size_bits ref_api demo_slice + sum (cell_bit_len ref_exec) {demo_node, demo_leaf}"
proof -
  have "set (sl_references ref_lib demo_slice) \<subseteq> {demo_node, demo_leaf}"
    by (simp add: demo_cell_sel demo_slice_def rslice_of_def)
  from slice_size[OF demo_tree this demo_size] demo_size show ?thesis by (simp add: demo_below)
qed

text \<open>
  C20: the storage numbers of an account are those of a set of cells, every cell once. If the previous numbers
  were exact and no reference has changed they are taken over, and stay exact. Otherwise the count goes on from
  the cells of the state last checked against its limits, which is where every transaction leaves it
  (\<open>ordinary_source\<close>, \<open>tick_tock_source\<close>), and the numbers are those of that state and of the new storage together: exact
  if and only if the state checked is part of the storage. It is not when the account is stored frozen after
  its actions were run, and then the numbers are too high.
\<close>

theorem storage_used_counts:
  assumes "compute_storage_used A L X T prev new cache without_extra = Inr (us, cache')"
    and "(if without_extra then skip_extra A T new else Inr new) = Inr cs"
    and "cache_of A L X cache S" and "countable_cells A L X cs (S \<union> below L cs)"
    and "\<And>k. slice_size_refs A k = length (sl_references L k)"
    and "\<And>us0 prev0 prev1. prev = Some (us0, prev0) \<Longrightarrow>
      (if without_extra then skip_extra A T prev0 else Inr prev0) = Inr prev1 \<Longrightarrow> exact_used A L X prev1 us0"
  shows "(if taken_over A L T without_extra prev cs then exact_used A L X cs us
      else used_for A X cs (S \<union> below L cs) us) \<and>
    (exact_used A L X cs us \<longleftrightarrow> taken_over A L T without_extra prev cs \<or> S \<subseteq> below L cs)"
  using assms by (rule compute_storage_used_outcome)

text \<open>
  A state of two cells that was checked, an account that held them, the same account with other bits in its root,
  and the account stored frozen, with no cell below the root.
\<close>

definition demo_checked_state :: "rcell state_init" where
  "demo_checked_state = state_init_default\<lparr>si_code := Some demo_node\<rparr>"

definition demo_cache :: "ext_storage_stat option" where
  "demo_cache = snd (check_state_limits ref_api ref_lib ref_exec demo_checked_state (config_size_limits demo_config) False None)"

definition demo_used :: storage_used where
  "demo_used = \<lparr>used_cells = 3, used_bits = 6, used_public_cells = 0\<rparr>"

definition demo_reslice :: rslice where "demo_reslice = rslice_of (RCell [True] [demo_node, demo_leaf])"
definition demo_frozen :: rslice where "demo_frozen = rslice_of (RCell [True, False] [])"

lemma demo_cache_of: "cache_of ref_api ref_lib ref_exec demo_cache {demo_node, demo_leaf}"
proof -
  have "state_cells ref_lib demo_checked_state = {demo_node, demo_leaf}"
    by (auto simp: state_cells_def demo_checked_state_def state_init_default_def opt_list_def demo_reach)
  moreover have "fst (check_state_limits ref_api ref_lib ref_exec demo_checked_state (config_size_limits demo_config) False None) = Fits"
    by (simp add: check_state_limits_def demo_checked_state_def state_init_default_def opt_list_def demo_cell_sel stat_with_limits_def
        add_cell_def count_cell_def finish_cell_def bnd_gets demo_hashes U32_MAX_def MAX_ALLOWED_MERKLE_DEPTH_def Let_def demo_config_def)
  ultimately show ?thesis unfolding cache_of_def demo_cache_def by (metis prod.collapse)
qed

lemma demo_storages:
  "below ref_lib demo_reslice = {demo_node, demo_leaf}" "below ref_lib demo_frozen = {}"
  "slice_size_bits ref_api demo_slice = 3" "slice_size_bits ref_api demo_reslice = 1" "slice_size_bits ref_api demo_frozen = 2"
  "slice_size_refs ref_api demo_slice = 2" "slice_size_refs ref_api demo_reslice = 2" "slice_size_refs ref_api demo_frozen = 0"
  "sl_references ref_lib demo_slice = [demo_node, demo_leaf]" "sl_references ref_lib demo_reslice = [demo_node, demo_leaf]"
  by (auto simp: below_def demo_cell_sel demo_reslice_def demo_frozen_def demo_slice_def rslice_of_def demo_reach ref_sel)

lemma demo_countable:
  "countable_cells ref_api ref_lib ref_exec cs {demo_node, demo_leaf} \<longleftrightarrow> slice_size_bits ref_api cs \<le> MAX_BITS"
  by (simp add: countable_cells_def demo_tree demo_neq demo_cell_sel U32_MAX_def)

lemma demo_used_exact: "exact_used ref_api ref_lib ref_exec demo_slice demo_used"
  by (simp add: exact_used_def used_for_def demo_used_def demo_below demo_neq demo_cell_sel demo_storages)

theorem storage_used_counts_witness:
  "\<forall>T. (\<exists>us cache'. compute_storage_used ref_api ref_lib ref_exec T (Some (demo_used, demo_slice)) demo_reslice demo_cache False =
       Inr (us, cache') \<and> used_cells us = 3 \<and> used_bits us = 4 \<and> exact_used ref_api ref_lib ref_exec demo_reslice us) \<and>
    (\<exists>us cache'. compute_storage_used ref_api ref_lib ref_exec T (Some (demo_used, demo_slice)) demo_frozen demo_cache False =
       Inr (us, cache') \<and> used_cells us = 3 \<and> used_bits us = 5 \<and> \<not> exact_used ref_api ref_lib ref_exec demo_frozen us)"
proof
  fix T :: "(rcell, rslice, rbuilder) tx_lib"
  let ?run = "\<lambda>new. compute_storage_used ref_api ref_lib ref_exec T (Some (demo_used, demo_slice)) new demo_cache False"
  have refs: "slice_size_refs ref_api k = length (sl_references ref_lib k)" for k by (simp add: ref_sel demo_cell_sel)
  have took: "taken_over ref_api ref_lib T False (Some (demo_used, demo_slice)) demo_reslice"
    "\<not> taken_over ref_api ref_lib T False (Some (demo_used, demo_slice)) demo_frozen"
    by (simp_all add: taken_over_def can_reuse_def demo_storages demo_used_def)
  have runs: "\<exists>us cache'. ?run new = Inr (us, cache')" for new
    by (auto simp: compute_storage_used_def Let_def split: prod.split)
  note counts = storage_used_counts[OF _ _ demo_cache_of _ refs, of T "Some (demo_used, demo_slice)" _ False]
  obtain us c where r1: "?run demo_reslice = Inr (us, c)" using runs by blast
  have e1: "exact_used ref_api ref_lib ref_exec demo_reslice us"
    using counts[OF r1] took(1) by (simp add: demo_storages demo_countable MAX_BITS_def demo_used_exact)
  obtain vs d where r2: "?run demo_frozen = Inr (vs, d)" using runs by blast
  have e2: "used_for ref_api ref_exec demo_frozen {demo_node, demo_leaf} vs" "\<not> exact_used ref_api ref_lib ref_exec demo_frozen vs"
    using counts[OF r2] took(2) by (simp_all add: demo_storages demo_countable MAX_BITS_def demo_used_exact)
  show "(\<exists>us cache'. ?run demo_reslice = Inr (us, cache') \<and> used_cells us = 3 \<and> used_bits us = 4 \<and>
      exact_used ref_api ref_lib ref_exec demo_reslice us) \<and>
    (\<exists>us cache'. ?run demo_frozen = Inr (us, cache') \<and> used_cells us = 3 \<and> used_bits us = 5 \<and>
      \<not> exact_used ref_api ref_lib ref_exec demo_frozen us)"
    using r1 e1 r2 e2
    by (simp add: exact_used_def used_for_def demo_storages demo_neq demo_cell_sel)
qed

end
