(* ===== verification/Spec2Isabelle.thy ===== *)
theory Spec2Isabelle
  imports CodeSpec Executor
begin

text \<open>
  A verification development for \<open>tycho-vm\<close>: the TON virtual machine of \<open>src/vm\<close> with the opcode
  macro of \<open>src/vm-proc\<close>, and the transaction executor of \<open>src/executor\<close> around it.

  \<^bold>\<open>The program.\<close> A machine (\<open>VmState\<close>, \<open>state.rs\<close>) runs a slice of code against a stack of
  dynamically typed values (\<open>stack.rs\<close>), a set of control registers and continuations (\<open>cont.rs\<close>)
  and a gas meter (\<open>gas.rs\<close>). One step reads the next 24 bits of code, finds the instruction in the
  table of the code page by binary search (\<open>dispatch.rs\<close>), charges for it and runs its handler
  (\<open>instr/*.rs\<close>). The handlers are registered by the attribute macro of \<open>vm-proc/src/lib.rs\<close>, which
  turns patterns such as \<open>e3$10nx#x\<close> into opcode ranges and operand fields. Errors become exceptions
  that jump to the continuation in \<open>c2\<close>; running out of gas ends the machine. \<open>RUNVM\<close> starts a nested
  machine whose state is put on a chain of parents, with a meter derived from the parent's.

  The executor (\<open>executor/src/lib.rs\<close>) applies a message, or a tick of the block, to an account. A
  transaction is a sequence of phases on one state: the message is received and its value credited, the
  storage of the account is paid for, the contract is run in the machine with the gas its balance buys,
  its actions are carried out, and a message that failed is bounced (\<open>phase/*.rs\<close>, \<open>tx/*.rs\<close>). The
  new account state, the storage it uses and the transaction are then built (\<open>commit\<close>).

  \<^bold>\<open>Theories.\<close>
  \<^item> \<open>Prelude\<close>: fallible stateful actions, total-correctness triples, the locale \<open>action_invariant\<close> with
    its structural rules, 64-bit saturation and truncation, list surgery.
  \<^item> \<open>VmError\<close> (\<open>error.rs\<close>): errors, exceptions and exit codes.
  \<^item> \<open>Values\<close> (\<open>stack.rs\<close>, \<open>cont.rs\<close>): stack values, continuations, control data; casts and lists.
  \<^item> \<open>VmStack\<close> (\<open>stack.rs\<close>): every push, pop, block and tuple accessor of \<open>Stack\<close>.
  \<^item> \<open>Gas\<close> (\<open>gas.rs\<close>): the consumer and the limited consumer, both interpretations of the locale
    \<open>charge_meter\<close>; cell loading with libraries; deriving and restoring meters; the invariant
    \<open>meter_inv\<close> that ties a chain of meters to one budget (an interpretation of \<open>action_invariant\<close>).
  \<^item> \<open>Control\<close> (\<open>cont.rs\<close>): control registers, savelists, control data.
  \<^item> \<open>Machine\<close> (\<open>state.rs\<close>, \<open>cont.rs\<close>): the state, its builder, jumps, calls, returns, loops, exceptions,
    commits, \<open>step\<close>, \<open>run_inner\<close>, \<open>restore_parent\<close> and \<open>run\<close>.
  \<^item> \<open>Dispatch\<close> (\<open>dispatch.rs\<close>): opcode kinds and their execution, registration, gap filling, lookup.
  \<^item> \<open>Pattern\<close> (\<open>vm-proc/src/lib.rs\<close>): the scanner of opcode patterns, explicit ranges, operand fields.
  \<^item> \<open>Safety\<close>: the invariant of a running machine (\<open>good\<close>): the meters are within the budget, \<open>c0\<close> and
    \<open>c1\<close> are set, every parent can be restored; the calculus of safe actions over it.
  \<^item> \<open>Run\<close>: the locale \<open>dispatcher\<close> (an instruction keeps the invariant and charges, and fails once the meter
    is below zero) and, inside it, termination of the interpreter loop and of the chain of nested machines.
  \<^item> \<open>StackOps\<close>, \<open>ContOps\<close>, \<open>ArithOps\<close>, \<open>CmpOps\<close>, \<open>LogicOps\<close>, \<open>TupleOps\<close>, \<open>GasOps\<close> (\<open>instr/*.rs\<close>): one
    definition per handler, with its functional behaviour and its safety.
  \<^item> \<open>CellLib\<close>, \<open>CellOps\<close> (\<open>instr/cellops.rs\<close>, with parts of \<open>util.rs\<close> and \<open>gas.rs\<close>): the library behind slices
    and builders as the record \<open>cell_lib\<close>, the building of cells, integers as bytes, and one definition
    per cell instruction.
  \<^item> \<open>CellSpec\<close>: the locale \<open>bit_cells\<close>, cells as bit strings with references, and inside it what the
    cell instructions promise over any such library.
  \<^item> \<open>InstrLib\<close>: the library behind the application-specific instructions as the record \<open>instr_lib\<close>, with
    dictionary functions as programs over a cell context that run on the consumers of \<open>gas.rs\<close>.
  \<^item> \<open>DictOps\<close>, \<open>RandOps\<close>, \<open>ConfigOps\<close>, \<open>MessageOps\<close>, \<open>CryptOps\<close>, \<open>CurrencyOps\<close>, \<open>SizeOps\<close>, \<open>DebugOps\<close>
    (\<open>instr/*.rs\<close>): one definition per handler and its safety.
  \<^item> \<open>InstrTables\<close>, \<open>AppTables\<close>, \<open>Codepage\<close> (\<open>instr/mod.rs\<close> and the \<open>#[op]\<close> attributes): the instruction tables
    of the sixteen modules, their ranges and disjointness, the construction of code page 0, the proof
    that its dispatcher charges at least 10 units per instruction.
  \<^item> \<open>Flow\<close>: what calls, returns, loops and uncaught exceptions do to the whole state; \<open>turns\<close>, the steps of the
    interpreter that go on, and the rounds of a loop over them.
  \<^item> \<open>AppSpec\<close>: what global variables, the random generator, failed insertions and the size instructions do;
    the traversal of \<open>SizeOps\<close> against the set of reachable cells.
  \<^item> \<open>AddrSpec\<close>: the locale \<open>bit_readers\<close> extends \<open>bit_cells\<close> by the readers of a slice. Inside it, the code that parses
    and the code that skips a message address follow one parser of bits, which inverts the encoding of addresses.
  \<^item> \<open>HashSpec\<close>: the reader of HASHEXT, in \<open>bit_readers\<close>, against the bytes of the concatenated inputs.
  \<^item> \<open>CodeSpec\<close>: from the bits of the code to the handler, in \<open>bit_cells\<close>: the instruction registered for the first bits of
    the code is found, charged and run; \<open>SWAP\<close> and \<open>IFBITJMPREF\<close> followed through their handlers.
  \<^item> \<open>RefCells\<close>: a reference implementation of the cell library; the interpretation of \<open>dispatcher\<close> on
    code page 0 over it, of \<open>bit_cells\<close> and of \<open>bit_readers\<close>.
  \<^item> \<open>ExecTypes\<close> (\<open>executor/src/lib.rs\<close>, \<open>util.rs\<close>, \<open>error.rs\<close>): accounts, messages, prices and the state of
    the executor; amounts and addresses; the library it calls as the record \<open>exec_lib\<close>.
  \<^item> \<open>ExecConfig\<close> (\<open>config.rs\<close>): storage fees and gas parameters.
  \<^item> \<open>StorageStat\<close> (\<open>util.rs\<close>): the traversal that counts the cells of a tree, against the set of reachable
    cells; the limits of a contract state.
  \<^item> \<open>Phases\<close> (\<open>phase/receive.rs\<close>, \<open>credit.rs\<close>, \<open>storage.rs\<close>, \<open>bounce.rs\<close>): the phases around the machine, with the
    locale \<open>header_codec\<close>: a built message reads back with its header.
  \<^item> \<open>Actions\<close> (\<open>phase/action.rs\<close>): the action list and the four actions; the locale \<open>message_codec\<close> extends
    \<open>header_codec\<close> by the messages a contract sends, and the accounting invariant of the action context is
    another interpretation of \<open>action_invariant\<close>.
  \<^item> \<open>SmcInfo\<close> (\<open>vm/src/smc_info.rs\<close>): the context of a contract, the tuple in \<open>c7\<close>.
  \<^item> \<open>Compute\<close> (\<open>phase/compute.rs\<close>): the choice of the state, the machine and its run, gas fees.
  \<^item> \<open>Transactions\<close> (\<open>lib.rs\<close>, \<open>tx/ordinary.rs\<close>, \<open>tx/ticktock.rs\<close>): whole transactions and \<open>commit\<close>.
  \<^item> \<open>StorageUsed\<close>: the storage numbers of an account against the set of its cells; that every phase leaves the cells
    visited before those of one checked state, a further interpretation of \<open>action_invariant\<close>.
  \<^item> \<open>MsgCodec\<close>: the wire format of messages over the reference cells, the library \<open>ref_exec\<close> built from it and
    the interpretation of \<open>message_codec\<close> on it.
  \<^item> \<open>Executor\<close>: the properties of phases and transactions, and the accounts they are exercised on.

  \<^bold>\<open>The cell library.\<close> Cells, slices and builders belong to \<open>everscale_types\<close>. Their types are
  parameters and the methods the code calls are the fields of the records \<open>api\<close> and \<open>cell_lib\<close>, the latter
  with the byte conversions of \<open>num_bigint\<close>. The assumptions are named: \<open>reads_bits\<close> (reading bits that are
  there succeeds and gives a number of that width), \<open>bitsize_ok\<close> (\<open>BigInt::bitsize\<close> is the two's-complement
  width), \<open>keys_fit\<close> (a new builder has room for the 32 bits of a configuration key) and, for the properties of
  cell instructions and of code read from cells, \<open>bit_cells\<close>, by which \<open>CellSliceRange::apply\<close> gives the slices of
  ordinary cells and refuses those of exotic ones. The properties of addresses and hashes assume \<open>bit_readers\<close>, those of the
  random generator that SHA-512 gives 64 bytes (\<open>sha512_bytes\<close>) and that bytes are read in order (\<open>reads_be\<close>).
  \<open>RefCells\<close> discharges all of them.

  Dictionaries, hash functions, signatures and the parsers of configuration parameters are the fields of
  \<open>instr_lib\<close>. A dictionary function is a program (\<open>ctx_read\<close>, \<open>ctx_prog\<close>) that asks a cell context to load and to
  finalize cells; the model runs it on the gas consumer, so that its charges and its running out of gas
  are those of the code, whatever the program is.

  The executor asks more of \<open>everscale_types\<close>: messages, states and actions are parsed and built, extra
  currencies added, fees computed from price tables. These are the fields of \<open>exec_lib\<close> and, for
  \<open>commit\<close>, \<open>tx_lib\<close>. What the properties assume of them is \<open>message_codec\<close> and, where cells are
  counted, \<open>tree_cells\<close>: on the cells at hand the hashes differ and references are less deep.

  \<^bold>\<open>What is shown.\<close> A run returns with an exit code within a number of turns given by its gas, and
  never panics (C1, C3), also inside the compute phase (C4). Transactions conserve tokens (C2, C14). The code
  page is complete and its lookup correct (C5 to C10). Gas is accounted for to the unit (C11 to C13). The
  executor charges storage by the second, buys the most gas the balance pays for, uses a new state only when
  its hash is right, and counts every cell once (C15 to C19); C20 says what the storage numbers of an account count
  and when that is exactly its storage. The application-specific instructions hash, parse
  and count what their names say (C21 to C23), C24 states what a failed insertion into a dictionary does, random
  numbers stay in their range and global variables keep their values (C25, C26). The arithmetic instructions are
  correct on integers of any size up to the 257-bit check (C27 to C31). Tuples are restored and lists recognised
  (C32, C33). Calls, loops and exceptions move control as intended (C34 to C37). C38 follows one instruction from
  its bits in the code to the state after it, which is not the one its operand suggests. Integers are written to
  and read from cells as bit strings (C39, C40). Theorems without a number (gas limits, NaN, stack
  rearrangements, registers, slices) are smaller facts in the same sections.

  \<^bold>\<open>Bounds and fuel.\<close> \<open>vm_run\<close> takes fuel for the turns of the inner loop and for the number of nested
  machines: the same number bounds the turns of each machine and, separately, the returns to a parent. C1
  proves that the gas budget plus three is enough, because every turn charges at least one unit and every nested
  machine charges its parent; the executor runs it with exactly that fuel (\<open>vm_fuel\<close>). \<open>add_cell\<close> takes the depth of its cell as fuel, which \<open>fuel_enough\<close> proves enough, and
  \<open>send_attempts\<close> three, one for each form a message can be rewritten to. \<open>do_jump_loop\<close>, \<open>load_cell_loop\<close>, \<open>search\<close>
  and \<open>list_tail_ok\<close> carry termination proofs. Gas is \<open>int\<close> with its 64-bit truncation and saturation
  written out; stack indices and lengths are \<open>nat\<close>.

  \<^bold>\<open>Not modelled.\<close> Debug output (the machine runs without a debug writer), tracing, the
  inspector, the dump half of the dispatcher, reference counting (\<open>saferc.rs\<close>), the serialisation of stacks
  and continuations, the parsing of the configuration dictionary and the disassembler are outside the model.
\<close>

section \<open>A concrete machine\<close>

text \<open>
  The state at which the properties are exercised: a fresh VM over the reference cells, with the
  gas parameters of a getter, an empty code and the given stack.
\<close>

definition demo_builder :: "(rcell, rslice, rbuilder) stk \<Rightarrow> (rcell, rslice, rbuilder) vm_builder" where
  "demo_builder s = \<lparr>b_code = Some (rslice_of (RCell [] [])), b_data = None, b_stack = s,
     b_libraries = None, b_c7 = None, b_gas = gas_params_getter, b_init_selector = SelNone,
     b_version = None,
     b_modifiers = \<lparr>stop_on_accept = False, chksig_always_succeed = False, signature_with_id = None\<rparr>\<rparr>"

definition demo :: "(rcell, rslice, rbuilder) stk \<Rightarrow> (rcell, rslice, rbuilder) vm_state" where
  "demo s = build ref_api (demo_builder s)"

definition demo_entries :: "(rcell, rslice, rbuilder) entries" where
  "demo_entries = [(0, simple_op 0 8 exec_nop)]"

definition demo_op :: "(rcell, rslice, rbuilder) opcode" where
  "demo_op = simple_op 1 8 exec_swap"

definition demo_swap_code :: rslice where
  "demo_swap_code = rslice_of (RCell (to_bits 8 1) [])"

lemma demo_wf: "gas_params_wf (b_gas (demo_builder s))"
  by (simp add: demo_builder_def gas_params_getter_def gas_params_wf_def)

lemma demo_budget: "gas_budget (b_gas (demo_builder s)) = 1000000"
  by (simp add: demo_builder_def gas_params_getter_def gas_budget_def truncate_gas_def
      saturating_add_u64_def machine_bounds)

lemma demo_fields [simp]:
  "stack (demo s) = s" "cp (demo s) = 0" "parents (demo s) = []" "version (demo s) = Ton 11"
  "code (demo s) = rslice_of (RCell [] [])" "get_c 0 (cr (demo s)) = Some (QuitCont 0)"
  "get_c 2 (cr (demo s)) = Some ExcQuitCont" "modifiers (demo s) = b_modifiers (demo_builder [])"
  by (simp_all add: demo_def build_def demo_builder_def DEFAULT_VERSION_def)

lemma demo_gas [simp]: "gas_wf (gas (demo s))" "gas_remaining (gas (demo s)) = 1000000"
  "gas_base (gas (demo s)) = 1000000" "gas_max (gas (demo s)) = 1000000"
  "gas_limit (gas (demo s)) = 1000000" "loaded_cells (gas (demo s)) = {}"
  "free_gas_consumed (gas (demo s)) = 0"
  by (simp_all add: demo_def build_def demo_builder_def gas_params_getter_def with_libraries_def
      gas_wf_def Let_def truncate_gas_def saturating_add_u64_def machine_bounds)

lemma demo_good: "good 1000000 (demo s)"
  using build_good(1)[OF demo_wf[of s], of ref_api] by (simp add: demo_budget demo_def)

lemma demo_entries_ok: "entries_ok demo_entries" "opcode_wf demo_op"
  by (simp_all add: demo_entries_def demo_op_def entries_ok_def entry_ok_def entry_lo_def entry_hi_def
      opcode_wf_def simple_op_def MAX_OPCODE_def MAX_OPCODE_BITS_def push_bit_eq_mult)

section \<open>The run of a machine\<close>

text \<open>
  C1: a run over code page 0 always returns. Whatever the code, the data and the stack, any fuel of at least three
  more than the gas the run may spend is enough for it to end with an exit code: no endless loop and no panic. The
  fuel bounds the turns of each machine of the chain and, separately, the number of machines that return to a parent. Every instruction, implicit jump, implicit return, exception and nested machine is paid
  for from one budget.
\<close>

theorem run_returns:
  assumes "reads_bits A" and "keys_fit L" and "codepage0 A L M = Inr table"
    and "gas_params_wf (b_gas b)" and "gas_budget (b_gas b) < int n"
  shows "\<exists>exit st. vm_run A (dispatch A table) (Suc (Suc n)) (build A b) = Some (Some exit, st)"
  using assms by (rule cp0_run_returns)

theorem run_returns_witness:
  "\<exists>exit st. vm_run ref_api (dispatch ref_api ref_table) (Suc (Suc 1000001))
     (build ref_api (demo_builder [VInt 1])) = Some (Some exit, st)"
proof -
  have "gas_budget (b_gas (demo_builder [VInt 1])) < int 1000001" by (simp add: demo_budget)
  then show ?thesis by (rule run_returns[OF reads_bits_ref keys_fit_ref ref_table_eq demo_wf])
qed

text \<open>
  C3: one instruction. In a state within its budget \<open>f\<close> with \<open>c0\<close> and \<open>c1\<close> set, the dispatcher
  never panics. When it succeeds, either it has paid at least 10 units and the state is good for what is
  left, or an instruction that keeps the error of an exhausted meter to itself has left the meter
  below zero with the parents' meters intact. Running out of gas keeps the parents' meters intact, and any
  other error leaves the state good for the same budget, so that the exception handler can run in it,
  or the meter below zero as before. In the states with a meter below zero every instruction fails for want of gas.
\<close>

theorem dispatch_invariant:
  assumes "reads_bits A" and "keys_fit L" and "codepage0 A L M = Inr table"
  shows "(good f st \<longrightarrow> (case dispatch A table st of
      (Inr _, t) \<Rightarrow> 10 \<le> f \<and> good (f - 10) t \<or> halted f t \<and> gas_remaining (gas t) < 0
    | (Inl e, t) \<Rightarrow> e \<noteq> Panic \<and> (if oog e then halted f t
        else good f t \<or> halted f t \<and> gas_remaining (gas t) < 0))) \<and>
    (halted f st \<and> gas_remaining (gas st) < 0 \<longrightarrow>
      fst (dispatch A table st) = Inl (cell_fault ECancelled) \<and> halted f (snd (dispatch A table st)))"
proof -
  obtain r t where d: "dispatch A table st = (r, t)" by fastforce
  note c = dispatch_charges[OF assms]
  show ?thesis
    using d dispatch_dead[OF assms(1) _ d, of f] charges_InlD[OF c, of f st] charges_InrD[OF c, of f st]
    by (cases r) (auto simp: charged_def fails_well_def bad_def dead_def split: if_splits)
qed

theorem dispatch_invariant_witness:
  "case dispatch ref_api ref_table (demo [VInt 7]) of
      (Inr _, t) \<Rightarrow> (10 :: int) \<le> 1000000 \<and> good (1000000 - 10) t \<or> halted 1000000 t \<and> gas_remaining (gas t) < 0
    | (Inl e, t) \<Rightarrow> e \<noteq> Panic \<and> (if oog e then halted 1000000 t
        else good 1000000 t \<or> halted 1000000 t \<and> gas_remaining (gas t) < 0)"
  by (rule mp[OF conjunct1[OF dispatch_invariant[OF reads_bits_ref keys_fit_ref ref_table_eq]] demo_good])

text \<open>
  C5: code page 0 can be built. The opcode ranges of the sixteen modules do not overlap and every
  pattern is accepted, so \<open>build().unwrap()\<close> does not panic.
\<close>

theorem codepage0_total: "\<exists>table. codepage0 A L M = Inr table"
  by (rule codepage0_builds)

text \<open>
  C6: the table finds the instruction whose range covers the next 24 bits, and anything it finds
  is a registered instruction or the dummy that fails with \<open>InvalidOpcode\<close>.
\<close>

theorem codepage0_finds:
  assumes "codepage0 A L M = Inr table" and "opc < MAX_OPCODE"
  shows "(\<forall>i op. i \<in> set (concat (cp0_modules A L M)) \<longrightarrow> instr_opcode i = Inr op \<longrightarrow>
            covers op opc \<longrightarrow> lookup_impl opc table = op) \<and>
         (is_dummy (lookup_impl opc table) \<or>
            (\<exists>i \<in> set (concat (cp0_modules A L M)). instr_opcode i = Inr (lookup_impl opc table)))"
  using codepage0_lookup[OF assms] by blast

theorem codepage0_finds_witness:
  "lookup_impl 0xa07000 ref_table = simple_op 0xa0 8 (exec_add ref_api False)"
proof -
  have ty: "instr_ty ''a0'' = Inr (Simple 0xa0 8, [])" by code_simp
  have o: "instr_opcode (Op ''a0'' (\<lambda>_ _. exec_add ref_api False)) = Inr (simple_op 0xa0 8 (exec_add ref_api False))"
    by (simp add: ty op_of_ty_def)
  have i: "Op ''a0'' (\<lambda>_ _. exec_add ref_api False) \<in> set (concat (cp0_modules ref_api ref_lib ref_instrs))"
    by (simp add: cp0_modules_def arithops_instrs_def)
  have c: "covers (simple_op 0xa0 8 (exec_add ref_api False)) 0xa07000"
    by (simp add: covers_def simple_op_def MAX_OPCODE_BITS_def push_bit_eq_mult)
  have "(0xa07000 :: nat) < MAX_OPCODE" by (simp add: MAX_OPCODE_def MAX_OPCODE_BITS_def)
  from codepage0_finds[OF ref_table_eq this] i o c show ?thesis by blast
qed

section \<open>Opcode patterns and the opcode table\<close>

text \<open>
  C9: a pattern the macro accepts gives an opcode that the table's registration accepts: a
  non-empty range inside the 24-bit opcode space and a width that fits.
\<close>

theorem pattern_wf:
  assumes "instr_ty pattern = Inr (t, fs)"
  shows "opcode_wf (op_of_ty t fs h)"
  using assms by (rule instr_ty_wf)

theorem pattern_wf_witness:
  "opcode_wf (op_of_ty (Fixed 0x2 4 4) [(CHR ''i'', 4)]
     (\<lambda>_ f. exec_push (f CHR ''i'') :: (rcell, rslice, rbuilder, int) vm))"
  by (rule pattern_wf[of "''2i''"]) code_simp

text \<open>
  C10: encode/decode of operands. Assembling an instruction word from its prefix and the values of
  the fields and reading a field with the shift and mask the macro emits gives the value back.
\<close>

theorem operand_roundtrip:
  assumes "\<forall>(c, bits) \<in> set fs. v c < 2 ^ bits" and "c \<in> fst ` set fs" and "distinct (map fst fs)"
  shows "field fs (assemble prefix fs v) c = v c"
  using assms by (rule field_assemble)

theorem operand_roundtrip_witness:
  "field [(CHR ''i'', 4), (CHR ''j'', 4)]
     (assemble 0x10 [(CHR ''i'', 4), (CHR ''j'', 4)] (\<lambda>c. if c = CHR ''i'' then 3 else 9)) CHR ''j'' = 9"
  by (subst operand_roundtrip) simp_all

text \<open>
  C8: registration. Against an ordered table, an opcode is refused exactly when its range
  overlaps a registered one; otherwise the new table is ordered and holds the old entries and
  the new one.
\<close>

theorem registration:
  assumes "entries_ok xs" and "opcode_wf op"
  shows "case add_opcode op xs of
           Inl _ \<Rightarrow> \<not> no_overlap op xs
         | Inr ys \<Rightarrow> no_overlap op xs \<and> entries_ok ys \<and>
             set ys = insert (fst (opcode_range op), op) (set xs)"
  using assms by (rule add_opcode_outcome)

theorem registration_witness:
  "case add_opcode demo_op demo_entries of
      Inl _ \<Rightarrow> \<not> no_overlap demo_op demo_entries
    | Inr ys \<Rightarrow> no_overlap demo_op demo_entries \<and> entries_ok ys \<and>
        set ys = insert (fst (opcode_range demo_op), demo_op) (set demo_entries)"
  by (rule registration[OF demo_entries_ok])

text \<open>
  C7: the binary search over the table with its gaps filled agrees with a search through the
  registered entries: the one that covers the opcode, or a dummy when none does.
\<close>

theorem lookup_correct:
  assumes "entries_ok xs" and "opc < MAX_OPCODE"
  shows "covers (lookup_impl opc (build_opcodes xs)) opc \<and>
    (if \<exists>e \<in> set xs. covers (snd e) opc
     then \<exists>e \<in> set xs. covers (snd e) opc \<and> lookup_impl opc (build_opcodes xs) = snd e
     else is_dummy (lookup_impl opc (build_opcodes xs)))"
  using lookup_build_outcome[OF assms] by blast

theorem lookup_correct_witness:
  "covers (lookup_impl 0xffff (build_opcodes demo_entries)) 0xffff \<and>
   (if \<exists>e \<in> set demo_entries. covers (snd e) 0xffff
    then \<exists>e \<in> set demo_entries. covers (snd e) 0xffff \<and> lookup_impl 0xffff (build_opcodes demo_entries) = snd e
    else is_dummy (lookup_impl 0xffff (build_opcodes demo_entries)))"
  by (rule lookup_correct[OF demo_entries_ok(1)]) (simp add: MAX_OPCODE_def MAX_OPCODE_BITS_def)

section \<open>Gas\<close>

text \<open>
  C11: a charge is taken in full or the consumer is left with a negative rest. On success exactly
  the (truncated) amount is spent and the rest is not negative; on failure the error is
  \<open>Cancelled\<close>, the rest is negative and never below the \<open>i64\<close> range.
\<close>

theorem charge_outcome:
  assumes "gas_wf g" and "0 \<le> price"
  shows "case try_consume price g of
      (Inr _, g') \<Rightarrow> gas_wf g' \<and> 0 \<le> gas_remaining g' \<and> spent g' = spent g + truncate_gas price
        \<and> truncate_gas price \<le> gas_remaining g
    | (Inl e, g') \<Rightarrow> gas_wf g' \<and> e = ECancelled \<and> gas_remaining g' < 0
        \<and> gas_remaining g < truncate_gas price"
proof (cases "truncate_gas price \<le> gas_remaining g")
  case True
  then obtain g' where "try_consume price g = (Inr (), g')"
    using try_consume_eq[OF assms] by (simp add: Let_def)
  with True try_consume_Ok[OF assms] show ?thesis by simp
next
  case False
  then obtain g' where "try_consume price g = (Inl ECancelled, g')"
    using try_consume_eq[OF assms] by (simp add: Let_def)
  with False try_consume_Err[OF assms] show ?thesis by simp
qed

theorem charge_outcome_witness:
  "case try_consume 26 (gas (demo [])) of
      (Inr _, g') \<Rightarrow> gas_wf g' \<and> 0 \<le> gas_remaining g'
        \<and> spent g' = spent (gas (demo [])) + truncate_gas 26
        \<and> truncate_gas 26 \<le> gas_remaining (gas (demo []))
    | (Inl e, g') \<Rightarrow> gas_wf g' \<and> e = ECancelled \<and> gas_remaining g' < 0
        \<and> gas_remaining (gas (demo [])) < truncate_gas 26"
  by (rule charge_outcome) simp_all

text \<open>
  \<open>SETGASLIMIT\<close> and \<open>ACCEPT\<close> (without \<open>stop_on_accept\<close>): a limit below what is already
  consumed is out of gas and changes nothing; any other limit keeps what is spent and leaves the
  limit, capped by the maximum, minus what is spent.
\<close>

theorem set_gas_limit:
  assumes "gas_wf (gas st)" and "spent (gas st) \<le> i64_max" and "0 \<le> limit"
    and "\<not> stop_on_accept (modifiers st)"
  shows "if limit < consumed (gas st) then exec_set_gas limit st = (Inl (VmErr OutOfGas), st)
    else \<exists>g. exec_set_gas limit st = (Inr 0, st\<lparr>gas := g\<rparr>) \<and> gas_wf g \<and> spent g = spent (gas st) \<and>
           gas_remaining g = min limit (gas_max g) - spent g"
  using exec_set_gas_cases[OF assms] by (auto simp: not_less)

theorem set_gas_limit_witness:
  "if (500 :: int) < consumed (gas (demo [])) then exec_set_gas 500 (demo []) = (Inl (VmErr OutOfGas), demo [])
   else \<exists>g. exec_set_gas 500 (demo []) = (Inr 0, (demo [])\<lparr>gas := g\<rparr>) \<and> gas_wf g
     \<and> spent g = spent (gas (demo [])) \<and> gas_remaining g = min 500 (gas_max g) - spent g"
  by (rule set_gas_limit) (simp_all add: spent_def machine_bounds demo_builder_def)

text \<open>
  the limited consumer of \<open>GETEXTRABALANCE\<close>. Over any sequence of charges that succeeds, it
  passes on exactly the first units up to its limit to the main consumer and books every other
  unit as free gas: nothing is charged twice and nothing is lost.
\<close>

theorem limited_consumer_split:
  assumes "limited_ok (r, g)" and "\<forall>a \<in> set as. 0 \<le> a"
    and "free_gas_consumed g + sum_list as \<le> i64_max"
    and "run_while_list limited_try_consume as (r, g) = (Inr (), (r', g'))"
  shows "r - r' = min r (sum_list as) \<and> spent g' = spent g + (r - r')
    \<and> free_gas_consumed g' = free_gas_consumed g + (sum_list as - (r - r'))"
  using assms by (rule limited_run_split)

theorem limited_consumer_split_witness:
  "\<exists>r' g'. run_while_list limited_try_consume [100, 25, 100] (200, gas (demo [])) = (Inr (), (r', g')) \<and>
     200 - r' = min 200 225 \<and> spent g' = spent (gas (demo [])) + (200 - r') \<and>
     free_gas_consumed g' = free_gas_consumed (gas (demo [])) + (225 - (200 - r'))"
proof -
  have ok: "limited_ok (200, gas (demo []))" by (simp add: limited_ok_def machine_bounds)
  obtain r' g' where run: "run_while_list limited_try_consume [100, 25, 100] (200, gas (demo [])) = (Inr (), (r', g'))"
    by (simp add: limited_try_consume_def try_consume_def act_defs Let_def saturating_sub_i64_def machine_bounds
        consume_free_gas_def)
  have "\<forall>a \<in> set [100, 25, 100 :: int]. 0 \<le> a"
    "free_gas_consumed (gas (demo [])) + sum_list [100, 25, 100] \<le> i64_max"
    by (simp_all add: machine_bounds)
  from limited_consumer_split[OF ok this run] run show ?thesis by simp
qed

text \<open>
  C12: a nested machine with a shared meter. Deriving a child meter gives the child at most the
  limit it asked for and what the parent has left; whatever the child does with it, restoring
  gives back the parent's base, rest, limits and price as they were, with the cells the child
  loaded.
\<close>

theorem derive_restore:
  assumes "\<not> dp_isolate p" and "derive p g = (Inr parent, child)"
  shows "gas_remaining child = min (dp_gas_limit p) (gas_remaining g) \<and>
    gas_max child = min (dp_gas_max p) (gas_remaining g) \<and>
    snd (restore parent child') = g\<lparr>loaded_cells := loaded_cells child',
      missing_library := (if missing_library g = None then missing_library child' else missing_library g),
      chksign_counter := chksign_counter child', free_gas_consumed := free_gas_consumed child',
      get_extra_balance_counter := get_extra_balance_counter child'\<rparr>"
proof -
  have "0 \<le> gas_remaining g"
    using assms by (cases "0 \<le> gas_remaining g") (auto simp: derive_def)
  from derive_shared[OF this assms(1)] assms(2)
  have "parent = Shared (g\<lparr>loaded_cells := {}\<rparr>)"
    and "child = g\<lparr>gas_max := min (dp_gas_max p) (gas_remaining g), gas_limit := min (dp_gas_limit p) (gas_remaining g),
      gas_credit := 0, gas_base := min (dp_gas_limit p) (gas_remaining g),
      gas_remaining := min (dp_gas_limit p) (gas_remaining g)\<rparr>" by auto
  then show ?thesis by (auto simp: restore_def Let_def)
qed

theorem derive_restore_witness:
  "\<exists>parent child. derive \<lparr>dp_gas_max = 700, dp_gas_limit = 500, dp_isolate = False\<rparr> (gas (demo [])) = (Inr parent, child)
     \<and> gas_remaining child = min 500 (gas_remaining (gas (demo [])))
     \<and> gas_max child = min 700 (gas_remaining (gas (demo [])))
     \<and> gas_remaining (snd (restore parent (child\<lparr>gas_remaining := 20\<rparr>))) = gas_remaining (gas (demo []))"
proof -
  let ?p = "\<lparr>dp_gas_max = 700, dp_gas_limit = 500, dp_isolate = False\<rparr>"
  obtain parent child where d: "derive ?p (gas (demo [])) = (Inr parent, child)"
    using derive_shared[of "gas (demo [])" ?p] by simp
  have "\<not> dp_isolate ?p" by simp
  from derive_restore[OF this d, of "child\<lparr>gas_remaining := 20\<rparr>"] d show ?thesis by auto
qed

text \<open>
  C13: loading an ordinary cell costs 100 units the first time and 25 afterwards, is refused when
  the rest does not cover it, and marks the cell as loaded in every case.
\<close>

theorem load_price:
  assumes "cell_kind A c = Ordinary" and "gas_wf g"
    and "price = (if cell_repr_hash A c \<in> loaded_cells g then 25 else 100)"
  shows "load_cell_impl A (True, True) c g =
    (if price \<le> gas_remaining g
     then (Inr c, g\<lparr>loaded_cells := insert (cell_repr_hash A c) (loaded_cells g),
                   gas_remaining := gas_remaining g - price\<rparr>)
     else (Inl ECancelled, g\<lparr>loaded_cells := insert (cell_repr_hash A c) (loaded_cells g),
                   gas_remaining := max i64_min (gas_remaining g - price)\<rparr>))"
  using assms load_ordinary[OF assms(1,2), of price] by (simp add: NEW_CELL_GAS_def OLD_CELL_GAS_def)

theorem load_price_witness:
  "load_cell_impl ref_api (True, True) (RCell [True] []) (gas (demo [])) =
    (if 100 \<le> gas_remaining (gas (demo []))
     then (Inr (RCell [True] []), (gas (demo []))\<lparr>loaded_cells := insert (cell_repr_hash ref_api (RCell [True] [])) (loaded_cells (gas (demo []))),
                   gas_remaining := gas_remaining (gas (demo [])) - 100\<rparr>)
     else (Inl ECancelled, (gas (demo []))\<lparr>loaded_cells := insert (cell_repr_hash ref_api (RCell [True] [])) (loaded_cells (gas (demo []))),
                   gas_remaining := max i64_min (gas_remaining (gas (demo [])) - 100)\<rparr>))"
  by (rule load_price) (simp_all add: ref_api_def)

section \<open>Application-specific instructions\<close>

text \<open>The states at which they are exercised: a machine with a given \<open>c7\<close>, and one with little gas.\<close>

definition demo_c7 ::
    "(rcell, rslice, rbuilder) stk \<Rightarrow> (rcell, rslice, rbuilder) sval list \<Rightarrow> (rcell, rslice, rbuilder) vm_state" where
  "demo_c7 s t = (demo s)\<lparr>cr := set_c7 t (cr (demo s))\<rparr>"

definition demo_poor :: "(rcell, rslice, rbuilder) stk \<Rightarrow> (rcell, rslice, rbuilder) vm_state" where
  "demo_poor s = (demo s)\<lparr>gas := (gas (demo s))\<lparr>gas_remaining := 50\<rparr>\<rparr>"

definition demo_tree_cell :: rcell where
  "demo_tree_cell = RCell [True, True] [RCell [False] [], RCell [False] []]"

lemma demo_c7_fields [simp]:
  "stack (demo_c7 s t) = s" "reg_c7 (cr (demo_c7 s t)) = Some t" "gas (demo_c7 s t) = gas (demo s)"
  by (simp_all add: demo_c7_def)

lemma demo_poor_fields [simp]:
  "stack (demo_poor s) = s" "gas_wf (gas (demo_poor s))" "gas_remaining (gas (demo_poor s)) = 50"
  "loaded_cells (gas (demo_poor s)) = {}"
  using demo_gas(1)[of s] by (simp_all add: demo_poor_def gas_wf_def machine_bounds)

text \<open>
  C26: global variables. After \<open>SETGLOB i\<close> the variable \<open>i\<close> reads back as the value stored and every other one
  as before; a variable that was never set, beyond the end of the tuple in \<open>c7\<close> or without a tuple, is null.
\<close>

theorem global_variables:
  assumes "stack st = xs @ [v]" and "length xs < MAX_DEPTH" and "i < 255" and "gas_wf (gas st)"
    and "255 \<le> gas_remaining (gas st)" and "\<And>t. reg_c7 (cr st) = Some t \<Longrightarrow> length t \<le> 255"
  shows "\<exists>r g. exec_set_global i st = (Inr 0, st\<lparr>stack := xs, cr := r, gas := g\<rparr>) \<and>
    (\<forall>j. exec_get_global j (st\<lparr>stack := xs, cr := r, gas := g\<rparr>) =
       (Inr 0, st\<lparr>stack := xs @ [if j = i then v else tuple_at (reg_c7 (cr st)) j], cr := r, gas := g\<rparr>)) \<and>
    gas_remaining (gas st) - 255 \<le> gas_remaining g"
proof -
  obtain r g where s: "exec_set_global i st = (Inr 0, st\<lparr>stack := xs, cr := r, gas := g\<rparr>)"
    and t: "\<forall>j. tuple_at (reg_c7 r) j = (if j = i then v else tuple_at (reg_c7 (cr st)) j)"
    and g: "gas_remaining (gas st) - 255 \<le> gas_remaining g"
    using set_global_ok[OF assms(1,3-6)] by blast
  have "exec_get_global j (st\<lparr>stack := xs, cr := r, gas := g\<rparr>) =
      (Inr 0, st\<lparr>stack := xs @ [if j = i then v else tuple_at (reg_c7 (cr st)) j], cr := r, gas := g\<rparr>)" for j
    using get_global_ok[of "st\<lparr>stack := xs, cr := r, gas := g\<rparr>" j] assms(2) t by simp
  then show ?thesis using s g by blast
qed

theorem global_variables_witness:
  "\<exists>r g. exec_set_global 3 (demo_c7 [VInt 7] [VInt 5]) = (Inr 0, (demo_c7 [VInt 7] [VInt 5])\<lparr>stack := [], cr := r, gas := g\<rparr>) \<and>
    (\<forall>j. exec_get_global j ((demo_c7 [VInt 7] [VInt 5])\<lparr>stack := [], cr := r, gas := g\<rparr>) =
       (Inr 0, (demo_c7 [VInt 7] [VInt 5])\<lparr>stack := [if j = 3 then VInt 7 else tuple_at (Some [VInt 5]) j], cr := r, gas := g\<rparr>)) \<and>
    999745 \<le> gas_remaining g"
  using global_variables[of "demo_c7 [VInt 7] [VInt 5]" "[]" "VInt 7" 3, unfolded demo_c7_fields]
  by (simp add: MAX_DEPTH_def)

text \<open>
  C25: the random generator. \<open>RAND\<close> takes \<open>x\<close> and gives a number from 0 to \<open>x - 1\<close> (from \<open>x\<close> to 0 when \<open>x\<close> is not
  positive); the seed in the context of the contract is replaced by another number of 256 bits, and
  nothing else of the context changes. The hash function is assumed to give 64 bytes.
\<close>

theorem random_bounds:
  assumes "sha512_bytes M" and "reads_be L" and "stack st = xs @ [VInt x]" and "length xs < MAX_DEPTH"
    and "reg_c7 (cr st) = Some (VTuple t1 # rest)" and "6 < length t1" and "length t1 \<le> 255"
    and "length rest < 255" and "t1 ! 6 = VInt seed" and "0 \<le> seed"
    and "gas_wf (gas st)" and "510 \<le> gas_remaining (gas st)"
  shows "\<exists>y seed' g. exec_rand_int L M st = (Inr 0, st\<lparr>stack := xs @ [VInt y],
       cr := set_c7 (VTuple (t1[6 := VInt seed']) # rest) (cr st), gas := g\<rparr>) \<and>
     (if 0 < x then 0 \<le> y \<and> y < x else x \<le> y \<and> y \<le> 0) \<and> 0 \<le> seed' \<and> seed' < 2 ^ 256"
  using rand_int_ok[OF assms] by (auto simp: not_less)

theorem random_bounds_witness:
  "\<exists>y seed' g. exec_rand_int ref_lib ref_instrs (demo_c7 [VInt 10] [VTuple (replicate 7 (VInt 1))]) =
     (Inr 0, (demo_c7 [VInt 10] [VTuple (replicate 7 (VInt 1))])\<lparr>stack := [VInt y],
       cr := set_c7 [VTuple ((replicate 7 (VInt 1))[6 := VInt seed'])] (cr (demo_c7 [VInt 10] [VTuple (replicate 7 (VInt 1))])), gas := g\<rparr>) \<and>
     0 \<le> y \<and> y < 10 \<and> 0 \<le> seed' \<and> seed' < 2 ^ 256"
  using random_bounds[OF ref_hashes, of "demo_c7 [VInt 10] [VTuple (replicate 7 (VInt 1))]" "[]" 10 "replicate 7 (VInt 1)" "[]" 1]
  by (simp add: MAX_DEPTH_def del: replicate.simps)

text \<open>
  C24: an insertion that fails inside the dictionary. \<open>DICTSET\<close> raises the error; \<open>DICTREPLACE\<close> and \<open>DICTADD\<close> answer every
  error with false and put the old root back, running out of gas too, after which the machine goes on with the
  meter the dictionary left, below zero in that case.
\<close>

theorem dict_insert_failure:
  assumes "stack st = ys @ [root_value d, VInt (int n)]" and "n \<le> 1023"
    and "pop_key L M (da_is_int s) (da_is_signed s) n ys = (Inr key, xs @ [v])"
    and "value_to_store M b (da_is_ref s) v = Inr item"
    and "run_ctx A L (dict_insert M d key n item mode) (gas st) = (Inl e, g)"
    and "length xs + 2 \<le> MAX_DEPTH"
  shows "exec_dict_set A L M s b mode st =
    (if mode = SetSet then (Inl (cell_fault e), st\<lparr>stack := xs @ [root_value d], gas := g\<rparr>)
     else (Inr 0, st\<lparr>stack := xs @ [root_value d, VInt 0], gas := g\<rparr>))"
  by (rule dict_set_fails[OF assms])

theorem dict_insert_failure_witness:
  "\<exists>g. exec_dict_set ref_api ref_lib ref_instrs 0 False SetReplace
       (demo_poor [VSlice (slice_default ref_api), VSlice (rslice_of (RCell [True] [])), VCell (RCell [True] []), VInt (int 1)]) =
     (Inr 0, (demo_poor [VSlice (slice_default ref_api), VSlice (rslice_of (RCell [True] [])), VCell (RCell [True] []), VInt (int 1)])
       \<lparr>stack := [VCell (RCell [True] []), VInt 0], gas := g\<rparr>) \<and> gas_remaining g = - 50"
proof -
  let ?k = "ref_take (rslice_of (RCell [True] [])) 1 0"
  let ?s = "[VSlice (slice_default ref_api), VSlice (rslice_of (RCell [True] [])), VCell (RCell [True] []), VInt (int 1)]"
  let ?c = "RCell [True] []"
  have key: "pop_key ref_lib ref_instrs (da_is_int 0) (da_is_signed 0) 1
      [VSlice (slice_default ref_api), VSlice (rslice_of (RCell [True] []))] = (Inr ?k, [] @ [VSlice (slice_default ref_api)])"
    using pop_simps(2)[of "[VSlice (slice_default ref_api) :: (rcell, rslice, rbuilder) sval]" "VSlice (rslice_of (RCell [True] []))"]
    by (simp add: pop_key_def pop_cs_def bnd_def into_cell_slice_def da_is_int_def slice_key_def ref_instrs_def guarded_def rslice_of_def)
  have "cell_kind ref_api ?c = Ordinary" by (simp add: ref_api_def)
  then obtain g where l: "load_cell_impl ref_api (True, True) ?c (gas (demo_poor ?s)) = (Inl ECancelled, g)" "gas_remaining g = - 50"
    using load_ordinary[of ref_api ?c "gas (demo_poor ?s)" 100] by (auto simp: NEW_CELL_GAS_def machine_bounds)
  then have g: "run_ctx ref_api ref_lib (dict_insert ref_instrs (Some ?c) ?k 1 (StoreSlice (slice_default ref_api)) SetReplace)
      (gas (demo_poor ?s)) = (Inl ECancelled, g)" "gas_remaining g = - 50"
    by (simp_all add: ref_instrs_def ref_dict_write_def LoadFull_def)
  show ?thesis
    using dict_insert_failure[of "demo_poor ?s" "[VSlice (slice_default ref_api), VSlice (rslice_of (RCell [True] []))]"
        "Some ?c" 1 ref_lib ref_instrs 0 ?k "[]" "VSlice (slice_default ref_api)" False "StoreSlice (slice_default ref_api)"
        ref_api SetReplace ECancelled g] key g
    by (auto simp: root_value_def into_cell_slice_def MAX_DEPTH_def value_to_store_def da_is_ref_def)
qed

text \<open>
  C23: the size of a tree. \<open>CDATASIZE\<close> and \<open>SDATASIZE\<close> count every cell that can be reached once, however often it is
  referenced, with its bits and references; a slice adds its own. When there are more cells than the bound, the
  quiet form answers false and the other raises an overflow; the only other failure is running out of gas.
\<close>

theorem data_size_exact:
  assumes "tree_cells A L C" and "case v of Inl c \<Rightarrow> c \<in> C | Inr k \<Rightarrow> set (sl_references L k) \<subseteq> C"
    and "stack st = xs @ [case v of Inl c \<Rightarrow> VCell c | Inr k \<Rightarrow> VSlice k, VInt (int n)]" and "n < 2 ^ 64"
    and "length xs + 4 \<le> MAX_DEPTH" and "size_tree A L v = (R, b, r)"
  shows "case exec_compute_data_size A L M (\<not> isl v) q st of
      (Inr z, t) \<Rightarrow> if finite R \<and> card R \<le> n
        then stack t = xs @ [VInt (int (card R)), VInt (int (b + (\<Sum>c \<in> R. bit_len M c))),
          VInt (int (r + (\<Sum>c \<in> R. length (cl_references L c))))] @ (if q then [VInt (-1)] else [])
        else q \<and> stack t = xs @ [VInt 0]
    | (Inl e, t) \<Rightarrow> e = cell_fault ECancelled \<or>
        \<not> q \<and> \<not> (finite R \<and> card R \<le> n) \<and> e = VmErr (CellError ECellOverflow)"
  by (rule data_size_ok[OF assms])

theorem data_size_exact_witness:
  "case exec_compute_data_size ref_api ref_lib ref_instrs False True (demo [VCell demo_tree_cell, VInt (int 5)]) of
     (Inr z, t) \<Rightarrow> stack t = [VInt 2, VInt 3, VInt 2, VInt (-1)]
   | (Inl e, t) \<Rightarrow> e = cell_fault ECancelled"
proof -
  let ?l = "RCell [False] []"
  have l: "reach ref_lib ?l = {?l}" by (subst reach_unfold) (simp add: ref_lib_def)
  have "cl_references ref_lib demo_tree_cell = [?l, ?l]" by (simp add: ref_lib_def demo_tree_cell_def)
  then have R: "reach ref_lib demo_tree_cell = {demo_tree_cell, ?l}" by (subst reach_unfold) (simp add: l)
  have tree: "tree_cells ref_api ref_lib {demo_tree_cell, ?l}"
    by (auto simp: tree_cells_def inj_on_def ref_lib_def ref_api_def demo_tree_cell_def ref_cell_hash_def bits_value_def)
  have ne: "demo_tree_cell \<noteq> ?l" by (simp add: demo_tree_cell_def)
  have sums: "(\<Sum>c \<in> {demo_tree_cell, ?l}. bit_len ref_instrs c) = 3"
    "(\<Sum>c \<in> {demo_tree_cell, ?l}. length (cl_references ref_lib c)) = 2"
    using ne by (simp_all add: ref_instrs_def ref_lib_def demo_tree_cell_def)
  show ?thesis
    using data_size_exact[OF tree, where v = "Inl demo_tree_cell" and st = "demo [VCell demo_tree_cell, VInt (int 5)]"
        and xs = "[]" and n = 5 and R = "{demo_tree_cell, ?l}" and b = 0 and r = 0 and M = ref_instrs and q = True] ne
    by (simp add: size_tree_def R sums MAX_DEPTH_def split: prod.splits sum.splits)
qed

text \<open>
  C22: message addresses. \<open>LDMSGADDR\<close> cuts an address off a slice and \<open>PARSEMSGADDR\<close> takes it apart. The first accepts
  exactly the slices that begin with the encoding of an address the version allows, and what it cuts off is the encoding;
  on slices of ordinary cells the second accepts the same, and what it parses is the address that was encoded. A slice of
  an exotic cell is read by the first alone: the second refuses it whatever its bits are. The quiet forms answer
  what they refuse with false.
\<close>

theorem message_addresses:
  assumes "bit_readers A L sbits srefs bbits brefs bplain M"
    and "stack st = xs @ [VSlice k]" and "length xs + 3 \<le> MAX_DEPTH"
  shows "if \<exists>p rest. parts_valid M (version st) p \<and> sbits k = enc_addr p @ rest
    then \<exists>p rest a k'. parts_valid M (version st) p \<and> sbits k = enc_addr p @ rest \<and>
      exec_load_message_addr A L M q st =
        (Inr 0, st\<lparr>stack := xs @ [VSlice a, VSlice k'] @ (if q then [VInt (-1)] else [])\<rparr>) \<and>
      sbits a = enc_addr p \<and> srefs a = [] \<and> sbits k' = rest \<and> srefs k' = srefs k \<and>
      (if cell_kind A (slice_cell A k) = Ordinary
       then \<exists>parts. exec_parse_message_addr L M q st =
           (Inr 0, st\<lparr>stack := xs @ [VTuple (into_tuple_parts parts)] @ (if q then [VInt (-1)] else [])\<rparr>) \<and>
         map_addr_parts sbits parts = p
       else exec_parse_message_addr L M True st = (Inr 0, st\<lparr>stack := xs @ [VInt 0]\<rparr>))
    else exec_load_message_addr A L M True st = (Inr 0, st\<lparr>stack := xs @ [VSlice k, VInt 0]\<rparr>) \<and>
      exec_parse_message_addr L M True st = (Inr 0, st\<lparr>stack := xs @ [VInt 0]\<rparr>)"
proof (cases "\<exists>p rest. parts_valid M (version st) p \<and> sbits k = enc_addr p @ rest")
  case True
  then obtain p rest where p: "parts_valid M (version st) p" "sbits k = enc_addr p @ rest" by blast
  have "if cell_kind A (slice_cell A k) = Ordinary
       then \<exists>parts. exec_parse_message_addr L M q st =
           (Inr 0, st\<lparr>stack := xs @ [VTuple (into_tuple_parts parts)] @ (if q then [VInt (-1)] else [])\<rparr>) \<and>
         map_addr_parts sbits parts = p
       else exec_parse_message_addr L M True st = (Inr 0, st\<lparr>stack := xs @ [VInt 0]\<rparr>)"
    using bit_readers.parse_addr_ok[OF assms p, of q] bit_readers.parse_exotic[OF assms] by (simp split: if_split)
  then show ?thesis
    unfolding if_P[OF True] using p bit_readers.load_addr_ok[OF assms p, of q] by blast
next
  case False
  show ?thesis unfolding if_not_P[OF False] using bit_readers.no_addr[OF assms False] by simp
qed

theorem message_addresses_witness:
  "\<exists>p rest a k' parts. parts_valid ref_instrs (Ton 11) p \<and> [False, False, True] = enc_addr p @ rest \<and>
    exec_load_message_addr ref_api ref_lib ref_instrs True (demo [VSlice (rslice_of (RCell [False, False, True] []))]) =
      (Inr 0, (demo [VSlice (rslice_of (RCell [False, False, True] []))])\<lparr>stack := [VSlice a, VSlice k', VInt (-1)]\<rparr>) \<and>
    rs_bits a = enc_addr p \<and> rs_refs a = [] \<and> rs_bits k' = rest \<and> rs_refs k' = [] \<and>
    exec_parse_message_addr ref_lib ref_instrs True (demo [VSlice (rslice_of (RCell [False, False, True] []))]) =
      (Inr 0, (demo [VSlice (rslice_of (RCell [False, False, True] []))])\<lparr>stack := [VTuple (into_tuple_parts parts), VInt (-1)]\<rparr>) \<and>
    map_addr_parts rs_bits parts = p"
proof -
  let ?k = "rslice_of (RCell [False, False, True] [])"
  have "parts_valid ref_instrs (version (demo [VSlice ?k])) PartsNone \<and> rs_bits ?k = enc_addr PartsNone @ [True]"
    by (simp add: rslice_of_def)
  then have ex: "\<exists>p rest. parts_valid ref_instrs (version (demo [VSlice ?k])) p \<and> rs_bits ?k = enc_addr p @ rest" by blast
  have k: "rs_bits ?k = [False, False, True]" "rs_refs ?k = []" "cell_kind ref_api (slice_cell ref_api ?k) = Ordinary"
    by (simp_all add: rslice_of_def ref_api_def)
  show ?thesis
    using message_addresses[OF rreaders.bit_readers_axioms, of "demo [VSlice ?k]" "[]" ?k True] ex
    unfolding if_P[OF ex] if_P[OF k(3)] by (simp add: k MAX_DEPTH_def)
qed

text \<open>
  C21: \<open>HASHEXT\<close> hashes the concatenation of its inputs. The inputs are bit strings of any length, cut into bytes across their
  borders; the digest is that of the bytes of the concatenated bits, in the order asked for, and a
  concatenation that is no whole number of bytes is a cell underflow. The charge, made input by input, comes to one unit per
  input and one per as many bytes as the function's price says, rounded down once.
\<close>

theorem hash_ext_concatenates:
  assumes "bit_readers A L sbits srefs bbits brefs bplain M"
    and "stack st = xs @ vs @ [VInt (int (length vs))]" and "length xs + length vs < MAX_DEPTH"
    and "list_all2 (hash_input sbits bbits) (if rv then rev vs else vs) ds" and "i \<le> 2"
    and "is_ton 4 (version st)" and "gas_wf (gas st)" and "length vs < 2 ^ 32"
    and "int (hash_price (fst (hash_of M i)) (length vs) (length (concat ds))) \<le> gas_remaining (gas st)"
  shows "\<exists>bytes g. set bytes \<subseteq> {..<256} \<and> gas_remaining g = gas_remaining (gas st) -
       int (hash_price (fst (hash_of M i)) (length vs) (length (concat ds))) \<and>
    (if 8 dvd length (concat ds) then byte_bits bytes = concat ds \<and> exec_hash_ext A L M False rv i st =
         (Inr 0, st\<lparr>stack := xs @ [digest_value L (snd (hash_of M i) bytes)], gas := g\<rparr>)
     else exec_hash_ext A L M False rv i st = (Inl (VmErr (CellError ECellUnderflow)), st\<lparr>stack := xs @ vs, gas := g\<rparr>))"
  by (rule bit_readers.hash_ext_ok[OF assms])

theorem hash_ext_concatenates_witness:
  "\<exists>bytes g. byte_bits bytes = [True, False, True, True, False, False, False, True] \<and>
    exec_hash_ext ref_api ref_lib ref_instrs False False 0
       (demo [VSlice (rslice_of (RCell [True, False, True] [])),
         VBuilder (RBuilder [True, False, False, False, True] [] False), VInt (int 2)]) =
     (Inr 0, (demo [VSlice (rslice_of (RCell [True, False, True] [])),
         VBuilder (RBuilder [True, False, False, False, True] [] False), VInt (int 2)])
       \<lparr>stack := [digest_value ref_lib (sha256 ref_instrs bytes)], gas := g\<rparr>) \<and>
    gas_remaining g = gas_remaining (gas (demo [])) - 2"
proof -
  let ?vs = "[VSlice (rslice_of (RCell [True, False, True] [])), VBuilder (RBuilder [True, False, False, False, True] [] False)]"
  let ?st = "demo [VSlice (rslice_of (RCell [True, False, True] [])),
    VBuilder (RBuilder [True, False, False, False, True] [] False), VInt (int 2)]"
  let ?ds = "[[True, False, True], [True, False, False, False, True]]"
  have n: "length ?vs = 2" "concat ?ds = [True, False, True, True, False, False, False, True]"
    "length [True, False, True, True, False, False, False, True] = 8" by simp_all
  have h: "hash_of ref_instrs 0 = (33, sha256 ref_instrs)" "hash_price 33 2 8 = 2"
    by (simp_all add: hash_of_def hash_price_def)
  have "list_all2 (hash_input rs_bits rb_bits) (if False then rev ?vs else ?vs) ?ds"
    by (simp add: hash_input_def rslice_of_def)
  from hash_ext_concatenates[OF rreaders.bit_readers_axioms, of ?st "[]" ?vs False ?ds 0, OF _ _ this, unfolded n h fst_conv snd_conv]
  show ?thesis by (auto simp: MAX_DEPTH_def is_ton_def)
qed

section \<open>Arithmetic\<close>

text \<open>
  C27: division. For every rounding mode the quotient is the real quotient rounded down, to the
  nearest integer with ties upwards, or up, and the remainder is what is left; the routines that
  compute one of them or use shifts for a power of two agree with the combined one.
\<close>

theorem division_rounds:
  assumes "y \<noteq> 0"
  shows "int_divmod x y m = (rounded_quotient m x y, x - rounded_quotient m x y * y) \<and>
    int_div x y m = rounded_quotient m x y \<and> int_mod x y m = x - rounded_quotient m x y * y \<and>
    int_rshift x n m = int_div x (2 ^ n) m \<and> int_mod_pow2 x n m = int_mod x (2 ^ n) m \<and>
    int_rshiftmod x n m = int_divmod x (2 ^ n) m"
  using int_divmod_rounded[OF assms] by (simp add: int_div_mod_eq shift_eqs)

theorem division_rounds_witness:
  "int_divmod (-7) 2 Nearest = (rounded_quotient Nearest (-7) 2, -7 - rounded_quotient Nearest (-7) 2 * 2) \<and>
   int_div (-7) 2 Nearest = rounded_quotient Nearest (-7) 2 \<and>
   int_mod (-7) 2 Nearest = -7 - rounded_quotient Nearest (-7) 2 * 2 \<and>
   int_rshift (-7) 3 Nearest = int_div (-7) (2 ^ 3) Nearest \<and>
   int_mod_pow2 (-7) 3 Nearest = int_mod (-7) (2 ^ 3) Nearest \<and>
   int_rshiftmod (-7) 3 Nearest = int_divmod (-7) (2 ^ 3) Nearest"
  by (rule division_rounds) simp

text \<open>
  The remainder the modes admit determines the division: a quotient and remainder that split
  the dividend with an admissible remainder are the ones computed, and those computed do.
\<close>

theorem division_unique:
  assumes "y \<noteq> 0"
  shows "int_divmod x y m = (q, r) \<longleftrightarrow> x = q * y + r \<and> admissible m y r"
  using rounded.splits[OF assms] rounded.determined[OF assms] by blast

theorem division_unique_witness:
  "int_divmod 7 (-2) Ceiling = (-3, 1) \<longleftrightarrow> (7 :: int) = -3 * -2 + 1 \<and> admissible Ceiling (-2) 1"
  by (rule division_unique) simp

text \<open>
  C28: \<open>DIV\<close>, \<open>MOD\<close>, \<open>DIVMOD\<close> and their \<open>MUL\<close> forms on integers, in every rounding mode: the rounded
  quotient and the remainder of \<open>x\<close> (or \<open>x * y\<close>, computed without loss), each checked against the
  257-bit range; a zero divisor gives \<open>NaN\<close>s in the quiet form and an integer overflow otherwise.
\<close>

theorem div_instructions:
  assumes "bitsize_ok A" and "Suc (length xs) < MAX_DEPTH"
  shows "(stack st = xs @ [VInt x, VInt z] \<longrightarrow>
      exec_divmod A (div_mode op rm) q st =
        (if z = 0 then not_a_number st xs (results op) q else divided st xs op rm x z q)) \<and>
    (stack st = xs @ [VInt x, VInt y, VInt z] \<longrightarrow>
      exec_muldivmod A (div_mode op rm) q st =
        (if z = 0 then not_a_number st xs (results op) q else divided st xs op rm (x * y) z q))"
  using exec_divmod_ints[OF assms(1) _ assms(2)] exec_muldivmod_ints[OF assms(1) _ assms(2)] by blast

theorem div_instructions_witness:
  "exec_divmod ref_api (div_mode OpDivmod Ceiling) False (demo [VInt 7, VInt 2]) =
     divided (demo [VInt 7, VInt 2]) [] OpDivmod Ceiling 7 2 False"
  using div_instructions[OF bitsize_ok_ref, of "[]" "demo [VInt 7, VInt 2]" 7 2 OpDivmod Ceiling False 0]
  by (simp add: MAX_DEPTH_def)

text \<open>
  the shift forms: \<open>LSHIFTDIV\<close> scales the dividend by a power of two before the division,
  \<open>RSHIFT\<close>, \<open>MODPOW2\<close> and \<open>MULRSHIFT\<close> divide by one, with the same rounding and checks.
\<close>

theorem shift_div_instructions:
  assumes "bitsize_ok A" and "Suc (length xs) < MAX_DEPTH" and "n \<le> 256"
  shows "(stack st = xs @ [VInt x, VInt y, VInt (int n)] \<longrightarrow>
      exec_shldivmod A (div_mode op rm) False q st =
        (if y = 0 then not_a_number st xs (results op) q else divided st xs op rm (x * 2 ^ n) y q) \<and>
      exec_mulshrmod A (div_mode op rm) False q st = divided st xs op rm (x * y) (2 ^ n) q) \<and>
    (stack st = xs @ [VInt x, VInt (int n)] \<longrightarrow>
      exec_shrmod A (div_mode op rm) False q st = divided st xs op rm x (2 ^ n) q)"
  using exec_shldivmod_ints[OF assms(1) _ assms(3,2)] exec_mulshrmod_ints[OF assms(1) _ assms(3,2)]
    exec_shrmod_ints[OF assms(1) _ assms(3,2)] by blast

theorem shift_div_instructions_witness:
  "exec_shrmod ref_api (div_mode OpDiv Nearest) False False (demo [VInt 100, VInt (int 3)]) =
     divided (demo [VInt 100, VInt (int 3)]) [] OpDiv Nearest 100 (2 ^ 3) False"
  using shift_div_instructions[OF bitsize_ok_ref, of "[]" 3 "demo [VInt 100, VInt (int 3)]"
      100 0 OpDiv Nearest False]
  by (simp add: MAX_DEPTH_def)

text \<open>
  C29: addition, subtraction, multiplication and negation compute the mathematical result and push
  it when it fits in 257 bits; otherwise the quiet form pushes \<open>NaN\<close> and the other one raises an
  integer overflow. There is no wrap-around.
\<close>

theorem checked_arithmetic:
  assumes "bitsize_ok A" and "length xs < MAX_DEPTH"
  shows "(stack st = xs @ [VInt x, VInt y] \<longrightarrow>
      exec_add A q st = checked st xs (x + y) q \<and> exec_sub A q st = checked st xs (x - y) q \<and>
      exec_subr A q st = checked st xs (y - x) q \<and> exec_mul A q st = checked st xs (x * y) q) \<and>
    (stack st = xs @ [VInt x] \<longrightarrow>
      exec_negate A q st = checked st xs (- x) q \<and> exec_inc A q st = checked st xs (x + 1) q \<and>
      exec_dec A q st = checked st xs (x - 1) q \<and> exec_abs A q st = checked st xs \<bar>x\<bar> q)"
proof -
  have "(if sgn x = -1 then - x else x) = \<bar>x\<bar>" by (simp add: sgn_if abs_if)
  then show ?thesis
    using int_binop_ints[OF assms(1) _ assms(2)] int_unop_int[OF assms(1) _ assms(2)]
    by (simp add: exec_add_def exec_sub_def exec_subr_def exec_mul_def exec_negate_def exec_inc_def
        exec_dec_def exec_abs_def)
qed

theorem checked_arithmetic_witness:
  "exec_add ref_api False (demo [VInt (2 ^ 256 - 1), VInt 1]) =
     checked (demo [VInt (2 ^ 256 - 1), VInt 1]) [] (2 ^ 256 - 1 + 1) False \<and>
   \<not> fits_signed 257 (2 ^ 256 - 1 + 1)"
  using checked_arithmetic[OF bitsize_ok_ref, of "[]" "demo [VInt (2 ^ 256 - 1), VInt 1]" "2 ^ 256 - 1" 1 False]
  by (simp add: MAX_DEPTH_def fits_signed_def)

text \<open>
  \<open>NaN\<close> operands propagate: the quiet form pushes \<open>NaN\<close>, the other one raises an integer
  overflow, whatever the other operand is.
\<close>

theorem nan_propagates:
  assumes "stack st = xs @ [u, v]" and "length xs < MAX_DEPTH"
    and "ty u = TyInt" and "ty v = TyInt" and "u = VNaN \<or> v = VNaN"
  shows "exec_add A q st = not_a_number st xs 1 q \<and> exec_sub A q st = not_a_number st xs 1 q \<and>
    exec_mul A q st = not_a_number st xs 1 q"
  using int_binop_nan[OF assms] by (simp add: exec_add_def exec_sub_def exec_mul_def)

theorem nan_propagates_witness:
  "exec_add ref_api True (demo [VInt 3, VNaN]) = not_a_number (demo [VInt 3, VNaN]) [] 1 True \<and>
   exec_sub ref_api True (demo [VInt 3, VNaN]) = not_a_number (demo [VInt 3, VNaN]) [] 1 True \<and>
   exec_mul ref_api True (demo [VInt 3, VNaN]) = not_a_number (demo [VInt 3, VNaN]) [] 1 True"
  by (rule nan_propagates[of _ "[]" "VInt 3" VNaN]) (simp_all add: MAX_DEPTH_def)

section \<open>Comparison and bits\<close>

text \<open>
  C30: the comparisons decode their mode word to the relation their name says, and push -1 for
  true and 0 for false; \<open>CMP\<close> pushes the sign of the difference. The forms with an 8-bit operand
  do so for integers of any size although they compare a 64-bit truncation.
\<close>

theorem comparisons:
  assumes "length xs < MAX_DEPTH" and "- 128 \<le> y" and "y < 128"
  shows "(stack st = xs @ [VInt x, VInt z] \<longrightarrow>
      exec_cmp mode q st = (Inr 0, st\<lparr>stack := xs @ [VInt (check_cmp (compare_int x z) mode)]\<rparr>)) \<and>
    (stack st = xs @ [VInt x] \<longrightarrow>
      exec_cmp_int y mode q st = (Inr 0, st\<lparr>stack := xs @ [VInt (check_cmp (compare_int x y) mode)]\<rparr>)) \<and>
    check_cmp (compare_int x z) LESS_MODE = - of_bool (x < z) \<and>
    check_cmp (compare_int x z) EQUAL_MODE = - of_bool (x = z) \<and>
    check_cmp (compare_int x z) LEQ_MODE = - of_bool (x \<le> z) \<and>
    check_cmp (compare_int x z) GREATER_MODE = - of_bool (x > z) \<and>
    check_cmp (compare_int x z) NEQ_MODE = - of_bool (x \<noteq> z) \<and>
    check_cmp (compare_int x z) GEQ_MODE = - of_bool (x \<ge> z) \<and>
    check_cmp (compare_int x z) CMP_MODE = sgn (x - z)"
  using exec_cmp_ints[OF _ assms(1)] exec_cmp_int_int[OF _ assms]
  by (intro conjI impI check_cmp_modes) blast+

theorem comparisons_witness:
  "exec_cmp_int 5 LESS_MODE False (demo [VInt (- (2 ^ 200))]) =
     (Inr 0, (demo [VInt (- (2 ^ 200))])\<lparr>stack := [VInt (check_cmp (compare_int (- (2 ^ 200)) 5) LESS_MODE)]\<rparr>)"
  using comparisons[of "[]" 5 "demo [VInt (- (2 ^ 200))]" "- (2 ^ 200)" 0 LESS_MODE False]
  by (simp add: MAX_DEPTH_def)

text \<open>
  C31: \<open>AND\<close>, \<open>OR\<close>, \<open>XOR\<close> of two 257-bit integers in two's complement never overflow; \<open>LSHIFT\<close>
  multiplies by a power of two and is checked, \<open>RSHIFT\<close> rounds towards minus infinity.
\<close>

theorem bit_instructions:
  assumes "bitsize_ok A" and "length xs < MAX_DEPTH" and "stack st = xs @ [VInt x, VInt y]"
  shows "(fits_signed 257 x \<and> fits_signed 257 y \<longrightarrow>
      exec_and A q st = (Inr 0, st\<lparr>stack := xs @ [VInt (x AND y)]\<rparr>) \<and>
      exec_or A q st = (Inr 0, st\<lparr>stack := xs @ [VInt (x OR y)]\<rparr>) \<and>
      exec_xor A q st = (Inr 0, st\<lparr>stack := xs @ [VInt (x XOR y)]\<rparr>)) \<and>
    (0 \<le> y \<and> y \<le> 1023 \<longrightarrow>
      exec_lshift A q st = checked st xs (x * 2 ^ nat y) q \<and>
      exec_rshift A q st = checked st xs (x div 2 ^ nat y) q)"
proof (intro conjI impI)
  assume "fits_signed 257 x \<and> fits_signed 257 y"
  then show "exec_and A q st = (Inr 0, st\<lparr>stack := xs @ [VInt (x AND y)]\<rparr>)"
    "exec_or A q st = (Inr 0, st\<lparr>stack := xs @ [VInt (x OR y)]\<rparr>)"
    "exec_xor A q st = (Inr 0, st\<lparr>stack := xs @ [VInt (x XOR y)]\<rparr>)"
    using exec_bitwise_ints[OF assms(1,3,2)] by blast+
next
  assume "0 \<le> y \<and> y \<le> 1023"
  then have "stack st = xs @ [VInt x, VInt (int (nat y))]" "nat y \<le> 1023" using assms(3) by auto
  from exec_shift_ints[OF assms(1) this(1) assms(2) this(2)]
  show "exec_lshift A q st = checked st xs (x * 2 ^ nat y) q"
    "exec_rshift A q st = checked st xs (x div 2 ^ nat y) q" by blast+
qed

theorem bit_instructions_witness:
  "exec_and ref_api False (demo [VInt (-4), VInt 7]) = (Inr 0, (demo [VInt (-4), VInt 7])\<lparr>stack := [VInt (-4 AND 7)]\<rparr>)"
  using bit_instructions[OF bitsize_ok_ref, of "[]" "demo [VInt (-4), VInt 7]" "-4" 7 False]
  by (simp add: MAX_DEPTH_def fits_signed_def)

section \<open>Stack, tuples, lists\<close>

text \<open>
  the stack rearrangements do what their names say to the top of the stack and leave the rest,
  the gas and every other part of the state alone; \<open>BLKSWAP\<close> exchanges two adjacent blocks, and
  \<open>ROLL\<close> and \<open>ROLLREV\<close> undo each other.
\<close>

theorem rearrangements:
  fixes st :: "('c, 's, 'b) vm_state" and xs us vs :: "('c, 's, 'b) stk"
  shows "(stack st = xs @ [a, b] \<longrightarrow> exec_swap st = (Inr 0, st\<lparr>stack := xs @ [b, a]\<rparr>)) \<and>
    (stack st = xs @ [a, b, c] \<longrightarrow> exec_rot st = (Inr 0, st\<lparr>stack := xs @ [b, c, a]\<rparr>)) \<and>
    (stack st = xs @ [a, b, c] \<longrightarrow> exec_rotrev st = (Inr 0, st\<lparr>stack := xs @ [c, a, b]\<rparr>)) \<and>
    (stack st = xs @ [a, b, c, d] \<longrightarrow> exec_2swap st = (Inr 0, st\<lparr>stack := xs @ [c, d, a, b]\<rparr>)) \<and>
    (us \<noteq> [] \<and> vs \<noteq> [] \<longrightarrow> blkswap (length us) (length vs) (xs @ us @ vs) = (Inr (), xs @ vs @ us)) \<and>
    thn (roll_loop (length vs)) (rollrev_loop (length vs)) (xs @ a # vs) = (Inr (), xs @ a # vs)"
  using rearrange_ops blkswap_blocks[of us vs xs]
  by (auto simp: roll_loop_top rollrev_loop_top)

theorem rearrangements_witness:
  "exec_rot (demo [VInt 1, VInt 2, VInt 3]) =
     (Inr 0, (demo [VInt 1, VInt 2, VInt 3])\<lparr>stack := [VInt 2, VInt 3, VInt 1]\<rparr>)"
  using rearrangements[of "demo [VInt 1, VInt 2, VInt 3]" "[]" "VInt 1" "VInt 2" "VInt 3" "VInt 0" "[]" "[]"]
  by simp

text \<open>
  C32: \<open>TUPLE n\<close> followed by \<open>UNTUPLE n\<close> gives the stack back and has charged one unit for each
  element, twice.
\<close>

theorem tuple_roundtrip:
  assumes "stack st = xs @ ys" and "length xs < MAX_DEPTH" and "length xs + length ys \<le> MAX_DEPTH"
    and "gas_wf (gas st)" and "2 * int (length ys) \<le> gas_remaining (gas st)"
  shows "thn (exec_mktuple (length ys)) (exec_untuple (length ys)) st =
    (Inr 0, st\<lparr>gas := (gas st)\<lparr>gas_remaining := gas_remaining (gas st) - 2 * int (length ys)\<rparr>\<rparr>)"
proof -
  let ?st = "st\<lparr>stack := xs @ [VTuple ys],
     gas := (gas st)\<lparr>gas_remaining := gas_remaining (gas st) - int (length ys)\<rparr>\<rparr>"
  have 1: "exec_mktuple (length ys) st = (Inr 0, ?st)"
    using assms by (intro exec_mktuple_ok) auto
  have "gas_wf (gas ?st)" using assms(4,5) by (auto simp: gas_wf_def machine_bounds)
  then have "exec_untuple (length ys) ?st = (Inr 0, ?st\<lparr>stack := xs @ ys,
     gas := (gas ?st)\<lparr>gas_remaining := gas_remaining (gas ?st) - int (length ys)\<rparr>\<rparr>)"
    using assms by (intro exec_untuple_ok) auto
  with assms(1) show ?thesis by (simp add: 1 algebra_simps)
qed

theorem tuple_roundtrip_witness:
  "thn (exec_mktuple 2) (exec_untuple 2) (demo [VInt 1, VNull, VInt 3]) =
    (Inr 0, (demo [VInt 1, VNull, VInt 3])\<lparr>gas := (gas (demo [VInt 1, VNull, VInt 3]))
       \<lparr>gas_remaining := gas_remaining (gas (demo [VInt 1, VNull, VInt 3])) - 2 * int 2\<rparr>\<rparr>)"
  using tuple_roundtrip[of "demo [VInt 1, VNull, VInt 3]" "[VInt 1]" "[VNull, VInt 3]"]
  by (simp add: MAX_DEPTH_def numeral_2_eq_2)

text \<open>
  \<open>SETINDEX\<close> replaces one element and charges for the whole tuple; \<open>INDEX\<close> reads the element or
  raises a range error. The quiet forms treat a tuple as an unbounded array that is null beyond
  its end: after a quiet store every other position reads as before.
\<close>

theorem tuple_access:
  assumes "length t \<le> 255" and "length xs < MAX_DEPTH" and "gas_wf (gas st)"
    and "int (length t) \<le> gas_remaining (gas st)"
  shows "(stack st = xs @ [VTuple t, v] \<and> i < length t \<longrightarrow>
      exec_tuple_set_index i st = (Inr 0, st\<lparr>stack := xs @ [VTuple (t[i := v])],
        gas := (gas st)\<lparr>gas_remaining := gas_remaining (gas st) - int (length t)\<rparr>\<rparr>)) \<and>
    (stack st = xs @ [VTuple t] \<longrightarrow> exec_tuple_index i st =
      (if i < length t then (Inr 0, st\<lparr>stack := xs @ [t ! i]\<rparr>)
       else (Inl (VmErr (IntegerOutOfRange 0 (int (length t)) (int i))), st\<lparr>stack := xs\<rparr>))) \<and>
    quiet_nth (fst (set_index_quiet tuple i v)) j = (if j = i then v else quiet_nth tuple j)"
  using exec_tuple_set_index_ok[OF _ _ assms] exec_tuple_index_ok[OF _ assms(1,2)]
    set_index_quiet_nth[of tuple i v "fst (set_index_quiet tuple i v)" "snd (set_index_quiet tuple i v)" j]
  by simp

theorem tuple_access_witness:
  "exec_tuple_set_index 1 (demo [VTuple [VInt 1, VInt 2], VInt 9]) =
     (Inr 0, (demo [VTuple [VInt 1, VInt 2], VInt 9])\<lparr>stack := [VTuple [VInt 1, VInt 9]],
        gas := (gas (demo [VTuple [VInt 1, VInt 2], VInt 9]))\<lparr>gas_remaining := 999998\<rparr>\<rparr>)"
  using tuple_access[of "[VInt 1, VInt 2]" "[]" "demo [VTuple [VInt 1, VInt 2], VInt 9]" "VInt 9" 1 None 0]
  by (simp add: MAX_DEPTH_def)

text \<open>
  C33: the values \<open>as_list\<close> accepts are exactly the encodings of non-empty lists as nested pairs that
  end in null, and it returns the head and the rest.
\<close>

theorem as_list_encodes:
  "as_list v = Some (h, t) \<longleftrightarrow> (\<exists>xs. v = encode_list (h # xs) \<and> t = encode_list xs)"
  by (rule as_list_iff)

section \<open>Control\<close>

text \<open>
  a control register that accepts a value reads back as that value, and the others are
  unchanged.
\<close>

theorem register_set_get:
  assumes "regs_set i v r = (Inr (), r')"
  shows "get_as_stack_value j r' = (if j = i then Some v else get_as_stack_value j r)"
  using regs_set_get[OF assms] regs_set_other[OF assms, of j] by auto

theorem register_set_get_witness:
  "get_as_stack_value 0 (put_c 0 (Some (QuitCont 7)) (regs_default :: (rcell, rslice, rbuilder) control_regs)) =
     (if (0 :: nat) = 0 then Some (VCont (QuitCont 7)) else get_as_stack_value 0 regs_default)"
  by (rule register_set_get) (simp add: regs_set_def)

text \<open>
  C34: a call of plain code followed by a return leads back to exactly the state before the call:
  code, stack, registers and gas.
\<close>

theorem call_return:
  assumes "get_c 0 (cr st) = Some c0" and "cp st = 0"
  shows "thn (vm_call A (ord_simple k 0)) vm_ret st = (Inr 0, st)"
proof -
  let ?st = "st\<lparr>code := k, cp := 0, cr := put_c 0 (Some (return_point (code st) None None c0)) (cr st)\<rparr>"
  have "vm_ret ?st = (Inr 0, ?st\<lparr>code := code st, cp := 0, cr := put_c 0 (Some c0) (cr ?st)\<rparr>)"
    by (rule ret_to_caller) simp
  then show ?thesis
    using assms by (simp add: call_ord_simple[OF assms] put_c0_same)
qed

theorem call_return_witness:
  "thn (vm_call ref_api (ord_simple (rslice_of (RCell [True] [])) 0)) vm_ret (demo [VInt 4]) = (Inr 0, demo [VInt 4])"
  by (rule call_return) simp_all

text \<open>
  C35: isolation of a call with arguments. The callee sees exactly its \<open>p\<close> arguments; whatever stack
  \<open>zs @ rs\<close> it ends with, the return with as many results as promised gives the caller its own
  stack back with those results on top, and its code and \<open>c0\<close>.
\<close>

theorem call_isolation:
  assumes "stack st = xs @ ys" and "length ys \<le> 32" and "length xs + length rs \<le> 32"
    and "get_c 0 (cr st) = Some c0" and "cp st = 0"
    and "gas_wf (gas st)" and "0 \<le> gas_remaining (gas st)"
  shows "\<exists>st1. call_ext A (ord_simple k 0) (Some (length ys)) (Some (length rs)) st = (Inr 0, st1) \<and>
    stack st1 = ys \<and> code st1 = k \<and>
    vm_ret (st1\<lparr>stack := zs @ rs\<rparr>) = (Inr 0, st\<lparr>stack := xs @ rs\<rparr>)"
proof (intro exI conjI)
  let ?st = "st\<lparr>code := k, cp := 0, stack := ys,
     cr := put_c 0 (Some (return_point (code st) (Some (length rs)) (Some xs) c0)) (cr st)\<rparr>"
  show "call_ext A (ord_simple k 0) (Some (length ys)) (Some (length rs)) st = (Inr 0, ?st)"
    using assms by (intro call_args) auto
  have "vm_ret (?st\<lparr>stack := zs @ rs\<rparr>) = (Inr 0, (?st\<lparr>stack := zs @ rs\<rparr>)\<lparr>code := code st, cp := 0,
      stack := xs @ rs, cr := put_c 0 (Some c0) (cr (?st\<lparr>stack := zs @ rs\<rparr>))\<rparr>)"
    using assms by (intro ret_args) auto
  then show "vm_ret (?st\<lparr>stack := zs @ rs\<rparr>) = (Inr 0, st\<lparr>stack := xs @ rs\<rparr>)"
    using assms by (simp add: put_c0_same)
qed simp_all

theorem call_isolation_witness:
  "\<exists>st1. call_ext ref_api (ord_simple (rslice_of (RCell [True] [])) 0) (Some 1) (Some 1) (demo [VInt 1, VInt 2]) = (Inr 0, st1) \<and>
    stack st1 = [VInt 2] \<and> code st1 = rslice_of (RCell [True] []) \<and>
    vm_ret (st1\<lparr>stack := [VNull, VInt 5]\<rparr>) = (Inr 0, (demo [VInt 1, VInt 2])\<lparr>stack := [VInt 1, VInt 5]\<rparr>)"
  using call_isolation[of "demo [VInt 1, VInt 2]" "[VInt 1]" "[VInt 2]" "[VInt 5]" "QuitCont 0" ref_api
      "rslice_of (RCell [True] [])" "[VNull]"]
  by simp

text \<open>
  C36: \<open>REPEAT\<close> runs its body exactly \<open>n\<close> times. The handler takes the count and the body off the stack and jumps; if
  the body is code that takes \<open>len\<close> turns to its end and applies \<open>f\<close> to the stack for \<open>cost\<close> units of gas, the
  interpreter comes back to the code behind the instruction after \<open>n\<close> times \<open>len + 1\<close> turns, the return after each round
  included, with \<open>f\<close> applied \<open>n\<close> times, the gas of the rounds and of their returns paid, and all else as it was. The run
  loop is at that state after as many turns.
\<close>

theorem repeat_loop:
  assumes "stack st = xs @ [VInt (int n), VCont (ord_simple k 0)]" and "n < 2 ^ 31" and "cp st = 0"
    and "get_c 0 (cr st) = Some c" and "body_effect A D k I f len cost" and "I xs" and "gas_wf (gas st)"
    and "int (n * (cost + 5)) \<le> gas_remaining (gas st)"
  shows "\<exists>s1. exec_repeat A False st = (Inr 0, s1) \<and>
    turns A D (n * (len + 1)) s1
      (st\<lparr>stack := (f ^^ n) xs, steps := steps st + n * (len + 1), gas := paid (n * (cost + 5)) st\<rparr>) \<and>
    run_inner A D (n * (len + 1) + m) s1 =
      run_inner A D m (st\<lparr>stack := (f ^^ n) xs, steps := steps st + n * (len + 1), gas := paid (n * (cost + 5)) st\<rparr>)"
proof -
  let ?s' = "st\<lparr>stack := (f ^^ n) xs, steps := steps st + n * (len + 1), gas := paid (n * (cost + 5)) st\<rparr>"
  have "\<exists>s1. exec_repeat A False st = (Inr 0, s1) \<and> turns A D (n * (len + 1)) s1 ?s'"
  proof (cases n)
    case 0
    then show ?thesis using repeat_starts[OF assms(1-4)] by (cases st) (simp add: paid_def turns_none)
  next
    case (Suc j)
    let ?after = "return_point (code st) None (Some []) c"
    let ?s1 = "st\<lparr>stack := xs, code := k, cr := put_c 0 (Some (RepeatCont j (ord_simple k 0) ?after)) (cr st)\<rparr>"
    have "exec_repeat A False st = (Inr 0, ?s1)" using repeat_starts[OF assms(1-4)] Suc by simp
    moreover have "turns A D (Suc j * (len + 1)) ?s1 (?s1\<lparr>code := code st, cr := put_c 0 (Some c) (cr ?s1),
        stack := (f ^^ Suc j) (stack ?s1), steps := steps ?s1 + Suc j * (len + 1), gas := paid (Suc j * (cost + 5)) ?s1\<rparr>)"
      using assms Suc by (intro repeat_rounds[OF assms(5) _ _ _ refl]) simp_all
    moreover have "?s1\<lparr>code := code st, cr := put_c 0 (Some c) (cr ?s1), stack := (f ^^ Suc j) (stack ?s1),
        steps := steps ?s1 + Suc j * (len + 1), gas := paid (Suc j * (cost + 5)) ?s1\<rparr> = ?s'"
      using assms(4) Suc by (cases st) (simp add: paid_def put_c0_same)
    ultimately show ?thesis unfolding Suc[symmetric] by metis
  qed
  then show ?thesis using turns_run by blast
qed

text \<open>Three rounds of \<open>SWAP\<close>.\<close>

theorem repeat_loop_witness:
  "\<exists>s1 s2. exec_repeat ref_api False (demo [VNull, VInt 1, VInt 2, VInt (int 3), VCont (ord_simple demo_swap_code 0)]) = (Inr 0, s1) \<and>
    turns ref_api (dispatch ref_api ref_table) 6 s1 s2 \<and> stack s2 = [VNull, VInt 2, VInt 1] \<and>
    code s2 = rslice_of (RCell [] []) \<and> gas_remaining (gas s2) = gas_remaining (gas (demo [])) - 69"
proof -
  let ?st = "demo [VNull, VInt 1, VInt 2, VInt (int 3), VCont (ord_simple demo_swap_code 0)]"
  let ?s2 = "?st\<lparr>stack := [VNull, VInt 2, VInt 1], steps := steps ?st + 6, gas := paid 69 ?st\<rparr>"
  have body: "body_effect ref_api (dispatch ref_api ref_table) demo_swap_code (\<lambda>s. 2 \<le> length s) swap_top_two 1 18"
    by (rule rcells.swap_body[OF ref_table_eq]) (simp_all add: demo_swap_code_def rslice_of_def)
  have "(swap_top_two ^^ 3) [VNull, VInt 1, VInt 2] = [VNull, VInt 2, VInt 1 :: (rcell, rslice, rbuilder) sval]"
    by (simp add: swap_top_two_def eval_nat_numeral)
  then obtain s1 where s1: "exec_repeat ref_api False ?st = (Inr 0, s1)" "turns ref_api (dispatch ref_api ref_table) 6 s1 ?s2"
    using repeat_loop[of ?st "[VNull, VInt 1, VInt 2]" 3 demo_swap_code "QuitCont 0" ref_api _ _ _ _ _ 0, OF _ _ _ _ body] by auto
  then show ?thesis by (intro exI[of _ s1] exI[of _ ?s2]) (simp add: paid_def)
qed

text \<open>
  C37: an exception nobody handles ends the run with the complement of its number as the exit code,
  after the fixed exception fee, with only the argument left on the stack; errors map to pairwise
  different exception numbers, and \<open>OutOfGas\<close> is exactly what \<open>is_out_of_gas\<close> recognises.
\<close>

theorem uncaught_exception:
  fixes st :: "('c, 's, 'b) vm_state"
  assumes "get_c 2 (cr st) = Some ExcQuitCont" and "0 \<le> n" and "n \<le> 0xffff"
    and "gas_wf (gas st)" and "50 \<le> gas_remaining (gas st)"
  shows "throw_exception A n st = (Inr (not_i32 n), st\<lparr>stack := [VInt 0], code := slice_default A,
     gas := (gas st)\<lparr>gas_remaining := gas_remaining (gas st) - 50\<rparr>\<rparr>) \<and>
    (as_exit_code x = as_exit_code y \<longleftrightarrow> x = y) \<and> (is_out_of_gas e \<longleftrightarrow> as_exception e = ExcOutOfGas)"
proof -
  have "as_exit_code x = as_exit_code y \<longleftrightarrow> x = y"
    using exception_code_inj[of x y] by (auto simp: as_exit_code_def not_i32_def)
  then show ?thesis
    using throw_uncaught[of st n A] assms by (simp add: is_out_of_gas_iff_exception EXCEPTION_GAS_PRICE_def)
qed

theorem uncaught_exception_witness:
  "throw_exception ref_api 42 (demo [VNull]) = (Inr (not_i32 42), (demo [VNull])\<lparr>stack := [VInt 0],
     code := slice_default ref_api, gas := (gas (demo [VNull]))\<lparr>gas_remaining := gas_remaining (gas (demo [VNull])) - 50\<rparr>\<rparr>) \<and>
   (as_exit_code ExcOk = as_exit_code ExcFatal \<longleftrightarrow> ExcOk = ExcFatal) \<and>
   (is_out_of_gas OutOfGas \<longleftrightarrow> as_exception OutOfGas = ExcOutOfGas)"
  by (rule uncaught_exception) simp_all

text \<open>
  C38: \<open>IFBITJMPREF\<close> as registered. The table entry declares no operand bits, so whatever the bits after the prefix
  are, the instruction looks at bit 15 of the integer on the top of the stack and leaves the integer there: when the bit is set it
  pays for loading the cell referred to and goes on with that cell, otherwise it goes on behind the reference, with
  the bits after the prefix still in the code.
\<close>

theorem if_bit_jmpref_fixed_operand:
  assumes "bit_cells A L sbits srefs bbits brefs bplain" and "codepage0 A L M = Inr table"
    and "sbits (code st) = to_bits 10 0x38f @ ops" and "srefs (code st) = c # rs"
    and "cell_reference A (slice_cell A (code st)) (slice_offset_refs A (code st)) = Some c"
    and "cell_kind A c = Ordinary" and "stack st = xs @ [VInt x]" and "length xs < MAX_DEPTH" and "cp st = 0"
    and "gas_wf (gas st)" and "120 \<le> gas_remaining (gas st)"
  shows "\<exists>k g. dispatch A table st = (Inr 0, st\<lparr>code := (if bit x 15 then slice_of_cell A c else k), gas := g\<rparr>) \<and>
    sbits k = ops \<and> srefs k = rs \<and> gas_remaining g = gas_remaining (gas st) - 20 -
      (if \<not> bit x 15 then 0 else if cell_repr_hash A c \<in> loaded_cells (gas st) then 25 else 100)"
proof -
  let ?st = "st\<lparr>gas := paid 20 st\<rparr>"
  have d: "dispatch A table st = exec_if_bit_jmpref A 0x38f 10 ?st"
    using bit_cells.dispatch_if_bit_jmpref[OF assms(1-3,10)] assms(11) by simp
  have "gas_wf (paid 20 st)" using charge_affordable(2)[of st 20] assms(10,11) by (simp add: paid_def)
  moreover have "take_bit 5 (0x38f :: nat) = 15" "\<not> bit (0x38f :: nat) 5" by (simp_all add: take_bit_eq_mod bit_iff_odd)
  ultimately show ?thesis
    using bit_cells.if_bit_jmpref_outcome[OF assms(1), of ?st "to_bits 10 0x38f" ops 10 c rs xs x "0x38f"] assms d
    by (cases "bit x 15"; cases "cell_repr_hash A c \<in> loaded_cells (gas st)") (simp_all add: paid_def)
qed

text \<open>The operand \<open>0b100101\<close> asks for bit 5, negated; the top of the stack has bit 5 and bit 15 set: the jump is made.\<close>

theorem if_bit_jmpref_fixed_operand_witness:
  "\<exists>g. dispatch ref_api ref_table ((demo [VInt 0x8020])\<lparr>code := rslice_of (RCell (to_bits 10 0x38f @ to_bits 6 0x25) [RCell [True] []])\<rparr>) =
      (Inr 0, (demo [VInt 0x8020])\<lparr>code := rslice_of (RCell [True] []), gas := g\<rparr>) \<and>
    gas_remaining g = gas_remaining (gas (demo [])) - 120"
proof -
  let ?k = "rslice_of (RCell (to_bits 10 0x38f @ to_bits 6 0x25) [RCell [True] []])"
  let ?st = "(demo [VInt 0x8020])\<lparr>code := ?k\<rparr>"
  have "rs_bits (code ?st) = to_bits 10 0x38f @ to_bits 6 0x25" "rs_refs (code ?st) = RCell [True] [] # []"
    "cell_reference ref_api (slice_cell ref_api (code ?st)) (slice_offset_refs ref_api (code ?st)) = Some (RCell [True] [])"
    "cell_kind ref_api (RCell [True] []) = Ordinary" "stack ?st = [] @ [VInt 0x8020]"
    "slice_of_cell ref_api = rslice_of" "loaded_cells (gas ?st) = {}" "bit (0x8020 :: int) 15"
    by (simp_all add: rslice_of_def ref_api_def bit_iff_odd)
  with if_bit_jmpref_fixed_operand[OF rcells.bit_cells_axioms ref_table_eq, of ?st "to_bits 6 0x25" "RCell [True] []" "[]" "[]" "0x8020"]
  show ?thesis by (auto simp: MAX_DEPTH_def)
qed

section \<open>Cells\<close>

text \<open>
  C39: what an integer store wrote, an integer load reads. For every integer that fits the width,
  signed or unsigned, \<open>NEWC; STI n; ENDC; CTOS; LDI n; ENDS\<close> (\<open>STU\<close> and \<open>LDU\<close>) leaves the machine as it
  was, the integer on the top of the stack again, less the gas for building and loading the cell.
  The store takes the short path for a \<open>u64\<close> and goes through shifted, padded and reversed bytes
  otherwise; the cells are those of any library of bit strings.
\<close>

theorem store_load_int:
  assumes "bit_cells A L sbits srefs bbits brefs bplain"
    and "stack st = xs @ [VInt x]" and "length xs + 3 \<le> MAX_DEPTH" and "gas_wf (gas st)"
    and "600 \<le> gas_remaining (gas st)" and "int_fits sgnd n x" and "n \<le> 256 + of_bool sgnd"
  shows "\<exists>g. thn (exec_new_builder L) (thn (exec_store_int A L n sgnd)
       (thn (thn (exec_builder_to_cell L) (exec_cell_to_slice A))
       (thn (exec_load_int_fixed A n sgnd) (exec_slice_chk_empty A)))) st = (Inr 0, st\<lparr>gas := g\<rparr>) \<and>
    gas_remaining (gas st) - 600 \<le> gas_remaining g \<and> gas_remaining g \<le> gas_remaining (gas st) - 525"
  by (rule bit_cells.int_roundtrip[OF assms])

theorem store_load_int_witness:
  "\<exists>g. thn (exec_new_builder ref_lib) (thn (exec_store_int ref_api ref_lib 100 True)
       (thn (thn (exec_builder_to_cell ref_lib) (exec_cell_to_slice ref_api))
       (thn (exec_load_int_fixed ref_api 100 True) (exec_slice_chk_empty ref_api)))) (demo [VNull, VInt (-12345)]) =
     (Inr 0, (demo [VNull, VInt (-12345)])\<lparr>gas := g\<rparr>) \<and>
    gas_remaining (gas (demo [VNull, VInt (-12345)])) - 600 \<le> gas_remaining g \<and>
    gas_remaining g \<le> gas_remaining (gas (demo [VNull, VInt (-12345)])) - 525"
  by (rule store_load_int[OF rcells.bit_cells_axioms, of _ "[VNull]" "-12345"])
    (simp_all add: MAX_DEPTH_def int_fits_def fits_signed_def)

text \<open>
  C40: the outcome of an integer store, for every combination of its mode bits and its operands in
  the order the mode asks for: no room in the builder, an integer that does not fit, an error of
  the builder, success. A quiet failure pushes the operands back in the opposite order below its code.
\<close>

theorem store_int_outcome:
  assumes "stack st = xs @ (if bit s 1 then [VBuilder b, VInt x] else [VInt x, VBuilder b])"
    and "length xs + 3 \<le> MAX_DEPTH" and "bitsize A x True \<le> 257"
  shows "exec_store_int_fixed A L s n st =
    (if \<not> b_has_capacity L b n 0 then
       if bit s 2 then (Inr 0, st\<lparr>stack := xs @ (if bit s 1 then [VInt x, VBuilder b] else [VBuilder b, VInt x]) @ [VInt (-1)]\<rparr>)
       else (Inl (VmErr (CellError ECellOverflow)), st\<lparr>stack := xs\<rparr>)
     else if n < bitsize A x (\<not> bit s 0) then
       if bit s 2 then (Inr 0, st\<lparr>stack := xs @ (if bit s 1 then [VInt x, VBuilder b] else [VBuilder b, VInt x]) @ [VInt 1]\<rparr>)
       else (Inl (VmErr (IntegerOutOfRange 0 (int n) (int (bitsize A x (\<not> bit s 0))))), st\<lparr>stack := xs\<rparr>)
     else case store_int_value L b x n (\<not> bit s 0) of
       Inl e \<Rightarrow> (Inl (VmErr (CellError e)), st\<lparr>stack := xs\<rparr>)
     | Inr b' \<Rightarrow> (Inr 0, st\<lparr>stack := xs @ VBuilder b' # (if bit s 2 then [VInt 0] else [])\<rparr>))"
proof -
  have "stack st = xs @ store_operands s x b" using assms(1) by (simp add: store_operands_def)
  then show ?thesis
    using store_int_common_eq[OF assms(2,3), of L n s b]
    by (simp add: exec_store_int_fixed_def st_op_eq store_operands_def cell_fault_def split: sum.splits)
qed

theorem store_int_outcome_witness:
  "exec_store_int_fixed ref_api ref_lib 4 2 (demo [VNull, VInt 9, VBuilder (b_new ref_lib)]) =
     (Inr 0, (demo [VNull, VInt 9, VBuilder (b_new ref_lib)])\<lparr>stack := [VNull, VBuilder (b_new ref_lib), VInt 9, VInt 1]\<rparr>)"
proof -
  have "bit_length 9 = 4" "bit_length (nat 9) = 4" by (simp_all add: bit_length.simps)
  then show ?thesis
    using store_int_outcome[of "demo [VNull, VInt 9, VBuilder (b_new ref_lib)]" "[VNull]" 4 "b_new ref_lib" 9 ref_api ref_lib 2]
    by (simp add: MAX_DEPTH_def ref_api_def ref_lib_def ref_bitsize_def ref_room_def MAX_BITS_def MAX_REFS_def
        bit_iff_odd)
qed

text \<open>
  a slice constant. \<open>PUSHSLICE\<close> with its three widths cuts its data and references out of the
  code behind the opcode, drops the completion tag (the last one and the zeros after it) and
  pushes the rest; the code continues behind the data. Data that was completed as the assembler does comes
  back unchanged.
\<close>

theorem pushslice_tagged:
  assumes "bit_cells A L sbits srefs bbits brefs bplain"
    and "sbits (code st) = ops @ (bs @ True # replicate j False) @ rest" and "srefs (code st) = rs @ rs'"
    and "cell_kind A (slice_cell A (code st)) = Ordinary" and "length (stack st) < MAX_DEPTH"
  shows "\<exists>k c. exec_push_slice_common A L (length ops) (length bs + 1 + j) (length rs) st =
      (Inr 0, st\<lparr>code := c, stack := stack st @ [VSlice k]\<rparr>) \<and>
    sbits k = bs \<and> srefs k = rs \<and> sbits c = rest \<and> srefs c = rs'"
proof -
  obtain k c where k: "take_tagged_slice A L (length ops) (length bs + 1 + j) (length rs) st = (Inr k, st\<lparr>code := c\<rparr>)"
    "sbits k = bs" "srefs k = rs" "sbits c = rest" "srefs c = rs'"
    using bit_cells.take_tagged_slice_ok[OF assms(1-4)] by (auto simp: strip_tag_tagged)
  then have "exec_push_slice_common A L (length ops) (length bs + 1 + j) (length rs) st =
      (Inr 0, st\<lparr>code := c, stack := stack st @ [VSlice k]\<rparr>)"
    using assms(5) by (simp add: exec_push_slice_common_def depth_def)
  with k show ?thesis by blast
qed

theorem pushslice_tagged_witness:
  "\<exists>k c. exec_push_slice_common ref_api ref_lib 2 4 0 ((demo [])\<lparr>code := rslice_of (RCell [True, True, False, True, True, False, True] [])\<rparr>) =
      (Inr 0, (demo [])\<lparr>code := c, stack := [VSlice k]\<rparr>) \<and>
    rs_bits k = [False, True] \<and> rs_refs k = [] \<and> rs_bits c = [True] \<and> rs_refs c = []"
proof -
  have "(0 :: nat) < MAX_DEPTH" by (simp add: MAX_DEPTH_def)
  then show ?thesis
    using pushslice_tagged[OF rcells.bit_cells_axioms,
        of "(demo [])\<lparr>code := rslice_of (RCell [True, True, False, True, True, False, True] [])\<rparr>"
          "[True, True]" "[False, True]" 1 "[True]" "[]" "[]"]
    by (simp add: rslice_of_def eval_nat_numeral ref_api_def)
qed

text \<open>
  cutting slices. \<open>SCUTFIRST\<close>, \<open>SSKIPFIRST\<close>, \<open>SCUTLAST\<close> and \<open>SSKIPLAST\<close> keep the first, all but the
  first, the last or all but the last bits and references; a slice that is too short is a cell
  underflow and is consumed.
\<close>

theorem slice_full_range:
  assumes "bit_cells A L sbits srefs bbits brefs bplain"
    and "stack st = xs @ [VSlice k, VInt (int n), VInt (int m)]" and "length xs < MAX_DEPTH"
    and "n \<le> 1023" and "m \<le> 4"
  shows "if n \<le> length (sbits k) \<and> m \<le> length (srefs k)
    then \<exists>k'. exec_slice_full_range_op A L op st = (Inr 0, st\<lparr>stack := xs @ [VSlice k']\<rparr>) \<and>
      sbits k' = cut_list op n (sbits k) \<and> srefs k' = cut_list op m (srefs k)
    else exec_slice_full_range_op A L op st =
      (Inl (VmErr (CellError ECellUnderflow)), st\<lparr>stack := xs\<rparr>)"
  by (rule bit_cells.range_op_ok[OF assms])

theorem slice_full_range_witness:
  "\<exists>k'. exec_slice_full_range_op ref_api ref_lib CutLast
       (demo [VSlice (rslice_of (RCell [True, False, True] [RCell [] []])), VInt (int 2), VInt (int 1)]) =
     (Inr 0, (demo [VSlice (rslice_of (RCell [True, False, True] [RCell [] []])), VInt (int 2), VInt (int 1)])\<lparr>stack := [VSlice k']\<rparr>)
   \<and> rs_bits k' = [False, True] \<and> rs_refs k' = [RCell [] []]"
  using slice_full_range[OF rcells.bit_cells_axioms,
      of "demo [VSlice (rslice_of (RCell [True, False, True] [RCell [] []])), VInt (int 2), VInt (int 1)]" "[]"
        "rslice_of (RCell [True, False, True] [RCell [] []])" 2 1 CutLast]
  by (simp add: rslice_of_def MAX_DEPTH_def)

text \<open>
  \<open>SPLIT\<close> and \<open>SPLITQ\<close> cut a slice into two that concatenate to it, the first of the size asked for.
  When the slice is too short, \<open>SPLIT\<close> raises and \<open>SPLITQ\<close> puts the slice back under a zero.
\<close>

theorem split_slices:
  assumes "bit_cells A L sbits srefs bbits brefs bplain"
    and "stack st = xs @ [VSlice k, VInt (int n), VInt (int m)]" and "length xs + 3 \<le> MAX_DEPTH"
    and "n \<le> 1023" and "m \<le> 4"
  shows "if n \<le> length (sbits k) \<and> m \<le> length (srefs k)
    then \<exists>k1 k2. exec_split A L q st =
        (Inr 0, st\<lparr>stack := xs @ [VSlice k1, VSlice k2] @ (if q then [VInt (-1)] else [])\<rparr>) \<and>
      length (sbits k1) = n \<and> length (srefs k1) = m \<and>
      sbits k1 @ sbits k2 = sbits k \<and> srefs k1 @ srefs k2 = srefs k
    else exec_split A L q st =
      (if q then (Inr 0, st\<lparr>stack := xs @ [VSlice k, VInt 0]\<rparr>)
       else (Inl (VmErr (CellError ECellUnderflow)), st\<lparr>stack := xs\<rparr>))"
  by (rule bit_cells.split_ok[OF assms])

theorem split_slices_witness:
  "exec_split ref_api ref_lib True (demo [VSlice (rslice_of (RCell [True] [])), VInt (int 2), VInt (int 0)]) =
     (Inr 0, (demo [VSlice (rslice_of (RCell [True] [])), VInt (int 2), VInt (int 0)])\<lparr>stack := [VSlice (rslice_of (RCell [True] [])), VInt 0]\<rparr>)"
  using split_slices[OF rcells.bit_cells_axioms,
      of "demo [VSlice (rslice_of (RCell [True] [])), VInt (int 2), VInt (int 0)]" "[]"
        "rslice_of (RCell [True] [])" 2 0 True]
  by (simp add: rslice_of_def MAX_DEPTH_def)

end
